(* ===== verification/Prelude.thy ===== *)
theory Prelude
  imports Complex_Main "HOL-Library.AList" "HOL-Library.List_Lexorder" "HOL-Library.Char_ord"
begin

text \<open>
  Shared ground of the development: the parts of Python's built-in types the modelled code
  uses (ordered de-duplication, text helpers on UTF-8 encoded strings, decimal rendering of
  integers), the result type of operations that may raise, and the collections of rewrite
  rules the component theories add to.

  A Python \<open>str\<close> is the list of bytes of its UTF-8 encoding.  A raised exception is the
  \<open>Inl\<close> of a sum, a returned value its \<open>Inr\<close>.
\<close>

named_theorems model_defs "definitions of constant tables, unfolded when a concrete case is evaluated"
named_theorems frame_simps "fields an operation leaves alone"

subsection \<open>Results\<close>

definition bind_res :: "'e + 'a \<Rightarrow> ('a \<Rightarrow> 'e + 'b) \<Rightarrow> 'e + 'b" where
  "bind_res r f = (case r of Inl e \<Rightarrow> Inl e | Inr x \<Rightarrow> f x)"

lemma bind_res_simps [simp]:
  "bind_res (Inl e) f = Inl e" "bind_res (Inr x) f = f x"
  by (simp_all add: bind_res_def)

lemma bind_res_eq_Inr_iff [simp]:
  "bind_res r f = Inr y \<longleftrightarrow> (\<exists>x. r = Inr x \<and> f x = Inr y)"
  by (cases r) auto

lemma bind_res_eq_Inl_iff:
  "bind_res r f = Inl e \<longleftrightarrow> r = Inl e \<or> (\<exists>x. r = Inr x \<and> f x = Inl e)"
  by (cases r) auto

text \<open>A guard that raises, as in \<open>if bad: raise e\<close>.\<close>

definition raise_if :: "bool \<Rightarrow> 'e \<Rightarrow> 'e + unit" where
  "raise_if b e = (if b then Inl e else Inr ())"

lemma raise_if_eq_Inr [simp]: "raise_if b e = Inr u \<longleftrightarrow> \<not> b"
  by (simp add: raise_if_def)

lemma raise_if_simps [simp]: "raise_if True e = Inl e" "raise_if False e = Inr ()"
  by (simp_all add: raise_if_def)

text \<open>Sequencing of operations that pass a state on and may raise.\<close>

definition and_then ::
  "('e + 'a) \<times> 's \<Rightarrow> ('a \<Rightarrow> 's \<Rightarrow> ('e + 'b) \<times> 's) \<Rightarrow> ('e + 'b) \<times> 's" where
  "and_then m f = (case fst m of Inl e \<Rightarrow> (Inl e, snd m) | Inr x \<Rightarrow> f x (snd m))"

lemma and_then_Inr [simp]: "and_then (Inr x, s) f = f x s"
  and and_then_Inl [simp]: "and_then (Inl e, s) f = (Inl e, s)"
  by (simp_all add: and_then_def)

lemma and_then_eq_Inr:
  "and_then m f = (Inr y, t) \<longleftrightarrow> (\<exists>x s. m = (Inr x, s) \<and> f x s = (Inr y, t))"
  by (cases m; cases "fst m") (auto simp: and_then_def)

text \<open>The value is an exception or the state satisfies \<open>P\<close>, in every outcome of \<open>m\<close>.\<close>

lemma snd_and_then:
  assumes "P (snd m)" "\<And>x s. m = (Inr x, s) \<Longrightarrow> P (snd (f x s))"
  shows "P (snd (and_then m f))"
  using assms by (cases m; cases "fst m") (auto simp: and_then_def)

lemma and_then_eq_Inl:
  "and_then m f = (Inl e, t) \<longleftrightarrow>
     m = (Inl e, t) \<or> (\<exists>x s. m = (Inr x, s) \<and> f x s = (Inl e, t))"
  by (cases m; cases "fst m") (auto simp: and_then_def)

definition require_row :: "'e \<Rightarrow> 'r option \<Rightarrow> 's \<Rightarrow> ('e + 'r) \<times> 's" where
  "require_row e r s = (case r of None \<Rightarrow> (Inl e, s) | Some x \<Rightarrow> (Inr x, s))"

lemma require_row_simps [simp]:
  "require_row e None s = (Inl e, s)" "require_row e (Some x) s = (Inr x, s)"
  by (simp_all add: require_row_def)

definition raise_when :: "bool \<Rightarrow> 'e \<Rightarrow> 's \<Rightarrow> ('e + unit) \<times> 's" where
  "raise_when b e s = (if b then (Inl e, s) else (Inr (), s))"

lemma raise_when_simps [simp]:
  "raise_when True e s = (Inl e, s)" "raise_when False e s = (Inr (), s)"
  by (simp_all add: raise_when_def)

lemma require_row_eq_Inr: "require_row e r s = (Inr x, t) \<longleftrightarrow> r = Some x \<and> t = s"
  by (auto simp: require_row_def split: option.splits)

lemma require_row_eq_Inl: "require_row e r s = (Inl f, t) \<longleftrightarrow> r = None \<and> f = e \<and> t = s"
  by (auto simp: require_row_def split: option.splits)

lemma raise_when_eq_Inr: "raise_when b e s = (Inr u, t) \<longleftrightarrow> \<not> b \<and> t = s"
  by (auto simp: raise_when_def)

lemma raise_when_eq_Inl: "raise_when b e s = (Inl f, t) \<longleftrightarrow> b \<and> f = e \<and> t = s"
  by (auto simp: raise_when_def)

lemmas succeeds = and_then_eq_Inr require_row_eq_Inr raise_when_eq_Inr
lemmas fails = and_then_eq_Inl require_row_eq_Inl raise_when_eq_Inl

subsection \<open>Ordered de-duplication\<close>

text \<open>\<open>dict.fromkeys(xs)\<close> keeps the first occurrence of each element, in order.\<close>

definition dict_fromkeys :: "'a list \<Rightarrow> 'a list" where
  "dict_fromkeys xs = rev (remdups (rev xs))"

lemma set_dict_fromkeys [simp]: "set (dict_fromkeys xs) = set xs"
  by (simp add: dict_fromkeys_def)

lemma distinct_dict_fromkeys [simp]: "distinct (dict_fromkeys xs)"
  by (simp add: dict_fromkeys_def)

lemma dict_fromkeys_Nil [simp]: "dict_fromkeys [] = []"
  by (simp add: dict_fromkeys_def)

lemma dict_fromkeys_eq_Nil [simp]: "dict_fromkeys xs = [] \<longleftrightarrow> xs = []"
  by (simp add: dict_fromkeys_def)

lemma dict_fromkeys_distinct: "distinct xs \<Longrightarrow> dict_fromkeys xs = xs"
  by (simp add: dict_fromkeys_def distinct_remdups_id)

lemma dict_fromkeys_idem [simp]: "dict_fromkeys (dict_fromkeys xs) = dict_fromkeys xs"
  by (rule dict_fromkeys_distinct) simp

subsection \<open>Text\<close>

text \<open>\<open>strip_any ps s\<close> removes the first listed non-empty prefix that \<open>s\<close> starts with.\<close>

fun strip_any :: "string list \<Rightarrow> string \<Rightarrow> string option" where
  "strip_any [] s = None"
| "strip_any (p # ps) s =
     (if p \<noteq> [] \<and> take (length p) s = p then Some (drop (length p) s) else strip_any ps s)"

lemma strip_any_shorter: "strip_any ps s = Some r \<Longrightarrow> length r < length s"
proof (induction ps)
  case Nil
  then show ?case by simp
next
  case (Cons p ps)
  show ?case
  proof (cases "p \<noteq> [] \<and> take (length p) s = p")
    case True
    with Cons.prems have "r = drop (length p) s" by simp
    moreover from True have "s \<noteq> []" by auto
    moreover from True have "0 < length p" by simp
    ultimately show ?thesis by simp
  next
    case False
    with Cons show ?thesis by simp
  qed
qed

text \<open>The UTF-8 encodings of the code points \<open>str.split()\<close> and \<open>str.strip()\<close> treat as space.\<close>

definition py_whitespace :: "string list" where
  "py_whitespace =
    [[CHR 0x09], [CHR 0x0A], [CHR 0x0B], [CHR 0x0C], [CHR 0x0D],
     [CHR 0x1C], [CHR 0x1D], [CHR 0x1E], [CHR 0x1F], [CHR 0x20],
     [CHR 0xC2, CHR 0x85], [CHR 0xC2, CHR 0xA0], [CHR 0xE1, CHR 0x9A, CHR 0x80],
     [CHR 0xE2, CHR 0x80, CHR 0x80], [CHR 0xE2, CHR 0x80, CHR 0x81],
     [CHR 0xE2, CHR 0x80, CHR 0x82], [CHR 0xE2, CHR 0x80, CHR 0x83],
     [CHR 0xE2, CHR 0x80, CHR 0x84], [CHR 0xE2, CHR 0x80, CHR 0x85],
     [CHR 0xE2, CHR 0x80, CHR 0x86], [CHR 0xE2, CHR 0x80, CHR 0x87],
     [CHR 0xE2, CHR 0x80, CHR 0x88], [CHR 0xE2, CHR 0x80, CHR 0x89],
     [CHR 0xE2, CHR 0x80, CHR 0x8A], [CHR 0xE2, CHR 0x80, CHR 0xA8],
     [CHR 0xE2, CHR 0x80, CHR 0xA9], [CHR 0xE2, CHR 0x80, CHR 0xAF],
     [CHR 0xE2, CHR 0x81, CHR 0x9F], [CHR 0xE3, CHR 0x80, CHR 0x80]]"

function split_words :: "string \<Rightarrow> string \<Rightarrow> string list" where
  "split_words cur [] = (if cur = [] then [] else [rev cur])"
| "split_words cur (c # cs) =
     (case strip_any py_whitespace (c # cs) of
        Some rest \<Rightarrow> (if cur = [] then split_words [] rest else rev cur # split_words [] rest)
      | None \<Rightarrow> split_words (c # cur) cs)"
  by pat_completeness auto
termination
  by (relation "measure (\<lambda>(cur, s). length s)") (auto dest: strip_any_shorter)

definition py_split :: "string \<Rightarrow> string list" where
  "py_split s = split_words [] s"

fun join_with :: "string \<Rightarrow> string list \<Rightarrow> string" where
  "join_with sep [] = []"
| "join_with sep [x] = x"
| "join_with sep (x # y # zs) = x @ sep @ join_with sep (y # zs)"

function lstrip_with :: "string list \<Rightarrow> string \<Rightarrow> string" where
  "lstrip_with ps s = (case strip_any ps s of None \<Rightarrow> s | Some r \<Rightarrow> lstrip_with ps r)"
  by pat_completeness auto
termination
  by (relation "measure (\<lambda>(ps, s). length s)") (auto dest: strip_any_shorter)

declare lstrip_with.simps [simp del]

definition py_strip :: "string \<Rightarrow> string" where
  "py_strip s =
     rev (lstrip_with (map rev py_whitespace) (rev (lstrip_with py_whitespace s)))"

text \<open>The recurring idiom \<open>" ".join(value.split()).strip()\<close>.\<close>

definition squeeze_text :: "string \<Rightarrow> string" where
  "squeeze_text s = py_strip (join_with '' '' (py_split s))"

definition ascii_lower_char :: "char \<Rightarrow> char" where
  "ascii_lower_char c =
     (let n = of_char c :: nat in if 65 \<le> n \<and> n \<le> 90 then char_of (n + 32) else c)"

definition is_ascii_char :: "char \<Rightarrow> bool" where
  "is_ascii_char c \<longleftrightarrow> (of_char c :: nat) < 128"

text \<open>
  \<open>str.casefold()\<close>: ASCII letters are lowered, and every code point outside ASCII whose case
  folding holds an ASCII character is replaced by it (long s, Kelvin sign, sharp s, the Latin
  ligatures, the dotted capital I, letters that decompose).  Other code points outside ASCII are
  left as they are; the modelled code only looks for ASCII characters in the result.
\<close>

definition casefold_table :: "(string \<times> string) list" where
  "casefold_table =
    [([CHR 0xC5, CHR 0xBF], ''s''), ([CHR 0xE2, CHR 0x84, CHR 0xAA], ''k''),
     ([CHR 0xC3, CHR 0x9F], ''ss''), ([CHR 0xE1, CHR 0xBA, CHR 0x9E], ''ss''),
     ([CHR 0xEF, CHR 0xAC, CHR 0x80], ''ff''), ([CHR 0xEF, CHR 0xAC, CHR 0x81], ''fi''),
     ([CHR 0xEF, CHR 0xAC, CHR 0x82], ''fl''), ([CHR 0xEF, CHR 0xAC, CHR 0x83], ''ffi''),
     ([CHR 0xEF, CHR 0xAC, CHR 0x84], ''ffl''), ([CHR 0xEF, CHR 0xAC, CHR 0x85], ''st''),
     ([CHR 0xEF, CHR 0xAC, CHR 0x86], ''st''),
     ([CHR 0xC4, CHR 0xB0], [CHR ''i'', CHR 0xCC, CHR 0x87]),
     ([CHR 0xC5, CHR 0x89], [CHR 0xCA, CHR 0xBC, CHR ''n'']),
     ([CHR 0xC7, CHR 0xB0], [CHR ''j'', CHR 0xCC, CHR 0x8C]),
     ([CHR 0xE1, CHR 0xBA, CHR 0x96], [CHR ''h'', CHR 0xCC, CHR 0xB1]),
     ([CHR 0xE1, CHR 0xBA, CHR 0x97], [CHR ''t'', CHR 0xCC, CHR 0x88]),
     ([CHR 0xE1, CHR 0xBA, CHR 0x98], [CHR ''w'', CHR 0xCC, CHR 0x8A]),
     ([CHR 0xE1, CHR 0xBA, CHR 0x99], [CHR ''y'', CHR 0xCC, CHR 0x8A]),
     ([CHR 0xE1, CHR 0xBA, CHR 0x9A], [CHR ''a'', CHR 0xCA, CHR 0xBE])]"

fun fold_entry :: "(string \<times> string) list \<Rightarrow> string \<Rightarrow> (string \<times> string) option" where
  "fold_entry [] s = None"
| "fold_entry ((p, q) # ps) s =
     (if p \<noteq> [] \<and> take (length p) s = p then Some (q, drop (length p) s) else fold_entry ps s)"

lemma fold_entry_shorter: "fold_entry ps s = Some (q, r) \<Longrightarrow> length r < length s"
proof (induction ps s rule: fold_entry.induct)
  case (2 p q' ps s)
  show ?case
  proof (cases "p \<noteq> [] \<and> take (length p) s = p")
    case True
    with "2.prems" have "r = drop (length p) s" by simp
    moreover from True have "s \<noteq> []" and "0 < length p" by auto
    ultimately show ?thesis by simp
  next
    case False
    with 2 show ?thesis by simp
  qed
qed simp

function py_casefold :: "string \<Rightarrow> string" where
  "py_casefold [] = []"
| "py_casefold (c # cs) =
     (case fold_entry casefold_table (c # cs) of
        Some (q, rest) \<Rightarrow> q @ py_casefold rest
      | None \<Rightarrow> ascii_lower_char c # py_casefold cs)"
  by pat_completeness auto
termination
  by (relation "measure length") (auto dest: fold_entry_shorter)

text \<open>\<open>s.replace(old, new)\<close> for a non-empty \<open>old\<close>: left to right, non-overlapping.\<close>

function py_replace :: "string \<Rightarrow> string \<Rightarrow> string \<Rightarrow> string" where
  "py_replace old new [] = []"
| "py_replace old new (c # cs) =
     (if old \<noteq> [] \<and> take (length old) (c # cs) = old
      then new @ py_replace old new (drop (length old) (c # cs))
      else c # py_replace old new cs)"
  by pat_completeness auto
termination
proof (relation "measure (\<lambda>(old, new, s). length s)")
  fix old new :: string and c :: char and cs :: string
  assume "old \<noteq> [] \<and> take (length old) (c # cs) = old"
  then have "0 < length old" by simp
  then have "length (drop (length old) (c # cs)) < length (c # cs)"
    by (simp del: drop_Cons')
  then show "((old, new, drop (length old) (c # cs)), (old, new, c # cs))
        \<in> measure (\<lambda>(old, new, s). length s)"
    by simp
qed auto

definition py_startswith :: "string \<Rightarrow> string \<Rightarrow> bool" where
  "py_startswith s p \<longleftrightarrow> take (length p) s = p"

definition py_removeprefix :: "string \<Rightarrow> string \<Rightarrow> string" where
  "py_removeprefix s p = (if py_startswith s p then drop (length p) s else s)"

text \<open>\<open>s.split(sep)\<close> for a one-character separator: always at least one part.\<close>

fun split_on :: "char \<Rightarrow> string \<Rightarrow> string list" where
  "split_on sep [] = [[]]"
| "split_on sep (c # cs) =
     (if c = sep then [] # split_on sep cs
      else (case split_on sep cs of [] \<Rightarrow> [[c]] | w # ws \<Rightarrow> (c # w) # ws))"

subsection \<open>Decimal text of integers\<close>

fun nat_str :: "nat \<Rightarrow> string" where
  "nat_str n =
     (if n < 10 then [char_of (48 + n)] else nat_str (n div 10) @ [char_of (48 + n mod 10)])"

declare nat_str.simps [simp del]

definition int_str :: "int \<Rightarrow> string" where
  "int_str i = (if i < 0 then CHR ''-'' # nat_str (nat (- i)) else nat_str (nat i))"

end
