(* ===== verification/Lifecycle.thy ===== *)
theory Lifecycle
  imports Json
begin

text \<open>
  \<open>vnext_lifecycle.py\<close>: the table of legal memory status transitions, and the guard that
  keeps the \<open>superseded_by\<close> pointers of the memory rows acyclic.
\<close>

subsection \<open>Statuses and operations\<close>

definition RETIRED_STATUSES :: "string list" where
  [model_defs]: "RETIRED_STATUSES = [''superseded'', ''rejected'', ''archived'']"

definition LIVE_STATUSES :: "string list" where
  [model_defs]: "LIVE_STATUSES =
    [''candidate'', ''active'', ''accepted'', ''needs_review'', ''private_only'', ''stale'']"

definition ALL_STATUSES :: "string list" where
  "ALL_STATUSES = RETIRED_STATUSES @ LIVE_STATUSES"

definition SUPERSESSION_SUCCESSOR_STATUSES :: "string list" where
  [model_defs]: "SUPERSESSION_SUCCESSOR_STATUSES = [''active'', ''accepted'', ''private_only'']"

definition lifecycle_verbs :: "string list" where
  [model_defs]: "lifecycle_verbs =
    [''confirm.accept'', ''confirm.reject'', ''confirm.expire'', ''review.approve'',
     ''review.reject'', ''review.supersede'', ''correct'', ''undo'', ''forget'',
     ''supersede_member'', ''expire'', ''unexpire'']"

record lifecycle_operation =
  op_name :: string
  op_transitions :: "(string \<times> string) list"
  op_reject_message :: string

definition to_target :: "string \<Rightarrow> string list \<Rightarrow> (string \<times> string) list" where
  "to_target target sources = map (\<lambda>s. (s, target)) sources"

definition identity_transitions :: "string list \<Rightarrow> (string \<times> string) list" where
  "identity_transitions sources = map (\<lambda>s. (s, s)) sources"

definition lifecycle_op :: "string \<Rightarrow> (string \<times> string) list \<Rightarrow> string \<Rightarrow> lifecycle_operation" where
  "lifecycle_op name moves message =
     \<lparr>op_name = name, op_transitions = moves, op_reject_message = message\<rparr>"

definition review_reject_message :: string where
  "review_reject_message = ''memory cannot be reviewed from status '{status}'' @ [CHR 0x27]"

definition lifecycle_operations :: "(string \<times> lifecycle_operation) list" where
  "lifecycle_operations =
    map (\<lambda>op. (op_name op, op))
     [lifecycle_op ''confirm.accept'' [(''needs_review'', ''active'')]
        ''cannot confirm a memory in status '{status}'; its pending confirmation is no longer valid'',
      lifecycle_op ''confirm.reject'' [(''needs_review'', ''rejected'')]
        ''cannot reject a confirmation for a memory in status '{status}'; it is no longer pending'',
      lifecycle_op ''confirm.expire'' [(''needs_review'', ''rejected'')]
        ''cannot expire a confirmation for a memory in status '{status}'; it is no longer pending'',
      lifecycle_op ''review.approve'' (to_target ''active'' LIVE_STATUSES)
        review_reject_message,
      lifecycle_op ''review.reject'' (to_target ''rejected'' LIVE_STATUSES)
        review_reject_message,
      lifecycle_op ''review.supersede'' (to_target ''superseded'' LIVE_STATUSES)
        review_reject_message,
      lifecycle_op ''correct'' (to_target ''active'' LIVE_STATUSES)
        ''cannot correct a retired {status} memory; create a replacement instead'',
      lifecycle_op ''undo'' (to_target ''superseded'' LIVE_STATUSES)
        ''cannot undo a {status} memory; it is already retired'',
      lifecycle_op ''forget'' (to_target ''superseded'' LIVE_STATUSES)
        ''cannot forget a {status} memory; it is already retired'',
      lifecycle_op ''supersede_member'' (to_target ''superseded'' LIVE_STATUSES)
        ''cannot supersede a {status} memory; it is already retired'',
      lifecycle_op ''expire'' (identity_transitions LIVE_STATUSES)
        ''cannot expire a {status} memory'',
      lifecycle_op ''unexpire''
        (AList.update ''stale'' ''active'' (identity_transitions LIVE_STATUSES))
        ''cannot unexpire a {status} memory'']"

datatype lifecycle_error = LifecycleTransitionError string

definition resolve_transition :: "string \<Rightarrow> string \<Rightarrow> lifecycle_error + string" where
  "resolve_transition operation current_status =
     (case map_of lifecycle_operations operation of
        None \<Rightarrow>
          Inl (LifecycleTransitionError (''unknown lifecycle operation '' @ CHR 0x27 # operation @ [CHR 0x27]))
      | Some op \<Rightarrow>
          (case map_of (op_transitions op) current_status of
             None \<Rightarrow>
               Inl (LifecycleTransitionError
                 (py_replace ''{status}''
                    (if current_status = [] then ''unknown'' else current_status)
                    (op_reject_message op)))
           | Some target \<Rightarrow> Inr target))"

lemma map_of_to_target [simp]:
  "map_of (to_target target sources) s = (if s \<in> set sources then Some target else None)"
  by (induction sources) (auto simp: to_target_def)

lemma map_of_identity_transitions [simp]:
  "map_of (identity_transitions sources) s = (if s \<in> set sources then Some s else None)"
  by (induction sources) (auto simp: identity_transitions_def)

text \<open>The table, read row by row.\<close>

lemma lifecycle_lookup:
  "map_of lifecycle_operations ''confirm.accept'' = Some (lifecycle_op ''confirm.accept''
     [(''needs_review'', ''active'')]
     ''cannot confirm a memory in status '{status}'; its pending confirmation is no longer valid'')"
  "map_of lifecycle_operations ''confirm.reject'' = Some (lifecycle_op ''confirm.reject''
     [(''needs_review'', ''rejected'')]
     ''cannot reject a confirmation for a memory in status '{status}'; it is no longer pending'')"
  "map_of lifecycle_operations ''confirm.expire'' = Some (lifecycle_op ''confirm.expire''
     [(''needs_review'', ''rejected'')]
     ''cannot expire a confirmation for a memory in status '{status}'; it is no longer pending'')"
  "map_of lifecycle_operations ''review.approve'' = Some (lifecycle_op ''review.approve''
     (to_target ''active'' LIVE_STATUSES) review_reject_message)"
  "map_of lifecycle_operations ''review.reject'' = Some (lifecycle_op ''review.reject''
     (to_target ''rejected'' LIVE_STATUSES) review_reject_message)"
  "map_of lifecycle_operations ''review.supersede'' = Some (lifecycle_op ''review.supersede''
     (to_target ''superseded'' LIVE_STATUSES) review_reject_message)"
  "map_of lifecycle_operations ''correct'' = Some (lifecycle_op ''correct''
     (to_target ''active'' LIVE_STATUSES)
     ''cannot correct a retired {status} memory; create a replacement instead'')"
  "map_of lifecycle_operations ''undo'' = Some (lifecycle_op ''undo''
     (to_target ''superseded'' LIVE_STATUSES)
     ''cannot undo a {status} memory; it is already retired'')"
  "map_of lifecycle_operations ''forget'' = Some (lifecycle_op ''forget''
     (to_target ''superseded'' LIVE_STATUSES)
     ''cannot forget a {status} memory; it is already retired'')"
  "map_of lifecycle_operations ''supersede_member'' = Some (lifecycle_op ''supersede_member''
     (to_target ''superseded'' LIVE_STATUSES)
     ''cannot supersede a {status} memory; it is already retired'')"
  "map_of lifecycle_operations ''expire'' = Some (lifecycle_op ''expire''
     (identity_transitions LIVE_STATUSES) ''cannot expire a {status} memory'')"
  "map_of lifecycle_operations ''unexpire'' = Some (lifecycle_op ''unexpire''
     (AList.update ''stale'' ''active'' (identity_transitions LIVE_STATUSES))
     ''cannot unexpire a {status} memory'')"
  by (simp_all add: lifecycle_operations_def lifecycle_op_def)

lemma op_transitions_lifecycle_op [simp]:
  "op_transitions (lifecycle_op name moves message) = moves"
  by (simp add: lifecycle_op_def)

lemma resolve_transition_Inr:
  "resolve_transition op s = Inr t \<longleftrightarrow>
     (\<exists>row. map_of lifecycle_operations op = Some row \<and> map_of (op_transitions row) s = Some t)"
  by (simp add: resolve_transition_def split: option.splits)

lemma resolve_confirm:
  "resolve_transition ''confirm.accept'' s = Inr t \<longleftrightarrow> s = ''needs_review'' \<and> t = ''active''"
  "resolve_transition ''confirm.reject'' s = Inr t \<longleftrightarrow> s = ''needs_review'' \<and> t = ''rejected''"
  "resolve_transition ''confirm.expire'' s = Inr t \<longleftrightarrow> s = ''needs_review'' \<and> t = ''rejected''"
  by (auto simp only: resolve_transition_Inr lifecycle_lookup op_transitions_lifecycle_op
        map_of.simps fun_upd_apply option.inject fst_conv snd_conv split: if_splits)

lemma resolve_to_target:
  assumes "map_of lifecycle_operations op = Some (lifecycle_op op (to_target target LIVE_STATUSES) m)"
  shows "resolve_transition op s = Inr t \<longleftrightarrow> s \<in> set LIVE_STATUSES \<and> t = target"
  using assms by (auto simp add: resolve_transition_Inr)

lemmas resolve_review =
  lifecycle_lookup(4-6) [THEN resolve_to_target]

lemmas resolve_mutation =
  lifecycle_lookup(7-10) [THEN resolve_to_target]

lemma resolve_expire:
  "resolve_transition ''expire'' s = Inr t \<longleftrightarrow> s \<in> set LIVE_STATUSES \<and> t = s"
  by (auto simp: resolve_transition_Inr lifecycle_lookup)

lemma stale_is_live: "''stale'' \<in> set LIVE_STATUSES"
  by (simp add: LIVE_STATUSES_def)

lemma resolve_unexpire:
  "resolve_transition ''unexpire'' s = Inr t \<longleftrightarrow>
     s \<in> set LIVE_STATUSES \<and> t = (if s = ''stale'' then ''active'' else s)"
  by (cases "s = ''stale''") (auto simp: resolve_transition_Inr lifecycle_lookup update_conv' stale_is_live)

lemmas resolve_validity = resolve_expire resolve_unexpire

lemmas resolve_simps = resolve_confirm resolve_review resolve_mutation resolve_validity

lemma resolve_known_verb:
  assumes "resolve_transition op s = Inr t"
  shows "op \<in> set lifecycle_verbs"
proof -
  from assms have "op \<in> fst ` set lifecycle_operations"
    by (auto simp: resolve_transition_def split: option.splits dest: map_of_SomeD intro: rev_image_eqI)
  also have "fst ` set lifecycle_operations = set lifecycle_verbs"
    by (simp add: lifecycle_operations_def lifecycle_op_def lifecycle_verbs_def)
  finally show ?thesis .
qed


lemma RETIRED_not_LIVE: "s \<in> set RETIRED_STATUSES \<Longrightarrow> s \<notin> set LIVE_STATUSES"
  by (auto simp: RETIRED_STATUSES_def LIVE_STATUSES_def)

lemma lifecycle_verbs_cases:
  assumes "op \<in> set lifecycle_verbs"
  shows "op \<in> {''confirm.accept'', ''confirm.reject'', ''confirm.expire'', ''review.approve'',
     ''review.reject'', ''review.supersede'', ''correct'', ''undo'', ''forget'',
     ''supersede_member'', ''expire'', ''unexpire''}"
  using assms by (simp add: lifecycle_verbs_def)

lemma needs_review_is_live: "''needs_review'' \<in> set LIVE_STATUSES"
  by (simp add: LIVE_STATUSES_def)

lemma target_in_ALL:
  "''active'' \<in> set ALL_STATUSES" "''rejected'' \<in> set ALL_STATUSES"
  "''superseded'' \<in> set ALL_STATUSES" "s \<in> set LIVE_STATUSES \<Longrightarrow> s \<in> set ALL_STATUSES"
  by (auto simp: ALL_STATUSES_def RETIRED_STATUSES_def LIVE_STATUSES_def)

lemma resolve_source_live:
  assumes "resolve_transition op s = Inr t"
  shows "s \<in> set LIVE_STATUSES"
  using assms lifecycle_verbs_cases [OF resolve_known_verb [OF assms]]
  by (elim insertE emptyE) (simp_all only: resolve_simps needs_review_is_live)

lemma resolve_target_known:
  assumes "resolve_transition op s = Inr t"
  shows "t \<in> set ALL_STATUSES"
  using assms lifecycle_verbs_cases [OF resolve_known_verb [OF assms]]
  by (elim insertE emptyE) (auto simp only: resolve_simps target_in_ALL split: if_splits)

subsection \<open>Histories of a row\<close>

text \<open>
  A row's status under a sequence of lifecycle operations: a rejected operation raises and
  leaves the row as it was.
\<close>

definition apply_operation :: "string \<Rightarrow> string \<Rightarrow> string" where
  "apply_operation s op = (case resolve_transition op s of Inl _ \<Rightarrow> s | Inr t \<Rightarrow> t)"

definition run_operations :: "string \<Rightarrow> string list \<Rightarrow> string" where
  "run_operations s ops = foldl apply_operation s ops"

inductive status_step :: "string \<Rightarrow> string \<Rightarrow> bool" where
  by_operation: "resolve_transition op s = Inr t \<Longrightarrow> status_step s t"

inductive_cases status_stepE: "status_step s t"

lemma retired_stuck: "s \<in> set RETIRED_STATUSES \<Longrightarrow> apply_operation s op = s"
  using resolve_source_live RETIRED_not_LIVE
  by (force simp: apply_operation_def split: sum.split)

lemma run_operations_steps: "status_step\<^sup>*\<^sup>* s (run_operations s ops)"
proof (induction ops rule: rev_induct)
  case Nil
  show ?case by (simp add: run_operations_def)
next
  case (snoc op ops)
  let ?u = "run_operations s ops"
  have "status_step\<^sup>=\<^sup>= ?u (apply_operation ?u op)"
    by (auto simp: apply_operation_def intro: status_step.intros split: sum.split)
  moreover have "run_operations s (ops @ [op]) = apply_operation ?u op"
    by (simp add: run_operations_def)
  ultimately show ?case using snoc.IH by (auto intro: rtranclp.rtrancl_into_rtrancl)
qed

subsection \<open>The supersession graph\<close>

text \<open>
  \<open>supersession_would_cycle\<close>: the walk along the \<open>superseded_by\<close> pointers, with the store's
  \<open>load_memory\<close> and the caller's \<open>read_pointer\<close> as arguments, as in the code.
\<close>

function swc_walk ::
  "(string \<Rightarrow> dict option) \<Rightarrow> (dict \<Rightarrow> string \<Rightarrow> string option) \<Rightarrow> nat \<Rightarrow> string \<Rightarrow>
   dict \<Rightarrow> string list \<Rightarrow> nat \<Rightarrow> lifecycle_error + bool" where
  "swc_walk load_memory read_pointer max_depth target current seen depth =
     (if depth \<ge> max_depth then
        Inl (LifecycleTransitionError
          (''supersession chain exceeds '' @ nat_str max_depth @ '' hops; cannot verify ''
           @ ''acyclicity, rejecting the supersession to fail closed''))
      else if dget current ''id'' = JNull then
        Inl (LifecycleTransitionError
          (''supersession chain contains a row without an id; cannot verify ''
           @ ''acyclicity, rejecting the supersession to fail closed''))
      else let current_id = py_str (dget current ''id'') in
        if current_id = target then Inr True
        else if current_id \<in> set seen then
          Inl (LifecycleTransitionError
            (''supersession chain already contains a cycle at memory '' @ current_id
             @ ''; rejecting the supersession to fail closed''))
        else (case read_pointer current ''superseded_by'' of
                None \<Rightarrow> Inr False
              | Some next_id \<Rightarrow>
                  if next_id = [] then Inr False
                  else (case load_memory next_id of
                          None \<Rightarrow>
                            Inl (LifecycleTransitionError
                              (''supersession chain points to missing memory '' @ next_id
                               @ ''; cannot verify ''
                               @ ''acyclicity, rejecting the supersession to fail closed''))
                        | Some row \<Rightarrow>
                            swc_walk load_memory read_pointer max_depth target row
                              (current_id # seen) (Suc depth))))"
  by pat_completeness auto
termination
  by (relation "measure (\<lambda>(load, ptr, m, target, cur, seen, depth). m - depth)") auto

declare swc_walk.simps [simp del]

definition supersession_would_cycle ::
  "string \<Rightarrow> dict \<Rightarrow> (string \<Rightarrow> dict option) \<Rightarrow> (dict \<Rightarrow> string \<Rightarrow> string option) \<Rightarrow> nat \<Rightarrow>
   lifecycle_error + bool" where
  "supersession_would_cycle memory_id successor load_memory read_pointer max_depth =
     swc_walk load_memory read_pointer max_depth memory_id successor [] 0"

text \<open>The bound of the callers (the keyword default).\<close>

definition swc_max_depth :: nat where
  [model_defs]: "swc_max_depth = 64"

text \<open>The graph the walk explores: an edge per row whose pointer is set.\<close>

definition points_to ::
  "(string \<Rightarrow> dict option) \<Rightarrow> (dict \<Rightarrow> string \<Rightarrow> string option) \<Rightarrow> string \<Rightarrow> string \<Rightarrow> bool" where
  "points_to load ptr a b \<longleftrightarrow>
     (\<exists>r. load a = Some r \<and> ptr r ''superseded_by'' = Some b \<and> b \<noteq> [])"

text \<open>A store returns, under an id, the row that carries this id.\<close>

definition keyed_store :: "(string \<Rightarrow> dict option) \<Rightarrow> bool" where
  "keyed_store load \<longleftrightarrow> (\<forall>i r. load i = Some r \<longrightarrow> dget r ''id'' \<noteq> JNull \<and> row_id r = i)"

lemma points_to_unique: "points_to load ptr a b \<Longrightarrow> points_to load ptr a c \<Longrightarrow> b = c"
  by (auto simp: points_to_def)

lemma points_to_row:
  "load (row_id r) = Some r \<Longrightarrow>
   points_to load ptr (row_id r) b \<longleftrightarrow> ptr r ''superseded_by'' = Some b \<and> b \<noteq> []"
  by (auto simp: points_to_def)

lemma swc_walk_step:
  assumes "swc_walk load ptr m target cur seen depth = Inr False"
  shows "row_id cur \<noteq> target \<and>
     (ptr cur ''superseded_by'' = None \<or> ptr cur ''superseded_by'' = Some [] \<or>
      (\<exists>nxt row. ptr cur ''superseded_by'' = Some nxt \<and> load nxt = Some row \<and>
         swc_walk load ptr m target row (row_id cur # seen) (Suc depth) = Inr False))"
  using assms
  by (subst (asm) swc_walk.simps)
     (auto simp: row_id_def Let_def split: if_splits option.splits)

lemma no_edge_unreachable:
  assumes "\<And>b. \<not> R a b" and "a \<noteq> t"
  shows "\<not> R\<^sup>*\<^sup>* a t"
  using assms by (meson converse_rtranclpE)

lemma unique_edge_unreachable:
  assumes "\<And>b. R a b \<Longrightarrow> b = c" and "a \<noteq> t" and "\<not> R\<^sup>*\<^sup>* c t"
  shows "\<not> R\<^sup>*\<^sup>* a t"
  using assms by (metis converse_rtranclpE)

lemma swc_walk_False_unreachable:
  assumes keyed: "keyed_store load"
  shows "load (row_id cur) = Some cur \<Longrightarrow>
    swc_walk load ptr m target cur seen depth = Inr False \<Longrightarrow>
    \<not> (points_to load ptr)\<^sup>*\<^sup>* (row_id cur) target"
proof (induction "m - depth" arbitrary: cur seen depth rule: less_induct)
  case less
  note walk = swc_walk_step [OF less.prems(2)]
  then have neq: "row_id cur \<noteq> target" by blast
  from walk consider (stop) "\<And>b. \<not> points_to load ptr (row_id cur) b"
    | (hop) nxt row where "ptr cur ''superseded_by'' = Some nxt" "load nxt = Some row"
        "swc_walk load ptr m target row (row_id cur # seen) (Suc depth) = Inr False"
    using points_to_row [of load cur ptr, OF less.prems(1)] by auto
  then show ?case
  proof cases
    case stop
    then show ?thesis using neq by (intro no_edge_unreachable)
  next
    case hop
    from less.prems(2) have "depth < m"
      by (subst (asm) swc_walk.simps) (simp split: if_splits)
    moreover from hop(2) keyed have "row_id row = nxt" by (simp add: keyed_store_def)
    ultimately have unreach: "\<not> (points_to load ptr)\<^sup>*\<^sup>* nxt target"
      using less.hyps [of "Suc depth" row "row_id cur # seen"] hop by simp
    have only: "b = nxt" if "points_to load ptr (row_id cur) b" for b
      using that points_to_row [of load cur ptr, OF less.prems(1)] hop(1) by simp
    show ?thesis by (rule unique_edge_unreachable [OF only neq unreach])
  qed
qed

text \<open>The chain from a row ends within the given number of hops, every row present.\<close>

fun chain_within ::
  "(string \<Rightarrow> dict option) \<Rightarrow> (dict \<Rightarrow> string \<Rightarrow> string option) \<Rightarrow> nat \<Rightarrow> string \<Rightarrow> bool" where
  "chain_within load ptr 0 i = False"
| "chain_within load ptr (Suc n) i =
     (case load i of
        None \<Rightarrow> False
      | Some r \<Rightarrow>
          (case ptr r ''superseded_by'' of
             None \<Rightarrow> True
           | Some j \<Rightarrow> j = [] \<or> chain_within load ptr n j))"

lemma chain_within_step:
  "chain_within load ptr (Suc n) i \<Longrightarrow> points_to load ptr i j \<Longrightarrow> chain_within load ptr n j"
  by (auto simp: points_to_def)

lemma chain_within_no_cycle:
  "chain_within load ptr n i \<Longrightarrow> \<not> (points_to load ptr)\<^sup>+\<^sup>+ i i"
proof (induction n arbitrary: i)
  case 0
  then show ?case by simp
next
  case (Suc n)
  show ?case
  proof
    assume "(points_to load ptr)\<^sup>+\<^sup>+ i i"
    then obtain j where ij: "points_to load ptr i j" and ji: "(points_to load ptr)\<^sup>*\<^sup>* j i"
      by (meson tranclpD)
    from ji ij have "(points_to load ptr)\<^sup>+\<^sup>+ j j"
      by (rule rtranclp_into_tranclp1)
    with Suc.IH [OF chain_within_step [OF Suc.prems ij]] show False by contradiction
  qed
qed

lemma swc_walk_exact:
  assumes keyed: "keyed_store load"
  shows "load (row_id cur) = Some cur \<Longrightarrow> depth \<le> m \<Longrightarrow>
    chain_within load ptr (m - depth) (row_id cur) \<Longrightarrow>
    (\<And>s. s \<in> set seen \<Longrightarrow> (points_to load ptr)\<^sup>+\<^sup>+ s (row_id cur)) \<Longrightarrow>
    swc_walk load ptr m target cur seen depth =
      Inr ((points_to load ptr)\<^sup>*\<^sup>* (row_id cur) target)"
proof (induction "m - depth" arbitrary: cur seen depth rule: less_induct)
  case less
  let ?R = "points_to load ptr"
  let ?i = "row_id cur"
  from less.prems(3) have lt: "depth < m" by (cases "m - depth") auto
  then have hops: "m - depth = Suc (m - Suc depth)" by simp
  from keyed less.prems(1) have id: "dget cur ''id'' \<noteq> JNull" by (auto simp: keyed_store_def)
  have fresh: "?i \<notin> set seen"
    using chain_within_no_cycle [OF less.prems(3)] less.prems(4) by auto
  have unfold: "swc_walk load ptr m target cur seen depth =
      (if ?i = target then Inr True else
       case ptr cur ''superseded_by'' of None \<Rightarrow> Inr False
       | Some n \<Rightarrow> if n = [] then Inr False else
           (case load n of None \<Rightarrow> Inl (LifecycleTransitionError
                              (''supersession chain points to missing memory '' @ n
                               @ ''; cannot verify ''
                               @ ''acyclicity, rejecting the supersession to fail closed''))
            | Some row \<Rightarrow> swc_walk load ptr m target row (?i # seen) (Suc depth)))"
    using lt id fresh by (subst swc_walk.simps) (simp add: row_id_def [symmetric] Let_def)
  show ?case
  proof (cases "?i = target")
    case True
    then show ?thesis using unfold by simp
  next
    case neq: False
    show ?thesis
    proof (cases "\<exists>n. ?R ?i n")
      case False
      then have "\<not> ?R\<^sup>*\<^sup>* ?i target" using neq by (intro no_edge_unreachable) auto
      moreover have "ptr cur ''superseded_by'' = None \<or> ptr cur ''superseded_by'' = Some []"
        using False points_to_row [of load cur ptr, OF less.prems(1)] by (cases "ptr cur ''superseded_by''") auto
      ultimately show ?thesis using unfold neq by auto
    next
      case True
      then obtain n where edge: "?R ?i n" by blast
      then have ptr: "ptr cur ''superseded_by'' = Some n" "n \<noteq> []"
        using points_to_row [of load cur ptr, OF less.prems(1)] by auto
      have chain: "chain_within load ptr (m - Suc depth) n"
        using less.prems(3) edge unfolding hops by (rule chain_within_step)
      then obtain row where row: "load n = Some row"
        by (cases "m - Suc depth") (auto split: option.splits)
      then have rid: "row_id row = n" using keyed by (simp add: keyed_store_def)
      have behind: "?R\<^sup>+\<^sup>+ s (row_id row)" if "s \<in> set (?i # seen)" for s
        using that edge rid less.prems(4) by (auto intro: tranclp.trancl_into_trancl)
      have "swc_walk load ptr m target row (?i # seen) (Suc depth) =
          Inr (?R\<^sup>*\<^sup>* (row_id row) target)"
        by (rule less.hyps) (use lt row rid chain behind in auto)
      then have "swc_walk load ptr m target row (?i # seen) (Suc depth) = Inr (?R\<^sup>*\<^sup>* n target)"
        using rid by simp
      moreover have "?R\<^sup>*\<^sup>* ?i target = ?R\<^sup>*\<^sup>* n target"
        using edge neq by (metis converse_rtranclpE converse_rtranclp_into_rtranclp points_to_unique)
      ultimately show ?thesis using unfold neq ptr row by simp
    qed
  qed
qed


subsection \<open>Recording an edge\<close>

lemma acyclicP_add_edge:
  assumes acyclic: "acyclicP R" and unreach: "\<not> R\<^sup>*\<^sup>* b a"
    and sub: "\<And>x y. R' x y \<Longrightarrow> R x y \<or> x = a \<and> y = b"
  shows "acyclicP R'"
proof -
  let ?r = "{(x, y). R x y}"
  have "(b, a) \<notin> ?r\<^sup>*"
    using unreach by (simp add: rtranclp_rtrancl_eq)
  then have "acyclic (insert (a, b) ?r)"
    using acyclic by (simp add: acyclic_insert)
  then show ?thesis
    by (rule acyclic_subset) (use sub in auto)
qed

text \<open>
  The rows a service keeps, as the lifecycle guard sees them: \<open>get_memory\<close> of a state, the
  supersession pointer of a row, and the write that retires a row under a new pointer.  The
  provider promises that rows are found under their own id and that the write touches the
  pointer of the retired row only.
\<close>

locale supersession_rows =
  fixes rows_ok :: "'s \<Rightarrow> bool"
    and get_memory :: "'s \<Rightarrow> string \<Rightarrow> dict option"
    and read_pointer :: "dict \<Rightarrow> string \<Rightarrow> string option"
    and retire :: "'x \<Rightarrow> string \<Rightarrow> string \<Rightarrow> 's \<Rightarrow> 's"
  assumes keyed: "rows_ok s \<Longrightarrow> keyed_store (get_memory s)"
    and retire_ok: "rows_ok s \<Longrightarrow> rows_ok (retire q a b s)"
    and retire_edges:
      "rows_ok s \<Longrightarrow> a \<noteq> b \<Longrightarrow> points_to (get_memory (retire q a b s)) read_pointer x y \<Longrightarrow>
         points_to (get_memory s) read_pointer x y \<or> x = a \<and> y = b"
begin

definition acyclic_rows :: "'s \<Rightarrow> bool" where
  "acyclic_rows s \<longleftrightarrow> acyclicP (points_to (get_memory s) read_pointer)"

lemma guarded_retire_acyclic:
  assumes ok: "rows_ok s" and acyc: "acyclic_rows s" and row: "get_memory s b = Some successor"
    and walk: "supersession_would_cycle a successor (get_memory s) read_pointer m = Inr False"
  shows "rows_ok (retire q a b s) \<and> acyclic_rows (retire q a b s)"
proof
  from keyed [OF ok] row have b: "row_id successor = b" by (simp add: keyed_store_def)
  have unreach: "\<not> (points_to (get_memory s) read_pointer)\<^sup>*\<^sup>* b a"
    using swc_walk_False_unreachable [OF keyed [OF ok], of successor read_pointer m a "[]" 0] row walk b
    by (simp add: supersession_would_cycle_def)
  then have neq: "a \<noteq> b" by auto
  show "acyclic_rows (retire q a b s)"
    using acyc unreach unfolding acyclic_rows_def
    by (rule acyclicP_add_edge) (rule retire_edges [OF ok neq])
qed (rule retire_ok [OF ok])

text \<open>A write that adds no edge keeps the graph acyclic.\<close>

lemma fewer_edges_acyclic:
  assumes "acyclic_rows s"
    and "\<And>x y. points_to (get_memory t) read_pointer x y \<Longrightarrow> points_to (get_memory s) read_pointer x y"
  shows "acyclic_rows t"
  using assms unfolding acyclic_rows_def by (auto elim: acyclic_subset)

end

subsection \<open>Properties\<close>

text \<open>
  Retirement is terminal.  Whatever sequence of lifecycle operations is attempted on a
  superseded, rejected or archived row, its status never changes.
\<close>

theorem retired_is_terminal:
  "s \<in> set RETIRED_STATUSES \<Longrightarrow> run_operations s ops = s"
  by (induction ops rule: rev_induct) (auto simp: run_operations_def retired_stuck)

theorem retired_is_terminal_witness:
  "run_operations ''superseded'' [''review.approve'', ''unexpire'', ''correct''] = ''superseded''"
  by (rule retired_is_terminal) (simp add: RETIRED_STATUSES_def)

text \<open>
  The status vocabulary is closed, and only live rows move: every status reachable from
  a known status by lifecycle steps is known, and a step starts from a live status only.
\<close>

theorem status_vocabulary_closed:
  assumes "s \<in> set ALL_STATUSES" and "status_step\<^sup>*\<^sup>* s t"
  shows "t \<in> set ALL_STATUSES \<and> (\<forall>u. status_step t u \<longrightarrow> t \<in> set LIVE_STATUSES)"
proof
  from assms(2,1) show "t \<in> set ALL_STATUSES"
    by (induction rule: rtranclp_induct) (auto elim: status_stepE intro: resolve_target_known)
  show "\<forall>u. status_step t u \<longrightarrow> t \<in> set LIVE_STATUSES"
    by (auto elim: status_stepE intro: resolve_source_live)
qed

theorem status_vocabulary_closed_witness: "''superseded'' \<in> set ALL_STATUSES"
proof -
  have "''candidate'' \<in> set ALL_STATUSES" by (simp add: ALL_STATUSES_def LIVE_STATUSES_def)
  moreover have "resolve_transition ''undo'' ''candidate'' = Inr ''superseded''"
    by (simp add: resolve_mutation LIVE_STATUSES_def)
  then have "status_step\<^sup>*\<^sup>* ''candidate'' ''superseded''"
    by (intro r_into_rtranclp status_step.intros)
  ultimately show ?thesis using status_vocabulary_closed by blast
qed

text \<open>
  C23: the cycle guard is exact where the supersession chain ends within the hop bound: it
  answers, without an error, whether the row to be retired is already reachable from the
  proposed successor.
\<close>

theorem supersession_guard_exact:
  assumes "keyed_store load" and "load (row_id successor) = Some successor"
    and "chain_within load ptr max_depth (row_id successor)"
  shows "supersession_would_cycle memory_id successor load ptr max_depth =
    Inr ((points_to load ptr)\<^sup>*\<^sup>* (row_id successor) memory_id)"
  using swc_walk_exact [OF assms(1,2), of 0 max_depth ptr "[]" memory_id] assms(3)
  by (simp add: supersession_would_cycle_def)

text \<open>A three-row store for the witnesses: \<open>a\<close> was superseded by \<open>b\<close>, \<open>c\<close> stands alone.\<close>

definition demo_rows :: "string \<Rightarrow> dict option" where
  "demo_rows = map_of
    [(''a'', [(''id'', JStr ''a''), (''superseded_by'', JStr ''b'')]),
     (''b'', [(''id'', JStr ''b'')]), (''c'', [(''id'', JStr ''c'')])]"

definition demo_pointer :: "dict \<Rightarrow> string \<Rightarrow> string option" where
  "demo_pointer r k = as_str (dget r k)"

lemma demo_keyed: "keyed_store demo_rows"
  by (auto simp: keyed_store_def demo_rows_def row_id_def split: if_splits)

lemma demo_edges: "points_to demo_rows demo_pointer x y \<longleftrightarrow> x = ''a'' \<and> y = ''b''"
  by (auto simp: points_to_def demo_rows_def demo_pointer_def split: if_splits)

lemma demo_acyclic: "acyclicP (points_to demo_rows demo_pointer)"
proof (rule acyclicP_add_edge [where a = "''a''" and b = "''b''"])
  show "acyclicP (\<lambda>x y. False)" by (simp add: acyclic_def)
  show "\<not> (\<lambda>x y. False)\<^sup>*\<^sup>* ''b'' ''a''" by (rule no_edge_unreachable) auto
qed (simp add: demo_edges)

theorem supersession_guard_exact_witness:
  "supersession_would_cycle ''b'' [(''id'', JStr ''a''), (''superseded_by'', JStr ''b'')]
      demo_rows demo_pointer 2 =
    Inr ((points_to demo_rows demo_pointer)\<^sup>*\<^sup>* ''a'' ''b'')"
proof -
  let ?row = "[(''id'', JStr ''a''), (''superseded_by'', JStr ''b'')]"
  have "demo_rows (row_id ?row) = Some ?row" by (simp add: demo_rows_def row_id_def)
  moreover have "chain_within demo_rows demo_pointer 2 (row_id ?row)"
    by (simp add: numeral_2_eq_2 demo_rows_def demo_pointer_def row_id_def)
  ultimately show ?thesis
    using supersession_guard_exact [OF demo_keyed, of ?row demo_pointer 2 "''b''"]
    by (simp add: row_id_def)
qed

text \<open>
  Superseding under the guard keeps the pointer graph acyclic.  If the walk answers that
  no cycle would arise, then after the retired row's pointer is set to the successor (all
  other rows as before) no chain of \<open>superseded_by\<close> pointers returns to its start.
\<close>

theorem supersession_keeps_acyclic:
  assumes "keyed_store load" and "load (row_id successor) = Some successor"
    and "acyclicP (points_to load ptr)"
    and "supersession_would_cycle memory_id successor load ptr max_depth = Inr False"
    and "ptr retired ''superseded_by'' = Some (row_id successor)"
  shows "acyclicP (points_to (load(memory_id \<mapsto> retired)) ptr)"
proof (rule acyclicP_add_edge [OF assms(3)])
  show "\<not> (points_to load ptr)\<^sup>*\<^sup>* (row_id successor) memory_id"
    using swc_walk_False_unreachable [OF assms(1,2)] assms(4)
    by (simp add: supersession_would_cycle_def)
qed (use assms(5) in \<open>auto simp: points_to_def split: if_splits\<close>)

theorem supersession_keeps_acyclic_witness:
  "acyclicP (points_to (demo_rows(''b'' \<mapsto> [(''id'', JStr ''b''), (''superseded_by'', JStr ''c'')]))
     demo_pointer)"
proof (rule supersession_keeps_acyclic [OF demo_keyed _ demo_acyclic, where max_depth = 2])
  let ?row = "[(''id'', JStr ''c'')]"
  show "demo_rows (row_id ?row) = Some ?row" by (simp add: demo_rows_def row_id_def)
  show "supersession_would_cycle ''b'' ?row demo_rows demo_pointer 2 = Inr False"
    by (simp add: supersession_would_cycle_def swc_walk.simps demo_pointer_def)
  show "demo_pointer [(''id'', JStr ''b''), (''superseded_by'', JStr ''c'')] ''superseded_by'' =
      Some (row_id ?row)"
    by (simp add: demo_pointer_def row_id_def)
qed

end
