(* ===== verification/Project_Scope.thy ===== *)
theory Project_Scope
  imports Json
begin

text \<open>
  \<open>vnext_project_scope.py\<close>: how project identifiers are normalised and compared, and how the
  project scope of a stored resource is resolved from its canonical and legacy fields.
\<close>

subsection \<open>Identifiers\<close>

definition ascii_project_whitespace :: "char list" where
  [model_defs]: "ascii_project_whitespace =
    [CHR 0x20, CHR 0x09, CHR 0x0A, CHR 0x0D, CHR 0x0C, CHR 0x0B]"

text \<open>
  Numbers spell a project only where finite and integral; \<open>format(integral, "f")\<close> of an
  integral decimal is its integer digits.
\<close>

definition integral_text :: "rat \<Rightarrow> string option" where
  "integral_text r =
     (if r \<noteq> of_int (floor r) then None
      else if r = 0 then Some ''0''
      else Some (int_str (floor r)))"

fun project_scalar_text :: "json \<Rightarrow> string option" where
  "project_scalar_text (JStr s) = Some s"
| "project_scalar_text (JBool b) = Some (if b then ''True'' else ''False'')"
| "project_scalar_text (JInt i) = Some (int_str i)"
| "project_scalar_text (JFloat s v) = (case v of None \<Rightarrow> None | Some r \<Rightarrow> integral_text r)"
| "project_scalar_text _ = None"

text \<open>The loop over the characters: \<open>normalized\<close> so far (in reverse), \<open>pending_space\<close>.\<close>

fun collapse_loop :: "string \<Rightarrow> bool \<Rightarrow> string \<Rightarrow> string" where
  "collapse_loop acc pending [] = rev acc"
| "collapse_loop acc pending (c # cs) =
     (if c \<in> set ascii_project_whitespace then collapse_loop acc (acc \<noteq> []) cs
      else collapse_loop (c # (if pending then CHR '' '' # acc else acc)) False cs)"

definition normalize_project_identifier :: "json \<Rightarrow> string" where
  "normalize_project_identifier value =
     (case project_scalar_text value of None \<Rightarrow> [] | Some scalar \<Rightarrow> collapse_loop [] False scalar)"

definition project_identifier_identity :: "json \<Rightarrow> string" where
  "project_identifier_identity value =
     (let normalized = normalize_project_identifier value in
      if list_all is_ascii_char normalized then map ascii_lower_char normalized else normalized)"

subsection \<open>Scopes\<close>

text \<open>The nested helper \<open>add\<close>: the identifiers a value contributes, in order.\<close>

fun scope_values :: "json \<Rightarrow> string list" where
  "scope_values (JList xs) = concat (map scope_values xs)"
| "scope_values value =
     (if project_scalar_text value \<noteq> None \<and> normalize_project_identifier value \<noteq> []
      then [normalize_project_identifier value] else [])"

definition normalize_project_scope :: "json \<Rightarrow> string list" where
  "normalize_project_scope value = dict_fromkeys (scope_values value)"

definition project_scope_identity :: "json \<Rightarrow> string list" where
  "project_scope_identity value =
     sort (remdups (map (\<lambda>item. project_identifier_identity (JStr item)) (normalize_project_scope value)))"

definition scope_identity :: "string list \<Rightarrow> string list" where
  "scope_identity values = project_scope_identity (str_list values)"

record scope_resolution =
  present :: bool
  scope_of :: "string list"

definition resolution_identity :: "scope_resolution \<Rightarrow> string list" where
  "resolution_identity r = scope_identity (scope_of r)"

definition canonical_values :: "json \<Rightarrow> string list" where
  "canonical_values value = (case value of JList xs \<Rightarrow> normalize_project_scope value | _ \<Rightarrow> [])"

definition scope_containers :: "dict \<Rightarrow> dict list" where
  "scope_containers resource =
     List.map_filter (\<lambda>key. as_obj (dget resource key)) [''metadata_json'', ''scope_json'']"

definition project_aliases :: "string list" where
  [model_defs]: "project_aliases = [''project_id'', ''project'', ''projects'']"

text \<open>The \<open>project_scope\<close> entries of the nested agent objects of one container.\<close>

definition nested_scopes :: "dict \<Rightarrow> json list" where
  "nested_scopes container =
     List.map_filter
       (\<lambda>key. case as_obj (dget container key) of
                None \<Rightarrow> None
              | Some nested \<Rightarrow>
                  (if has_key nested ''project_scope'' then Some (dget nested ''project_scope'') else None))
       [''agentic_memory'', ''agent_identity'']"

definition legacy_values :: "dict \<Rightarrow> json list" where
  "legacy_values container =
     map (dget container) project_aliases @
     (case as_obj (dget container ''agentic_memory'') of
        None \<Rightarrow> []
      | Some agentic \<Rightarrow> map (dget agentic) project_aliases)"

text \<open>The decision over the resource and its containers, then the function itself.\<close>

definition resolve_in_containers :: "dict \<Rightarrow> dict list \<Rightarrow> scope_resolution" where
  "resolve_in_containers resource containers =
     (if has_key resource ''project_scope'' then
        \<lparr>present = True, scope_of = canonical_values (dget resource ''project_scope'')\<rparr>
      else (case find (\<lambda>c. has_key c ''project_scope'') containers of
        Some c \<Rightarrow> \<lparr>present = True, scope_of = canonical_values (dget c ''project_scope'')\<rparr>
      | None \<Rightarrow>
          (let nested = concat (map nested_scopes containers) in
           if nested \<noteq> [] then \<lparr>present = True, scope_of = normalize_project_scope (JList nested)\<rparr>
           else
             (let direct = normalize_project_scope (JList (map (dget resource) project_aliases)) in
              if direct \<noteq> [] then \<lparr>present = False, scope_of = direct\<rparr>
              else \<lparr>present = False,
                    scope_of = normalize_project_scope (JList (concat (map legacy_values containers)))\<rparr>))))"

definition resolve_project_scope :: "dict option \<Rightarrow> scope_resolution" where
  "resolve_project_scope res =
     (case res of
        None \<Rightarrow> \<lparr>present = False, scope_of = []\<rparr>
      | Some resource \<Rightarrow> resolve_in_containers resource (scope_containers resource))"

text \<open>\<open>vnext_agent_control.resource_project_scope\<close> and \<open>memory_project_scope\<close>.\<close>

definition resource_project_scope :: "dict option \<Rightarrow> string list" where
  "resource_project_scope resource = scope_of (resolve_project_scope resource)"

definition memory_project_scope :: "dict \<Rightarrow> string list" where
  "memory_project_scope memory = scope_of (resolve_project_scope (Some memory))"

definition merge_direct_nested :: "dict \<Rightarrow> string \<Rightarrow> dict \<Rightarrow> dict" where
  "merge_direct_nested resource nested_key container =
     (case as_obj (dget resource nested_key) of
        None \<Rightarrow> container
      | Some direct \<Rightarrow>
          dset nested_key
            (JObj (case as_obj (dget container nested_key) of
                     Some stored \<Rightarrow> dmerge direct stored
                   | None \<Rightarrow> direct))
            container)"

definition resolve_source_metadata_project_scope :: "dict option \<Rightarrow> scope_resolution" where
  "resolve_source_metadata_project_scope metadata =
     (case metadata of
        None \<Rightarrow> \<lparr>present = False, scope_of = []\<rparr>
      | Some resource \<Rightarrow>
          (let container = (case as_obj (dget resource ''metadata_json'') of Some d \<Rightarrow> d | None \<Rightarrow> []);
               c1 = merge_direct_nested resource ''agentic_memory'' container;
               c2 = merge_direct_nested resource ''agent_identity'' c1
           in resolve_project_scope (Some (dset ''metadata_json'' (JObj c2) resource))))"

definition source_project_scope :: "dict \<Rightarrow> string list" where
  "source_project_scope source =
     (let resolution = resolve_source_metadata_project_scope (as_obj (dget source ''metadata_json''))
      in if present resolution \<or> scope_of resolution \<noteq> [] then scope_of resolution
         else scope_of (resolve_project_scope (Some source)))"

definition classification :: "json \<Rightarrow> string" where
  "classification value = py_casefold (py_strip (str_or value ''unknown''))"

definition source_capture_identity_matches ::
  "dict \<Rightarrow> string list \<Rightarrow> json \<Rightarrow> json \<Rightarrow> json \<Rightarrow> bool" where
  "source_capture_identity_matches source content_hashes project_scope domain sensitivity =
     (let expected_hashes = filter (\<lambda>h. h \<noteq> []) content_hashes in
      if expected_hashes \<noteq> [] \<and> str_or (dget source ''content_hash'') [] \<notin> set expected_hashes
      then False
      else if scope_identity (source_project_scope source) \<noteq> project_scope_identity project_scope
      then False
      else classification (dget source ''domain'') = classification domain \<and>
           classification (dget source ''sensitivity'') = classification sensitivity)"

definition canonical_memory_metadata :: "dict \<Rightarrow> dict" where
  "canonical_memory_metadata memory =
     (let result = (case as_obj (dget memory ''metadata_json'') of Some d \<Rightarrow> d | None \<Rightarrow> []);
          resolution = resolve_project_scope (Some memory)
      in if present resolution \<or> scope_of resolution \<noteq> []
         then dset ''project_scope'' (str_list (scope_of resolution)) result else result)"

definition expose_memory_project_scope :: "dict \<Rightarrow> dict" where
  "expose_memory_project_scope row =
     (if has_key row ''memory_key'' \<and> has_key row ''canonical_text''
      then dset ''project_scope'' (str_list (memory_project_scope row)) row else row)"

definition project_scopes_overlap :: "json \<Rightarrow> json \<Rightarrow> bool" where
  "project_scopes_overlap resource_scope requested_scope =
     (let requested = project_scope_identity requested_scope
      in requested \<noteq> [] \<and> (\<exists>i \<in> set requested. i \<in> set (project_scope_identity resource_scope)))"

subsection \<open>Normalisation is idempotent\<close>

text \<open>
  Normalised text: no project white space but single blanks, none of them at an end.  The
  flag says whether a blank may not come next.
\<close>

fun tidy :: "bool \<Rightarrow> string \<Rightarrow> bool" where
  "tidy sp [] = (\<not> sp)"
| "tidy sp (c # cs) =
     (if c = CHR '' '' then \<not> sp \<and> tidy True cs
      else c \<notin> set ascii_project_whitespace \<and> tidy False cs)"

lemma blank_is_space [simp]: "CHR '' '' \<in> set ascii_project_whitespace"
  by (simp add: ascii_project_whitespace_def)

lemma tidy_snoc:
  "tidy sp xs \<Longrightarrow> c \<notin> set ascii_project_whitespace \<Longrightarrow> tidy sp (xs @ [c])"
  by (induction sp xs rule: tidy.induct) auto

lemma tidy_blank_snoc:
  "tidy sp xs \<Longrightarrow> xs \<noteq> [] \<or> \<not> sp \<Longrightarrow> c \<notin> set ascii_project_whitespace \<Longrightarrow>
   tidy sp (xs @ [CHR '' '', c])"
proof (induction sp xs rule: tidy.induct)
  case (1 sp)
  then show ?case by auto
next
  case (2 sp x xs)
  then show ?case by (cases "xs = []") auto
qed

lemma collapse_loop_tidy:
  "tidy sp s \<Longrightarrow>
     (acc \<noteq> [] \<longrightarrow> collapse_loop acc sp s = rev acc @ (if sp then CHR '' '' # s else s)) \<and>
     (acc = [] \<longrightarrow> sp \<longrightarrow> collapse_loop [] False s = s)"
proof (induction sp s arbitrary: acc rule: tidy.induct)
  case (1 sp)
  then show ?case by simp
next
  case (2 sp c cs)
  show ?case
  proof (cases "c = CHR '' ''")
    case True
    with 2 show ?thesis by auto
  next
    case False
    with "2.prems" have "c \<notin> set ascii_project_whitespace" "tidy False cs" by auto
    with "2.IH"(2) [OF False] show ?thesis by auto
  qed
qed

lemma collapse_loop_result:
  assumes "acc = [] \<and> \<not> pending \<or> acc \<noteq> [] \<and> tidy True (rev acc)"
  shows "collapse_loop acc pending s = [] \<or> tidy True (collapse_loop acc pending s)"
  using assms
proof (induction acc pending s rule: collapse_loop.induct)
  case (1 acc pending)
  then show ?case by auto
next
  case (2 acc pending c cs)
  show ?case
  proof (cases "c \<in> set ascii_project_whitespace")
    case True
    with 2 show ?thesis by (cases "acc = []") auto
  next
    case False
    let ?acc = "c # (if pending then CHR '' '' # acc else acc)"
    have "tidy True (rev ?acc)"
    proof (cases "acc = []")
      case True
      with "2.prems" False show ?thesis by auto
    next
      case nonempty: False
      with "2.prems" have "tidy True (rev acc)" by simp
      with False nonempty show ?thesis
        using tidy_snoc [of True "rev acc" c] tidy_blank_snoc [of True "rev acc" c] by auto
    qed
    with "2.IH"(2) [OF False] False show ?thesis by simp
  qed
qed

lemma collapse_idem: "collapse_loop [] False (collapse_loop [] False s) = collapse_loop [] False s"
  using collapse_loop_result [of "[]" False s] collapse_loop_tidy [of True _ "[]"] by auto

lemma normalize_project_identifier_idem [simp]:
  "normalize_project_identifier (JStr (normalize_project_identifier v)) = normalize_project_identifier v"
  by (simp add: normalize_project_identifier_def collapse_idem split: option.split)

definition normalized_id :: "string \<Rightarrow> bool" where
  "normalized_id x \<longleftrightarrow> x \<noteq> [] \<and> normalize_project_identifier (JStr x) = x"

lemma scope_values_normalized: "\<forall>x \<in> set (scope_values v). normalized_id x"
  by (induction v rule: scope_values.induct)
     (auto simp: normalized_id_def simp del: project_scalar_text.simps)

lemma normalize_project_scope_normalized:
  "x \<in> set (normalize_project_scope v) \<Longrightarrow> normalized_id x"
  using scope_values_normalized by (simp add: normalize_project_scope_def)

lemma scope_values_str_list:
  "\<forall>x \<in> set xs. normalized_id x \<Longrightarrow> scope_values (str_list xs) = xs"
  by (induction xs) (auto simp: str_list_def normalized_id_def)

lemma normalize_str_list:
  "\<forall>x \<in> set xs. normalized_id x \<Longrightarrow> distinct xs \<Longrightarrow> normalize_project_scope (str_list xs) = xs"
  by (simp add: normalize_project_scope_def scope_values_str_list dict_fromkeys_distinct)

lemma normalize_project_scope_idem [simp]:
  "normalize_project_scope (str_list (normalize_project_scope v)) = normalize_project_scope v"
  by (rule normalize_str_list)
     (use normalize_project_scope_normalized in \<open>auto simp: normalize_project_scope_def\<close>)

text \<open>A scope the resolver returned: distinct normalised identifiers.\<close>

definition resolved_scope :: "string list \<Rightarrow> bool" where
  "resolved_scope xs \<longleftrightarrow> distinct xs \<and> (\<forall>x \<in> set xs. normalized_id x)"

lemma resolved_normalize [simp, intro]: "resolved_scope (normalize_project_scope v)"
  by (auto simp: resolved_scope_def normalize_project_scope_def scope_values_normalized)

lemma resolved_Nil [simp, intro]: "resolved_scope []"
  by (simp add: resolved_scope_def)

lemma resolved_canonical [simp, intro]: "resolved_scope (canonical_values v)"
  by (cases v) (auto simp: canonical_values_def)

lemma resolved_resolve: "resolved_scope (scope_of (resolve_project_scope r))"
  by (cases r) (auto simp: resolve_project_scope_def resolve_in_containers_def Let_def split: option.split)

lemma canonical_resolved: "resolved_scope xs \<Longrightarrow> canonical_values (str_list xs) = xs"
  by (simp add: canonical_values_def str_list_def resolved_scope_def
        normalize_str_list [unfolded str_list_def])

subsection \<open>Identity of scopes\<close>

definition identity_set :: "json \<Rightarrow> string set" where
  "identity_set v = (\<lambda>item. project_identifier_identity (JStr item)) ` set (scope_values v)"

lemma set_project_scope_identity [simp]: "set (project_scope_identity v) = identity_set v"
  by (simp add: project_scope_identity_def identity_set_def normalize_project_scope_def)

lemma project_scope_identity_canonical:
  "project_scope_identity v = sorted_list_of_set (identity_set v)"
  by (simp add: project_scope_identity_def sorted_list_of_set_sort_remdups [symmetric]
        identity_set_def normalize_project_scope_def)

lemma finite_identity_set [simp]: "finite (identity_set v)"
  by (simp add: identity_set_def)

subsection \<open>Properties\<close>

text \<open>
  Scope comparison is comparison of sets.  Two scopes have the same identity key exactly
  when they name the same projects up to ASCII white space and ASCII case, whatever the
  order, the nesting and the repetitions they were written with.
\<close>

theorem scope_identity_is_set_equality:
  "project_scope_identity a = project_scope_identity b \<longleftrightarrow> identity_set a = identity_set b"
  by (metis project_scope_identity_canonical set_project_scope_identity)

text \<open>
  A canonical scope is authoritative.  Once a resource carries a \<open>project_scope\<close> key at
  its root, no other field, legacy alias or nested metadata can widen or change its scope.
\<close>

theorem canonical_scope_never_widened:
  assumes "has_key resource ''project_scope''" and "has_key other ''project_scope''"
    and "dget other ''project_scope'' = dget resource ''project_scope''"
  shows "resolve_project_scope (Some other) = resolve_project_scope (Some resource) \<and>
    set (scope_of (resolve_project_scope (Some resource))) \<subseteq> set (scope_values (dget resource ''project_scope''))"
  using assms
  by (auto simp: resolve_project_scope_def resolve_in_containers_def canonical_values_def normalize_project_scope_def
        split: json.splits)

theorem canonical_scope_never_widened_witness:
  "resolve_project_scope (Some [(''project_scope'', JList []), (''project_id'', JStr ''p'')]) =
   resolve_project_scope (Some [(''project_scope'', JList [])]) \<and>
    set (scope_of (resolve_project_scope (Some [(''project_scope'', JList [])])))
      \<subseteq> set (scope_values (dget [(''project_scope'', JList [])] ''project_scope''))"
  by (rule canonical_scope_never_widened) simp_all

lemma resolve_after_metadata_scope:
  assumes "\<not> has_key m ''project_scope''" and "has_key d ''project_scope''"
  shows "resolve_project_scope (Some (dset ''metadata_json'' (JObj d) m)) =
    \<lparr>present = True, scope_of = canonical_values (dget d ''project_scope'')\<rparr>"
  using assms by (simp add: resolve_project_scope_def resolve_in_containers_def scope_containers_def)

lemma resolve_empty_container:
  "resolve_in_containers resource ([] # containers) = resolve_in_containers resource containers"
  by (simp add: resolve_in_containers_def nested_scopes_def legacy_values_def project_aliases_def
        normalize_project_scope_def split: option.split)

lemma resolve_dset_container:
  "''project_scope'' \<noteq> k \<Longrightarrow> ''project_id'' \<noteq> k \<Longrightarrow> ''project'' \<noteq> k \<Longrightarrow> ''projects'' \<noteq> k \<Longrightarrow>
   resolve_in_containers (dset k v resource) containers = resolve_in_containers resource containers"
  by (simp add: resolve_in_containers_def project_aliases_def split: option.split)

text \<open>
  C36: writing the canonical metadata of a memory back to the row is stable: the stored row
  resolves to the same project scope as before, for rows of every generation (canonical,
  nested agent scope, singular legacy fields, none).
\<close>

theorem canonical_metadata_roundtrip:
  "memory_project_scope (dset ''metadata_json'' (JObj (canonical_memory_metadata memory)) memory) =
   memory_project_scope memory"
proof (cases "has_key memory ''project_scope''")
  case True
  then show ?thesis by (simp add: memory_project_scope_def resolve_project_scope_def resolve_in_containers_def)
next
  case False
  let ?r = "resolve_project_scope (Some memory)"
  show ?thesis
  proof (cases "present ?r \<or> scope_of ?r \<noteq> []")
    case True
    let ?d = "canonical_memory_metadata memory"
    from True have "has_key ?d ''project_scope''" "dget ?d ''project_scope'' = str_list (scope_of ?r)"
      by (simp_all add: canonical_memory_metadata_def Let_def)
    then show ?thesis
      using False resolve_after_metadata_scope [of memory ?d] canonical_resolved [OF resolved_resolve]
      by (simp add: memory_project_scope_def)
  next
    case empty: False
    show ?thesis
    proof (cases "as_obj (dget memory ''metadata_json'')")
      case None
      with empty have "canonical_memory_metadata memory = []"
        by (simp add: canonical_memory_metadata_def Let_def)
      with None show ?thesis
        by (simp add: memory_project_scope_def resolve_project_scope_def scope_containers_def
              resolve_dset_container resolve_empty_container split: option.split)
    next
      case (Some d)
      with empty have "canonical_memory_metadata memory = d"
        by (simp add: canonical_memory_metadata_def Let_def)
      with Some show ?thesis
        by (simp add: memory_project_scope_def resolve_project_scope_def scope_containers_def
              resolve_dset_container split: option.split)
    qed
  qed
qed

end
