(* ===== verification/Iso_Time.thy ===== *)
theory Iso_Time
  imports Json
begin

text \<open>
  What the memory service uses of \<open>datetime\<close>: \<open>fromisoformat\<close> (the grammar of Python 3.12),
  \<open>isoformat\<close>, \<open>astimezone(UTC)\<close> and the comparison of aware moments, over the proleptic Gregorian
  calendar of the years 1 to 9999.
\<close>

subsection \<open>The calendar\<close>

definition is_leap :: "nat \<Rightarrow> bool" where
  "is_leap y \<longleftrightarrow> y mod 4 = 0 \<and> (y mod 100 \<noteq> 0 \<or> y mod 400 = 0)"

definition month_lengths :: "nat \<Rightarrow> nat list" where
  "month_lengths y = [31, if is_leap y then 29 else 28, 31, 30, 31, 30, 31, 31, 30, 31, 30, 31]"

text \<open>The days of the first \<open>p\<close> years, and the ordinal of a date (1 is the first of January of year 1).\<close>

definition days_of_years :: "nat \<Rightarrow> nat" where
  "days_of_years p = 365 * p + (p div 4 - p div 100) + p div 400"

definition date_ordinal :: "nat \<Rightarrow> nat \<Rightarrow> nat \<Rightarrow> nat" where
  "date_ordinal y m d = days_of_years (y - 1) + sum_list (take (m - 1) (month_lengths y)) + d"

lemma days_of_years_Suc: "days_of_years (Suc p) = days_of_years p + (if is_leap (Suc p) then 366 else 365)"
proof -
  have quot: "Suc p div n = p div n + (if Suc p mod n = 0 then 1 else 0)" for n
    by (auto simp: div_Suc)
  have nested: "Suc p mod 100 = 0 \<longrightarrow> Suc p mod 4 = 0" "Suc p mod 400 = 0 \<longrightarrow> Suc p mod 100 = 0"
    using dvd_trans [of 4 100 "Suc p"] dvd_trans [of 100 400 "Suc p"] by (auto simp: dvd_eq_mod_eq_0)
  have whole: "365 * Suc p + (a + (if A then 1 else 0) - (b + (if B then 1 else 0))) + (c + (if C then 1 else 0)) =
      365 * p + (a - b) + c + (if A \<and> (\<not> B \<or> C) then 366 else 365)"
    if "b \<le> a" "B \<longrightarrow> A" "C \<longrightarrow> B" for a b c :: nat and A B C
    using that by (cases A; cases B; cases C) simp_all
  have "p div 100 \<le> p div 4" by (rule div_le_mono2) simp_all
  from whole [OF this nested, of "p div 400"] show ?thesis
    unfolding days_of_years_def quot is_leap_def by (simp only:)
qed

lemma days_of_years_less: "p < q \<Longrightarrow> days_of_years p < days_of_years q"
  by (rule lift_Suc_mono_less) (simp_all add: days_of_years_Suc)

lemma days_of_years_le: "p \<le> q \<Longrightarrow> days_of_years p \<le> days_of_years q"
  using days_of_years_less [of p q] by (cases "p = q") auto

text \<open>The number of whole years before an ordinal, from a lower bound on.\<close>

function years_before :: "nat \<Rightarrow> nat \<Rightarrow> nat" where
  "years_before n p = (if n \<le> days_of_years (Suc p) then p else years_before n (Suc p))"
  by pat_completeness auto
termination
  by (relation "measure (\<lambda>(n, p). n - days_of_years p)")
     (auto simp: days_of_years_Suc split: if_splits)

declare years_before.simps [simp del]

lemma years_before_bounds:
  "days_of_years p < n \<Longrightarrow>
     days_of_years (years_before n p) < n \<and> n \<le> days_of_years (Suc (years_before n p))"
proof (induction n p rule: years_before.induct)
  case (1 n p)
  show ?case
  proof (cases "n \<le> days_of_years (Suc p)")
    case True
    with 1 show ?thesis by (simp add: years_before.simps)
  next
    case False
    with 1 show ?thesis by (simp add: years_before.simps [of n p])
  qed
qed

lemma years_before_unique:
  assumes "days_of_years p < n" "days_of_years q < n" "n \<le> days_of_years (Suc q)"
  shows "years_before n p = q"
proof -
  let ?k = "years_before n p"
  have k: "days_of_years ?k < n" "n \<le> days_of_years (Suc ?k)" using years_before_bounds [OF assms(1)] by auto
  have "\<not> ?k < q" using days_of_years_le [of "Suc ?k" q] k assms by linarith
  moreover have "\<not> q < ?k" using days_of_years_le [of "Suc q" ?k] k assms by linarith
  ultimately show ?thesis by simp
qed

fun month_day :: "nat \<Rightarrow> nat list \<Rightarrow> nat \<Rightarrow> nat \<times> nat" where
  "month_day m [] n = (m, n)"
| "month_day m (d # ds) n = (if n \<le> d then (m, n) else month_day (Suc m) ds (n - d))"

lemma month_day_take:
  "j < length ds \<Longrightarrow> 1 \<le> d \<Longrightarrow> d \<le> ds ! j \<Longrightarrow> month_day k ds (sum_list (take j ds) + d) = (k + j, d)"
proof (induction ds arbitrary: j k)
  case Nil
  then show ?case by simp
next
  case (Cons x xs)
  then show ?case by (cases j) auto
qed

definition ordinal_date :: "nat \<Rightarrow> nat \<times> nat \<times> nat" where
  "ordinal_date n =
     (let p = years_before n ((n - 1) div 366)
      in (Suc p, month_day 1 (month_lengths (Suc p)) (n - days_of_years p)))"

definition valid_date :: "nat \<Rightarrow> nat \<Rightarrow> nat \<Rightarrow> bool" where
  "valid_date y m d \<longleftrightarrow> 1 \<le> y \<and> y \<le> 9999 \<and> 1 \<le> m \<and> m \<le> 12 \<and> 1 \<le> d \<and> d \<le> month_lengths y ! (m - 1)"

lemma sum_take_Suc: "i < length xs \<Longrightarrow> sum_list (take (Suc i) xs) = sum_list (take i xs) + (xs ! i :: nat)"
  by (simp add: take_Suc_conv_app_nth)

lemma sum_take_le: "sum_list (take i xs) \<le> sum_list (xs :: nat list)"
  by (metis append_take_drop_id le_add1 sum_list_append)

lemma sum_month_lengths: "sum_list (month_lengths y) = (if is_leap y then 366 else 365)"
  by (simp add: month_lengths_def)

lemma ordinal_within_year:
  assumes "valid_date y m d"
  shows "days_of_years (y - 1) < date_ordinal y m d \<and> date_ordinal y m d \<le> days_of_years y"
proof -
  let ?ls = "month_lengths y"
  from assms have i: "m - 1 < length ?ls" "1 \<le> d" "d \<le> ?ls ! (m - 1)" "1 \<le> y"
    by (auto simp: valid_date_def month_lengths_def)
  have "sum_list (take (m - 1) ?ls) + d \<le> sum_list (take (Suc (m - 1)) ?ls)"
    using i sum_take_Suc [of "m - 1" ?ls] by simp
  also have "\<dots> \<le> sum_list ?ls" by (rule sum_take_le)
  finally have "date_ordinal y m d \<le> days_of_years (y - 1) + (if is_leap y then 366 else 365)"
    by (simp add: date_ordinal_def sum_month_lengths)
  with i(2,4) days_of_years_Suc [of "y - 1"] show ?thesis by (simp add: date_ordinal_def)
qed

lemma days_of_years_bound: "days_of_years p \<le> 366 * p"
  by (induction p) (simp_all add: days_of_years_Suc, simp add: days_of_years_def)

lemma years_before_start: "0 < n \<Longrightarrow> days_of_years ((n - 1) div 366) < n"
  using days_of_years_bound [of "(n - 1) div 366"] times_div_less_eq_dividend [of 366 "n - 1"] by linarith

text \<open>The calendar date of an ordinal is the date with this ordinal.\<close>

lemma ordinal_date_inverse:
  assumes "valid_date y m d"
  shows "ordinal_date (date_ordinal y m d) = (y, m, d)"
proof -
  let ?n = "date_ordinal y m d" and ?ls = "month_lengths y"
  from assms have v: "m - 1 < length ?ls" "1 \<le> d" "d \<le> ?ls ! (m - 1)" "1 \<le> y" "1 \<le> m"
    by (auto simp: valid_date_def month_lengths_def)
  have "0 < ?n" using v by (simp add: date_ordinal_def)
  with ordinal_within_year [OF assms] v have "years_before ?n ((?n - 1) div 366) = y - 1"
    by (intro years_before_unique years_before_start) simp_all
  moreover have "?n - days_of_years (y - 1) = sum_list (take (m - 1) ?ls) + d"
    by (simp add: date_ordinal_def)
  ultimately show ?thesis
    using v month_day_take [OF v(1-3), of 1] by (simp add: ordinal_date_def Let_def)
qed

lemma month_day_split:
  "1 \<le> n \<Longrightarrow> n \<le> sum_list ds \<Longrightarrow>
     \<exists>j d. j < length ds \<and> 1 \<le> d \<and> d \<le> ds ! j \<and> n = sum_list (take j ds) + d \<and> month_day k ds n = (k + j, d)"
proof (induction ds arbitrary: n k)
  case (Cons x xs)
  show ?case
  proof (cases "n \<le> x")
    case True
    with Cons.prems show ?thesis by (intro exI [of _ 0] exI [of _ n]) simp
  next
    case False
    with Cons.prems have "1 \<le> n - x" "n - x \<le> sum_list xs" by auto
    from Cons.IH [OF this, of "Suc k"] obtain j d where "j < length xs" "1 \<le> d" "d \<le> xs ! j"
      "n - x = sum_list (take j xs) + d" "month_day (Suc k) xs (n - x) = (Suc k + j, d)" by blast
    with False show ?thesis by (intro exI [of _ "Suc j"] exI [of _ d]) simp
  qed
qed simp

lemma date_of_ordinal:
  assumes "1 \<le> n" "n \<le> days_of_years 9999"
  shows "\<exists>y m d. ordinal_date n = (y, m, d) \<and> valid_date y m d \<and> date_ordinal y m d = n"
proof -
  define p where "p = years_before n ((n - 1) div 366)"
  have p: "days_of_years p < n" "n \<le> days_of_years (Suc p)"
    using years_before_bounds [OF years_before_start [of n]] assms(1) by (auto simp: p_def)
  have "p < 9999" using days_of_years_le [of 9999 p] p(1) assms(2) by linarith
  let ?ls = "month_lengths (Suc p)"
  have "1 \<le> n - days_of_years p" "n - days_of_years p \<le> sum_list ?ls"
    using p by (simp_all add: sum_month_lengths days_of_years_Suc split: if_splits)
  from month_day_split [OF this, of 1] obtain j d where j: "j < length ?ls" "1 \<le> d" "d \<le> ?ls ! j"
    "n - days_of_years p = sum_list (take j ?ls) + d" "month_day 1 ?ls (n - days_of_years p) = (1 + j, d)"
    by blast
  then have "valid_date (Suc p) (Suc j) d" "date_ordinal (Suc p) (Suc j) d = n"
    using \<open>p < 9999\<close> p(1) by (auto simp: valid_date_def date_ordinal_def month_lengths_def)
  moreover have "ordinal_date n = (Suc p, 1 + j, d)"
    unfolding ordinal_date_def Let_def p_def [symmetric] by (simp only: j(5))
  ultimately show ?thesis by (intro exI [of _ "Suc p"] exI [of _ "Suc j"] exI [of _ d]) simp
qed

subsection \<open>Moments\<close>

text \<open>A \<open>datetime\<close>; the offset from UTC in microseconds, if it is aware.\<close>

record moment =
  mo_year :: nat
  mo_month :: nat
  mo_day :: nat
  mo_hour :: nat
  mo_minute :: nat
  mo_second :: nat
  mo_micro :: nat
  mo_offset :: "int option"

definition day_micros :: nat where
  "day_micros = 86400000000"

definition valid_time :: "nat \<Rightarrow> nat \<Rightarrow> nat \<Rightarrow> nat \<Rightarrow> bool" where
  "valid_time h mi sec us \<longleftrightarrow> h < 24 \<and> mi < 60 \<and> sec < 60 \<and> us < 1000000"

definition valid_moment :: "moment \<Rightarrow> bool" where
  "valid_moment m \<longleftrightarrow> valid_date (mo_year m) (mo_month m) (mo_day m) \<and>
     valid_time (mo_hour m) (mo_minute m) (mo_second m) (mo_micro m)"

text \<open>The microseconds since the start of year 1 that the fields say, and those of the same instant in UTC.\<close>

definition field_micros :: "moment \<Rightarrow> nat" where
  "field_micros m = (date_ordinal (mo_year m) (mo_month m) (mo_day m) - 1) * day_micros
     + ((mo_hour m * 60 + mo_minute m) * 60 + mo_second m) * 1000000 + mo_micro m"

definition utc_micros :: "moment \<Rightarrow> int" where
  "utc_micros m = int (field_micros m) - (case mo_offset m of None \<Rightarrow> 0 | Some off \<Rightarrow> off)"

definition moment_of_micros :: "nat \<Rightarrow> moment" where
  "moment_of_micros n =
     (let date = ordinal_date (Suc (n div day_micros)); t = n mod day_micros
      in \<lparr>mo_year = fst date, mo_month = fst (snd date), mo_day = snd (snd date),
          mo_hour = t div 3600000000, mo_minute = t div 60000000 mod 60,
          mo_second = t div 1000000 mod 60, mo_micro = t mod 1000000, mo_offset = Some 0\<rparr>)"

text \<open>\<open>astimezone(UTC)\<close>, a naive moment taken as UTC; \<open>None\<close> is the \<open>OverflowError\<close> outside the calendar.\<close>

definition to_utc :: "moment \<Rightarrow> moment option" where
  "to_utc m =
     (if utc_micros m < 0 \<or> utc_micros m \<ge> int (days_of_years 9999 * day_micros) then None
      else Some (moment_of_micros (nat (utc_micros m))))"

lemma time_fields:
  assumes "valid_time h mi sec us"
  shows "((h * 60 + mi) * 60 + sec) * 1000000 + us < day_micros"
    and "(((h * 60 + mi) * 60 + sec) * 1000000 + us) div 3600000000 = h"
    and "(((h * 60 + mi) * 60 + sec) * 1000000 + us) div 60000000 mod 60 = mi"
    and "(((h * 60 + mi) * 60 + sec) * 1000000 + us) div 1000000 mod 60 = sec"
    and "(((h * 60 + mi) * 60 + sec) * 1000000 + us) mod 1000000 = us"
proof -
  let ?s = "(h * 60 + mi) * 60 + sec"
  from assms have b: "h < 24" "mi < 60" "sec < 60" "us < 1000000" by (auto simp: valid_time_def)
  have quotients: "(x * 1000000 + us) div 1000000 = x" "(x * 1000000 + us) mod 1000000 = us"
    "(x * 60 + sec) div 60 = x" "(x * 60 + sec) mod 60 = sec" "(x * 60 + mi) div 60 = x" "(x * 60 + mi) mod 60 = mi"
    for x using b by simp_all
  have day: "x \<le> 86399 \<Longrightarrow> x * 1000000 + us < day_micros" for x
    using b(4) unfolding day_micros_def by linarith
  have "?s \<le> 86399" using b by simp
  then show "?s * 1000000 + us < day_micros" by (rule day)
  have coarser: "n div 60000000 = n div 1000000 div 60" "n div 3600000000 = n div 1000000 div 60 div 60" for n :: nat
    using div_mult2_eq [of n 1000000 60] div_mult2_eq [of n 60000000 60] by simp_all
  show "(?s * 1000000 + us) div 3600000000 = h" "(?s * 1000000 + us) div 60000000 mod 60 = mi"
    "(?s * 1000000 + us) div 1000000 mod 60 = sec" "(?s * 1000000 + us) mod 1000000 = us"
    by (simp_all only: coarser quotients)
qed

lemma moment_of_field_micros:
  assumes "valid_moment m"
  shows "moment_of_micros (field_micros m) = m\<lparr>mo_offset := Some 0\<rparr>"
proof -
  let ?t = "((mo_hour m * 60 + mo_minute m) * 60 + mo_second m) * 1000000 + mo_micro m"
    and ?d = "date_ordinal (mo_year m) (mo_month m) (mo_day m)"
  from assms have vt: "valid_time (mo_hour m) (mo_minute m) (mo_second m) (mo_micro m)"
    and vd: "valid_date (mo_year m) (mo_month m) (mo_day m)" by (auto simp: valid_moment_def)
  note t = time_fields [OF vt]
  have pos: "0 < ?d" using ordinal_within_year [OF vd] by simp
  have whole: "(x * day_micros + y) div day_micros = x" "(x * day_micros + y) mod day_micros = y"
    if "y < day_micros" for x y using that by (simp_all add: day_micros_def)
  have sum: "field_micros m = (?d - 1) * day_micros + ?t" by (simp only: field_micros_def add.assoc)
  have "field_micros m div day_micros = ?d - 1" "field_micros m mod day_micros = ?t"
    unfolding sum by (rule whole [OF t(1)])+
  moreover have "ordinal_date (Suc (?d - 1)) = (mo_year m, mo_month m, mo_day m)"
    using pos ordinal_date_inverse [OF vd] by simp
  ultimately show ?thesis
    unfolding moment_of_micros_def Let_def by (simp only: t fst_conv snd_conv) simp
qed

lemma to_utc_UTC:
  assumes "valid_moment m" "mo_offset m = Some 0"
  shows "to_utc m = Some m"
proof -
  from assms(1) have vt: "valid_time (mo_hour m) (mo_minute m) (mo_second m) (mo_micro m)"
    and vd: "valid_date (mo_year m) (mo_month m) (mo_day m)" by (auto simp: valid_moment_def)
  let ?d = "date_ordinal (mo_year m) (mo_month m) (mo_day m)"
  have "days_of_years (mo_year m) \<le> days_of_years 9999"
    using vd by (intro days_of_years_le) (simp add: valid_date_def)
  with ordinal_within_year [OF vd] have d: "Suc (?d - 1) \<le> days_of_years 9999" by simp
  have "field_micros m < Suc (?d - 1) * day_micros"
    using time_fields(1) [OF vt] unfolding field_micros_def by (simp only: mult_Suc)
  also have "\<dots> \<le> days_of_years 9999 * day_micros" using d by (rule mult_le_mono1)
  finally have "int (field_micros m) < int (days_of_years 9999 * day_micros)" by (simp only: of_nat_less_iff)
  moreover have "utc_micros m = int (field_micros m)" using assms(2) by (simp add: utc_micros_def)
  ultimately show ?thesis
    using assms(2) moment_of_field_micros [OF assms(1)] by (cases m) (simp add: to_utc_def)
qed

lemma moment_of_micros_inverse:
  assumes "n < days_of_years 9999 * day_micros"
  shows "valid_moment (moment_of_micros n) \<and> field_micros (moment_of_micros n) = n"
proof -
  define t where "t = n mod day_micros"
  define k where "k = n div day_micros"
  have n: "n = k * day_micros + t" by (simp add: k_def t_def)
  have t: "t < day_micros" by (simp add: t_def day_micros_def)
  have "k < days_of_years 9999" using assms by (simp add: k_def div_less_iff_less_mult day_micros_def)
  then obtain y m d where date: "ordinal_date (Suc k) = (y, m, d)" "valid_date y m d" "date_ordinal y m d = Suc k"
    using date_of_ordinal [of "Suc k"] by auto
  define w where "w = t div 1000000"
  have coarser: "i div 60000000 = i div 1000000 div 60" "i div 3600000000 = i div 1000000 div 60 div 60" for i :: nat
    using div_mult2_eq [of i 1000000 60] div_mult2_eq [of i 60000000 60] by simp_all
  have "w < 86400" using t unfolding w_def day_micros_def by (simp add: div_less_iff_less_mult)
  then have "w div 60 div 60 < 24" by (simp add: div_less_iff_less_mult)
  then have vt: "valid_time (w div 60 div 60) (w div 60 mod 60) (w mod 60) (t mod 1000000)"
    by (simp add: valid_time_def)
  have whole: "((w div 60 div 60 * 60 + w div 60 mod 60) * 60 + w mod 60) * 1000000 + t mod 1000000 = t"
    by (simp add: w_def)
  have fields: "moment_of_micros n = \<lparr>mo_year = y, mo_month = m, mo_day = d, mo_hour = w div 60 div 60,
      mo_minute = w div 60 mod 60, mo_second = w mod 60, mo_micro = t mod 1000000, mo_offset = Some 0\<rparr>"
    unfolding moment_of_micros_def Let_def coarser t_def [symmetric] k_def [symmetric] w_def [symmetric] date(1)
    by simp
  have "field_micros (moment_of_micros n) = (Suc k - 1) * day_micros + t"
    unfolding field_micros_def fields moment.simps date(3) add.assoc whole [unfolded add.assoc] ..
  then have "field_micros (moment_of_micros n) = n" using n by simp
  moreover have "valid_moment (moment_of_micros n)" using vt date(2) by (simp add: valid_moment_def fields)
  ultimately show ?thesis by blast
qed

lemma to_utc_Some:
  assumes "to_utc m = Some u"
  shows "valid_moment u \<and> mo_offset u = Some 0 \<and> utc_micros u = utc_micros m"
proof -
  from assms have range: "0 \<le> utc_micros m" "utc_micros m < int (days_of_years 9999 * day_micros)"
    and u: "u = moment_of_micros (nat (utc_micros m))"
    by (auto simp: to_utc_def split: if_splits)
  then have "nat (utc_micros m) < days_of_years 9999 * day_micros" by linarith
  from moment_of_micros_inverse [OF this] u
  have inverse: "valid_moment u" "field_micros u = nat (utc_micros m)" by simp_all
  have offset: "mo_offset u = Some 0" by (simp add: u moment_of_micros_def Let_def)
  then have "utc_micros u = int (field_micros u)" by (simp add: utc_micros_def)
  with inverse offset range(1) show ?thesis by simp
qed

subsection \<open>Text\<close>

text \<open>\<open>isoformat()\<close> of a UTC moment, with \<open>Z\<close> for the offset, as \<open>_utc_iso\<close> writes it.\<close>

fun pad_digits :: "nat \<Rightarrow> nat \<Rightarrow> string" where
  "pad_digits 0 n = []"
| "pad_digits (Suc k) n = pad_digits k (n div 10) @ [char_of (48 + n mod 10)]"

definition iso_local :: "moment \<Rightarrow> string" where
  "iso_local m = pad_digits 4 (mo_year m) @ ''-'' @ pad_digits 2 (mo_month m) @ ''-'' @ pad_digits 2 (mo_day m)
     @ ''T'' @ pad_digits 2 (mo_hour m) @ '':'' @ pad_digits 2 (mo_minute m) @ '':'' @ pad_digits 2 (mo_second m)
     @ (if mo_micro m = 0 then [] else ''.'' @ pad_digits 6 (mo_micro m))"

definition utc_text :: "moment \<Rightarrow> string" where
  "utc_text m = iso_local m @ ''Z''"

text \<open>The decimal digits of a field: exactly as many as the field has, ASCII only.\<close>

definition digit_value :: "char \<Rightarrow> nat option" where
  "digit_value c = (let n = of_char c in if 48 \<le> n \<and> n \<le> 57 then Some (n - 48) else None)"

fun digits_value :: "nat \<Rightarrow> string \<Rightarrow> nat option" where
  "digits_value acc [] = Some acc"
| "digits_value acc (c # cs) =
     (case digit_value c of None \<Rightarrow> None | Some d \<Rightarrow> digits_value (acc * 10 + d) cs)"

definition field_value :: "nat \<Rightarrow> string \<Rightarrow> nat option" where
  "field_value k t = (if length t = k then digits_value 0 t else None)"

text \<open>The field at a position.\<close>

definition field_at :: "string \<Rightarrow> nat \<Rightarrow> nat \<Rightarrow> nat option" where
  "field_at t pos k = field_value k (take k (drop pos t))"

text \<open>\<open>YYYY-MM-DD\<close>, \<open>YYYYMMDD\<close>, \<open>YYYY-Www[-D]\<close> or \<open>YYYYWww[D]\<close>.\<close>

definition opt_bind :: "'a option \<Rightarrow> ('a \<Rightarrow> 'b option) \<Rightarrow> 'b option" where
  "opt_bind x f = (case x of None \<Rightarrow> None | Some y \<Rightarrow> f y)"

lemma opt_bind_simps [simp]: "opt_bind None f = None" "opt_bind (Some y) f = f y"
  by (simp_all add: opt_bind_def)

lemma opt_bind_eq_Some: "opt_bind x f = Some z \<longleftrightarrow> (\<exists>y. x = Some y \<and> f y = Some z)"
  by (cases x) auto

definition checked_date :: "nat \<Rightarrow> nat \<Rightarrow> nat \<Rightarrow> (nat \<times> nat \<times> nat) option" where
  "checked_date y m d = (if valid_date y m d then Some (y, m, d) else None)"

text \<open>
  An ISO week date: week 1 holds the first Thursday of the year, and a year has week 53 when its first
  of January is a Thursday, or a Wednesday in a leap year.  The ordinal 1 is a Monday.
\<close>

definition week_date :: "nat \<Rightarrow> nat \<Rightarrow> nat \<Rightarrow> (nat \<times> nat \<times> nat) option" where
  "week_date y w d =
     (let first = date_ordinal y 1 1; weekday = (first + 6) mod 7;
          long_year = (weekday = 3 \<or> weekday = 2 \<and> is_leap y);
          monday = int first - int weekday + (if weekday > 3 then 7 else 0);
          n = monday + int ((w - 1) * 7 + (d - 1))
      in if 1 \<le> y \<and> y \<le> 9999 \<and> 1 \<le> w \<and> (w \<le> 52 \<or> w = 53 \<and> long_year) \<and> 1 \<le> d \<and> d \<le> 7
            \<and> 1 \<le> n \<and> n \<le> int (days_of_years 9999)
         then Some (ordinal_date (nat n)) else None)"

definition date_of_text :: "string \<Rightarrow> (nat \<times> nat \<times> nat) option" where
  "date_of_text t =
     opt_bind (field_at t 0 4) (\<lambda>y.
       (let sep = (take 1 (drop 4 t) = ''-''); pos = (if sep then 5 else 4) in
        if take 1 (drop pos t) = ''W'' then
          opt_bind (field_at t (pos + 1) 2) (\<lambda>w.
            if length t = pos + 3 then week_date y w 1
            else if (take 1 (drop (pos + 3) t) = ''-'') \<noteq> sep then None
            else opt_bind (field_value 1 (drop (pos + 3 + (if sep then 1 else 0)) t)) (week_date y w))
        else
          opt_bind (field_at t pos 2) (\<lambda>m.
            if (take 1 (drop (pos + 2) t) = ''-'') \<noteq> sep then None
            else opt_bind (field_value 2 (drop (pos + 2 + (if sep then 1 else 0)) t)) (checked_date y m))))"

text \<open>Where the date ends; \<open>None\<close> is a text \<open>fromisoformat\<close> refuses.\<close>

definition leading_digits :: "string \<Rightarrow> nat" where
  "leading_digits t = length (takeWhile (\<lambda>c. digit_value c \<noteq> None) t)"

definition date_end :: "string \<Rightarrow> nat option" where
  "date_end t =
     (if length t < 7 then None
      else if length t = 7 then Some 7
      else if take 1 (drop 4 t) = ''-'' then
        (if take 1 (drop 5 t) = ''W'' then
           (if take 1 (drop 8 t) = ''-'' then
              (if length t = 9 then None
               else if leading_digits (take 1 (drop 10 t)) = 1 then Some 8 else Some 10)
            else Some 8)
         else Some 10)
      else if take 1 (drop 4 t) = ''W'' then
        (let idx = 7 + leading_digits (drop 7 t) in
         if idx < 9 then Some idx else if idx mod 2 = 0 then Some 7 else Some 8)
      else Some 8)"

text \<open>\<open>HH[:?MM[:?SS[{.,}f+]]]\<close>: hour, minute, second and microsecond; further digits are cut off.\<close>

definition fraction_value :: "string \<Rightarrow> nat option" where
  "fraction_value t =
     (let k = min 6 (length t) in
      if k = 0 then None
      else opt_bind (field_value k (take k t)) (\<lambda>v.
        if leading_digits t = length t then Some (v * 10 ^ (6 - k)) else None))"

definition after_seconds :: "nat \<Rightarrow> nat \<Rightarrow> nat \<Rightarrow> string \<Rightarrow> (nat \<times> nat \<times> nat \<times> nat) option" where
  "after_seconds h mi sec rest =
     (case rest of
        [] \<Rightarrow> Some (h, mi, sec, 0)
      | c # ds \<Rightarrow>
          if c \<in> set ''.,'' then opt_bind (fraction_value ds) (\<lambda>us. Some (h, mi, sec, us)) else None)"

definition clock_of_text :: "string \<Rightarrow> (nat \<times> nat \<times> nat \<times> nat) option" where
  "clock_of_text t =
     opt_bind (field_at t 0 2) (\<lambda>h.
       if length t = 2 then Some (h, 0, 0, 0)
       else (let sep = (take 1 (drop 2 t) = '':''); p = (if sep then 3 else 2) in
         opt_bind (field_at t p 2) (\<lambda>mi.
           if length t = p + 2 then Some (h, mi, 0, 0)
           else if sep \<and> take 1 (drop (p + 2) t) \<noteq> '':'' then None
           else (let q = p + 2 + (if sep then 1 else 0) in
             opt_bind (field_at t q 2) (\<lambda>sec. after_seconds h mi sec (drop (q + 2) t))))))"

definition zone_offset :: "bool \<Rightarrow> string \<Rightarrow> int option" where
  "zone_offset negative t =
     (if length t \<in> {0, 1, 3} then None
      else opt_bind (clock_of_text t) (\<lambda>(h, mi, sec, us).
        (let off = int (((h * 60 + mi) * 60 + sec) * 1000000 + us)
         in if off < int day_micros then Some (if negative then - off else off) else None)))"

text \<open>The position of the first \<open>-\<close>, else of the first \<open>+\<close>, else of the first \<open>Z\<close>.\<close>

definition zone_split :: "string \<Rightarrow> (string \<times> string) option" where
  "zone_split t =
     (let cut = (\<lambda>c. (takeWhile (\<lambda>x. x \<noteq> c) t, dropWhile (\<lambda>x. x \<noteq> c) t)) in
      if CHR ''-'' \<in> set t then Some (cut (CHR ''-''))
      else if CHR ''+'' \<in> set t then Some (cut (CHR ''+''))
      else if CHR ''Z'' \<in> set t then Some (cut (CHR ''Z''))
      else None)"

definition time_of_text :: "string \<Rightarrow> ((nat \<times> nat \<times> nat \<times> nat) \<times> int option) option" where
  "time_of_text t =
     (case zone_split t of
        None \<Rightarrow> opt_bind (clock_of_text t) (\<lambda>c. Some (c, None))
      | Some (clock, zone) \<Rightarrow>
          opt_bind (clock_of_text clock) (\<lambda>c.
            if zone = ''Z'' then Some (c, Some 0)
            else if hd zone = CHR ''Z'' then None
            else opt_bind (zone_offset (hd zone = CHR ''-'') (tl zone)) (\<lambda>off. Some (c, Some off))))"

definition moment_at :: "nat \<times> nat \<times> nat \<Rightarrow> (nat \<times> nat \<times> nat \<times> nat) \<times> int option \<Rightarrow> moment option" where
  "moment_at date time =
     (case (date, time) of ((y, m, d), ((h, mi, sec, us), off)) \<Rightarrow>
        if valid_time h mi sec us
        then Some \<lparr>mo_year = y, mo_month = m, mo_day = d, mo_hour = h, mo_minute = mi, mo_second = sec,
                   mo_micro = us, mo_offset = off\<rparr>
        else None)"

text \<open>
  \<open>datetime.fromisoformat\<close> by its grammar (CPython also skips one stray character before a zone
  and takes a fraction after hours or minutes, which is refused here); the character between date and time may be any code point, that is
  a byte and the continuation bytes after it.
\<close>

definition skip_code_point :: "string \<Rightarrow> string" where
  "skip_code_point t = dropWhile (\<lambda>c. 128 \<le> (of_char c :: nat) \<and> (of_char c :: nat) < 192) (tl t)"

definition from_iso :: "string \<Rightarrow> moment option" where
  "from_iso t =
     opt_bind (date_end t) (\<lambda>e.
       opt_bind (date_of_text (take e t)) (\<lambda>date.
         if length t \<le> e then moment_at date ((0, 0, 0, 0), None)
         else opt_bind (time_of_text (skip_code_point (drop e t))) (moment_at date)))"

text \<open>The idiom \<open>datetime.fromisoformat(value.replace("Z", "+00:00"))\<close>.\<close>

definition parse_iso :: "string \<Rightarrow> moment option" where
  "parse_iso t = from_iso (py_replace ''Z'' ''+00:00'' t)"

subsection \<open>Reading back what was written\<close>

lemma length_pad_digits [simp]: "length (pad_digits k n) = k"
  by (induction k arbitrary: n) simp_all

lemma pad_digits_Nil [simp]: "pad_digits k n = [] \<longleftrightarrow> k = 0"
  by (metis length_0_conv length_pad_digits)

lemma digit_value_char: "d < 10 \<Longrightarrow> digit_value (char_of (48 + d :: nat)) = Some d"
  by (simp add: digit_value_def Let_def)

lemma digits_value_snoc:
  "digits_value acc (t @ [c]) = opt_bind (digits_value acc t) (\<lambda>v. map_option (\<lambda>d. v * 10 + d) (digit_value c))"
  by (induction t arbitrary: acc) (auto split: option.split)

lemma digits_value_pad: "digits_value 0 (pad_digits k n) = Some (n mod 10 ^ k)"
proof (induction k arbitrary: n)
  case (Suc k)
  have "n div 10 mod 10 ^ k * 10 + n mod 10 = n mod 10 ^ Suc k"
    by (simp add: mod_mult2_eq [of n 10 "10 ^ k"] mult.commute)
  then show ?case by (simp add: Suc digits_value_snoc digit_value_char)
qed simp

declare pad_digits.simps [simp del]

lemma pad_digits_numeral:
  "pad_digits (numeral k) n = pad_digits (pred_numeral k) (n div 10) @ [char_of (48 + n mod 10)]"
  using pad_digits.simps(2) [of "pred_numeral k" n] by (simp only: numeral_eq_Suc [of k, symmetric])

lemma field_value_pad: "n < 10 ^ k \<Longrightarrow> field_value k (pad_digits k n) = Some n"
  by (simp add: field_value_def digits_value_pad)

lemma pad_digits_chars: "set (pad_digits k n) \<subseteq> {c. digit_value c \<noteq> None}"
  by (induction k arbitrary: n) (auto simp: digit_value_char pad_digits.simps)

lemma pad_digits_avoids: "digit_value c = None \<Longrightarrow> c \<notin> set (pad_digits k n)"
  using pad_digits_chars [of k n] by auto

lemma marks_no_digits:
  "digit_value (CHR ''Z'') = None" "digit_value (CHR ''-'') = None" "digit_value (CHR ''+'') = None"
  "digit_value (CHR ''W'') = None"
  by code_simp+

lemma leading_digits_pad: "leading_digits (pad_digits k n) = k"
  using pad_digits_chars [of k n] by (subst leading_digits_def, subst takeWhile_eq_all_conv [THEN iffD2]) auto

lemma replace_last_mark:
  "CHR ''Z'' \<notin> set t \<Longrightarrow> py_replace ''Z'' q (t @ ''Z'') = t @ q"
  by (induction t) auto

definition date_text :: "moment \<Rightarrow> string" where
  "date_text m = pad_digits 4 (mo_year m) @ ''-'' @ pad_digits 2 (mo_month m) @ ''-'' @ pad_digits 2 (mo_day m)"

definition clock_text :: "moment \<Rightarrow> string" where
  "clock_text m = pad_digits 2 (mo_hour m) @ '':'' @ pad_digits 2 (mo_minute m) @ '':'' @ pad_digits 2 (mo_second m)
     @ (if mo_micro m = 0 then [] else ''.'' @ pad_digits 6 (mo_micro m))"

lemma iso_local_parts: "iso_local m = date_text m @ ''T'' @ clock_text m"
  by (simp add: iso_local_def date_text_def clock_text_def)

lemma pad_not_mark:
  "digit_value c = None \<Longrightarrow> take 1 (pad_digits (Suc k) n @ t) \<noteq> [c]"
proof
  assume c: "digit_value c = None" and "take 1 (pad_digits (Suc k) n @ t) = [c]"
  moreover obtain x xs where "pad_digits (Suc k) n = x # xs"
    by (metis length_Suc_conv length_pad_digits)
  ultimately have "c \<in> set (pad_digits (Suc k) n)" by simp
  with pad_digits_avoids [OF c] show False by blast
qed

lemma date_of_date_text:
  assumes "valid_date (mo_year m) (mo_month m) (mo_day m)"
  shows "date_of_text (date_text m) = Some (mo_year m, mo_month m, mo_day m)"
proof -
  have "month_lengths (mo_year m) ! (mo_month m - 1) \<le> 31" if "mo_month m \<le> 12" "1 \<le> mo_month m"
    using that by (auto simp: month_lengths_def nth_Cons split: nat.splits)
  with assms have b: "mo_year m < 10 ^ 4" "mo_month m < 10 ^ 2" "mo_day m < 10 ^ 2"
    by (auto simp: valid_date_def)
  have "take (Suc 0) (pad_digits 2 (mo_month m) @ ''-'' @ pad_digits 2 (mo_day m)) \<noteq> ''W''"
    using pad_not_mark [of "CHR ''W''" 1 "mo_month m"] by (simp add: marks_no_digits numeral_2_eq_2)
  with b assms show ?thesis
    by (simp add: date_of_text_def date_text_def field_at_def field_value_pad Let_def checked_date_def
       )
qed

lemma clock_of_clock_text:
  assumes "valid_time (mo_hour m) (mo_minute m) (mo_second m) (mo_micro m)"
  shows "clock_of_text (clock_text m) = Some (mo_hour m, mo_minute m, mo_second m, mo_micro m)"
proof -
  from assms have b: "mo_hour m < 10 ^ 2" "mo_minute m < 10 ^ 2" "mo_second m < 10 ^ 2" "mo_micro m < 10 ^ 6"
    by (auto simp: valid_time_def)
  have frac: "fraction_value (pad_digits 6 (mo_micro m)) = Some (mo_micro m)"
    using field_value_pad [OF b(4)]
    by (simp add: fraction_value_def leading_digits_pad Let_def)
  show ?thesis
    using b frac
    by (simp add: clock_of_text_def clock_text_def field_at_def field_value_pad Let_def after_seconds_def
       )
qed

lemma date_end_text:
  "date_end (date_text m @ CHR ''T'' # t) = Some 10"
proof -
  have "take (Suc 0) (pad_digits 2 (mo_month m) @ r) \<noteq> ''W''" for r
    using pad_not_mark [of "CHR ''W''" 1 "mo_month m" r] by (simp add: marks_no_digits numeral_2_eq_2)
  then show ?thesis by (simp add: date_end_def date_text_def)
qed

lemma clock_text_free:
  "c \<in> {CHR ''-'', CHR ''+'', CHR ''Z''} \<Longrightarrow> c \<notin> set (clock_text m)"
  using pad_digits_avoids marks_no_digits by (auto simp: clock_text_def)

lemma iso_local_free: "CHR ''Z'' \<notin> set (iso_local m)"
proof -
  have "CHR ''Z'' \<notin> set (date_text m)"
    by (simp add: date_text_def pad_digits_avoids [OF marks_no_digits(1)])
  then show ?thesis by (simp add: iso_local_parts clock_text_free)
qed

lemma skip_ascii: "(of_char d :: nat) < 128 \<Longrightarrow> skip_code_point (c # d # t) = d # t"
  by (simp add: skip_code_point_def)

lemma time_of_clock_text:
  assumes "valid_time (mo_hour m) (mo_minute m) (mo_second m) (mo_micro m)"
  shows "time_of_text (clock_text m @ ''+00:00'') =
    Some ((mo_hour m, mo_minute m, mo_second m, mo_micro m), Some 0)"
proof -
  have "digit_value (CHR ''0'') = Some 0" by (simp add: digit_value_def)
  then have zone: "zone_offset False ''00:00'' = Some 0"
    by (simp add: zone_offset_def clock_of_text_def field_at_def field_value_def numeral_2_eq_2 day_micros_def)
  have free: "CHR ''-'' \<notin> set (clock_text m)" "CHR ''+'' \<notin> set (clock_text m)"
    using clock_text_free by simp_all
  moreover from free(2) have "takeWhile (\<lambda>x. x \<noteq> CHR ''+'') (clock_text m @ ''+00:00'') = clock_text m"
    "dropWhile (\<lambda>x. x \<noteq> CHR ''+'') (clock_text m @ ''+00:00'') = ''+00:00''"
    by (subst takeWhile_append2 dropWhile_append2; auto)+
  ultimately have "zone_split (clock_text m @ ''+00:00'') = Some (clock_text m, ''+00:00'')"
    by (simp add: zone_split_def Let_def)
  with zone clock_of_clock_text [OF assms] show ?thesis by (simp add: time_of_text_def)
qed

text \<open>The text of a UTC moment denotes this moment.\<close>

lemma parse_utc_text:
  assumes "valid_moment m" "mo_offset m = Some 0"
  shows "parse_iso (utc_text m) = Some m"
proof -
  from assms(1) have v: "valid_date (mo_year m) (mo_month m) (mo_day m)"
    "valid_time (mo_hour m) (mo_minute m) (mo_second m) (mo_micro m)" by (auto simp: valid_moment_def)
  let ?clock = "clock_text m @ ''+00:00''"
  have written: "py_replace ''Z'' ''+00:00'' (utc_text m) = date_text m @ CHR ''T'' # ?clock"
    using replace_last_mark [OF iso_local_free] by (simp add: utc_text_def iso_local_parts)
  have len: "length (date_text m) = 10" by (simp add: date_text_def)
  obtain c r where c: "clock_text m = c # r" "digit_value c \<noteq> None"
    using pad_digits_chars [of 2 "mo_hour m"]
    by (cases "pad_digits 2 (mo_hour m)") (auto simp: clock_text_def)
  then have "(of_char c :: nat) < 128" by (auto simp: digit_value_def Let_def split: if_splits)
  with c have "skip_code_point (CHR ''T'' # ?clock) = ?clock" by (simp add: skip_ascii)
  with len v assms(2) time_of_clock_text [OF v(2)] date_of_date_text [OF v(1)] date_end_text [of m ?clock]
  show ?thesis
    unfolding parse_iso_def written from_iso_def by (cases m) (simp add: moment_at_def)
qed

lemma moment_of_micros_UTC: "mo_offset (moment_of_micros n) = Some 0"
  by (simp add: moment_of_micros_def Let_def)

end
