(* ===== verification/Memory_Validity.thy ===== *)
theory Memory_Validity
  imports Iso_Time
begin

text \<open>
  The validity window of a memory: how \<open>vnext_memory_commit.py\<close> reads and closes \<open>valid_to\<close>, and the
  event time that \<open>vnext_currency.py\<close> and \<open>vnext_temporal_query.py\<close> find in the row that replaces
  another.  A timestamp column holds the ISO text of its moment; a naive text is read as UTC.
\<close>

text \<open>
  The errors of the memory service and its store; the last two are raised by the database.  A
  \<open>ValueError\<close> carries the text that could not be read.
\<close>

datatype memory_error =
    VNextMemoryCommitValidationError string
  | ContinuityStoreInvariantError string
  | OverflowError string
  | ValueError string
  | TypeError string
  | CheckViolation string
  | ForeignKeyViolation string

definition invalid_valid_to :: memory_error where
  "invalid_valid_to = VNextMemoryCommitValidationError ''valid_to must be an ISO-8601 timestamp''"

text \<open>\<open>astimezone\<close> out of the calendar raises \<open>OverflowError\<close>, which is not a \<open>ValueError\<close>.\<close>

definition as_utc :: "moment \<Rightarrow> memory_error + moment" where
  "as_utc m = (case to_utc m of
      None \<Rightarrow> Inl (OverflowError ''date value out of range'') | Some u \<Rightarrow> Inr u)"

definition valid_to_iso :: "json \<Rightarrow> memory_error + string" where
  "valid_to_iso value =
     (case value of
        JStr t \<Rightarrow>
          (case parse_iso t of
             None \<Rightarrow> Inl invalid_valid_to
           | Some m \<Rightarrow> bind_res (as_utc m) (\<lambda>u. Inr (utc_text u)))
      | _ \<Rightarrow> Inl invalid_valid_to)"

definition VALID_TO_UNBOUNDED_SENTINEL :: string where
  "VALID_TO_UNBOUNDED_SENTINEL = ''9999-12-31T23:59:59Z''"

definition is_unbounded_valid_to :: "json \<Rightarrow> bool" where
  "is_unbounded_valid_to value = (case value of JStr t \<Rightarrow> py_startswith t ''9999-'' | _ \<Rightarrow> False)"

text \<open>
  The instant of a text, for the comparison of two aware moments; \<open>_earliest_valid_to\<close> with the
  replacement already normalised.
\<close>

definition instant_of :: "string \<Rightarrow> int" where
  "instant_of t = (case parse_iso t of None \<Rightarrow> 0 | Some m \<Rightarrow> utc_micros m)"

definition earliest_valid_to :: "json \<Rightarrow> string \<Rightarrow> memory_error + string" where
  "earliest_valid_to existing replacement =
     bind_res (valid_to_iso (JStr replacement)) (\<lambda>replacement_iso.
       if existing = JNull then Inr replacement_iso
       else (case valid_to_iso existing of
          Inl (VNextMemoryCommitValidationError e) \<Rightarrow> Inr replacement_iso
        | Inl e \<Rightarrow> Inl e
        | Inr existing_iso \<Rightarrow>
            Inr (if instant_of existing_iso \<le> instant_of replacement_iso
                 then existing_iso else replacement_iso)))"

subsection \<open>The event time of a replacement\<close>

text \<open>
  \<open>parse_event_datetime\<close>.  The argument \<open>dated\<close> is the match of the expression for decorated dates
  (\<open>2023/05/30 (Tue) 02:01\<close>): year, month, day, hour and minute, the last two 0 when absent.
\<close>

type_synonym dated_match = "string \<Rightarrow> (nat \<times> nat \<times> nat \<times> nat \<times> nat) option"

definition decorated_moment :: "dated_match \<Rightarrow> string \<Rightarrow> moment option" where
  "decorated_moment dated t =
     opt_bind (dated t) (\<lambda>(y, m, d, h, mi).
       if valid_date y m d then moment_at (y, m, d) ((h, mi, 0, 0), Some 0) else None)"

definition parse_event_datetime :: "dated_match \<Rightarrow> json \<Rightarrow> memory_error + moment option" where
  "parse_event_datetime dated value =
     (case value of
        JStr v \<Rightarrow>
          (let t = py_strip v in
           if t = [] then Inr None
           else (case parse_iso t of
                   Some m \<Rightarrow> bind_res (as_utc m) (\<lambda>u. Inr (Some u))
                 | None \<Rightarrow> Inr (decorated_moment dated t)))
      | _ \<Rightarrow> Inr None)"

fun first_event :: "dated_match \<Rightarrow> json list \<Rightarrow> memory_error + moment option" where
  "first_event dated [] = Inr None"
| "first_event dated (v # vs) =
     bind_res (parse_event_datetime dated v) (\<lambda>e.
       case e of None \<Rightarrow> first_event dated vs | Some m \<Rightarrow> Inr (Some m))"

definition EVENT_METADATA_KEYS :: "string list" where
  [model_defs]: "EVENT_METADATA_KEYS = [''session_date'', ''event_date'', ''date'']"

definition metadata_of :: "dict \<Rightarrow> dict" where
  "metadata_of row = (case dget row ''metadata_json'' of JObj d \<Rightarrow> d | _ \<Rightarrow> [])"

definition memory_event_datetime ::
  "dated_match \<Rightarrow> (string \<Rightarrow> dict option) \<Rightarrow> dict \<Rightarrow> memory_error + moment option" where
  "memory_event_datetime dated source_lookup memory =
     (let metadata = metadata_of memory; source_id = str_or (dget metadata ''source_id'') '''' in
      bind_res (first_event dated (dget memory ''valid_from'' # map (dget metadata) EVENT_METADATA_KEYS)) (\<lambda>e.
        case e of
          Some m \<Rightarrow> Inr (Some m)
        | None \<Rightarrow>
            (case (if source_id = [] then None else source_lookup source_id) of
               None \<Rightarrow> Inr None
             | Some source \<Rightarrow>
                 first_event dated
                   (dget source ''source_created_at'' # map (dget (metadata_of source)) EVENT_METADATA_KEYS))))"

definition supersession_event_time ::
  "dated_match \<Rightarrow> (string \<Rightarrow> dict option) \<Rightarrow> dict \<Rightarrow> memory_error + string option" where
  "supersession_event_time dated source_lookup successor =
     bind_res (memory_event_datetime dated source_lookup successor) (\<lambda>e.
     bind_res (case e of
                 Some m \<Rightarrow> Inr (Some m)
               | None \<Rightarrow> parse_event_datetime dated (dget successor ''created_at'')) (\<lambda>event.
       Inr (map_option utc_text event)))"

text \<open>The \<open>valid_to\<close> that a supersession writes, at a reading of the clock.\<close>

definition closing_time ::
  "dated_match \<Rightarrow> (string \<Rightarrow> dict option) \<Rightarrow> string \<Rightarrow> dict \<Rightarrow> dict \<Rightarrow> memory_error + string" where
  "closing_time dated source_lookup now memory successor =
     bind_res (supersession_event_time dated source_lookup successor) (\<lambda>event.
       earliest_valid_to (dget memory ''valid_to'') (case event of Some t \<Rightarrow> t | None \<Rightarrow> now))"

subsection \<open>Canonical texts\<close>

text \<open>The text of a UTC moment; what \<open>_valid_to_iso\<close> returns is one, and it is left as it is.\<close>

definition canonical_text_of :: "moment \<Rightarrow> string \<Rightarrow> bool" where
  "canonical_text_of m t \<longleftrightarrow> valid_moment m \<and> mo_offset m = Some 0 \<and> t = utc_text m"

lemma canonical_parsed: "canonical_text_of m t \<Longrightarrow> parse_iso t = Some m"
  by (simp add: canonical_text_of_def parse_utc_text)

lemma valid_to_iso_canonical: "canonical_text_of m t \<Longrightarrow> valid_to_iso (JStr t) = Inr t"
  by (simp add: valid_to_iso_def canonical_parsed as_utc_def) (simp add: canonical_text_of_def to_utc_UTC)

lemma valid_to_iso_Inr:
  assumes "valid_to_iso v = Inr t"
  shows "\<exists>text m u. v = JStr text \<and> parse_iso text = Some m \<and> to_utc m = Some u \<and> t = utc_text u"
  using assms by (auto simp: valid_to_iso_def as_utc_def split: json.splits option.splits)

lemma valid_to_iso_instant:
  assumes "valid_to_iso (JStr t) = Inr c" "parse_iso t = Some m"
  shows "instant_of c = utc_micros m"
proof -
  from valid_to_iso_Inr [OF assms(1)] assms(2) obtain u where "to_utc m = Some u" "c = utc_text u" by auto
  with to_utc_Some [of m u] show ?thesis by (simp add: instant_of_def parse_utc_text)
qed

lemma valid_to_iso_readable:
  assumes "parse_iso t = Some m" "valid_to_iso (JStr t) = Inl e"
  shows "\<exists>msg. e = OverflowError msg"
  using assms by (auto simp: valid_to_iso_def as_utc_def split: option.splits)

text \<open>A readable end of the window is never moved later.\<close>

lemma earliest_valid_to_bound:
  assumes "earliest_valid_to (JStr t) replacement = Inr c" "parse_iso t = Some m"
  shows "instant_of c \<le> utc_micros m"
proof (cases "valid_to_iso (JStr t)")
  case (Inl e)
  with valid_to_iso_readable [OF assms(2)] assms(1) show ?thesis by (auto simp: earliest_valid_to_def)
next
  case (Inr existing)
  with assms(1) obtain r where "c = (if instant_of existing \<le> instant_of r then existing else r)"
    by (auto simp: earliest_valid_to_def)
  with valid_to_iso_instant [OF Inr assms(2)] show ?thesis by auto
qed

lemma closing_time_bound:
  assumes "closing_time dated lookup now m n = Inr c" "dget m ''valid_to'' = JStr t" "parse_iso t = Some w"
  shows "instant_of c \<le> utc_micros w"
  using assms earliest_valid_to_bound by (auto simp: closing_time_def)

text \<open>Normalising twice is normalising once, and the normalised text names the instant of the given one.\<close>

lemma valid_to_iso_stable:
  assumes "valid_to_iso (JStr t) = Inr c"
  shows "valid_to_iso (JStr c) = Inr c \<and> (\<exists>m. parse_iso t = Some m \<and> instant_of c = utc_micros m)"
proof -
  from valid_to_iso_Inr [OF assms] obtain m u where u: "parse_iso t = Some m" "to_utc m = Some u" "c = utc_text u"
    by auto
  then have "canonical_text_of u c" using to_utc_Some [OF u(2)] by (simp add: canonical_text_of_def)
  from valid_to_iso_canonical [OF this] u(1) valid_to_iso_instant [OF assms u(1)] show ?thesis by blast
qed

lemma digit_chars: "char_of (48 :: nat) = CHR ''0''" "char_of (49 :: nat) = CHR ''1''"
  "char_of (50 :: nat) = CHR ''2''" "char_of (54 :: nat) = CHR ''6''"
  by code_simp+

text \<open>The first of January 2026, for the witnesses.\<close>

definition new_year :: moment where
  "new_year = \<lparr>mo_year = 2026, mo_month = 1, mo_day = 1, mo_hour = 0, mo_minute = 0, mo_second = 0,
     mo_micro = 0, mo_offset = Some 0\<rparr>"

lemma new_year_canonical: "canonical_text_of new_year ''2026-01-01T00:00:00Z''"
  by (simp add: canonical_text_of_def new_year_def valid_moment_def valid_date_def valid_time_def
      month_lengths_def utc_text_def iso_local_def pad_digits_numeral pad_digits.simps
      digit_chars)

end
