(* ===== verification/Memory_Store.thy ===== *)
theory Memory_Store
  imports Project_Scope Memory_Validity "HOL-Library.Product_Lexorder" "HOL-Library.Sublist"
begin

text \<open>
  The store of the memory service: the rows, revisions, events, agent identities and provenance links
  of one user, and the statements of \<open>vnext_stores/postgres\<close> and \<open>vnext_store.py\<close> that the service uses.
  A row is the dictionary the store returns; its \<open>id\<close> is the text of the uuid.

  The instants that the process and the database read come from one stream, as text, and so do the
  random identifiers.  Of the constraints of the tables, the unique indexes, the range checks of the
  memories and the reference from a provenance link to its source are written out.  The refreshes of
  derived data (embeddings, fact keys, entity links) are recorded as requests, in order.
\<close>

datatype derived_request =
    EmbeddingDeferred string "string option" "string option" "string option"
  | FactKeysDerived string
  | EntityLinksExpired string string
  | EntitiesLinked string string

record memory_store =
  memories :: "dict list"
  revisions :: "dict list"
  event_log :: "dict list"
  sources :: "dict list"
  agents :: "dict list"
  provenance :: "dict list"
  derived :: "derived_request list"
  instants :: "nat \<Rightarrow> string"
  instants_read :: nat
  idents :: "nat \<Rightarrow> string"
  idents_drawn :: nat

subsection \<open>Clock and identifiers\<close>

definition instant :: "memory_store \<Rightarrow> string" where
  "instant s = instants s (instants_read s)"

definition tick :: "memory_store \<Rightarrow> memory_store" where
  "tick s = s\<lparr>instants_read := Suc (instants_read s)\<rparr>"

definition ident :: "memory_store \<Rightarrow> string" where
  "ident s = idents s (idents_drawn s)"

definition draw :: "memory_store \<Rightarrow> memory_store" where
  "draw s = s\<lparr>idents_drawn := Suc (idents_drawn s)\<rparr>"

subsection \<open>The event log\<close>

text \<open>
  \<open>vnext_event_log.append_event\<close> and the statement it ends in: the event carries a fresh identifier
  and the reading of the clock (its integrity hash is left out).
\<close>

definition append_traced_event ::
  "string option \<Rightarrow> string option \<Rightarrow> string \<Rightarrow> string \<Rightarrow> string option \<Rightarrow> string option \<Rightarrow> string option \<Rightarrow>
    dict \<Rightarrow> memory_store \<Rightarrow> memory_store" where
  "append_traced_event trace run event_type actor_type actor_id target_type target_id payload s =
     tick (draw (s\<lparr>event_log := event_log s @
       [[(''id'', JStr (ident s)), (''event_type'', JStr event_type), (''actor_type'', JStr actor_type),
         (''actor_id'', opt_str actor_id), (''target_type'', opt_str target_type),
         (''target_id'', opt_str target_id), (''occurred_at'', JStr (instant s)),
         (''payload_json'', JObj payload), (''trace_id'', opt_str trace), (''run_id'', opt_str run)]]\<rparr>))"

definition append_event ::
  "string \<Rightarrow> string \<Rightarrow> string option \<Rightarrow> string \<Rightarrow> string \<Rightarrow> dict \<Rightarrow> memory_store \<Rightarrow> memory_store" where
  "append_event event_type actor_type actor_id target_type target_id payload s =
     append_traced_event None None event_type actor_type actor_id (Some target_type) (Some target_id) payload s"

subsection \<open>Rows of memories\<close>

definition live_row :: "string \<Rightarrow> dict \<Rightarrow> bool" where
  "live_row i r \<longleftrightarrow> row_id r = i \<and> dget r ''deleted_at'' = JNull"

definition get_memory :: "memory_store \<Rightarrow> string \<Rightarrow> dict option" where
  "get_memory s i = map_option expose_memory_project_scope (find (live_row i) (memories s))"

definition get_source :: "memory_store \<Rightarrow> string \<Rightarrow> dict option" where
  "get_source s i = find (live_row i) (sources s)"

text \<open>The range checks of the table: \<open>memories_valid_range_check\<close>, \<open>memories_confidence_range_check\<close>.\<close>

definition in_order :: "json \<Rightarrow> json \<Rightarrow> bool" where
  "in_order a b = (case (a, b) of (JStr x, JStr y) \<Rightarrow> instant_of x \<le> instant_of y | _ \<Rightarrow> True)"

fun unit_range :: "json \<Rightarrow> bool" where
  "unit_range (JInt i) = (0 \<le> i \<and> i \<le> 1)"
| "unit_range (JFloat t (Some q)) = (0 \<le> q \<and> q \<le> 1)"
| "unit_range (JFloat t None) = False"
| "unit_range v = True"

definition row_checks :: "dict \<Rightarrow> bool" where
  "row_checks r \<longleftrightarrow> in_order (dget r ''valid_from'') (dget r ''valid_to'')
     \<and> unit_range (dget r ''confidence'') \<and> unit_range (dget r ''salience'')"

text \<open>
  \<open>update_memory\<close>: every column is \<open>COALESCE(patch, column)\<close>, so a null in the patch leaves
  the column; a JSON column named in the patch is written even when it is \<open>None\<close>.
\<close>

definition update_columns :: "string list" where
  [model_defs]: "update_columns =
    [''value'', ''status'', ''source_event_ids'', ''memory_type'', ''confidence'', ''salience'',
     ''confirmation_status'', ''trust_class'', ''promotion_eligibility'', ''evidence_count'',
     ''independent_source_count'', ''extracted_by_model'', ''trust_reason'', ''valid_from'',
     ''valid_to'', ''last_confirmed_at'', ''title'', ''canonical_text'', ''summary'', ''domain'',
     ''sensitivity'', ''last_seen_at'', ''last_reviewed_at'', ''metadata_json'', ''project_id'',
     ''superseded_by'', ''supersedes'']"

definition json_or :: "json \<Rightarrow> json \<Rightarrow> json" where
  "json_or v w = (if v = JNull then w else v)"

definition patch_value :: "dict \<Rightarrow> string \<Rightarrow> json" where
  "patch_value patch c =
     (if c \<in> {''value'', ''metadata_json''}
      then (if has_key patch c then json_or (dget patch c) (JObj []) else JNull)
      else if c = ''source_event_ids''
      then (if has_key patch c then json_or (dget patch c) (JList []) else JNull)
      else dget patch c)"

definition patched_row :: "string \<Rightarrow> dict \<Rightarrow> dict \<Rightarrow> dict" where
  "patched_row now patch r =
     (let r' = foldl (\<lambda>d c. dset c (json_or (patch_value patch c) (dget r c)) d) r update_columns
      in dset ''deleted_at''
           (if dget patch ''status'' = JStr ''archived'' then JStr now else dget r ''deleted_at'')
           (dset ''updated_at'' (JStr now) r'))"

definition update_memory ::
  "string \<Rightarrow> dict \<Rightarrow> string \<Rightarrow> memory_store \<Rightarrow> (memory_error + dict) \<times> memory_store" where
  "update_memory memory_id patch actor_type s =
     (case find (live_row memory_id) (memories s) of
        None \<Rightarrow>
          (Inl (ContinuityStoreInvariantError
             ''update_memory did not return a row from the database''), tick s)
      | Some r \<Rightarrow>
          let row = patched_row (instant s) patch r
          in if \<not> row_checks row then (Inl (CheckViolation ''memories''), tick s)
             else (Inr (expose_memory_project_scope row),
                append_event ''memory.updated'' actor_type None ''memory'' (row_id row)
                  [(''operation'', JStr ''update''), (''changes'', JObj patch)]
                  (tick s\<lparr>memories := map (\<lambda>x. if live_row memory_id x then row else x)
                            (memories s)\<rparr>)))"

text \<open>
  \<open>create_memory\<close>: the columns of the new row, and \<open>ON CONFLICT DO NOTHING\<close> over the primary key and
  the three unique indexes, which also see deleted rows.
\<close>

definition created_row :: "memory_store \<Rightarrow> dict \<Rightarrow> dict" where
  "created_row s m =
     (let n = instants_read s in
      [(''id'', json_or (dget m ''id'') (JStr (ident s))),
       (''agent_profile_id'', dget_or m ''agent_profile_id'' (JStr ''assistant_default'')),
       (''memory_key'', dget m ''memory_key''), (''value'', json_or (dget m ''value'') (JObj [])),
       (''status'', dget_or m ''status'' (JStr ''candidate'')),
       (''source_event_ids'', json_or (dget m ''source_event_ids'') (JList [])),
       (''memory_type'', dget_or m ''memory_type'' (JStr ''semantic'')),
       (''confidence'', dget m ''confidence''), (''salience'', dget m ''salience''),
       (''confirmation_status'', dget_or m ''confirmation_status'' (JStr ''unconfirmed'')),
       (''trust_class'', dget_or m ''trust_class'' (JStr ''deterministic'')),
       (''promotion_eligibility'', dget_or m ''promotion_eligibility'' (JStr ''promotable'')),
       (''evidence_count'', dget m ''evidence_count''),
       (''independent_source_count'', dget m ''independent_source_count''),
       (''extracted_by_model'', dget m ''extracted_by_model''), (''trust_reason'', dget m ''trust_reason''),
       (''valid_from'', dget m ''valid_from''), (''valid_to'', dget m ''valid_to''),
       (''last_confirmed_at'', dget m ''last_confirmed_at''), (''title'', dget m ''title''),
       (''canonical_text'', dget_or m ''canonical_text'' (JStr [])), (''summary'', dget m ''summary''),
       (''domain'', dget_or m ''domain'' (JStr ''unknown'')),
       (''sensitivity'', dget_or m ''sensitivity'' (JStr ''unknown'')),
       (''first_seen_at'', json_or (dget m ''first_seen_at'') (JStr (instants s n))),
       (''last_seen_at'', json_or (dget m ''last_seen_at'') (JStr (instants s (n + 1)))),
       (''last_reviewed_at'', dget m ''last_reviewed_at''),
       (''metadata_json'', JObj (canonical_memory_metadata m)),
       (''commit_digest'', dget m ''commit_digest''), (''confirmation_id'', dget m ''confirmation_id''),
       (''project_id'', dget m ''project_id''), (''created_by_agent_id'', dget m ''created_by_agent_id''),
       (''run_id'', dget m ''run_id''), (''superseded_by'', dget m ''superseded_by''),
       (''supersedes'', dget m ''supersedes''), (''created_at'', JStr (instants s (n + 2))),
       (''updated_at'', JStr (instants s (n + 3))), (''deleted_at'', JNull)])"

definition conflicts :: "dict \<Rightarrow> dict \<Rightarrow> bool" where
  "conflicts r new \<longleftrightarrow> row_id r = row_id new
     \<or> dget r ''agent_profile_id'' = dget new ''agent_profile_id'' \<and> dget r ''memory_key'' = dget new ''memory_key''
     \<or> dget new ''commit_digest'' \<noteq> JNull \<and> dget r ''commit_digest'' = dget new ''commit_digest''
     \<or> dget new ''confirmation_id'' \<noteq> JNull \<and> dget r ''confirmation_id'' = dget new ''confirmation_id''"

definition create_memory :: "dict \<Rightarrow> string \<Rightarrow> memory_store \<Rightarrow> (memory_error + dict) \<times> memory_store" where
  "create_memory m actor_type s =
     (let row = created_row s m; t = draw (s\<lparr>instants_read := instants_read s + 4\<rparr>)
      in if \<not> row_checks row then (Inl (CheckViolation ''memories''), t)
         else if list_ex (\<lambda>r. conflicts r row) (memories s)
         then (Inl (ContinuityStoreInvariantError
                 ''create_memory did not return a row from the database''), t)
         else (Inr (expose_memory_project_scope row),
               append_event ''memory.created'' actor_type None ''memory'' (row_id row)
                 [(''operation'', JStr ''create''), (''fields'', str_list (sort (map fst m)))]
                 (t\<lparr>memories := memories s @ [row]\<rparr>)))"

text \<open>\<open>clear_memory_embedding\<close>: the signature of the vector leaves the metadata.\<close>

definition EMBEDDING_SIGNATURE_METADATA_KEY :: string where
  "EMBEDDING_SIGNATURE_METADATA_KEY = ''_alice_embedding''"

definition dremove :: "string \<Rightarrow> dict \<Rightarrow> dict" where
  "dremove k d = filter (\<lambda>p. fst p \<noteq> k) d"

definition unsigned_row :: "dict \<Rightarrow> dict" where
  "unsigned_row r =
     (case dget r ''metadata_json'' of
        JObj d \<Rightarrow> dset ''metadata_json'' (JObj (dremove EMBEDDING_SIGNATURE_METADATA_KEY d)) r
      | _ \<Rightarrow> r)"

definition clear_memory_embedding :: "string \<Rightarrow> memory_store \<Rightarrow> memory_store" where
  "clear_memory_embedding memory_id s =
     s\<lparr>memories := map (\<lambda>r. if live_row memory_id r then unsigned_row r else r) (memories s)\<rparr>"

subsection \<open>Revisions\<close>

text \<open>\<open>append_revision\<close>: numbered within the memory, from one; the callers leave the numbers to the store.\<close>

fun json_int :: "json \<Rightarrow> int" where
  "json_int (JInt n) = n"
| "json_int _ = 0"

definition revisions_of :: "string \<Rightarrow> memory_store \<Rightarrow> dict list" where
  "revisions_of memory_id s = filter (\<lambda>r. dget r ''memory_id'' = JStr memory_id) (revisions s)"

definition next_number :: "string \<Rightarrow> string \<Rightarrow> memory_store \<Rightarrow> int" where
  "next_number column memory_id s =
     Max (set (0 # map (\<lambda>r. json_int (dget r column)) (revisions_of memory_id s))) + 1"

definition append_revision ::
  "dict \<Rightarrow> string \<Rightarrow> string \<Rightarrow> memory_store \<Rightarrow> memory_store" where
  "append_revision revision memory_id actor_type s =
     append_event ''memory_revision.created'' actor_type None ''memory'' memory_id
       [(''operation'', JStr ''create_revision''), (''revision_id'', JStr (ident s))]
       (draw s\<lparr>revisions := revisions s @
          [[(''id'', JStr (ident s)), (''memory_id'', JStr memory_id),
             (''sequence_no'', JInt (next_number ''sequence_no'' memory_id s)),
             (''revision_number'', JInt (next_number ''revision_number'' memory_id s))] @ revision]\<rparr>)"

definition list_revisions :: "string \<Rightarrow> memory_store \<Rightarrow> dict list" where
  "list_revisions memory_id s =
     sort_key (\<lambda>r. (json_int (dget r ''revision_number''), json_int (dget r ''sequence_no''), row_id r))
       (revisions_of memory_id s)"

subsection \<open>Lookups\<close>

text \<open>\<open>ORDER BY updated_at DESC, created_at DESC, id DESC\<close> and \<open>created_at DESC, id DESC\<close>.\<close>

definition moment_in :: "string \<Rightarrow> dict \<Rightarrow> int" where
  "moment_in column r = (case dget r column of JStr t \<Rightarrow> instant_of t | _ \<Rightarrow> 0)"

definition newest_first :: "dict list \<Rightarrow> dict list" where
  "newest_first rs = rev (sort_key (\<lambda>r. (moment_in ''updated_at'' r, moment_in ''created_at'' r, row_id r)) rs)"

definition latest_created :: "dict list \<Rightarrow> dict list" where
  "latest_created rs = rev (sort_key (\<lambda>r. (moment_in ''created_at'' r, row_id r)) rs)"

definition undeleted_rows :: "(dict \<Rightarrow> bool) \<Rightarrow> memory_store \<Rightarrow> dict list" where
  "undeleted_rows p s = filter (\<lambda>r. dget r ''deleted_at'' = JNull \<and> p r) (memories s)"

definition list_memories :: "memory_store \<Rightarrow> dict list" where
  "list_memories s = map expose_memory_project_scope (newest_first (undeleted_rows (\<lambda>r. True) s))"

definition first_row :: "dict list \<Rightarrow> dict option" where
  "first_row rs = (case rs of [] \<Rightarrow> None | r # _ \<Rightarrow> Some (expose_memory_project_scope r))"

definition get_memory_by_commit_digest :: "string \<Rightarrow> memory_store \<Rightarrow> dict option" where
  "get_memory_by_commit_digest digest s =
     first_row (latest_created (undeleted_rows (\<lambda>r. dget r ''commit_digest'' = JStr digest) s))"

definition get_memory_by_confirmation_id :: "string \<Rightarrow> memory_store \<Rightarrow> dict option" where
  "get_memory_by_confirmation_id confirmation s =
     first_row (latest_created (undeleted_rows (\<lambda>r. dget r ''confirmation_id'' = JStr confirmation) s))"

definition memory_metadata :: "dict \<Rightarrow> dict" where
  "memory_metadata row = (case as_obj (dget row ''metadata_json'') of Some d \<Rightarrow> d | None \<Rightarrow> [])"

definition agentic_metadata :: "dict \<Rightarrow> dict" where
  "agentic_metadata row =
     (case as_obj (dget (memory_metadata row) ''agentic_memory'') of Some d \<Rightarrow> d | None \<Rightarrow> [])"

text \<open>
  \<open>list_pending_derived_candidates_for_member\<close>: the undecided candidates whose snapshots name
  the member, in the order of their ids.
\<close>

definition member_snapshots :: "dict \<Rightarrow> json list" where
  "member_snapshots row =
     (case as_obj (dget (memory_metadata row) ''consolidation'') of
        None \<Rightarrow> []
      | Some c \<Rightarrow> (case dget c ''member_snapshots'' of JList xs \<Rightarrow> xs | _ \<Rightarrow> []))"

definition names_member :: "string \<Rightarrow> json \<Rightarrow> bool" where
  "names_member member_id v =
     (case as_obj v of None \<Rightarrow> False | Some d \<Rightarrow> dget d ''id'' = JStr member_id)"

definition list_pending_derived_candidates ::
  "string \<Rightarrow> string option \<Rightarrow> memory_store \<Rightarrow> dict list" where
  "list_pending_derived_candidates member_id exclude s =
     map expose_memory_project_scope
       (sort_key row_id
         (filter (\<lambda>r. dget r ''deleted_at'' = JNull
             \<and> dget r ''status'' \<in> {JStr ''candidate'', JStr ''needs_review''}
             \<and> exclude \<noteq> Some (row_id r)
             \<and> list_ex (names_member member_id) (member_snapshots r))
           (memories s)))"

text \<open>Rows the commit service wrote, by the nested keys of their metadata (text values).\<close>

definition is_agentic_commit :: "dict \<Rightarrow> bool" where
  "is_agentic_commit row \<longleftrightarrow> dget (agentic_metadata row) ''kind'' = JStr ''agentic_memory_commit''"

definition nested :: "dict \<Rightarrow> string \<Rightarrow> dict" where
  "nested d key = (case as_obj (dget d key) of Some e \<Rightarrow> e | None \<Rightarrow> [])"

definition latest_agentic_commit_memory :: "string option \<Rightarrow> memory_store \<Rightarrow> dict option" where
  "latest_agentic_commit_memory agent s =
     first_row (newest_first (undeleted_rows (\<lambda>r. dget r ''status'' = JStr ''active'' \<and> is_agentic_commit r
       \<and> (agent = None \<or> dget (agentic_metadata r) ''agent_id'' = opt_str agent
          \<or> dget (nested (agentic_metadata r) ''agent_identity'') ''agent_id'' = opt_str agent)) s))"

definition list_pending_inline_confirmations :: "nat \<Rightarrow> memory_store \<Rightarrow> dict list" where
  "list_pending_inline_confirmations limit s =
     map expose_memory_project_scope (take limit (newest_first (undeleted_rows (\<lambda>r.
       dget r ''status'' = JStr ''needs_review'' \<and> dget r ''confirmation_status'' = JStr ''unconfirmed''
       \<and> is_agentic_commit r \<and> dget (nested (agentic_metadata r) ''confirmation'') ''status'' = JStr ''pending'') s)))"

text \<open>\<open>list_events\<close> of one target, between two moments if they are given.\<close>

definition list_events ::
  "string \<Rightarrow> string option \<Rightarrow> int option \<Rightarrow> int option \<Rightarrow> memory_store \<Rightarrow> dict list" where
  "list_events target_type target_id since until s =
     rev (sort_key (\<lambda>e. (moment_in ''occurred_at'' e, row_id e))
       (filter (\<lambda>e. dget e ''target_type'' = JStr target_type
           \<and> (target_id = None \<or> dget e ''target_id'' = opt_str target_id)
           \<and> (case since of None \<Rightarrow> True | Some a \<Rightarrow> a \<le> moment_in ''occurred_at'' e)
           \<and> (case until of None \<Rightarrow> True | Some b \<Rightarrow> moment_in ''occurred_at'' e \<le> b))
         (event_log s)))"

subsection \<open>Agents and provenance\<close>

text \<open>\<open>upsert_agent_identity\<close>: by agent, the metadata merged.\<close>

definition merged_agent :: "dict \<Rightarrow> string \<Rightarrow> dict \<Rightarrow> dict" where
  "merged_agent agent now old =
     dset ''updated_at'' (JStr now)
       (dset ''metadata_json'' (JObj (dmerge (nested old ''metadata_json'') (nested agent ''metadata_json'')))
         (dset ''project_scope_json'' (dget agent ''project_scope_json'')
           (dset ''permission_profile'' (dget agent ''permission_profile'')
             (dset ''agent_type'' (dget agent ''agent_type'') old))))"

definition upsert_agent_identity :: "dict \<Rightarrow> string \<Rightarrow> string \<Rightarrow> memory_store \<Rightarrow> memory_store" where
  "upsert_agent_identity agent agent_id actor_type s =
     (case find (\<lambda>a. dget a ''agent_id'' = JStr agent_id) (agents s) of
        Some old \<Rightarrow>
          append_event ''agent.identity_upserted'' actor_type (Some agent_id) ''agent_identity'' (row_id old)
            [(''operation'', JStr ''upsert''), (''agent_id'', JStr agent_id)]
            (tick s\<lparr>agents := map (\<lambda>a. if dget a ''agent_id'' = JStr agent_id
                       then merged_agent agent (instant s) a else a) (agents s)\<rparr>)
      | None \<Rightarrow>
          append_event ''agent.identity_upserted'' actor_type (Some agent_id) ''agent_identity'' (ident s)
            [(''operation'', JStr ''upsert''), (''agent_id'', JStr agent_id)]
            (draw s\<lparr>agents := agents s @ [(''id'', JStr (ident s)) # (''agent_id'', JStr agent_id) # agent]\<rparr>))"

text \<open>
  \<open>create_provenance_link\<close> for a memory that is not redacted (the service links the row it has just
  created); the source must exist, deleted or not.
\<close>

definition create_provenance_link ::
  "dict \<Rightarrow> string \<Rightarrow> string \<Rightarrow> string \<Rightarrow> string \<Rightarrow> memory_store \<Rightarrow> (memory_error + unit) \<times> memory_store" where
  "create_provenance_link link target_type target_id source_id actor_type s =
     (if list_ex (\<lambda>r. row_id r = source_id) (sources s) then
        (Inr (), append_event ''provenance_link.created'' actor_type None target_type target_id
           [(''operation'', JStr ''create''), (''provenance_link_id'', JStr (ident s))]
           (draw s\<lparr>provenance := provenance s @
              [[(''id'', JStr (ident s)), (''target_type'', JStr target_type), (''target_id'', JStr target_id),
                (''source_id'', JStr source_id)] @ link]\<rparr>))
      else (Inl (ForeignKeyViolation ''provenance_links''), draw s))"

definition list_provenance_links :: "string \<Rightarrow> string \<Rightarrow> memory_store \<Rightarrow> dict list" where
  "list_provenance_links target_type target_id s =
     rev (filter (\<lambda>l. dget l ''target_type'' = JStr target_type \<and> dget l ''target_id'' = JStr target_id)
       (provenance s))"

text \<open>A refresh of derived data.\<close>

definition request_derived :: "derived_request \<Rightarrow> memory_store \<Rightarrow> memory_store" where
  "request_derived q s = s\<lparr>derived := derived s @ [q]\<rparr>"

subsection \<open>Rows\<close>

lemma dget_expose [simp]:
  "k \<noteq> ''project_scope'' \<Longrightarrow> dget (expose_memory_project_scope r) k = dget r k"
  by (simp add: expose_memory_project_scope_def)

lemma row_id_expose [simp]: "row_id (expose_memory_project_scope r) = row_id r"
  by (simp add: row_id_def)

lemma memory_metadata_expose [simp]:
  "memory_metadata (expose_memory_project_scope r) = memory_metadata r"
  by (simp add: memory_metadata_def)

lemma dget_fold_columns:
  "dget (foldl (\<lambda>d c. dset c (f c) d) r cs) k = (if k \<in> set cs then f k else dget r k)"
  by (induction cs rule: rev_induct) auto

lemma dget_patched_row:
  "dget (patched_row now patch r) k =
     (if k = ''deleted_at'' then
        (if dget patch ''status'' = JStr ''archived'' then JStr now else dget r k)
      else if k = ''updated_at'' then JStr now
      else if k \<in> set update_columns then json_or (patch_value patch k) (dget r k)
      else dget r k)"
  by (simp add: patched_row_def dget_fold_columns)

lemma row_id_patched [simp]: "row_id (patched_row now patch r) = row_id r"
  by (simp add: row_id_def dget_patched_row update_columns_def)

subsection \<open>What a write may change\<close>

definition store_ok :: "memory_store \<Rightarrow> bool" where
  "store_ok s \<longleftrightarrow> distinct (map row_id (memories s)) \<and> (\<forall>r\<in>set (memories s). dget r ''id'' \<noteq> JNull)"

definition keeps :: "(dict \<Rightarrow> dict \<Rightarrow> bool) \<Rightarrow> memory_store \<Rightarrow> memory_store \<Rightarrow> bool" where
  "keeps Q s t \<longleftrightarrow>
     list_all2 (\<lambda>r r'. dget r' ''id'' = dget r ''id''
         \<and> (dget r' ''deleted_at'' = JNull \<longrightarrow> dget r ''deleted_at'' = JNull) \<and> Q r r')
       (memories s) (memories t)"

lemma keeps_refl: "(\<And>r. Q r r) \<Longrightarrow> memories t = memories s \<Longrightarrow> keeps Q s t"
  by (simp add: keeps_def list_all2_same)

lemma keeps_trans:
  assumes "keeps Q s t" "keeps R t u"
    and "\<And>r r' r''. row_id r' = row_id r \<Longrightarrow> Q r r' \<Longrightarrow> R r' r'' \<Longrightarrow> S r r''"
  shows "keeps S s u"
  using assms(1,2) unfolding keeps_def
  by (rule list_all2_trans [rotated]) (simp, metis assms(3) row_id_def)

lemma keeps_mono: "keeps Q s t \<Longrightarrow> (\<And>r r'. Q r r' \<Longrightarrow> R r r') \<Longrightarrow> keeps R s t"
  unfolding keeps_def by (erule list_all2_mono) auto

lemma keeps_ids:
  assumes "keeps Q s t"
  shows "map row_id (memories t) = map row_id (memories s)"
proof -
  have "list_all2 (\<lambda>r r'. row_id r' = row_id r) (memories s) (memories t)"
    using assms unfolding keeps_def by (rule list_all2_mono) (simp add: row_id_def)
  then show ?thesis by (induction rule: list_all2_induct) auto
qed

lemma keeps_before:
  assumes "keeps Q s t" "r' \<in> set (memories t)"
  shows "\<exists>r\<in>set (memories s). dget r' ''id'' = dget r ''id''
           \<and> (dget r' ''deleted_at'' = JNull \<longrightarrow> dget r ''deleted_at'' = JNull) \<and> Q r r'"
  using assms(1) [unfolded keeps_def] assms(2) by (induction rule: list_all2_induct) auto

lemma keeps_after:
  assumes "keeps Q s t" "r \<in> set (memories s)"
  shows "\<exists>r'\<in>set (memories t). dget r' ''id'' = dget r ''id'' \<and> Q r r'"
  using assms(1) [unfolded keeps_def] assms(2) by (induction rule: list_all2_induct) auto

lemma keeps_ok: "keeps Q s t \<Longrightarrow> store_ok s \<Longrightarrow> store_ok t"
  unfolding store_ok_def by (auto simp: keeps_ids dest: keeps_before)

lemma same_row:
  assumes "store_ok s" "r \<in> set (memories s)" "q \<in> set (memories s)" "row_id q = row_id r"
  shows "q = r"
  using assms by (auto simp: store_ok_def distinct_map dest: inj_onD)

lemma get_memory_row:
  "get_memory s i = Some m \<Longrightarrow>
     \<exists>r\<in>set (memories s). m = expose_memory_project_scope r \<and> live_row i r"
  by (auto simp: get_memory_def find_Some_iff)

lemma live_row_get:
  assumes "store_ok s" "r \<in> set (memories s)" "live_row i r"
  shows "get_memory s i = Some (expose_memory_project_scope r)"
proof (cases "find (live_row i) (memories s)")
  case None
  with assms show ?thesis by (auto simp: find_None_iff)
next
  case (Some q)
  then have "q \<in> set (memories s)" "live_row i q" by (auto simp: find_Some_iff)
  with assms have "q = r" by (auto simp: live_row_def intro: same_row)
  with Some show ?thesis by (simp add: get_memory_def)
qed

lemma traced_frames [simp]:
  "memories (append_traced_event tr rn a b c d e f s) = memories s"
  "revisions (append_traced_event tr rn a b c d e f s) = revisions s"
  "sources (append_traced_event tr rn a b c d e f s) = sources s"
  "agents (append_traced_event tr rn a b c d e f s) = agents s"
  "provenance (append_traced_event tr rn a b c d e f s) = provenance s"
  "derived (append_traced_event tr rn a b c d e f s) = derived s"
  "instants (append_traced_event tr rn a b c d e f s) = instants s"
  "idents (append_traced_event tr rn a b c d e f s) = idents s"
  by (simp_all add: append_traced_event_def tick_def draw_def)

lemma event_frames [simp]:
  "memories (append_event a b c d e f s) = memories s" "revisions (append_event a b c d e f s) = revisions s"
  "sources (append_event a b c d e f s) = sources s" "agents (append_event a b c d e f s) = agents s"
  "provenance (append_event a b c d e f s) = provenance s" "derived (append_event a b c d e f s) = derived s"
  "instants (append_event a b c d e f s) = instants s" "idents (append_event a b c d e f s) = idents s"
  by (simp_all add: append_event_def)

lemma reading_frames [simp]:
  "memories (tick s) = memories s" "memories (draw s) = memories s"
  "revisions (tick s) = revisions s" "revisions (draw s) = revisions s"
  "event_log (tick s) = event_log s" "event_log (draw s) = event_log s"
  "sources (tick s) = sources s" "sources (draw s) = sources s"
  "instants (tick s) = instants s" "instants (draw s) = instants s"
  "idents (tick s) = idents s" "idents (draw s) = idents s"
  by (simp_all add: tick_def draw_def)

lemma revision_frames [simp]:
  "memories (append_revision a b c s) = memories s" "sources (append_revision a b c s) = sources s"
  "agents (append_revision a b c s) = agents s" "provenance (append_revision a b c s) = provenance s"
  "instants (append_revision a b c s) = instants s" "idents (append_revision a b c s) = idents s"
  by (simp_all add: append_revision_def draw_def)

lemma derived_frames [simp]:
  "memories (request_derived q s) = memories s" "revisions (request_derived q s) = revisions s"
  "event_log (request_derived q s) = event_log s" "sources (request_derived q s) = sources s"
  "instants (request_derived q s) = instants s" "idents (request_derived q s) = idents s"
  by (simp_all add: request_derived_def)

lemma agent_frames [simp]:
  "memories (upsert_agent_identity a i k s) = memories s" "revisions (upsert_agent_identity a i k s) = revisions s"
  "sources (upsert_agent_identity a i k s) = sources s" "instants (upsert_agent_identity a i k s) = instants s"
  "idents (upsert_agent_identity a i k s) = idents s"
  by (simp_all add: upsert_agent_identity_def tick_def draw_def split: option.split)

lemma link_frames [simp]:
  "memories (snd (create_provenance_link l tt ti si k s)) = memories s"
  "revisions (snd (create_provenance_link l tt ti si k s)) = revisions s"
  "sources (snd (create_provenance_link l tt ti si k s)) = sources s"
  "instants (snd (create_provenance_link l tt ti si k s)) = instants s"
  by (simp_all add: create_provenance_link_def draw_def)

text \<open>An update of a row that is not there, or that fails a check, writes nothing.\<close>

lemma update_memory_cases:
  obtains (refused) e where "update_memory i patch actor s = (Inl e, tick s)"
  | (written) r where "find (live_row i) (memories s) = Some r" "row_checks (patched_row (instant s) patch r)"
      "fst (update_memory i patch actor s) = Inr (expose_memory_project_scope (patched_row (instant s) patch r))"
      "memories (snd (update_memory i patch actor s)) =
         map (\<lambda>x. if live_row i x then patched_row (instant s) patch r else x) (memories s)"
proof (cases "find (live_row i) (memories s)")
  case None
  then show thesis by (intro refused) (simp add: update_memory_def)
next
  case (Some r)
  show thesis
  proof (cases "row_checks (patched_row (instant s) patch r)")
    case True
    with Some show thesis by (intro written [of r]) (simp_all add: update_memory_def Let_def)
  next
    case False
    with Some show thesis by (intro refused) (simp add: update_memory_def Let_def)
  qed
qed

lemma update_memory_keeps:
  assumes "store_ok s" and "\<And>r. Q r r"
    and "\<And>r. r \<in> set (memories s) \<Longrightarrow> live_row i r \<Longrightarrow> Q r (patched_row (instant s) patch r)"
  shows "keeps Q s (snd (update_memory i patch actor s))"
proof (cases i patch actor s rule: update_memory_cases)
  case (refused e)
  then show ?thesis using assms(2) by (simp add: keeps_refl)
next
  case (written r)
  from written(1) have r: "r \<in> set (memories s)" "live_row i r" by (auto simp: find_Some_iff)
  have only: "x = r" if "x \<in> set (memories s)" "live_row i x" for x
    using that r assms(1) by (auto simp: live_row_def intro: same_row)
  have "memories (snd (update_memory i patch actor s)) =
      map (\<lambda>x. if live_row i x then patched_row (instant s) patch x else x) (memories s)"
    using only by (auto simp: written(4))
  then show ?thesis
    using assms(2,3)
    by (auto simp: keeps_def list_all2_map2 list_all2_same dget_patched_row update_columns_def
        live_row_def)
qed

lemma update_memory_keeps_case:
  assumes "update_memory i patch actor s = (res, t)" "store_ok s" "\<And>r. Q r r"
    "\<And>r. r \<in> set (memories s) \<Longrightarrow> live_row i r \<Longrightarrow> Q r (patched_row (instant s) patch r)"
  shows "keeps Q s t"
  using update_memory_keeps [of s Q i patch actor] assms by simp

lemma json_or_simps [simp]: "json_or JNull w = w" "v \<noteq> JNull \<Longrightarrow> json_or v w = v"
  by (simp_all add: json_or_def)

lemma status_patched:
  "dget (patched_row now patch r) ''status'' = json_or (dget patch ''status'') (dget r ''status'')"
  by (simp add: dget_patched_row update_columns_def patch_value_def)

lemma metadata_patched:
  "has_key patch ''metadata_json'' \<Longrightarrow> dget patch ''metadata_json'' = JObj d \<Longrightarrow>
     memory_metadata (patched_row now patch r) = d"
  by (simp add: memory_metadata_def dget_patched_row update_columns_def patch_value_def)

lemma keeps_memories: "keeps Q s t \<Longrightarrow> memories u = memories t \<Longrightarrow> keeps Q s u"
  by (simp add: keeps_def)

lemma update_memory_get:
  assumes ok: "store_ok s" and up: "update_memory i patch actor s = (Inr row, t)"
    and kept: "dget patch ''status'' \<noteq> JStr ''archived''"
  shows "get_memory t k = (if k = i then Some row else get_memory s k)"
    and "\<exists>r\<in>set (memories s). live_row i r \<and> row = expose_memory_project_scope (patched_row (instant s) patch r)"
proof -
  from up obtain r where find: "find (live_row i) (memories s) = Some r"
    and row: "row = expose_memory_project_scope (patched_row (instant s) patch r)"
    and mem: "memories t = map (\<lambda>x. if live_row i x then patched_row (instant s) patch r else x) (memories s)"
    by (auto simp: update_memory_def Let_def split: option.splits if_splits)
  from find have r: "r \<in> set (memories s)" "live_row i r" by (auto simp: find_Some_iff)
  then show "\<exists>r\<in>set (memories s). live_row i r \<and>
      row = expose_memory_project_scope (patched_row (instant s) patch r)" using row by blast
  have live: "live_row k (patched_row (instant s) patch r) \<longleftrightarrow> k = i"
    using r(2) kept by (auto simp: live_row_def dget_patched_row)
  have none: "\<not> live_row k x" if "live_row i x" "k \<noteq> i" for x
    using that by (auto simp: live_row_def)
  have "find (live_row k) (map (\<lambda>x. if live_row i x then patched_row (instant s) patch r else x) xs) =
      (if k = i then map_option (\<lambda>_. patched_row (instant s) patch r) (find (live_row i) xs)
       else find (live_row k) xs)" for xs
    by (induction xs) (use live none in \<open>auto\<close>)
  with find show "get_memory t k = (if k = i then Some row else get_memory s k)"
    by (simp add: get_memory_def mem row)
qed

subsection \<open>Updates that succeed\<close>

definition stored :: "memory_store \<Rightarrow> string \<Rightarrow> bool" where
  "stored s i \<longleftrightarrow> (\<exists>r\<in>set (memories s). live_row i r)"

definition checks_ok :: "memory_store \<Rightarrow> bool" where
  "checks_ok s \<longleftrightarrow> (\<forall>r\<in>set (memories s). row_checks r)"

text \<open>No row is deleted, no validity window moves, and what an operation only reads stays as it is.\<close>

definition same_window :: "dict \<Rightarrow> dict \<Rightarrow> bool" where
  "same_window r r' \<longleftrightarrow> dget r' ''deleted_at'' = dget r ''deleted_at'' \<and> dget r' ''valid_from'' = dget r ''valid_from''
     \<and> dget r' ''valid_to'' = dget r ''valid_to''"

definition undeleted :: "memory_store \<Rightarrow> memory_store \<Rightarrow> bool" where
  "undeleted s t \<longleftrightarrow> keeps same_window s t
     \<and> (checks_ok s \<longrightarrow> checks_ok t) \<and> sources t = sources s \<and> instants t = instants s"

lemma undeleted_refl: "memories t = memories s \<Longrightarrow> sources t = sources s \<Longrightarrow> instants t = instants s \<Longrightarrow>
    undeleted s t"
  by (simp add: undeleted_def keeps_refl checks_ok_def same_window_def)

lemma undeleted_trans: "undeleted s t \<Longrightarrow> undeleted t u \<Longrightarrow> undeleted s u"
  unfolding undeleted_def by (auto intro: keeps_trans simp: same_window_def)

lemma undeleted_stored:
  assumes "undeleted s t" "stored s i"
  shows "stored t i"
proof -
  from assms(2) obtain r where r: "r \<in> set (memories s)" "live_row i r" by (auto simp: stored_def)
  from keeps_after [OF _ r(1), of same_window t] assms(1) obtain r' where
    "r' \<in> set (memories t)" "dget r' ''id'' = dget r ''id''" "same_window r r'" by (auto simp: undeleted_def)
  with r(2) have "live_row i r'" by (simp add: live_row_def row_id_def same_window_def)
  with \<open>r' \<in> set (memories t)\<close> show ?thesis by (auto simp: stored_def)
qed

lemma undeleted_ok: "undeleted s t \<Longrightarrow> store_ok s \<Longrightarrow> store_ok t"
  unfolding undeleted_def by (blast intro: keeps_ok)

lemma undeleted_checks: "undeleted s t \<Longrightarrow> checks_ok s \<Longrightarrow> checks_ok t"
  by (simp add: undeleted_def)

lemma get_stored: "get_memory s i = Some m \<Longrightarrow> stored s i"
  by (auto simp: stored_def dest: get_memory_row)

text \<open>A patch that leaves the checked columns alone passes the checks.\<close>

definition window_free :: "dict \<Rightarrow> bool" where
  "window_free patch \<longleftrightarrow> dget patch ''status'' \<noteq> JStr ''archived'' \<and> dget patch ''valid_from'' = JNull
     \<and> dget patch ''valid_to'' = JNull \<and> dget patch ''confidence'' = JNull \<and> dget patch ''salience'' = JNull"

lemma window_free_checks: "window_free patch \<Longrightarrow> row_checks (patched_row now patch r) \<longleftrightarrow> row_checks r"
  by (simp add: window_free_def row_checks_def dget_patched_row update_columns_def patch_value_def)

lemma update_runs:
  assumes "store_ok s" "checks_ok s" "stored s i" "window_free patch"
  shows "\<exists>row t. update_memory i patch actor s = (Inr row, t) \<and> undeleted s t"
proof -
  from assms(3) obtain r where r: "find (live_row i) (memories s) = Some r"
    by (cases "find (live_row i) (memories s)") (auto simp: stored_def find_None_iff)
  then have "r \<in> set (memories s)" by (auto simp: find_Some_iff)
  with assms(2,4) have ok: "row_checks (patched_row (instant s) patch r)"
    by (simp add: checks_ok_def window_free_checks)
  have "keeps same_window s (snd (update_memory i patch actor s))"
    by (rule update_memory_keeps [OF assms(1)])
       (use assms(4) in \<open>simp_all add: same_window_def dget_patched_row update_columns_def patch_value_def window_free_def\<close>)
  with r ok show ?thesis
    by (auto simp: update_memory_def Let_def undeleted_def checks_ok_def)
qed

end
