(* ===== verification/Memory_Supersession.thy ===== *)
theory Memory_Supersession
  imports Lifecycle Memory_Store
begin

text \<open>
  Retiring a memory: \<open>_transition_memory\<close> of \<open>vnext_memory_commit.py\<close>, which every undo, forget
  and consolidation acceptance goes through, over the store of \<open>Memory_Store\<close>.

  The argument \<open>dated\<close> of a transition is the match of the expression for decorated dates.
\<close>

subsection \<open>The transition\<close>

text \<open>What the callers (\<open>undo\<close>, \<open>forget\<close>, consolidation acceptance) pass.\<close>

record transition_request =
  tq_agent :: "string option"
  tq_operation :: string
  tq_lifecycle_status :: string
  tq_next_status :: string
  tq_event_type :: string
  tq_revision_type :: string
  tq_action :: string
  tq_reason :: string
  tq_set_successor_pointer :: bool
  tq_exclude :: "string option"
  tq_allow_pending :: bool

definition undo_request :: "string option \<Rightarrow> string option \<Rightarrow> transition_request" where
  "undo_request agent reason =
     \<lparr>tq_agent = agent, tq_operation = ''undo'', tq_lifecycle_status = ''undone'',
      tq_next_status = ''superseded'', tq_event_type = ''agent.memory_undone'',
      tq_revision_type = ''superseded'', tq_action = ''agentic_memory_undo'',
      tq_reason = str_or (opt_str reason) ''Agentic memory commit undone.'',
      tq_set_successor_pointer = True, tq_exclude = None, tq_allow_pending = False\<rparr>"

definition forget_request :: "string option \<Rightarrow> string option \<Rightarrow> transition_request" where
  "forget_request agent reason =
     \<lparr>tq_agent = agent, tq_operation = ''forget'', tq_lifecycle_status = ''forgotten'',
      tq_next_status = ''superseded'', tq_event_type = ''agent.memory_forgotten'',
      tq_revision_type = ''archived'', tq_action = ''agentic_memory_forget'',
      tq_reason = str_or (opt_str reason) ''Agentic memory forgotten.'',
      tq_set_successor_pointer = True, tq_exclude = None, tq_allow_pending = False\<rparr>"

definition actor_type :: "string option \<Rightarrow> string" where
  "actor_type agent = (case agent of None \<Rightarrow> ''user'' | Some _ \<Rightarrow> ''agent'')"

definition supersession_pointer :: "dict \<Rightarrow> string \<Rightarrow> string option" where
  "supersession_pointer row key =
     (if py_truthy (dget row key) then Some (py_str (dget row key))
      else case as_obj (dget row ''metadata_json'') of
             None \<Rightarrow> None
           | Some metadata \<Rightarrow>
               (case dget metadata key of
                  JStr t \<Rightarrow> if t = [] then None else Some t
                | _ \<Rightarrow> None))"

definition CONSOLIDATION_ACCEPTABLE_STATUSES :: "string list" where
  [model_defs]: "CONSOLIDATION_ACCEPTABLE_STATUSES = [''candidate'', ''needs_review'']"

definition require_transition :: "string \<Rightarrow> string \<Rightarrow> memory_error + string" where
  "require_transition operation current_status =
     (case resolve_transition operation current_status of
        Inl (LifecycleTransitionError m) \<Rightarrow> Inl (VNextMemoryCommitValidationError m)
      | Inr target \<Rightarrow> Inr target)"

definition require_valid_supersession_successor :: "dict \<Rightarrow> bool \<Rightarrow> memory_error + unit" where
  "require_valid_supersession_successor successor allow_pending =
     (let status = str_or (dget successor ''status'') '''';
          allowed = SUPERSESSION_SUCCESSOR_STATUSES @
                    (if allow_pending then CONSOLIDATION_ACCEPTABLE_STATUSES else [])
      in raise_if (status \<notin> set allowed)
           (VNextMemoryCommitValidationError
             (''superseding memory must be an accepted live successor; got status ''
              @ CHR 0x27 # (if status = [] then ''unknown'' else status) @ [CHR 0x27])))"

definition guard_supersession_acyclic ::
  "dict \<Rightarrow> dict \<Rightarrow> bool \<Rightarrow> memory_store \<Rightarrow> memory_error + unit" where
  "guard_supersession_acyclic memory successor allow_pending s =
     bind_res (require_valid_supersession_successor successor allow_pending) (\<lambda>_.
       case supersession_would_cycle (row_id memory) successor (get_memory s)
              supersession_pointer swc_max_depth of
         Inl (LifecycleTransitionError m) \<Rightarrow> Inl (VNextMemoryCommitValidationError m)
       | Inr would_cycle \<Rightarrow>
           raise_if would_cycle
             (VNextMemoryCommitValidationError
               (''cannot supersede a memory with one of its own predecessors; ''
                @ ''that would create a supersession cycle'')))"

text \<open>\<open>_invalidate_pending_derived_candidates\<close>, one candidate after the other.\<close>

definition invalidated_patch :: "string \<Rightarrow> string \<Rightarrow> string \<Rightarrow> dict \<Rightarrow> dict \<Rightarrow> dict" where
  "invalidated_patch invalidated_at member_id reason candidate consolidation =
     [(''status'', JStr ''stale''), (''promotion_eligibility'', JStr ''not_promotable''),
      (''last_reviewed_at'', JStr invalidated_at),
      (''metadata_json'', JObj (dset ''consolidation''
         (JObj (dset ''invalidated''
            (JObj [(''invalidated_at'', JStr invalidated_at), (''member_id'', JStr member_id),
                   (''reason'', JStr reason)]) consolidation))
         (dset ''review_required'' (JBool False) (memory_metadata candidate))))]"

definition invalidate_candidate ::
  "string \<Rightarrow> string option \<Rightarrow> string \<Rightarrow> string \<Rightarrow> dict \<Rightarrow> memory_store \<Rightarrow>
    (memory_error + unit) \<times> memory_store" where
  "invalidate_candidate invalidated_at agent member_id reason candidate s =
     (case as_obj (dget (memory_metadata candidate) ''consolidation'') of
        None \<Rightarrow> (Inr (), s)
      | Some consolidation \<Rightarrow>
          if as_obj (dget consolidation ''accepted'') \<noteq> None then (Inr (), s)
          else
            let invalidated = [(''invalidated_at'', JStr invalidated_at),
                               (''member_id'', JStr member_id), (''reason'', JStr reason)]
            in (case update_memory (row_id candidate)
                       (invalidated_patch invalidated_at member_id reason candidate consolidation)
                       (actor_type agent) s of
                  (Inl e, t) \<Rightarrow> (Inl e, t)
                | (Inr updated, t) \<Rightarrow>
                    (Inr (),
                     append_event ''agent.memory_consolidation_candidate_invalidated''
                       (actor_type agent) agent ''memory'' (row_id candidate) invalidated
                       (append_revision
                         [(''memory_key'', JStr (py_str (dget updated ''memory_key''))),
                          (''previous_value'', json_or (dget candidate ''value'') (JObj [])),
                          (''new_value'', json_or (dget updated ''value'') (JObj [])),
                          (''source_event_ids'', json_or (dget updated ''source_event_ids'') (JList [])),
                          (''revision_type'', JStr ''rejected''),
                          (''action'', JStr ''memory_consolidation_candidate_invalidated''),
                          (''text_before'', JStr (str_or (dget candidate ''canonical_text'') '''')),
                          (''text_after'', JStr (str_or (dget updated ''canonical_text'') '''')),
                          (''reason'', JStr reason), (''actor_type'', JStr (actor_type agent)),
                          (''actor_id'', opt_str agent), (''metadata_json'', JObj invalidated)]
                         (row_id candidate) (actor_type agent) t))))"

fun invalidate_candidates ::
  "string \<Rightarrow> string option \<Rightarrow> string \<Rightarrow> string \<Rightarrow> dict list \<Rightarrow> memory_store \<Rightarrow>
    (memory_error + unit) \<times> memory_store" where
  "invalidate_candidates invalidated_at agent member_id reason [] s = (Inr (), s)"
| "invalidate_candidates invalidated_at agent member_id reason (c # cs) s =
     (case invalidate_candidate invalidated_at agent member_id reason c s of
        (Inl e, t) \<Rightarrow> (Inl e, t)
      | (Inr _, t) \<Rightarrow> invalidate_candidates invalidated_at agent member_id reason cs t)"

definition invalidate_pending_derived_candidates ::
  "string \<Rightarrow> string option \<Rightarrow> string \<Rightarrow> string option \<Rightarrow> memory_store \<Rightarrow>
    (memory_error + unit) \<times> memory_store" where
  "invalidate_pending_derived_candidates member_id agent reason exclude s =
     invalidate_candidates (instant s) agent member_id reason
       (list_pending_derived_candidates member_id exclude (tick s)) (tick s)"

text \<open>The patch of the retired row.\<close>

definition history_entry :: "transition_request \<Rightarrow> string \<Rightarrow> json" where
  "history_entry x at_time =
     JObj [(''status'', JStr (tq_lifecycle_status x)), (''at'', JStr at_time),
           (''reason'', JStr (tq_reason x))]"

definition retired_agentic :: "transition_request \<Rightarrow> string \<Rightarrow> dict \<Rightarrow> dict" where
  "retired_agentic x at_time memory =
     (let agentic = agentic_metadata memory;
          history = (case dget agentic ''lifecycle_history'' of JList h \<Rightarrow> h | _ \<Rightarrow> [])
      in dset ''lifecycle_history'' (JList (history @ [history_entry x at_time]))
           (dset ''lifecycle_status'' (JStr (tq_lifecycle_status x)) agentic))"

definition retirement_patch ::
  "transition_request \<Rightarrow> string \<Rightarrow> string \<Rightarrow> dict \<Rightarrow> dict option \<Rightarrow> dict" where
  "retirement_patch x at_time closing memory superseded_by =
     (case superseded_by of
        None \<Rightarrow>
          [(''status'', JStr (tq_next_status x)),
           (''metadata_json'', JObj (dset ''agentic_memory''
              (JObj (retired_agentic x at_time memory)) (memory_metadata memory)))]
      | Some successor \<Rightarrow>
          [(''status'', JStr (tq_next_status x)),
           (''metadata_json'', JObj (dset ''agentic_memory''
              (JObj (retired_agentic x at_time memory))
              (dset ''superseded_by'' (JStr (row_id successor)) (memory_metadata memory)))),
           (''superseded_by'', JStr (row_id successor)),
           (''valid_to'', JStr closing)])"

definition successor_patch :: "dict \<Rightarrow> dict \<Rightarrow> dict" where
  "successor_patch memory successor =
     [(''supersedes'', JStr (row_id memory)),
      (''metadata_json'', JObj (dset ''supersedes'' (JStr (row_id memory)) (memory_metadata successor)))]"

definition with_pointer :: "dict option \<Rightarrow> dict \<Rightarrow> dict" where
  "with_pointer superseded_by d =
     (case superseded_by of
        None \<Rightarrow> d
      | Some successor \<Rightarrow> d @ [(''superseded_by'', JStr (row_id successor))])"

text \<open>The successor's single-valued \<open>supersedes\<close> pointer, unless the caller sets it itself.\<close>

definition point_back ::
  "transition_request \<Rightarrow> dict \<Rightarrow> dict option \<Rightarrow> memory_store \<Rightarrow> (memory_error + unit) \<times> memory_store" where
  "point_back x memory superseded_by s =
     (case superseded_by of
        Some successor \<Rightarrow>
          if tq_set_successor_pointer x
          then (case update_memory (row_id successor) (successor_patch memory successor)
                       (actor_type (tq_agent x)) s of
                  (Inl e, t) \<Rightarrow> (Inl e, t) | (Inr _, t) \<Rightarrow> (Inr (), t))
          else (Inr (), s)
      | None \<Rightarrow> (Inr (), s))"

definition record_retirement ::
  "transition_request \<Rightarrow> dict \<Rightarrow> dict \<Rightarrow> dict option \<Rightarrow> memory_store \<Rightarrow> memory_store" where
  "record_retirement x memory updated superseded_by s =
     append_event (tq_event_type x) (actor_type (tq_agent x)) (tq_agent x) ''memory'' (row_id updated)
       (with_pointer superseded_by
          [(''lifecycle_status'', JStr (tq_lifecycle_status x)), (''reason'', JStr (tq_reason x))])
       (append_revision
          [(''memory_key'', JStr (py_str (dget updated ''memory_key''))),
           (''previous_value'', json_or (dget memory ''value'') (JObj [])),
           (''new_value'', json_or (dget updated ''value'') (JObj [])),
           (''source_event_ids'', json_or (dget updated ''source_event_ids'') (JList [])),
           (''revision_type'', JStr (tq_revision_type x)), (''action'', JStr (tq_action x)),
           (''text_before'', JStr (str_or (dget memory ''canonical_text'') '''')),
           (''text_after'', JStr (str_or (dget updated ''canonical_text'') '''')),
           (''reason'', JStr (tq_reason x)), (''actor_type'', JStr (actor_type (tq_agent x))),
           (''actor_id'', opt_str (tq_agent x)),
           (''metadata_json'', JObj (with_pointer superseded_by
              [(''lifecycle_status'', JStr (tq_lifecycle_status x))]))]
          (row_id updated) (actor_type (tq_agent x)) s)"

text \<open>
  The instant at which the row stops being valid, when it has a successor; the clock is read only
  when the successor has no event time.
\<close>

definition closing_of ::
  "dated_match \<Rightarrow> dict \<Rightarrow> dict option \<Rightarrow> memory_store \<Rightarrow> (memory_error + string) \<times> memory_store" where
  "closing_of dated memory superseded_by s =
     (case superseded_by of
        None \<Rightarrow> (Inr [], s)
      | Some successor \<Rightarrow>
          (closing_time dated (get_source s) (instant s) memory successor,
           if supersession_event_time dated (get_source s) successor = Inr None then tick s else s))"

text \<open>Everything \<open>_transition_memory\<close> does once its two guards have passed.\<close>

definition write_transition ::
  "transition_request \<Rightarrow> dated_match \<Rightarrow> dict \<Rightarrow> dict option \<Rightarrow> memory_store \<Rightarrow>
    (memory_error + dict) \<times> memory_store" where
  "write_transition x dated memory superseded_by s =
     (case invalidate_pending_derived_candidates (row_id memory) (tq_agent x)
             (''source memory transitioned to '' @ tq_next_status x
              @ '' after the derived candidate was proposed'') (tq_exclude x) (tick s) of
        (Inl e, t) \<Rightarrow> (Inl e, t)
      | (Inr _, t) \<Rightarrow>
          (case closing_of dated memory superseded_by t of
             (Inl e, t') \<Rightarrow> (Inl e, t')
           | (Inr closing, t') \<Rightarrow>
               (case update_memory (row_id memory)
                       (retirement_patch x (instant s) closing memory superseded_by)
                       (actor_type (tq_agent x)) t' of
                  (Inl e, u) \<Rightarrow> (Inl e, u)
                | (Inr updated, u) \<Rightarrow>
                    (case point_back x memory superseded_by u of
                       (Inl e, v) \<Rightarrow> (Inl e, v)
                     | (Inr _, v) \<Rightarrow>
                         (Inr updated, record_retirement x memory updated superseded_by v)))))"

definition transition_memory ::
  "transition_request \<Rightarrow> dated_match \<Rightarrow> dict \<Rightarrow> dict option \<Rightarrow> memory_store \<Rightarrow>
    (memory_error + dict) \<times> memory_store" where
  "transition_memory x dated memory superseded_by s =
     (case require_transition (tq_operation x) (str_or (dget memory ''status'') '''') of
        Inl e \<Rightarrow> (Inl e, s)
      | Inr _ \<Rightarrow>
          (case (case superseded_by of
                   None \<Rightarrow> Inr ()
                 | Some successor \<Rightarrow>
                     guard_supersession_acyclic memory successor (tq_allow_pending x) s) of
             Inl e \<Rightarrow> (Inl e, s)
           | Inr _ \<Rightarrow> write_transition x dated memory superseded_by s))"

subsection \<open>Rows\<close>

lemma pointer_expose [simp]:
  "k \<noteq> ''project_scope'' \<Longrightarrow>
     supersession_pointer (expose_memory_project_scope r) k = supersession_pointer r k"
  by (simp add: supersession_pointer_def)

text \<open>The pointer of a row depends on its column and on the copy in its metadata.\<close>

definition pointer_parts :: "dict \<Rightarrow> json \<times> json" where
  "pointer_parts r = (dget r ''superseded_by'', dget (memory_metadata r) ''superseded_by'')"

definition pointer_of_parts :: "json \<times> json \<Rightarrow> string option" where
  "pointer_of_parts p =
     (if py_truthy (fst p) then Some (py_str (fst p))
      else case snd p of JStr t \<Rightarrow> if t = [] then None else Some t | _ \<Rightarrow> None)"

lemma pointer_by_parts: "supersession_pointer r ''superseded_by'' = pointer_of_parts (pointer_parts r)"
  by (cases "dget r ''metadata_json''")
     (auto simp: supersession_pointer_def pointer_of_parts_def pointer_parts_def memory_metadata_def)

definition retired_row :: "dict \<Rightarrow> bool" where
  "retired_row r \<longleftrightarrow> dget r ''status'' \<in> JStr ` set RETIRED_STATUSES"

subsection \<open>What a write may change\<close>

text \<open>
  \<open>calm\<close>: neither the pointer nor a retired status moves.  \<open>edge a b\<close>: the same, but that the
  pointer of a live row \<open>a\<close> may now be \<open>b\<close>, and \<open>a\<close> may have been retired.
\<close>

definition calm :: "dict \<Rightarrow> dict \<Rightarrow> bool" where
  "calm r r' \<longleftrightarrow> pointer_parts r' = pointer_parts r \<and> (retired_row r' \<longleftrightarrow> retired_row r)
     \<and> (retired_row r \<longrightarrow> dget r' ''status'' = dget r ''status'')"

definition edge :: "string \<Rightarrow> string option \<Rightarrow> dict \<Rightarrow> dict \<Rightarrow> bool" where
  "edge a b r r' \<longleftrightarrow>
     (if row_id r = a
      then pointer_of_parts (pointer_parts r') \<in> {None, b, pointer_of_parts (pointer_parts r)}
      else calm r r')"

lemma calm_refl [simp]: "calm r r" by (simp add: calm_def)

lemma calm_trans: "calm r r' \<Longrightarrow> calm r' r'' \<Longrightarrow> calm r r''"
  by (auto simp: calm_def)

lemma pointer_column_patched:
  "dget (patched_row now patch r) ''superseded_by'' =
     json_or (dget patch ''superseded_by'') (dget r ''superseded_by'')"
  by (simp add: dget_patched_row update_columns_def patch_value_def)

lemmas patched = status_patched metadata_patched pointer_column_patched

lemma not_retired_stale: "JStr ''stale'' \<notin> JStr ` set RETIRED_STATUSES"
  by (simp add: RETIRED_STATUSES_def)

lemma invalidation_calm:
  assumes "\<not> retired_row r" "dget (memory_metadata r) ''superseded_by'' = dget (memory_metadata c) ''superseded_by''"
  shows "calm r (patched_row now (invalidated_patch at_time m reason c d) r)"
  using assms not_retired_stale
  by (simp add: calm_def pointer_parts_def patched invalidated_patch_def retired_row_def)

text \<open>A candidate, as read, still describes the row it was read from.\<close>

definition candidate_pending :: "memory_store \<Rightarrow> dict \<Rightarrow> bool" where
  "candidate_pending s c \<longleftrightarrow> (\<forall>r\<in>set (memories s). row_id r = row_id c \<longrightarrow>
     \<not> retired_row r \<and>
     dget (memory_metadata r) ''superseded_by'' = dget (memory_metadata c) ''superseded_by'')"

lemma candidate_pending_keeps:
  assumes "keeps calm s t" "candidate_pending s c"
  shows "candidate_pending t c"
  unfolding candidate_pending_def
proof (intro ballI impI)
  fix r' assume r': "r' \<in> set (memories t)" "row_id r' = row_id c"
  from keeps_before [OF assms(1) r'(1)] obtain r where
    "r \<in> set (memories s)" "dget r' ''id'' = dget r ''id''" "calm r r'" by blast
  with r'(2) assms(2) show "\<not> retired_row r' \<and>
      dget (memory_metadata r') ''superseded_by'' = dget (memory_metadata c) ''superseded_by''"
    by (auto simp: candidate_pending_def calm_def pointer_parts_def row_id_def)
qed

lemma invalidate_candidate_keeps:
  assumes ok: "store_ok s" and pending: "candidate_pending s c"
  shows "keeps calm s (snd (invalidate_candidate at_time agent m reason c s))"
proof (cases "as_obj (dget (memory_metadata c) ''consolidation'')")
  case None
  then show ?thesis by (simp add: invalidate_candidate_def keeps_refl)
next
  case (Some d)
  let ?u = "update_memory (row_id c) (invalidated_patch at_time m reason c d) (actor_type agent) s"
  have update: "keeps calm s (snd ?u)"
    by (rule update_memory_keeps [OF ok])
       (use pending in \<open>auto simp: candidate_pending_def live_row_def intro: invalidation_calm\<close>)
  obtain res t where u: "?u = (res, t)" by (cases ?u)
  show ?thesis
  proof (cases "as_obj (dget d ''accepted'') \<noteq> None")
    case True
    with Some show ?thesis by (simp add: invalidate_candidate_def keeps_refl)
  next
    case False
    with Some u have "memories (snd (invalidate_candidate at_time agent m reason c s)) = memories t"
      by (cases res) (simp_all add: invalidate_candidate_def Let_def)
    then show ?thesis using update u by (simp add: keeps_def)
  qed
qed

lemma invalidate_candidates_keeps:
  "store_ok s \<Longrightarrow> \<forall>c\<in>set cs. candidate_pending s c \<Longrightarrow>
     keeps calm s (snd (invalidate_candidates at_time agent m reason cs s))"
proof (induction cs arbitrary: s)
  case Nil
  show ?case by (simp add: keeps_refl)
next
  case (Cons c cs)
  obtain res t where i: "invalidate_candidate at_time agent m reason c s = (res, t)"
    by (cases "invalidate_candidate at_time agent m reason c s")
  then have first: "keeps calm s t"
    using invalidate_candidate_keeps [OF Cons.prems(1), of c at_time agent m reason] Cons.prems(2)
    by simp
  show ?case
  proof (cases res)
    case (Inl e)
    with i first show ?thesis by simp
  next
    case (Inr u)
    have "keeps calm t (snd (invalidate_candidates at_time agent m reason cs t))"
      using Cons.prems(2) candidate_pending_keeps [OF first]
      by (intro Cons.IH keeps_ok [OF first Cons.prems(1)]) auto
    with first have "keeps calm s (snd (invalidate_candidates at_time agent m reason cs t))"
      by (rule keeps_trans) (blast intro: calm_trans)
    with i Inr show ?thesis by simp
  qed
qed

lemma pending_listed:
  assumes "store_ok s" "c \<in> set (list_pending_derived_candidates m exclude s)"
  shows "candidate_pending s c"
proof -
  from assms(2) obtain r where r: "r \<in> set (memories s)" "c = expose_memory_project_scope r"
    and "dget r ''status'' \<in> {JStr ''candidate'', JStr ''needs_review''}"
    by (auto simp: list_pending_derived_candidates_def)
  then have "\<not> retired_row r" by (auto simp: retired_row_def RETIRED_STATUSES_def)
  moreover have "q = r" if "q \<in> set (memories s)" "row_id q = row_id c" for q
    using same_row [OF assms(1) r(1) that(1)] that(2) r(2) by simp
  ultimately show ?thesis using r(2) unfolding candidate_pending_def
    by (metis memory_metadata_expose)
qed

lemma invalidation_keeps:
  assumes "store_ok s"
  shows "keeps calm s (snd (invalidate_pending_derived_candidates m agent reason exclude s))"
proof -
  have ok: "store_ok (tick s)" using assms by (simp add: store_ok_def)
  have "keeps calm (tick s) (snd (invalidate_candidates (instant s) agent m reason
          (list_pending_derived_candidates m exclude (tick s)) (tick s)))"
    by (rule invalidate_candidates_keeps [OF ok]) (auto intro: pending_listed [OF ok])
  then show ?thesis by (simp add: invalidate_pending_derived_candidates_def keeps_def)
qed

subsection \<open>What a retirement may change\<close>

text \<open>A row handed to the transition still shows the metadata pointer of the stored row.\<close>

definition up_to_date :: "memory_store \<Rightarrow> dict \<Rightarrow> bool" where
  "up_to_date s m \<longleftrightarrow> (\<forall>r\<in>set (memories s). row_id r = row_id m \<longrightarrow>
     dget (memory_metadata r) ''superseded_by'' = dget (memory_metadata m) ''superseded_by'')"

lemma read_up_to_date:
  assumes "store_ok s" "get_memory s i = Some m"
  shows "up_to_date s m \<and> row_id m = i"
proof -
  from get_memory_row [OF assms(2)] obtain r
    where r: "r \<in> set (memories s)" "m = expose_memory_project_scope r" "live_row i r" by blast
  then have "row_id m = i" by (simp add: live_row_def)
  moreover have "q = r" if "q \<in> set (memories s)" "row_id q = row_id m" for q
    using same_row [OF assms(1) r(1) that(1)] that(2) r(2) by simp
  ultimately show ?thesis using r(2) unfolding up_to_date_def by (metis memory_metadata_expose)
qed

lemma up_to_date_keeps:
  assumes "keeps Q s t" "up_to_date s m"
    and "\<And>r r'. row_id r = row_id m \<Longrightarrow> Q r r' \<Longrightarrow> pointer_parts r' = pointer_parts r"
  shows "up_to_date t m"
  unfolding up_to_date_def
proof (intro ballI impI)
  fix r' assume r': "r' \<in> set (memories t)" "row_id r' = row_id m"
  from keeps_before [OF assms(1) r'(1)] obtain r where r:
    "r \<in> set (memories s)" "dget r' ''id'' = dget r ''id''" "Q r r'" by blast
  with r' have id: "row_id r = row_id m" by (simp add: row_id_def)
  from assms(3) [OF id r(3)] r(1) id assms(2)
  show "dget (memory_metadata r') ''superseded_by'' = dget (memory_metadata m) ''superseded_by''"
    by (auto simp: up_to_date_def pointer_parts_def)
qed

lemma edge_refl [simp]: "edge a b r r"
  by (simp add: edge_def)

lemma calm_edge: "calm r r' \<Longrightarrow> edge a b r r'"
  by (simp add: edge_def calm_def)

lemma edge_trans: "row_id r' = row_id r \<Longrightarrow> edge a b r r' \<Longrightarrow> edge a b r' r'' \<Longrightarrow> edge a b r r''"
  by (auto simp: edge_def intro: calm_trans split: if_splits)

lemma pointer_written: "pointer_of_parts (JStr b, JStr b) \<in> {None, Some b}"
  by (simp add: pointer_of_parts_def)

lemma retirement_edge:
  assumes "row_id r = row_id m"
    and "dget (memory_metadata r) ''superseded_by'' = dget (memory_metadata m) ''superseded_by''"
  shows "edge (row_id m) (map_option row_id succ) r
           (patched_row now (retirement_patch x at_time closing m succ) r)"
proof (cases succ)
  case None
  then show ?thesis
    using assms by (simp add: edge_def pointer_parts_def patched retirement_patch_def)
next
  case (Some n)
  then show ?thesis
    using assms(1) pointer_written [of "row_id n"]
    by (auto simp: edge_def pointer_parts_def patched retirement_patch_def)
qed

lemma successor_calm:
  assumes "dget (memory_metadata r) ''superseded_by'' = dget (memory_metadata n) ''superseded_by''"
  shows "calm r (patched_row now (successor_patch m n) r)"
  using assms by (simp add: calm_def pointer_parts_def patched successor_patch_def retired_row_def)

lemma retirement_keeps:
  assumes ok: "store_ok s" and m: "up_to_date s m"
  shows "keeps (edge (row_id m) (map_option row_id succ)) s
           (snd (update_memory (row_id m) (retirement_patch x at_time closing m succ) actor s))"
  using ok
  by (rule update_memory_keeps)
     (use m in \<open>auto simp: live_row_def up_to_date_def intro!: retirement_edge\<close>)

lemma point_back_keeps:
  assumes ok: "store_ok s" and n: "\<And>n. succ = Some n \<Longrightarrow> up_to_date s n"
  shows "keeps calm s (snd (point_back x m succ s))"
proof (cases succ)
  case None
  then show ?thesis by (simp add: point_back_def keeps_refl)
next
  case (Some n)
  let ?u = "update_memory (row_id n) (successor_patch m n) (actor_type (tq_agent x)) s"
  have "keeps calm s (snd ?u)"
    by (rule update_memory_keeps [OF ok])
       (use n [OF Some] in \<open>auto simp: live_row_def up_to_date_def intro!: successor_calm\<close>)
  then show ?thesis
    using Some by (auto simp: point_back_def keeps_refl split: prod.split sum.split)
qed

lemma memories_record_retirement [simp]:
  "memories (record_retirement x m u succ s) = memories s"
  by (simp add: record_retirement_def)

text \<open>
  The whole transition: the pointer of the retired row becomes the successor's id or stays,
  every other row is calm.
\<close>

lemma write_transition_keeps:
  assumes ok: "store_ok s" and m: "up_to_date s m"
    and n: "\<And>n. succ = Some n \<Longrightarrow> up_to_date s n \<and> row_id n \<noteq> row_id m"
  shows "keeps (edge (row_id m) (map_option row_id succ)) s
           (snd (write_transition x dated m succ s))"
proof -
  let ?Q = "edge (row_id m) (map_option row_id succ)"
  let ?inv = "invalidate_pending_derived_candidates (row_id m) (tq_agent x)
     (''source memory transitioned to '' @ tq_next_status x
      @ '' after the derived candidate was proposed'') (tq_exclude x) (tick s)"
  obtain r1 t where inv: "?inv = (r1, t)" by (cases ?inv)
  obtain r0 t' where cl: "closing_of dated m succ t = (r0, t')" by (cases "closing_of dated m succ t")
  then have mem: "memories t' = memories t" by (auto simp: closing_of_def split: option.splits)
  let ?upd = "update_memory (row_id m) (retirement_patch x (instant s) (projr r0) m succ)
     (actor_type (tq_agent x)) t'"
  obtain r2 u where upd: "?upd = (r2, u)" by (cases ?upd)
  obtain r3 v where pb: "point_back x m succ u = (r3, v)" by (cases "point_back x m succ u")
  have "store_ok (tick s)" using ok by (simp add: store_ok_def)
  from invalidation_keeps [OF this, of "row_id m" "tq_agent x"
      "''source memory transitioned to '' @ tq_next_status x
       @ '' after the derived candidate was proposed''" "tq_exclude x"] inv mem
  have st: "keeps calm s t'" and st0: "keeps calm s t" by (simp_all add: keeps_def)
  from st have stQ: "keeps ?Q s t'" by (rule keeps_mono) (rule calm_edge)
  from st0 have stQ0: "keeps ?Q s t" by (rule keeps_mono) (rule calm_edge)
  from up_to_date_keeps [OF st m] have mt: "up_to_date t' m" by (simp add: calm_def)
  from retirement_keeps [OF keeps_ok [OF st ok] mt, of succ x "instant s" "projr r0"
      "actor_type (tq_agent x)"] upd
  have tu: "keeps ?Q t' u" by simp
  have su: "keeps ?Q s u"
    by (rule keeps_trans [OF stQ tu]) (rule edge_trans)
  have "up_to_date u k" if "succ = Some k" for k
  proof (rule up_to_date_keeps [OF tu])
    show "up_to_date t' k"
      using up_to_date_keeps [OF st] n [OF that] by (simp add: calm_def)
  qed (use n [OF that] in \<open>auto simp: edge_def calm_def\<close>)
  then have "keeps calm u (snd (point_back x m succ u))"
    by (rule point_back_keeps [OF keeps_ok [OF su ok]])
  with pb have uv: "keeps calm u v" by simp
  have sv: "keeps ?Q s v"
    by (rule keeps_trans [OF su uv]) (blast intro: edge_trans calm_edge)
  show ?thesis
    using inv cl upd pb stQ stQ0 su sv
    by (cases r1; cases r0) (auto simp: write_transition_def intro: keeps_memories split: sum.split)
qed

subsection \<open>The pointer graph\<close>

lemma store_ok_keyed:
  assumes "store_ok s"
  shows "keyed_store (get_memory s)"
  unfolding keyed_store_def
proof (intro allI impI)
  fix i m assume "get_memory s i = Some m"
  from get_memory_row [OF this] obtain r
    where "r \<in> set (memories s)" "m = expose_memory_project_scope r" "live_row i r" by blast
  with assms show "dget m ''id'' \<noteq> JNull \<and> row_id m = i"
    by (simp add: store_ok_def live_row_def)
qed

lemma points_to_rows:
  assumes "store_ok s"
  shows "points_to (get_memory s) supersession_pointer a b \<longleftrightarrow>
     (\<exists>r\<in>set (memories s). live_row a r \<and> pointer_of_parts (pointer_parts r) = Some b \<and> b \<noteq> [])"
proof
  assume "points_to (get_memory s) supersession_pointer a b"
  then obtain m where "get_memory s a = Some m" "supersession_pointer m ''superseded_by'' = Some b"
    "b \<noteq> []" by (auto simp: points_to_def)
  with get_memory_row [of s a m] show "\<exists>r\<in>set (memories s). live_row a r
      \<and> pointer_of_parts (pointer_parts r) = Some b \<and> b \<noteq> []"
    by (auto simp: pointer_by_parts pointer_parts_def)
next
  assume "\<exists>r\<in>set (memories s). live_row a r \<and> pointer_of_parts (pointer_parts r) = Some b \<and> b \<noteq> []"
  then show "points_to (get_memory s) supersession_pointer a b"
    using live_row_get [OF assms] by (auto simp: points_to_def pointer_by_parts pointer_parts_def)
qed

lemma edge_points_to:
  assumes ok: "store_ok s" and k: "keeps (edge a ob) s t"
    and p: "points_to (get_memory t) supersession_pointer x y"
  shows "points_to (get_memory s) supersession_pointer x y \<or> x = a \<and> ob = Some y"
proof -
  from p points_to_rows [OF keeps_ok [OF k ok]] obtain r' where r': "r' \<in> set (memories t)"
    "live_row x r'" "pointer_of_parts (pointer_parts r') = Some y" "y \<noteq> []" by blast
  from keeps_before [OF k r'(1)] obtain r where r: "r \<in> set (memories s)"
    "dget r' ''id'' = dget r ''id''" "dget r' ''deleted_at'' = JNull \<longrightarrow> dget r ''deleted_at'' = JNull"
    "edge a ob r r'" by blast
  then have live: "live_row x r" using r'(2) by (simp add: live_row_def row_id_def)
  show ?thesis
  proof (cases "pointer_of_parts (pointer_parts r) = Some y")
    case True
    with live r(1) r'(4) points_to_rows [OF ok] show ?thesis by blast
  next
    case False
    with r(4) r'(3) have "row_id r = a \<and> ob = Some y"
      by (auto simp: edge_def calm_def split: if_splits)
    with live show ?thesis by (simp add: live_row_def)
  qed
qed

text \<open>A guarded retirement under a successor, by the ids of the two rows.\<close>

definition retire_under ::
  "transition_request \<times> dated_match \<Rightarrow> string \<Rightarrow> string \<Rightarrow> memory_store \<Rightarrow> memory_store" where
  "retire_under q a b s =
     (case (get_memory s a, get_memory s b) of
        (Some m, Some n) \<Rightarrow>
          if row_id n = row_id m then s else snd (write_transition (fst q) (snd q) m (Some n) s)
      | _ \<Rightarrow> s)"

lemma retire_under_keeps:
  assumes ok: "store_ok s"
  shows "keeps (edge a (Some b)) s (retire_under q a b s)"
proof (cases "get_memory s a \<noteq> None \<and> get_memory s b \<noteq> None")
  case True
  then obtain m n where mn: "get_memory s a = Some m" "get_memory s b = Some n" by auto
  from read_up_to_date [OF ok mn(1)] read_up_to_date [OF ok mn(2)]
    write_transition_keeps [OF ok, of m "Some n" "fst q" "snd q"] mn
  show ?thesis by (auto simp: retire_under_def keeps_refl)
next
  case False
  then show ?thesis by (auto simp: retire_under_def keeps_refl split: option.split)
qed

interpretation memory_rows: supersession_rows store_ok get_memory supersession_pointer retire_under
proof
  fix s q a b x y
  assume ok: "store_ok s"
  show "keyed_store (get_memory s)" by (rule store_ok_keyed [OF ok])
  show "store_ok (retire_under q a b s)" by (rule keeps_ok [OF retire_under_keeps [OF ok] ok])
  assume "points_to (get_memory (retire_under q a b s)) supersession_pointer x y"
  with edge_points_to [OF ok retire_under_keeps [OF ok]]
  show "points_to (get_memory s) supersession_pointer x y \<or> x = a \<and> y = b" by blast
qed

text \<open>A transition requested for rows read from the store, whatever its outcome.\<close>

inductive memory_step :: "memory_store \<Rightarrow> memory_store \<Rightarrow> bool" where
  alone: "get_memory s i = Some m \<Longrightarrow> transition_memory x dated m None s = (r, t) \<Longrightarrow>
     memory_step s t"
| under: "get_memory s i = Some m \<Longrightarrow> get_memory s j = Some n \<Longrightarrow>
     transition_memory x dated m (Some n) s = (r, t) \<Longrightarrow> memory_step s t"

inductive_cases memory_stepE: "memory_step s t"

lemma transition_outcome:
  assumes "transition_memory x dated m ob s = (r, t)"
  obtains (refused) "t = s"
  | (written) target where "resolve_transition (tq_operation x) (str_or (dget m ''status'') '''') = Inr target"
      "\<And>n. ob = Some n \<Longrightarrow> guard_supersession_acyclic m n (tq_allow_pending x) s = Inr ()"
      "write_transition x dated m ob s = (r, t)"
  using assms
  by (auto simp: transition_memory_def require_transition_def
      split: sum.splits option.splits lifecycle_error.splits)

lemma guard_passed:
  assumes "guard_supersession_acyclic m n pending s = Inr ()"
  shows "supersession_would_cycle (row_id m) n (get_memory s) supersession_pointer swc_max_depth = Inr False
    \<and> row_id n \<noteq> row_id m"
proof
  show walk: "supersession_would_cycle (row_id m) n (get_memory s) supersession_pointer swc_max_depth
      = Inr False"
    using assms by (auto simp: guard_supersession_acyclic_def split: sum.splits lifecycle_error.splits)
  show "row_id n \<noteq> row_id m"
  proof
    assume "row_id n = row_id m"
    with walk show False
      by (auto simp: supersession_would_cycle_def swc_walk.simps row_id_def swc_max_depth_def Let_def
          split: if_splits)
  qed
qed

text \<open>Every step leaves calm rows, but for the one row it retires.\<close>

lemma memory_step_cases:
  assumes ok: "store_ok s" and "memory_step s t"
  obtains (none) "t = s"
  | (alone) i m where "get_memory s i = Some m" "keeps (edge i None) s t"
      "str_or (dget m ''status'') '''' \<in> set LIVE_STATUSES"
  | (under) i m j n q where "get_memory s i = Some m" "get_memory s j = Some n"
      "str_or (dget m ''status'') '''' \<in> set LIVE_STATUSES"
      "supersession_would_cycle i n (get_memory s) supersession_pointer swc_max_depth = Inr False"
      "t = retire_under q i j s"
  using assms(2)
proof (cases rule: memory_step.cases)
  case (alone i m x dated r)
  from alone(2) show thesis
  proof (cases rule: transition_outcome)
    case refused
    then show thesis by (rule that(1))
  next
    case (written target)
    from read_up_to_date [OF ok alone(1)] write_transition_keeps [OF ok, of m None x dated] written(3)
    have "keeps (edge i None) s t" by simp
    from that(2) [OF alone(1) this resolve_source_live [OF written(1)]] show thesis .
  qed
next
  case (under i m j n x dated r)
  from under(3) show thesis
  proof (cases rule: transition_outcome)
    case refused
    then show thesis by (rule that(1))
  next
    case (written target)
    note g = guard_passed [OF written(2) [OF refl]]
    have "row_id m = i" by (rule conjunct2 [OF read_up_to_date [OF ok under(1)]])
    moreover have "t = retire_under (x, dated) i j s"
      using g written(3) under by (simp add: retire_under_def)
    ultimately show thesis
      using that(3) [OF under(1,2) resolve_source_live [OF written(1)]] g by simp
  qed
qed


subsection \<open>What a successful transition writes\<close>

lemma dget_updated:
  assumes "store_ok s" "update_memory i patch actor s = (Inr row, t)"
    "dget patch ''status'' \<noteq> JStr ''archived''" "c \<in> {''status'', ''superseded_by'', ''supersedes''}"
    "dget patch c \<noteq> JNull"
  shows "dget row c = dget patch c"
proof -
  from update_memory_get(2) [OF assms(1-3)] obtain r
    where "row = expose_memory_project_scope (patched_row (instant s) patch r)" by blast
  then show ?thesis using assms(4,5) by (auto simp: dget_patched_row update_columns_def patch_value_def)
qed

lemma write_transition_effect:
  assumes ok: "store_ok s" and m: "up_to_date s m" "row_id m = i"
    and n: "up_to_date s n" "row_id n = j" "j \<noteq> i"
    and x: "tq_next_status x \<noteq> ''archived''" "tq_set_successor_pointer x"
    and wr: "write_transition x dated m (Some n) s = (Inr row, t)"
  shows "get_memory t i = Some row \<and> dget row ''status'' = JStr (tq_next_status x)
     \<and> dget row ''superseded_by'' = JStr j
     \<and> (\<exists>n'. get_memory t j = Some n' \<and> dget n' ''supersedes'' = JStr i)"
proof -
  from wr obtain s0 closing s1 s2 n' s3 where
    inv: "invalidate_pending_derived_candidates (row_id m) (tq_agent x)
        (''source memory transitioned to '' @ tq_next_status x
         @ '' after the derived candidate was proposed'') (tq_exclude x) (tick s) = (Inr (), s0)"
    and cl: "closing_of dated m (Some n) s0 = (Inr closing, s1)"
    and upd: "update_memory i (retirement_patch x (instant s) closing m (Some n)) (actor_type (tq_agent x)) s1 = (Inr row, s2)"
    and bk: "update_memory j (successor_patch m n) (actor_type (tq_agent x)) s2 = (Inr n', s3)"
    and t: "memories t = memories s3"
    using x m(2) n(2)
    by (auto simp: write_transition_def point_back_def split: sum.splits prod.splits)
  let ?patch = "retirement_patch x (instant s) closing m (Some n)"
  have "store_ok (tick s)" using ok by (simp add: store_ok_def)
  from invalidation_keeps [OF this, of "row_id m" "tq_agent x"
      "''source memory transitioned to '' @ tq_next_status x
       @ '' after the derived candidate was proposed''" "tq_exclude x"] inv cl
  have calm: "keeps calm s s1" by (auto simp: keeps_def closing_of_def)
  have ok1: "store_ok s1" by (rule keeps_ok [OF calm ok])
  have "up_to_date s1 m" by (rule up_to_date_keeps [OF calm m(1)]) (simp add: calm_def)
  from retirement_keeps [OF ok1 this, of "Some n" x "instant s" closing "actor_type (tq_agent x)"]
    upd m(2)
  have ok2: "store_ok s2" using keeps_ok [OF _ ok1] by auto
  have p: "dget ?patch ''status'' = JStr (tq_next_status x)" "dget ?patch ''superseded_by'' = JStr j"
    using n(2) by (simp_all add: retirement_patch_def)
  have q: "dget (successor_patch m n) ''status'' = JNull" "dget (successor_patch m n) ''supersedes'' = JStr i"
    using m(2) by (simp_all add: successor_patch_def)
  have "get_memory s2 i = Some row"
    using update_memory_get(1) [OF ok1 upd] p x by simp
  moreover have get3: "get_memory t k = (if k = j then Some n' else get_memory s2 k)" for k
    using update_memory_get(1) [OF ok2 bk, of k] q t by (simp add: get_memory_def)
  moreover have "dget row ''status'' = JStr (tq_next_status x)" "dget row ''superseded_by'' = JStr j"
    using dget_updated [OF ok1 upd, of "''status''"] dget_updated [OF ok1 upd, of "''superseded_by''"] p x
    by simp_all
  moreover have "dget n' ''supersedes'' = JStr i"
    using dget_updated [OF ok2 bk, of "''supersedes''"] q by simp
  ultimately show ?thesis using n(3) by simp
qed

lemma write_transition_closes:
  assumes "write_transition x dated m (Some n) s = (Inr row, t)"
  shows "\<exists>lookup now closing. closing_time dated lookup now m n = Inr closing \<and> dget row ''valid_to'' = JStr closing"
proof -
  from assms obtain s0 closing s1 s2 where cl: "closing_of dated m (Some n) s0 = (Inr closing, s1)"
    and upd: "update_memory (row_id m) (retirement_patch x (instant s) closing m (Some n))
      (actor_type (tq_agent x)) s1 = (Inr row, s2)"
    by (auto simp: write_transition_def split: sum.splits prod.splits)
  from upd obtain r where
    "row = expose_memory_project_scope (patched_row (instant s1) (retirement_patch x (instant s) closing m (Some n)) r)"
    by (auto simp: update_memory_def Let_def split: option.splits if_splits)
  then have "dget row ''valid_to'' = JStr closing"
    by (simp add: dget_patched_row update_columns_def patch_value_def retirement_patch_def)
  with cl show ?thesis by (auto simp: closing_of_def)
qed

subsection \<open>A transition whose guards pass succeeds\<close>

lemma window_free_patches:
  "window_free (invalidated_patch at_time m reason c d)" "window_free (successor_patch row successor)"
  by (simp_all add: window_free_def invalidated_patch_def successor_patch_def)

lemma invalidation_runs_one:
  assumes "store_ok s" "checks_ok s" "stored s (row_id c)"
  shows "\<exists>t. invalidate_candidate at_time agent m reason c s = (Inr (), t) \<and> undeleted s t"
proof (cases "as_obj (dget (memory_metadata c) ''consolidation'')")
  case None
  then show ?thesis by (simp add: invalidate_candidate_def undeleted_refl)
next
  case (Some d)
  from update_runs [OF assms window_free_patches(1)] obtain row t where
    "update_memory (row_id c) (invalidated_patch at_time m reason c d) (actor_type agent) s = (Inr row, t)"
    "undeleted s t" by blast
  with Some show ?thesis
    by (auto simp: invalidate_candidate_def undeleted_refl Let_def intro: undeleted_trans [of s t])
qed

lemma invalidation_runs:
  "store_ok s \<Longrightarrow> checks_ok s \<Longrightarrow> list_all (\<lambda>c. stored s (row_id c)) cs \<Longrightarrow>
     \<exists>t. invalidate_candidates at_time agent m reason cs s = (Inr (), t) \<and> undeleted s t"
proof (induction cs arbitrary: s)
  case Nil
  show ?case by (simp add: undeleted_refl)
next
  case (Cons c cs)
  from Cons.prems(3) have "stored s (row_id c)" by simp
  from invalidation_runs_one [OF Cons.prems(1,2) this] obtain t where
    t: "invalidate_candidate at_time agent m reason c s = (Inr (), t)" "undeleted s t" by blast
  obtain u where "invalidate_candidates at_time agent m reason cs t = (Inr (), u)" "undeleted t u"
    using Cons.IH [of t] Cons.prems t(2) undeleted_ok undeleted_checks undeleted_stored
    by (fastforce simp: list_all_iff)
  with t show ?case by (auto intro: undeleted_trans)
qed

lemma pending_invalidation_runs:
  assumes "store_ok s" "checks_ok s"
  shows "\<exists>t. invalidate_pending_derived_candidates m agent reason exclude s = (Inr (), t) \<and> undeleted s t"
proof -
  have ok: "store_ok (tick s)" "checks_ok (tick s)" using assms by (simp_all add: store_ok_def checks_ok_def)
  have "list_all (\<lambda>c. stored (tick s) (row_id c)) (list_pending_derived_candidates m exclude (tick s))"
    by (auto simp: list_pending_derived_candidates_def list_all_iff stored_def live_row_def)
  from invalidation_runs [OF ok this] obtain t where
    "invalidate_pending_derived_candidates m agent reason exclude s = (Inr (), t)" "undeleted (tick s) t"
    unfolding invalidate_pending_derived_candidates_def by blast
  then show ?thesis
    using undeleted_trans [of s "tick s" t] undeleted_refl [of "tick s" s] by auto
qed

text \<open>The closing time is not before the start of the window, so that the range check admits it.\<close>

definition closes_in_order ::
  "dated_match \<Rightarrow> (string \<Rightarrow> dict option) \<Rightarrow> string \<Rightarrow> dict \<Rightarrow> dict \<Rightarrow> bool" where
  "closes_in_order dated lookup now m n \<longleftrightarrow>
     (\<exists>c. closing_time dated lookup now m n = Inr c \<and> in_order (dget m ''valid_from'') (JStr c))"

lemma retired_row_checks:
  assumes "row_checks r" "in_order (dget r ''valid_from'') (JStr c)"
  shows "row_checks (patched_row now (retirement_patch x at_time c m (Some n)) r)"
  using assms by (simp add: row_checks_def dget_patched_row update_columns_def patch_value_def retirement_patch_def)

lemma retirement_undeleted:
  assumes "store_ok s" "checks_ok s" "stored s i" "tq_next_status x \<noteq> ''archived''"
    and from_row: "\<And>r. r \<in> set (memories s) \<Longrightarrow> row_id r = i \<Longrightarrow> in_order (dget r ''valid_from'') (JStr c)"
  shows "\<exists>row t. update_memory i (retirement_patch x at_time c m (Some n)) actor s = (Inr row, t) \<and>
    store_ok t \<and> checks_ok t \<and> (\<forall>j. stored s j \<longrightarrow> stored t j)"
proof -
  let ?patch = "retirement_patch x at_time c m (Some n)"
  from assms(3) obtain r where r: "find (live_row i) (memories s) = Some r"
    by (cases "find (live_row i) (memories s)") (auto simp: stored_def find_None_iff)
  then have in_set: "r \<in> set (memories s)" "row_id r = i" by (auto simp: find_Some_iff live_row_def)
  with assms(2) have checks: "row_checks (patched_row (instant s) ?patch r)"
    by (intro retired_row_checks from_row) (auto simp: checks_ok_def)
  have k: "keeps (\<lambda>r r'. dget r' ''deleted_at'' = dget r ''deleted_at'') s (snd (update_memory i ?patch actor s))"
    by (rule update_memory_keeps [OF assms(1)])
       (use assms(4) in \<open>simp_all add: dget_patched_row retirement_patch_def\<close>)
  have "stored (snd (update_memory i ?patch actor s)) j" if live: "stored s j" for j
  proof -
    from live obtain q where q: "q \<in> set (memories s)" "live_row j q" by (auto simp: stored_def)
    from keeps_after [OF k q(1)] q(2) show ?thesis unfolding stored_def live_row_def row_id_def by metis
  qed
  moreover have "checks_ok (snd (update_memory i ?patch actor s))"
    using r checks assms(2) by (auto simp: update_memory_def Let_def checks_ok_def)
  ultimately show ?thesis
    using keeps_ok [OF k assms(1)] r checks by (simp add: update_memory_def Let_def)
qed

text \<open>A transition whose guards pass comes to the update of the retired row.\<close>

lemma transition_reaches_update:
  assumes ok: "store_ok s" "checks_ok s" and m: "get_memory s i = Some m" and n: "get_memory s j = Some n"
    and legal: "resolve_transition (tq_operation x) (str_or (dget m ''status'') []) = Inr target"
    and guard: "guard_supersession_acyclic m n (tq_allow_pending x) s = Inr ()"
    and closing: "\<And>k. \<exists>c. closing_time dated (get_source s) (instants s k) m n = Inr c"
  obtains k c t where "closing_time dated (get_source s) (instants s k) m n = Inr c" "undeleted s t"
    "\<And>r. r \<in> set (memories t) \<Longrightarrow> row_id r = i \<Longrightarrow> dget r ''valid_from'' = dget m ''valid_from''"
    "transition_memory x dated m (Some n) s =
       (case update_memory i (retirement_patch x (instant s) c m (Some n)) (actor_type (tq_agent x)) t of
          (Inl e, u) \<Rightarrow> (Inl e, u)
        | (Inr updated, u) \<Rightarrow>
            (case point_back x m (Some n) u of
               (Inl e, v) \<Rightarrow> (Inl e, v)
             | (Inr _, v) \<Rightarrow> (Inr updated, record_retirement x m updated (Some n) v)))"
proof -
  have ids: "row_id m = i" "row_id n = j"
    using read_up_to_date [OF ok(1) m] read_up_to_date [OF ok(1) n] by auto
  have "store_ok (tick s)" "checks_ok (tick s)" "undeleted s (tick s)"
    using ok by (simp_all add: store_ok_def checks_ok_def undeleted_refl)
  then obtain t where inv: "invalidate_pending_derived_candidates i (tq_agent x)
      (''source memory transitioned to '' @ tq_next_status x
       @ '' after the derived candidate was proposed'') (tq_exclude x) (tick s) = (Inr (), t)"
    and st: "undeleted s t"
    using pending_invalidation_runs [of "tick s" i "tq_agent x"] undeleted_trans by blast
  have src: "get_source t = get_source s" "instant t = instants s (instants_read t)"
    using st by (simp_all add: get_source_def fun_eq_iff undeleted_def instant_def)
  from closing [of "instants_read t"] obtain c where
    ct: "closing_time dated (get_source s) (instants s (instants_read t)) m n = Inr c" by blast
  then obtain t' where c: "closing_of dated m (Some n) t = (Inr c, t')" "t' = tick t \<or> t' = t"
    by (auto simp: closing_of_def src)
  have tt: "undeleted s t'"
    by (rule undeleted_trans [OF st]) (use c(2) in \<open>auto simp: undeleted_refl\<close>)
  have starts: "dget r ''valid_from'' = dget m ''valid_from''" if r: "r \<in> set (memories t')" "row_id r = i" for r
  proof -
    from keeps_before [OF _ r(1), of same_window s] tt obtain q where q: "q \<in> set (memories s)"
      "dget r ''id'' = dget q ''id''" "same_window q r" by (auto simp: undeleted_def)
    from get_memory_row [OF m] obtain p where p: "p \<in> set (memories s)"
      "m = expose_memory_project_scope p" "row_id p = i" by (auto simp: live_row_def)
    have "q = p" by (rule same_row [OF ok(1) p(1) q(1)]) (use q(2) r(2) p(3) in \<open>simp add: row_id_def\<close>)
    with p(2) q(3) show ?thesis by (simp add: same_window_def)
  qed
  show thesis
    by (rule that [OF ct tt starts])
       (use inv c(1) legal guard ids in \<open>simp_all add: transition_memory_def write_transition_def require_transition_def\<close>)
qed

lemma transition_runs:
  assumes ok: "store_ok s" "checks_ok s" and m: "get_memory s i = Some m" and n: "get_memory s j = Some n"
    and legal: "resolve_transition (tq_operation x) (str_or (dget m ''status'') []) = Inr target"
    and guard: "guard_supersession_acyclic m n (tq_allow_pending x) s = Inr ()"
    and stays: "tq_next_status x \<noteq> ''archived''"
    and closing: "\<And>k. closes_in_order dated (get_source s) (instants s k) m n"
  shows "\<exists>row t. transition_memory x dated m (Some n) s = (Inr row, t)"
proof -
  have "\<exists>c. closing_time dated (get_source s) (instants s k) m n = Inr c" for k
    using closing [of k] by (auto simp: closes_in_order_def)
  from transition_reaches_update [OF ok m n legal guard this] obtain k c t where
    c: "closing_time dated (get_source s) (instants s k) m n = Inr c" and st: "undeleted s t"
    and starts: "\<And>r. r \<in> set (memories t) \<Longrightarrow> row_id r = i \<Longrightarrow> dget r ''valid_from'' = dget m ''valid_from''"
    and run: "transition_memory x dated m (Some n) s =
       (case update_memory i (retirement_patch x (instant s) c m (Some n)) (actor_type (tq_agent x)) t of
          (Inl e, u) \<Rightarrow> (Inl e, u)
        | (Inr updated, u) \<Rightarrow>
            (case point_back x m (Some n) u of
               (Inl e, v) \<Rightarrow> (Inl e, v)
             | (Inr _, v) \<Rightarrow> (Inr updated, record_retirement x m updated (Some n) v)))" by blast
  have "in_order (dget r ''valid_from'') (JStr c)" if "r \<in> set (memories t)" "row_id r = i" for r
    using closing [of k] c starts [OF that] by (auto simp: closes_in_order_def)
  from retirement_undeleted [OF undeleted_ok [OF st ok(1)] undeleted_checks [OF st ok(2)]
      undeleted_stored [OF st get_stored [OF m]] stays this]
  obtain row u where u: "update_memory i (retirement_patch x (instant s) c m (Some n))
      (actor_type (tq_agent x)) t = (Inr row, u)" "store_ok u" "checks_ok u" "stored t j \<longrightarrow> stored u j" by blast
  have "row_id n = j" using read_up_to_date [OF ok(1) n] by simp
  then have "\<exists>v. point_back x m (Some n) u = (Inr (), v)"
    using update_runs [OF u(2,3) mp [OF u(4) undeleted_stored [OF st get_stored [OF n]]] window_free_patches(2),
        of m n "actor_type (tq_agent x)"]
    by (auto simp: point_back_def)
  with run u(1) show ?thesis by auto
qed

text \<open>When every closing time lies before the start of the window, the database refuses the retirement.\<close>

lemma early_closing_refused:
  assumes ok: "store_ok s" "checks_ok s" and m: "get_memory s i = Some m" and n: "get_memory s j = Some n"
    and legal: "resolve_transition (tq_operation x) (str_or (dget m ''status'') []) = Inr target"
    and guard: "guard_supersession_acyclic m n (tq_allow_pending x) s = Inr ()"
    and closing: "\<And>k. \<exists>c. closing_time dated (get_source s) (instants s k) m n = Inr c \<and>
      \<not> in_order (dget m ''valid_from'') (JStr c)"
  shows "\<exists>t. transition_memory x dated m (Some n) s = (Inl (CheckViolation ''memories''), t)"
proof -
  have "\<exists>c. closing_time dated (get_source s) (instants s k) m n = Inr c" for k using closing [of k] by blast
  from transition_reaches_update [OF ok m n legal guard this] obtain k c t where
    c: "closing_time dated (get_source s) (instants s k) m n = Inr c" and st: "undeleted s t"
    and starts: "\<And>r. r \<in> set (memories t) \<Longrightarrow> row_id r = i \<Longrightarrow> dget r ''valid_from'' = dget m ''valid_from''"
    and run: "transition_memory x dated m (Some n) s =
       (case update_memory i (retirement_patch x (instant s) c m (Some n)) (actor_type (tq_agent x)) t of
          (Inl e, u) \<Rightarrow> (Inl e, u)
        | (Inr updated, u) \<Rightarrow>
            (case point_back x m (Some n) u of
               (Inl e, v) \<Rightarrow> (Inl e, v)
             | (Inr _, v) \<Rightarrow> (Inr updated, record_retirement x m updated (Some n) v)))" by blast
  from undeleted_stored [OF st get_stored [OF m]] obtain r where r: "find (live_row i) (memories t) = Some r"
    by (cases "find (live_row i) (memories t)") (auto simp: stored_def find_None_iff)
  then have "r \<in> set (memories t)" "row_id r = i" by (auto simp: find_Some_iff live_row_def)
  from starts [OF this] closing [of k] c
  have "\<not> in_order (dget r ''valid_from'') (JStr c)" by auto
  then have "\<not> row_checks (patched_row (instant t) (retirement_patch x (instant s) c m (Some n)) r)"
    by (simp add: row_checks_def dget_patched_row update_columns_def patch_value_def retirement_patch_def)
  with r run show ?thesis by (simp add: update_memory_def Let_def)
qed

subsection \<open>Steps\<close>

lemma memory_step_ok:
  assumes "store_ok s" "memory_step s t"
  shows "store_ok t"
  using assms
  by (cases rule: memory_step_cases)
     (use assms(1) in \<open>auto intro: keeps_ok memory_rows.retire_ok\<close>)

lemma memory_step_acyclic:
  assumes "store_ok s" "memory_step s t" "memory_rows.acyclic_rows s"
  shows "memory_rows.acyclic_rows t"
  using assms(1,2)
proof (cases rule: memory_step_cases)
  case none
  with assms(3) show ?thesis by simp
next
  case (alone i m)
  show ?thesis
    by (rule memory_rows.fewer_edges_acyclic [OF assms(3)])
       (use edge_points_to [OF assms(1) alone(2)] in auto)
next
  case (under i m j n q)
  then show ?thesis
    using memory_rows.guarded_retire_acyclic [OF assms(1,3) under(2) under(4), of q] by simp
qed

text \<open>A retired row is frozen: its status and its pointer stay.\<close>

definition frozen :: "dict \<Rightarrow> dict \<Rightarrow> bool" where
  "frozen r r' \<longleftrightarrow> (retired_row r \<longrightarrow> dget r' ''status'' = dget r ''status''
     \<and> supersession_pointer r' ''superseded_by'' = supersession_pointer r ''superseded_by'')"

lemma frozen_trans: "frozen r r' \<Longrightarrow> frozen r' r'' \<Longrightarrow> frozen r r''"
  by (auto simp: frozen_def retired_row_def)

lemma keeps_mono_rows:
  "keeps Q s t \<Longrightarrow> (\<And>r r'. r \<in> set (memories s) \<Longrightarrow> Q r r' \<Longrightarrow> R r r') \<Longrightarrow> keeps R s t"
  unfolding keeps_def by (erule list.rel_mono_strong) auto

lemma live_status_not_retired:
  "str_or (dget r ''status'') '''' \<in> set LIVE_STATUSES \<Longrightarrow> \<not> retired_row r"
  by (auto simp: retired_row_def LIVE_STATUSES_def RETIRED_STATUSES_def)

lemma edge_frozen:
  assumes ok: "store_ok s" and k: "keeps (edge i ob) s t"
    and m: "get_memory s i = Some m" "str_or (dget m ''status'') '''' \<in> set LIVE_STATUSES"
  shows "keeps frozen s t"
proof (rule keeps_mono_rows [OF k])
  fix r r' assume r: "r \<in> set (memories s)" and e: "edge i ob r r'"
  from get_memory_row [OF m(1)] obtain q where q: "q \<in> set (memories s)"
    "m = expose_memory_project_scope q" "row_id q = i" by (auto simp: live_row_def)
  with m(2) have "\<not> retired_row q" by (simp add: live_status_not_retired)
  then have "\<not> retired_row r" if "row_id r = i"
    using same_row [OF ok r q(1)] that q(3) by simp
  with e show "frozen r r'"
    by (auto simp: frozen_def edge_def calm_def pointer_by_parts split: if_splits)
qed

lemma memory_step_frozen:
  assumes "store_ok s" "memory_step s t"
  shows "keeps frozen s t"
  using assms
proof (cases rule: memory_step_cases)
  case none
  then show ?thesis by (simp add: keeps_refl frozen_def)
next
  case (alone i m)
  then show ?thesis by (intro edge_frozen [OF assms(1)])
next
  case (under i m j n q)
  then show ?thesis
    using edge_frozen [OF assms(1) retire_under_keeps [OF assms(1)] under(1,3)] by simp
qed


subsection \<open>Properties\<close>

text \<open>
  Two active memories, \<open>a\<close> and \<open>b\<close>, and a retired one; and the undo of \<open>a\<close> in favour of \<open>b\<close>.
\<close>

definition demo_row :: "string \<Rightarrow> dict" where
  "demo_row i = [(''id'', JStr i), (''status'', JStr ''active'')]"

definition demo_retired :: dict where
  "demo_retired = [(''id'', JStr ''c''), (''status'', JStr ''rejected'')]"

definition demo_memories :: memory_store where
  "demo_memories = \<lparr>memories = [demo_row ''a'', demo_row ''b'', demo_retired], revisions = [], event_log = [], sources = [],
     agents = [], provenance = [], derived = [], instants = (\<lambda>_. ''2026-01-01T00:00:00Z''), instants_read = 0,
     idents = (\<lambda>n. ''id-'' @ nat_str n), idents_drawn = 0\<rparr>"

definition demo_undo :: "(memory_error + dict) \<times> memory_store" where
  "demo_undo = transition_memory (undo_request None None) (\<lambda>_. None) (demo_row ''a'')
     (Some (demo_row ''b'')) demo_memories"

lemma expose_demo_row: "expose_memory_project_scope (demo_row i) = demo_row i"
  by (simp add: expose_memory_project_scope_def demo_row_def)

lemma demo_get: "get_memory demo_memories ''a'' = Some (demo_row ''a'')"
  "get_memory demo_memories ''b'' = Some (demo_row ''b'')"
  using expose_demo_row
  by (simp_all add: get_memory_def demo_memories_def live_row_def row_id_def demo_row_def)

lemma demo_store_ok: "store_ok demo_memories"
  by (simp add: store_ok_def demo_memories_def row_id_def demo_row_def demo_retired_def)

lemma demo_checks_ok: "checks_ok demo_memories"
  by (simp add: checks_ok_def demo_memories_def row_checks_def in_order_def demo_row_def demo_retired_def)

lemma demo_undo_step: "memory_step demo_memories (snd demo_undo)"
  by (rule memory_step.under [OF demo_get, of "undo_request None None" "\<lambda>_. None" "fst demo_undo"])
     (simp add: demo_undo_def)

lemma demo_memories_acyclic: "acyclicP (points_to (get_memory demo_memories) supersession_pointer)"
proof -
  have "pointer_of_parts (pointer_parts r) = None" if "r \<in> set (memories demo_memories)" for r
    using that by (auto simp: demo_memories_def demo_row_def demo_retired_def pointer_of_parts_def
        pointer_parts_def memory_metadata_def)
  then have "\<not> points_to (get_memory demo_memories) supersession_pointer x y" for x y
    by (auto simp: points_to_rows [OF demo_store_ok])
  then show ?thesis by (simp add: acyclic_def)
qed

lemma demo_closing:
  "closing_time (\<lambda>_. None) lookup (instants demo_memories k) (demo_row ''a'') (demo_row ''b'')
     = Inr ''2026-01-01T00:00:00Z''"
  by (simp add: closing_time_def supersession_event_time_def memory_event_datetime_def Let_def
      EVENT_METADATA_KEYS_def metadata_of_def parse_event_datetime_def demo_row_def demo_memories_def
      earliest_valid_to_def valid_to_iso_canonical [OF new_year_canonical])

lemma demo_closes: "closes_in_order (\<lambda>_. None) lookup (instants demo_memories k) (demo_row ''a'') (demo_row ''b'')"
  by (simp add: closes_in_order_def demo_closing) (simp add: in_order_def demo_row_def)

lemma demo_undo_succeeds: "\<not> isl (fst demo_undo)"
proof -
  have "resolve_transition ''undo'' ''active'' = Inr ''superseded''"
    "guard_supersession_acyclic (demo_row ''a'') (demo_row ''b'') False demo_memories = Inr ()"
    by code_simp+
  moreover have "str_or (dget (demo_row i) ''status'') '''' = ''active''" for i by (simp add: demo_row_def)
  ultimately show ?thesis
    using transition_runs [OF demo_store_ok demo_checks_ok demo_get, of "undo_request None None" "''superseded''" "\<lambda>_. None"]
      demo_closes
    by (auto simp: demo_undo_def undo_request_def)
qed

text \<open>The same undo of a row that expires.\<close>

definition demo_expiring :: dict where
  "demo_expiring = [(''id'', JStr ''a''), (''status'', JStr ''active''), (''valid_to'', JStr ''2026-01-01T00:00:00Z'')]"

definition demo_expiring_store :: memory_store where
  "demo_expiring_store = demo_memories\<lparr>memories := [demo_expiring, demo_row ''b'']\<rparr>"

definition demo_early_undo :: "(memory_error + dict) \<times> memory_store" where
  "demo_early_undo = transition_memory (undo_request None None) (\<lambda>_. None) demo_expiring
     (Some (demo_row ''b'')) demo_expiring_store"

lemma demo_early_undo_succeeds: "\<not> isl (fst demo_early_undo)"
proof -
  have expose: "expose_memory_project_scope demo_expiring = demo_expiring"
    by (simp add: expose_memory_project_scope_def demo_expiring_def)
  have ok: "store_ok demo_expiring_store"
    by (simp add: store_ok_def demo_expiring_store_def row_id_def demo_row_def demo_expiring_def)
  have checks: "checks_ok demo_expiring_store"
    by (simp add: checks_ok_def demo_expiring_store_def row_checks_def in_order_def demo_row_def demo_expiring_def)
  have get: "get_memory demo_expiring_store ''a'' = Some demo_expiring"
    "get_memory demo_expiring_store ''b'' = Some (demo_row ''b'')"
    using expose_demo_row expose
    by (simp_all add: get_memory_def demo_expiring_store_def live_row_def row_id_def demo_row_def demo_expiring_def)
  have guard: "resolve_transition (tq_operation (undo_request None None)) (str_or (dget demo_expiring ''status'') '''')
      = Inr ''superseded''"
    "guard_supersession_acyclic demo_expiring (demo_row ''b'') (tq_allow_pending (undo_request None None))
      demo_expiring_store = Inr ()"
    by code_simp+
  have closing: "closes_in_order (\<lambda>_. None) (get_source demo_expiring_store) (instants demo_expiring_store k)
      demo_expiring (demo_row ''b'')" for k
    by (simp add: closes_in_order_def in_order_def closing_time_def supersession_event_time_def memory_event_datetime_def Let_def
        EVENT_METADATA_KEYS_def metadata_of_def parse_event_datetime_def demo_row_def demo_memories_def
        demo_expiring_def demo_expiring_store_def earliest_valid_to_def
        valid_to_iso_canonical [OF new_year_canonical])
  have "tq_next_status (undo_request None None) \<noteq> ''archived''" by (simp add: undo_request_def)
  from transition_runs [OF ok checks get guard this closing] show ?thesis by (auto simp: demo_early_undo_def)
qed

text \<open>
  The supersession graph stays acyclic.  From a store whose rows carry their own ids and whose
  pointers have no cycle, no sequence of transitions (undo, forget, consolidation acceptance,
  whatever their arguments, whether they succeed or raise) leads to a store in which a chain
  of \<open>superseded_by\<close> pointers returns to its start.
\<close>

theorem supersession_history_acyclic:
  assumes "store_ok s" and "acyclicP (points_to (get_memory s) supersession_pointer)"
    and "memory_step\<^sup>*\<^sup>* s t"
  shows "store_ok t \<and> acyclicP (points_to (get_memory t) supersession_pointer)"
  using assms(3)
proof (induction rule: rtranclp_induct)
  case base
  show ?case using assms(1,2) by simp
next
  case (step t u)
  then show ?case
    using memory_step_ok memory_step_acyclic unfolding memory_rows.acyclic_rows_def by blast
qed

theorem supersession_history_acyclic_witness:
  "store_ok (snd demo_undo) \<and> acyclicP (points_to (get_memory (snd demo_undo)) supersession_pointer)"
  by (rule supersession_history_acyclic [OF demo_store_ok demo_memories_acyclic
        r_into_rtranclp [of memory_step, OF demo_undo_step]])

text \<open>
  A retired memory is frozen.  Whatever transitions are requested afterwards, on whatever rows,
  the row keeps its id, its superseded, rejected or archived status and its supersession
  pointer.
\<close>

theorem retired_memories_frozen:
  assumes "store_ok s" and "memory_step\<^sup>*\<^sup>* s t" and "r \<in> set (memories s)"
    and "dget r ''status'' \<in> JStr ` set RETIRED_STATUSES"
  shows "\<exists>r'\<in>set (memories t). row_id r' = row_id r \<and> dget r' ''status'' = dget r ''status''
    \<and> supersession_pointer r' ''superseded_by'' = supersession_pointer r ''superseded_by''"
proof -
  from assms(2,1) have "store_ok t \<and> keeps frozen s t"
  proof (induction rule: rtranclp_induct)
    case base
    then show ?case by (simp add: keeps_refl frozen_def)
  next
    case (step t u)
    then have "keeps frozen s u"
      using memory_step_frozen [of t u] by (blast intro: keeps_trans frozen_trans)
    then show ?case using step memory_step_ok by blast
  qed
  then obtain r' where "r' \<in> set (memories t)" "dget r' ''id'' = dget r ''id''" "frozen r r'"
    using keeps_after [OF _ assms(3)] by blast
  moreover have "retired_row r" using assms(4) by (simp add: retired_row_def)
  ultimately show ?thesis by (auto simp: frozen_def row_id_def intro!: bexI [of _ r'])
qed

theorem retired_memories_frozen_witness:
  "\<exists>r'\<in>set (memories (snd demo_undo)). row_id r' = row_id demo_retired
    \<and> dget r' ''status'' = dget demo_retired ''status''
    \<and> supersession_pointer r' ''superseded_by'' = supersession_pointer demo_retired ''superseded_by''"
  by (rule retired_memories_frozen [OF demo_store_ok r_into_rtranclp [of memory_step, OF demo_undo_step]])
     (simp_all add: demo_memories_def demo_retired_def RETIRED_STATUSES_def)


text \<open>
  An undo in favour of a replacement links the two rows.  If it returns, the retired row reads
  superseded and points to the replacement, the replacement points back, the two are distinct,
  the retired row was live and the replacement was an accepted one.
\<close>

theorem undo_links_replacement:
  assumes "store_ok s" and "get_memory s i = Some m" and "get_memory s j = Some n"
    and "transition_memory (undo_request agent reason) dated m (Some n) s = (Inr row, t)"
  shows "get_memory t i = Some row \<and> dget row ''status'' = JStr ''superseded''
    \<and> dget row ''superseded_by'' = JStr j
    \<and> map_option (\<lambda>r. dget r ''supersedes'') (get_memory t j) = Some (JStr i)
    \<and> i \<noteq> j \<and> str_or (dget m ''status'') '''' \<in> set LIVE_STATUSES
    \<and> str_or (dget n ''status'') '''' \<in> set SUPERSESSION_SUCCESSOR_STATUSES"
proof -
  let ?x = "undo_request agent reason"
  note m = read_up_to_date [OF assms(1,2)] and n = read_up_to_date [OF assms(1,3)]
  from assms(4) obtain target where
    target: "resolve_transition (tq_operation ?x) (str_or (dget m ''status'') '''') = Inr target"
    and guard: "guard_supersession_acyclic m n False s = Inr ()"
    and wr: "write_transition ?x dated m (Some n) s = (Inr row, t)"
    by (auto simp: transition_memory_def require_transition_def undo_request_def
        split: sum.splits lifecycle_error.splits)
  from guard_passed [OF guard] m n have neq: "j \<noteq> i" by simp
  from guard have "str_or (dget n ''status'') '''' \<in> set SUPERSESSION_SUCCESSOR_STATUSES"
    by (auto simp: guard_supersession_acyclic_def require_valid_supersession_successor_def Let_def)
  moreover have "tq_next_status ?x = ''superseded''" "tq_set_successor_pointer ?x"
    by (simp_all add: undo_request_def)
  ultimately show ?thesis
    using write_transition_effect [OF assms(1) conjunct1 [OF m] conjunct2 [OF m] conjunct1 [OF n]
        conjunct2 [OF n] neq _ _ wr] resolve_source_live [OF target] neq
    by auto
qed

theorem undo_links_replacement_witness:
  "\<exists>row. get_memory (snd demo_undo) ''a'' = Some row \<and> dget row ''superseded_by'' = JStr ''b''"
proof -
  from demo_undo_succeeds obtain row where "fst demo_undo = Inr row" by (cases "fst demo_undo") auto
  then have run: "transition_memory (undo_request None None) (\<lambda>_. None) (demo_row ''a'')
      (Some (demo_row ''b'')) demo_memories = (Inr row, snd demo_undo)"
    by (simp add: demo_undo_def prod_eq_iff)
  show ?thesis using undo_links_replacement [OF demo_store_ok demo_get run] by blast
qed

text \<open>
  C38:
  a supersession never extends a validity window.  When a transition in favour of a successor
  returns and the retired row carried a readable end of validity, the row now ends at an instant
  that is not later than that one, whatever event time the successor has and whatever the clock says.
\<close>

theorem supersession_never_extends_validity:
  assumes "transition_memory x dated m (Some n) s = (Inr row, t)"
    and "dget m ''valid_to'' = JStr v" and "parse_iso v = Some w"
  shows "\<exists>c. dget row ''valid_to'' = JStr c \<and> instant_of c \<le> utc_micros w"
proof -
  from assms(1) have "write_transition x dated m (Some n) s = (Inr row, t)"
    by (auto simp: transition_memory_def split: sum.splits)
  from write_transition_closes [OF this] obtain lookup now c where
    "closing_time dated lookup now m n = Inr c" "dget row ''valid_to'' = JStr c" by blast
  with closing_time_bound [OF _ assms(2,3)] show ?thesis by blast
qed

theorem supersession_never_extends_validity_witness:
  "\<exists>row c. fst demo_early_undo = Inr row \<and> dget row ''valid_to'' = JStr c \<and> instant_of c \<le> utc_micros new_year"
proof -
  from demo_early_undo_succeeds obtain row where "fst demo_early_undo = Inr row"
    by (cases "fst demo_early_undo") auto
  moreover from this have "transition_memory (undo_request None None) (\<lambda>_. None) demo_expiring
      (Some (demo_row ''b'')) demo_expiring_store = (Inr row, snd demo_early_undo)"
    by (simp add: demo_early_undo_def prod_eq_iff)
  from supersession_never_extends_validity [OF this _ canonical_parsed [OF new_year_canonical]]
  have "\<exists>c. dget row ''valid_to'' = JStr c \<and> instant_of c \<le> utc_micros new_year"
    by (simp add: demo_expiring_def demo_row_def)
  ultimately show ?thesis by blast
qed



end
