(* ===== verification/Squeezed_Text.thy ===== *)
theory Squeezed_Text
  imports Prelude "HOL-Library.Sublist"
begin

text \<open>
  What \<open>" ".join(value.split()).strip()\<close> leaves of a text: words without white space, one blank
  between two words and none around them.
\<close>

definition solid_word :: "string \<Rightarrow> bool" where
  "solid_word w \<longleftrightarrow> w \<noteq> [] \<and> (\<forall>p\<in>set py_whitespace. \<not> sublist p w)"

definition tidy_text :: "string \<Rightarrow> bool" where
  "tidy_text t \<longleftrightarrow> (\<exists>ws. ws \<noteq> [] \<and> list_all solid_word ws \<and> t = join_with '' '' ws)"

subsection \<open>The words of a split are solid\<close>

lemma strip_any_None: "strip_any ps s = None \<longleftrightarrow> (\<forall>p\<in>set ps. p \<noteq> [] \<longrightarrow> take (length p) s \<noteq> p)"
  by (induction ps) auto

lemma whitespace_nonempty: "p \<in> set py_whitespace \<Longrightarrow> p \<noteq> []"
  by (auto simp: py_whitespace_def)

lemma scanned_solid:
  assumes "\<forall>k<length cur. strip_any py_whitespace (drop k (rev cur @ s)) = None" and "cur \<noteq> []"
  shows "solid_word (rev cur)"
  unfolding solid_word_def
proof (intro conjI ballI notI)
  fix p assume p: "p \<in> set py_whitespace" "sublist p (rev cur)"
  then obtain a b where cur: "rev cur = a @ p @ b" by (auto simp: sublist_def)
  have "length a < length cur"
    using arg_cong [OF cur, of length] whitespace_nonempty [OF p(1)] by simp
  moreover have "drop (length a) (rev cur @ s) = p @ b @ s" by (simp add: cur)
  ultimately have "strip_any py_whitespace (p @ b @ s) = None" using assms(1) by metis
  then show False using p(1) whitespace_nonempty by (auto simp: strip_any_None)
qed (use assms in simp)

lemma split_words_solid:
  assumes "\<forall>k<length cur. strip_any py_whitespace (drop k (rev cur @ s)) = None"
    and "w \<in> set (split_words cur s)"
  shows "solid_word w"
  using assms
proof (induction cur s rule: split_words.induct)
  case (1 cur)
  from scanned_solid [OF 1(1)] 1(2) show ?case by (auto split: if_splits)
next
  case (2 cur c cs)
  show ?case
  proof (cases "strip_any py_whitespace (c # cs)")
    case None
    have "\<forall>k<length (c # cur). strip_any py_whitespace (drop k (rev (c # cur) @ cs)) = None"
      using "2.prems"(1) None by (auto simp: less_Suc_eq)
    then show ?thesis using "2.IH"(1) [OF None] "2.prems"(2) None by simp
  next
    case (Some rest)
    then show ?thesis
      using "2.IH"(2,3) [OF Some] "2.prems"(2) scanned_solid [OF "2.prems"(1)]
      by (auto split: if_splits)
  qed
qed

lemma py_split_solid: "list_all solid_word (py_split s)"
  using split_words_solid [of "[]" s] by (simp add: py_split_def list_all_iff)

subsection \<open>Stripping the join changes nothing\<close>

lemma whitespace_blank: "p \<in> set py_whitespace \<Longrightarrow> p = '' '' \<or> CHR '' '' \<notin> set p"
  by (auto simp: py_whitespace_def)

text \<open>A sequence of bytes at the edge of a word is inside the word.\<close>

lemma edge_sublist:
  assumes "take (length q) (w @ rest) = q" "w \<noteq> []" "rest = [] \<or> hd rest = CHR '' ''"
    and "q = '' '' \<or> CHR '' '' \<notin> set q"
  shows "prefix q w"
proof (cases "length q \<le> length w")
  case True
  then have "take (length q) w = q" using assms(1) by simp
  then show ?thesis by (metis take_is_prefix)
next
  case False
  then have long: "length w < length q" by simp
  then obtain x xs where rest: "rest = x # xs"
    using arg_cong [OF assms(1), of length] by (cases rest) auto
  have "q ! length w = (w @ rest) ! length w" using assms(1) long by (metis nth_take)
  then have "q ! length w = CHR '' ''" using assms(3) rest by simp
  moreover have "q ! length w \<in> set q" using long by simp
  ultimately have "q = '' ''" using assms(4) by auto
  with long assms(2) show ?thesis by simp
qed

lemma solid_lstrip:
  assumes "solid_word w" "rest = [] \<or> hd rest = CHR '' ''"
  shows "lstrip_with py_whitespace (w @ rest) = w @ rest"
proof -
  have "strip_any py_whitespace (w @ rest) = None"
    unfolding strip_any_None
  proof (intro ballI impI notI)
    fix p assume p: "p \<in> set py_whitespace" "take (length p) (w @ rest) = p"
    from edge_sublist [OF p(2) _ assms(2) whitespace_blank [OF p(1)]] assms(1)
    have "sublist p w" by (auto simp: solid_word_def)
    with assms(1) p(1) show False by (auto simp: solid_word_def)
  qed
  then show ?thesis by (subst lstrip_with.simps) simp
qed

lemma solid_rstrip:
  assumes "solid_word w" "rest = [] \<or> hd rest = CHR '' ''"
  shows "lstrip_with (map rev py_whitespace) (rev w @ rest) = rev w @ rest"
proof -
  have "strip_any (map rev py_whitespace) (rev w @ rest) = None"
    unfolding strip_any_None
  proof (intro ballI impI notI)
    fix q assume "q \<in> set (map rev py_whitespace)" and q: "take (length q) (rev w @ rest) = q"
    then obtain p where p: "p \<in> set py_whitespace" "q = rev p" by auto
    have "prefix q (rev w)"
      using edge_sublist [OF q _ assms(2)] whitespace_blank [OF p(1)] assms(1) p(2)
      by (auto simp: solid_word_def)
    then have "suffix p w" by (simp add: p(2) suffix_to_prefix)
    with assms(1) p(1) show False by (auto simp: solid_word_def)
  qed
  then show ?thesis by (subst lstrip_with.simps) simp
qed

lemma join_front: "ws \<noteq> [] \<Longrightarrow> \<exists>rest. join_with '' '' ws = hd ws @ rest \<and> (rest = [] \<or> hd rest = CHR '' '')"
  by (cases ws rule: remdups_adj.cases) auto

lemma join_end: "ws \<noteq> [] \<Longrightarrow> \<exists>rest. join_with '' '' ws = rest @ last ws \<and> (rest = [] \<or> last rest = CHR '' '')"
proof (induction "'' ''" ws rule: join_with.induct)
  case (3 x y zs)
  then obtain rest where "join_with '' '' (y # zs) = rest @ last (y # zs)" "rest = [] \<or> last rest = CHR '' ''" by auto
  then show ?case by (intro exI [of _ "x @ '' '' @ rest"]) auto
qed auto

lemma strip_join:
  assumes "ws \<noteq> []" "list_all solid_word ws"
  shows "py_strip (join_with '' '' ws) = join_with '' '' ws"
proof -
  have solid: "solid_word (hd ws)" "solid_word (last ws)" using assms by (simp_all add: list_all_iff)
  obtain r where r: "join_with '' '' ws = hd ws @ r" "r = [] \<or> hd r = CHR '' ''" using join_front [OF assms(1)] by blast
  obtain q where q: "join_with '' '' ws = q @ last ws" "q = [] \<or> last q = CHR '' ''" using join_end [OF assms(1)] by blast
  have "lstrip_with py_whitespace (join_with '' '' ws) = join_with '' '' ws"
    using solid_lstrip [OF solid(1) r(2)] r(1) by simp
  moreover have "lstrip_with (map rev py_whitespace) (rev (join_with '' '' ws)) = rev (join_with '' '' ws)"
    using solid_rstrip [OF solid(2), of "rev q"] q by (auto simp: hd_rev)
  ultimately show ?thesis by (simp add: py_strip_def)
qed

lemma strip_empty: "py_strip [] = []"
proof -
  have none: "strip_any ps [] = None" for ps by (simp add: strip_any_None)
  have "lstrip_with ps [] = []" for ps by (subst lstrip_with.simps) (simp add: none)
  then show ?thesis by (simp add: py_strip_def)
qed

lemma squeeze_tidy: "squeeze_text s \<noteq> [] \<Longrightarrow> tidy_text (squeeze_text s)"
  using strip_join [OF _ py_split_solid, of s] py_split_solid [of s]
  by (cases "py_split s = []") (auto simp: squeeze_text_def strip_empty tidy_text_def)

end
