(* ===== verification/Promotion.thy ===== *)
theory Promotion
  imports Json
begin

text \<open>
  \<open>vnext_promotion_policy.py\<close>: when a proposed memory may be written without a human gate.
  The decision logic, the settings and their parsers are translated in full.  The verdicts of
  the regular-expression banks and of the Unicode normaliser on a text are the arguments
  collected in \<open>scanners\<close>: a definition that consults a pattern bank takes the scanner of
  that bank, and nothing is assumed about them.
\<close>

subsection \<open>Vocabulary\<close>

definition PROMOTION_PERSONAS :: "string list" where
  [model_defs]: "PROMOTION_PERSONAS = [''personal'', ''team'', ''enterprise'']"

definition DEFAULT_PROMOTION_PERSONA :: string where
  [model_defs]: "DEFAULT_PROMOTION_PERSONA = ''enterprise''"

definition AUTO_PROMOTING_PERSONAS :: "string list" where
  [model_defs]: "AUTO_PROMOTING_PERSONAS = [''personal'', ''team'']"

definition DIGEST_REVIEW_PERSONAS :: "string list" where
  [model_defs]: "DIGEST_REVIEW_PERSONAS = [''team'']"

definition ESCALATION_FILTERS :: "string list" where
  [model_defs]: "ESCALATION_FILTERS =
    [''contradicts_existing_memory'', ''private_or_higher_sensitivity'', ''restricted_domain'',
     ''indirect_provenance'', ''third_party_person'', ''unverified_authority_claim'',
     ''agent_control_vocabulary'']"

definition DISABLE_ALL_ESCALATION_FILTERS :: string where
  [model_defs]: "DISABLE_ALL_ESCALATION_FILTERS = ''DISABLE_ALL_ESCALATION_FILTERS''"

definition HARD_FLOOR_RULES :: "string list" where
  [model_defs]: "HARD_FLOOR_RULES =
    [''credential_material'', ''agent_output_reingestion'', ''instruction_shaped_content'']"

definition WRITER_TRUST_LEVELS :: "string list" where
  [model_defs]: "WRITER_TRUST_LEVELS =
    [''owner'', ''authenticated_agent'', ''asserted_agent'', ''unverified'']"

definition AGENT_KEY_AUTH :: string where
  [model_defs]: "AGENT_KEY_AUTH = ''agent_api_key''"

definition PROMOTION_ELIGIBLE_WRITERS :: "string list" where
  [model_defs]: "PROMOTION_ELIGIBLE_WRITERS = [''owner'', ''authenticated_agent'']"

definition PROMOTABLE_PERMISSION_PROFILES :: "string list" where
  [model_defs]: "PROMOTABLE_PERMISSION_PROFILES =
    [''user_or_system'', ''trusted_local_agent'', ''project_scoped_agent'', ''admin_agent'']"

definition AGENT_OUTPUT_SOURCE_TYPES :: "string list" where
  [model_defs]: "AGENT_OUTPUT_SOURCE_TYPES =
    [''agent_artifact'', ''agent_generated'', ''agent_output'', ''agent_run'',
     ''artifact_summary'', ''assistant_message'', ''generated_artifact'', ''llm_output'',
     ''model_output'']"

definition AGENT_OUTPUT_REF_PREFIXES :: "string list" where
  [model_defs]: "AGENT_OUTPUT_REF_PREFIXES =
    [''agent_output:'', ''agent_run:'', ''artifact:'', ''assistant:'', ''generated_artifact:'']"

definition INTERNAL_SOURCE_TYPES :: "string list" where
  [model_defs]: "INTERNAL_SOURCE_TYPES =
    [''direct_user_instruction'', ''local_conversation'', ''manual_entry'', ''user_message'',
     ''trusted_agent'', ''agent_reasoning'']"

definition PRIVATE_OR_HIGHER_SENSITIVITY :: "string list" where
  [model_defs]: "PRIVATE_OR_HIGHER_SENSITIVITY =
    [''private'', ''confidential'', ''highly_sensitive'', ''sacred'', ''regulated'']"

definition PROMOTION_RESTRICTED_DOMAINS :: "string list" where
  [model_defs]: "PROMOTION_RESTRICTED_DOMAINS =
    [''family'', ''health'', ''spiritual'', ''legal'', ''financial'']"

definition PERSON_MEMORY_TYPES :: "string list" where
  [model_defs]: "PERSON_MEMORY_TYPES = [''person'', ''relationship'', ''relationship_fact'']"

definition PERSON_DOMAINS :: "string list" where
  [model_defs]: "PERSON_DOMAINS = [''relationship'', ''family'']"

definition NON_PERSON_TOKENS :: "string list" where
  [model_defs]: "NON_PERSON_TOKENS =
    [''alice'', ''he'', ''she'', ''they'', ''we'', ''you'', ''it'', ''this'', ''that'', ''there'',
     ''these'', ''those'', ''today'', ''tomorrow'', ''yesterday'', ''monday'', ''tuesday'',
     ''wednesday'', ''thursday'', ''friday'', ''saturday'', ''sunday'', ''january'',
     ''february'', ''march'', ''april'', ''may'', ''june'', ''july'', ''august'',
     ''september'', ''october'', ''november'', ''december'', ''everyone'', ''everything'',
     ''nothing'', ''someone'', ''something'', ''standups'', ''standup'', ''meetings'',
     ''meeting'', ''work'', ''the'']"

subsection \<open>Candidates and scanners\<close>

record promotion_candidate =
  canonical_text :: string
  title :: string
  memory_type :: string
  domain :: string
  sensitivity :: string
  intent :: string
  source_type :: string
  source_refs :: "json list"
  contradiction_refs :: "string list"
  conversation_excerpt :: "string option"
  written_by_agent :: bool
  contradicts_existing :: bool

definition default_candidate :: promotion_candidate where
  "default_candidate =
     \<lparr>canonical_text = [], title = [], memory_type = ''semantic'', domain = ''unknown'',
      sensitivity = ''unknown'', intent = [], source_type = ''unknown'', source_refs = [],
      contradiction_refs = [], conversation_excerpt = None, written_by_agent = False,
      contradicts_existing = False\<rparr>"

text \<open>
  \<^item> \<open>normalizer\<close>: \<open>normalize_for_matching\<close> (NFKD, invisible characters removed, NFKC, lookalikes);
  \<^item> \<open>credential_match\<close>: \<open>_matches_credential\<close>, the flag being \<open>require_token_boundary\<close>;
  \<^item> \<open>decoded\<close>, \<open>despaced\<close>: \<open>_decoded_variants\<close>, \<open>_despaced_runs\<close>;
  \<^item> \<open>injection\<close>: some pattern of \<open>_INJECTION_ALWAYS_PATTERNS\<close> is found;
  \<^item> \<open>imperative\<close>: some match of \<open>_IMPERATIVE_FLOOR_PATTERNS\<close> starts in an imperative context;
  \<^item> \<open>person_names\<close>: group 1 of every match of \<open>_THIRD_PARTY_NAME_PATTERNS\<close>, in order;
  \<^item> \<open>authority_leads\<close>: the 24-character lead of every match of \<open>_AUTHORITY_CLAIM_PATTERNS\<close>;
  \<^item> \<open>first_person\<close>: \<open>_FIRST_PERSON_LEAD\<close> is found in a lead;
  \<^item> \<open>control_terms\<close>: some pattern of \<open>_AGENT_CONTROL_PATTERNS\<close> is found.
\<close>

record scanners =
  normalizer :: "string \<Rightarrow> string"
  credential_match :: "bool \<Rightarrow> string \<Rightarrow> bool"
  decoded :: "string \<Rightarrow> string list"
  despaced :: "string \<Rightarrow> string list"
  injection :: "string \<Rightarrow> bool"
  imperative :: "string \<Rightarrow> bool"
  person_names :: "string \<Rightarrow> string list"
  authority_leads :: "string \<Rightarrow> string list"
  first_person :: "string \<Rightarrow> bool"
  control_terms :: "string \<Rightarrow> bool"

definition fold_text :: "scanners \<Rightarrow> string \<Rightarrow> string" where
  "fold_text sc value = py_casefold (py_strip (normalizer sc value))"

definition is_external_provenance :: "scanners \<Rightarrow> string \<Rightarrow> bool" where
  "is_external_provenance sc source = (fold_text sc source \<notin> set INTERNAL_SOURCE_TYPES)"

definition leet_table :: "(char \<times> char) list" where
  [model_defs]: "leet_table =
    [(CHR ''0'', CHR ''o''), (CHR ''1'', CHR ''i''), (CHR ''3'', CHR ''e''), (CHR ''4'', CHR ''a''),
     (CHR ''5'', CHR ''s''), (CHR ''7'', CHR ''t''), (CHR ''@'', CHR ''a''), (CHR ''$'', CHR ''s'')]"

definition deleet :: "string \<Rightarrow> string" where
  "deleet text = map (\<lambda>c. case map_of leet_table c of None \<Rightarrow> c | Some d \<Rightarrow> d) text"

definition looks_like_credential :: "scanners \<Rightarrow> string list \<Rightarrow> bool" where
  "looks_like_credential sc texts =
     (let present = filter (\<lambda>t. t \<noteq> []) texts;
          normalized = map (normalizer sc) present;
          surfaces = present @ normalized @ [join_with '' '' normalized, concat normalized]
      in present \<noteq> [] \<and>
         (\<exists>text \<in> set surfaces.
            credential_match sc True text \<or>
            (\<exists>v \<in> set (decoded sc text). credential_match sc True v) \<or>
            (\<exists>v \<in> set (despaced sc text). credential_match sc False v)))"

text \<open>Flattened source references: both the value and the \<open>key=value\<close> shape of an entry.\<close>

fun source_ref_strings :: "json list \<Rightarrow> string list"
and source_ref_strings1 :: "json \<Rightarrow> string list"
and source_ref_entry :: "string \<times> json \<Rightarrow> string list" where
  "source_ref_strings refs = concat (map source_ref_strings1 refs)"
| "source_ref_strings1 (JStr s) = [s]"
| "source_ref_strings1 (JObj d) = concat (map source_ref_entry d)"
| "source_ref_strings1 (JList xs) = source_ref_strings xs"
| "source_ref_strings1 _ = []"
| "source_ref_entry (k, JStr s) = [k @ ''='' @ s, s]"
| "source_ref_entry (k, JList xs) = source_ref_strings xs"
| "source_ref_entry (k, JObj d) = source_ref_strings1 (JObj d)"
| "source_ref_entry (k, _) = []"

definition ref_points_at_agent_output :: "string \<Rightarrow> bool" where
  "ref_points_at_agent_output raw =
     (let folded = py_strip (py_casefold raw) in
      list_ex (py_startswith folded) AGENT_OUTPUT_REF_PREFIXES
      \<or> folded \<in> {''generated_by=agent'', ''actor_type=agent'', ''produced_by=agent''}
      \<or> py_startswith folded ''source_type='' \<and>
        py_removeprefix folded ''source_type='' \<in> set AGENT_OUTPUT_SOURCE_TYPES)"

definition refs_point_at_agent_output :: "json list \<Rightarrow> bool" where
  "refs_point_at_agent_output refs = list_ex ref_points_at_agent_output (source_ref_strings refs)"

definition surface_forms :: "scanners \<Rightarrow> string \<Rightarrow> string list" where
  "surface_forms sc text = (let normalized = normalizer sc text in [text, normalized, deleet normalized])"

definition opt_text :: "string option \<Rightarrow> string" where
  "opt_text t = (case t of None \<Rightarrow> [] | Some s \<Rightarrow> s)"

definition matching_surfaces :: "scanners \<Rightarrow> promotion_candidate \<Rightarrow> string list" where
  "matching_surfaces sc c =
     (let fields = filter (\<lambda>t. t \<noteq> []) [title c, canonical_text c, opt_text (conversation_excerpt c)];
          prose = (if fields \<noteq> [] then surface_forms sc (join_with [CHR 0x0A] fields) else []);
          refs = concat (map (surface_forms sc)
                   (filter (\<lambda>ref. py_strip ref \<noteq> []) (source_ref_strings (source_refs c))))
      in dict_fromkeys (prose @ refs))"

subsection \<open>The hard floor\<close>

definition hard_floor_hits :: "scanners \<Rightarrow> promotion_candidate \<Rightarrow> string list" where
  "hard_floor_hits sc c =
     (let refs = source_ref_strings (source_refs c);
          credential = looks_like_credential sc
            ([title c, canonical_text c, opt_text (conversation_excerpt c)] @ refs);
          reingested = fold_text sc (source_type c) \<in> set AGENT_OUTPUT_SOURCE_TYPES
            \<or> refs_point_at_agent_output (source_refs c);
          surfaces = matching_surfaces sc c;
          instruction = list_ex (injection sc) surfaces \<or> list_ex (imperative sc) surfaces
      in dict_fromkeys
           ((if credential then [''credential_material''] else [])
            @ (if reingested then [''agent_output_reingestion''] else [])
            @ (if instruction then [''instruction_shaped_content''] else [])))"

definition writer_trust_for :: "string option \<Rightarrow> bool \<Rightarrow> string" where
  "writer_trust_for identity_auth owner_verified =
     (case identity_auth of
        None \<Rightarrow> (if owner_verified then ''owner'' else ''unverified'')
      | Some auth \<Rightarrow>
          (if auth = AGENT_KEY_AUTH then ''authenticated_agent'' else ''asserted_agent''))"

subsection \<open>Settings\<close>

text \<open>A frozen set of filter names is a list without repetitions, in any order.\<close>

record promotion_settings =
  persona :: string
  escalation_filters :: "string list"
  owner_aliases :: "string list"

datatype settings_error = PromotionSettingsValidationError string

definition unknown_filters :: "string list \<Rightarrow> string list" where
  "unknown_filters names = sort (remdups (filter (\<lambda>n. n \<notin> set ESCALATION_FILTERS) names))"

definition unknown_filters_error :: "string list \<Rightarrow> settings_error" where
  "unknown_filters_error unknown =
     PromotionSettingsValidationError (''unknown escalation filters: '' @ join_with '', '' unknown)"

text \<open>The constructor with its \<open>__post_init__\<close> checks.\<close>

definition make_settings ::
  "string \<Rightarrow> string list \<Rightarrow> string list \<Rightarrow> settings_error + promotion_settings" where
  "make_settings p filters aliases =
     (if p \<notin> set PROMOTION_PERSONAS then
        Inl (PromotionSettingsValidationError
          (''persona must be one of '' @ join_with '', '' PROMOTION_PERSONAS))
      else if unknown_filters filters \<noteq> [] then Inl (unknown_filters_error (unknown_filters filters))
      else Inr \<lparr>persona = p, escalation_filters = filters, owner_aliases = aliases\<rparr>)"

definition review_is_advisory_for :: "promotion_settings \<Rightarrow> bool" where
  "review_is_advisory_for s = (persona s \<in> set DIGEST_REVIEW_PERSONAS)"

definition toggle_filter :: "string list \<Rightarrow> string \<times> json \<Rightarrow> string list" where
  "toggle_filter enabled entry =
     (case entry of (name, keep) \<Rightarrow>
        (if py_truthy keep then (if name \<in> set enabled then enabled else enabled @ [name])
         else filter (\<lambda>n. n \<noteq> name) enabled))"

definition filter_tokens :: "json list \<Rightarrow> settings_error + string list" where
  "filter_tokens raw =
     (if list_ex (\<lambda>v. as_str v = None) raw
      then Inl (PromotionSettingsValidationError ''escalation filters must be strings'')
      else Inr (filter (\<lambda>t. t \<noteq> []) (map (\<lambda>v. py_strip (py_str v)) raw)))"

definition parse_escalation_filters :: "json \<Rightarrow> settings_error + string list" where
  "parse_escalation_filters raw =
     (case raw of
        JNull \<Rightarrow> Inr ESCALATION_FILTERS
      | JObj d \<Rightarrow>
          (let unknown = unknown_filters (map fst d) in
           if unknown \<noteq> [] then Inl (unknown_filters_error unknown)
           else Inr (foldl toggle_filter ESCALATION_FILTERS d))
      | JList xs \<Rightarrow>
          bind_res (filter_tokens xs) (\<lambda>names.
            if names = [] then Inr ESCALATION_FILTERS
            else if names = [DISABLE_ALL_ESCALATION_FILTERS] then Inr []
            else if DISABLE_ALL_ESCALATION_FILTERS \<in> set names then
              Inl (PromotionSettingsValidationError
                (DISABLE_ALL_ESCALATION_FILTERS @ '' must be the only value when it is used''))
            else if unknown_filters names \<noteq> [] then Inl (unknown_filters_error (unknown_filters names))
            else Inr (remdups names))
      | _ \<Rightarrow> Inl (PromotionSettingsValidationError ''escalation_filters must be a list or object''))"

definition parse_owner_aliases :: "json \<Rightarrow> settings_error + string list" where
  "parse_owner_aliases raw =
     (if \<not> py_truthy raw then Inr []
      else case raw of
        JStr s \<Rightarrow> Inr [s]
      | JList xs \<Rightarrow>
          (if list_ex (\<lambda>v. as_str v = None) xs
           then Inl (PromotionSettingsValidationError ''owner_aliases must be strings'')
           else Inr (map py_str xs))
      | _ \<Rightarrow> Inl (PromotionSettingsValidationError ''owner_aliases must be a list of strings''))"

definition settings_from_mapping :: "dict \<Rightarrow> settings_error + promotion_settings option" where
  "settings_from_mapping payload =
     (if payload = [] then Inr None
      else case dget payload ''persona'' of
        JNull \<Rightarrow> Inr None
      | JStr raw_persona \<Rightarrow>
          (let p = py_casefold (py_strip raw_persona) in
           if p = [] then Inr None
           else bind_res (parse_escalation_filters (dget payload ''escalation_filters'')) (\<lambda>filters.
                bind_res (parse_owner_aliases (dget payload ''owner_aliases'')) (\<lambda>aliases.
                bind_res (make_settings p filters
                            (map py_strip (filter (\<lambda>a. py_strip a \<noteq> []) aliases)))
                  (\<lambda>s. Inr (Some s)))))
      | _ \<Rightarrow> Inl (PromotionSettingsValidationError ''persona must be a string''))"

definition settings_to_record :: "promotion_settings \<Rightarrow> dict" where
  "settings_to_record s =
     [(''persona'', JStr (persona s)),
      (''escalation_filters'', str_list (sort (escalation_filters s))),
      (''owner_aliases'', str_list (owner_aliases s))]"

subsection \<open>Escalation filters\<close>

definition person_name_counts :: "string list \<Rightarrow> string \<Rightarrow> bool" where
  "person_name_counts aliases matched =
     (let folded = py_casefold (squeeze_text matched); tokens = py_split folded in
      folded \<noteq> [] \<and> folded \<notin> set aliases
      \<and> \<not> list_ex (\<lambda>t. t \<in> set NON_PERSON_TOKENS) tokens
      \<and> \<not> list_ex (\<lambda>t. t \<in> set aliases) tokens)"

definition third_party_person_claim :: "scanners \<Rightarrow> promotion_candidate \<Rightarrow> string list \<Rightarrow> bool" where
  "third_party_person_claim sc c aliases =
     (if fold_text sc (memory_type c) \<in> set PERSON_MEMORY_TYPES then True
      else if fold_text sc (domain c) \<in> set PERSON_DOMAINS then True
      else list_ex
             (\<lambda>field_text. field_text \<noteq> [] \<and>
                list_ex (person_name_counts (map (fold_text sc) aliases))
                  (person_names sc (normalizer sc field_text)))
             [title c, canonical_text c, opt_text (conversation_excerpt c)])"

definition authority_claim :: "scanners \<Rightarrow> promotion_candidate \<Rightarrow> bool" where
  "authority_claim sc c =
     list_ex (\<lambda>surface. list_ex (\<lambda>lead. \<not> first_person sc lead) (authority_leads sc surface))
       (matching_surfaces sc c)"

definition agent_control_vocabulary :: "scanners \<Rightarrow> promotion_candidate \<Rightarrow> bool" where
  "agent_control_vocabulary sc c =
     (is_external_provenance sc (source_type c) \<and> list_ex (control_terms sc) (matching_surfaces sc c))"

definition filter_condition ::
  "scanners \<Rightarrow> promotion_settings \<Rightarrow> promotion_candidate \<Rightarrow> (string \<times> bool) list" where
  "filter_condition sc s c =
     [(''contradicts_existing_memory'', contradicts_existing c \<or> contradiction_refs c \<noteq> []),
      (''private_or_higher_sensitivity'',
         fold_text sc (sensitivity c) \<in> set PRIVATE_OR_HIGHER_SENSITIVITY),
      (''restricted_domain'', fold_text sc (domain c) \<in> set PROMOTION_RESTRICTED_DOMAINS),
      (''indirect_provenance'', is_external_provenance sc (source_type c)),
      (''third_party_person'', third_party_person_claim sc c (owner_aliases s)),
      (''unverified_authority_claim'', authority_claim sc c),
      (''agent_control_vocabulary'', agent_control_vocabulary sc c)]"

definition escalation_filter_hits ::
  "scanners \<Rightarrow> promotion_settings \<Rightarrow> promotion_candidate \<Rightarrow> string list" where
  "escalation_filter_hits sc s c =
     map fst (filter (\<lambda>(name, fired). name \<in> set (escalation_filters s) \<and> fired)
       (filter_condition sc s c))"

subsection \<open>The decision\<close>

record promotion_decision =
  pd_persona :: string
  tier :: string
  auto_promote :: bool
  pd_profile :: string
  writer_trust :: string
  enabled_filters :: "string list"
  escalation_filters_fired :: "string list"
  hard_floor_rules_fired :: "string list"
  pd_reasons :: "string list"
  review_is_advisory :: bool

definition promotion_to_record :: "promotion_decision \<Rightarrow> dict" where
  "promotion_to_record d =
     [(''persona'', JStr (pd_persona d)), (''tier'', JStr (tier d)),
      (''auto_promote'', JBool (auto_promote d)), (''permission_profile'', JStr (pd_profile d)),
      (''writer_trust'', JStr (writer_trust d)), (''enabled_filters'', str_list (enabled_filters d)),
      (''escalation_filters_fired'', str_list (escalation_filters_fired d)),
      (''hard_floor_rules_fired'', str_list (hard_floor_rules_fired d)),
      (''reasons'', str_list (pd_reasons d)),
      (''review_is_advisory'', JBool (review_is_advisory d))]"

text \<open>The cascade that picks the tier, with the reasons it records.\<close>

definition promotion_tier ::
  "string list \<Rightarrow> string list \<Rightarrow> string \<Rightarrow> string \<Rightarrow> string \<Rightarrow> string \<times> string list" where
  "promotion_tier floor_hits filter_hits trust profile p =
     (if floor_hits \<noteq> [] then (''hard_floor'', map (\<lambda>n. ''hard_floor:'' @ n) floor_hits)
      else if trust \<notin> set PROMOTION_ELIGIBLE_WRITERS then
        (''writer_gated'', [''writer_not_promotion_eligible:'' @ trust])
      else if profile \<notin> set PROMOTABLE_PERMISSION_PROFILES then
        (''profile_gated'', [''profile_not_promotable:'' @ profile])
      else if p \<notin> set AUTO_PROMOTING_PERSONAS then
        (''review_gated'', [''persona_review_gated:'' @ p])
      else if filter_hits \<noteq> [] then (''escalated'', map (\<lambda>n. ''escalation_filter:'' @ n) filter_hits)
      else (''auto_promote'', [''persona_auto_promote:'' @ p]))"

definition evaluate_promotion ::
  "scanners \<Rightarrow> promotion_settings \<Rightarrow> promotion_candidate \<Rightarrow> string \<Rightarrow> string \<Rightarrow>
   settings_error + promotion_decision" where
  "evaluate_promotion sc s c profile trust =
     (if trust \<notin> set WRITER_TRUST_LEVELS then
        Inl (PromotionSettingsValidationError
          (''writer_trust must be one of '' @ join_with '', '' WRITER_TRUST_LEVELS))
      else
        (let floor_hits = hard_floor_hits sc c;
             filter_hits = escalation_filter_hits sc s c;
             verdict = promotion_tier floor_hits filter_hits trust profile (persona s);
             auto = (fst verdict = ''auto_promote'')
         in Inr \<lparr>pd_persona = persona s, tier = fst verdict, auto_promote = auto,
                 pd_profile = profile, writer_trust = trust,
                 enabled_filters = filter (\<lambda>n. n \<in> set (escalation_filters s)) ESCALATION_FILTERS,
                 escalation_filters_fired = filter_hits, hard_floor_rules_fired = floor_hits,
                 pd_reasons = snd verdict,
                 review_is_advisory = (review_is_advisory_for s \<and> auto)\<rparr>))"

definition promotion_candidate_for_proposal ::
  "string \<Rightarrow> string \<Rightarrow> string \<Rightarrow> string \<Rightarrow> string \<Rightarrow> string \<Rightarrow> json list \<Rightarrow> string list \<Rightarrow>
   string option \<Rightarrow> promotion_candidate" where
  "promotion_candidate_for_proposal text heading kind area sens src refs contra excerpt =
     default_candidate\<lparr>canonical_text := text, title := heading, memory_type := kind, domain := area,
       sensitivity := sens, source_type := src, source_refs := refs, contradiction_refs := contra,
       conversation_excerpt := excerpt, written_by_agent := True\<rparr>"

subsection \<open>Read path and stored settings\<close>

definition memory_write_provenance :: "dict \<Rightarrow> dict option" where
  "memory_write_provenance memory =
     (if memory = [] then None
      else case as_obj (dget memory ''metadata_json'') of
        None \<Rightarrow> None
      | Some metadata \<Rightarrow>
          (let agentic = (case as_obj (dget metadata ''agentic_memory'') of Some d \<Rightarrow> d | None \<Rightarrow> []);
               policy = (case as_obj (dget agentic ''policy_decision'') of
                           Some d \<Rightarrow> Some d
                         | None \<Rightarrow> as_obj (dget metadata ''policy_decision''))
           in case policy of
                None \<Rightarrow> None
              | Some policy_decision \<Rightarrow>
                  (case as_obj (dget policy_decision ''promotion'') of
                     None \<Rightarrow> None
                   | Some promotion \<Rightarrow>
                       if \<not> py_truthy (dget promotion ''auto_promote'') then None
                       else
                         (let own = dget metadata ''agent_id'';
                              agent_id = (if own \<noteq> JNull then own
                                else (case as_obj (dget agentic ''agent_identity'') of
                                        Some i \<Rightarrow> dget i ''agent_id'' | None \<Rightarrow> JNull))
                          in Some
                            [(''auto_promoted'', JBool True),
                             (''written_by'', JStr (if py_truthy agent_id then ''agent'' else ''user'')),
                             (''agent_id'', opt_str (as_str agent_id)),
                             (''source_type'', opt_str (as_str (dget agentic ''source_type''))),
                             (''persona'', dget promotion ''persona''),
                             (''writer_trust'', dget promotion ''writer_trust''),
                             (''reversible_via'', JStr ''memory.undo'')]))))"

text \<open>\<open>[token.strip() for token in raw.split(",") if token.strip()]\<close>.\<close>

definition comma_tokens :: "string \<Rightarrow> string list" where
  "comma_tokens raw = filter (\<lambda>t. t \<noteq> []) (map py_strip (split_on (CHR '','') raw))"

definition promotion_settings_from_env ::
  "(string \<Rightarrow> string option) \<Rightarrow> settings_error + promotion_settings option" where
  "promotion_settings_from_env environ =
     (let p = py_strip (opt_text (environ ''ALICE_MEMORY_PERSONA'')) in
      if p = [] then Inr None
      else settings_from_mapping
        ([(''persona'', JStr p)]
         @ (case environ ''ALICE_MEMORY_ESCALATION_FILTERS'' of
              None \<Rightarrow> []
            | Some raw \<Rightarrow> [(''escalation_filters'', str_list (comma_tokens raw))])
         @ (case environ ''ALICE_MEMORY_OWNER_ALIASES'' of
              None \<Rightarrow> []
            | Some raw \<Rightarrow> [(''owner_aliases'', str_list (comma_tokens raw))])))"

definition promotion_settings_from_brain_charter ::
  "dict \<Rightarrow> settings_error + promotion_settings option" where
  "promotion_settings_from_brain_charter charter =
     (if charter = [] then Inr None
      else case as_obj (dget charter ''memory_philosophy_json'') of
        None \<Rightarrow> Inr None
      | Some philosophy \<Rightarrow>
          (case dget philosophy ''promotion'' of
             JNull \<Rightarrow> Inr None
           | JObj stored \<Rightarrow> settings_from_mapping stored
           | _ \<Rightarrow> Inl (PromotionSettingsValidationError
                       ''brain charter promotion settings must be an object'')))"

definition brain_charter_promotion_patch :: "promotion_settings \<Rightarrow> dict" where
  "brain_charter_promotion_patch s = [(''promotion'', JObj (settings_to_record s))]"

definition resolve_promotion_settings ::
  "dict \<Rightarrow> dict \<Rightarrow> (string \<Rightarrow> string option) \<Rightarrow> settings_error + promotion_settings option" where
  "resolve_promotion_settings stored charter environ =
     bind_res (settings_from_mapping stored) (\<lambda>from_store.
       if from_store \<noteq> None then Inr from_store
       else bind_res (promotion_settings_from_brain_charter charter) (\<lambda>from_charter.
         if from_charter \<noteq> None then Inr from_charter
         else promotion_settings_from_env environ))"

subsection \<open>Lemmas\<close>

definition settings_ok :: "promotion_settings \<Rightarrow> bool" where
  "settings_ok s \<longleftrightarrow> persona s \<in> set PROMOTION_PERSONAS \<and> set (escalation_filters s) \<subseteq> set ESCALATION_FILTERS"

lemma unknown_filters_Nil: "unknown_filters names = [] \<longleftrightarrow> set names \<subseteq> set ESCALATION_FILTERS"
  unfolding unknown_filters_def set_empty [symmetric] by auto

lemma make_settings_ok: "make_settings p f a = Inr s \<Longrightarrow> settings_ok s \<and> escalation_filters s = f"
  by (auto simp: make_settings_def settings_ok_def unknown_filters_Nil split: if_splits)

lemma settings_from_mapping_ok: "settings_from_mapping payload = Inr (Some s) \<Longrightarrow> settings_ok s"
  by (auto simp: settings_from_mapping_def Let_def split: if_splits json.splits dest: make_settings_ok)

lemma from_env_ok: "promotion_settings_from_env env = Inr (Some s) \<Longrightarrow> settings_ok s"
  by (auto simp: promotion_settings_from_env_def Let_def split: if_splits dest: settings_from_mapping_ok)

lemma from_charter_ok: "promotion_settings_from_brain_charter ch = Inr (Some s) \<Longrightarrow> settings_ok s"
  by (auto simp: promotion_settings_from_brain_charter_def
        split: if_splits option.splits json.splits dest: settings_from_mapping_ok)

lemma fst_promotion_tier:
  "fst (promotion_tier fl hits trust profile p) = ''auto_promote'' \<longleftrightarrow>
     fl = [] \<and> trust \<in> set PROMOTION_ELIGIBLE_WRITERS \<and>
     profile \<in> set PROMOTABLE_PERMISSION_PROFILES \<and> p \<in> set AUTO_PROMOTING_PERSONAS \<and> hits = []"
  by (auto simp: promotion_tier_def)

lemma auto_promote_iff:
  "evaluate_promotion sc s c profile trust = Inr d \<Longrightarrow>
   auto_promote d \<longleftrightarrow>
     hard_floor_hits sc c = [] \<and> trust \<in> set PROMOTION_ELIGIBLE_WRITERS \<and>
     profile \<in> set PROMOTABLE_PERMISSION_PROFILES \<and> persona s \<in> set AUTO_PROMOTING_PERSONAS \<and>
     escalation_filter_hits sc s c = []"
  by (auto simp: evaluate_promotion_def Let_def fst_promotion_tier split: if_splits)

lemma evaluate_promotion_total:
  "trust \<in> set WRITER_TRUST_LEVELS \<Longrightarrow> \<exists>d. evaluate_promotion sc s c profile trust = Inr d"
  by (simp add: evaluate_promotion_def Let_def)

lemma writer_trust_level: "writer_trust_for auth owner \<in> set WRITER_TRUST_LEVELS"
  by (auto simp: writer_trust_for_def WRITER_TRUST_LEVELS_def split: option.split)

lemma escalation_hits_mono:
  assumes "set (escalation_filters s) \<subseteq> set (escalation_filters s')"
    and "owner_aliases s' = owner_aliases s"
  shows "set (escalation_filter_hits sc s c) \<subseteq> set (escalation_filter_hits sc s' c)"
proof -
  have "filter_condition sc s' c = filter_condition sc s c"
    using assms(2) by (simp add: filter_condition_def)
  then show ?thesis using assms(1) by (auto simp: escalation_filter_hits_def)
qed

text \<open>What a parsed filter selection can be.\<close>

lemma toggle_filter_subset:
  "set enabled \<subseteq> set ESCALATION_FILTERS \<Longrightarrow> fst e \<in> set ESCALATION_FILTERS \<Longrightarrow>
   set (toggle_filter enabled e) \<subseteq> set ESCALATION_FILTERS"
  by (cases e) (auto simp: toggle_filter_def)

lemma foldl_toggle_subset:
  "set enabled \<subseteq> set ESCALATION_FILTERS \<Longrightarrow> fst ` set d \<subseteq> set ESCALATION_FILTERS \<Longrightarrow>
   set (foldl toggle_filter enabled d) \<subseteq> set ESCALATION_FILTERS"
proof (induction d arbitrary: enabled)
  case Nil
  then show ?case by simp
next
  case (Cons e d)
  then show ?case
    using toggle_filter_subset [of enabled e] by simp
qed

lemma filter_tokens_str_list:
  "filter_tokens (map JStr xs) = Inr (filter (\<lambda>t. t \<noteq> []) (map py_strip xs))"
  by (simp add: filter_tokens_def list_ex_iff o_def)

lemma parse_filters_list_empty:
  "parse_escalation_filters (str_list []) = Inr ESCALATION_FILTERS"
  by (simp add: parse_escalation_filters_def str_list_def filter_tokens_def)

subsection \<open>Properties\<close>

text \<open>
  The hard floor is not configurable.  When a candidate trips a floor rule (credential
  material, the agent's own output, instruction-shaped content), no persona, no filter
  selection, no permission profile and no writer gets it written without review.
\<close>

theorem hard_floor_unconditional:
  assumes "hard_floor_hits sc c \<noteq> []" and "evaluate_promotion sc s c profile trust = Inr d"
  shows "\<not> auto_promote d \<and> tier d = ''hard_floor'' \<and> hard_floor_rules_fired d = hard_floor_hits sc c"
  using assms by (auto simp: evaluate_promotion_def Let_def promotion_tier_def split: if_splits)

definition quiet_scanners :: scanners where
  "quiet_scanners =
     \<lparr>normalizer = id, credential_match = (\<lambda>b t. False), decoded = (\<lambda>t. []), despaced = (\<lambda>t. []),
      injection = (\<lambda>t. False), imperative = (\<lambda>t. False), person_names = (\<lambda>t. []),
      authority_leads = (\<lambda>t. []), first_person = (\<lambda>t. False), control_terms = (\<lambda>t. False)\<rparr>"

definition demo_floored :: promotion_candidate where
  "demo_floored = default_candidate\<lparr>source_type := ''agent_run''\<rparr>"

lemma fold_ascii_example:
  "fold_text quiet_scanners ''agent_run'' = ''agent_run''"
  by (simp add: fold_text_def quiet_scanners_def py_strip_def lstrip_with.simps py_whitespace_def
        casefold_table_def ascii_lower_char_def)

lemma demo_floored_hits: "hard_floor_hits quiet_scanners demo_floored = [''agent_output_reingestion'']"
  by (simp add: hard_floor_hits_def demo_floored_def default_candidate_def looks_like_credential_def
        opt_text_def refs_point_at_agent_output_def matching_surfaces_def fold_ascii_example
        AGENT_OUTPUT_SOURCE_TYPES_def dict_fromkeys_def)

theorem hard_floor_unconditional_witness:
  "\<exists>d. evaluate_promotion quiet_scanners \<lparr>persona = ''personal'', escalation_filters = [], owner_aliases = []\<rparr>
        demo_floored ''admin_agent'' ''owner'' = Inr d \<and>
     \<not> auto_promote d \<and> tier d = ''hard_floor''"
proof -
  have "''owner'' \<in> set WRITER_TRUST_LEVELS" by (simp add: WRITER_TRUST_LEVELS_def)
  then obtain d where d: "evaluate_promotion quiet_scanners
      \<lparr>persona = ''personal'', escalation_filters = [], owner_aliases = []\<rparr>
      demo_floored ''admin_agent'' ''owner'' = Inr d"
    using evaluate_promotion_total by blast
  have "hard_floor_hits quiet_scanners demo_floored \<noteq> []" by (simp add: demo_floored_hits)
  from hard_floor_unconditional [OF this d] d show ?thesis by blast
qed

text \<open>
  C29: auto-promotion happens exactly when nothing trips the floor, the writer is the owner or
  an authenticated agent, the profile may hold a direct write, the persona promotes by default
  and no enabled escalation filter fires; in particular an unauthenticated agent (an identity
  with any other \<open>auth\<close>) and an unverified caller never promote.
\<close>

theorem auto_promotion_exactly_when:
  "(\<exists>d. evaluate_promotion sc s c profile (writer_trust_for auth owner_verified) = Inr d \<and> auto_promote d) \<longleftrightarrow>
     hard_floor_hits sc c = [] \<and> escalation_filter_hits sc s c = [] \<and>
     profile \<in> set PROMOTABLE_PERMISSION_PROFILES \<and> persona s \<in> set AUTO_PROMOTING_PERSONAS \<and>
     (auth = Some AGENT_KEY_AUTH \<or> auth = None \<and> owner_verified)"
proof -
  let ?t = "writer_trust_for auth owner_verified"
  have trust: "?t \<in> set PROMOTION_ELIGIBLE_WRITERS \<longleftrightarrow> auth = Some AGENT_KEY_AUTH \<or> auth = None \<and> owner_verified"
    by (auto simp: writer_trust_for_def PROMOTION_ELIGIBLE_WRITERS_def split: option.split)
  obtain d where d: "evaluate_promotion sc s c profile ?t = Inr d"
    using evaluate_promotion_total [OF writer_trust_level] by blast
  from auto_promote_iff [OF d] d trust show ?thesis by auto
qed

text \<open>
  Enabling more escalation filters never lets more through: a candidate promoted under
  the larger filter selection is promoted under the smaller one.
\<close>

theorem filters_only_restrict:
  assumes "set (escalation_filters s) \<subseteq> set (escalation_filters s')"
    and "persona s = persona s'" and "owner_aliases s = owner_aliases s'"
    and "evaluate_promotion sc s' c profile trust = Inr d'" and "auto_promote d'"
  shows "\<exists>d. evaluate_promotion sc s c profile trust = Inr d \<and> auto_promote d"
proof -
  from assms(4) have "trust \<in> set WRITER_TRUST_LEVELS"
    by (auto simp: evaluate_promotion_def split: if_splits)
  then obtain d where d: "evaluate_promotion sc s c profile trust = Inr d"
    using evaluate_promotion_total by blast
  have "escalation_filter_hits sc s c = []"
    using escalation_hits_mono [OF assms(1), of sc c] assms(3,5) auto_promote_iff [OF assms(4)] by simp
  with auto_promote_iff [OF assms(4)] auto_promote_iff [OF d] assms(2,5) d show ?thesis by auto
qed

lemma default_candidate_fold: "fold_text quiet_scanners (domain default_candidate) = ''unknown''"
  "fold_text quiet_scanners (source_type default_candidate) = ''unknown''"
  by (simp_all add: fold_text_def quiet_scanners_def default_candidate_def py_strip_def
        lstrip_with.simps py_whitespace_def casefold_table_def ascii_lower_char_def)

theorem filters_only_restrict_witness:
  "\<exists>d. evaluate_promotion quiet_scanners
          \<lparr>persona = ''personal'', escalation_filters = [], owner_aliases = []\<rparr>
          default_candidate ''admin_agent'' ''owner'' = Inr d \<and> auto_promote d"
proof -
  let ?s = "\<lparr>persona = ''personal'', escalation_filters = [], owner_aliases = []\<rparr> :: promotion_settings"
  let ?s' = "?s\<lparr>escalation_filters := [''restricted_domain'']\<rparr>"
  have "hard_floor_hits quiet_scanners default_candidate = []"
    by (simp add: hard_floor_hits_def looks_like_credential_def opt_text_def
          refs_point_at_agent_output_def matching_surfaces_def default_candidate_fold
          AGENT_OUTPUT_SOURCE_TYPES_def) (simp add: default_candidate_def)
  moreover have "escalation_filter_hits quiet_scanners ?s' default_candidate = []"
    by (simp add: escalation_filter_hits_def filter_condition_def default_candidate_fold
          PROMOTION_RESTRICTED_DOMAINS_def)
  moreover obtain d where d: "evaluate_promotion quiet_scanners ?s' default_candidate ''admin_agent'' ''owner'' = Inr d"
    using evaluate_promotion_total [of "''owner''" quiet_scanners ?s' default_candidate "''admin_agent''"]
    by (auto simp: WRITER_TRUST_LEVELS_def)
  ultimately have "auto_promote d"
    using auto_promote_iff [OF d]
    by (simp add: PROMOTION_ELIGIBLE_WRITERS_def PROMOTABLE_PERMISSION_PROFILES_def AUTO_PROMOTING_PERSONAS_def)
  then show ?thesis
    using filters_only_restrict [of ?s ?s' quiet_scanners default_candidate "''admin_agent''" "''owner''" d] d
    by simp
qed

text \<open>
  A configuration value can neither name a floor rule nor silently switch the filters
  off.  Whatever is parsed, the resulting selection is part of the escalation filters, and an
  array yields the empty selection only when it is the explicit disable-all token.
\<close>

theorem parsed_filters_fail_closed:
  assumes "parse_escalation_filters raw = Inr names"
  shows "set names \<subseteq> set ESCALATION_FILTERS \<and>
    (names = [] \<longrightarrow> raw = JNull \<or> (\<exists>d. raw = JObj d) \<or>
       (\<exists>xs. raw = JList xs \<and> filter_tokens xs = Inr [DISABLE_ALL_ESCALATION_FILTERS]))"
proof (cases raw)
  case (JObj d)
  with assms have "fst ` set d \<subseteq> set ESCALATION_FILTERS"
    by (auto simp: parse_escalation_filters_def Let_def unknown_filters_Nil split: if_splits)
  with assms JObj show ?thesis
    using foldl_toggle_subset [of ESCALATION_FILTERS d]
    by (auto simp: parse_escalation_filters_def Let_def split: if_splits)
next
  case (JList xs)
  with assms show ?thesis
    by (auto simp: parse_escalation_filters_def unknown_filters_Nil ESCALATION_FILTERS_def split: if_splits)
qed (use assms in \<open>simp_all add: parse_escalation_filters_def\<close>)

theorem parsed_filters_fail_closed_witness:
  "set [''restricted_domain''] \<subseteq> set ESCALATION_FILTERS"
proof -
  have "parse_escalation_filters (JList [JStr '' restricted_domain '']) = Inr [''restricted_domain'']"
    by code_simp
  from parsed_filters_fail_closed [OF this] show ?thesis by blast
qed

text \<open>The vocabulary is plain ASCII text, so stripping and folding leave it alone.\<close>

lemma stripped_filters: "list_all (\<lambda>f. f \<noteq> [] \<and> py_strip f = f) ESCALATION_FILTERS"
  by code_simp

lemma folded_personas: "list_all (\<lambda>p. p \<noteq> [] \<and> py_casefold (py_strip p) = p) PROMOTION_PERSONAS"
  by code_simp

lemma disable_token_not_filter: "DISABLE_ALL_ESCALATION_FILTERS \<notin> set ESCALATION_FILTERS"
  by code_simp

lemma parse_stored_filters:
  assumes "set fs \<subseteq> set ESCALATION_FILTERS" and "fs \<noteq> []"
  shows "parse_escalation_filters (str_list (sort fs)) = Inr (remdups (sort fs))"
proof -
  let ?g = "sort fs"
  have sub: "set ?g \<subseteq> set ESCALATION_FILTERS" using assms(1) by simp
  have fixed: "f \<noteq> [] \<and> py_strip f = f" if "f \<in> set ?g" for f
    using that sub stripped_filters by (auto simp: list_all_iff)
  then have "map py_strip ?g = ?g" by (intro map_idI) blast
  moreover have "filter (\<lambda>t. t \<noteq> []) ?g = ?g" using fixed by (simp add: filter_id_conv)
  ultimately have "filter (\<lambda>t. t \<noteq> []) (map py_strip ?g) = ?g" by simp
  then have tokens: "filter_tokens (map JStr ?g) = Inr ?g"
    by (simp add: filter_tokens_str_list)
  have ne: "?g \<noteq> []" using assms(2) by (metis set_empty set_sort)
  have "DISABLE_ALL_ESCALATION_FILTERS \<notin> set ?g"
    using sub disable_token_not_filter by auto
  moreover from this have "?g \<noteq> [DISABLE_ALL_ESCALATION_FILTERS]" by (metis list.set_intros(1))
  ultimately show ?thesis
    using tokens ne sub
    by (auto simp: parse_escalation_filters_def str_list_def unknown_filters_Nil)
qed

text \<open>
  C37: what the owner stores is read back, except that a selection with every filter off comes
  back with every filter on.  The Brain Charter fragment written for valid settings resolves
  to the same persona and aliases, and to the same set of filters when it is not empty.
\<close>

theorem charter_settings_roundtrip:
  assumes "settings_ok s" and "\<forall>a \<in> set (owner_aliases s). a \<noteq> [] \<and> py_strip a = a"
  shows "\<exists>s'. promotion_settings_from_brain_charter
        [(''memory_philosophy_json'', JObj (brain_charter_promotion_patch s))] = Inr (Some s') \<and>
      persona s' = persona s \<and> owner_aliases s' = owner_aliases s \<and>
      set (escalation_filters s') =
        (if escalation_filters s = [] then set ESCALATION_FILTERS else set (escalation_filters s))"
proof -
  let ?stored = "if escalation_filters s = [] then ESCALATION_FILTERS
                 else remdups (sort (escalation_filters s))"
  let ?s' = "\<lparr>persona = persona s, escalation_filters = ?stored, owner_aliases = owner_aliases s\<rparr>"
  have filters: "parse_escalation_filters (str_list (sort (escalation_filters s))) = Inr ?stored"
    using assms(1) parse_stored_filters parse_filters_list_empty by (simp add: settings_ok_def)
  have aliases: "parse_owner_aliases (str_list (owner_aliases s)) = Inr (owner_aliases s)"
    by (cases "owner_aliases s") (auto simp: parse_owner_aliases_def str_list_def list_ex_iff o_def)
  have kept: "map py_strip (filter (\<lambda>a. py_strip a \<noteq> []) (owner_aliases s)) = owner_aliases s"
    using assms(2) by (simp add: map_idI)
  have p: "persona s \<noteq> []" "py_casefold (py_strip (persona s)) = persona s"
    "persona s \<in> set PROMOTION_PERSONAS"
    using assms(1) folded_personas by (auto simp: settings_ok_def list_all_iff)
  have "unknown_filters ?stored = []"
    using assms(1) by (auto simp: settings_ok_def unknown_filters_Nil)
  then have "settings_from_mapping (settings_to_record s) = Inr (Some ?s')"
    using filters aliases kept p
    by (simp add: settings_from_mapping_def settings_to_record_def make_settings_def Let_def)
  then show ?thesis
    by (intro exI [of _ ?s'])
       (simp add: promotion_settings_from_brain_charter_def brain_charter_promotion_patch_def)
qed

theorem charter_settings_roundtrip_witness:
  "\<exists>s'. promotion_settings_from_brain_charter
        [(''memory_philosophy_json'', JObj (brain_charter_promotion_patch
            \<lparr>persona = ''team'', escalation_filters = [''restricted_domain''], owner_aliases = [''Sami'']\<rparr>))]
        = Inr (Some s') \<and>
      persona s' = ''team'' \<and> owner_aliases s' = [''Sami''] \<and>
      set (escalation_filters s') = {''restricted_domain''}"
proof -
  let ?s = "\<lparr>persona = ''team'', escalation_filters = [''restricted_domain''], owner_aliases = [''Sami'']\<rparr>"
  have "settings_ok ?s"
    by (simp add: settings_ok_def PROMOTION_PERSONAS_def ESCALATION_FILTERS_def)
  moreover have "py_strip ''Sami'' = ''Sami''" by code_simp
  ultimately show ?thesis
    using charter_settings_roundtrip [of ?s] by simp
qed

end
