(* ===== verification/Agent_Control.thy ===== *)
theory Agent_Control
  imports Promotion Project_Scope
begin

text \<open>
  \<open>vnext_agent_control.py\<close>: the identity an agent presents and the policy engine that decides
  what it may do.  The random part of \<open>trace_id\<close> is an argument of the decision.
\<close>

subsection \<open>Vocabulary\<close>

definition AGENT_TYPES :: "string list" where
  [model_defs]: "AGENT_TYPES =
    [''personal_assistant'', ''coding_agent'', ''research_agent'', ''workflow_agent'', ''unknown'']"

definition PERMISSION_PROFILES :: "string list" where
  [model_defs]: "PERMISSION_PROFILES =
    [''read_only_agent'', ''project_scoped_agent'', ''trusted_local_agent'',
     ''memory_proposal_agent'', ''admin_agent'']"

definition POLICY_DECISIONS :: "string list" where
  [model_defs]: "POLICY_DECISIONS =
    [''allowed'', ''allowed_with_filtering'', ''requires_review'', ''blocked'']"

definition RESTRICTED_DOMAINS :: "string list" where
  [model_defs]: "RESTRICTED_DOMAINS = [''family'', ''health'', ''spiritual'', ''legal'', ''financial'']"

definition ALL_SENSITIVITY :: "string list" where
  [model_defs]: "ALL_SENSITIVITY =
    [''public'', ''internal'', ''private'', ''confidential'', ''highly_sensitive'', ''sacred'',
     ''regulated'', ''unknown'']"

definition DEFAULT_AGENT_SENSITIVITY :: "string list" where
  [model_defs]: "DEFAULT_AGENT_SENSITIVITY = [''public'', ''internal'', ''private'', ''unknown'']"

definition WRITE_ACTIONS :: "string list" where
  [model_defs]: "WRITE_ACTIONS =
    [''source.capture'', ''queue_task.create'', ''artifact.generate'', ''memory.commit'',
     ''memory.confirm'', ''memory.correct'', ''memory.forget'', ''memory.undo'', ''memory.expire'',
     ''memory.unexpire'', ''memory.redact'', ''memory.accept_consolidation'', ''memory.propose'',
     ''memory.quarantine'', ''http.route.mutate'', ''open_loop.create'', ''open_loop.update'',
     ''artifact.review'', ''artifact.feedback'', ''artifact.export'', ''scheduler.run_now'',
     ''scheduler.run_due'', ''scheduler.pause'', ''scheduler.resume'', ''scheduler.configure'']"

definition PROPOSAL_ONLY_WRITE_ACTIONS :: "string list" where
  [model_defs]: "PROPOSAL_ONLY_WRITE_ACTIONS = [''memory.propose'', ''memory.commit'']"

definition HUMAN_OR_ADMIN_ACTIONS :: "string list" where
  [model_defs]: "HUMAN_OR_ADMIN_ACTIONS =
    [''artifact.review'', ''memory.review'', ''memory.redact'', ''memory.accept_consolidation'',
     ''memory.quarantine'']"

subsection \<open>Identities\<close>

record agent_identity =
  agent_id :: string
  agent_type :: string
  agent_run_id :: "string option"
  task_id :: "string option"
  bound_scope :: "string list"
  permission_profile :: string
  auth :: string
  scope_locked :: bool

datatype identity_error = AgentIdentityValidationError string

definition optional_text :: "json \<Rightarrow> identity_error + string option" where
  "optional_text value =
     (case value of
        JNull \<Rightarrow> Inr None
      | JStr s \<Rightarrow> (let n = squeeze_text s in Inr (if n = [] then None else Some n))
      | _ \<Rightarrow> Inl (AgentIdentityValidationError ''agent identity fields must be strings''))"

fun check_scope_items :: "json list \<Rightarrow> identity_error + unit" where
  "check_scope_items [] = Inr ()"
| "check_scope_items (item # rest) =
     (case as_str item of
        None \<Rightarrow> Inl (AgentIdentityValidationError ''project_scope must be a list of strings'')
      | Some s \<Rightarrow>
          if normalize_project_identifier item = []
          then Inl (AgentIdentityValidationError ''project_scope identifiers must not be blank'')
          else check_scope_items rest)"

definition string_list :: "json \<Rightarrow> identity_error + string list" where
  "string_list value =
     (case value of
        JNull \<Rightarrow> Inr []
      | JList xs \<Rightarrow> bind_res (check_scope_items xs) (\<lambda>_. Inr (normalize_project_scope value))
      | _ \<Rightarrow> Inl (AgentIdentityValidationError ''project_scope must be a list of strings''))"

definition default_agent_type :: "string \<Rightarrow> string" where
  "default_agent_type agent =
     (if py_casefold agent = ''hermes'' then ''personal_assistant''
      else if py_casefold agent = ''openclaw'' then ''coding_agent''
      else ''unknown'')"

definition default_permission_profile :: "string \<Rightarrow> string" where
  "default_permission_profile agent =
     (if py_casefold agent = ''hermes'' then ''trusted_local_agent''
      else if py_casefold agent = ''openclaw'' then ''project_scoped_agent''
      else ''read_only_agent'')"

definition identity_source :: "dict \<Rightarrow> dict" where
  "identity_source payload =
     (case as_obj (dget payload ''agent_identity'') of Some nested \<Rightarrow> nested | None \<Rightarrow> payload)"

definition identity_from_payload :: "dict \<Rightarrow> identity_error + agent_identity option" where
  "identity_from_payload payload =
     (let source = identity_source payload in
      bind_res (optional_text (dget source ''agent_id'')) (\<lambda>agent.
        case agent of
          None \<Rightarrow> Inr None
        | Some agent_name \<Rightarrow>
            bind_res (optional_text (dget source ''agent_type'')) (\<lambda>stated_type.
            (let kind = (case stated_type of Some t \<Rightarrow> t | None \<Rightarrow> default_agent_type agent_name) in
             if kind \<notin> set AGENT_TYPES then
               Inl (AgentIdentityValidationError
                 (''agent_type must be one of '' @ join_with '', '' AGENT_TYPES))
             else
            bind_res (optional_text (dget source ''permission_profile'')) (\<lambda>stated_profile.
            (let profile = (case stated_profile of Some p \<Rightarrow> p
                              | None \<Rightarrow> default_permission_profile agent_name) in
             if profile \<notin> set PERMISSION_PROFILES then
               Inl (AgentIdentityValidationError
                 (''permission_profile must be one of '' @ join_with '', '' PERMISSION_PROFILES))
             else
            bind_res (optional_text (dget source ''agent_run_id'')) (\<lambda>run.
            bind_res (optional_text (dget source ''task_id'')) (\<lambda>task.
            bind_res (string_list (dget source ''project_scope'')) (\<lambda>scope.
              Inr (Some \<lparr>agent_id = agent_name, agent_type = kind, agent_run_id = run,
                         task_id = task, bound_scope = scope, permission_profile = profile,
                         auth = ''unauthenticated_local'', scope_locked = False\<rparr>))))))))))"

definition identity_to_record :: "agent_identity \<Rightarrow> dict" where
  "identity_to_record i =
     [(''agent_id'', JStr (agent_id i)), (''agent_type'', JStr (agent_type i)),
      (''agent_run_id'', opt_str (agent_run_id i)), (''task_id'', opt_str (task_id i)),
      (''project_scope'', str_list (bound_scope i)),
      (''permission_profile'', JStr (permission_profile i)), (''auth'', JStr (auth i)),
      (''project_scope_locked'', JBool (scope_locked i))]"

subsection \<open>Filters of a profile\<close>

definition profile_sensitivity :: "string \<Rightarrow> string list" where
  "profile_sensitivity profile =
     (if profile = ''read_only_agent'' then [''public'', ''internal'', ''unknown'']
      else if profile = ''admin_agent'' then ALL_SENSITIVITY
      else DEFAULT_AGENT_SENSITIVITY)"

definition filtered_domains :: "string \<Rightarrow> string list \<Rightarrow> string list \<times> string list" where
  "filtered_domains profile domains =
     (if profile \<in> {''trusted_local_agent'', ''admin_agent''} then (domains, [])
      else (filter (\<lambda>d. d \<notin> set RESTRICTED_DOMAINS) domains,
            filter (\<lambda>d. d \<in> set RESTRICTED_DOMAINS) domains))"

definition filtered_sensitivity :: "string \<Rightarrow> string list \<Rightarrow> string list \<times> string list" where
  "filtered_sensitivity profile sensitivity_allowed =
     (let profile_allowed = profile_sensitivity profile;
          requested = (if sensitivity_allowed \<noteq> [] then sensitivity_allowed else profile_allowed);
          allowed = filter (\<lambda>v. v \<in> set profile_allowed) requested;
          filtered = filter (\<lambda>v. v \<notin> set profile_allowed) requested
      in (if allowed \<noteq> [] then allowed else profile_allowed, filtered))"

subsection \<open>The decision\<close>

record policy_decision =
  decision :: string
  pol_action :: string
  pol_profile :: string
  reasons :: "string list"
  requested_domains :: "string list"
  effective_domains :: "string list"
  requested_sensitivity :: "string list"
  effective_sensitivity :: "string list"
  requested_scope :: "string list"
  effective_scope :: "string list"
  review_required :: bool
  trace_id :: string
  workflow_type :: "string option"
  promotion :: "promotion_decision option"

definition decision_to_record :: "policy_decision \<Rightarrow> dict" where
  "decision_to_record d =
     [(''decision'', JStr (decision d)), (''action'', JStr (pol_action d)),
      (''permission_profile'', JStr (pol_profile d)), (''reasons'', str_list (reasons d)),
      (''requested_domains'', str_list (requested_domains d)),
      (''effective_domains'', str_list (effective_domains d)),
      (''requested_sensitivity_allowed'', str_list (requested_sensitivity d)),
      (''effective_sensitivity_allowed'', str_list (effective_sensitivity d)),
      (''requested_project_scope'', str_list (requested_scope d)),
      (''effective_project_scope'', str_list (effective_scope d)),
      (''review_required'', JBool (review_required d)), (''trace_id'', JStr (trace_id d)),
      (''workflow_type'', opt_str (workflow_type d))]
     @ (case promotion d of None \<Rightarrow> [] | Some p \<Rightarrow> [(''promotion'', JObj (promotion_to_record p))])"

text \<open>The keyword arguments of \<open>evaluate_agent_policy\<close>.\<close>

record policy_request =
  req_action :: string
  req_domains :: "string list"
  req_sensitivity :: "string list"
  req_scope :: "string list"
  req_workflow :: "string option"
  req_write_policy :: "string option"
  req_explicit_scope :: bool
  req_settings :: "promotion_settings option"
  req_candidate :: "promotion_candidate option"
  req_owner_verified :: bool

definition default_request :: "string \<Rightarrow> policy_request" where
  "default_request action =
     \<lparr>req_action = action, req_domains = [], req_sensitivity = DEFAULT_AGENT_SENSITIVITY,
      req_scope = [], req_workflow = None, req_write_policy = None, req_explicit_scope = False,
      req_settings = None, req_candidate = None, req_owner_verified = False\<rparr>"

text \<open>The local variables the checks update: \<open>decision\<close>, \<open>reasons\<close>, \<open>review_required\<close>, the scope.\<close>

record verdict =
  v_decision :: string
  v_reasons :: "string list"
  v_review :: bool
  v_scope :: "string list"

definition note_if :: "bool \<Rightarrow> string \<Rightarrow> string \<Rightarrow> verdict \<Rightarrow> verdict" where
  "note_if cond reason outcome v =
     (if cond then v\<lparr>v_reasons := v_reasons v @ [reason], v_decision := outcome\<rparr> else v)"

definition block_if :: "bool \<Rightarrow> string \<Rightarrow> verdict \<Rightarrow> verdict" where
  "block_if cond reason v = note_if cond reason ''blocked'' v"

text \<open>The filters on domains and sensitivity.\<close>

definition check_filters :: "policy_request \<Rightarrow> string list \<Rightarrow> string list \<Rightarrow> string list \<Rightarrow> verdict \<Rightarrow> verdict" where
  "check_filters req eff_domains lost_domains lost_sensitivity v =
     (let v1 = note_if (lost_domains \<noteq> []) ''restricted_domain_filtered'' ''allowed_with_filtering'' v;
          v2 = note_if (lost_sensitivity \<noteq> []) ''restricted_sensitivity_filtered'' ''allowed_with_filtering'' v1
      in block_if (req_domains req \<noteq> [] \<and> eff_domains = [] \<and> lost_domains \<noteq> [])
           ''all_requested_domains_restricted'' v2)"

text \<open>Write bans of the read-only and the proposal profiles.\<close>

definition check_profile_writes :: "policy_request \<Rightarrow> string \<Rightarrow> verdict \<Rightarrow> verdict" where
  "check_profile_writes req profile v =
     block_if (profile = ''memory_proposal_agent'' \<and> req_action req \<in> set WRITE_ACTIONS
               \<and> req_action req \<notin> set PROPOSAL_ONLY_WRITE_ACTIONS)
       ''memory_proposal_agent_cannot_mutate''
       (block_if (profile = ''read_only_agent'' \<and> req_action req \<in> set WRITE_ACTIONS)
          ''read_only_agent_cannot_write'' v)"

text \<open>The scope binding of the key.\<close>

definition out_of_scope :: "agent_identity \<Rightarrow> string list \<Rightarrow> string list" where
  "out_of_scope i requested =
     filter (\<lambda>value. \<not> set (scope_identity [value]) \<subseteq> set (scope_identity (bound_scope i))) requested"

definition check_scope_binding :: "policy_request \<Rightarrow> agent_identity \<Rightarrow> verdict \<Rightarrow> verdict" where
  "check_scope_binding req i v =
     (if scope_locked i then
        (if out_of_scope i (req_scope req) \<noteq> [] \<or> req_explicit_scope req \<and> req_scope req = []
         then (block_if True ''project_scope_binding_violation'' v)\<lparr>v_scope := []\<rparr>
         else v\<lparr>v_scope := (if req_scope req \<noteq> [] then req_scope req else bound_scope i)\<rparr>)
      else v)"

definition check_proposal :: "policy_request \<Rightarrow> string \<Rightarrow> verdict \<Rightarrow> verdict" where
  "check_proposal req profile v =
     (if req_action req = ''memory.propose'' then
        (if profile \<notin> {''project_scoped_agent'', ''trusted_local_agent'', ''memory_proposal_agent'', ''admin_agent''}
         then block_if True ''memory_proposal_permission_required'' v
         else v\<lparr>v_review := True,
                v_decision := (if v_decision v = ''allowed'' then ''requires_review'' else v_decision v)\<rparr>)
      else v)"

definition check_operator :: "policy_request \<Rightarrow> agent_identity \<Rightarrow> string \<Rightarrow> verdict \<Rightarrow> verdict" where
  "check_operator req i profile v =
     (let a = req_action req; operator_profile = (profile \<in> {''trusted_local_agent'', ''admin_agent''});
          v1 = block_if (a \<in> set HUMAN_OR_ADMIN_ACTIONS \<and> profile \<noteq> ''admin_agent'')
                 ''human_or_admin_review_required'' v;
          v2 = block_if (a = ''http.operator.access'' \<and> \<not> operator_profile)
                 ''trusted_or_admin_agent_required_for_operator_route'' v1;
          v3 = block_if (a = ''http.operator.access'' \<and> (scope_locked i \<or> bound_scope i \<noteq> []))
                 ''unbound_operator_key_required'' v2
      in block_if (a = ''artifact.export'' \<and> \<not> operator_profile)
           ''trusted_or_admin_agent_required_for_artifact_export'' v3)"

definition check_write_policy :: "policy_request \<Rightarrow> string \<Rightarrow> bool \<Rightarrow> verdict \<Rightarrow> verdict" where
  "check_write_policy req profile promotion_permits_write v =
     block_if ((case req_write_policy req of None \<Rightarrow> False
                | Some w \<Rightarrow> w \<noteq> [] \<and> w \<noteq> ''proposal_only'')
               \<and> profile \<noteq> ''admin_agent'' \<and> \<not> promotion_permits_write)
       ''no_auto_promotion'' v"

definition check_project_scoped :: "policy_request \<Rightarrow> agent_identity \<Rightarrow> string \<Rightarrow> verdict \<Rightarrow> verdict" where
  "check_project_scoped req i profile v =
     (if profile = ''project_scoped_agent'' then
        (let a = req_action req;
             v1 = block_if (req_scope req = [] \<and> bound_scope i = [] \<and>
                    a \<in> {''context_pack.request'', ''artifact.generate'', ''memory.commit'',
                         ''memory.propose'', ''scheduler.run_now''})
                    ''project_scope_required'' v;
             v2 = block_if (a = ''scheduler.run_now'' \<and>
                    req_workflow req \<notin> {Some ''connection_report'', Some ''contradiction_report'',
                         Some ''project_update_scan'', Some ''memory_consolidation''})
                    ''project_scoped_agent_cannot_run_global_workflow'' v1;
             v3 = block_if (a = ''scheduler.run_due'')
                    ''project_scoped_agent_cannot_trigger_global_scheduler'' v2
         in block_if (a \<in> {''scheduler.pause'', ''scheduler.resume'', ''scheduler.configure''})
              ''project_scoped_agent_cannot_control_global_scheduler'' v3)
      else v)"

definition check_scheduler :: "policy_request \<Rightarrow> string \<Rightarrow> verdict \<Rightarrow> verdict" where
  "check_scheduler req profile v =
     (let a = req_action req; operator_profile = (profile \<in> {''trusted_local_agent'', ''admin_agent''});
          v1 = block_if (a = ''scheduler.configure'' \<and> profile \<noteq> ''admin_agent'')
                 ''admin_agent_required_for_scheduler_configuration'' v;
          v2 = block_if (a \<in> {''scheduler.pause'', ''scheduler.resume''} \<and> \<not> operator_profile)
                 ''trusted_or_admin_agent_required_for_scheduler_control'' v1;
          v3 = block_if (a = ''scheduler.run_now'' \<and> profile \<noteq> ''project_scoped_agent'' \<and> \<not> operator_profile)
                 ''trusted_agent_required_for_scheduler_run'' v2
      in block_if (a = ''scheduler.run_due'' \<and> \<not> operator_profile)
           ''trusted_or_admin_agent_required_for_scheduler_due_run'' v3)"

definition apply_promotion :: "bool \<Rightarrow> verdict \<Rightarrow> verdict" where
  "apply_promotion promotion_permits_write v =
     (if promotion_permits_write \<and> v_decision v = ''requires_review''
      then v\<lparr>v_reasons := v_reasons v @ [''promotion_auto_promoted''], v_decision := ''allowed'',
             v_review := False\<rparr>
      else v)"

definition policy_verdict :: "policy_request \<Rightarrow> agent_identity \<Rightarrow> bool \<Rightarrow> verdict" where
  "policy_verdict req i promotion_permits_write =
     (let profile = permission_profile i;
          (eff_domains, lost_domains) = filtered_domains profile (req_domains req);
          (eff_sensitivity, lost_sensitivity) = filtered_sensitivity profile (req_sensitivity req);
          v0 = \<lparr>v_decision = ''allowed'', v_reasons = [], v_review = False,
                v_scope = (if req_scope req \<noteq> [] then req_scope req else bound_scope i)\<rparr>
      in apply_promotion promotion_permits_write
          (check_scheduler req profile
          (check_project_scoped req i profile
          (check_write_policy req profile promotion_permits_write
          (check_operator req i profile
          (check_proposal req profile
          (check_scope_binding req i
          (check_profile_writes req profile
          (check_filters req eff_domains lost_domains lost_sensitivity v0)))))))))"

text \<open>The promotion part: recomputed by the engine from the candidate on every evaluation.\<close>

definition policy_promotion ::
  "scanners \<Rightarrow> policy_request \<Rightarrow> agent_identity \<Rightarrow> settings_error + promotion_decision option" where
  "policy_promotion sc req i =
     (case req_settings req of
        None \<Rightarrow> Inr None
      | Some settings \<Rightarrow>
          (let candidate = (case req_candidate req of
                 Some c \<Rightarrow> c
               | None \<Rightarrow> default_candidate
                   \<lparr>domain := (case req_domains req of [] \<Rightarrow> ''unknown'' | d # _ \<Rightarrow> d),
                    sensitivity := (case req_sensitivity req of [] \<Rightarrow> ''unknown'' | s # _ \<Rightarrow> s)\<rparr>)
           in bind_res
                (evaluate_promotion sc settings (candidate\<lparr>written_by_agent := True\<rparr>)
                   (permission_profile i) (writer_trust_for (Some (auth i)) (req_owner_verified req)))
                (\<lambda>d. Inr (Some d))))"

definition evaluate_agent_policy ::
  "scanners \<Rightarrow> string \<Rightarrow> agent_identity option \<Rightarrow> policy_request \<Rightarrow> settings_error + policy_decision" where
  "evaluate_agent_policy sc trace identity req =
     (case identity of
        None \<Rightarrow> Inr
          \<lparr>decision = ''allowed'', pol_action = req_action req, pol_profile = ''user_or_system'',
           reasons = [], requested_domains = req_domains req, effective_domains = req_domains req,
           requested_sensitivity = req_sensitivity req, effective_sensitivity = req_sensitivity req,
           requested_scope = req_scope req, effective_scope = req_scope req,
           review_required = False, trace_id = trace, workflow_type = req_workflow req,
           promotion = None\<rparr>
      | Some i \<Rightarrow>
          bind_res (policy_promotion sc req i) (\<lambda>promo.
            (let permits = (case promo of None \<Rightarrow> False | Some p \<Rightarrow> auto_promote p);
                 v = policy_verdict req i permits
             in Inr
              \<lparr>decision = v_decision v, pol_action = req_action req, pol_profile = permission_profile i,
               reasons = dict_fromkeys (v_reasons v), requested_domains = req_domains req,
               effective_domains = fst (filtered_domains (permission_profile i) (req_domains req)),
               requested_sensitivity = req_sensitivity req,
               effective_sensitivity = fst (filtered_sensitivity (permission_profile i) (req_sensitivity req)),
               requested_scope = req_scope req, effective_scope = v_scope v,
               review_required = (v_review v \<or> v_decision v = ''requires_review''),
               trace_id = trace, workflow_type = req_workflow req, promotion = promo\<rparr>)))"

subsection \<open>Lemmas on the checks\<close>

definition blocked :: "verdict \<Rightarrow> bool" where
  "blocked v \<longleftrightarrow> v_decision v = ''blocked''"

named_theorems policy_checks "the checks of the policy engine"

lemmas [policy_checks] =
  check_filters_def check_profile_writes_def check_scope_binding_def check_proposal_def
  check_operator_def check_write_policy_def check_project_scoped_def check_scheduler_def
  apply_promotion_def block_if_def note_if_def

lemma blocked_block_if [simp]: "blocked (block_if c r v) \<longleftrightarrow> c \<or> blocked v"
  by (simp add: blocked_def block_if_def note_if_def)

lemma v_scope_block_if [simp]: "v_scope (block_if c r v) = v_scope v"
  by (simp add: block_if_def note_if_def)

lemma v_scope_note [simp]: "v_scope (note_if c r out v) = v_scope v"
  by (simp add: note_if_def)

lemma v_scope_checks [simp]:
  "v_scope (check_filters req e l s v) = v_scope v"
  "v_scope (check_profile_writes req p v) = v_scope v"
  "v_scope (check_proposal req p v) = v_scope v"
  "v_scope (check_operator req i p v) = v_scope v"
  "v_scope (check_write_policy req p b v) = v_scope v"
  "v_scope (check_project_scoped req i p v) = v_scope v"
  "v_scope (check_scheduler req p v) = v_scope v"
  "v_scope (apply_promotion b v) = v_scope v"
  by (simp_all add: check_filters_def check_profile_writes_def check_proposal_def check_operator_def
        check_write_policy_def check_project_scoped_def check_scheduler_def apply_promotion_def Let_def)

text \<open>Once blocked, a verdict stays blocked to the end of the cascade.\<close>

lemma blocked_checks [intro]:
  "blocked v \<Longrightarrow> blocked (check_profile_writes req p v)"
  "blocked v \<Longrightarrow> blocked (check_scope_binding req i v)"
  "blocked v \<Longrightarrow> blocked (check_proposal req p v)"
  "blocked v \<Longrightarrow> blocked (check_operator req i p v)"
  "blocked v \<Longrightarrow> blocked (check_write_policy req p b v)"
  "blocked v \<Longrightarrow> blocked (check_project_scoped req i p v)"
  "blocked v \<Longrightarrow> blocked (check_scheduler req p v)"
  "blocked v \<Longrightarrow> blocked (apply_promotion b v)"
  by (auto simp: check_profile_writes_def check_scope_binding_def check_proposal_def check_operator_def
        check_write_policy_def check_project_scoped_def check_scheduler_def apply_promotion_def Let_def
        blocked_def block_if_def note_if_def)

text \<open>What an unblocked verdict says about each stage.\<close>

lemma unblocked_profile_writes:
  "\<not> blocked (check_profile_writes req p v) \<Longrightarrow>
     (p = ''read_only_agent'' \<longrightarrow> req_action req \<notin> set WRITE_ACTIONS) \<and>
     (p = ''memory_proposal_agent'' \<longrightarrow> req_action req \<in> set WRITE_ACTIONS \<longrightarrow>
        req_action req \<in> set PROPOSAL_ONLY_WRITE_ACTIONS)"
  by (auto simp: check_profile_writes_def)

lemma unblocked_operator:
  "\<not> blocked (check_operator req i p v) \<Longrightarrow>
     (req_action req \<in> set HUMAN_OR_ADMIN_ACTIONS \<longrightarrow> p = ''admin_agent'') \<and>
     (req_action req = ''http.operator.access'' \<longrightarrow>
        p \<in> {''trusted_local_agent'', ''admin_agent''} \<and> \<not> scope_locked i \<and> bound_scope i = []) \<and>
     (req_action req = ''artifact.export'' \<longrightarrow> p \<in> {''trusted_local_agent'', ''admin_agent''})"
  unfolding check_operator_def Let_def blocked_block_if de_Morgan_disj by blast

lemma unblocked_scheduler:
  "\<not> blocked (check_scheduler req p v) \<Longrightarrow>
     (req_action req = ''scheduler.configure'' \<longrightarrow> p = ''admin_agent'') \<and>
     (req_action req \<in> {''scheduler.pause'', ''scheduler.resume'', ''scheduler.run_due''} \<longrightarrow>
        p \<in> {''trusted_local_agent'', ''admin_agent''})"
  unfolding check_scheduler_def Let_def blocked_block_if de_Morgan_disj by blast

lemma unblocked_stages:
  assumes "\<not> blocked (policy_verdict req i b)"
  shows "\<exists>v1 v2 v3. \<not> blocked (check_profile_writes req (permission_profile i) v1) \<and>
    \<not> blocked (check_operator req i (permission_profile i) v2) \<and>
    \<not> blocked (check_scheduler req (permission_profile i) v3)"
proof -
  let ?p = "permission_profile i"
  obtain v0 where v: "policy_verdict req i b =
      apply_promotion b (check_scheduler req ?p (check_project_scoped req i ?p
        (check_write_policy req ?p b (check_operator req i ?p (check_proposal req ?p
        (check_scope_binding req i (check_profile_writes req ?p v0)))))))"
    by (simp add: policy_verdict_def Let_def split_beta)
  let ?v1 = "check_profile_writes req ?p v0"
  let ?v2 = "check_proposal req ?p (check_scope_binding req i ?v1)"
  let ?v3 = "check_project_scoped req i ?p (check_write_policy req ?p b (check_operator req i ?p ?v2))"
  from assms v have s3: "\<not> blocked (check_scheduler req ?p ?v3)" by auto
  then have s2: "\<not> blocked (check_operator req i ?p ?v2)" by blast
  then have "\<not> blocked ?v1" by blast
  with s2 s3 show ?thesis by blast
qed

text \<open>The scope an unlocked or locked identity works with.\<close>

lemma v_scope_policy_verdict:
  "v_scope (policy_verdict req i b) =
     (if scope_locked i \<and> (out_of_scope i (req_scope req) \<noteq> [] \<or> req_explicit_scope req \<and> req_scope req = [])
      then [] else if req_scope req \<noteq> [] then req_scope req else bound_scope i)"
  by (simp add: policy_verdict_def Let_def split_beta check_scope_binding_def)

lemma identity_set_str_list:
  "identity_set (str_list xs) = (\<Union>x \<in> set xs. identity_set (str_list [x]))"
  by (auto simp: identity_set_def str_list_def)

lemma in_scope_subset:
  "out_of_scope i xs = [] \<Longrightarrow> set (scope_identity xs) \<subseteq> set (scope_identity (bound_scope i))"
  unfolding out_of_scope_def filter_empty_conv scope_identity_def set_project_scope_identity
  by (subst identity_set_str_list) blast

text \<open>No check looks at the promotion settings.\<close>

lemma checks_ignore_settings [frame_simps]:
  "check_filters (req\<lparr>req_settings := x\<rparr>) = check_filters req"
  "check_profile_writes (req\<lparr>req_settings := x\<rparr>) = check_profile_writes req"
  "check_scope_binding (req\<lparr>req_settings := x\<rparr>) = check_scope_binding req"
  "check_proposal (req\<lparr>req_settings := x\<rparr>) = check_proposal req"
  "check_operator (req\<lparr>req_settings := x\<rparr>) = check_operator req"
  "check_write_policy (req\<lparr>req_settings := x\<rparr>) = check_write_policy req"
  "check_project_scoped (req\<lparr>req_settings := x\<rparr>) = check_project_scoped req"
  "check_scheduler (req\<lparr>req_settings := x\<rparr>) = check_scheduler req"
  by (intro ext, simp add: check_filters_def check_profile_writes_def check_scope_binding_def
      check_proposal_def check_operator_def check_write_policy_def check_project_scoped_def
      check_scheduler_def cong: if_cong split del: if_split)+

text \<open>The cascade before promotion, which does not look at the promotion flag unless the
  request asks for a direct-write policy.\<close>

definition plain_write_policy :: "policy_request \<Rightarrow> bool" where
  "plain_write_policy req \<longleftrightarrow> req_write_policy req \<in> {None, Some [], Some ''proposal_only''}"

lemma check_write_policy_plain: "plain_write_policy req \<Longrightarrow> check_write_policy req p b v = v"
  by (auto simp: check_write_policy_def plain_write_policy_def block_if_def note_if_def)

lemma policy_verdict_promoted:
  "plain_write_policy req \<Longrightarrow> policy_verdict req i True = apply_promotion True (policy_verdict req i False)"
  by (simp add: policy_verdict_def Let_def split_beta check_write_policy_plain apply_promotion_def)

text \<open>An admin key bound to project Alpha, for the witnesses.\<close>

definition demo_agent :: agent_identity where
  "demo_agent = \<lparr>agent_id = ''ops'', agent_type = ''coding_agent'', agent_run_id = None, task_id = None,
     bound_scope = [''Alpha''], permission_profile = ''admin_agent'', auth = ''agent_api_key'',
     scope_locked = True\<rparr>"

definition demo_request :: policy_request where
  "demo_request = (default_request ''memory.redact'')\<lparr>req_scope := [''alpha'']\<rparr>"

lemma demo_request_settings: "demo_request\<lparr>req_settings := None\<rparr> = demo_request"
  by (simp add: demo_request_def default_request_def)

lemma demo_verdict: "v_decision (policy_verdict demo_request demo_agent False) = ''allowed''"
  by code_simp

lemma demo_decision:
  "\<exists>d. evaluate_agent_policy quiet_scanners ''t'' (Some demo_agent) demo_request = Inr d \<and>
       decision d = ''allowed''"
  using demo_verdict
  by (simp add: evaluate_agent_policy_def policy_promotion_def demo_request_def default_request_def Let_def)

subsection \<open>Properties\<close>

text \<open>
  Promotion lifts a review gate and nothing else.  For a request without a direct-write
  policy, a configured persona changes the engine's decision only from \<open>requires_review\<close> to
  \<open>allowed\<close>: what the engine blocks or filters without promotion it blocks or filters with it.
\<close>

theorem promotion_only_lifts_review:
  assumes "plain_write_policy req"
    and "evaluate_agent_policy sc t (Some i) (req\<lparr>req_settings := None\<rparr>) = Inr d0"
    and "evaluate_agent_policy sc t (Some i) req = Inr d"
  shows "decision d = decision d0 \<or> decision d0 = ''requires_review'' \<and> decision d = ''allowed''"
proof -
  have same: "policy_verdict (req\<lparr>req_settings := None\<rparr>) i b = policy_verdict req i b" for b
    by (simp add: policy_verdict_def checks_ignore_settings)
  from assms(2) have d0: "decision d0 = v_decision (policy_verdict req i False)"
    by (auto simp: evaluate_agent_policy_def policy_promotion_def same Let_def)
  from assms(3) obtain b where "decision d = v_decision (policy_verdict req i b)"
    by (auto simp: evaluate_agent_policy_def Let_def)
  then show ?thesis
    using d0 policy_verdict_promoted [OF assms(1)]
    by (cases b) (auto simp: apply_promotion_def)
qed

theorem promotion_only_lifts_review_witness:
  "\<exists>d. evaluate_agent_policy quiet_scanners ''t'' (Some demo_agent) demo_request = Inr d \<and>
     (decision d = decision d \<or> decision d = ''requires_review'' \<and> decision d = ''allowed'')"
proof -
  obtain d where d: "evaluate_agent_policy quiet_scanners ''t'' (Some demo_agent) demo_request = Inr d"
    using demo_decision by blast
  have "plain_write_policy demo_request"
    by (simp add: plain_write_policy_def demo_request_def default_request_def)
  from promotion_only_lifts_review [OF this, unfolded demo_request_settings, OF d d] d
  show ?thesis by blast
qed

text \<open>
  C27: a key's project binding is never left.  Whatever an identity with a locked scope asks
  for, and whatever the outcome, the effective project scope of the decision names only
  projects of the binding.
\<close>

theorem locked_scope_never_left:
  assumes "scope_locked i" and "evaluate_agent_policy sc t (Some i) req = Inr d"
  shows "set (scope_identity (effective_scope d)) \<subseteq> set (scope_identity (bound_scope i))"
proof -
  from assms(2) obtain b where "effective_scope d = v_scope (policy_verdict req i b)"
    by (auto simp: evaluate_agent_policy_def Let_def)
  then show ?thesis
    using assms(1) in_scope_subset [of i "req_scope req"]
    by (auto simp: v_scope_policy_verdict scope_identity_def identity_set_def str_list_def)
qed

theorem locked_scope_never_left_witness:
  "\<exists>d. evaluate_agent_policy quiet_scanners ''t'' (Some demo_agent) demo_request = Inr d \<and>
     set (scope_identity (effective_scope d)) \<subseteq> set (scope_identity [''Alpha''])"
proof -
  obtain d where d: "evaluate_agent_policy quiet_scanners ''t'' (Some demo_agent) demo_request = Inr d"
    using demo_decision by blast
  have "scope_locked demo_agent" and "bound_scope demo_agent = [''Alpha'']"
    by (simp_all add: demo_agent_def)
  with locked_scope_never_left [OF _ d] d show ?thesis by auto
qed

text \<open>
  C28: the authorization matrix.  An identity that is not blocked respects its profile: a
  read-only agent never writes, a proposal agent only proposes or commits, review, redaction
  and quarantine are for admins, operator routes need an unbound trusted or admin key, and the
  scheduler is controlled by trusted agents and configured by admins.
\<close>

theorem authorization_matrix:
  assumes "evaluate_agent_policy sc t (Some i) req = Inr d" and "decision d \<noteq> ''blocked''"
  shows "(permission_profile i = ''read_only_agent'' \<longrightarrow> req_action req \<notin> set WRITE_ACTIONS) \<and>
    (permission_profile i = ''memory_proposal_agent'' \<longrightarrow> req_action req \<in> set WRITE_ACTIONS \<longrightarrow>
       req_action req \<in> set PROPOSAL_ONLY_WRITE_ACTIONS) \<and>
    (req_action req \<in> set HUMAN_OR_ADMIN_ACTIONS \<longrightarrow> permission_profile i = ''admin_agent'') \<and>
    (req_action req = ''http.operator.access'' \<longrightarrow>
       permission_profile i \<in> {''trusted_local_agent'', ''admin_agent''} \<and>
       \<not> scope_locked i \<and> bound_scope i = []) \<and>
    (req_action req = ''artifact.export'' \<longrightarrow>
       permission_profile i \<in> {''trusted_local_agent'', ''admin_agent''}) \<and>
    (req_action req = ''scheduler.configure'' \<longrightarrow> permission_profile i = ''admin_agent'') \<and>
    (req_action req \<in> {''scheduler.pause'', ''scheduler.resume'', ''scheduler.run_due''} \<longrightarrow>
       permission_profile i \<in> {''trusted_local_agent'', ''admin_agent''})"
proof -
  from assms obtain b where "\<not> blocked (policy_verdict req i b)"
    by (auto simp: evaluate_agent_policy_def Let_def blocked_def)
  then show ?thesis
    using unblocked_stages unblocked_profile_writes unblocked_operator unblocked_scheduler by blast
qed

theorem authorization_matrix_witness:
  "\<exists>d. evaluate_agent_policy quiet_scanners ''t'' (Some demo_agent) demo_request = Inr d \<and>
     req_action demo_request \<in> set HUMAN_OR_ADMIN_ACTIONS \<and>
     permission_profile demo_agent = ''admin_agent''"
proof -
  obtain d where d: "evaluate_agent_policy quiet_scanners ''t'' (Some demo_agent) demo_request = Inr d"
    and allowed: "decision d = ''allowed''"
    using demo_decision by blast
  from allowed have "decision d \<noteq> ''blocked''" by simp
  moreover have "req_action demo_request \<in> set HUMAN_OR_ADMIN_ACTIONS"
    by (simp add: demo_request_def default_request_def HUMAN_OR_ADMIN_ACTIONS_def)
  ultimately show ?thesis using authorization_matrix [OF d] d by blast
qed

text \<open>
  Filtering is sound.  For every agent the effective domains are requested ones, restricted
  domains remain only for trusted and admin agents, and the effective sensitivity levels are a
  non-empty part of what the profile may see.
\<close>

theorem filtering_sound:
  assumes "evaluate_agent_policy sc t (Some i) req = Inr d"
  shows "set (effective_domains d) \<subseteq> set (req_domains req) \<and>
    (permission_profile i \<notin> {''trusted_local_agent'', ''admin_agent''} \<longrightarrow>
       set (effective_domains d) \<inter> set RESTRICTED_DOMAINS = {}) \<and>
    set (effective_sensitivity d) \<subseteq> set (profile_sensitivity (permission_profile i)) \<and>
    effective_sensitivity d \<noteq> []"
proof -
  have "profile_sensitivity p \<noteq> []" for p
    by (simp add: profile_sensitivity_def ALL_SENSITIVITY_def DEFAULT_AGENT_SENSITIVITY_def)
  with assms show ?thesis
    by (auto simp: evaluate_agent_policy_def Let_def filtered_domains_def filtered_sensitivity_def
          split: if_splits)
qed

theorem filtering_sound_witness:
  "\<exists>d. evaluate_agent_policy quiet_scanners ''t'' (Some demo_agent) demo_request = Inr d \<and>
     set (effective_sensitivity d) \<subseteq> set (profile_sensitivity ''admin_agent'') \<and>
     effective_sensitivity d \<noteq> []"
proof -
  obtain d where d: "evaluate_agent_policy quiet_scanners ''t'' (Some demo_agent) demo_request = Inr d"
    using demo_decision by blast
  have "permission_profile demo_agent = ''admin_agent''" by (simp add: demo_agent_def)
  with filtering_sound [OF d] d show ?thesis by auto
qed

end
