(* ===== verification/Memory_Commit_Policy.thy ===== *)
theory Memory_Commit_Policy
  imports Squeezed_Text Agent_Control Memory_Validity
begin

text \<open>
  The part of \<open>vnext_memory_commit.py\<close> that decides what becomes of a commit: the request and its
  parser, the credential guard over every text of the request, and the gate
  \<open>evaluate_memory_commit_policy\<close>, which answers with a write mode.
\<close>

subsection \<open>Vocabulary\<close>

definition VNEXT_DOMAINS :: "string list" where
  [model_defs]: "VNEXT_DOMAINS =
    [''professional'', ''personal'', ''family'', ''health'', ''spiritual'', ''financial'', ''legal'',
     ''learning'', ''relationship'', ''project'', ''agent_run'', ''system'', ''unknown'']"

definition VNEXT_SENSITIVITY_LEVELS :: "string list" where
  [model_defs]: "VNEXT_SENSITIVITY_LEVELS =
    [''public'', ''internal'', ''private'', ''confidential'', ''highly_sensitive'', ''sacred'',
     ''regulated'', ''unknown'']"

definition VNEXT_MEMORY_TYPES :: "string list" where
  [model_defs]: "VNEXT_MEMORY_TYPES =
    [''preference'', ''identity_fact'', ''relationship_fact'', ''project_fact'', ''decision'',
     ''commitment'', ''routine'', ''procedure'', ''constraint'', ''working_style'', ''episode'',
     ''semantic'', ''project_state'', ''belief'', ''thesis'', ''person'', ''relationship'',
     ''open_loop'', ''value'', ''pattern'', ''contradiction'', ''question'', ''answer'',
     ''artifact_summary'', ''agent_run'', ''system'']"

definition MEMORY_TYPE_ALIASES :: "(string \<times> string) list" where
  [model_defs]: "MEMORY_TYPE_ALIASES =
    map (\<lambda>k. (k, ''semantic''))
      [''fact'', ''note'', ''quote'', ''quote_collection'', ''quote_memory'', ''quote_note'',
       ''quotes'', ''quotation'', ''quotation_note'', ''quotations'', ''saved_quote'']"

definition DOMAIN_ALIASES :: "(string \<times> string) list" where
  [model_defs]: "DOMAIN_ALIASES =
    [(''work'', ''professional''), (''career'', ''professional''), (''finance'', ''financial''),
     (''money'', ''financial''), (''quote'', ''learning''), (''quote_collection'', ''learning''),
     (''quote_memory'', ''learning''), (''quote_note'', ''learning''), (''quotes'', ''learning''),
     (''quotation'', ''learning''), (''quotation_note'', ''learning''), (''quotations'', ''learning''),
     (''philosophy'', ''learning''), (''saved_quote'', ''learning''), (''wisdom'', ''learning''),
     (''general'', ''unknown'')]"

definition SENSITIVITY_ALIASES :: "(string \<times> string) list" where
  [model_defs]: "SENSITIVITY_ALIASES =
    [(''sensitive'', ''confidential''), (''secret'', ''highly_sensitive'')]"

definition TRUSTED_COMMIT_PROFILES :: "string list" where
  [model_defs]: "TRUSTED_COMMIT_PROFILES = [''trusted_local_agent'', ''admin_agent'']"

definition PROJECT_COMMIT_PROFILES :: "string list" where
  [model_defs]: "PROJECT_COMMIT_PROFILES = [''project_scoped_agent'']"

definition REVIEW_ONLY_PROFILES :: "string list" where
  [model_defs]: "REVIEW_ONLY_PROFILES = [''memory_proposal_agent'']"

definition SENSITIVE_DOMAINS :: "string list" where
  [model_defs]: "SENSITIVE_DOMAINS = [''family'', ''health'', ''spiritual'', ''legal'', ''financial'']"

definition SENSITIVE_LEVELS :: "string list" where
  [model_defs]: "SENSITIVE_LEVELS = [''confidential'', ''highly_sensitive'', ''sacred'', ''regulated'']"

definition DIRECT_TRUSTED_SOURCES :: "string list" where
  [model_defs]: "DIRECT_TRUSTED_SOURCES =
    [''direct_user_instruction'', ''trusted_agent'', ''local_conversation'']"

definition EXTERNAL_REVIEW_SOURCES :: "string list" where
  [model_defs]: "EXTERNAL_REVIEW_SOURCES =
    [''browser_clip'', ''browser_clipper'', ''csv'', ''docx'', ''email'', ''external'',
     ''generated_artifact'', ''gmail'', ''pdf'', ''research'', ''screenshot_ocr'', ''telegram'',
     ''telegram_forward'', ''voice_transcript'', ''web_page'']"

definition EXPLICIT_MEMORY_INTENTS :: "string list" where
  [model_defs]: "EXPLICIT_MEMORY_INTENTS =
    [''explicit_remember'', ''remember_this'', ''save_this'', ''add_to_memory'', ''commit_memory'']"

subsection \<open>The request\<close>

text \<open>
  The fields of \<open>MemoryCommitRequest\<close>.  The confidence is kept as the JSON number; a float prints as
  the shortest decimal that denotes it, so comparing two floats is comparing what their texts denote.
\<close>

record commit_request =
  mc_user_id :: string
  mc_title :: string
  mc_canonical_text :: string
  mc_memory_type :: string
  mc_domain :: string
  mc_sensitivity :: string
  mc_confidence :: json
  mc_intent :: string
  mc_source_type :: string
  mc_source_refs :: "json list"
  mc_excerpt :: "string option"
  mc_rationale :: "string option"
  mc_idempotency_key :: "string option"
  mc_project_scope :: "string list"
  mc_contradiction_refs :: "string list"
  mc_trace_id :: "string option"

text \<open>\<open>v < q\<close> and \<open>v > q\<close> for a Python number; no comparison with \<open>nan\<close> holds.\<close>

fun py_less :: "json \<Rightarrow> rat \<Rightarrow> bool" where
  "py_less (JInt i) q = (of_int i < q)"
| "py_less (JFloat t (Some v)) q = (v < q)"
| "py_less (JFloat t None) q = (t = ''-inf'')"
| "py_less _ q = False"

fun py_greater :: "json \<Rightarrow> rat \<Rightarrow> bool" where
  "py_greater (JInt i) q = (of_int i > q)"
| "py_greater (JFloat t (Some v)) q = (v > q)"
| "py_greater (JFloat t None) q = (t = ''inf'')"
| "py_greater _ q = False"

fun py_float :: "json \<Rightarrow> json" where
  "py_float (JInt i) = JFloat (int_str i @ ''.0'') (Some (of_int i))"
| "py_float v = v"

definition normalized_text :: "json \<Rightarrow> string \<Rightarrow> memory_error + string" where
  "normalized_text value field_name =
     (case as_str value of
        None \<Rightarrow> Inl (VNextMemoryCommitValidationError (field_name @ '' must be a string''))
      | Some t \<Rightarrow>
          (let normalized = squeeze_text t in
           if normalized = [] then Inl (VNextMemoryCommitValidationError (field_name @ '' must not be empty''))
           else Inr normalized))"

definition enum_token :: "string \<Rightarrow> string" where
  "enum_token value = join_with ''_'' (py_split (py_replace ''-'' ''_'' (py_casefold value)))"

definition enum_value ::
  "json \<Rightarrow> string \<Rightarrow> string list \<Rightarrow> (string \<times> string) list \<Rightarrow> memory_error + string" where
  "enum_value value field_name allowed_values aliases =
     bind_res (normalized_text value field_name) (\<lambda>normalized.
       (let token = enum_token normalized;
            canonical = (case map_of aliases token of None \<Rightarrow> token | Some c \<Rightarrow> c)
        in if canonical \<notin> set allowed_values
           then Inl (VNextMemoryCommitValidationError
             (field_name @ '' must be one of: '' @ join_with '', '' allowed_values))
           else Inr canonical))"

definition optional_field :: "json \<Rightarrow> memory_error + string option" where
  "optional_field value =
     (case value of
        JNull \<Rightarrow> Inr None
      | JStr t \<Rightarrow> (let n = squeeze_text t in Inr (if n = [] then None else Some n))
      | _ \<Rightarrow> Inl (VNextMemoryCommitValidationError ''optional text fields must be strings''))"

definition string_tuple :: "json \<Rightarrow> memory_error + string list" where
  "string_tuple value =
     (case value of
        JNull \<Rightarrow> Inr []
      | JStr t \<Rightarrow> (let n = squeeze_text t in Inr (if n = [] then [] else [n]))
      | JList xs \<Rightarrow>
          (if list_ex (\<lambda>x. as_str x = None) xs
           then Inl (VNextMemoryCommitValidationError ''list fields must be arrays of strings'')
           else Inr (filter (\<lambda>n. n \<noteq> []) (map (\<lambda>x. squeeze_text (py_str x)) xs)))
      | _ \<Rightarrow> Inl (VNextMemoryCommitValidationError ''list fields must be arrays of strings''))"

definition object_tuple :: "json \<Rightarrow> memory_error + json list" where
  "object_tuple value =
     (case value of
        JNull \<Rightarrow> Inr []
      | JList xs \<Rightarrow> Inr xs
      | _ \<Rightarrow> Inl (VNextMemoryCommitValidationError ''source_refs must be an array''))"

fun is_number :: "json \<Rightarrow> bool" where
  "is_number (JInt i) = True"
| "is_number (JFloat t v) = True"
| "is_number _ = False"

definition checked_confidence :: "json \<Rightarrow> memory_error + json" where
  "checked_confidence confidence =
     (if \<not> is_number confidence then Inl (VNextMemoryCommitValidationError ''confidence must be a number'')
      else if py_less confidence 0 \<or> py_greater confidence 1
      then Inl (VNextMemoryCommitValidationError ''confidence must be between 0.0 and 1.0'')
      else Inr (py_float confidence))"

definition memory_commit_request_from_payload :: "dict \<Rightarrow> string \<Rightarrow> memory_error + commit_request" where
  "memory_commit_request_from_payload payload user_id =
     bind_res (checked_confidence (dget_or payload ''confidence'' (JFloat ''0.9'' (Some (9 / 10))))) (\<lambda>confidence.
     bind_res (normalized_text (dget payload ''title'') ''title'') (\<lambda>heading.
     bind_res (normalized_text (dget payload ''canonical_text'') ''canonical_text'') (\<lambda>body.
     bind_res (enum_value (dget_or payload ''memory_type'' (JStr ''semantic'')) ''memory_type''
                 VNEXT_MEMORY_TYPES MEMORY_TYPE_ALIASES) (\<lambda>kind.
     bind_res (enum_value (dget_or payload ''domain'' (JStr ''unknown'')) ''domain''
                 VNEXT_DOMAINS DOMAIN_ALIASES) (\<lambda>area.
     bind_res (enum_value (dget_or payload ''sensitivity'' (JStr ''unknown'')) ''sensitivity''
                 VNEXT_SENSITIVITY_LEVELS SENSITIVITY_ALIASES) (\<lambda>level.
     bind_res (normalized_text (dget_or payload ''intent'' (JStr ''explicit_remember'')) ''intent'') (\<lambda>intent.
     bind_res (normalized_text (dget_or payload ''source_type'' (JStr ''direct_user_instruction''))
                 ''source_type'') (\<lambda>source.
     bind_res (object_tuple (dget payload ''source_refs'')) (\<lambda>refs.
     bind_res (optional_field (dget payload ''conversation_excerpt'')) (\<lambda>excerpt.
     bind_res (optional_field (dget payload ''rationale'')) (\<lambda>rationale.
     bind_res (optional_field (dget payload ''idempotency_key'')) (\<lambda>key.
     bind_res (string_tuple (dget payload ''project_scope'')) (\<lambda>scope.
     bind_res (string_tuple (dget payload ''contradiction_refs'')) (\<lambda>contradictions.
     bind_res (optional_field (dget payload ''trace_id'')) (\<lambda>trace.
       Inr \<lparr>mc_user_id = user_id, mc_title = heading, mc_canonical_text = body, mc_memory_type = kind,
            mc_domain = area, mc_sensitivity = level, mc_confidence = confidence, mc_intent = intent,
            mc_source_type = source, mc_source_refs = refs, mc_excerpt = excerpt,
            mc_rationale = rationale, mc_idempotency_key = key, mc_project_scope = scope,
            mc_contradiction_refs = contradictions, mc_trace_id = trace\<rparr>)))))))))))))))"

subsection \<open>The credential guard\<close>

text \<open>
  Beside the scanners of the promotion policy the guard needs the values that
  \<open>SECRET_ASSIGNMENT_PATTERN\<close> captures in a text, in order.
\<close>

record commit_scanners =
  floor_scanners :: scanners
  assigned_values :: "string \<Rightarrow> string list"

definition ascii_between :: "char \<Rightarrow> char \<Rightarrow> char \<Rightarrow> bool" where
  "ascii_between a b c \<longleftrightarrow> (of_char a :: nat) \<le> of_char c \<and> (of_char c :: nat) \<le> of_char b"

definition lower_or_digit :: "char \<Rightarrow> bool" where
  "lower_or_digit c \<longleftrightarrow> ascii_between (CHR ''0'') (CHR ''9'') c \<or> ascii_between (CHR ''a'') (CHR ''z'') c"

text \<open>
  The value of an assignment holds ASCII characters and, the pattern ignoring case, the four letters
  beyond ASCII that match an ASCII one: of these the dotted capital I and the Kelvin sign are upper
  case.  Its length is counted in code points.
\<close>

definition char_count :: "string \<Rightarrow> nat" where
  "char_count s = length (filter (\<lambda>c. \<not> (128 \<le> (of_char c :: nat) \<and> (of_char c :: nat) < 192)) s)"

fun occurs_in :: "string \<Rightarrow> string \<Rightarrow> bool" where
  "occurs_in p [] = (p = [])"
| "occurs_in p (c # s) = (py_startswith (c # s) p \<or> occurs_in p s)"

definition looks_like_secret_value :: "string \<Rightarrow> bool" where
  "looks_like_secret_value value \<longleftrightarrow>
     24 \<le> char_count value \<or>
     list_ex (\<lambda>c. ascii_between (CHR ''0'') (CHR ''9'') c \<or> ascii_between (CHR ''A'') (CHR ''Z'') c) value \<or>
     occurs_in [CHR 0xC4, CHR 0xB0] value \<or> occurs_in [CHR 0xE2, CHR 0x84, CHR 0xAA] value \<or>
     list_ex (\<lambda>c. c \<in> set ''_-+/=.'') value"

text \<open>
  \<open>SECRET_PREFIX_PATTERNS\<close>: a prefix that no letter or digit precedes, followed by at least \<open>n\<close>
  characters of a class; and the armour line of a private key, any number of words after \<open>begin\<close>.
\<close>

definition prefix_here :: "string \<Rightarrow> (char \<Rightarrow> bool) \<Rightarrow> nat \<Rightarrow> string \<Rightarrow> bool" where
  "prefix_here p cls n t \<longleftrightarrow>
     py_startswith t p \<and> n \<le> length (takeWhile cls (drop (length p) t))"

fun found_after :: "(string \<Rightarrow> bool) \<Rightarrow> bool \<Rightarrow> string \<Rightarrow> bool" where
  "found_after here boundary [] = False"
| "found_after here boundary (c # t) =
     (boundary \<and> here (c # t) \<or> found_after here (\<not> lower_or_digit c) t)"

function key_armour :: "string \<Rightarrow> bool" where
  "key_armour t =
     (if py_startswith t '' private key-----'' then True
      else case t of
        [] \<Rightarrow> False
      | c # rest \<Rightarrow>
          c = CHR '' '' \<and> rest \<noteq> [] \<and> ascii_between (CHR ''a'') (CHR ''z'') (hd rest) \<and>
          key_armour (dropWhile (ascii_between (CHR ''a'') (CHR ''z'')) rest))"
  by pat_completeness auto
termination
proof (relation "measure length")
  fix t c and rest :: string
  assume "t = c # rest"
  moreover have "length (dropWhile (ascii_between (CHR ''a'') (CHR ''z'')) rest) \<le> length rest"
    by (rule length_dropWhile_le)
  ultimately show "(dropWhile (ascii_between (CHR ''a'') (CHR ''z'')) rest, t) \<in> measure length" by simp
qed simp

declare key_armour.simps [simp del]

fun armour_found :: "string \<Rightarrow> bool" where
  "armour_found [] = False"
| "armour_found (c # t) =
     (py_startswith (c # t) ''-----begin'' \<and> key_armour (drop 10 (c # t)) \<or> armour_found t)"

definition secret_prefix_found :: "string \<Rightarrow> bool" where
  "secret_prefix_found folded \<longleftrightarrow>
     found_after (prefix_here ''sk-'' (\<lambda>c. lower_or_digit c \<or> c \<in> set ''_-'') 8) True folded \<or>
     found_after (prefix_here ''ghp_'' lower_or_digit 8) True folded \<or>
     found_after (prefix_here ''xoxb-'' (\<lambda>c. lower_or_digit c \<or> c = CHR ''-'') 8) True folded \<or>
     found_after (prefix_here ''akia'' lower_or_digit 12) True folded \<or>
     armour_found folded"

definition contains_secret_marker :: "commit_scanners \<Rightarrow> string \<Rightarrow> bool" where
  "contains_secret_marker sc text \<longleftrightarrow>
     looks_like_credential (floor_scanners sc) [text] \<or>
     secret_prefix_found (py_casefold text) \<or>
     list_ex looks_like_secret_value (assigned_values sc text)"

fun is_scalar :: "json \<Rightarrow> bool" where
  "is_scalar (JStr t) = True"
| "is_scalar (JInt i) = True"
| "is_scalar (JBool b) = True"
| "is_scalar (JFloat t v) = True"
| "is_scalar _ = False"

fun flatten_text :: "json \<Rightarrow> string list" where
  "flatten_text (JStr t) = [t]"
| "flatten_text (JObj d) =
     concat (map (\<lambda>(k, v). [k] @ (if is_scalar v then [k @ ''='' @ py_str v] else []) @ flatten_text v) d)"
| "flatten_text (JList xs) = concat (map flatten_text xs)"
| "flatten_text JNull = []"
| "flatten_text v = [py_str v]"

definition guarded_texts :: "commit_request \<Rightarrow> string list" where
  "guarded_texts r =
     [mc_title r, mc_canonical_text r]
     @ (case mc_excerpt r of None \<Rightarrow> [] | Some t \<Rightarrow> if t = [] then [] else [t])
     @ (case mc_rationale r of None \<Rightarrow> [] | Some t \<Rightarrow> if t = [] then [] else [t])
     @ concat (map flatten_text (mc_source_refs r))"

definition request_contains_secret_marker :: "commit_scanners \<Rightarrow> commit_request \<Rightarrow> bool" where
  "request_contains_secret_marker sc r = list_ex (contains_secret_marker sc) (guarded_texts r)"

subsection \<open>The gate\<close>

record commit_decision =
  md_write_mode :: string
  md_status :: string
  md_reason :: string
  md_reasons :: "string list"
  md_requires_confirmation :: bool
  md_requires_review :: bool
  md_policy :: policy_decision
  md_promotion :: "promotion_decision option"
  md_promoted_from :: "string option"

definition commit_decision_to_record :: "commit_decision \<Rightarrow> dict" where
  "commit_decision_to_record d =
     [(''write_mode'', JStr (md_write_mode d)), (''status'', JStr (md_status d)),
      (''reason'', JStr (md_reason d)), (''reasons'', str_list (md_reasons d)),
      (''requires_confirmation'', JBool (md_requires_confirmation d)),
      (''requires_dashboard_review'', JBool (md_requires_review d)),
      (''policy_decision'', JObj (decision_to_record (md_policy d))),
      (''trace_id'', JStr (trace_id (md_policy d)))]
     @ (case md_promotion d of None \<Rightarrow> [] | Some p \<Rightarrow> [(''promotion'', JObj (promotion_to_record p))])
     @ (case md_promoted_from d of None \<Rightarrow> [] | Some m \<Rightarrow> [(''promoted_from'', JStr m)])"

definition promotion_candidate_for_request ::
  "agent_identity option \<Rightarrow> commit_request \<Rightarrow> promotion_candidate" where
  "promotion_candidate_for_request identity r =
     default_candidate\<lparr>canonical_text := mc_canonical_text r, title := mc_title r,
       memory_type := mc_memory_type r, domain := mc_domain r, sensitivity := mc_sensitivity r,
       intent := mc_intent r, source_type := mc_source_type r, source_refs := mc_source_refs r,
       contradiction_refs := mc_contradiction_refs r, conversation_excerpt := mc_excerpt r,
       written_by_agent := (identity \<noteq> None)\<rparr>"

definition writer_trust_for_commit :: "agent_identity option \<Rightarrow> bool \<Rightarrow> string" where
  "writer_trust_for_commit identity owner_verified = writer_trust_for (map_option auth identity) owner_verified"

text \<open>The status that goes with a write mode.\<close>

definition status_of_mode :: "string \<Rightarrow> string" where
  "status_of_mode mode =
     (if mode = ''commit'' then ''committed''
      else if mode = ''confirm_inline'' then ''confirmation_required''
      else if mode = ''propose_review'' then ''review_required''
      else ''rejected'')"

text \<open>What a profile may commit: the reason and the mode of a refusal.\<close>

definition profile_gate :: "agent_identity \<Rightarrow> commit_request \<Rightarrow> (string \<times> string) option" where
  "profile_gate i r =
     (if permission_profile i \<in> set REVIEW_ONLY_PROFILES
      then Some (''memory_proposal_agent_review_only'', ''propose_review'')
      else if permission_profile i \<in> set PROJECT_COMMIT_PROFILES then
        (if mc_domain r \<noteq> ''project'' then Some (''project_scoped_agent_domain_out_of_scope'', ''reject'')
         else if mc_project_scope r = [] \<and> bound_scope i = [] then Some (''project_scope_required'', ''reject'')
         else if py_less (mc_confidence r) (1 / 2)
         then Some (''low_confidence_requires_review'', ''propose_review'')
         else None)
      else if permission_profile i \<notin> set TRUSTED_COMMIT_PROFILES
      then Some (''trusted_or_project_scoped_agent_required'', ''reject'')
      else None)"

text \<open>The first cascade: authority, credentials, intent, source, bulk, profile.\<close>

definition authority_gate ::
  "commit_scanners \<Rightarrow> agent_identity option \<Rightarrow> commit_request \<Rightarrow> policy_decision \<Rightarrow> (string \<times> string) option" where
  "authority_gate sc identity r base =
     (if decision base = ''blocked'' then Some (''agent_policy_blocked'', ''reject'')
      else if request_contains_secret_marker sc r then Some (''unsafe_secret_storage'', ''reject'')
      else if py_casefold (mc_intent r) \<notin> set EXPLICIT_MEMORY_INTENTS
      then Some (''explicit_memory_intent_required'', ''propose_review'')
      else if py_casefold (mc_source_type r) \<in> set EXTERNAL_REVIEW_SOURCES
      then Some (''external_source_requires_review'', ''propose_review'')
      else if 8 < length (mc_source_refs r)
      then Some (''bulk_source_refs_require_review'', ''propose_review'')
      else case identity of None \<Rightarrow> None | Some i \<Rightarrow> profile_gate i r)"

text \<open>The second one, for what is still a commit: confidence, sensitivity, contradiction, directness.\<close>

definition content_gate :: "commit_request \<Rightarrow> (string \<times> string) option" where
  "content_gate r =
     (if py_less (mc_confidence r) (1 / 2) then Some (''low_confidence_requires_review'', ''propose_review'')
      else if py_less (mc_confidence r) (17 / 20)
      then Some (''medium_confidence_requires_confirmation'', ''confirm_inline'')
      else if mc_domain r \<in> set SENSITIVE_DOMAINS \<or> mc_sensitivity r \<in> set SENSITIVE_LEVELS
      then Some (''sensitive_memory_requires_confirmation'', ''confirm_inline'')
      else if mc_contradiction_refs r \<noteq> []
      then Some (''contradiction_requires_confirmation'', ''confirm_inline'')
      else if py_casefold (mc_source_type r) \<notin> set DIRECT_TRUSTED_SOURCES
      then Some (''non_direct_source_requires_review'', ''propose_review'')
      else None)"

definition commit_gate ::
  "commit_scanners \<Rightarrow> agent_identity option \<Rightarrow> commit_request \<Rightarrow> policy_decision \<Rightarrow> (string \<times> string) option" where
  "commit_gate sc identity r base =
     (case authority_gate sc identity r base of Some g \<Rightarrow> Some g | None \<Rightarrow> content_gate r)"

definition gate_mode :: "(string \<times> string) option \<Rightarrow> string" where
  "gate_mode g = (case g of None \<Rightarrow> ''commit'' | Some (_, m) \<Rightarrow> m)"

definition gate_reasons :: "agent_identity option \<Rightarrow> commit_request \<Rightarrow> policy_decision \<Rightarrow>
    (string \<times> string) option \<Rightarrow> string list" where
  "gate_reasons identity r base g =
     reasons base
     @ (case identity of
          None \<Rightarrow> []
        | Some i \<Rightarrow>
            if permission_profile i \<in> set PROJECT_COMMIT_PROFILES \<and> mc_domain r \<noteq> ''project''
            then [''project_scoped_agent_domain_out_of_scope''] else [])
     @ (case g of None \<Rightarrow> [] | Some (reason, _) \<Rightarrow> [reason])"

text \<open>The promotion layer, run on the gate's result.\<close>

definition commit_promotion ::
  "commit_scanners \<Rightarrow> agent_identity option \<Rightarrow> commit_request \<Rightarrow> policy_decision \<Rightarrow>
   promotion_settings option \<Rightarrow> string \<Rightarrow> settings_error + promotion_decision option" where
  "commit_promotion sc identity r base settings trust =
     (case settings of
        None \<Rightarrow> Inr None
      | Some st \<Rightarrow>
          bind_res (evaluate_promotion (floor_scanners sc) st (promotion_candidate_for_request identity r)
                      (pol_profile base) trust) (\<lambda>d. Inr (Some d)))"

definition lifts_gate :: "promotion_decision option \<Rightarrow> string \<Rightarrow> bool" where
  "lifts_gate promo mode =
     ((case promo of None \<Rightarrow> False | Some p \<Rightarrow> auto_promote p) \<and> mode \<in> {''propose_review'', ''confirm_inline''})"

definition evaluate_memory_commit_policy ::
  "commit_scanners \<Rightarrow> agent_identity option \<Rightarrow> commit_request \<Rightarrow> policy_decision \<Rightarrow>
   promotion_settings option \<Rightarrow> string \<Rightarrow> settings_error + commit_decision" where
  "evaluate_memory_commit_policy sc identity r base settings trust =
     bind_res (commit_promotion sc identity r base settings trust) (\<lambda>promo.
       (let g = commit_gate sc identity r base;
            lifted = lifts_gate promo (gate_mode g);
            mode = (if lifted then ''commit'' else gate_mode g);
            all = gate_reasons identity r base g @ (if lifted then [''promotion_auto_promoted''] else [])
        in Inr \<lparr>md_write_mode = mode, md_status = status_of_mode mode,
                md_reason = (if all = [] then ''explicit_trusted_memory_commit'' else last all),
                md_reasons = dict_fromkeys all, md_requires_confirmation = (mode = ''confirm_inline''),
                md_requires_review = (mode = ''propose_review''), md_policy = base,
                md_promotion = promo,
                md_promoted_from = (if lifted then Some (gate_mode g) else None)\<rparr>))"

definition memory_commit_receipt :: "string \<Rightarrow> string" where
  "memory_commit_receipt status =
     (if status = ''committed'' then ''saved as a fact.''
      else if status = ''confirmation_required'' then ''needs confirmation.''
      else if status = ''review_required'' then ''waiting in review.''
      else if status = ''rejected'' then ''rejected.''
      else ''not recorded as a fact.'')"

text \<open>
  The pure part of \<open>VNextMemoryCommitService.evaluate_policy\<close>: the engine's decision on the commit,
  then the gate.  The settings are the persona the deployment has configured, if any.
\<close>

definition commit_base_request :: "commit_request \<Rightarrow> policy_request" where
  "commit_base_request r =
     (default_request ''memory.commit'')\<lparr>req_domains := [mc_domain r],
        req_sensitivity := [mc_sensitivity r], req_scope := mc_project_scope r\<rparr>"

definition commit_verdict ::
  "commit_scanners \<Rightarrow> string \<Rightarrow> bool \<Rightarrow> promotion_settings option \<Rightarrow> agent_identity option \<Rightarrow>
   commit_request \<Rightarrow> settings_error + commit_decision" where
  "commit_verdict sc trace owner_verified settings identity r =
     bind_res (evaluate_agent_policy (floor_scanners sc) trace identity (commit_base_request r)) (\<lambda>base.
       evaluate_memory_commit_policy sc identity r base settings
         (if settings = None then ''unverified''
          else writer_trust_for_commit identity owner_verified))"

subsection \<open>Lemmas on the parser\<close>

lemma enum_value_allowed: "enum_value v f allowed aliases = Inr x \<Longrightarrow> x \<in> set allowed"
  by (auto simp: enum_value_def Let_def split: if_splits option.splits)

lemma normalized_text_tidy: "normalized_text v f = Inr x \<Longrightarrow> tidy_text x"
  by (auto simp: normalized_text_def Let_def squeeze_tidy split: if_splits option.splits)

lemma optional_field_tidy: "optional_field v = Inr x \<Longrightarrow> set_option x \<subseteq> Collect tidy_text"
  by (auto simp: optional_field_def Let_def squeeze_tidy split: if_splits json.splits)

lemma string_tuple_tidy: "string_tuple v = Inr xs \<Longrightarrow> set xs \<subseteq> Collect tidy_text"
  by (auto simp: string_tuple_def Let_def squeeze_tidy split: if_splits json.splits)

lemma checked_confidence_float:
  "checked_confidence v = Inr c \<Longrightarrow>
     (\<exists>t q. c = JFloat t (Some q) \<and> 0 \<le> q \<and> q \<le> 1)
     \<or> (\<exists>t. c = JFloat t None \<and> v = c \<and> t \<notin> {''inf'', ''-inf''})"
  by (cases "(v, 0::rat)" rule: py_less.cases) (auto simp: checked_confidence_def split: if_splits)

lemma dget_or_float: "dget_or d k (JFloat t (Some q)) = JFloat u None \<Longrightarrow> dget d k = JFloat u None"
  by (auto simp: dget_or_def dget_def split: option.splits if_splits)

lemmas field_facts = enum_value_allowed normalized_text_tidy optional_field_tidy
  string_tuple_tidy checked_confidence_float

subsection \<open>Lemmas on the gate\<close>

lemma gate_mode_commit: "gate_mode (commit_gate sc identity r base) = ''commit'' \<longleftrightarrow>
    commit_gate sc identity r base = None"
  by (auto simp: gate_mode_def commit_gate_def authority_gate_def content_gate_def profile_gate_def
      split: option.splits if_splits)

lemma gate_mode_cases: "gate_mode (commit_gate sc identity r base) \<in>
    {''commit'', ''confirm_inline'', ''propose_review'', ''reject''}"
  by (auto simp: gate_mode_def commit_gate_def authority_gate_def content_gate_def profile_gate_def
      split: option.splits if_splits)

lemma not_less_trans: "\<not> py_less c q \<Longrightarrow> p \<le> q \<Longrightarrow> \<not> py_less c p"
  by (cases "(c, q)" rule: py_less.cases) auto

lemma trusted_not_external: "t \<in> set DIRECT_TRUSTED_SOURCES \<Longrightarrow> t \<notin> set EXTERNAL_REVIEW_SOURCES"
  by (auto simp: DIRECT_TRUSTED_SOURCES_def EXTERNAL_REVIEW_SOURCES_def)

lemma profile_gate_None: "profile_gate i r = None \<longleftrightarrow>
    permission_profile i \<in> set TRUSTED_COMMIT_PROFILES \<or>
    permission_profile i = ''project_scoped_agent'' \<and> mc_domain r = ''project'' \<and>
      (mc_project_scope r \<noteq> [] \<or> bound_scope i \<noteq> []) \<and> \<not> py_less (mc_confidence r) (1 / 2)"
  by (auto simp: profile_gate_def TRUSTED_COMMIT_PROFILES_def PROJECT_COMMIT_PROFILES_def
      REVIEW_ONLY_PROFILES_def split: if_splits)

lemma content_gate_None: "content_gate r = None \<longleftrightarrow>
    \<not> py_less (mc_confidence r) (17 / 20) \<and> mc_domain r \<notin> set SENSITIVE_DOMAINS \<and>
    mc_sensitivity r \<notin> set SENSITIVE_LEVELS \<and> mc_contradiction_refs r = [] \<and>
    py_casefold (mc_source_type r) \<in> set DIRECT_TRUSTED_SOURCES"
  using not_less_trans [of "mc_confidence r" "17 / 20" "1 / 2"]
  by (auto simp: content_gate_def)

lemma authority_gate_None: "authority_gate sc identity r base = None \<longleftrightarrow>
    decision base \<noteq> ''blocked'' \<and> \<not> request_contains_secret_marker sc r \<and>
    py_casefold (mc_intent r) \<in> set EXPLICIT_MEMORY_INTENTS \<and>
    py_casefold (mc_source_type r) \<notin> set EXTERNAL_REVIEW_SOURCES \<and> length (mc_source_refs r) \<le> 8 \<and>
    (case identity of None \<Rightarrow> True | Some i \<Rightarrow> profile_gate i r = None)"
  by (auto simp: authority_gate_def split: option.splits)

lemma commit_gate_None: "commit_gate sc identity r base = None \<longleftrightarrow>
    authority_gate sc identity r base = None \<and> content_gate r = None"
  by (auto simp: commit_gate_def split: option.splits)

text \<open>The result of the gate without a persona, and with one.\<close>

lemma commit_verdict_plain:
  "commit_verdict sc trace owner None identity r = Inr d \<Longrightarrow>
     md_write_mode d = gate_mode (commit_gate sc identity r (md_policy d)) \<and> md_promoted_from d = None \<and>
     evaluate_agent_policy (floor_scanners sc) trace identity (commit_base_request r) = Inr (md_policy d)"
  by (auto simp: commit_verdict_def evaluate_memory_commit_policy_def commit_promotion_def Let_def
      lifts_gate_def)

lemma commit_verdict_persona:
  assumes "commit_verdict sc trace owner (Some st) identity r = Inr d"
  shows "\<exists>p. evaluate_promotion (floor_scanners sc) st (promotion_candidate_for_request identity r)
           (pol_profile (md_policy d)) (writer_trust_for_commit identity owner) = Inr p \<and>
         md_promotion d = Some p \<and>
         (let m = gate_mode (commit_gate sc identity r (md_policy d));
              lifted = auto_promote p \<and> m \<in> {''propose_review'', ''confirm_inline''}
          in md_write_mode d = (if lifted then ''commit'' else m) \<and>
             md_promoted_from d = (if lifted then Some m else None)) \<and>
         evaluate_agent_policy (floor_scanners sc) trace identity (commit_base_request r) = Inr (md_policy d)"
  using assms
  by (auto simp: commit_verdict_def evaluate_memory_commit_policy_def commit_promotion_def Let_def
      lifts_gate_def)

subsection \<open>Demonstration data\<close>

text \<open>A plain commit by the owner, one of low certainty, and the payload they come from.\<close>

definition demo_payload :: dict where
  "demo_payload =
     [(''title'', JStr '' Tea''), (''canonical_text'', JStr ''Likes  tea''), (''memory_type'', JStr ''Quote-Note''),
      (''domain'', JStr ''work''), (''sensitivity'', JStr ''internal''), (''confidence'', JInt 1)]"

definition demo_commit :: commit_request where
  "demo_commit =
     \<lparr>mc_user_id = ''u'', mc_title = ''Tea'', mc_canonical_text = ''Likes tea'', mc_memory_type = ''semantic'',
      mc_domain = ''professional'', mc_sensitivity = ''internal'', mc_confidence = JFloat ''1.0'' (Some 1),
      mc_intent = ''explicit_remember'', mc_source_type = ''direct_user_instruction'',
      mc_source_refs = [], mc_excerpt = None, mc_rationale = None, mc_idempotency_key = None,
      mc_project_scope = [], mc_contradiction_refs = [], mc_trace_id = None\<rparr>"

definition demo_unsure :: commit_request where
  "demo_unsure = demo_commit\<lparr>mc_confidence := JFloat ''0.6'' (Some (3 / 5))\<rparr>"

definition demo_scanners :: commit_scanners where
  "demo_scanners = \<lparr>floor_scanners = quiet_scanners, assigned_values = (\<lambda>t. [])\<rparr>"

definition demo_persona :: promotion_settings where
  "demo_persona = \<lparr>persona = ''personal'', escalation_filters = [], owner_aliases = []\<rparr>"

lemma demo_payload_parsed: "memory_commit_request_from_payload demo_payload ''u'' = Inr demo_commit"
  by code_simp

lemma demo_commit_clean: "\<not> request_contains_secret_marker demo_scanners demo_commit"
  by code_simp

lemma demo_words: "py_casefold (mc_intent demo_commit) = ''explicit_remember''"
  "py_casefold (mc_source_type demo_commit) = ''direct_user_instruction''"
  by code_simp+

lemma demo_unsure_simps: "mc_intent demo_unsure = mc_intent demo_commit"
  "mc_source_type demo_unsure = mc_source_type demo_commit"
  "request_contains_secret_marker sc demo_unsure = request_contains_secret_marker sc demo_commit"
  by (simp_all add: demo_unsure_def request_contains_secret_marker_def guarded_texts_def)

lemma demo_authority:
  assumes "decision base \<noteq> ''blocked''"
  shows "authority_gate demo_scanners None demo_commit base = None"
    and "authority_gate demo_scanners None demo_unsure base = None"
  using assms demo_commit_clean
  by (simp_all add: authority_gate_None demo_words demo_unsure_simps EXPLICIT_MEMORY_INTENTS_def
      EXTERNAL_REVIEW_SOURCES_def) (simp_all add: demo_unsure_def demo_commit_def)

lemma demo_gates:
  assumes "decision base \<noteq> ''blocked''"
  shows "commit_gate demo_scanners None demo_commit base = None"
    and "gate_mode (commit_gate demo_scanners None demo_unsure base) = ''confirm_inline''"
proof -
  have "content_gate demo_commit = None" "gate_mode (content_gate demo_unsure) = ''confirm_inline''"
    by code_simp+
  with demo_authority [OF assms] show "commit_gate demo_scanners None demo_commit base = None"
    and "gate_mode (commit_gate demo_scanners None demo_unsure base) = ''confirm_inline''"
    by (simp_all add: commit_gate_def)
qed

lemma demo_promotion:
  "\<exists>p. evaluate_promotion quiet_scanners demo_persona (promotion_candidate_for_request None demo_unsure)
        ''user_or_system'' ''owner'' = Inr p \<and> auto_promote p"
  by (rule exI [of _ "case evaluate_promotion quiet_scanners demo_persona
        (promotion_candidate_for_request None demo_unsure) ''user_or_system'' ''owner'' of Inr p \<Rightarrow> p"]) code_simp

lemma demo_verdicts:
  "\<exists>d. commit_verdict demo_scanners ''t'' True None None demo_commit = Inr d \<and> md_write_mode d = ''commit''"
  "\<exists>d. commit_verdict demo_scanners ''t'' True None None demo_unsure = Inr d \<and> md_write_mode d = ''confirm_inline''"
  "\<exists>d. commit_verdict demo_scanners ''t'' True (Some demo_persona) None demo_unsure = Inr d \<and>
       md_write_mode d = ''commit''"
proof -
  have trust: "writer_trust_for_commit None True = ''owner''" by code_simp
  note verdict = commit_verdict_def evaluate_agent_policy_def evaluate_memory_commit_policy_def
    commit_promotion_def lifts_gate_def Let_def
  show "\<exists>d. commit_verdict demo_scanners ''t'' True None None demo_commit = Inr d \<and> md_write_mode d = ''commit''"
    by (simp add: verdict demo_gates gate_mode_def)
  show "\<exists>d. commit_verdict demo_scanners ''t'' True None None demo_unsure = Inr d \<and>
      md_write_mode d = ''confirm_inline''"
    by (simp add: verdict demo_gates)
  have floor_part: "floor_scanners demo_scanners = quiet_scanners" by (simp add: demo_scanners_def)
  from demo_promotion obtain p where p: "evaluate_promotion quiet_scanners demo_persona
      (promotion_candidate_for_request None demo_unsure) ''user_or_system'' ''owner'' = Inr p" "auto_promote p"
    by blast
  show "\<exists>d. commit_verdict demo_scanners ''t'' True (Some demo_persona) None demo_unsure = Inr d \<and>
      md_write_mode d = ''commit''"
    by (simp add: verdict demo_gates trust floor_part p del: bind_res_eq_Inr_iff)
qed

subsection \<open>Properties\<close>

text \<open>
  C26: a parsed commit request is well formed.  Its memory type, domain and sensitivity are the
  canonical words of the vocabularies (aliases resolved).  Its texts, the optional ones that are there
  and the entries of its lists are tidy: one word or more, no white space inside a word, one blank
  between two words and none around them.  Its confidence is a float between 0 and 1, unless the
  payload itself gives \<open>nan\<close>, which no comparison of the range check refuses.
\<close>

theorem parsed_request_well_formed:
  assumes "memory_commit_request_from_payload payload user = Inr r"
  shows "mc_memory_type r \<in> set VNEXT_MEMORY_TYPES \<and> mc_domain r \<in> set VNEXT_DOMAINS \<and>
    mc_sensitivity r \<in> set VNEXT_SENSITIVITY_LEVELS \<and>
    {mc_title r, mc_canonical_text r, mc_intent r, mc_source_type r} \<subseteq> Collect tidy_text \<and>
    set_option (mc_excerpt r) \<union> set_option (mc_rationale r) \<union> set_option (mc_idempotency_key r)
      \<union> set_option (mc_trace_id r) \<subseteq> Collect tidy_text \<and>
    set (mc_project_scope r) \<union> set (mc_contradiction_refs r) \<subseteq> Collect tidy_text \<and>
    ((\<exists>t q. mc_confidence r = JFloat t (Some q) \<and> 0 \<le> q \<and> q \<le> 1) \<or>
     (\<exists>t. mc_confidence r = JFloat t None \<and> dget payload ''confidence'' = JFloat t None
        \<and> t \<notin> {''inf'', ''-inf''}))"
  using assms unfolding memory_commit_request_from_payload_def
  by (elim bind_res_eq_Inr_iff [THEN iffD1, elim_format] exE conjE)
     (auto dest!: field_facts dest: dget_or_float)

theorem parsed_request_well_formed_witness:
  "mc_memory_type demo_commit \<in> set VNEXT_MEMORY_TYPES \<and> mc_domain demo_commit \<in> set VNEXT_DOMAINS
    \<and> tidy_text (mc_title demo_commit)"
  using parsed_request_well_formed [OF demo_payload_parsed] by blast

text \<open>
  C24: the exact condition under which a commit becomes a fact at once on a deployment that has not
  configured a persona: the policy engine did not block it, no text of the request carries a
  credential, the intent and the source are explicit and direct, at most eight references, high
  confidence, nothing sensitive or contradicted, and an agent writer holds a committing profile (the
  project-scoped one inside a project only).
\<close>

theorem direct_commit_exactly:
  assumes "commit_verdict sc trace owner None identity r = Inr d"
  shows "md_write_mode d = ''commit'' \<longleftrightarrow>
    decision (md_policy d) \<noteq> ''blocked'' \<and>
    \<not> (\<exists>t. t \<in> set (guarded_texts r) \<and> contains_secret_marker sc t) \<and>
    py_casefold (mc_intent r) \<in> set EXPLICIT_MEMORY_INTENTS \<and>
    py_casefold (mc_source_type r) \<in> set DIRECT_TRUSTED_SOURCES \<and>
    length (mc_source_refs r) \<le> 8 \<and> mc_contradiction_refs r = [] \<and>
    \<not> py_less (mc_confidence r) (17 / 20) \<and>
    mc_domain r \<notin> set SENSITIVE_DOMAINS \<and> mc_sensitivity r \<notin> set SENSITIVE_LEVELS \<and>
    (case identity of None \<Rightarrow> True
     | Some i \<Rightarrow> permission_profile i \<in> set TRUSTED_COMMIT_PROFILES \<or>
         permission_profile i = ''project_scoped_agent'' \<and> mc_domain r = ''project'' \<and>
         (mc_project_scope r \<noteq> [] \<or> bound_scope i \<noteq> []))"
proof -
  have secret: "request_contains_secret_marker sc r \<longleftrightarrow>
      (\<exists>t. t \<in> set (guarded_texts r) \<and> contains_secret_marker sc t)"
    by (auto simp: request_contains_secret_marker_def list_ex_iff)
  show ?thesis
    using commit_verdict_plain [OF assms] not_less_trans [of "mc_confidence r" "17 / 20" "1 / 2"]
      trusted_not_external
    by (auto simp: gate_mode_commit commit_gate_None authority_gate_None content_gate_None
        profile_gate_None secret split: option.splits)
qed

theorem direct_commit_exactly_witness:
  "\<exists>d. commit_verdict demo_scanners ''t'' True None None demo_commit = Inr d \<and>
       decision (md_policy d) \<noteq> ''blocked'' \<and> mc_contradiction_refs demo_commit = []"
  using demo_verdicts(1) direct_commit_exactly by blast

text \<open>
  C25: a persona only lifts a review or a confirmation.  With a persona configured the write mode is
  what it would be without one, or it is a commit that would have waited for a human; the writer is
  then the owner or an authenticated agent whose profile may be promoted, the text trips neither the
  hard floor nor an enabled filter, and the record says what was lifted.  A rejection stays one.
\<close>

theorem persona_lifts_waiting_only:
  assumes "commit_verdict sc trace owner None identity r = Inr d0"
    and "commit_verdict sc trace owner (Some st) identity r = Inr d"
  shows "md_write_mode d = md_write_mode d0 \<and> md_promoted_from d = None \<or>
    md_write_mode d = ''commit'' \<and> md_promoted_from d = Some (md_write_mode d0) \<and>
    md_write_mode d0 \<in> {''propose_review'', ''confirm_inline''} \<and>
    writer_trust_for_commit identity owner \<in> set PROMOTION_ELIGIBLE_WRITERS \<and>
    pol_profile (md_policy d) \<in> set PROMOTABLE_PERMISSION_PROFILES \<and>
    persona st \<in> set AUTO_PROMOTING_PERSONAS \<and>
    hard_floor_hits (floor_scanners sc) (promotion_candidate_for_request identity r) = [] \<and>
    escalation_filter_hits (floor_scanners sc) st (promotion_candidate_for_request identity r) = []"
proof -
  note plain = commit_verdict_plain [OF assms(1)]
  obtain p where p: "evaluate_promotion (floor_scanners sc) st (promotion_candidate_for_request identity r)
        (pol_profile (md_policy d)) (writer_trust_for_commit identity owner) = Inr p"
    and mode: "let m = gate_mode (commit_gate sc identity r (md_policy d));
              lifted = auto_promote p \<and> m \<in> {''propose_review'', ''confirm_inline''}
          in md_write_mode d = (if lifted then ''commit'' else m) \<and>
             md_promoted_from d = (if lifted then Some m else None)"
    and base: "evaluate_agent_policy (floor_scanners sc) trace identity (commit_base_request r) =
      Inr (md_policy d)"
    using commit_verdict_persona [OF assms(2)] by blast
  from plain base have same: "md_policy d = md_policy d0" by simp
  show ?thesis
    using plain mode auto_promote_iff [OF p] unfolding same
    by (cases "auto_promote p") (auto simp: Let_def split: if_splits)
qed

theorem persona_lifts_waiting_only_witness:
  "\<exists>d. commit_verdict demo_scanners ''t'' True (Some demo_persona) None demo_unsure = Inr d \<and>
       md_write_mode d = ''commit'' \<and> md_promoted_from d = Some ''confirm_inline''"
proof -
  from demo_verdicts(2) obtain d0 where plain:
    "commit_verdict demo_scanners ''t'' True None None demo_unsure = Inr d0" "md_write_mode d0 = ''confirm_inline''"
    by blast
  from demo_verdicts(3) obtain d where lifted:
    "commit_verdict demo_scanners ''t'' True (Some demo_persona) None demo_unsure = Inr d" "md_write_mode d = ''commit''"
    by blast
  from persona_lifts_waiting_only [OF plain(1) lifted(1)] plain(2) lifted show ?thesis by auto
qed

text \<open>\<open>nan\<close> passes the range check, no comparison with it holding, and the gate takes it for certainty.\<close>

lemma nan_confidence_commits:
  "checked_confidence (JFloat ''nan'' None) = Inr (JFloat ''nan'' None)"
  "content_gate (demo_commit\<lparr>mc_confidence := JFloat ''nan'' None\<rparr>) = None"
  by code_simp+

end
