(* ===== verification/Canonical_Json.thy ===== *)
theory Canonical_Json
  imports Json "HOL-Library.Word"
begin

text \<open>
  The two library calls behind an idempotency key: \<open>json.dumps(_, sort_keys=True,
  separators=(",", ":"))\<close>, which writes ASCII only, and \<open>hashlib.sha256(_).hexdigest()\<close>.
\<close>

unbundle bit_operations_syntax

subsection \<open>JSON text\<close>

text \<open>The code points of a UTF-8 text.\<close>

definition byte :: "char \<Rightarrow> nat" where
  "byte c = of_char c"

definition tail_bits :: "char \<Rightarrow> nat" where
  "tail_bits c = byte c mod 64"

fun code_points :: "string \<Rightarrow> nat list" where
  "code_points [] = []"
| "code_points (a # b # c # d # cs) =
     (if byte a < 128 then byte a # code_points (b # c # d # cs)
      else if byte a < 224 then (byte a mod 32 * 64 + tail_bits b) # code_points (c # d # cs)
      else if byte a < 240
      then (byte a mod 16 * 4096 + tail_bits b * 64 + tail_bits c) # code_points (d # cs)
      else (byte a mod 8 * 262144 + tail_bits b * 4096 + tail_bits c * 64 + tail_bits d) # code_points cs)"
| "code_points [a] = [byte a]"
| "code_points [a, b] =
     (if byte a < 128 then byte a # code_points [b] else [byte a mod 32 * 64 + tail_bits b])"
| "code_points [a, b, c] =
     (if byte a < 128 then byte a # code_points [b, c]
      else if byte a < 224 then (byte a mod 32 * 64 + tail_bits b) # code_points [c]
      else [byte a mod 16 * 4096 + tail_bits b * 64 + tail_bits c])"

definition hex4 :: "nat \<Rightarrow> string" where
  "hex4 n = map (\<lambda>k. hex_digit (n div 16 ^ k mod 16)) [3, 2, 1, 0]"

definition backslash :: char where
  "backslash = CHR 0x5C"

definition u_escape :: "nat \<Rightarrow> string" where
  "u_escape n = backslash # CHR ''u'' # hex4 n"

definition json_escape :: "nat \<Rightarrow> string" where
  "json_escape n =
     (if n = 34 \<or> n = 92 then [backslash, char_of n]
      else if n = 10 then [backslash, CHR ''n''] else if n = 13 then [backslash, CHR ''r'']
      else if n = 9 then [backslash, CHR ''t''] else if n = 8 then [backslash, CHR ''b'']
      else if n = 12 then [backslash, CHR ''f'']
      else if 32 \<le> n \<and> n \<le> 126 then [char_of n]
      else if n < 65536 then u_escape n
      else u_escape (55296 + (n - 65536) div 1024) @ u_escape (56320 + (n - 65536) mod 1024))"

definition json_string :: "string \<Rightarrow> string" where
  "json_string t = CHR 0x22 # concat (map json_escape (code_points t)) @ [CHR 0x22]"

definition json_float :: "string \<Rightarrow> string" where
  "json_float t =
     (if t = ''nan'' then ''NaN'' else if t = ''inf'' then ''Infinity''
      else if t = ''-inf'' then ''-Infinity'' else t)"

fun json_dumps :: "json \<Rightarrow> string" where
  "json_dumps JNull = ''null''"
| "json_dumps (JBool b) = (if b then ''true'' else ''false'')"
| "json_dumps (JInt i) = int_str i"
| "json_dumps (JFloat t v) = json_float t"
| "json_dumps (JStr t) = json_string t"
| "json_dumps (JList xs) = ''['' @ join_with '','' (map json_dumps xs) @ '']''"
| "json_dumps (JObj d) =
     ''{'' @ join_with '',''
       (map snd (sort_key fst (map (\<lambda>(k, v). (k, json_string k @ '':'' @ json_dumps v)) d))) @ ''}''"

subsection \<open>SHA-256\<close>

type_synonym word32 = "32 word"

text \<open>
  The constants, computed as the standard defines them: the first 32 bits of the fractional parts
  of the cube roots of the first 64 primes, and of the square roots of the first eight.
\<close>

definition small_primes :: "nat list" where
  "small_primes = filter (\<lambda>n. list_all (\<lambda>d. n mod d \<noteq> 0) [2..<n]) [2..<312]"

text \<open>The integer part of a root, bit by bit from the highest.\<close>

fun root_below :: "nat \<Rightarrow> nat \<Rightarrow> nat \<Rightarrow> nat \<Rightarrow> nat" where
  "root_below k x 0 r = r"
| "root_below k x (Suc n) r =
     (let r' = r + 2 ^ n in root_below k x n (if r' ^ k \<le> x then r' else r))"

definition root_fraction :: "nat \<Rightarrow> nat \<Rightarrow> word32" where
  "root_fraction k p = of_nat (root_below k (p * 2 ^ (32 * k)) 40 0)"

definition sha_k :: "word32 list" where
  "sha_k = map (root_fraction 3) small_primes"

definition sha_init :: "word32 list" where
  "sha_init = map (root_fraction 2) [2, 3, 5, 7, 11, 13, 17, 19]"

definition rotr :: "nat \<Rightarrow> word32 \<Rightarrow> word32" where
  "rotr n x = drop_bit n x OR push_bit (32 - n) x"

definition big_sigma0 :: "word32 \<Rightarrow> word32" where
  "big_sigma0 x = rotr 2 x XOR rotr 13 x XOR rotr 22 x"

definition big_sigma1 :: "word32 \<Rightarrow> word32" where
  "big_sigma1 x = rotr 6 x XOR rotr 11 x XOR rotr 25 x"

definition small_sigma0 :: "word32 \<Rightarrow> word32" where
  "small_sigma0 x = rotr 7 x XOR rotr 18 x XOR drop_bit 3 x"

definition small_sigma1 :: "word32 \<Rightarrow> word32" where
  "small_sigma1 x = rotr 17 x XOR rotr 19 x XOR drop_bit 10 x"

text \<open>The schedule, kept newest first.\<close>

fun sha_extend :: "nat \<Rightarrow> word32 list \<Rightarrow> word32 list" where
  "sha_extend 0 ws = ws"
| "sha_extend (Suc n) ws =
     sha_extend n ((small_sigma1 (ws ! 1) + ws ! 6 + small_sigma0 (ws ! 14) + ws ! 15) # ws)"

fun sha_round :: "word32 list \<Rightarrow> word32 \<times> word32 \<Rightarrow> word32 list" where
  "sha_round [a, b, c, d, e, f, g, h] (k, w) =
     (let t1 = h + big_sigma1 e + ((e AND f) XOR (NOT e AND g)) + k + w;
          t2 = big_sigma0 a + ((a AND b) XOR (a AND c) XOR (b AND c))
      in [t1 + t2, a, b, c, d + t1, e, f, g])"
| "sha_round st kw = st"

definition sha_block :: "word32 list \<Rightarrow> word32 list \<Rightarrow> word32 list" where
  "sha_block st block =
     map2 (+) st (foldl sha_round st (zip sha_k (rev (sha_extend 48 (rev block)))))"

definition big_endian :: "nat \<Rightarrow> nat \<Rightarrow> nat list" where
  "big_endian n v = map (\<lambda>k. v div 256 ^ k mod 256) (rev [0..<n])"

definition sha_pad :: "nat list \<Rightarrow> nat list" where
  "sha_pad bs =
     bs @ [128] @ replicate ((119 - length bs mod 64) mod 64) 0 @ big_endian 8 (8 * length bs)"

definition word_of_bytes :: "nat list \<Rightarrow> word32" where
  "word_of_bytes bs = of_nat (foldl (\<lambda>acc b. 256 * acc + b) 0 bs)"

fun chunks :: "nat \<Rightarrow> nat \<Rightarrow> 'a list \<Rightarrow> 'a list list" where
  "chunks 0 n xs = []"
| "chunks (Suc k) n xs = take n xs # chunks k n (drop n xs)"

definition sha256_hexdigest :: "string \<Rightarrow> string" where
  "sha256_hexdigest t =
     (let padded = sha_pad (map byte t);
          words = map word_of_bytes (chunks (length padded div 4) 4 padded);
          blocks = chunks (length words div 16) 16 words
      in concat (map (\<lambda>w. map (\<lambda>k. hex_digit (unat w div 16 ^ k mod 16)) (rev [0..<8]))
           (foldl sha_block sha_init blocks)))"

subsection \<open>The shape of a digest\<close>

lemma length_sha_round [simp]: "length (sha_round st kw) = length st"
  by (induction st kw rule: sha_round.induct) (simp_all add: Let_def)

lemma length_sha_rounds [simp]: "length (foldl sha_round st kws) = length st"
  by (induction kws arbitrary: st) simp_all

lemma length_sha_block [simp]: "length (sha_block st b) = length st"
  by (simp add: sha_block_def)

lemma length_sha_blocks [simp]: "length (foldl sha_block st bs) = length st"
  by (induction bs arbitrary: st) simp_all

lemma length_digest [simp]: "length (sha256_hexdigest t) = 64"
  by (simp add: sha256_hexdigest_def Let_def length_concat comp_def sha_init_def map_replicate_const
      sum_list_replicate)

lemma hex_digit_visible: "hex_digit n \<noteq> CHR '' ''" if "n < 16"
proof -
  have "of_char (hex_digit n) = (if n < 10 then 48 + n else 87 + n)"
    using that by (simp add: hex_digit_def)
  moreover have "of_char (CHR '' '') = (32 :: nat)" by simp
  ultimately have "(if n < 10 then 48 + n else 87 + n) = 32" if "hex_digit n = CHR '' ''"
    using that by simp
  then show ?thesis by (auto split: if_splits)
qed

lemma digest_visible: "c \<in> set (sha256_hexdigest t) \<Longrightarrow> c \<noteq> CHR '' ''"
  using hex_digit_visible by (auto simp: sha256_hexdigest_def Let_def)

lemma digest_not_blank: "dropWhile (\<lambda>c. c = CHR '' '') (sha256_hexdigest t) \<noteq> []"
proof -
  have "sha256_hexdigest t \<noteq> []" using length_digest [of t] by fastforce
  then obtain c cs where "sha256_hexdigest t = c # cs" by (cases "sha256_hexdigest t") auto
  with digest_visible [of c t] show ?thesis by simp
qed

end
