(* ===== verification/Uuid.thy ===== *)
theory Uuid
  imports Json "HOL-Library.Word"
begin

text \<open>
  Identifiers: the text \<open>str(UUID)\<close> prints and the texts \<open>UUID(t)\<close> accepts.
\<close>

subsection \<open>Identifiers\<close>

text \<open>
  A \<open>uuid.UUID\<close> is its 128-bit value.  PostgreSQL and Python order them by that value.
\<close>

type_synonym uuid = "128 word"

fun hex_digits :: "nat \<Rightarrow> nat \<Rightarrow> nat list" where
  "hex_digits 0 n = []"
| "hex_digits (Suc k) n = hex_digits k (n div 16) @ [n mod 16]"

definition hex_value :: "nat list \<Rightarrow> nat" where
  "hex_value ds = foldl (\<lambda>acc d. 16 * acc + d) 0 ds"

lemma length_hex_digits [simp]: "length (hex_digits k n) = k"
  by (induction k arbitrary: n) simp_all

lemma hex_digits_bound: "d \<in> set (hex_digits k n) \<Longrightarrow> d < 16"
  by (induction k arbitrary: n) (auto simp: less_Suc_eq_le)

lemma hex_value_digits: "hex_value (hex_digits k n) = n mod 16 ^ k"
proof (induction k arbitrary: n)
  case 0
  then show ?case by (simp add: hex_value_def)
next
  case (Suc k)
  have "hex_value (hex_digits (Suc k) n) = 16 * hex_value (hex_digits k (n div 16)) + n mod 16"
    by (simp add: hex_value_def)
  also have "\<dots> = 16 * (n div 16 mod 16 ^ k) + n mod 16" using Suc by simp
  also have "\<dots> = n mod 16 ^ Suc k" by (simp add: mod_mult2_eq)
  finally show ?case .
qed

text \<open>\<open>str(u)\<close>: 32 lower-case hexadecimal digits in groups of 8, 4, 4, 4 and 12.\<close>

definition uuid_hex :: "uuid \<Rightarrow> string" where
  "uuid_hex u = map hex_digit (hex_digits 32 (unat u))"

definition uuid_str :: "uuid \<Rightarrow> string" where
  "uuid_str u =
     (let h = uuid_hex u in
      take 8 h @ ''-'' @ take 4 (drop 8 h) @ ''-'' @ take 4 (drop 12 h) @ ''-'' @
      take 4 (drop 16 h) @ ''-'' @ drop 20 h)"

definition digit_of_char :: "char \<Rightarrow> nat option" where
  "digit_of_char c =
     (let n = of_char c :: nat in
      if 48 \<le> n \<and> n \<le> 57 then Some (n - 48)
      else if 97 \<le> n \<and> n \<le> 102 then Some (n - 87)
      else if 65 \<le> n \<and> n \<le> 70 then Some (n - 55)
      else None)"

text \<open>\<open>s.strip("{}")\<close>.\<close>

definition strip_braces :: "string \<Rightarrow> string" where
  "strip_braces s =
     (let brace = (\<lambda>c. c = CHR ''{'' \<or> c = CHR ''}'')
      in rev (dropWhile brace (rev (dropWhile brace s))))"

text \<open>
  \<open>UUID(s)\<close> drops the URN prefixes, braces and dashes and reads the 32 remaining characters in
  base 16; \<open>None\<close> is the \<open>ValueError\<close>.  The readings \<open>int(_, 16)\<close> also has for 32
  characters that are not all digits (a sign, a \<open>0x\<close> prefix, underscores, surrounding
  spaces) are taken as errors.
\<close>

definition parse_uuid :: "string \<Rightarrow> uuid option" where
  "parse_uuid s =
     (let h = filter (\<lambda>c. c \<noteq> CHR ''-'')
                (strip_braces (py_replace ''uuid:'' [] (py_replace ''urn:'' [] s)))
      in if length h \<noteq> 32 then None
         else if \<forall>c \<in> set h. digit_of_char c \<noteq> None
              then Some (of_nat (hex_value (map (\<lambda>c. the (digit_of_char c)) h)))
              else None)"

definition opt_uuid :: "uuid option \<Rightarrow> json" where
  "opt_uuid u = (case u of None \<Rightarrow> JNull | Some i \<Rightarrow> JStr (uuid_str i))"

text \<open>\<open>None if u is None else str(u)\<close>.\<close>

definition opt_uuid_str :: "uuid option \<Rightarrow> string option" where
  "opt_uuid_str u = map_option uuid_str u"

lemma of_char_hex_digit:
  "d < 16 \<Longrightarrow> (of_char (hex_digit d) :: nat) = (if d < 10 then 48 + d else 87 + d)"
  by (simp add: hex_digit_def of_char_of)

lemma digit_of_hex_digit: "d < 16 \<Longrightarrow> digit_of_char (hex_digit d) = Some d"
  by (auto simp: digit_of_char_def Let_def of_char_hex_digit)

lemma hex_digit_plain:
  assumes "d < 16"
  shows "hex_digit d \<noteq> CHR ''-''" "hex_digit d \<noteq> CHR ''{''" "hex_digit d \<noteq> CHR ''}''"
    "hex_digit d \<noteq> CHR '':''"
proof -
  have "hex_digit d \<noteq> c" if "\<not> (48 \<le> (of_char c :: nat) \<and> (of_char c :: nat) \<le> 57)"
      "\<not> (97 \<le> (of_char c :: nat) \<and> (of_char c :: nat) \<le> 102)" for c
  proof
    assume "hex_digit d = c"
    with of_char_hex_digit [OF assms] assms that show False
      by (auto split: if_splits)
  qed
  then show "hex_digit d \<noteq> CHR ''-''" "hex_digit d \<noteq> CHR ''{''" "hex_digit d \<noteq> CHR ''}''"
    "hex_digit d \<noteq> CHR '':''" by (simp_all add: of_char_def)
qed

lemma uuid_hex_char: "c \<in> set (uuid_hex u) \<Longrightarrow> \<exists>d < 16. c = hex_digit d"
  unfolding uuid_hex_def by (auto dest: hex_digits_bound)

lemma length_uuid_hex [simp]: "length (uuid_hex u) = 32"
  by (simp add: uuid_hex_def)

lemma uuid_str_char: "c \<in> set (uuid_str u) \<Longrightarrow> c = CHR ''-'' \<or> c \<in> set (uuid_hex u)"
  unfolding uuid_str_def Let_def
  by (auto dest: in_set_takeD in_set_dropD)

lemma py_replace_absent:
  assumes "c \<in> set old" "c \<notin> set s"
  shows "py_replace old new s = s"
  using assms(2)
proof (induction s)
  case Nil
  then show ?case by simp
next
  case (Cons x xs)
  have "take (length old) (x # xs) \<noteq> old"
  proof
    assume "take (length old) (x # xs) = old"
    with assms(1) have "c \<in> set (x # xs)" by (metis in_set_takeD)
    with Cons.prems show False by simp
  qed
  with Cons show ?case by simp
qed

lemma dropWhile_none: "(\<And>c. c \<in> set s \<Longrightarrow> \<not> P c) \<Longrightarrow> dropWhile P s = s"
  by (cases s) auto

lemma filter_dash_uuid_str: "filter (\<lambda>c. c \<noteq> CHR ''-'') (uuid_str u) = uuid_hex u"
proof -
  let ?h = "uuid_hex u" let ?P = "\<lambda>c. c \<noteq> CHR ''-''"
  have all: "\<And>c. c \<in> set ?h \<Longrightarrow> ?P c"
    using uuid_hex_char hex_digit_plain(1) by (metis (full_types))
  then have sub: "\<And>xs. set xs \<subseteq> set ?h \<Longrightarrow> filter ?P xs = xs"
    by (simp add: filter_id_conv subset_iff)
  have "filter ?P (uuid_str u) =
      take 8 ?h @ take 4 (drop 8 ?h) @ take 4 (drop 12 ?h) @ take 4 (drop 16 ?h) @ drop 20 ?h"
    unfolding uuid_str_def Let_def
    using sub by (simp add: set_take_subset set_drop_subset
        subset_trans [OF set_take_subset set_drop_subset])
  also have "\<dots> = ?h"
  proof -
    have "take 4 (drop 16 ?h) @ drop 20 ?h = drop 16 ?h"
      using append_take_drop_id [of 4 "drop 16 ?h"] by simp
    moreover have "take 4 (drop 12 ?h) @ drop 16 ?h = drop 12 ?h"
      using append_take_drop_id [of 4 "drop 12 ?h"] by simp
    moreover have "take 4 (drop 8 ?h) @ drop 12 ?h = drop 8 ?h"
      using append_take_drop_id [of 4 "drop 8 ?h"] by simp
    ultimately show ?thesis using append_take_drop_id [of 8 ?h] by metis
  qed
  finally show ?thesis .
qed

lemma parse_uuid_str [simp]: "parse_uuid (uuid_str u) = Some u"
proof -
  have plain: "c \<noteq> CHR '':'' \<and> c \<noteq> CHR ''{'' \<and> c \<noteq> CHR ''}''" if c: "c \<in> set (uuid_str u)" for c
  proof -
    from uuid_str_char [OF c] show ?thesis
    proof
      assume "c \<in> set (uuid_hex u)"
      then obtain d where "d < 16" "c = hex_digit d" using uuid_hex_char by blast
      then show ?thesis using hex_digit_plain by auto
    qed simp
  qed
  then have no_colon: "CHR '':'' \<notin> set (uuid_str u)" by blast
  have "py_replace ''uuid:'' [] (py_replace ''urn:'' [] (uuid_str u)) = uuid_str u"
    using no_colon by (simp add: py_replace_absent [of "CHR '':''"])
  moreover have "strip_braces (uuid_str u) = uuid_str u"
  proof -
    let ?b = "\<lambda>c. c = CHR ''{'' \<or> c = CHR ''}''"
    have "dropWhile ?b (uuid_str u) = uuid_str u" by (rule dropWhile_none) (use plain in blast)
    moreover have "dropWhile ?b (rev (uuid_str u)) = rev (uuid_str u)"
      by (rule dropWhile_none) (use plain in auto)
    ultimately show ?thesis by (simp add: strip_braces_def)
  qed
  ultimately have core: "filter (\<lambda>c. c \<noteq> CHR ''-'')
      (strip_braces (py_replace ''uuid:'' [] (py_replace ''urn:'' [] (uuid_str u)))) = uuid_hex u"
    by (simp add: filter_dash_uuid_str)
  have digits: "\<forall>c \<in> set (uuid_hex u). digit_of_char c \<noteq> None"
    using uuid_hex_char digit_of_hex_digit by fastforce
  have "map (\<lambda>c. the (digit_of_char c)) (uuid_hex u) = hex_digits 32 (unat u)"
    unfolding uuid_hex_def map_map
    by (rule map_idI) (simp add: digit_of_hex_digit hex_digits_bound)
  then have "hex_value (map (\<lambda>c. the (digit_of_char c)) (uuid_hex u)) = unat u mod 16 ^ 32"
    by (simp add: hex_value_digits)
  also have "\<dots> = unat u"
    using unsigned_less [of u, where 'a = nat] by simp
  finally show ?thesis
    unfolding parse_uuid_def Let_def core using digits by simp
qed

lemma uuid_str_inj [simp]: "uuid_str u = uuid_str v \<longleftrightarrow> u = v"
  by (metis option.inject parse_uuid_str)

end
