(* ===== verification/Memory_Service.thy ===== *)
theory Memory_Service
  imports Memory_Supersession Memory_Commit_Policy Canonical_Json Uuid
begin

text \<open>
  What the commands of \<open>VNextMemoryCommitService\<close> share: the policy check with its audit events
  (\<open>vnext_agent_control.py\<close>), the guard of pending project updates (\<open>vnext_project_update_guard.py\<close>),
  the content digests (\<open>vnext_memory_version.py\<close>) and the refresh of derived data.

  A command takes a store and returns a response (a dictionary) or an error with the store it leaves.
  The embeddings are deferred, as every adapter of the service asks.  Identifiers are given in the text
  the store prints.
\<close>

datatype service_error =
    MemoryServiceError memory_error
  | AgentPolicyBlockedError policy_decision
  | PromotionSettingsError settings_error

text \<open>What a service is constructed with; the settings are the resolved promotion settings.\<close>

record memory_service =
  sv_scanners :: commit_scanners
  sv_dated :: dated_match
  sv_settings :: "promotion_settings option"
  sv_owner_verified :: bool

type_synonym 'a command = "memory_store \<Rightarrow> (service_error + 'a) \<times> memory_store"

definition invalid :: "string \<Rightarrow> service_error" where
  "invalid m = MemoryServiceError (VNextMemoryCommitValidationError m)"

text \<open>A statement of the store, or a pure check, as part of a command.\<close>

definition lift_store :: "(memory_error + 'a) \<times> memory_store \<Rightarrow> (service_error + 'a) \<times> memory_store" where
  "lift_store r = (case fst r of Inl e \<Rightarrow> Inl (MemoryServiceError e) | Inr x \<Rightarrow> Inr x, snd r)"

definition lift_check :: "memory_error + 'a \<Rightarrow> 'a command" where
  "lift_check r s = lift_store (r, s)"

lemma lift_store_simps [simp]:
  "lift_store (Inl e, s) = (Inl (MemoryServiceError e), s)" "lift_store (Inr x, s) = (Inr x, s)"
  by (simp_all add: lift_store_def)

lemma snd_lift_store [simp]: "snd (lift_store r) = snd r"
  by (simp add: lift_store_def)

lemma snd_lift_check [simp]: "snd (lift_check r s) = s"
  by (simp add: lift_check_def)

lemma lift_store_eq_Inr: "lift_store r = (Inr x, t) \<longleftrightarrow> r = (Inr x, t)"
  by (cases r; cases "fst r") (auto simp: lift_store_def)

lemma lift_check_eq_Inr: "lift_check r s = (Inr x, t) \<longleftrightarrow> r = Inr x \<and> t = s"
  by (auto simp: lift_check_def lift_store_eq_Inr)

lemmas command_succeeds = succeeds lift_store_eq_Inr lift_check_eq_Inr

subsection \<open>Texts\<close>

text \<open>\<open>t[:n]\<close>, counted in code points.\<close>

fun take_chars :: "nat \<Rightarrow> string \<Rightarrow> string" where
  "take_chars n [] = []"
| "take_chars n (c # cs) =
     (if 128 \<le> (of_char c :: nat) \<and> (of_char c :: nat) < 192 then c # take_chars n cs
      else case n of 0 \<Rightarrow> [] | Suc m \<Rightarrow> c # take_chars m cs)"

text \<open>\<open>json.dumps(_, sort_keys=True, separators=(",", ":"), ensure_ascii=False)\<close>, encoded in UTF-8.\<close>

definition raw_escape :: "char \<Rightarrow> string" where
  "raw_escape c = (if (of_char c :: nat) < 32 \<or> c \<in> {CHR 0x22, CHR 0x5C} then json_escape (of_char c) else [c])"

definition raw_json_string :: "string \<Rightarrow> string" where
  "raw_json_string t = CHR 0x22 # concat (map raw_escape t) @ [CHR 0x22]"

fun raw_json_dumps :: "json \<Rightarrow> string" where
  "raw_json_dumps JNull = ''null''"
| "raw_json_dumps (JBool b) = (if b then ''true'' else ''false'')"
| "raw_json_dumps (JInt i) = int_str i"
| "raw_json_dumps (JFloat t v) = json_float t"
| "raw_json_dumps (JStr t) = raw_json_string t"
| "raw_json_dumps (JList xs) = ''['' @ join_with '','' (map raw_json_dumps xs) @ '']''"
| "raw_json_dumps (JObj d) =
     ''{'' @ join_with '',''
       (map snd (sort_key fst (map (\<lambda>(k, v). (k, raw_json_string k @ '':'' @ raw_json_dumps v)) d))) @ ''}''"

text \<open>\<open>vnext_memory_version.py\<close>.\<close>

definition memory_content_digest :: "dict \<Rightarrow> string" where
  "memory_content_digest memory =
     take 16 (sha256_hexdigest (json_dumps (JObj
       [(''title'', dget memory ''title''), (''canonical_text'', dget memory ''canonical_text''),
        (''summary'', dget memory ''summary''), (''value'', dget memory ''value'')])))"

definition memory_version_snapshot :: "dict \<Rightarrow> dict" where
  "memory_version_snapshot memory =
     [(''id'', JStr (row_id memory)), (''status'', JStr (str_or (dget memory ''status'') [])),
      (''updated_at'', JStr (str_or (dget memory ''updated_at'') [])),
      (''content_digest'', JStr (memory_content_digest memory))]"

definition memory_matches_snapshot :: "dict \<Rightarrow> dict \<Rightarrow> bool" where
  "memory_matches_snapshot memory snapshot \<longleftrightarrow>
     list_all (\<lambda>(k, v). dget snapshot k = v) (memory_version_snapshot memory)"

text \<open>\<open>vnext_project_update_guard.py\<close>.\<close>

definition is_project_update_artifact :: "dict \<Rightarrow> bool" where
  "is_project_update_artifact artifact \<longleftrightarrow> dget artifact ''artifact_type'' = JStr ''project_update''
     \<or> dget (nested artifact ''metadata_json'') ''workflow'' = JStr ''project_auto_update''"

definition is_project_update_memory :: "dict \<Rightarrow> bool" where
  "is_project_update_memory memory \<longleftrightarrow>
     dget (nested memory ''metadata_json'') ''workflow'' = JStr ''project_auto_update''
     \<or> (case dget memory ''memory_key'' of JStr k \<Rightarrow> py_startswith (py_strip k) ''project_update.'' | _ \<Rightarrow> False)"

definition is_pending_project_update_memory :: "dict \<Rightarrow> bool" where
  "is_pending_project_update_memory memory \<longleftrightarrow> is_project_update_memory memory
     \<and> dget (nested memory ''metadata_json'') ''candidate'' \<noteq> JBool False"

definition require_project_update_decision_path :: "dict \<Rightarrow> unit command" where
  "require_project_update_decision_path memory s =
     raise_when (is_pending_project_update_memory memory)
       (invalid ''pending project update candidates must be reviewed through the project update workflow'') s"

definition DERIVED_CONSOLIDATION_CANDIDATE_KINDS :: "string list" where
  [model_defs]: "DERIVED_CONSOLIDATION_CANDIDATE_KINDS = [''memory_consolidation'', ''memory_rollup'']"

definition is_derived_candidate_kind :: "dict \<Rightarrow> bool" where
  "is_derived_candidate_kind metadata =
     (case dget metadata ''candidate_kind'' of
        JStr k \<Rightarrow> k \<in> set DERIVED_CONSOLIDATION_CANDIDATE_KINDS | _ \<Rightarrow> False)"

definition is_pending_consolidation_candidate :: "dict \<Rightarrow> bool" where
  "is_pending_consolidation_candidate memory =
     (case as_obj (dget (memory_metadata memory) ''consolidation'') of
        None \<Rightarrow> is_derived_candidate_kind (memory_metadata memory)
      | Some consolidation \<Rightarrow> as_obj (dget consolidation ''accepted'') = None)"

subsection \<open>Policy\<close>

definition agent_of :: "agent_identity option \<Rightarrow> string option" where
  "agent_of identity = map_option agent_id identity"

definition run_of :: "agent_identity option \<Rightarrow> string option" where
  "run_of identity = (case identity of None \<Rightarrow> None | Some i \<Rightarrow> agent_run_id i)"

text \<open>An event of a command: actor and run of the identity, a memory as the target.\<close>

definition command_event ::
  "agent_identity option \<Rightarrow> string option \<Rightarrow> string option \<Rightarrow> string \<Rightarrow> string \<Rightarrow> dict \<Rightarrow> memory_store \<Rightarrow> memory_store" where
  "command_event identity trace run event_type target payload s =
     append_traced_event trace run event_type (actor_type (agent_of identity)) (agent_of identity)
       (Some ''memory'') (Some target) payload s"

definition upsert_identity :: "agent_identity option \<Rightarrow> memory_store \<Rightarrow> memory_store" where
  "upsert_identity identity s =
     (case identity of
        None \<Rightarrow> s
      | Some i \<Rightarrow>
          upsert_agent_identity
            [(''agent_type'', JStr (agent_type i)), (''permission_profile'', JStr (permission_profile i)),
             (''project_scope_json'', str_list (bound_scope i)),
             (''metadata_json'', JObj [(''last_agent_run_id'', opt_str (agent_run_id i)),
                                       (''last_task_id'', opt_str (task_id i))])]
            (agent_id i) ''agent'' s)"

definition append_policy_events ::
  "agent_identity option \<Rightarrow> policy_decision \<Rightarrow> string option \<Rightarrow> string option \<Rightarrow> memory_store \<Rightarrow> memory_store" where
  "append_policy_events identity d target_type target_id s =
     (case identity of
        None \<Rightarrow> s
      | Some i \<Rightarrow>
          (let emit = (\<lambda>event_type. append_traced_event (Some (trace_id d)) (agent_run_id i) event_type ''agent''
                 (Some (agent_id i)) target_type target_id
                 [(''agent_identity'', JObj (identity_to_record i)),
                  (''policy_decision'', JObj (decision_to_record d))]);
               s1 = emit ''policy.decision'' s
           in if decision d = ''blocked'' then emit ''agent.policy_blocked'' s1
              else if decision d = ''allowed_with_filtering'' then emit ''agent.policy_filtered'' s1
              else s1))"

definition agent_metadata :: "agent_identity option \<Rightarrow> policy_decision option \<Rightarrow> dict" where
  "agent_metadata identity d =
     (case identity of
        None \<Rightarrow> []
      | Some i \<Rightarrow> [(''generated_by'', JStr ''agent''), (''agent_id'', JStr (agent_id i)),
                  (''agent_run_id'', opt_str (agent_run_id i)),
                  (''agent_identity'', JObj (identity_to_record i))])
     @ (case d of
          None \<Rightarrow> []
        | Some p \<Rightarrow> [(''policy_decision'', JObj (decision_to_record p)),
                    (''review_required'', JBool (review_required p))])"

text \<open>The engine, with a fresh trace id.\<close>

definition fresh_trace :: "memory_store \<Rightarrow> string" where
  "fresh_trace s = ''policy-'' @ ident s"

definition evaluate_policy_for ::
  "memory_service \<Rightarrow> agent_identity option \<Rightarrow> policy_request \<Rightarrow> policy_decision command" where
  "evaluate_policy_for sv identity req s =
     (case evaluate_agent_policy (floor_scanners (sv_scanners sv)) (fresh_trace s) identity req of
        Inl e \<Rightarrow> (Inl (PromotionSettingsError e), draw s)
      | Inr d \<Rightarrow> (Inr d, draw s))"

definition memory_policy_request :: "string \<Rightarrow> dict \<Rightarrow> policy_request" where
  "memory_policy_request action memory =
     (default_request action)\<lparr>req_domains := [str_or (dget memory ''domain'') ''unknown''],
        req_sensitivity := [str_or (dget memory ''sensitivity'') ''unknown''],
        req_scope := resource_project_scope (Some memory), req_explicit_scope := True\<rparr>"

definition target_of :: "dict \<Rightarrow> string option" where
  "target_of memory = (if dget memory ''id'' = JNull then None else Some (row_id memory))"

definition policy_checked_write ::
  "memory_service \<Rightarrow> agent_identity option \<Rightarrow> string \<Rightarrow> dict \<Rightarrow> policy_decision command" where
  "policy_checked_write sv identity action memory s =
     and_then (evaluate_policy_for sv identity (memory_policy_request action memory) (upsert_identity identity s)) (\<lambda>d s.
       let t = append_policy_events identity d (Some ''memory'') (target_of memory) s in
       if decision d = ''blocked'' then (Inl (AgentPolicyBlockedError d), t) else (Inr d, t))"

subsection \<open>Derived data\<close>

definition deferred_embedding :: "dict \<Rightarrow> derived_request" where
  "deferred_embedding memory =
     EmbeddingDeferred (py_strip (row_id memory)) (as_str (dget memory ''title''))
       (as_str (dget memory ''canonical_text'')) (as_str (dget memory ''summary''))"

definition refresh_memory_derived_state :: "dict \<Rightarrow> string \<Rightarrow> bool \<Rightarrow> memory_store \<Rightarrow> memory_store" where
  "refresh_memory_derived_state memory stage replace_entity_links s =
     (let i = row_id memory;
          s1 = request_derived (FactKeysDerived i)
                 (request_derived (deferred_embedding memory) (clear_memory_embedding i s));
          s2 = (if replace_entity_links then request_derived (EntityLinksExpired i stage) s1 else s1)
      in request_derived (EntitiesLinked i stage) s2)"

subsection \<open>Revisions of a command\<close>

text \<open>
  The revision a lifecycle command appends after it has updated a row: the values and texts before and
  after, the reason and the actor.
\<close>

definition revise ::
  "agent_identity option \<Rightarrow> string \<Rightarrow> string \<Rightarrow> string \<Rightarrow> json \<Rightarrow> string \<Rightarrow> dict \<Rightarrow> dict \<Rightarrow> dict \<Rightarrow> memory_store \<Rightarrow> memory_store" where
  "revise identity revision_type action reason text_before text_after metadata memory updated s =
     append_revision
       [(''memory_key'', JStr (py_str (dget updated ''memory_key''))),
        (''previous_value'', json_or (dget memory ''value'') (JObj [])),
        (''new_value'', json_or (dget updated ''value'') (JObj [])),
        (''source_event_ids'', json_or (dget updated ''source_event_ids'') (JList [])),
        (''revision_type'', JStr revision_type), (''action'', JStr action),
        (''text_before'', text_before), (''text_after'', JStr text_after), (''reason'', JStr reason),
        (''actor_type'', JStr (actor_type (agent_of identity))), (''actor_id'', opt_str (agent_of identity)),
        (''metadata_json'', JObj metadata)]
       (row_id updated) (actor_type (agent_of identity)) s"

definition text_of :: "dict \<Rightarrow> string" where
  "text_of memory = str_or (dget memory ''canonical_text'') []"

subsection \<open>The commands leave the rows alone until they write\<close>

lemma upsert_identity_frames [simp]:
  "memories (upsert_identity identity s) = memories s" "revisions (upsert_identity identity s) = revisions s"
  "sources (upsert_identity identity s) = sources s" "instants (upsert_identity identity s) = instants s"
  "idents (upsert_identity identity s) = idents s"
  by (simp_all add: upsert_identity_def split: option.split)

lemma policy_events_frames [simp]:
  "memories (append_policy_events identity d tt ti s) = memories s"
  "revisions (append_policy_events identity d tt ti s) = revisions s"
  "sources (append_policy_events identity d tt ti s) = sources s"
  "instants (append_policy_events identity d tt ti s) = instants s"
  "idents (append_policy_events identity d tt ti s) = idents s"
  by (simp_all add: append_policy_events_def Let_def split: option.split)

lemma evaluate_policy_frames [simp]:
  "memories (snd (evaluate_policy_for sv identity req s)) = memories s"
  "revisions (snd (evaluate_policy_for sv identity req s)) = revisions s"
  "sources (snd (evaluate_policy_for sv identity req s)) = sources s"
  "instants (snd (evaluate_policy_for sv identity req s)) = instants s"
  by (simp_all add: evaluate_policy_for_def split: sum.split)

lemma command_event_frames [simp]:
  "memories (command_event identity tr rn et ti p s) = memories s"
  "revisions (command_event identity tr rn et ti p s) = revisions s"
  "sources (command_event identity tr rn et ti p s) = sources s"
  "instants (command_event identity tr rn et ti p s) = instants s"
  by (simp_all add: command_event_def)

lemma revise_frames [simp]:
  "memories (revise identity rt a rs tb ta md m u s) = memories s"
  "sources (revise identity rt a rs tb ta md m u s) = sources s"
  "instants (revise identity rt a rs tb ta md m u s) = instants s"
  by (simp_all add: revise_def)

lemma policy_checked_write_frames [simp]:
  "memories (snd (policy_checked_write sv identity action memory s)) = memories s"
  "revisions (snd (policy_checked_write sv identity action memory s)) = revisions s"
  "sources (snd (policy_checked_write sv identity action memory s)) = sources s"
  "instants (snd (policy_checked_write sv identity action memory s)) = instants s"
proof -
  let ?e = "evaluate_policy_for sv identity (memory_policy_request action memory) (upsert_identity identity s)"
  obtain r t where e: "?e = (r, t)" by (cases ?e)
  from evaluate_policy_frames [of sv identity "memory_policy_request action memory" "upsert_identity identity s"] e
  show "memories (snd (policy_checked_write sv identity action memory s)) = memories s"
    "revisions (snd (policy_checked_write sv identity action memory s)) = revisions s"
    "sources (snd (policy_checked_write sv identity action memory s)) = sources s"
    "instants (snd (policy_checked_write sv identity action memory s)) = instants s"
    by (cases r; simp add: policy_checked_write_def Let_def)+
qed

lemma get_memory_cong: "memories t = memories s \<Longrightarrow> get_memory t = get_memory s"
  by (simp add: get_memory_def fun_eq_iff)

end
