(* ===== verification/Memory_Commands.thy ===== *)
theory Memory_Commands
  imports Memory_Service
begin

text \<open>
  The lifecycle commands of \<open>VNextMemoryCommitService\<close>: \<open>confirm\<close>, \<open>undo\<close>, \<open>correct\<close>, \<open>forget\<close>,
  \<open>accept_consolidation_candidate\<close>, \<open>expire\<close> and \<open>unexpire\<close>.  Each is a sequence of guards and writes
  on the store; a guard that raises leaves the store as it is then, inside the transaction of the caller.
  Locking a row is reading it.
\<close>

definition not_found :: service_error where
  "not_found = invalid ''memory was not found''"

definition status_of :: "dict \<Rightarrow> string" where
  "status_of memory = str_or (dget memory ''status'') []"

definition or_none :: "string \<Rightarrow> string option" where
  "or_none t = (if t = [] then None else Some t)"

definition trace_of :: "dict \<Rightarrow> string" where
  "trace_of agentic = str_or (dget agentic ''trace_id'') []"

text \<open>\<open>{**(value if it is a dict), "text": text}\<close>.\<close>

definition with_text :: "dict \<Rightarrow> string \<Rightarrow> json" where
  "with_text memory t =
     JObj (dset ''text'' (JStr t) (case dget memory ''value'' of JObj d \<Rightarrow> d | _ \<Rightarrow> []))"

subsection \<open>Inline confirmation\<close>

definition confirmation_of :: "dict \<Rightarrow> dict" where
  "confirmation_of memory = nested (agentic_metadata memory) ''confirmation''"

text \<open>\<open>datetime.fromisoformat(_) < _utc_now()\<close>: a text that cannot be read, or has no offset, raises.\<close>

definition confirmation_expired :: "json \<Rightarrow> bool command" where
  "confirmation_expired raw s =
     (case raw of
        JStr t \<Rightarrow>
          (case parse_iso t of
             None \<Rightarrow> (Inl (MemoryServiceError (ValueError t)), s)
           | Some m \<Rightarrow>
               if mo_offset m = None
               then (Inl (MemoryServiceError
                       (TypeError ''can't compare offset-naive and offset-aware datetimes'')), tick s)
               else (Inr (utc_micros m < instant_of (instant s)), tick s))
      | _ \<Rightarrow> (Inr False, s))"

definition refresh_last_confirmed ::
  "agent_identity option \<Rightarrow> dict \<Rightarrow> string \<Rightarrow> string \<Rightarrow> dict \<Rightarrow> dict command" where
  "refresh_last_confirmed identity memory action reason metadata s =
     (let now = instant s in
      and_then (lift_store (update_memory (row_id memory)
          [(''last_confirmed_at'', JStr now), (''last_reviewed_at'', JStr now)]
          (actor_type (agent_of identity)) (tick s))) (\<lambda>updated s.
        (Inr updated,
         revise identity ''edited'' action reason (JStr (text_of memory)) (text_of updated)
           (dmerge metadata [(''last_confirmed_at_refreshed'', JBool True), (''last_confirmed_at'', JStr now)])
           memory updated s)))"

definition replay_confirmation ::
  "agent_identity option \<Rightarrow> dict \<Rightarrow> dict \<Rightarrow> string \<Rightarrow> string \<Rightarrow> dict option command" where
  "replay_confirmation identity memory confirmation confirmation_id action s =
     (if dget confirmation ''status'' = JStr ''confirmed'' \<and> action = ''confirm'' then
        and_then (refresh_last_confirmed identity memory ''agentic_memory_reconfirm''
            ''Repeated inline confirmation replayed; last_confirmed_at refreshed.''
            [(''confirmation_id'', JStr confirmation_id), (''idempotent_replay'', JBool True)] s) (\<lambda>refreshed s.
          (Inr (Some [(''status'', JStr ''committed''), (''write_mode'', JStr ''confirm_inline''),
             (''confirmation_id'', JStr confirmation_id), (''memory'', JObj refreshed),
             (''idempotent_replay'', JBool True)]), s))
      else if dget confirmation ''status'' \<in> {JStr ''rejected'', JStr ''expired''} \<and> action = ''reject'' then
        (Inr (Some [(''status'', JStr ''rejected''), (''write_mode'', JStr ''confirm_inline''),
           (''confirmation_id'', JStr confirmation_id), (''memory'', JObj memory),
           (''idempotent_replay'', JBool True)]), s)
      else (Inr None, s))"

text \<open>The branch of \<open>confirm\<close> for a confirmation that came too late.\<close>

definition expiry_patch :: "string \<Rightarrow> dict \<Rightarrow> dict" where
  "expiry_patch now memory =
     (let confirmation = dset ''expired_at'' (JStr now) (dset ''status'' (JStr ''expired'') (confirmation_of memory));
          agentic = dset ''lifecycle_status'' (JStr ''confirmation_expired'')
            (dset ''status'' (JStr ''rejected'') (dset ''confirmation'' (JObj confirmation) (agentic_metadata memory)))
      in [(''status'', JStr ''rejected''), (''last_reviewed_at'', JStr now),
          (''metadata_json'', JObj (dset ''agentic_memory'' (JObj agentic) (memory_metadata memory)))])"

definition expire_confirmation :: "agent_identity option \<Rightarrow> string \<Rightarrow> dict \<Rightarrow> dict command" where
  "expire_confirmation identity confirmation_id memory s =
     and_then (lift_check (require_transition ''confirm.expire'' (status_of memory)) s) (\<lambda>_ s.
       let now = instant s in
       and_then (lift_store (update_memory (row_id memory) (expiry_patch now memory)
           (actor_type (agent_of identity)) (tick s))) (\<lambda>updated s.
         let s1 = revise identity ''rejected'' ''agentic_memory_confirmation_expired''
               ''Inline memory confirmation expired before it was acted on.''
               (JStr (text_of memory)) (text_of updated)
               [(''confirmation_id'', JStr confirmation_id), (''action'', JStr ''expire''), (''expired_at'', JStr now)]
               memory updated s;
             s2 = command_event identity (or_none (trace_of (agentic_metadata memory))) None
               ''agent.memory_confirmation_expired'' (row_id updated)
               [(''confirmation_id'', JStr confirmation_id), (''action'', JStr ''expire''),
                (''status'', JStr ''rejected''), (''expired_at'', JStr now)] s1
         in (Inr [(''status'', JStr ''rejected''), (''write_mode'', JStr ''confirm_inline''),
                  (''confirmation_id'', JStr confirmation_id), (''reason'', JStr ''confirmation_expired''),
                  (''memory'', JObj updated)], s2)))"

text \<open>The decision itself: \<open>confirm\<close>, \<open>edit\<close> or \<open>reject\<close>.\<close>

definition decided_agentic :: "string \<Rightarrow> string \<Rightarrow> string option \<Rightarrow> dict \<Rightarrow> dict" where
  "decided_agentic now action rationale memory =
     (let rejected = action = ''reject'';
          response = (if rejected then ''rejected'' else ''committed'');
          confirmation = dset ''status'' (JStr (if rejected then ''rejected'' else ''confirmed'')) (confirmation_of memory);
          agentic = dset ''confirmed_at'' (if rejected then JNull else JStr now)
            (dset ''lifecycle_status'' (JStr (if rejected then ''confirmation_rejected'' else ''inline_confirmed''))
              (dset ''status'' (JStr response)
                (dset ''confirmation'' (JObj confirmation) (agentic_metadata memory))))
      in (case rationale of None \<Rightarrow> agentic | Some r \<Rightarrow> dset ''confirmation_rationale'' (JStr r) agentic))"

definition decision_patch :: "string \<Rightarrow> string \<Rightarrow> string \<Rightarrow> string option \<Rightarrow> dict \<Rightarrow> dict" where
  "decision_patch now action next_text rationale memory =
     [(''status'', JStr (if action = ''reject'' then ''rejected'' else ''active'')),
      (''metadata_json'', JObj (dset ''agentic_memory'' (JObj (decided_agentic now action rationale memory))
         (memory_metadata memory))),
      (''last_reviewed_at'', JStr now)]
     @ (if action = ''reject'' then []
        else [(''canonical_text'', JStr next_text), (''summary'', JStr (take_chars 280 next_text)),
              (''value'', with_text memory next_text), (''confirmation_status'', JStr ''confirmed''),
              (''last_confirmed_at'', JStr now)])
     @ (if action = ''edit'' then [(''title'', JStr (take_chars 120 next_text))] else [])"

definition settle_confirmation ::
  "agent_identity option \<Rightarrow> string \<Rightarrow> string \<Rightarrow> string option \<Rightarrow> string option \<Rightarrow> dict \<Rightarrow> dict command" where
  "settle_confirmation identity confirmation_id action new_text rationale memory s =
     (let rejected = action = ''reject'';
          response = (if rejected then ''rejected'' else ''committed'') in
     and_then (lift_check (require_transition (if rejected then ''confirm.reject'' else ''confirm.accept'')
         (status_of memory)) s) (\<lambda>_ s.
     and_then (case new_text of
         None \<Rightarrow> (Inr (text_of memory), s)
       | Some t \<Rightarrow> lift_check (normalized_text (JStr t) ''canonical_text'') s) (\<lambda>next_text s.
     let now = instant s in
     and_then (lift_store (update_memory (row_id memory) (decision_patch now action next_text rationale memory)
         (actor_type (agent_of identity)) (tick s))) (\<lambda>updated s.
       let s1 = (if rejected then s
                 else refresh_memory_derived_state updated ''inline_confirmation_accepted'' (action = ''edit'') s);
           s2 = revise identity
             (if rejected then ''rejected'' else if action = ''edit'' then ''corrected'' else ''promoted'')
             (''agentic_memory_confirm_'' @ action)
             (str_or (opt_str rationale) (''Inline memory confirmation '' @ action @ ''.''))
             (JStr (text_of memory)) next_text
             [(''confirmation_id'', JStr confirmation_id), (''action'', JStr action),
              (''last_confirmed_at_refreshed'', JBool (\<not> rejected))] memory updated s1;
           s3 = command_event identity (Some (trace_of (agentic_metadata memory))) None
             (if rejected then ''agent.memory_confirmation_rejected'' else ''agent.memory_confirmed'')
             (row_id updated)
             [(''confirmation_id'', JStr confirmation_id), (''action'', JStr action), (''status'', JStr response)] s2
       in (Inr [(''status'', JStr response), (''write_mode'', JStr ''confirm_inline''),
                (''confirmation_id'', JStr confirmation_id), (''memory'', JObj updated)], s3)))))"

text \<open>\<open>_memory_by_confirmation_id\<close> on a store that has the lookup.\<close>

definition memory_by_confirmation_id :: "string \<Rightarrow> memory_store \<Rightarrow> dict option" where
  "memory_by_confirmation_id confirmation_id s = get_memory_by_confirmation_id confirmation_id s"

definition confirm ::
  "memory_service \<Rightarrow> agent_identity option \<Rightarrow> string \<Rightarrow> string \<Rightarrow> string option \<Rightarrow> string option \<Rightarrow> dict command" where
  "confirm sv identity confirmation_id action new_text rationale s =
     (let act = py_casefold (py_strip action); missing = invalid ''confirmation was not found'' in
     and_then (raise_when (act \<notin> {''confirm'', ''reject'', ''edit''})
         (invalid ''confirmation action must be confirm, reject, or edit'') s) (\<lambda>_ s.
     and_then (require_row missing (memory_by_confirmation_id confirmation_id s) s) (\<lambda>found s.
     and_then (require_row missing (get_memory s (row_id found)) s) (\<lambda>memory s.
     and_then (policy_checked_write sv identity ''memory.confirm'' memory s) (\<lambda>_ s.
       if dget (confirmation_of memory) ''status'' \<noteq> JStr ''pending'' then
         and_then (replay_confirmation identity memory (confirmation_of memory) confirmation_id act s) (\<lambda>replay s.
           require_row (invalid ''confirmation is not pending'') replay s)
       else
         and_then (confirmation_expired (dget (confirmation_of memory) ''expires_at'') s) (\<lambda>late s.
           if late then expire_confirmation identity confirmation_id memory s
           else settle_confirmation identity confirmation_id act new_text rationale memory s))))))"

subsection \<open>Undo and forget\<close>

definition run_transition ::
  "memory_service \<Rightarrow> transition_request \<Rightarrow> dict \<Rightarrow> dict option \<Rightarrow> dict command" where
  "run_transition sv x memory superseded_by s =
     and_then (lift_store (transition_memory x (sv_dated sv) memory superseded_by s)) (\<lambda>updated s.
       (Inr [(''status'', JStr (tq_lifecycle_status x)), (''write_mode'', JStr ''commit''),
             (''memory'', JObj updated)], s))"

definition latest_agentic_commit :: "agent_identity option \<Rightarrow> memory_store \<Rightarrow> dict option" where
  "latest_agentic_commit identity s = latest_agentic_commit_memory (agent_of identity) s"

text \<open>The replacement of an undone memory, read and authorised like the memory itself.\<close>

definition undo_successor ::
  "memory_service \<Rightarrow> agent_identity option \<Rightarrow> dict \<Rightarrow> string option \<Rightarrow> dict option command" where
  "undo_successor sv identity memory superseded_by_memory_id s =
     (case superseded_by_memory_id of
        None \<Rightarrow> (Inr None, s)
      | Some i \<Rightarrow>
          and_then (require_row (invalid ''superseding memory was not found'') (get_memory s i) s) (\<lambda>successor s.
          and_then (raise_when (row_id successor = row_id memory)
              (invalid ''a memory cannot supersede itself'') s) (\<lambda>_ s.
          and_then (require_project_update_decision_path successor s) (\<lambda>_ s.
          and_then (policy_checked_write sv identity ''memory.undo'' successor s) (\<lambda>_ s.
            (Inr (Some successor), s))))))"

definition undo ::
  "memory_service \<Rightarrow> agent_identity option \<Rightarrow> string option \<Rightarrow> string option \<Rightarrow> string option \<Rightarrow> dict command" where
  "undo sv identity memory_id reason superseded_by_memory_id s =
     and_then (require_row not_found
         (if py_truthy (opt_str memory_id) then get_memory s (the memory_id)
          else latest_agentic_commit identity s) s) (\<lambda>found s.
     and_then (require_row not_found (get_memory s (row_id found)) s) (\<lambda>memory s.
     and_then (require_project_update_decision_path memory s) (\<lambda>_ s.
     and_then (policy_checked_write sv identity ''memory.undo'' memory s) (\<lambda>_ s.
     and_then (undo_successor sv identity memory superseded_by_memory_id s) (\<lambda>successor s.
       run_transition sv (undo_request (agent_of identity) reason) memory successor s)))))"

definition forget ::
  "memory_service \<Rightarrow> agent_identity option \<Rightarrow> string \<Rightarrow> string option \<Rightarrow> dict command" where
  "forget sv identity memory_id reason s =
     and_then (require_row not_found (get_memory s memory_id) s) (\<lambda>memory s.
     and_then (require_project_update_decision_path memory s) (\<lambda>_ s.
     and_then (policy_checked_write sv identity ''memory.forget'' memory s) (\<lambda>_ s.
       run_transition sv (forget_request (agent_of identity) reason) memory None s)))"

subsection \<open>Correction\<close>

definition corrected_agentic :: "string \<Rightarrow> string option \<Rightarrow> dict \<Rightarrow> dict" where
  "corrected_agentic now reason memory =
     (let agentic = agentic_metadata memory;
          history = (case dget agentic ''corrections'' of JList h \<Rightarrow> h | _ \<Rightarrow> []);
          correction = JObj [(''corrected_at'', JStr now), (''reason'', opt_str reason),
                             (''previous_text'', dget memory ''canonical_text'')]
      in dset ''requires_dashboard_review'' (JBool False)
           (dset ''lifecycle_status'' (JStr ''corrected'')
             (dset ''corrections'' (JList (history @ [correction])) agentic)))"

definition correction_patch :: "string \<Rightarrow> string \<Rightarrow> string option \<Rightarrow> dict \<Rightarrow> dict" where
  "correction_patch now next_text reason memory =
     [(''status'', JStr ''active''), (''confirmation_status'', JStr ''confirmed''),
      (''title'', JStr (take_chars 120 next_text)), (''canonical_text'', JStr next_text),
      (''summary'', JStr (take_chars 280 next_text)), (''value'', with_text memory next_text),
      (''metadata_json'', JObj (dset ''agentic_memory'' (JObj (corrected_agentic now reason memory))
         (dset ''review_required'' (JBool False) (memory_metadata memory)))),
      (''last_confirmed_at'', JStr now), (''last_reviewed_at'', JStr now)]"

definition correct ::
  "memory_service \<Rightarrow> agent_identity option \<Rightarrow> string \<Rightarrow> string \<Rightarrow> string option \<Rightarrow> dict command" where
  "correct sv identity memory_id new_text reason s =
     and_then (require_row not_found (get_memory s memory_id) s) (\<lambda>memory s.
     and_then (require_project_update_decision_path memory s) (\<lambda>_ s.
     and_then (policy_checked_write sv identity ''memory.correct'' memory s) (\<lambda>_ s.
     and_then (lift_check (require_transition ''correct'' (status_of memory)) s) (\<lambda>_ s.
     and_then (raise_when (is_pending_consolidation_candidate memory)
         (invalid ''consolidation candidates must be approved through accept_consolidation'') s) (\<lambda>_ s.
     and_then (lift_check (normalized_text (JStr new_text) ''canonical_text'') s) (\<lambda>next_text s.
     and_then (lift_store (invalidate_pending_derived_candidates (row_id memory) (agent_of identity)
         ''source memory was corrected after the derived candidate was proposed'' None s)) (\<lambda>_ s.
     and_then (lift_store (update_memory (row_id memory) (correction_patch (instant s) next_text reason memory)
         (actor_type (agent_of identity)) (tick s))) (\<lambda>updated s.
       let s1 = refresh_memory_derived_state updated ''correction'' True s;
           s2 = revise identity ''corrected'' ''agentic_memory_correct''
             (str_or (opt_str reason) ''Agentic memory correction.'') (JStr (text_of memory)) next_text
             [(''lifecycle_status'', JStr ''corrected''), (''last_confirmed_at_refreshed'', JBool True)]
             memory updated s1;
           s3 = command_event identity None None ''agent.memory_corrected'' (row_id updated)
             [(''lifecycle_status'', JStr ''corrected'')] s2
       in (Inr [(''status'', JStr ''committed''), (''write_mode'', JStr ''commit''), (''memory'', JObj updated)],
           s3)))))))))"

subsection \<open>The validity window\<close>

text \<open>\<open>_valid_to_iso\<close> of an argument; a \<open>datetime\<close> is given by its ISO text, none is the present.\<close>

definition expiry_instant :: "json \<Rightarrow> string command" where
  "expiry_instant valid_to s =
     (if valid_to = JNull then (Inr (instant s), tick s) else lift_check (valid_to_iso valid_to) s)"

definition validity_history :: "dict \<Rightarrow> json list" where
  "validity_history validity = (case dget validity ''history'' of JList h \<Rightarrow> h | _ \<Rightarrow> [])"

definition expired_validity ::
  "string \<Rightarrow> string \<Rightarrow> string \<Rightarrow> agent_identity option \<Rightarrow> dict \<Rightarrow> dict" where
  "expired_validity now closing reason_text identity memory =
     (let validity = nested (memory_metadata memory) ''validity'';
          entry = JObj [(''op'', JStr ''expired''), (''at'', JStr now), (''valid_to'', JStr closing),
                        (''reason'', JStr reason_text), (''actor_id'', opt_str (agent_of identity))]
      in dremove ''unbounded_sentinel''
           (dset ''history'' (JList (validity_history validity @ [entry]))
             (dset ''valid_to'' (JStr closing)
               (dset ''expired_at'' (JStr now) (dset ''state'' (JStr ''expired'') validity)))))"

definition expire ::
  "memory_service \<Rightarrow> agent_identity option \<Rightarrow> string \<Rightarrow> json \<Rightarrow> string \<Rightarrow> dict command" where
  "expire sv identity memory_id valid_to reason s =
     and_then (require_row not_found (get_memory s memory_id) s) (\<lambda>memory s.
     and_then (policy_checked_write sv identity ''memory.expire'' memory s) (\<lambda>decided s.
     and_then (lift_check (require_transition ''expire'' (status_of memory)) s) (\<lambda>_ s.
     and_then (lift_check (normalized_text (JStr reason) ''reason'') s) (\<lambda>reason_text s.
     and_then (expiry_instant valid_to s) (\<lambda>closing s.
     let now = instant s in
     and_then (lift_store (update_memory (row_id memory)
         [(''valid_to'', JStr closing), (''last_reviewed_at'', JStr now),
          (''metadata_json'', JObj (dset ''validity'' (JObj (expired_validity now closing reason_text identity memory))
             (memory_metadata memory)))]
         (actor_type (agent_of identity)) (tick s))) (\<lambda>updated s.
       let s1 = revise identity ''edited'' ''agentic_memory_expire'' reason_text
             (JStr (text_of memory)) (text_of updated)
             [(''note'', JStr ''expired''), (''valid_to'', JStr closing)] memory updated s;
           s2 = command_event identity (Some (trace_id decided)) None ''agent.memory_expired'' (row_id updated)
             [(''valid_to'', JStr closing), (''reason'', JStr reason_text)] s1
       in (Inr [(''status'', JStr ''expired''), (''memory'', JObj updated), (''valid_to'', JStr closing),
                (''policy_decision'', JObj (decision_to_record decided))], s2)))))))"

definition cleared_validity :: "string \<Rightarrow> string \<Rightarrow> agent_identity option \<Rightarrow> dict \<Rightarrow> dict" where
  "cleared_validity now reason_text identity memory =
     (let validity = nested (memory_metadata memory) ''validity'';
          entry = JObj [(''op'', JStr ''unexpired''), (''at'', JStr now), (''reason'', JStr reason_text),
                        (''actor_id'', opt_str (agent_of identity))]
      in dremove ''unbounded_sentinel''
           (dset ''history'' (JList (validity_history validity @ [entry]))
             (dset ''valid_to'' JNull
               (dset ''unexpired_at'' (JStr now) (dset ''state'' (JStr ''cleared'') validity)))))"

text \<open>
  The update coalesces a null away, so that a row with an end of validity still has one afterwards, and
  the far-future text replaces it in a second update.
\<close>

definition reopen_window ::
  "agent_identity option \<Rightarrow> string \<Rightarrow> string \<Rightarrow> dict \<Rightarrow> string \<Rightarrow> dict command" where
  "reopen_window identity now reason_text memory restored s =
     (let cleared = cleared_validity now reason_text identity memory; actor = actor_type (agent_of identity) in
     and_then (lift_store (update_memory (row_id memory)
         ([(''valid_to'', JNull), (''last_reviewed_at'', JStr now),
           (''metadata_json'', JObj (dset ''validity'' (JObj cleared) (memory_metadata memory)))]
          @ (if restored = status_of memory then [] else [(''status'', JStr restored)])) actor s)) (\<lambda>updated s.
       if py_truthy (dget updated ''valid_to'') \<and> \<not> is_unbounded_valid_to (dget updated ''valid_to'') then
         lift_store (update_memory (row_id memory)
           [(''valid_to'', JStr VALID_TO_UNBOUNDED_SENTINEL),
            (''metadata_json'', JObj (dset ''validity''
               (JObj (dset ''unbounded_sentinel'' (JStr VALID_TO_UNBOUNDED_SENTINEL) cleared))
               (memory_metadata memory)))] actor s)
       else (Inr updated, s)))"

definition unexpire ::
  "memory_service \<Rightarrow> agent_identity option \<Rightarrow> string \<Rightarrow> string \<Rightarrow> dict command" where
  "unexpire sv identity memory_id reason s =
     and_then (require_row not_found (get_memory s memory_id) s) (\<lambda>memory s.
     and_then (policy_checked_write sv identity ''memory.unexpire'' memory s) (\<lambda>decided s.
     and_then (lift_check (require_transition ''unexpire'' (status_of memory)) s) (\<lambda>restored s.
     and_then (lift_check (normalized_text (JStr reason) ''reason'') s) (\<lambda>reason_text s.
     if \<not> py_truthy (dget memory ''valid_to'') \<or> is_unbounded_valid_to (dget memory ''valid_to'') then
       (Inr [(''status'', JStr (status_of memory)), (''memory'', JObj memory), (''idempotent_replay'', JBool True),
             (''policy_decision'', JObj (decision_to_record decided)),
             (''note'', JStr ''memory has no validity end to clear; replay changed nothing'')], s)
     else
     and_then (reopen_window identity (instant s) reason_text memory restored (tick s)) (\<lambda>updated s.
       let s1 = revise identity ''edited'' ''agentic_memory_unexpire'' reason_text
             (JStr (text_of memory)) (text_of updated)
             [(''note'', JStr ''unexpired''), (''previous_valid_to'', dget memory ''valid_to'')] memory updated s;
           s2 = command_event identity (Some (trace_id decided)) None ''agent.memory_unexpired'' (row_id updated)
             [(''previous_valid_to'', dget memory ''valid_to''), (''reason'', JStr reason_text)] s1
       in (Inr [(''status'', JStr (str_or (dget updated ''status'') restored)), (''memory'', JObj updated),
                (''policy_decision'', JObj (decision_to_record decided)), (''idempotent_replay'', JBool False)],
           s2))))))"

end
