(* ===== verification/Memory_Consolidation.thy ===== *)
theory Memory_Consolidation
  imports Memory_Commands
begin

text \<open>
  \<open>accept_consolidation_candidate\<close>: a reviewed candidate becomes active and supersedes the memories it
  was derived from.  The members are locked, authorised and compared with the versions the reviewer
  saw before the first of them is retired.
\<close>

subsection \<open>Lists in the metadata\<close>

text \<open>
  Iterating over a value of the metadata: over the members of a list, the keys of a dictionary and the
  characters of a text; a number cannot be iterated over.
\<close>

fun take_while_continuation :: "string \<Rightarrow> string" where
  "take_while_continuation [] = []"
| "take_while_continuation (c # cs) =
     (if 128 \<le> (of_char c :: nat) \<and> (of_char c :: nat) < 192 then c # take_while_continuation cs else [])"

lemma length_continuation: "length (take_while_continuation cs) \<le> length cs"
  by (induction cs) auto

function utf8_chars :: "string \<Rightarrow> string list" where
  "utf8_chars [] = []"
| "utf8_chars (c # cs) =
     (c # take_while_continuation cs) # utf8_chars (drop (length (take_while_continuation cs)) cs)"
  by pat_completeness auto
termination by (relation "measure length") auto

fun py_iter :: "json \<Rightarrow> memory_error + json list" where
  "py_iter (JList xs) = Inr xs"
| "py_iter (JObj d) = Inr (map (JStr \<circ> fst) d)"
| "py_iter (JStr t) = Inr (map JStr (utf8_chars t))"
| "py_iter v = Inl (TypeError ''object is not iterable'')"

text \<open>\<open>value or []\<close>, iterated over.\<close>

definition iter_or_empty :: "json \<Rightarrow> memory_error + json list" where
  "iter_or_empty v = (if py_truthy v then py_iter v else Inr [])"

definition truthy_texts :: "json list \<Rightarrow> string list" where
  "truthy_texts vs = map py_str (filter py_truthy vs)"

subsection \<open>The proposal\<close>

text \<open>What the metadata of the candidate propose: the members, the rows to retire, their versions.\<close>

record proposal =
  pr_kind :: string
  pr_survivor :: "string option"
  pr_members :: "string list"
  pr_retire :: "string list"
  pr_snapshots :: "(string \<times> dict) list"
  pr_snapshot_count :: "nat option"
  pr_strict :: bool

definition proposed_members :: "string \<Rightarrow> string \<Rightarrow> string list \<Rightarrow> string list \<Rightarrow> string list" where
  "proposed_members kind accepted members superseded =
     filter (\<lambda>i. i \<noteq> accepted) (dict_fromkeys (if kind = ''dedup'' then members else superseded))"

text \<open>\<open>{str(snapshot.get("id")): snapshot ...}\<close>: a later version of the same member replaces the earlier.\<close>

fun snapshot_entry :: "json \<Rightarrow> (string \<times> dict) option" where
  "snapshot_entry (JObj d) = (if dget d ''id'' = JNull then None else Some (py_str (dget d ''id''), d))"
| "snapshot_entry v = None"

definition snapshots_by_id :: "json \<Rightarrow> (string \<times> dict) list" where
  "snapshots_by_id rows =
     (case rows of
        JList xs \<Rightarrow> foldl (\<lambda>acc (k, d). AList.update k d acc) [] (List.map_filter snapshot_entry xs)
      | _ \<Rightarrow> [])"

definition read_proposal :: "dict \<Rightarrow> dict \<Rightarrow> memory_error + proposal" where
  "read_proposal memory consolidation =
     (let kind = str_or (dget consolidation ''proposal_kind'') ''dedup'';
          survivor = (if py_truthy (dget consolidation ''survivor_memory_id'')
                      then Some (py_str (dget consolidation ''survivor_memory_id'')) else None);
          rows = dget consolidation ''member_snapshots'' in
     bind_res (iter_or_empty (dget consolidation ''cluster_member_ids'')) (\<lambda>members.
     bind_res (iter_or_empty (dget consolidation ''proposed_supersede'')) (\<lambda>superseded.
       Inr \<lparr>pr_kind = kind, pr_survivor = survivor, pr_members = truthy_texts members,
            pr_retire = proposed_members kind (row_id memory) (truthy_texts members) (truthy_texts superseded),
            pr_snapshots = snapshots_by_id rows,
            pr_snapshot_count = (case rows of JList xs \<Rightarrow> Some (length xs) | _ \<Rightarrow> None),
            pr_strict = is_derived_candidate_kind (memory_metadata memory)\<rparr>)))"

definition dependency_ids :: "proposal \<Rightarrow> string list" where
  "dependency_ids p = dict_fromkeys (pr_members p @ pr_retire p)"

definition check_snapshots :: "proposal \<Rightarrow> unit command" where
  "check_snapshots p s =
     and_then (raise_when (pr_strict p \<and> pr_snapshots p = [])
         (invalid ''consolidation candidate lacks member version snapshots; regenerate it before acceptance'') s) (\<lambda>_ s.
       raise_when (pr_strict p \<and> (pr_members p = [] \<or> pr_snapshot_count p \<noteq> Some (length (dependency_ids p))
           \<or> set (map fst (pr_snapshots p)) \<noteq> set (dependency_ids p)))
         (invalid ''consolidation candidate has incomplete member version snapshots; regenerate it before acceptance'') s)"

subsection \<open>Locking the members\<close>

definition authorize_member ::
  "memory_service \<Rightarrow> agent_identity option \<Rightarrow> proposal \<Rightarrow> string \<Rightarrow> dict \<Rightarrow> unit command" where
  "authorize_member sv identity p i member s =
     (if i \<in> set (pr_retire p) then
        and_then (policy_checked_write sv identity ''memory.accept_consolidation'' member s) (\<lambda>_ s. (Inr (), s))
      else (Inr (), s))"

definition reviewed_version :: "proposal \<Rightarrow> string \<Rightarrow> dict \<Rightarrow> bool" where
  "reviewed_version p i member =
     (case map_of (pr_snapshots p) i of None \<Rightarrow> False | Some snapshot \<Rightarrow> memory_matches_snapshot member snapshot)"

fun lock_members ::
  "memory_service \<Rightarrow> agent_identity option \<Rightarrow> proposal \<Rightarrow> string list \<Rightarrow> (string \<times> dict) list command" where
  "lock_members sv identity p [] s = (Inr [], s)"
| "lock_members sv identity p (i # rest_ids) s =
     (case get_memory s i of
        None \<Rightarrow>
          if pr_strict p
          then (Inl (invalid (''consolidation candidate is stale: member '' @ i @ '' is missing'')), s)
          else lock_members sv identity p rest_ids s
      | Some member \<Rightarrow>
          and_then (authorize_member sv identity p i member s) (\<lambda>_ s.
          and_then (raise_when (pr_strict p \<and> \<not> reviewed_version p i member)
              (invalid (''consolidation candidate is stale: member '' @ i @ '' changed; regenerate it'')) s) (\<lambda>_ s.
          and_then (lock_members sv identity p rest_ids s) (\<lambda>rest s.
            (Inr ((i, member) # rest), s)))))"

definition scope_key :: "dict \<Rightarrow> string list" where
  "scope_key row = scope_identity (resource_project_scope (Some row))"

definition check_scopes :: "proposal \<Rightarrow> dict \<Rightarrow> (string \<times> dict) list \<Rightarrow> unit command" where
  "check_scopes p memory locked s =
     (let keys = remdups (map (scope_key \<circ> snd) locked) in
      raise_when (pr_strict p \<and> dependency_ids p \<noteq> [] \<and> (length keys \<noteq> 1 \<or> scope_key memory \<notin> set keys))
        (invalid ''consolidation candidate crosses project scopes; regenerate it before acceptance'') s)"

subsection \<open>Retiring the members\<close>

definition member_request :: "agent_identity option \<Rightarrow> string \<Rightarrow> transition_request" where
  "member_request identity accepted =
     \<lparr>tq_agent = agent_of identity, tq_operation = ''supersede_member'',
      tq_lifecycle_status = ''superseded_by_consolidation'', tq_next_status = ''superseded'',
      tq_event_type = ''agent.memory_superseded'', tq_revision_type = ''superseded'',
      tq_action = ''agentic_memory_consolidation_supersede'',
      tq_reason = ''Superseded by accepted consolidation candidate '' @ accepted @ ''.'',
      tq_set_successor_pointer = False, tq_exclude = Some accepted, tq_allow_pending = True\<rparr>"

definition skipped :: "string \<Rightarrow> string \<Rightarrow> json" where
  "skipped i state = JObj [(''member_id'', JStr i), (''state'', JStr state)]"

fun supersede_members ::
  "memory_service \<Rightarrow> agent_identity option \<Rightarrow> dict \<Rightarrow> (string \<times> dict) list \<Rightarrow> string list \<Rightarrow>
    (string list \<times> json list) command" where
  "supersede_members sv identity memory locked [] s = (Inr ([], []), s)"
| "supersede_members sv identity memory locked (i # rest_ids) s =
     (case map_of locked i of
        None \<Rightarrow>
          and_then (supersede_members sv identity memory locked rest_ids s) (\<lambda>(done, skips) s.
            (Inr (done, skipped i ''missing'' # skips), s))
      | Some member \<Rightarrow>
          if status_of member = ''superseded'' \<or> supersession_pointer member ''superseded_by'' \<noteq> None then
            and_then (supersede_members sv identity memory locked rest_ids s) (\<lambda>(done, skips) s.
              (Inr (done, skipped i ''already_superseded'' # skips), s))
          else
            and_then (run_transition sv (member_request identity (row_id memory)) member (Some memory) s) (\<lambda>_ s.
            and_then (supersede_members sv identity memory locked rest_ids s) (\<lambda>(done, skips) s.
              (Inr (i # done, skips), s))))"

subsection \<open>Acceptance\<close>

definition canonical_survivor :: "proposal \<Rightarrow> string \<Rightarrow> string option" where
  "canonical_survivor p accepted =
     (case pr_survivor p of
        Some i \<Rightarrow> if pr_kind p = ''dedup'' \<and> i \<noteq> [] \<and> i \<noteq> accepted then Some i else None
      | None \<Rightarrow> None)"

definition acceptance_patch ::
  "agent_identity option \<Rightarrow> string \<Rightarrow> string \<Rightarrow> proposal \<Rightarrow> dict \<Rightarrow> dict \<Rightarrow> string list \<Rightarrow> json list \<Rightarrow> dict" where
  "acceptance_patch identity now reason_text p memory consolidation superseded skips =
     (let accepted = JObj [(''accepted_at'', JStr now), (''actor_type'', JStr (actor_type (agent_of identity))),
            (''accepted_by'', opt_str (agent_of identity)), (''reason'', JStr reason_text),
            (''superseded_member_ids'', str_list superseded), (''skipped_members'', JList skips)];
          metadata = dset ''review_required'' (JBool False)
            (dset ''consolidation'' (JObj (dset ''accepted'' accepted consolidation)) (memory_metadata memory));
          fields = [(''status'', JStr ''active''), (''confirmation_status'', JStr ''confirmed''),
            (''last_confirmed_at'', JStr now), (''last_reviewed_at'', JStr now)]
      in case canonical_survivor p (row_id memory) of
           Some i \<Rightarrow> fields @ [(''metadata_json'', JObj (dset ''supersedes'' (JStr i) metadata)), (''supersedes'', JStr i)]
         | None \<Rightarrow> fields @ [(''metadata_json'', JObj (dset ''merged_from'' (str_list (pr_members p)) metadata))])"

definition promote_candidate ::
  "agent_identity option \<Rightarrow> policy_decision \<Rightarrow> string \<Rightarrow> proposal \<Rightarrow> dict \<Rightarrow> dict \<Rightarrow> string list \<times> json list \<Rightarrow> dict command" where
  "promote_candidate identity decided reason_text p memory consolidation outcome s =
     (let superseded = str_list (fst outcome); skips = JList (snd outcome);
          pointer = opt_str (canonical_survivor p (row_id memory)); kind = JStr (pr_kind p) in
     and_then (lift_store (update_memory (row_id memory)
         (acceptance_patch identity (instant s) reason_text p memory consolidation (fst outcome) (snd outcome))
         (actor_type (agent_of identity)) (tick s))) (\<lambda>updated s.
       let s1 = refresh_memory_derived_state updated ''consolidation_accepted'' True s;
           s2 = revise identity ''promoted'' ''agentic_memory_consolidation_accept'' reason_text
             (JStr (text_of memory)) (text_of updated)
             [(''proposal_kind'', kind),
              (''consolidation_digest'', dget (memory_metadata memory) ''consolidation_digest''),
              (''superseded_member_ids'', superseded), (''skipped_members'', skips), (''supersedes'', pointer),
              (''last_confirmed_at_refreshed'', JBool True)] memory updated s1;
           s3 = command_event identity (Some (trace_id decided)) None ''agent.memory_consolidation_accepted''
             (row_id memory)
             [(''proposal_kind'', kind), (''superseded_member_ids'', superseded), (''skipped_members'', skips),
              (''supersedes'', pointer), (''reason'', JStr reason_text)] s2
       in (Inr [(''status'', JStr ''accepted''), (''memory'', JObj updated), (''proposal_kind'', kind),
                (''superseded_member_ids'', superseded), (''skipped_members'', skips), (''supersedes'', pointer),
                (''policy_decision'', JObj (decision_to_record decided)), (''idempotent_replay'', JBool False)], s3)))"

definition replay_acceptance :: "policy_decision \<Rightarrow> dict \<Rightarrow> dict \<Rightarrow> dict \<Rightarrow> dict command" where
  "replay_acceptance decided memory consolidation accepted s =
     and_then (lift_check (iter_or_empty (dget accepted ''superseded_member_ids'')) s) (\<lambda>superseded s.
     and_then (lift_check (iter_or_empty (dget accepted ''skipped_members'')) s) (\<lambda>skips s.
       (Inr [(''status'', JStr ''accepted''), (''memory'', JObj memory),
             (''proposal_kind'', dget consolidation ''proposal_kind''),
             (''superseded_member_ids'', JList superseded), (''skipped_members'', JList skips),
             (''supersedes'', if py_truthy (dget memory ''supersedes'') then dget memory ''supersedes''
                else dget (memory_metadata memory) ''supersedes''),
             (''policy_decision'', JObj (decision_to_record decided)), (''idempotent_replay'', JBool True),
             (''note'', JStr ''consolidation candidate was already accepted; replay changed nothing'')], s)))"

definition merge_candidate ::
  "memory_service \<Rightarrow> agent_identity option \<Rightarrow> policy_decision \<Rightarrow> string \<Rightarrow> dict \<Rightarrow> dict \<Rightarrow> dict command" where
  "merge_candidate sv identity decided reason memory consolidation s =
     and_then (raise_when (status_of memory = ''stale'' \<and> as_obj (dget consolidation ''invalidated'') \<noteq> None)
         (invalid ''consolidation candidate is stale; regenerate it before acceptance'') s) (\<lambda>_ s.
     and_then (raise_when (status_of memory \<notin> set CONSOLIDATION_ACCEPTABLE_STATUSES)
         (invalid ''consolidation candidate must be in candidate or needs_review status'') s) (\<lambda>_ s.
     and_then (lift_check (normalized_text (JStr reason) ''reason'') s) (\<lambda>reason_text s.
     and_then (lift_check (read_proposal memory consolidation) s) (\<lambda>p s.
     and_then (check_snapshots p s) (\<lambda>_ s.
     and_then (lock_members sv identity p (dependency_ids p) s) (\<lambda>locked s.
     and_then (check_scopes p memory locked s) (\<lambda>_ s.
     and_then (supersede_members sv identity memory locked (pr_retire p) s) (\<lambda>outcome s.
       promote_candidate identity decided reason_text p memory consolidation outcome s))))))))"

definition accept_consolidation_candidate ::
  "memory_service \<Rightarrow> agent_identity option \<Rightarrow> string \<Rightarrow> string \<Rightarrow> dict command" where
  "accept_consolidation_candidate sv identity memory_id reason s =
     and_then (require_row not_found (get_memory s memory_id) s) (\<lambda>memory s.
     and_then (policy_checked_write sv identity ''memory.accept_consolidation'' memory s) (\<lambda>decided s.
     and_then (require_row (invalid ''memory is not a consolidation candidate'')
         (as_obj (dget (memory_metadata memory) ''consolidation'')) s) (\<lambda>consolidation s.
       case as_obj (dget consolidation ''accepted'') of
         Some accepted \<Rightarrow> replay_acceptance decided memory consolidation accepted s
       | None \<Rightarrow> merge_candidate sv identity decided reason memory consolidation s)))"

end
