(* ===== verification/Memory_Commit.thy ===== *)
theory Memory_Commit
  imports Memory_Consolidation
begin

text \<open>
  \<open>VNextMemoryCommitService.commit\<close>: the idempotent replay, the policy decision, and the three ways a
  commit is written, as a fact, as a confirmation that waits for the user or as a candidate that waits
  for review.

  Between the first lookup of the idempotency key and the insertion of the row other transactions may
  commit; the insertion then sees their rows.  The argument \<open>race\<close> is what they did to the store, the
  identity when the service runs alone.
\<close>

subsection \<open>Sources of a request\<close>

text \<open>\<open>_source_ref_values\<close> and \<open>_source_uuid\<close>: the identifiers a source reference may carry.\<close>

fun scalar_ref :: "json \<Rightarrow> string list" where
  "scalar_ref (JStr t) = [t]"
| "scalar_ref (JInt i) = [py_str (JInt i)]"
| "scalar_ref (JBool b) = [py_str (JBool b)]"
| "scalar_ref v = []"

definition nested_refs :: "(string \<times> string list) list \<Rightarrow> string list" where
  "nested_refs subs = concat (map (\<lambda>k. case map_of subs k of None \<Rightarrow> [] | Some refs \<Rightarrow> refs)
     [''source_ids'', ''source_refs'', ''sources''])"

fun source_ref_values :: "json \<Rightarrow> string list" where
  "source_ref_values (JStr t) = (if py_strip t = [] then [] else [py_strip t])"
| "source_ref_values (JObj d) =
     concat (map (\<lambda>k. scalar_ref (dget d k)) [''source_id'', ''id'', ''ref'', ''source_ref''])
     @ nested_refs (map (\<lambda>(k, v). (k, source_ref_values v)) d)"
| "source_ref_values (JList xs) = concat (map source_ref_values xs)"
| "source_ref_values v = []"

fun first_uuid :: "string list \<Rightarrow> string option" where
  "first_uuid [] = None"
| "first_uuid (r # rs) =
     (case parse_uuid (py_removeprefix r ''source:'') of
        None \<Rightarrow> first_uuid rs | Some u \<Rightarrow> Some (uuid_str u))"

definition source_uuid :: "json \<Rightarrow> string option" where
  "source_uuid value = first_uuid (source_ref_values value)"

text \<open>\<open>_create_provenance_links\<close>: one link per source, in the order of the references.\<close>

fun create_provenance_links ::
  "dict \<Rightarrow> commit_request \<Rightarrow> string \<Rightarrow> string list \<Rightarrow> json list \<Rightarrow> memory_store \<Rightarrow>
    (memory_error + unit) \<times> memory_store" where
  "create_provenance_links memory r actor seen [] s = (Inr (), s)"
| "create_provenance_links memory r actor seen (ref # refs) s =
     (case source_uuid ref of
        None \<Rightarrow> create_provenance_links memory r actor seen refs s
      | Some i \<Rightarrow>
          if i \<in> set seen then create_provenance_links memory r actor seen refs s
          else and_then (create_provenance_link
                 [(''quote'', opt_str (mc_excerpt r)), (''evidence_role'', JStr ''supports''),
                  (''confidence'', mc_confidence r)] ''memory'' (row_id memory) i actor s)
               (\<lambda>_ s. create_provenance_links memory r actor (i # seen) refs s))"

subsection \<open>Idempotency\<close>

text \<open>The digest that binds an idempotency key to the content of the request.\<close>

definition request_fingerprint :: "commit_request \<Rightarrow> string" where
  "request_fingerprint r =
     sha256_hexdigest (raw_json_dumps (JObj
       [(''user_id'', JStr (mc_user_id r)), (''title'', JStr (mc_title r)),
        (''canonical_text'', JStr (mc_canonical_text r)), (''memory_type'', JStr (mc_memory_type r)),
        (''domain'', JStr (mc_domain r)), (''sensitivity'', JStr (mc_sensitivity r)),
        (''confidence'', mc_confidence r), (''intent'', JStr (mc_intent r)),
        (''source_type'', JStr (mc_source_type r)), (''source_refs'', JList (mc_source_refs r)),
        (''conversation_excerpt'', opt_str (mc_excerpt r)), (''rationale'', opt_str (mc_rationale r)),
        (''project_scope'', str_list (mc_project_scope r)),
        (''contradiction_refs'', str_list (mc_contradiction_refs r))]))"

definition idempotent_memory :: "string option \<Rightarrow> memory_store \<Rightarrow> dict option" where
  "idempotent_memory key s =
     (case key of None \<Rightarrow> None | Some k \<Rightarrow> get_memory_by_commit_digest k s)"

text \<open>Rows written before there were fingerprints are compared field by field.\<close>

definition request_matches :: "dict \<Rightarrow> commit_request \<Rightarrow> bool" where
  "request_matches memory r =
     (let agentic = agentic_metadata memory in
      case dget agentic ''request_fingerprint'' of
        JStr (c # cs) \<Rightarrow> c # cs = request_fingerprint r
      | _ \<Rightarrow> list_all (\<lambda>(stored_value, expected). stored_value = expected)
          [(dget memory ''title'', JStr (mc_title r)), (dget memory ''canonical_text'', JStr (mc_canonical_text r)),
           (dget memory ''memory_type'', JStr (mc_memory_type r)), (dget memory ''domain'', JStr (mc_domain r)),
           (dget memory ''sensitivity'', JStr (mc_sensitivity r)), (dget agentic ''intent'', JStr (mc_intent r)),
           (dget agentic ''source_type'', JStr (mc_source_type r)),
           (dget agentic ''project_scope'', str_list (mc_project_scope r))])"

definition assert_idempotent_request_matches :: "dict \<Rightarrow> commit_request \<Rightarrow> unit command" where
  "assert_idempotent_request_matches memory r s =
     raise_when (\<not> request_matches memory r)
       (invalid ''idempotency_key was already used for a different memory request'') s"

definition json_or_text :: "json \<Rightarrow> string \<Rightarrow> json" where
  "json_or_text v t = (if py_truthy v then v else JStr t)"

definition idempotent_replay ::
  "memory_service \<Rightarrow> agent_identity option \<Rightarrow> commit_request \<Rightarrow> dict \<Rightarrow> dict command" where
  "idempotent_replay sv identity r memory s =
     and_then (policy_checked_write sv identity ''memory.commit'' memory s) (\<lambda>_ s.
     and_then (assert_idempotent_request_matches memory r s) (\<lambda>_ s.
       let agentic = agentic_metadata memory in
       (Inr [(''status'', json_or_text (dget agentic ''status'') ''committed''),
             (''write_mode'', json_or_text (dget agentic ''write_mode'') ''commit''),
             (''memory'', JObj memory), (''idempotent_replay'', JBool True),
             (''policy_decision'', JObj (nested agentic ''policy_decision''))], s)))"

subsection \<open>The row of a commit\<close>

definition commit_trace :: "commit_request \<Rightarrow> commit_decision \<Rightarrow> string" where
  "commit_trace r d = str_or (opt_str (mc_trace_id r)) (trace_id (md_policy d))"

definition base_metadata ::
  "agent_identity option \<Rightarrow> commit_request \<Rightarrow> commit_decision \<Rightarrow> string \<Rightarrow> string \<Rightarrow> string \<Rightarrow> dict option \<Rightarrow> dict" where
  "base_metadata identity r d status write_mode lifecycle_status confirmation =
     (let agentic =
        [(''kind'', JStr ''agentic_memory_commit''), (''status'', JStr status), (''write_mode'', JStr write_mode),
         (''lifecycle_status'', JStr lifecycle_status), (''intent'', JStr (mc_intent r)),
         (''source_type'', JStr (mc_source_type r)), (''source_refs'', JList (mc_source_refs r)),
         (''conversation_excerpt'', opt_str (mc_excerpt r)), (''rationale'', opt_str (mc_rationale r)),
         (''idempotency_key'', opt_str (mc_idempotency_key r)),
         (''request_fingerprint'', JStr (request_fingerprint r)),
         (''project_scope'', str_list (mc_project_scope r)),
         (''contradiction_refs'', str_list (mc_contradiction_refs r)),
         (''policy_decision'', JObj (commit_decision_to_record d)), (''trace_id'', JStr (commit_trace r d)),
         (''agent_identity'', case identity of None \<Rightarrow> JNull | Some i \<Rightarrow> JObj (identity_to_record i))]
        @ (case confirmation of None \<Rightarrow> [] | Some c \<Rightarrow> [(''confirmation'', JObj c)])
      in dmerge [(''project_scope'', str_list (mc_project_scope r)), (''agentic_memory'', JObj agentic)]
           (agent_metadata identity (Some (md_policy d))))"

text \<open>\<open>_memory_key\<close>, which draws an identifier when the request has no key.\<close>

definition memory_key :: "commit_request \<Rightarrow> string \<Rightarrow> string" where
  "memory_key r fresh =
     ''agentic_memory.'' @ mc_memory_type r @ ''.'' @ str_or (opt_str (mc_idempotency_key r)) fresh"

definition draw_key :: "commit_request \<Rightarrow> memory_store \<Rightarrow> memory_store" where
  "draw_key r s = (if py_truthy (opt_str (mc_idempotency_key r)) then s else draw s)"

definition scope_columns :: "agent_identity option \<Rightarrow> commit_request \<Rightarrow> dict" where
  "scope_columns identity r =
     (let scope = (if mc_project_scope r \<noteq> [] then mc_project_scope r
                   else case identity of None \<Rightarrow> [] | Some i \<Rightarrow> bound_scope i)
      in [(''project_scope'', str_list scope),
          (''project_id'', case scope of [p] \<Rightarrow> JStr p | _ \<Rightarrow> JNull),
          (''created_by_agent_id'', opt_str (agent_of identity)), (''run_id'', opt_str (run_of identity))])"

text \<open>The fields the three kinds of row share.\<close>

definition commit_fields :: "commit_request \<Rightarrow> string \<Rightarrow> dict \<Rightarrow> string \<Rightarrow> string \<Rightarrow> dict" where
  "commit_fields r key value status confirmation_status =
     [(''memory_type'', JStr (mc_memory_type r)), (''memory_key'', JStr key), (''value'', JObj value),
      (''status'', JStr status), (''confirmation_status'', JStr confirmation_status),
      (''confidence'', mc_confidence r), (''title'', JStr (mc_title r)),
      (''canonical_text'', JStr (mc_canonical_text r)),
      (''summary'', JStr (take_chars 280 (mc_canonical_text r))),
      (''domain'', JStr (mc_domain r)), (''sensitivity'', JStr (mc_sensitivity r))]"

definition intent_value :: "commit_request \<Rightarrow> dict" where
  "intent_value r =
     [(''text'', JStr (mc_canonical_text r)), (''intent'', JStr (mc_intent r)),
      (''source_refs'', JList (mc_source_refs r))]"

text \<open>
  \<open>_create_memory_record\<close>: a row, or the row of the transaction that was faster (the signal that the
  commit answers by a replay).
\<close>

datatype commit_outcome = Written dict | OutrunBy dict

definition create_memory_record ::
  "(memory_store \<Rightarrow> memory_store) \<Rightarrow> dict \<Rightarrow> string \<Rightarrow> commit_request \<Rightarrow> commit_outcome command" where
  "create_memory_record race memory actor r s =
     (case create_memory memory actor (race s) of
        (Inr row, t) \<Rightarrow> (Inr (Written row), t)
      | (Inl (ContinuityStoreInvariantError m), t) \<Rightarrow>
          (case idempotent_memory (mc_idempotency_key r) t of
             None \<Rightarrow> (Inl (MemoryServiceError (ContinuityStoreInvariantError m)), t)
           | Some existing \<Rightarrow>
               and_then (assert_idempotent_request_matches existing r t) (\<lambda>_ t. (Inr (OutrunBy existing), t)))
      | (Inl e, t) \<Rightarrow> (Inl (MemoryServiceError e), t))"

text \<open>What a created row leaves behind: its first revision.\<close>

definition creation_revision ::
  "agent_identity option \<Rightarrow> dict \<Rightarrow> string \<Rightarrow> string \<Rightarrow> string \<Rightarrow> memory_store \<Rightarrow> memory_store" where
  "creation_revision identity memory action revision_type reason s =
     append_revision
       [(''memory_key'', JStr (py_str (dget memory ''memory_key''))),
        (''previous_value'', JNull), (''new_value'', json_or (dget memory ''value'') (JObj [])),
        (''source_event_ids'', json_or (dget memory ''source_event_ids'') (JList [])),
        (''revision_type'', JStr revision_type), (''action'', JStr action),
        (''text_after'', JStr (text_of memory)), (''reason'', JStr reason),
        (''actor_type'', JStr (actor_type (agent_of identity))), (''actor_id'', opt_str (agent_of identity)),
        (''metadata_json'', JObj [(''agentic_memory'', JBool True)])]
       (row_id memory) (actor_type (agent_of identity)) s"

text \<open>Continue with the row that was written; a row that was faster is the outcome.\<close>

definition when_written ::
  "(service_error + commit_outcome) \<times> memory_store \<Rightarrow> (dict \<Rightarrow> dict command) \<Rightarrow>
    (service_error + commit_outcome) \<times> memory_store" where
  "when_written m f =
     and_then m (\<lambda>outcome s.
       case outcome of
         OutrunBy existing \<Rightarrow> (Inr (OutrunBy existing), s)
       | Written row \<Rightarrow> and_then (f row s) (\<lambda>response s. (Inr (Written response), s)))"

subsection \<open>Events of a commit\<close>

definition commit_event ::
  "agent_identity option \<Rightarrow> commit_request \<Rightarrow> commit_decision \<Rightarrow> string \<Rightarrow> string \<Rightarrow> dict \<Rightarrow> memory_store \<Rightarrow> memory_store" where
  "commit_event identity r d event_type target payload s =
     command_event identity (Some (commit_trace r d)) (run_of identity) event_type target payload s"

definition identity_record :: "agent_identity option \<Rightarrow> json" where
  "identity_record identity = (case identity of None \<Rightarrow> JNull | Some i \<Rightarrow> JObj (identity_to_record i))"

text \<open>The events of a write that a reviewer would otherwise have gated.\<close>

definition promotion_events ::
  "agent_identity option \<Rightarrow> commit_request \<Rightarrow> commit_decision \<Rightarrow> string \<Rightarrow> memory_store \<Rightarrow> memory_store" where
  "promotion_events identity r d target s =
     (case (md_promotion d, md_promoted_from d) of
        (Some p, Some mode) \<Rightarrow>
          (let s1 = commit_event identity r d ''memory.auto_promoted'' target
                 [(''promotion'', JObj (promotion_to_record p)), (''promoted_from'', JStr mode),
                  (''gated_status_without_promotion'', JStr (if mode = ''confirm_inline'' then ''confirmation_required''
                     else ''review_required'')),
                  (''reasons'', str_list (md_reasons d)), (''reversible_via'', JStr ''memory.undo'')] s
           in if review_is_advisory p then
                commit_event identity r d ''review.item_created'' target
                  [(''review_required'', JBool False), (''review_mode'', JStr ''digest''),
                   (''proposal_type'', JStr ''auto_promoted_memory''), (''persona'', JStr (pd_persona p)),
                   (''promoted_from'', JStr mode)] s1
              else s1)
      | _ \<Rightarrow> s)"

subsection \<open>The three ways to write a commit\<close>

text \<open>
  \<open>_create_committed_memory\<close>, which \<open>commit\<close> calls with \<open>confirmed_inline=False\<close>; no other caller
  passes \<open>True\<close>.
\<close>

definition fact_row ::
  "agent_identity option \<Rightarrow> commit_request \<Rightarrow> commit_decision \<Rightarrow> string \<Rightarrow> string \<Rightarrow> dict" where
  "fact_row identity r d now fresh =
     commit_fields r (memory_key r fresh) (intent_value r) ''active'' ''confirmed''
     @ [(''last_confirmed_at'', JStr now),
        (''metadata_json'', JObj (base_metadata identity r d ''committed'' ''commit'' ''auto_committed'' None)),
        (''commit_digest'', opt_str (mc_idempotency_key r))]
     @ scope_columns identity r"

definition finish_fact ::
  "agent_identity option \<Rightarrow> commit_request \<Rightarrow> commit_decision \<Rightarrow> dict \<Rightarrow> dict command" where
  "finish_fact identity r d memory s =
     (let i = row_id memory;
          s1 = creation_revision identity memory ''agentic_memory_commit'' ''created''
            (str_or (opt_str (mc_rationale r)) ''Agentic memory committed from explicit user intent.'')
            (request_derived (FactKeysDerived i) (request_derived (deferred_embedding memory) s)) in
     and_then (lift_store (create_provenance_links memory r (actor_type (agent_of identity)) [] (mc_source_refs r) s1)) (\<lambda>_ s.
       let s2 = commit_event identity r d ''agent.memory_committed'' i
             [(''write_mode'', JStr ''commit''), (''policy_decision'', JObj (commit_decision_to_record d)),
              (''agent_identity'', identity_record identity)] (request_derived (EntitiesLinked i ''commit'') s)
       in (Inr [(''status'', JStr ''committed''), (''write_mode'', JStr ''commit''), (''memory'', JObj memory),
                (''policy_decision'', JObj (commit_decision_to_record d))],
           promotion_events identity r d i s2)))"

definition create_committed_memory ::
  "(memory_store \<Rightarrow> memory_store) \<Rightarrow> agent_identity option \<Rightarrow> commit_request \<Rightarrow> commit_decision \<Rightarrow> commit_outcome command" where
  "create_committed_memory race identity r d s =
     when_written
       (create_memory_record race (fact_row identity r d (instant s) (ident s)) (actor_type (agent_of identity)) r
          (draw_key r (tick s)))
       (finish_fact identity r d)"

text \<open>\<open>_create_confirmation\<close>: the row waits a day for the user.  The clock is read once.\<close>

definition a_day_later :: "string \<Rightarrow> memory_error + string" where
  "a_day_later now =
     (let t = instant_of now + int day_micros in
      if t < 0 \<or> int (days_of_years 9999 * day_micros) \<le> t
      then Inl (OverflowError ''date value out of range'')
      else Inr (utc_text (moment_of_micros (nat t))))"

definition pending_confirmation ::
  "agent_identity option \<Rightarrow> commit_request \<Rightarrow> commit_decision \<Rightarrow> string \<Rightarrow> string \<Rightarrow> string \<Rightarrow> dict" where
  "pending_confirmation identity r d confirmation_id now deadline =
     [(''confirmation_id'', JStr confirmation_id), (''proposed_text'', JStr (mc_canonical_text r)),
      (''domain'', JStr (mc_domain r)), (''sensitivity'', JStr (mc_sensitivity r)),
      (''policy_reason'', JStr (md_reason d)), (''agent_id'', opt_str (agent_of identity)),
      (''created_at'', JStr now), (''expires_at'', JStr deadline), (''status'', JStr ''pending'')]"

definition confirmation_row ::
  "agent_identity option \<Rightarrow> commit_request \<Rightarrow> commit_decision \<Rightarrow> string \<Rightarrow> dict \<Rightarrow> string \<Rightarrow> dict" where
  "confirmation_row identity r d confirmation_id confirmation fresh =
     commit_fields r (memory_key r fresh) (intent_value r) ''needs_review'' ''unconfirmed''
     @ [(''metadata_json'', JObj (base_metadata identity r d ''confirmation_required'' ''confirm_inline''
          ''pending_inline_confirmation'' (Some confirmation))),
        (''commit_digest'', opt_str (mc_idempotency_key r)), (''confirmation_id'', JStr confirmation_id)]
     @ scope_columns identity r"

definition finish_confirmation ::
  "agent_identity option \<Rightarrow> commit_request \<Rightarrow> commit_decision \<Rightarrow> string \<Rightarrow> dict \<Rightarrow> dict \<Rightarrow> dict command" where
  "finish_confirmation identity r d confirmation_id confirmation memory s =
     (let s1 = creation_revision identity memory ''agentic_memory_confirmation_required'' ''created'' (md_reason d)
            (request_derived (deferred_embedding memory) s);
          s2 = commit_event identity r d ''agent.memory_confirmation_required'' (row_id memory)
            [(''confirmation'', JObj confirmation), (''policy_decision'', JObj (commit_decision_to_record d))] s1
      in (Inr [(''status'', JStr ''confirmation_required''), (''write_mode'', JStr ''confirm_inline''),
               (''confirmation_id'', JStr confirmation_id), (''confirmation'', JObj confirmation),
               (''memory'', JObj memory), (''policy_decision'', JObj (commit_decision_to_record d))], s2))"

definition create_confirmation ::
  "(memory_store \<Rightarrow> memory_store) \<Rightarrow> agent_identity option \<Rightarrow> commit_request \<Rightarrow> commit_decision \<Rightarrow> commit_outcome command" where
  "create_confirmation race identity r d s =
     (let now = instant s; confirmation_id = ''confirm-'' @ ident s; t = draw (tick s) in
     and_then (lift_check (a_day_later now) t) (\<lambda>deadline t.
       let confirmation = pending_confirmation identity r d confirmation_id now deadline in
       when_written
         (create_memory_record race (confirmation_row identity r d confirmation_id confirmation (ident t))
            (actor_type (agent_of identity)) r (draw_key r t))
         (finish_confirmation identity r d confirmation_id confirmation)))"

text \<open>\<open>_create_review_candidate\<close>.\<close>

definition candidate_row ::
  "agent_identity option \<Rightarrow> commit_request \<Rightarrow> commit_decision \<Rightarrow> string \<Rightarrow> string \<Rightarrow> dict" where
  "candidate_row identity r d proposal_id fresh =
     commit_fields r (memory_key r fresh)
       [(''proposal_type'', JStr ''agentic_memory_commit''), (''text'', JStr (mc_canonical_text r)),
        (''source_refs'', JList (mc_source_refs r)), (''rationale'', opt_str (mc_rationale r))]
       ''candidate'' ''unconfirmed''
     @ [(''metadata_json'', JObj (dset ''review_required'' (JBool True)
          (dset ''proposal_type'' (JStr ''agentic_memory_commit'')
            (dset ''proposal_id'' (JStr proposal_id)
              (base_metadata identity r d ''review_required'' ''propose_review'' ''pending_dashboard_review'' None))))),
        (''commit_digest'', opt_str (mc_idempotency_key r))]
     @ scope_columns identity r"

definition finish_candidate ::
  "agent_identity option \<Rightarrow> commit_request \<Rightarrow> commit_decision \<Rightarrow> string \<Rightarrow> dict \<Rightarrow> dict command" where
  "finish_candidate identity r d proposal_id memory s =
     (let i = row_id memory;
          s1 = creation_revision identity memory ''agentic_memory_review_required'' ''created'' (md_reason d)
            (request_derived (deferred_embedding memory) s);
          s2 = commit_event identity r d ''agent.memory_review_required'' i
            [(''proposal_id'', JStr proposal_id), (''policy_decision'', JObj (commit_decision_to_record d))] s1;
          s3 = commit_event identity r d ''review.item_created'' i
            [(''review_required'', JBool True), (''proposal_type'', JStr ''agentic_memory_commit'')] s2
      in (Inr [(''status'', JStr ''review_required''), (''write_mode'', JStr ''propose_review''),
               (''proposal_id'', JStr proposal_id), (''memory'', JObj memory),
               (''policy_decision'', JObj (commit_decision_to_record d))], s3))"

definition create_review_candidate ::
  "(memory_store \<Rightarrow> memory_store) \<Rightarrow> agent_identity option \<Rightarrow> commit_request \<Rightarrow> commit_decision \<Rightarrow> commit_outcome command" where
  "create_review_candidate race identity r d s =
     (let proposal_id = ''agentic-'' @ ident s; t = draw s in
      when_written
        (create_memory_record race (candidate_row identity r d proposal_id (ident t))
           (actor_type (agent_of identity)) r (draw_key r t))
        (finish_candidate identity r d proposal_id))"

subsection \<open>Commit\<close>

text \<open>\<open>evaluate_policy\<close>: the engine, its events, then the gate.\<close>

definition evaluate_policy ::
  "memory_service \<Rightarrow> agent_identity option \<Rightarrow> commit_request \<Rightarrow> commit_decision command" where
  "evaluate_policy sv identity r s =
     and_then (evaluate_policy_for sv identity (commit_base_request r) (upsert_identity identity s)) (\<lambda>base s.
       let t = append_policy_events identity base None None s in
       (case evaluate_memory_commit_policy (sv_scanners sv) identity r base (sv_settings sv)
               (if sv_settings sv = None then ''unverified''
                else writer_trust_for_commit identity (sv_owner_verified sv)) of
          Inl e \<Rightarrow> (Inl (PromotionSettingsError e), t)
        | Inr d \<Rightarrow> (Inr d, t)))"

definition append_decision_event ::
  "agent_identity option \<Rightarrow> commit_request \<Rightarrow> commit_decision \<Rightarrow> string option \<Rightarrow> memory_store \<Rightarrow> memory_store" where
  "append_decision_event identity r d target s =
     append_traced_event (Some (commit_trace r d)) (run_of identity) ''agent.memory_commit_rejected''
       (actor_type (agent_of identity)) (agent_of identity) (Some ''memory'') target
       [(''policy_decision'', JObj (commit_decision_to_record d)), (''reason'', JStr (md_reason d))] s"

definition with_commit_receipt :: "dict \<Rightarrow> dict" where
  "with_commit_receipt payload =
     dset ''receipt'' (JStr (memory_commit_receipt (str_or (dget payload ''status'') []))) payload"

definition rejection_response :: "commit_decision \<Rightarrow> dict" where
  "rejection_response d =
     [(''status'', JStr ''rejected''), (''write_mode'', JStr ''reject''), (''reason'', JStr (md_reason d)),
      (''reasons'', str_list (md_reasons d)), (''policy_decision'', JObj (commit_decision_to_record d))]"

definition write_commit ::
  "(memory_store \<Rightarrow> memory_store) \<Rightarrow> agent_identity option \<Rightarrow> commit_request \<Rightarrow> commit_decision \<Rightarrow> commit_outcome command" where
  "write_commit race identity r d =
     (if md_write_mode d = ''confirm_inline'' then create_confirmation race identity r d
      else if md_write_mode d = ''propose_review'' then create_review_candidate race identity r d
      else create_committed_memory race identity r d)"

definition commit_answer ::
  "memory_service \<Rightarrow> (memory_store \<Rightarrow> memory_store) \<Rightarrow> agent_identity option \<Rightarrow> commit_request \<Rightarrow> dict command" where
  "commit_answer sv race identity r s =
     (case idempotent_memory (mc_idempotency_key r) s of
        Some existing \<Rightarrow> idempotent_replay sv identity r existing s
      | None \<Rightarrow>
          and_then (evaluate_policy sv identity r s) (\<lambda>d s.
            if md_write_mode d = ''reject'' then
              (Inr (rejection_response d), append_decision_event identity r d None s)
            else
              and_then (write_commit race identity r d s) (\<lambda>outcome s.
                case outcome of
                  Written response \<Rightarrow> (Inr response, s)
                | OutrunBy existing \<Rightarrow> idempotent_replay sv identity r existing s)))"

definition commit ::
  "memory_service \<Rightarrow> (memory_store \<Rightarrow> memory_store) \<Rightarrow> agent_identity option \<Rightarrow> commit_request \<Rightarrow> dict command" where
  "commit sv race identity r s =
     and_then (commit_answer sv race identity r s) (\<lambda>response s. (Inr (with_commit_receipt response), s))"

end
