(* ===== verification/Memory_Audit.thy ===== *)
theory Memory_Audit
  imports Memory_Commit
begin

text \<open>
  What the service reads back: the audit of a memory with its chain of replacements, the recent commits,
  the confirmations that wait; and the quarantine, which expires what one agent key had promoted.
\<close>

subsection \<open>The chain of replacements\<close>

definition SUPERSESSION_CHAIN_MAX_DEPTH :: nat where
  [model_defs]: "SUPERSESSION_CHAIN_MAX_DEPTH = 10"

text \<open>The optional callback that authorises every row of an audit, and may raise.\<close>

type_synonym memory_authorizer = "(dict \<Rightarrow> unit command) option"

definition authorize_row :: "memory_authorizer \<Rightarrow> dict \<Rightarrow> unit command" where
  "authorize_row authorize row s = (case authorize of None \<Rightarrow> (Inr (), s) | Some f \<Rightarrow> f row s)"

text \<open>
  \<open>_walk\<close>: along the pointer \<open>key\<close> for at most the given number of hops; a pointer to a row that was
  seen ends the walk.  The rows come with the ids seen so far.
\<close>

fun chain_walk ::
  "memory_authorizer \<Rightarrow> string \<Rightarrow> nat \<Rightarrow> string list \<Rightarrow> dict \<Rightarrow> (dict list \<times> string list) command" where
  "chain_walk authorize key 0 seen current s = (Inr ([], seen), s)"
| "chain_walk authorize key (Suc hops) seen current s =
     (case supersession_pointer current key of
        None \<Rightarrow> (Inr ([], seen), s)
      | Some pointer \<Rightarrow>
          if pointer \<in> set seen then (Inr ([], seen), s)
          else
            and_then (require_row (invalid ''memory supersession chain contains an unresolved pointer'')
                (get_memory s pointer) s) (\<lambda>row s.
            and_then (authorize_row authorize row s) (\<lambda>_ s.
            and_then (chain_walk authorize key hops (pointer # seen) row s) (\<lambda>(rows, seen') s.
              (Inr (row # rows, seen'), s)))))"

definition chain_entry :: "string \<Rightarrow> dict \<Rightarrow> json" where
  "chain_entry relation row =
     JObj [(''id'', JStr (row_id row)), (''title'', dget row ''title''), (''status'', dget row ''status''),
           (''created_at'', dget row ''created_at''), (''relation'', JStr relation)]"

definition supersession_chain :: "memory_authorizer \<Rightarrow> dict \<Rightarrow> json list command" where
  "supersession_chain authorize memory s =
     and_then (chain_walk authorize ''supersedes'' SUPERSESSION_CHAIN_MAX_DEPTH [row_id memory] memory s) (\<lambda>(predecessors, seen) s.
     and_then (chain_walk authorize ''superseded_by'' SUPERSESSION_CHAIN_MAX_DEPTH seen memory s) (\<lambda>(successors, _) s.
       (Inr (map (chain_entry ''predecessor'') (rev predecessors) @ [chain_entry ''self'' memory]
             @ map (chain_entry ''successor'') successors), s)))"

definition audit :: "string \<Rightarrow> memory_authorizer \<Rightarrow> dict command" where
  "audit memory_id authorize s =
     and_then (require_row not_found (get_memory s memory_id) s) (\<lambda>memory s.
     and_then (authorize_row authorize memory s) (\<lambda>_ s.
     and_then (supersession_chain authorize memory s) (\<lambda>chain s.
       (Inr [(''memory'', JObj memory), (''supersession_chain'', JList chain),
             (''revisions'', JList (map JObj (list_revisions memory_id s))),
             (''events'', JList (map JObj (list_events ''memory'' (Some memory_id) None None s))),
             (''provenance_links'', JList (map JObj (list_provenance_links ''memory'' memory_id s)))], s))))"

subsection \<open>Listings\<close>

text \<open>A row is collected before the limit is looked at, so that a limit of zero stops at the first row.\<close>

fun collect_commits :: "int \<Rightarrow> dict list \<Rightarrow> dict list \<Rightarrow> dict list" where
  "collect_commits limit rows [] = rows"
| "collect_commits limit rows (m # ms) =
     (let rows' = (if dget (agentic_metadata m) ''kind'' = JStr ''agentic_memory_commit'' then rows @ [m] else rows)
      in if limit \<le> int (length rows') then rows' else collect_commits limit rows' ms)"

definition recent_commits :: "int \<Rightarrow> memory_store \<Rightarrow> dict" where
  "recent_commits limit s =
     (let rows = collect_commits limit [] (list_memories s)
      in [(''recent_commits'', JList (map JObj rows)), (''count'', JInt (int (length rows)))])"

definition waits_for_confirmation :: "dict \<Rightarrow> bool" where
  "waits_for_confirmation memory \<longleftrightarrow>
     dget (agentic_metadata memory) ''kind'' = JStr ''agentic_memory_commit''
     \<and> dget (confirmation_of memory) ''status'' = JStr ''pending''
     \<and> dget memory ''status'' = JStr ''needs_review''"

fun collect_waiting :: "nat \<Rightarrow> dict list \<Rightarrow> dict list \<Rightarrow> dict list" where
  "collect_waiting limit rows [] = rows"
| "collect_waiting limit rows (m # ms) =
     (let rows' = (if waits_for_confirmation m then rows @ [m] else rows)
      in if limit \<le> length rows' then rows' else collect_waiting limit rows' ms)"

definition inline_confirmations :: "nat \<Rightarrow> memory_store \<Rightarrow> dict list" where
  "inline_confirmations limit s = collect_waiting limit [] (list_pending_inline_confirmations limit s)"

subsection \<open>Seams for other adapters\<close>

definition authorize_memory_action ::
  "memory_service \<Rightarrow> agent_identity option \<Rightarrow> string \<Rightarrow> dict \<Rightarrow> policy_decision command" where
  "authorize_memory_action sv identity action memory s = policy_checked_write sv identity action memory s"

text \<open>The public refresh, after a review of another surface accepted a row.\<close>

definition refresh_after_review :: "dict \<Rightarrow> string \<Rightarrow> memory_store \<Rightarrow> memory_store" where
  "refresh_after_review memory stage s = refresh_memory_derived_state memory stage False s"

subsection \<open>Quarantine\<close>

definition AUTO_PROMOTED_EVENT :: string where
  "AUTO_PROMOTED_EVENT = ''memory.auto_promoted''"

fun promoted_targets :: "string \<Rightarrow> string list \<Rightarrow> dict list \<Rightarrow> (string \<times> dict) list" where
  "promoted_targets agent seen [] = []"
| "promoted_targets agent seen (e # es) =
     (if str_or (dget e ''event_type'') [] \<noteq> AUTO_PROMOTED_EVENT then promoted_targets agent seen es
      else if str_or (dget e ''actor_id'') [] \<noteq> agent then promoted_targets agent seen es
      else if \<not> py_truthy (dget e ''target_id'') \<or> py_str (dget e ''target_id'') \<in> set seen
      then promoted_targets agent seen es
      else (py_str (dget e ''target_id''), e)
             # promoted_targets agent (py_str (dget e ''target_id'') # seen) es)"

text \<open>The window is given by the ISO texts of its two moments.\<close>

definition auto_promoted_by_agent ::
  "string \<Rightarrow> string option \<Rightarrow> string option \<Rightarrow> (string \<times> dict) list command" where
  "auto_promoted_by_agent agent since until s =
     (let normalized = squeeze_text agent in
      and_then (raise_when (normalized = []) (invalid ''agent_id is required'') s) (\<lambda>_ s.
        (Inr (promoted_targets normalized []
           (list_events ''memory'' None (map_option instant_of since) (map_option instant_of until) s)), s)))"

text \<open>What the sweep does with one candidate: what it expired, or why it was skipped.\<close>

datatype sweep_result = Swept string string | SkippedRow string string

fun sweep_outcome :: "string \<Rightarrow> service_error + dict \<Rightarrow> service_error + sweep_result" where
  "sweep_outcome i (Inr response) = Inr (Swept i ''expired'')"
| "sweep_outcome i (Inl (MemoryServiceError (VNextMemoryCommitValidationError m))) = Inr (SkippedRow i m)"
| "sweep_outcome i (Inl e) = Inl e"

definition sweep_one ::
  "memory_service \<Rightarrow> agent_identity option \<Rightarrow> string \<Rightarrow> bool \<Rightarrow> string \<Rightarrow> sweep_result command" where
  "sweep_one sv identity reason dry_run memory_id s =
     (case get_memory s memory_id of
        None \<Rightarrow> (Inr (SkippedRow memory_id ''memory_not_found''), s)
      | Some memory \<Rightarrow>
          if \<not> is_unbounded_valid_to (dget memory ''valid_to'') \<and> dget memory ''valid_to'' \<noteq> JNull
          then (Inr (SkippedRow memory_id ''already_expired''), s)
          else if dry_run then (Inr (Swept memory_id ''would_expire''), s)
          else (let r = expire sv identity memory_id JNull reason s in (sweep_outcome memory_id (fst r), snd r)))"

fun sweep_all ::
  "memory_service \<Rightarrow> agent_identity option \<Rightarrow> string \<Rightarrow> bool \<Rightarrow> string list \<Rightarrow> sweep_result list command" where
  "sweep_all sv identity reason dry_run [] s = (Inr [], s)"
| "sweep_all sv identity reason dry_run (i # ids) s =
     and_then (sweep_one sv identity reason dry_run i s) (\<lambda>x s.
     and_then (sweep_all sv identity reason dry_run ids s) (\<lambda>xs s. (Inr (x # xs), s)))"

fun swept_ids :: "sweep_result list \<Rightarrow> string list" where
  "swept_ids [] = []"
| "swept_ids (Swept i state # xs) = i # swept_ids xs"
| "swept_ids (SkippedRow i reason # xs) = swept_ids xs"

fun swept_records :: "sweep_result list \<Rightarrow> json list" where
  "swept_records [] = []"
| "swept_records (Swept i state # xs) = JObj [(''memory_id'', JStr i), (''status'', JStr state)] # swept_records xs"
| "swept_records (SkippedRow i reason # xs) = swept_records xs"

fun skipped_records :: "sweep_result list \<Rightarrow> json list" where
  "skipped_records [] = []"
| "skipped_records (Swept i state # xs) = skipped_records xs"
| "skipped_records (SkippedRow i reason # xs) =
     JObj [(''memory_id'', JStr i), (''reason'', JStr reason)] # skipped_records xs"

definition quarantine_decision ::
  "memory_service \<Rightarrow> agent_identity option \<Rightarrow> policy_decision command" where
  "quarantine_decision sv identity s =
     and_then (evaluate_policy_for sv identity (default_request ''memory.quarantine'') s) (\<lambda>d s.
       let t = append_policy_events identity d None None s in
       if decision d = ''blocked'' then (Inl (AgentPolicyBlockedError d), t) else (Inr d, t))"

definition foreign_sweep :: "policy_decision \<Rightarrow> policy_decision" where
  "foreign_sweep d =
     d\<lparr>decision := ''blocked'', reasons := dict_fromkeys (reasons d @ [''quarantine_limited_to_own_agent_id''])\<rparr>"

definition quarantine_by_agent_key ::
  "memory_service \<Rightarrow> agent_identity option \<Rightarrow> string \<Rightarrow> string \<Rightarrow> string option \<Rightarrow> string option \<Rightarrow> bool \<Rightarrow> dict command" where
  "quarantine_by_agent_key sv identity agent reason since until dry_run s =
     and_then (quarantine_decision sv identity s) (\<lambda>d s.
     let reason_text = squeeze_text reason; normalized = squeeze_text agent in
     and_then (raise_when (reason_text = []) (invalid ''reason is required'') s) (\<lambda>_ s.
     and_then (raise_when (identity \<noteq> None \<and> agent_of identity \<noteq> Some normalized)
         (AgentPolicyBlockedError (foreign_sweep d)) s) (\<lambda>_ s.
     and_then (auto_promoted_by_agent normalized since until s) (\<lambda>candidates s.
     let sweep_id = ''quarantine-'' @ ident s in
     and_then (sweep_all sv identity (reason_text @ '' (sweep '' @ sweep_id @ '')'') dry_run
         (map fst candidates) (draw s)) (\<lambda>results s.
       let envelope = [(''sweep_id'', JStr sweep_id), (''agent_id'', JStr normalized),
             (''since'', opt_str since), (''until'', opt_str until), (''dry_run'', JBool dry_run),
             (''candidate_count'', JInt (int (length candidates))),
             (''expired'', JList (swept_records results)), (''skipped'', JList (skipped_records results)),
             (''reversible_via'', JStr ''memory.unexpire''), (''policy_decision'', JObj (decision_to_record d))]
       in (Inr envelope,
           if dry_run then s
           else append_traced_event (Some (trace_id d)) None ''memory.quarantine_sweep''
             (actor_type (agent_of identity)) (agent_of identity) (Some ''agent'') (Some normalized)
             [(''sweep_id'', JStr sweep_id), (''reason'', JStr reason_text), (''since'', opt_str since),
              (''until'', opt_str until), (''expired_memory_ids'', str_list (swept_ids results)),
              (''skipped'', JList (skipped_records results)), (''reversible_via'', JStr ''memory.unexpire'')] s))))))"

end
