(* ===== verification/Memory_Invariants.thy ===== *)
theory Memory_Invariants
  imports Memory_Audit
begin

text \<open>
  Relations between the stores before and after a command.  The locale \<open>record_relation\<close> asks that a
  relation is a preorder and admits the statements that only record something (events, revisions,
  agents, links, requests); \<open>store_relation\<close> that it admits the clearing of a vector, \<open>creation_relation\<close>
  the insertions of a commit, and \<open>write_relation\<close> all of these and the updates of memories, whatever
  they write.  Such a relation holds for the commands, whether they return or raise, at any point where
  they may stop.
\<close>

locale record_relation =
  fixes R :: "memory_store \<Rightarrow> memory_store \<Rightarrow> bool"
  assumes rel_refl: "R s s"
    and rel_trans: "R s t \<Longrightarrow> R t u \<Longrightarrow> R s u"
    and tick_step: "R s (tick s)"
    and draw_step: "R s (draw s)"
    and event_step: "R s (append_traced_event tr rn et ay ai tt ti p s)"
    and revision_step: "R s (append_revision entry i ay s)"
    and agent_step: "R s (upsert_agent_identity a i ay s)"
    and link_step: "R s (snd (create_provenance_link l kt ki si ay s))"
    and derived_step: "R s (request_derived q s)"
begin

lemma rel_tick: "R u s \<Longrightarrow> R u (tick s)" by (rule rel_trans [OF _ tick_step])
lemma rel_draw: "R u s \<Longrightarrow> R u (draw s)" by (rule rel_trans [OF _ draw_step])
lemma rel_traced: "R u s \<Longrightarrow> R u (append_traced_event tr rn et ay ai tt ti p s)"
  by (rule rel_trans [OF _ event_step])
lemma rel_event: "R u s \<Longrightarrow> R u (append_event et ay ai tt ti p s)"
  unfolding append_event_def by (rule rel_traced)
lemma rel_revision: "R u s \<Longrightarrow> R u (append_revision entry i ay s)" by (rule rel_trans [OF _ revision_step])
lemma rel_agent: "R u s \<Longrightarrow> R u (upsert_agent_identity a i ay s)" by (rule rel_trans [OF _ agent_step])
lemma rel_link: "R u s \<Longrightarrow> R u (snd (create_provenance_link l kt ki si ay s))"
  by (rule rel_trans [OF _ link_step])
lemma rel_derived: "R u s \<Longrightarrow> R u (request_derived q s)" by (rule rel_trans [OF _ derived_step])

lemma rel_and_then:
  "R u (snd m) \<Longrightarrow> (\<And>x t. R u t \<Longrightarrow> R u (snd (f x t))) \<Longrightarrow> R u (snd (and_then m f))"
  by (rule snd_and_then) (metis snd_conv)+

lemma rel_require: "R u s \<Longrightarrow> R u (snd (require_row e r s))"
  by (simp add: require_row_def split: option.split)

lemma rel_raise: "R u s \<Longrightarrow> R u (snd (raise_when b e s))"
  by (simp add: raise_when_def)

lemma rel_check: "R u s \<Longrightarrow> R u (snd (lift_check r s))" by simp
lemma rel_lift: "R u (snd r) \<Longrightarrow> R u (snd (lift_store r))" by simp
lemma rel_return: "R u s \<Longrightarrow> R u (snd (r, s))" by simp

lemma rel_if: "(b \<Longrightarrow> R u (snd x)) \<Longrightarrow> (\<not> b \<Longrightarrow> R u (snd y)) \<Longrightarrow> R u (snd (if b then x else y))"
  by simp

lemma rel_if_store: "(b \<Longrightarrow> R u x) \<Longrightarrow> (\<not> b \<Longrightarrow> R u y) \<Longrightarrow> R u (if b then x else y)"
  by simp

lemma rel_option: "(v = None \<Longrightarrow> R u (snd x)) \<Longrightarrow> (\<And>y. v = Some y \<Longrightarrow> R u (snd (f y))) \<Longrightarrow>
    R u (snd (case v of None \<Rightarrow> x | Some y \<Rightarrow> f y))"
  by (cases v) simp_all

lemma rel_outcome: "(\<And>y. v = Written y \<Longrightarrow> R u (snd (f y))) \<Longrightarrow> (\<And>y. v = OutrunBy y \<Longrightarrow> R u (snd (g y))) \<Longrightarrow>
    R u (snd (case v of Written y \<Rightarrow> f y | OutrunBy y \<Rightarrow> g y))"
  by (cases v) simp_all

lemma rel_pair: "(\<And>x y. p = (x, y) \<Longrightarrow> R u (snd (f x y))) \<Longrightarrow> R u (snd (case p of (x, y) \<Rightarrow> f x y))"
  by (cases p) simp

lemma rel_let: "R u (snd (f v)) \<Longrightarrow> R u (snd (Let v f))"
  by (simp add: Let_def)

lemma rel_let_store: "R u (f v) \<Longrightarrow> R u (Let v f)"
  by (simp add: Let_def)

lemmas rel_flow = rel_and_then rel_require rel_raise rel_check rel_lift rel_return rel_if rel_option
  rel_outcome rel_pair rel_let rel_if_store rel_let_store

lemmas rel_side = rel_tick rel_draw rel_traced rel_event rel_revision rel_agent rel_link rel_derived

text \<open>The parts that the commands share.\<close>

lemma rel_identity: "R u s \<Longrightarrow> R u (upsert_identity identity s)"
  by (auto simp: upsert_identity_def intro: rel_agent split: option.split)

lemma rel_policy_events: "R u s \<Longrightarrow> R u (append_policy_events identity d tt ti s)"
  by (auto simp: append_policy_events_def Let_def intro: rel_traced split: option.split)

lemma rel_evaluate: "R u s \<Longrightarrow> R u (snd (evaluate_policy_for sv identity q s))"
  by (auto simp: evaluate_policy_for_def intro: rel_draw split: sum.split)

lemma rel_policy: "R u s \<Longrightarrow> R u (snd (policy_checked_write sv identity action m s))"
  unfolding policy_checked_write_def
  by (intro rel_flow rel_evaluate rel_identity rel_policy_events) auto

lemma rel_command_event: "R u s \<Longrightarrow> R u (command_event identity tr rn et ti p s)"
  unfolding command_event_def by (rule rel_traced)

lemma rel_revise: "R u s \<Longrightarrow> R u (revise identity rt a rs tb ta md m w s)"
  unfolding revise_def by (rule rel_revision)

lemma rel_decision_path: "R u s \<Longrightarrow> R u (snd (require_project_update_decision_path m s))"
  unfolding require_project_update_decision_path_def by (rule rel_raise)

lemma rel_commit_event: "R u s \<Longrightarrow> R u (commit_event identity r d et ti p s)"
  unfolding commit_event_def by (rule rel_command_event)

lemma rel_promotion_events: "R u s \<Longrightarrow> R u (promotion_events identity r d ti s)"
  by (auto simp: promotion_events_def Let_def intro: rel_commit_event split: option.split)

lemma rel_creation: "R u s \<Longrightarrow> R u (creation_revision identity m a rt rs s)"
  unfolding creation_revision_def by (rule rel_revision)

lemma rel_retirement: "R u s \<Longrightarrow> R u (record_retirement x m w succ s)"
  unfolding record_retirement_def by (intro rel_event rel_revision)

lemmas rel_parts = rel_identity rel_policy_events rel_evaluate rel_policy rel_command_event rel_revise
  rel_decision_path rel_commit_event rel_promotion_events rel_creation rel_retirement

lemma rel_links: "R u s \<Longrightarrow> R u (snd (create_provenance_links m r actor seen refs s))"
proof (induction refs arbitrary: seen s)
  case (Cons ref refs)
  show ?case
    by (simp split: option.split) (auto intro!: rel_and_then rel_link Cons)
qed simp

lemma rel_finish:
  "R u s \<Longrightarrow> R u (snd (finish_fact identity r d m s))"
  "R u s \<Longrightarrow> R u (snd (finish_confirmation identity r d c cd m s))"
  "R u s \<Longrightarrow> R u (snd (finish_candidate identity r d c m s))"
  unfolding finish_fact_def finish_confirmation_def finish_candidate_def
  by (intro rel_flow rel_links rel_parts rel_side; assumption)+

lemma rel_evaluate_commit: "R u s \<Longrightarrow> R u (snd (evaluate_policy sv identity r s))"
  unfolding evaluate_policy_def
  by (intro rel_flow rel_parts) (auto simp: Let_def intro: rel_parts split: sum.split)

lemma rel_match: "R u s \<Longrightarrow> R u (snd (assert_idempotent_request_matches m r s))"
  unfolding assert_idempotent_request_matches_def by (rule rel_raise)

lemma rel_replay: "R u s \<Longrightarrow> R u (snd (idempotent_replay sv identity r m s))"
  unfolding idempotent_replay_def by (intro rel_flow rel_parts rel_match; assumption)

lemma rel_expired: "R u s \<Longrightarrow> R u (snd (confirmation_expired raw s))"
  by (auto simp: confirmation_expired_def intro: rel_tick split: json.split option.split)

lemma rel_instant: "R u s \<Longrightarrow> R u (snd (expiry_instant v s))"
  by (simp add: expiry_instant_def rel_tick)

lemma rel_members: "R u s \<Longrightarrow> R u (snd (lock_members sv identity p ids s))"
proof (induction ids arbitrary: s)
  case (Cons i ids)
  show ?case
    by (simp add: authorize_member_def split: option.split)
      (auto intro!: rel_flow rel_parts Cons)
qed simp

lemma rel_proposal_checks:
  "R u s \<Longrightarrow> R u (snd (check_snapshots p s))" "R u s \<Longrightarrow> R u (snd (check_scopes p m locked s))"
  "R u s \<Longrightarrow> R u (snd (replay_acceptance d m c a s))"
  unfolding check_snapshots_def check_scopes_def replay_acceptance_def
  by (intro rel_flow; assumption)+

lemma rel_quarantine_decision: "R u s \<Longrightarrow> R u (snd (quarantine_decision sv identity s))"
  unfolding quarantine_decision_def by (intro rel_flow rel_parts; assumption)

lemma rel_promoted: "R u s \<Longrightarrow> R u (snd (auto_promoted_by_agent agent since until s))"
  unfolding auto_promoted_by_agent_def by (intro rel_flow; assumption)

lemmas rel_pieces = rel_links rel_finish rel_evaluate_commit rel_match rel_replay rel_expired rel_instant
  rel_members rel_proposal_checks rel_quarantine_decision rel_promoted

end

text \<open>Relations that admit the clearing of a vector, which the refresh of derived data begins with.\<close>

locale store_relation = record_relation +
  assumes clear_step: "R s (clear_memory_embedding i s)"
begin

lemma rel_clear: "R u s \<Longrightarrow> R u (clear_memory_embedding i s)" by (rule rel_trans [OF _ clear_step])

lemma rel_refresh: "R u s \<Longrightarrow> R u (refresh_memory_derived_state m stage b s)"
  by (auto simp: refresh_memory_derived_state_def Let_def intro!: rel_derived rel_clear)

end

text \<open>
  Relations that admit the insertion of the rows a commit writes, none of which replaces another or is
  replaced; \<open>race\<close> is what other transactions may have done.
\<close>

definition pointer_free :: "dict \<Rightarrow> bool" where
  "pointer_free row \<longleftrightarrow> dget row ''superseded_by'' = JNull
     \<and> dget (memory_metadata row) ''superseded_by'' = JNull"

lemma commit_rows_pointer_free:
  "pointer_free (fact_row identity r d now k)" "pointer_free (confirmation_row identity r d i c k)"
  "pointer_free (candidate_row identity r d i k)"
  by (auto simp: pointer_free_def fact_row_def confirmation_row_def candidate_row_def commit_fields_def
      scope_columns_def base_metadata_def memory_metadata_def agent_metadata_def Let_def split: option.splits)

locale creation_relation = record_relation +
  assumes create_step: "pointer_free m \<Longrightarrow> R s (snd (create_memory m ay s))"
begin

lemma rel_create: "pointer_free m \<Longrightarrow> R u s \<Longrightarrow> R u (snd (create_memory m ay s))"
  by (rule rel_trans [OF _ create_step])

lemma rel_record:
  assumes "\<And>v. R v (race v)" "pointer_free m" "R u s"
  shows "R u (snd (create_memory_record race m actor r s))"
proof -
  obtain res t where c: "create_memory m actor (race s) = (res, t)" by fastforce
  with rel_create [OF assms(2), of u "race s" actor] rel_trans [OF assms(3,1)] have "R u t" by simp
  with c show ?thesis
    by (auto simp: create_memory_record_def intro!: rel_flow rel_match split: sum.split memory_error.split option.split)
qed

lemma rel_written: "R u (snd m) \<Longrightarrow> (\<And>row t. R u t \<Longrightarrow> R u (snd (f row t))) \<Longrightarrow> R u (snd (when_written m f))"
  unfolding when_written_def by (intro rel_flow) auto

lemma rel_draw_key: "R u s \<Longrightarrow> R u (draw_key r s)"
  by (simp add: draw_key_def rel_draw)

lemma rel_write_commit:
  assumes "\<And>v. R v (race v)" "R u s"
  shows "R u (snd (write_commit race identity r d s))"
proof -
  note creates = rel_record [where race = race, OF assms(1)]
  have "R u (snd (create_confirmation race identity r d s))"
    unfolding create_confirmation_def Let_def
    by (intro rel_and_then rel_check rel_written creates commit_rows_pointer_free rel_finish rel_draw_key rel_draw rel_tick assms(2); assumption)
  moreover have "R u (snd (create_review_candidate race identity r d s))"
    unfolding create_review_candidate_def Let_def
    by (intro rel_written creates commit_rows_pointer_free rel_finish rel_draw_key rel_draw assms(2); assumption)
  moreover have "R u (snd (create_committed_memory race identity r d s))"
    unfolding create_committed_memory_def
    by (intro rel_written creates commit_rows_pointer_free rel_finish rel_draw_key rel_tick assms(2); assumption)
  ultimately show ?thesis by (simp add: write_commit_def)
qed

lemma rel_commit:
  assumes "\<And>v. R v (race v)" "R u s"
  shows "R u (snd (commit sv race identity r s))"
proof -
  note written = rel_write_commit [where race = race, OF assms(1)]
  have "R u (snd (commit_answer sv race identity r s))"
    unfolding commit_answer_def append_decision_event_def
    by (intro rel_option rel_replay rel_and_then rel_evaluate_commit rel_if rel_return rel_traced written rel_outcome
        assms(2); assumption)
  then show ?thesis unfolding commit_def by (rule rel_and_then) simp
qed

end

text \<open>Relations that admit the update of a memory as well, whatever it writes.\<close>

locale write_relation = store_relation + creation_relation +
  assumes update_step: "R s (snd (update_memory i patch ay s))"
begin

lemma rel_update: "R u s \<Longrightarrow> R u (snd (update_memory i patch ay s))" by (rule rel_trans [OF _ update_step])

lemma rel_result:
  "R u (snd r) \<Longrightarrow> (\<And>x t. R u t \<Longrightarrow> R u (snd (f x t))) \<Longrightarrow>
     R u (snd (case r of (Inl e, t) \<Rightarrow> (Inl e, t) | (Inr x, t) \<Rightarrow> f x t))"
  by (cases r; cases "fst r") auto

lemma rel_invalidate_one: "R u s \<Longrightarrow> R u (snd (invalidate_candidate at_time agent i reason c s))"
  unfolding invalidate_candidate_def
  by (intro rel_flow rel_result rel_side rel_update; assumption)

lemma rel_invalidate_all: "R u s \<Longrightarrow> R u (snd (invalidate_candidates at_time agent i reason cs s))"
  by (induction cs arbitrary: s) (auto intro: rel_result rel_invalidate_one)

lemma rel_invalidate: "R u s \<Longrightarrow> R u (snd (invalidate_pending_derived_candidates i agent reason ex s))"
  unfolding invalidate_pending_derived_candidates_def by (intro rel_invalidate_all rel_tick)

lemma rel_closing: "R u s \<Longrightarrow> R u (snd (closing_of dated m succ s))"
  by (auto simp: closing_of_def intro: rel_tick split: option.split)

lemma rel_point_back: "R u s \<Longrightarrow> R u (snd (point_back x m succ s))"
  unfolding point_back_def by (intro rel_flow rel_result rel_update; assumption)

lemma rel_write_transition: "R u s \<Longrightarrow> R u (snd (write_transition x dated m succ s))"
  unfolding write_transition_def
  by (intro rel_flow rel_result rel_side rel_invalidate rel_closing rel_point_back rel_retirement rel_update; assumption)

lemma rel_transition: "R u s \<Longrightarrow> R u (snd (transition_memory x dated m succ s))"
  by (auto simp: transition_memory_def intro: rel_write_transition split: sum.split)

lemma rel_run_transition: "R u s \<Longrightarrow> R u (snd (run_transition sv x m succ s))"
  unfolding run_transition_def by (intro rel_flow rel_transition; assumption)

subsection \<open>Every command\<close>

lemma rel_refresh_confirmed: "R u s \<Longrightarrow> R u (snd (refresh_last_confirmed identity m a rs md s))"
  unfolding refresh_last_confirmed_def
  by (intro rel_flow rel_side rel_parts rel_update; assumption)

lemma rel_replay_confirmation: "R u s \<Longrightarrow> R u (snd (replay_confirmation identity m c i a s))"
  unfolding replay_confirmation_def by (intro rel_flow rel_refresh_confirmed; assumption)

lemma rel_expire_confirmation: "R u s \<Longrightarrow> R u (snd (expire_confirmation identity i m s))"
  unfolding expire_confirmation_def by (intro rel_flow rel_side rel_parts rel_update; assumption)

lemma rel_settle: "R u s \<Longrightarrow> R u (snd (settle_confirmation identity i a t rs m s))"
  unfolding settle_confirmation_def by (intro rel_flow rel_side rel_parts rel_refresh rel_update; assumption)

lemma rel_confirm: "R u s \<Longrightarrow> R u (snd (confirm sv identity i a t rs s))"
  unfolding confirm_def
  by (intro rel_flow rel_parts rel_pieces rel_replay_confirmation rel_expire_confirmation rel_settle; assumption)

lemma rel_undo: "R u s \<Longrightarrow> R u (snd (undo sv identity i rs j s))"
  unfolding undo_def undo_successor_def by (intro rel_flow rel_parts rel_run_transition; assumption)

lemma rel_forget: "R u s \<Longrightarrow> R u (snd (forget sv identity i rs s))"
  unfolding forget_def by (intro rel_flow rel_parts rel_run_transition; assumption)

lemma rel_correct: "R u s \<Longrightarrow> R u (snd (correct sv identity i t rs s))"
  unfolding correct_def by (intro rel_flow rel_side rel_parts rel_refresh rel_invalidate rel_update; assumption)

lemma rel_expire: "R u s \<Longrightarrow> R u (snd (expire sv identity i v rs s))"
  unfolding expire_def by (intro rel_flow rel_side rel_parts rel_pieces rel_update; assumption)

lemma rel_unexpire: "R u s \<Longrightarrow> R u (snd (unexpire sv identity i rs s))"
  unfolding unexpire_def reopen_window_def by (intro rel_flow rel_side rel_parts rel_pieces rel_update; assumption)

lemma rel_supersede_members: "R u s \<Longrightarrow> R u (snd (supersede_members sv identity m locked ids s))"
proof (induction ids arbitrary: s)
  case (Cons i ids)
  show ?case
    by (simp split: option.split) (auto intro!: rel_flow rel_run_transition Cons)
qed simp

lemma rel_promote: "R u s \<Longrightarrow> R u (snd (promote_candidate identity d rs p m c out s))"
  unfolding promote_candidate_def by (intro rel_flow rel_side rel_parts rel_refresh rel_update; assumption)

lemma rel_accept: "R u s \<Longrightarrow> R u (snd (accept_consolidation_candidate sv identity i rs s))"
  unfolding accept_consolidation_candidate_def merge_candidate_def
  by (intro rel_flow rel_parts rel_pieces rel_supersede_members rel_promote; assumption)

lemma rel_sweep_one: "R u s \<Longrightarrow> R u (snd (sweep_one sv identity rs dry i s))"
  unfolding sweep_one_def by (intro rel_flow rel_expire; assumption)

lemma rel_sweep: "R u s \<Longrightarrow> R u (snd (sweep_all sv identity rs dry ids s))"
proof (induction ids arbitrary: s)
  case (Cons i ids)
  show ?case
    unfolding sweep_all.simps by (intro rel_and_then rel_sweep_one rel_return Cons; assumption)
qed simp

lemma rel_quarantine: "R u s \<Longrightarrow> R u (snd (quarantine_by_agent_key sv identity a rs since until dry s))"
  unfolding quarantine_by_agent_key_def
  by (intro rel_flow rel_side rel_pieces rel_sweep; assumption)

end

end
