(* ===== verification/Memory_Log.thy ===== *)
theory Memory_Log
  imports Memory_Invariants
begin

text \<open>
  What every command keeps, whatever it writes: the event log, the revisions and the provenance links
  only grow; the columns that identify a row and every deleted row stay; the unique keys stay unique;
  the revisions of a memory are numbered without a gap.  Each is an interpretation of
  \<open>write_relation\<close>.
\<close>

subsection \<open>The logs only grow\<close>

definition log_grows :: "memory_store \<Rightarrow> memory_store \<Rightarrow> bool" where
  "log_grows s t \<longleftrightarrow> prefix (event_log s) (event_log t) \<and> prefix (revisions s) (revisions t)
     \<and> prefix (provenance s) (provenance t) \<and> sources t = sources s"

lemma log_grows_trans: "log_grows s t \<Longrightarrow> log_grows t u \<Longrightarrow> log_grows s u"
  by (auto simp: log_grows_def intro: prefix_order.trans)

lemma log_grows_traced: "log_grows s (append_traced_event tr rn et ay ai tt ti p s)"
  by (simp add: log_grows_def append_traced_event_def tick_def draw_def)

lemma log_grows_event: "log_grows s (append_event et ay ai tt ti p s)"
  unfolding append_event_def by (rule log_grows_traced)

text \<open>A store that differs in the other tables, with an event on top.\<close>

lemma log_grows_then_event:
  "event_log t = event_log s \<Longrightarrow> prefix (revisions s) (revisions t) \<Longrightarrow> prefix (provenance s) (provenance t) \<Longrightarrow>
     sources t = sources s \<Longrightarrow> log_grows s (append_event et ay ai tt ti p t)"
  by (rule log_grows_trans [OF _ log_grows_event]) (simp add: log_grows_def)

interpretation log: write_relation log_grows
proof
  fix s t u :: memory_store and tr rn ai tt ti et ay p entry i a l kt ki si q patch m
  show "log_grows s s" "log_grows s (tick s)" "log_grows s (draw s)"
    "log_grows s (request_derived q s)" "log_grows s (clear_memory_embedding i s)"
    by (simp_all add: log_grows_def tick_def draw_def request_derived_def clear_memory_embedding_def)
  show "log_grows s t \<Longrightarrow> log_grows t u \<Longrightarrow> log_grows s u" by (rule log_grows_trans)
  show "log_grows s (append_traced_event tr rn et ay ai tt ti p s)" by (rule log_grows_traced)
  show "log_grows s (append_revision entry i ay s)"
    unfolding append_revision_def by (rule log_grows_then_event) (simp_all add: draw_def)
  show "log_grows s (upsert_agent_identity a i ay s)"
    by (auto simp: upsert_agent_identity_def intro!: log_grows_then_event split: option.split)
      (simp_all add: tick_def draw_def)
  show "log_grows s (snd (create_provenance_link l kt ki si ay s))"
    by (auto simp: create_provenance_link_def intro!: log_grows_then_event) (simp_all add: draw_def log_grows_def)
  show "log_grows s (snd (update_memory i patch ay s))"
    by (auto simp: update_memory_def Let_def intro!: log_grows_then_event split: option.split)
      (simp_all add: tick_def log_grows_def)
  show "log_grows s (snd (create_memory m ay s))"
    by (auto simp: create_memory_def Let_def intro!: log_grows_then_event) (simp_all add: draw_def log_grows_def)
qed

subsection \<open>Revisions are numbered without a gap\<close>

definition revision_numbers :: "string \<Rightarrow> memory_store \<Rightarrow> int list" where
  "revision_numbers i s = map (\<lambda>r. json_int (dget r ''revision_number'')) (revisions_of i s)"

definition numbered :: "memory_store \<Rightarrow> bool" where
  "numbered s \<longleftrightarrow> (\<forall>i. revision_numbers i s = map int [1..<Suc (length (revisions_of i s))])"

definition keeps_numbers :: "memory_store \<Rightarrow> memory_store \<Rightarrow> bool" where
  "keeps_numbers s t \<longleftrightarrow> (numbered s \<longrightarrow> numbered t)"

lemma numbers_frame: "revisions t = revisions s \<Longrightarrow> keeps_numbers s t"
  by (simp add: keeps_numbers_def numbered_def revision_numbers_def revisions_of_def)

lemma revisions_of_cong: "revisions t = revisions s \<Longrightarrow> revisions_of i t = revisions_of i s"
  by (simp add: revisions_of_def)

lemma Max_upto_int: "Max (set (0 # map int [1..<Suc n])) = int n"
proof (cases n)
  case (Suc m)
  show ?thesis by (rule Max_eqI) (auto simp: Suc)
qed simp

lemma next_number_is: "numbered s \<Longrightarrow> next_number ''revision_number'' i s = int (length (revisions_of i s)) + 1"
  unfolding next_number_def numbered_def revision_numbers_def by (metis Max_upto_int)

lemma revisions_appended:
  "revisions (append_revision entry i ay s) = revisions s @
     [[(''id'', JStr (ident s)), (''memory_id'', JStr i), (''sequence_no'', JInt (next_number ''sequence_no'' i s)),
       (''revision_number'', JInt (next_number ''revision_number'' i s))] @ entry]"
  by (simp add: append_revision_def draw_def)

lemma revision_numbered:
  assumes "numbered s"
  shows "numbered (append_revision entry i ay s)"
  unfolding numbered_def
proof
  fix j
  let ?n = "length (revisions_of j s)"
  show "revision_numbers j (append_revision entry i ay s)
      = map int [1..<Suc (length (revisions_of j (append_revision entry i ay s)))]"
  proof (cases "j = i")
    case True
    then have "revision_numbers j (append_revision entry i ay s) = revision_numbers j s @ [int (Suc ?n)]"
      "length (revisions_of j (append_revision entry i ay s)) = Suc ?n"
      using next_number_is [OF assms, of i]
      by (simp_all add: revision_numbers_def revisions_of_def revisions_appended)
    with assms show ?thesis by (simp add: numbered_def)
  next
    case False
    then have "revisions_of j (append_revision entry i ay s) = revisions_of j s"
      by (simp add: revisions_of_def revisions_appended)
    with assms show ?thesis by (simp add: numbered_def revision_numbers_def)
  qed
qed

lemma update_revisions [simp]: "revisions (snd (update_memory i patch ay s)) = revisions s"
  by (simp add: update_memory_def Let_def split: option.split)

lemma create_revisions [simp]: "revisions (snd (create_memory m ay s)) = revisions s"
  by (simp add: create_memory_def Let_def)

interpretation numbers: write_relation keeps_numbers
proof
  fix s t u :: memory_store and tr rn ai tt ti et ay p entry i a l kt ki si q patch m
  show "keeps_numbers s s" "keeps_numbers s (tick s)" "keeps_numbers s (draw s)"
    "keeps_numbers s (append_traced_event tr rn et ay ai tt ti p s)"
    "keeps_numbers s (request_derived q s)" "keeps_numbers s (clear_memory_embedding i s)"
    "keeps_numbers s (upsert_agent_identity a i ay s)"
    "keeps_numbers s (snd (create_provenance_link l kt ki si ay s))"
    "keeps_numbers s (snd (update_memory i patch ay s))" "keeps_numbers s (snd (create_memory m ay s))"
    by (rule numbers_frame, simp add: clear_memory_embedding_def)+
  show "keeps_numbers s t \<Longrightarrow> keeps_numbers t u \<Longrightarrow> keeps_numbers s u" by (simp add: keeps_numbers_def)
  show "keeps_numbers s (append_revision entry i ay s)" by (simp add: keeps_numbers_def revision_numbered)
qed

subsection \<open>Rows keep their identity\<close>

definition identity_columns :: "string list" where
  [model_defs]: "identity_columns =
    [''id'', ''agent_profile_id'', ''memory_key'', ''commit_digest'', ''confirmation_id'',
     ''created_by_agent_id'', ''run_id'', ''first_seen_at'', ''created_at'']"

definition same_identity :: "dict \<Rightarrow> dict \<Rightarrow> bool" where
  "same_identity r r' \<longleftrightarrow> (\<forall>c\<in>set identity_columns. dget r' c = dget r c)
     \<and> (dget r ''deleted_at'' \<noteq> JNull \<longrightarrow> r' = r)"

definition rows_persist :: "memory_store \<Rightarrow> memory_store \<Rightarrow> bool" where
  "rows_persist s t \<longleftrightarrow> (\<exists>old new. memories t = old @ new \<and> list_all2 same_identity (memories s) old)"

lemma same_identity_refl [simp]: "same_identity r r" by (simp add: same_identity_def)

lemma same_identity_trans: "same_identity r r' \<Longrightarrow> same_identity r' r'' \<Longrightarrow> same_identity r r''"
  by (auto simp: same_identity_def)

lemma rows_persist_same: "list_all2 same_identity (memories s) (memories t) \<Longrightarrow> rows_persist s t"
  unfolding rows_persist_def by (intro exI [of _ "memories t"] exI [of _ "[]"]) simp

lemma rows_persist_frame: "memories t = memories s \<Longrightarrow> rows_persist s t"
  by (rule rows_persist_same) (simp add: list_all2_same)

lemma rows_persist_trans:
  assumes "rows_persist s t" "rows_persist t u"
  shows "rows_persist s u"
proof -
  from assms obtain old new old' new' where o: "memories t = old @ new" "list_all2 same_identity (memories s) old"
    "memories u = old' @ new'" "list_all2 same_identity (old @ new) old'"
    unfolding rows_persist_def by metis
  from o(4) obtain old1 old2 where "old' = old1 @ old2" "list_all2 same_identity old old1"
    by (auto simp: list_all2_append1)
  moreover from this o(2) have "list_all2 same_identity (memories s) old1"
    by (auto intro: list_all2_trans [of same_identity same_identity, OF same_identity_trans])
  ultimately show ?thesis unfolding rows_persist_def using o(3) by auto
qed

lemma list_all2_map_rows:
  "(\<And>r. r \<in> set rs \<Longrightarrow> Q r (f r)) \<Longrightarrow> list_all2 Q rs (map f rs)"
  by (simp add: list_all2_map2 list_all2_same)

lemma patched_identity:
  "dget r ''deleted_at'' = JNull \<Longrightarrow> same_identity r (patched_row now patch r)"
  by (simp add: same_identity_def identity_columns_def dget_patched_row update_columns_def)

lemma unsigned_identity: "dget r ''deleted_at'' = JNull \<Longrightarrow> same_identity r (unsigned_row r)"
  by (auto simp: same_identity_def identity_columns_def unsigned_row_def split: json.split)

text \<open>The rows of an update, when every id names one row.\<close>

lemma update_rows:
  assumes "store_ok s"
  shows "\<exists>f. memories (snd (update_memory i patch ay s)) = map f (memories s) \<and>
    (\<forall>r\<in>set (memories s). f r = r \<or> live_row i r \<and> f r = patched_row (instant s) patch r)"
proof (cases i patch ay s rule: update_memory_cases)
  case (refused e)
  then show ?thesis by (intro exI [of _ id]) simp
next
  case (written r)
  from written(1) have r: "r \<in> set (memories s)" "live_row i r" by (auto simp: find_Some_iff)
  have only: "x = r" if "x \<in> set (memories s)" "live_row i x" for x
    using that r assms by (auto simp: live_row_def intro: same_row)
  let ?f = "\<lambda>x. if live_row i x then patched_row (instant s) patch r else x"
  have "?f x = x \<or> live_row i x \<and> ?f x = patched_row (instant s) patch x" if "x \<in> set (memories s)" for x
    using only [OF that] by auto
  then show ?thesis using written(4) by blast
qed

subsection \<open>Keys are unique\<close>

text \<open>No later row conflicts with an earlier one under the primary key and the unique indexes.\<close>

fun unique_rows :: "dict list \<Rightarrow> bool" where
  "unique_rows [] = True"
| "unique_rows (r # rs) = (list_all (\<lambda>q. \<not> conflicts r q) rs \<and> unique_rows rs)"

definition unique_keys :: "memory_store \<Rightarrow> bool" where
  "unique_keys s \<longleftrightarrow> unique_rows (memories s)"

lemma unique_rows_append:
  "unique_rows (rs @ [q]) \<longleftrightarrow> unique_rows rs \<and> \<not> list_ex (\<lambda>r. conflicts r q) rs"
  by (induction rs) (auto simp: list_all_iff list_ex_iff)

lemma conflicts_cong: "same_identity r r' \<Longrightarrow> same_identity q q' \<Longrightarrow> conflicts r' q' = conflicts r q"
  by (simp add: conflicts_def same_identity_def identity_columns_def row_id_def)

lemma unique_rows_same:
  "list_all2 same_identity rs rs' \<Longrightarrow> unique_rows rs \<Longrightarrow> unique_rows rs'"
proof (induction rule: list_all2_induct)
  case (Cons r rs r' rs')
  have "\<not> conflicts r' q'" if q': "q' \<in> set rs'" for q'
  proof -
    from Cons.hyps(2) q' obtain q where "q \<in> set rs" "same_identity q q'"
      by (induction rule: list_all2_induct) auto
    with Cons.hyps(1) Cons.prems conflicts_cong show ?thesis by (auto simp: list_all_iff)
  qed
  with Cons show ?case by (simp add: list_all_iff)
qed simp

text \<open>Two rows with the same commit digest are one row.\<close>

lemma unique_digest:
  assumes "unique_rows rs" "r \<in> set rs" "q \<in> set rs" "dget r ''commit_digest'' = dget q ''commit_digest''"
    "dget r ''commit_digest'' \<noteq> JNull"
  shows "r = q"
  using assms by (induction rs) (auto simp: list_all_iff conflicts_def)

definition rows_kept :: "memory_store \<Rightarrow> memory_store \<Rightarrow> bool" where
  "rows_kept s t \<longleftrightarrow> (store_ok s \<longrightarrow> store_ok t \<and> rows_persist s t \<and> (unique_keys s \<longrightarrow> unique_keys t))"

lemma same_identity_ids: "list_all2 same_identity rs rs' \<Longrightarrow> map row_id rs' = map row_id rs"
  by (induction rule: list_all2_induct) (auto simp: same_identity_def identity_columns_def row_id_def)

lemma rows_kept_same:
  assumes "list_all2 same_identity (memories s) (memories t)"
  shows "rows_kept s t"
proof -
  have "dget r' ''id'' \<noteq> JNull" if "store_ok s" "r' \<in> set (memories t)" for r'
  proof -
    from assms that(2) obtain r where "r \<in> set (memories s)" "same_identity r r'"
      by (induction rule: list_all2_induct) auto
    with that(1) show ?thesis by (auto simp: store_ok_def same_identity_def identity_columns_def)
  qed
  then show ?thesis
    using assms same_identity_ids [OF assms] unique_rows_same [OF assms] rows_persist_same [OF assms]
    by (auto simp: rows_kept_def store_ok_def unique_keys_def)
qed

lemma rows_kept_frame: "memories t = memories s \<Longrightarrow> rows_kept s t"
  by (rule rows_kept_same) (simp add: list_all2_same)

lemma create_kept: "rows_kept s (snd (create_memory m ay s))"
proof (cases "row_checks (created_row s m) \<and> \<not> list_ex (\<lambda>r. conflicts r (created_row s m)) (memories s)")
  case True
  let ?row = "created_row s m"
  from True have mem: "memories (snd (create_memory m ay s)) = memories s @ [?row]"
    by (simp add: create_memory_def Let_def)
  have id: "dget ?row ''id'' \<noteq> JNull" by (simp add: created_row_def json_or_def Let_def)
  have "row_id ?row \<notin> row_id ` set (memories s)" using True by (auto simp: list_ex_iff conflicts_def)
  then have "store_ok s \<longrightarrow> store_ok (snd (create_memory m ay s))"
    using id by (auto simp: store_ok_def mem)
  moreover have "rows_persist s (snd (create_memory m ay s))"
    unfolding rows_persist_def mem by (intro exI [of _ "memories s"] exI [of _ "[?row]"]) (simp add: list_all2_same)
  ultimately show ?thesis using True by (simp add: rows_kept_def unique_keys_def mem unique_rows_append)
next
  case False
  then show ?thesis by (intro rows_kept_frame) (auto simp: create_memory_def Let_def)
qed

lemma update_kept: "rows_kept s (snd (update_memory i patch ay s))"
proof (cases "store_ok s")
  case True
  from update_rows [OF True] obtain f where f: "memories (snd (update_memory i patch ay s)) = map f (memories s)"
    "\<forall>r\<in>set (memories s). f r = r \<or> live_row i r \<and> f r = patched_row (instant s) patch r" by blast
  show ?thesis
    by (rule rows_kept_same, unfold f(1), rule list_all2_map_rows)
       (use f(2) patched_identity in \<open>auto simp: live_row_def\<close>)
qed (simp add: rows_kept_def)

lemma clear_kept: "rows_kept s (clear_memory_embedding i s)"
  by (rule rows_kept_same)
     (simp add: clear_memory_embedding_def, rule list_all2_map_rows, simp add: live_row_def unsigned_identity)

interpretation kept: write_relation rows_kept
proof
  fix s t u :: memory_store and tr rn ai tt ti et ay p entry i a l kt ki si q patch m
  show "rows_kept s s" "rows_kept s (tick s)" "rows_kept s (draw s)"
    "rows_kept s (append_traced_event tr rn et ay ai tt ti p s)" "rows_kept s (append_revision entry i ay s)"
    "rows_kept s (request_derived q s)" "rows_kept s (upsert_agent_identity a i ay s)"
    "rows_kept s (snd (create_provenance_link l kt ki si ay s))"
    by (rule rows_kept_frame, simp)+
  show "rows_kept s (clear_memory_embedding i s)" by (rule clear_kept)
  show "rows_kept s (snd (update_memory i patch ay s))" by (rule update_kept)
  show "rows_kept s (snd (create_memory m ay s))" by (rule create_kept)
  show "rows_kept s t \<Longrightarrow> rows_kept t u \<Longrightarrow> rows_kept s u"
    by (auto simp: rows_kept_def intro: rows_persist_trans)
qed

end
