(* ===== verification/Memory_Safety.thy ===== *)
theory Memory_Safety
  imports Memory_Log
begin

text \<open>
  Every command keeps the pointers of the memories acyclic and the retired memories frozen.  The
  statements that only record something do so by the locale \<open>store_relation\<close>; an update does so when it
  repeats the pointer of the row it was read from and does not touch the status of a retired one; a
  retirement does so by the guard.  Acceptance retires rows that were read before the first retirement,
  so a copy of a row counts as current while it shows the pointer of the stored row.
\<close>

subsection \<open>Safe changes\<close>

definition rows_frozen :: "memory_store \<Rightarrow> memory_store \<Rightarrow> bool" where
  "rows_frozen s t \<longleftrightarrow> (\<forall>r\<in>set (memories s). retired_row r \<longrightarrow>
     (\<exists>r'\<in>set (memories t). row_id r' = row_id r \<and> dget r' ''status'' = dget r ''status''
       \<and> supersession_pointer r' ''superseded_by'' = supersession_pointer r ''superseded_by''))"

definition safe_change :: "memory_store \<Rightarrow> memory_store \<Rightarrow> bool" where
  "safe_change s t \<longleftrightarrow> (store_ok s \<longrightarrow> store_ok t \<and> rows_frozen s t
     \<and> (memory_rows.acyclic_rows s \<longrightarrow> memory_rows.acyclic_rows t))"

lemma rows_frozen_trans:
  assumes "rows_frozen s t" "rows_frozen t u"
  shows "rows_frozen s u"
  unfolding rows_frozen_def
proof (intro ballI impI)
  fix r assume "r \<in> set (memories s)" "retired_row r"
  with assms(1) obtain q where q: "q \<in> set (memories t)" "row_id q = row_id r"
    "dget q ''status'' = dget r ''status''"
    "supersession_pointer q ''superseded_by'' = supersession_pointer r ''superseded_by''"
    by (auto simp: rows_frozen_def)
  with \<open>retired_row r\<close> have "retired_row q" by (simp add: retired_row_def)
  with assms(2) q show "\<exists>r'\<in>set (memories u). row_id r' = row_id r \<and> dget r' ''status'' = dget r ''status''
      \<and> supersession_pointer r' ''superseded_by'' = supersession_pointer r ''superseded_by''"
    unfolding rows_frozen_def by metis
qed

lemma safe_trans: "safe_change s t \<Longrightarrow> safe_change t u \<Longrightarrow> safe_change s u"
  by (auto simp: safe_change_def intro: rows_frozen_trans)

text \<open>The rows of one id are live.\<close>

definition live_in :: "memory_store \<Rightarrow> string \<Rightarrow> bool" where
  "live_in s i \<longleftrightarrow> (\<forall>r\<in>set (memories s). row_id r = i \<longrightarrow> \<not> retired_row r)"

lemma edge_rows_frozen:
  assumes "keeps (edge a b) s t" "live_in s a"
  shows "rows_frozen s t"
  unfolding rows_frozen_def
proof (intro ballI impI)
  fix r assume r: "r \<in> set (memories s)" "retired_row r"
  with assms(2) have "row_id r \<noteq> a" by (auto simp: live_in_def)
  moreover from keeps_after [OF assms(1) r(1)] obtain r' where
    "r' \<in> set (memories t)" "dget r' ''id'' = dget r ''id''" "edge a b r r'" by blast
  ultimately show "\<exists>r'\<in>set (memories t). row_id r' = row_id r \<and> dget r' ''status'' = dget r ''status''
      \<and> supersession_pointer r' ''superseded_by'' = supersession_pointer r ''superseded_by''"
    using r(2) by (intro bexI [of _ r']) (auto simp: edge_def calm_def row_id_def pointer_by_parts)
qed

lemma edge_safe:
  assumes k: "keeps (edge a None) s t" and live: "live_in s a"
  shows "safe_change s t"
proof -
  have "memory_rows.acyclic_rows t" if "store_ok s" "memory_rows.acyclic_rows s"
    by (rule memory_rows.fewer_edges_acyclic [OF that(2)]) (use edge_points_to [OF that(1) k] in auto)
  then show ?thesis using keeps_ok [OF k] edge_rows_frozen [OF k live] by (simp add: safe_change_def)
qed

lemma calm_rows_frozen: "keeps calm s t \<Longrightarrow> rows_frozen s t"
  unfolding rows_frozen_def
proof (intro ballI impI)
  fix r assume k: "keeps calm s t" and r: "r \<in> set (memories s)" "retired_row r"
  from keeps_after [OF k r(1)] obtain r' where
    "r' \<in> set (memories t)" "dget r' ''id'' = dget r ''id''" "calm r r'" by blast
  with r(2) show "\<exists>r'\<in>set (memories t). row_id r' = row_id r \<and> dget r' ''status'' = dget r ''status''
      \<and> supersession_pointer r' ''superseded_by'' = supersession_pointer r ''superseded_by''"
    by (intro bexI [of _ r']) (auto simp: calm_def row_id_def pointer_by_parts)
qed

lemma calm_safe:
  assumes k: "keeps calm s t"
  shows "safe_change s t"
proof -
  have e: "keeps (edge a None) s t" for a by (rule keeps_mono [OF k]) (rule calm_edge)
  have "memory_rows.acyclic_rows t" if "store_ok s" "memory_rows.acyclic_rows s"
    by (rule memory_rows.fewer_edges_acyclic [OF that(2)]) (use edge_points_to [OF that(1) e] in auto)
  then show ?thesis using keeps_ok [OF k] calm_rows_frozen [OF k] by (simp add: safe_change_def)
qed

lemma frame_safe: "memories t = memories s \<Longrightarrow> safe_change s t"
  by (rule calm_safe) (simp add: keeps_refl)

lemma unsigned_calm: "calm r (unsigned_row r)"
proof -
  have "dget (dremove k d) c = dget d c" if "c \<noteq> k" for k c d
    using that by (simp add: dget_def dremove_def map_of_filter_in) (induction d, auto simp: dget_def)
  then show ?thesis
    by (auto simp: calm_def pointer_parts_def memory_metadata_def unsigned_row_def retired_row_def
        EMBEDDING_SIGNATURE_METADATA_KEY_def split: json.split)
qed

lemma clear_calm: "keeps calm s (clear_memory_embedding i s)"
proof -
  have "dget (unsigned_row r) c = dget r c" if "c \<noteq> ''metadata_json''" for r c
    using that by (simp add: unsigned_row_def split: json.split)
  then show ?thesis
    by (simp add: keeps_def clear_memory_embedding_def list_all2_map2 list_all2_same unsigned_calm)
qed

interpretation safe: store_relation safe_change
proof
  fix s t u :: memory_store and tr rn ai tt ti et ay p entry i a l kt ki si q
  show "safe_change s s" "safe_change s (tick s)" "safe_change s (draw s)"
    "safe_change s (append_traced_event tr rn et ay ai tt ti p s)" "safe_change s (append_revision entry i ay s)"
    "safe_change s (request_derived q s)" "safe_change s (upsert_agent_identity a i ay s)"
    "safe_change s (snd (create_provenance_link l kt ki si ay s))"
    by (rule frame_safe, simp)+
  show "safe_change s (clear_memory_embedding i s)" by (rule calm_safe [OF clear_calm])
  show "safe_change s t \<Longrightarrow> safe_change t u \<Longrightarrow> safe_change s u" by (rule safe_trans)
qed

subsection \<open>Updates from a copy of the row\<close>

definition same_pointer :: "memory_store \<Rightarrow> dict \<Rightarrow> bool" where
  "same_pointer s m \<longleftrightarrow> (\<forall>r\<in>set (memories s). row_id r = row_id m \<longrightarrow> pointer_parts r = pointer_parts m)"

definition current :: "memory_store \<Rightarrow> dict \<Rightarrow> bool" where
  "current s m \<longleftrightarrow> same_pointer s m \<and>
     (\<forall>r\<in>set (memories s). row_id r = row_id m \<longrightarrow> (retired_row r \<longleftrightarrow> retired_row m))"

lemma retired_expose [simp]: "retired_row (expose_memory_project_scope r) = retired_row r"
  by (simp add: retired_row_def)

lemma parts_expose [simp]: "pointer_parts (expose_memory_project_scope r) = pointer_parts r"
  by (simp add: pointer_parts_def)

lemma read_current:
  assumes "store_ok s" "get_memory s i = Some m"
  shows "current s m \<and> row_id m = i"
proof -
  from get_memory_row [OF assms(2)] obtain r
    where r: "r \<in> set (memories s)" "m = expose_memory_project_scope r" "live_row i r" by blast
  then have "row_id m = i" by (simp add: live_row_def)
  moreover have "q = r" if "q \<in> set (memories s)" "row_id q = row_id m" for q
    using same_row [OF assms(1) r(1) that(1)] that(2) r(2) by simp
  ultimately show ?thesis using r(2) unfolding current_def same_pointer_def by (metis retired_expose parts_expose)
qed

lemma current_keeps:
  assumes "keeps Q s t" "current s m" "\<And>r r'. row_id r = row_id m \<Longrightarrow> Q r r' \<Longrightarrow> calm r r'"
  shows "current t m"
  unfolding current_def same_pointer_def
proof (intro conjI ballI impI)
  fix r' assume r': "r' \<in> set (memories t)" "row_id r' = row_id m"
  from keeps_before [OF assms(1) r'(1)] obtain r where r:
    "r \<in> set (memories s)" "dget r' ''id'' = dget r ''id''" "Q r r'" by blast
  with r'(2) have "row_id r = row_id m" by (simp add: row_id_def)
  with assms(2,3) r show "pointer_parts r' = pointer_parts m" "retired_row r' \<longleftrightarrow> retired_row m"
    by (auto simp: current_def same_pointer_def calm_def)
qed

lemma same_pointer_keeps:
  assumes "keeps Q s t" "same_pointer s m" "\<And>r r'. row_id r = row_id m \<Longrightarrow> Q r r' \<Longrightarrow> pointer_parts r' = pointer_parts r"
  shows "same_pointer t m"
  unfolding same_pointer_def
proof (intro ballI impI)
  fix r' assume r': "r' \<in> set (memories t)" "row_id r' = row_id m"
  from keeps_before [OF assms(1) r'(1)] obtain r where r:
    "r \<in> set (memories s)" "dget r' ''id'' = dget r ''id''" "Q r r'" by blast
  with r'(2) have "row_id r = row_id m" by (simp add: row_id_def)
  with assms(2,3) r show "pointer_parts r' = pointer_parts m" by (auto simp: same_pointer_def)
qed

lemma current_pointer: "current s m \<Longrightarrow> same_pointer s m" by (simp add: current_def)

lemma pointer_up_to_date: "same_pointer s m \<Longrightarrow> up_to_date s m"
  by (auto simp: same_pointer_def up_to_date_def pointer_parts_def)

lemma current_live: "current s m \<Longrightarrow> \<not> retired_row m \<Longrightarrow> live_in s (row_id m)"
  by (auto simp: current_def live_in_def)

lemma live_status_row: "status_of m \<in> set LIVE_STATUSES \<Longrightarrow> \<not> retired_row m"
  unfolding status_of_def by (rule live_status_not_retired)

text \<open>A patch that repeats the pointer of the copy \<open>m\<close>.\<close>

definition keeps_pointer :: "dict \<Rightarrow> dict \<Rightarrow> bool" where
  "keeps_pointer m patch \<longleftrightarrow> dget patch ''superseded_by'' = JNull \<and>
     (has_key patch ''metadata_json'' \<longrightarrow> (\<exists>d. dget patch ''metadata_json'' = JObj d
        \<and> dget d ''superseded_by'' = dget (memory_metadata m) ''superseded_by''))"

lemma metadata_untouched:
  "\<not> has_key patch ''metadata_json'' \<Longrightarrow> memory_metadata (patched_row now patch r) = memory_metadata r"
  by (simp add: memory_metadata_def dget_patched_row update_columns_def patch_value_def)

lemma keeps_pointer_parts:
  assumes "keeps_pointer m patch" "pointer_parts r = pointer_parts m"
  shows "pointer_parts (patched_row now patch r) = pointer_parts r"
proof (cases "has_key patch ''metadata_json''")
  case True
  with assms obtain d where d: "dget patch ''metadata_json'' = JObj d"
    "dget d ''superseded_by'' = dget (memory_metadata m) ''superseded_by''" by (auto simp: keeps_pointer_def)
  with assms True show ?thesis
    by (simp add: pointer_parts_def pointer_column_patched metadata_patched keeps_pointer_def)
next
  case False
  with assms show ?thesis
    by (simp add: pointer_parts_def pointer_column_patched metadata_untouched keeps_pointer_def)
qed

text \<open>What such an update does: every pointer stays, and the rows of other ids are calm.\<close>

definition settles :: "string \<Rightarrow> dict \<Rightarrow> dict \<Rightarrow> bool" where
  "settles a r r' \<longleftrightarrow> pointer_parts r' = pointer_parts r \<and> (row_id r \<noteq> a \<longrightarrow> calm r r')"

lemma settles_edge: "settles a r r' \<Longrightarrow> edge a None r r'"
  by (simp add: settles_def edge_def)

lemma update_settles:
  assumes "store_ok s" "same_pointer s m" "keeps_pointer m patch"
  shows "keeps (settles (row_id m)) s (snd (update_memory (row_id m) patch ay s))"
  using assms(1)
  by (rule update_memory_keeps)
     (use assms in \<open>auto simp: settles_def live_row_def same_pointer_def keeps_pointer_parts\<close>)

lemma update_calm:
  assumes "store_ok s" "same_pointer s m" "keeps_pointer m patch" "dget patch ''status'' = JNull"
  shows "keeps calm s (snd (update_memory (row_id m) patch ay s))"
  using assms(1)
  by (rule update_memory_keeps)
     (use assms in \<open>auto simp: calm_def live_row_def same_pointer_def keeps_pointer_parts retired_row_def status_patched\<close>)

lemma update_safe:
  assumes "store_ok s" "current s m" "keeps_pointer m patch"
    "dget patch ''status'' = JNull \<or> \<not> retired_row m"
  shows "safe_change s (snd (update_memory (row_id m) patch ay s))"
  using assms(4)
proof
  assume "dget patch ''status'' = JNull"
  from update_calm [OF assms(1) current_pointer [OF assms(2)] assms(3) this] show ?thesis by (rule calm_safe)
next
  assume "\<not> retired_row m"
  from edge_safe [OF keeps_mono [OF update_settles [OF assms(1) current_pointer [OF assms(2)] assms(3)] settles_edge]
      current_live [OF assms(2) this]] show ?thesis .
qed

subsection \<open>Transitions from copies\<close>

text \<open>The walk starts from the copy of the successor, and only its id and its pointer matter.\<close>

lemma walk_from_copy:
  assumes "dget n ''id'' \<noteq> JNull" "dget n' ''id'' \<noteq> JNull" "row_id n' = row_id n"
    "ptr n' ''superseded_by'' = ptr n ''superseded_by''"
  shows "swc_walk load ptr m target n' seen depth = swc_walk load ptr m target n seen depth"
  using assms
  by (subst (1 2) swc_walk.simps) (simp add: row_id_def [symmetric] Let_def)

lemma copy_unreachable:
  assumes ok: "store_ok s" and n: "same_pointer s n"
    and walk: "supersession_would_cycle a n (get_memory s) supersession_pointer d = Inr False"
    and neq: "row_id n \<noteq> a"
  shows "\<not> (points_to (get_memory s) supersession_pointer)\<^sup>*\<^sup>* (row_id n) a"
proof (cases "get_memory s (row_id n)")
  case None
  then show ?thesis using neq by (intro no_edge_unreachable) (auto simp: points_to_def)
next
  case (Some n')
  from read_current [OF ok Some] have id: "row_id n' = row_id n" by simp
  from get_memory_row [OF Some] obtain r where r: "r \<in> set (memories s)" "n' = expose_memory_project_scope r"
    by blast
  with id n have ptr: "supersession_pointer n' ''superseded_by'' = supersession_pointer n ''superseded_by''"
    by (auto simp: same_pointer_def pointer_by_parts)
  from store_ok_keyed [OF ok] Some have id': "dget n' ''id'' \<noteq> JNull" by (auto simp: keyed_store_def)
  have idn: "dget n ''id'' \<noteq> JNull"
    using walk by (auto simp: supersession_would_cycle_def swc_walk.simps split: if_splits)
  from walk have "swc_walk (get_memory s) supersession_pointer d a n' [] 0 = Inr False"
    using walk_from_copy [of n n' supersession_pointer "get_memory s" d a "[]" 0, OF idn id' id ptr]
    by (simp add: supersession_would_cycle_def)
  from swc_walk_False_unreachable [OF store_ok_keyed [OF ok] _ this] Some id show ?thesis by simp
qed

lemma transition_from_copies:
  assumes ok: "store_ok s" and m: "current s m" and n: "\<And>n. ob = Some n \<Longrightarrow> same_pointer s n"
  shows "safe_change s (snd (transition_memory x dated m ob s))
    \<and> (\<forall>k. row_id k \<noteq> row_id m \<longrightarrow> current s k \<longrightarrow> current (snd (transition_memory x dated m ob s)) k)"
proof -
  obtain res t where run: "transition_memory x dated m ob s = (res, t)" by fastforce
  then show ?thesis
  proof (cases rule: transition_outcome)
    case refused
    with run show ?thesis by (simp add: frame_safe)
  next
    case (written target)
    let ?b = "map_option row_id ob"
    have neq: "row_id n \<noteq> row_id m" if "ob = Some n" for n
      using guard_passed [OF written(2) [OF that]] by simp
    have k: "keeps (edge (row_id m) ?b) s t"
      using write_transition_keeps [OF ok pointer_up_to_date [OF current_pointer [OF m]], of ob x dated]
        n neq pointer_up_to_date written(3) by simp
    from resolve_source_live [OF written(1)] have live: "live_in s (row_id m)"
      using current_live [OF m] live_status_row [of m] by (simp add: status_of_def)
    have "memory_rows.acyclic_rows t" if acyc: "memory_rows.acyclic_rows s"
    proof (cases ob)
      case None
      then show ?thesis using edge_points_to [OF ok k] by (intro memory_rows.fewer_edges_acyclic [OF acyc]) auto
    next
      case (Some n')
      note walk = conjunct1 [OF guard_passed [OF written(2) [OF Some]]]
      from copy_unreachable [OF ok n [OF Some] walk neq [OF Some]]
      show ?thesis
        using acyc edge_points_to [OF ok k] Some unfolding memory_rows.acyclic_rows_def
        by (auto intro: acyclicP_add_edge)
    qed
    then have "safe_change s t"
      using keeps_ok [OF k] edge_rows_frozen [OF k live] by (simp add: safe_change_def)
    moreover have "current t k" if "row_id k \<noteq> row_id m" "current s k" for k
      by (rule current_keeps [OF k that(2)]) (use that(1) in \<open>auto simp: edge_def\<close>)
    ultimately show ?thesis using run by simp
  qed
qed

lemmas transition_safe = transition_from_copies [THEN conjunct1]

end
