(* ===== verification/Memory_Guarded.thy ===== *)
theory Memory_Guarded
  imports Memory_Safety
begin

text \<open>
  Every command of the service is a safe change.  A command reads rows first and writes from the copies
  it read, so what it needs to carry along is that the copies are still current: a relation for each set
  of copies that admits the statements which only record something.
\<close>

subsection \<open>Carrying copies\<close>

definition carries :: "dict set \<Rightarrow> memory_store \<Rightarrow> memory_store \<Rightarrow> bool" where
  "carries C s t \<longleftrightarrow> (store_ok s \<longrightarrow> (\<forall>m\<in>C. current s m) \<longrightarrow> store_ok t \<and> (\<forall>m\<in>C. current t m) \<and> safe_change s t)"

definition holding :: "memory_store \<Rightarrow> dict set \<Rightarrow> memory_store \<Rightarrow> bool" where
  "holding u C s \<longleftrightarrow> store_ok s \<and> (\<forall>m\<in>C. current s m) \<and> safe_change u s"

lemma carries_calm: "keeps calm s t \<Longrightarrow> carries C s t"
  by (auto simp: carries_def intro: keeps_ok calm_safe current_keeps)

lemma carries_frame: "memories t = memories s \<Longrightarrow> carries C s t"
  by (rule carries_calm) (simp add: keeps_refl)

interpretation carrying: store_relation "carries C" for C
proof
  fix s t u :: memory_store and tr rn et ay ai tt ti p entry i a l kt ki si q
  show "carries C s s" "carries C s (tick s)" "carries C s (draw s)"
    "carries C s (append_traced_event tr rn et ay ai tt ti p s)" "carries C s (append_revision entry i ay s)"
    "carries C s (request_derived q s)" "carries C s (upsert_agent_identity a i ay s)"
    "carries C s (snd (create_provenance_link l kt ki si ay s))"
    by (rule carries_frame, simp)+
  show "carries C s (clear_memory_embedding i s)" by (rule carries_calm [OF clear_calm])
  show "carries C s t \<Longrightarrow> carries C t u \<Longrightarrow> carries C s u"
    by (auto simp: carries_def intro: safe_trans)
qed

lemma holding_start: "store_ok s \<Longrightarrow> holding s {} s"
  by (simp add: holding_def frame_safe)

lemma holding_safe: "holding u C s \<Longrightarrow> safe_change u s"
  by (simp add: holding_def)

lemma holding_carried: "holding u C s \<Longrightarrow> carries C s t \<Longrightarrow> holding u C t"
  by (auto simp: holding_def carries_def intro: safe_trans)

lemma holding_read: "holding u C s \<Longrightarrow> get_memory s i = Some m \<Longrightarrow> holding u (insert m C) s"
  using read_current by (auto simp: holding_def)

lemma holding_fewer: "holding u C s \<Longrightarrow> D \<subseteq> C \<Longrightarrow> holding u D s"
  by (auto simp: holding_def)

text \<open>The steps of a command, from its start \<open>u\<close>.\<close>

lemma step_require:
  "safe_change u s \<Longrightarrow> (\<And>x. r = Some x \<Longrightarrow> safe_change u (snd (f x s))) \<Longrightarrow>
     safe_change u (snd (and_then (require_row e r s) f))"
  by (cases r) auto

lemma step_raise:
  "safe_change u s \<Longrightarrow> (\<not> b \<Longrightarrow> safe_change u (snd (f () s))) \<Longrightarrow>
     safe_change u (snd (and_then (raise_when b e s) f))"
  by (cases b) auto

lemma step_check:
  "safe_change u s \<Longrightarrow> (\<And>x. r = Inr x \<Longrightarrow> safe_change u (snd (f x s))) \<Longrightarrow>
     safe_change u (snd (and_then (lift_check r s) f))"
  by (cases r) (auto simp: lift_check_def)

lemma step_read:
  "holding u C s \<Longrightarrow> (\<And>m. holding u (insert m C) s \<Longrightarrow> row_id m = i \<Longrightarrow> safe_change u (snd (f m s))) \<Longrightarrow>
     safe_change u (snd (and_then (require_row e (get_memory s i) s) f))"
  by (rule step_require) (auto simp: holding_def intro: holding_read dest: read_current)

lemma step_carried:
  "holding u C s \<Longrightarrow> carries C s (snd c) \<Longrightarrow> (\<And>x t. c = (Inr x, t) \<Longrightarrow> holding u C t \<Longrightarrow> safe_change u (snd (f x t))) \<Longrightarrow>
     safe_change u (snd (and_then c f))"
  using holding_carried holding_safe by (cases c; cases "fst c") fastforce+

lemma step_policy:
  "holding u C s \<Longrightarrow> (\<And>d t. holding u C t \<Longrightarrow> safe_change u (snd (f d t))) \<Longrightarrow>
     safe_change u (snd (and_then (policy_checked_write sv identity action m s) f))"
  by (erule step_carried) (auto intro: carrying.rel_policy carrying.rel_refl)

lemma step_path:
  "holding u C s \<Longrightarrow> (\<And>t. holding u C t \<Longrightarrow> safe_change u (snd (f () t))) \<Longrightarrow>
     safe_change u (snd (and_then (require_project_update_decision_path m s) f))"
  by (erule step_carried) (auto intro: carrying.rel_decision_path carrying.rel_refl)

text \<open>The update of a row from its copy, and what is recorded after it.\<close>

lemma holding_update:
  assumes "holding u C s" "m \<in> C" "keeps_pointer m patch" "dget patch ''status'' = JNull \<or> \<not> retired_row m"
  shows "safe_change u (snd (update_memory (row_id m) patch ay s)) \<and> store_ok (snd (update_memory (row_id m) patch ay s))
    \<and> same_pointer (snd (update_memory (row_id m) patch ay s)) m"
proof -
  let ?t = "snd (update_memory (row_id m) patch ay s)"
  from assms have s: "store_ok s" "current s m" "safe_change u s" by (auto simp: holding_def)
  note k = update_settles [OF s(1) current_pointer [OF s(2)] assms(3)]
  have "same_pointer ?t m"
    by (rule same_pointer_keeps [OF k current_pointer [OF s(2)]]) (simp add: settles_def)
  then show ?thesis
    using keeps_ok [OF k s(1)] safe_trans [OF s(3) update_safe [OF s(1,2) assms(3,4)]] by blast
qed

lemma step_update:
  assumes "holding u C s" "m \<in> C" "keeps_pointer m patch" "dget patch ''status'' = JNull \<or> \<not> retired_row m"
    and "\<And>row t. store_ok t \<Longrightarrow> same_pointer t m \<Longrightarrow> safe_change u t \<Longrightarrow> safe_change u (snd (f row t))"
  shows "safe_change u (snd (and_then (lift_store (update_memory (row_id m) patch ay s)) f))"
proof -
  obtain r t where up: "update_memory (row_id m) patch ay s = (r, t)" by fastforce
  with holding_update [OF assms(1-4), of ay] have "safe_change u t" "store_ok t" "same_pointer t m" by simp_all
  with up assms(5) show ?thesis by (cases r) auto
qed

lemma not_stale_copy: "status_of m \<in> set CONSOLIDATION_ACCEPTABLE_STATUSES \<Longrightarrow> \<not> retired_row m"
  by (rule live_status_row) (auto simp: CONSOLIDATION_ACCEPTABLE_STATUSES_def LIVE_STATUSES_def)

lemma transition_allowed:
  assumes "require_transition operation (status_of m) = Inr x"
  shows "\<not> retired_row m"
proof -
  from assms have "resolve_transition operation (status_of m) = Inr x"
    unfolding require_transition_def by (simp split: sum.split_asm lifecycle_error.split_asm)
  then show ?thesis using resolve_source_live live_status_row by blast
qed

lemma step_transition:
  assumes "holding u C s" "m \<in> C" "\<And>n. ob = Some n \<Longrightarrow> n \<in> C"
  shows "holding u {k \<in> C. row_id k \<noteq> row_id m} (snd (run_transition sv x m ob s))"
proof -
  from assms have s: "store_ok s" "\<And>k. k \<in> C \<Longrightarrow> current s k" "safe_change u s" by (auto simp: holding_def)
  note step = transition_from_copies [OF s(1) s(2) [OF assms(2)], of ob x "sv_dated sv"]
  have n: "\<And>n. ob = Some n \<Longrightarrow> same_pointer s n" using assms(3) s(2) current_pointer by blast
  let ?t = "snd (transition_memory x (sv_dated sv) m ob s)"
  have "holding u {k \<in> C. row_id k \<noteq> row_id m} ?t"
    using step [OF n] s safe_trans [OF s(3)] by (auto simp: holding_def safe_change_def)
  moreover have "snd (run_transition sv x m ob s) = ?t"
    by (cases "transition_memory x (sv_dated sv) m ob s"; cases "fst (transition_memory x (sv_dated sv) m ob s)")
      (auto simp: run_transition_def)
  ultimately show ?thesis by simp
qed

lemma step_command: "(store_ok s \<Longrightarrow> safe_change s t) \<Longrightarrow> safe_change s t"
  by (auto simp: safe_change_def)

subsection \<open>Undo and forget\<close>

lemma forget_safe: "safe_change s (snd (forget sv identity i rs s))"
  unfolding forget_def
  by (rule step_command, rule step_read, erule holding_start, rule step_path, assumption, rule step_policy, assumption,
      rule holding_safe [OF step_transition]) auto

lemma undo_successor_held:
  assumes "holding u C s" "undo_successor sv identity m succ s = (Inr ob, t)"
  shows "\<exists>D. C \<subseteq> D \<and> holding u D t \<and> (\<forall>n. ob = Some n \<longrightarrow> n \<in> D)"
proof (cases succ)
  case None
  with assms show ?thesis by (auto simp: undo_successor_def)
next
  case (Some i)
  with assms(2) obtain n d where n: "get_memory s i = Some n" "ob = Some n"
    "policy_checked_write sv identity ''memory.undo'' n s = (Inr d, t)"
    by (auto simp: undo_successor_def require_project_update_decision_path_def command_succeeds)
  have "carries D s t" for D using n(3) carrying.rel_policy [OF carrying.rel_refl, of D s sv identity "''memory.undo''" n] by simp
  from holding_carried [OF holding_read [OF assms(1) n(1)] this] n(2) show ?thesis by blast
qed

lemma undo_safe: "safe_change s (snd (undo sv identity i rs j s))"
proof (rule step_command)
  assume ok: "store_ok s"
  have "safe_change s (snd (and_then (undo_successor sv identity m j t) (\<lambda>ob t. run_transition sv x m ob t)))"
    if "holding s {m} t" for m x t
  proof (rule step_carried [OF that])
    show "carries {m} t (snd (undo_successor sv identity m j t))"
      unfolding undo_successor_def
      by (intro carrying.rel_flow carrying.rel_parts carrying.rel_refl)
  next
    fix ob v assume r: "undo_successor sv identity m j t = (Inr ob, v)"
    from undo_successor_held [OF that r] obtain D where "{m} \<subseteq> D" "holding s D v" "\<forall>n. ob = Some n \<longrightarrow> n \<in> D" by blast
    then show "safe_change s (snd (run_transition sv x m ob v))"
      by (intro holding_safe [OF step_transition, of s D]) auto
  qed
  note rest = this
  show "safe_change s (snd (undo sv identity i rs j s))"
    unfolding undo_def
    by (rule step_require, rule holding_safe [OF holding_start [OF ok]], rule step_read, rule holding_start [OF ok],
        rule step_path, assumption, rule step_policy, assumption, rule rest, assumption)
qed

subsection \<open>Correction and the validity window\<close>

lemma metadata_keeps_pointer:
  "dget patch ''superseded_by'' = JNull \<Longrightarrow> has_key patch ''metadata_json'' \<Longrightarrow>
     dget patch ''metadata_json'' = JObj (dset k v (memory_metadata m)) \<Longrightarrow> k \<noteq> ''superseded_by'' \<Longrightarrow> keeps_pointer m patch"
  by (simp add: keeps_pointer_def)

lemma correction_keeps_pointer: "keeps_pointer m (correction_patch now t rs m)"
  by (auto simp: keeps_pointer_def correction_patch_def)

lemma correct_safe: "safe_change s (snd (correct sv identity i t rs s))"
proof (rule step_command)
  assume ok: "store_ok s"
  have inv: "carries C v (snd (lift_store (invalidate_pending_derived_candidates a ag r ex v)))" if "store_ok v" for C v a ag r ex
    using carries_calm [OF invalidation_keeps [OF that]] by simp
  show "safe_change s (snd (correct sv identity i t rs s))"
    unfolding correct_def Let_def
    by (rule step_read, rule holding_start [OF ok], rule step_path, assumption, rule step_policy, assumption,
        rule step_check, erule holding_safe, rule step_raise, erule holding_safe, rule step_check, erule holding_safe,
        rule step_carried, assumption, rule inv, simp add: holding_def, rule step_update,
        erule holding_carried, rule carries_frame, simp, simp, rule correction_keeps_pointer,
        erule disjI2 [OF transition_allowed], intro safe.rel_return safe.rel_parts safe.rel_refresh)
qed

lemma expire_safe: "safe_change s (snd (expire sv identity i v rs s))"
proof (rule step_command)
  assume ok: "store_ok s"
  have now: "carries C t (snd (expiry_instant w t))" for C w t
    by (rule carrying.rel_instant [OF carrying.rel_refl])
  show "safe_change s (snd (expire sv identity i v rs s))"
    unfolding expire_def Let_def
    by (rule step_read, rule holding_start [OF ok], rule step_policy, assumption,
        rule step_check, erule holding_safe, rule step_check, erule holding_safe,
        rule step_carried, assumption, rule now, rule step_update,
        erule holding_carried, rule carries_frame, simp, simp, simp add: keeps_pointer_def, simp,
        intro safe.rel_return safe.rel_parts)
qed

lemma reopen_safe:
  assumes h: "holding u C s" and m: "m \<in> C" and live: "\<not> retired_row m"
  shows "safe_change u (snd (reopen_window identity now rs m restored s))"
proof -
  have more: "safe_change u (snd (lift_store (update_memory (row_id m) patch ay t)))"
    if "store_ok t" "same_pointer t m" "safe_change u t" "keeps_pointer m patch" "dget patch ''status'' = JNull" for patch ay t
    using safe_trans [OF that(3) calm_safe [OF update_calm [OF that(1,2,4,5)]]] by simp
  show ?thesis
    unfolding reopen_window_def Let_def
    by (rule step_update [OF h m], simp add: keeps_pointer_def, simp add: live, rule safe.rel_if, rule more,
        assumption, assumption, assumption, simp add: keeps_pointer_def, simp, rule safe.rel_return)
qed

lemma unexpire_safe: "safe_change s (snd (unexpire sv identity i rs s))"
proof (rule step_command)
  assume ok: "store_ok s"
  have after: "safe_change u (snd (and_then c f))"
    if "safe_change u (snd c)" "\<And>x t. safe_change u t \<Longrightarrow> safe_change u (snd (f x t))"
    for u and c :: "(service_error + dict) \<times> memory_store" and f :: "dict \<Rightarrow> dict command"
    by (rule safe.rel_and_then [OF that])
  show "safe_change s (snd (unexpire sv identity i rs s))"
    unfolding unexpire_def Let_def
    by (rule step_read, rule holding_start [OF ok], rule step_policy, assumption,
        rule step_check, erule holding_safe, rule step_check, erule holding_safe,
        rule safe.rel_if, rule safe.rel_return, erule holding_safe, rule after, rule reopen_safe,
        erule holding_carried, rule carries_frame, simp, simp, erule transition_allowed,
        intro safe.rel_return safe.rel_parts)
qed

subsection \<open>Confirmation\<close>

lemma refresh_confirmed_safe:
  assumes "holding u C s" "m \<in> C"
  shows "safe_change u (snd (refresh_last_confirmed identity m a rs md s))"
  unfolding refresh_last_confirmed_def Let_def
  by (rule step_update [OF holding_carried [OF assms(1)] assms(2)], rule carries_frame, simp,
      simp add: keeps_pointer_def, simp, intro safe.rel_return safe.rel_parts)

lemma expire_confirmation_safe:
  assumes "holding u C s" "m \<in> C"
  shows "safe_change u (snd (expire_confirmation identity i m s))"
  unfolding expire_confirmation_def Let_def
  by (rule step_check, rule holding_safe [OF assms(1)],
      rule step_update [OF holding_carried [OF assms(1)] assms(2)], rule carries_frame, simp,
      simp add: keeps_pointer_def expiry_patch_def Let_def, rule disjI2, erule transition_allowed,
      intro safe.rel_return safe.rel_parts)

lemma settle_safe:
  assumes "holding u C s" "m \<in> C"
  shows "safe_change u (snd (settle_confirmation identity i a t rs m s))"
proof -
  have ptr: "keeps_pointer m (decision_patch now a next_text rs m)" for now next_text
    by (simp add: keeps_pointer_def decision_patch_def)
  have given: "carries C v (snd (case t of None \<Rightarrow> (Inr (text_of m), v) | Some w \<Rightarrow> lift_check (normalized_text (JStr w) c) v))" for v c
    by (rule carrying.rel_option; rule carries_frame; simp)
  show ?thesis
    unfolding settle_confirmation_def Let_def
    by (rule step_check, rule holding_safe [OF assms(1)], rule step_carried [OF assms(1)], rule given,
        rule step_update [OF holding_carried assms(2)], assumption, rule carries_frame, simp, rule ptr,
        rule disjI2, erule transition_allowed, intro safe.rel_return safe.rel_parts safe.rel_refresh safe.rel_if_store)
qed

lemma confirm_safe: "safe_change s (snd (confirm sv identity i a t rs s))"
proof (rule step_command)
  assume ok: "store_ok s"
  have late: "carries C v (snd (confirmation_expired raw v))" for C v raw
    by (rule carrying.rel_expired [OF carrying.rel_refl])
  have replay: "safe_change u (snd (and_then (replay_confirmation identity m c i b v)
      (\<lambda>r s. require_row (invalid ''confirmation is not pending'') r s)))" if "holding u {m} v" for u m c b v
    unfolding replay_confirmation_def
    by (intro safe.rel_and_then safe.rel_if safe.rel_return safe.rel_require refresh_confirmed_safe [OF that] holding_safe [OF that]) simp_all
  show "safe_change s (snd (confirm sv identity i a t rs s))"
    unfolding confirm_def Let_def
    by (rule step_raise, rule holding_safe [OF holding_start [OF ok]], rule step_require,
        rule holding_safe [OF holding_start [OF ok]], rule step_read, rule holding_start [OF ok],
        rule step_policy, assumption, rule safe.rel_if, erule replay,
        rule step_carried, assumption, rule late, rule safe.rel_if, erule expire_confirmation_safe, simp,
        erule settle_safe, simp)
qed

subsection \<open>Acceptance\<close>

lemma lock_members_held:
  "lock_members sv identity p ids s = (Inr locked, t) \<Longrightarrow> holding u C s \<Longrightarrow>
     holding u (C \<union> snd ` set locked) t \<and> (\<forall>(i, m)\<in>set locked. row_id m = i)"
proof (induction ids arbitrary: C s locked)
  case Nil
  then show ?case by auto
next
  case (Cons i ids)
  show ?case
  proof (cases "get_memory s i")
    case None
    with Cons.prems(1) have "lock_members sv identity p ids s = (Inr locked, t)" by (simp split: if_splits)
    from Cons.IH [OF this Cons.prems(2)] show ?thesis .
  next
    case (Some m)
    from Cons.prems(1) Some obtain s1 rest where r:
      "authorize_member sv identity p i m s = (Inr (), s1)"
      "lock_members sv identity p ids s1 = (Inr rest, t)" "locked = (i, m) # rest"
      by (auto simp: command_succeeds)
    have "carries D s s1" for D
      using r(1) carrying.rel_policy [OF carrying.rel_refl, of D s sv identity "''memory.accept_consolidation''" m]
      by (auto simp: authorize_member_def command_succeeds carrying.rel_refl split: if_splits)
    then have "holding u (insert m C) s1" using holding_carried [OF holding_read [OF Cons.prems(2) Some]] by blast
    from Cons.IH [OF r(2) this] r(3) have "holding u (C \<union> snd ` set locked) t"
      "\<forall>(j, n)\<in>set rest. row_id n = j" by simp_all
    moreover have "row_id m = i" using read_current Some Cons.prems(2) by (auto simp: holding_def)
    ultimately show ?thesis using r(3) by auto
  qed
qed

lemma supersede_members_held:
  "distinct ids \<Longrightarrow> row_id m \<notin> set ids \<Longrightarrow> \<forall>(i, n)\<in>set locked. row_id n = i \<Longrightarrow>
     holding u (insert m {n. (row_id n, n) \<in> set locked \<and> row_id n \<in> set ids}) s \<Longrightarrow>
     holding u {m} (snd (supersede_members sv identity m locked ids s))"
proof (induction ids arbitrary: s)
  case Nil
  then show ?case by (auto intro: holding_fewer)
next
  case (Cons i ids)
  let ?left = "insert m {n. (row_id n, n) \<in> set locked \<and> row_id n \<in> set ids}"
  have rest: "holding u {m} (snd (and_then (supersede_members sv identity m locked ids t) (\<lambda>(a, b) s. (Inr (f a b), s))))"
    if "holding u ?left t" for t and f :: "string list \<Rightarrow> json list \<Rightarrow> string list \<times> json list"
    by (rule snd_and_then) (use Cons.IH [OF _ _ Cons.prems(3) that] Cons.prems(1,2) in auto)
  have fewer: "holding u ?left s" by (rule holding_fewer [OF Cons.prems(4)]) auto
  show ?case
  proof (cases "map_of locked i")
    case None
    then show ?thesis using rest [OF fewer] by simp
  next
    case (Some n)
    then have n: "(i, n) \<in> set locked" by (rule map_of_SomeD)
    with Cons.prems(3) have id: "row_id n = i" by auto
    let ?t = "snd (run_transition sv (member_request identity (row_id m)) n (Some m) s)"
    have "holding u ?left ?t"
      by (rule holding_fewer [OF step_transition [OF Cons.prems(4)]]) (use n id Cons.prems(1,2) in auto)
    then have "holding u {m} (snd (and_then (run_transition sv (member_request identity (row_id m)) n (Some m) s)
        (\<lambda>_ s. and_then (supersede_members sv identity m locked ids s) (\<lambda>(a, b) s. (Inr (i # a, b), s)))))"
      by (rule_tac snd_and_then) (auto intro: holding_fewer rest)
    then show ?thesis using Some rest [OF fewer] by simp
  qed
qed

lemma proposed_retirements:
  "read_proposal m c = Inr p \<Longrightarrow> distinct (pr_retire p) \<and> row_id m \<notin> set (pr_retire p)"
  by (auto simp: read_proposal_def proposed_members_def Let_def bind_res_eq_Inr_iff)

lemma acceptance_keeps_pointer: "keeps_pointer m (acceptance_patch identity now rs p m c done skips)"
  by (auto simp: keeps_pointer_def acceptance_patch_def Let_def split: option.split)

lemma promote_safe:
  assumes "holding u C s" "m \<in> C" "\<not> retired_row m"
  shows "safe_change u (snd (promote_candidate identity d rs p m c out s))"
  unfolding promote_candidate_def Let_def
  by (rule step_update [OF holding_carried [OF assms(1)] assms(2)], rule carries_frame, simp,
      rule acceptance_keeps_pointer, rule disjI2, rule assms(3), intro safe.rel_return safe.rel_parts safe.rel_refresh)

lemma merge_safe:
  assumes h: "holding u {m} s"
  shows "safe_change u (snd (merge_candidate sv identity d rs m c s))"
proof -
  have members: "carries D t (snd (lock_members sv identity p ids t))"
    and scopes: "carries D t (snd (check_scopes p m locked t))"
    and snaps: "carries D t (snd (check_snapshots p t))" for D p ids t locked
    by (rule carrying.rel_pieces [OF carrying.rel_refl])+
  have retire: "safe_change u (snd (and_then (supersede_members sv identity m locked (pr_retire p) t)
      (\<lambda>out s. promote_candidate identity d r p m c out s)))"
    if p: "read_proposal m c = Inr p" and l: "holding u ({m} \<union> snd ` set locked) t"
      "\<forall>(i, n)\<in>set locked. row_id n = i" and live: "\<not> retired_row m" for p locked t r
  proof -
    have "holding u (insert m {n. (row_id n, n) \<in> set locked \<and> row_id n \<in> set (pr_retire p)}) t"
      by (rule holding_fewer [OF l(1)]) force
    from supersede_members_held [OF _ _ l(2) this] proposed_retirements [OF p]
    have held: "holding u {m} (snd (supersede_members sv identity m locked (pr_retire p) t))" by blast
    obtain res v where run: "supersede_members sv identity m locked (pr_retire p) t = (res, v)" by fastforce
    with held have "holding u {m} v" by simp
    with run show ?thesis by (cases res) (simp_all add: holding_safe promote_safe live)
  qed
  show ?thesis
    unfolding merge_candidate_def
    apply (rule step_raise, rule holding_safe [OF h])
    apply (rule step_raise, rule holding_safe [OF h])
    apply (rule step_check, rule holding_safe [OF h])
    apply (rule step_check, rule holding_safe [OF h])
    apply (rule step_carried [OF h], rule snaps)
    apply (rule step_carried, assumption, rule members)
    apply (drule lock_members_held, assumption)
    apply (rule step_carried, erule conjunct1, rule scopes)
    apply (rule retire, assumption, assumption, erule conjunct2)
    apply (simp add: not_stale_copy)
    done
qed

lemma accept_safe: "safe_change s (snd (accept_consolidation_candidate sv identity i rs s))"
proof (rule step_command)
  assume ok: "store_ok s"
  show "safe_change s (snd (accept_consolidation_candidate sv identity i rs s))"
    unfolding accept_consolidation_candidate_def
    by (rule step_read, rule holding_start [OF ok], rule step_policy, assumption, rule step_require,
        erule holding_safe, rule safe.rel_option, erule merge_safe, rule safe.rel_proposal_checks, erule holding_safe)
qed

subsection \<open>Commit\<close>

text \<open>A row without a pointer changes no other row and adds no edge.\<close>

lemma created_pointer:
  assumes "pointer_free row"
  shows "pointer_of_parts (pointer_parts (created_row s row)) = None"
proof -
  have "dget (created_row s row) ''superseded_by'' = dget row ''superseded_by''"
    "dget (created_row s row) ''metadata_json'' = JObj (canonical_memory_metadata row)"
    by (simp_all add: created_row_def Let_def)
  moreover have "dget (canonical_memory_metadata row) ''superseded_by'' = dget (memory_metadata row) ''superseded_by''"
    by (simp add: canonical_memory_metadata_def memory_metadata_def Let_def)
  ultimately show ?thesis using assms
    by (simp add: pointer_parts_def memory_metadata_def pointer_free_def pointer_of_parts_def)
qed

lemma create_safe:
  assumes "pointer_free row"
  shows "safe_change s (snd (create_memory row ay s))"
proof (cases "row_checks (created_row s row) \<and> \<not> list_ex (\<lambda>r. conflicts r (created_row s row)) (memories s)")
  case True
  let ?t = "snd (create_memory row ay s)"
  from True have mem: "memories ?t = memories s @ [created_row s row]"
    by (simp add: create_memory_def Let_def)
  have ok: "store_ok ?t" if "store_ok s"
    using create_kept [of s row ay] that by (simp add: rows_kept_def)
  have "memory_rows.acyclic_rows ?t" if "store_ok s" "memory_rows.acyclic_rows s"
    by (rule memory_rows.fewer_edges_acyclic [OF that(2)])
       (auto simp: points_to_rows [OF ok [OF that(1)]] points_to_rows [OF that(1)] mem created_pointer [OF assms])
  then show ?thesis using ok by (auto simp: safe_change_def rows_frozen_def mem)
next
  case False
  then show ?thesis by (intro frame_safe) (auto simp: create_memory_def Let_def)
qed

interpretation creating: creation_relation safe_change
  by unfold_locales (rule create_safe)

lemma commit_safe: "(\<And>v. safe_change v (race v)) \<Longrightarrow> safe_change s (snd (commit sv race identity r s))"
  by (rule creating.rel_commit) (auto intro: safe.rel_refl)

subsection \<open>Quarantine\<close>

lemma sweep_one_safe: "safe_change s (snd (sweep_one sv identity rs dry i s))"
  by (simp add: sweep_one_def Let_def expire_safe safe.rel_refl split: option.split)

lemma sweep_all_safe: "safe_change u s \<Longrightarrow> safe_change u (snd (sweep_all sv identity rs dry ids s))"
proof (induction ids arbitrary: s)
  case (Cons i ids)
  show ?case
    unfolding sweep_all.simps
    by (intro safe.rel_and_then safe.rel_return Cons.IH safe_trans [OF Cons.prems sweep_one_safe]; assumption)
qed simp

lemma quarantine_safe: "safe_change s (snd (quarantine_by_agent_key sv identity a rs since until dry s))"
  unfolding quarantine_by_agent_key_def
  by (intro safe.rel_flow safe.rel_side safe.rel_pieces safe.rel_refl sweep_all_safe; assumption)

end
