(* ===== verification/Memory_History.thy ===== *)
theory Memory_History
  imports Memory_Guarded
begin

text \<open>
  Histories of the memory service: any sequence of its commands, with any arguments, whether they return
  or raise.  A raise may also be rolled back by the caller, which is no step at all.  A commit may run
  beside other commands that finish between its lookup of the idempotency key and its insertion.
\<close>

subsection \<open>Commands and histories\<close>

datatype memory_command =
    CommitMemory "agent_identity option" commit_request "memory_command list"
  | ConfirmMemory "agent_identity option" string string "string option" "string option"
  | UndoMemory "agent_identity option" "string option" "string option" "string option"
  | CorrectMemory "agent_identity option" string string "string option"
  | ForgetMemory "agent_identity option" string "string option"
  | ExpireMemory "agent_identity option" string json string
  | UnexpireMemory "agent_identity option" string string
  | AcceptConsolidation "agent_identity option" string string
  | QuarantineAgent "agent_identity option" string string "string option" "string option" bool
  | RefreshReviewed dict string

fun run_command :: "memory_service \<Rightarrow> memory_command \<Rightarrow> dict command"
  and run_commands :: "memory_service \<Rightarrow> memory_command list \<Rightarrow> memory_store \<Rightarrow> memory_store" where
  "run_command sv (CommitMemory identity r beside) s = commit sv (\<lambda>s. run_commands sv beside s) identity r s"
| "run_command sv (ConfirmMemory identity i action new_text rationale) s =
     confirm sv identity i action new_text rationale s"
| "run_command sv (UndoMemory identity i reason successor) s = undo sv identity i reason successor s"
| "run_command sv (CorrectMemory identity i new_text reason) s = correct sv identity i new_text reason s"
| "run_command sv (ForgetMemory identity i reason) s = forget sv identity i reason s"
| "run_command sv (ExpireMemory identity i closing reason) s = expire sv identity i closing reason s"
| "run_command sv (UnexpireMemory identity i reason) s = unexpire sv identity i reason s"
| "run_command sv (AcceptConsolidation identity i reason) s = accept_consolidation_candidate sv identity i reason s"
| "run_command sv (QuarantineAgent identity agent reason since until dry_run) s =
     quarantine_by_agent_key sv identity agent reason since until dry_run s"
| "run_command sv (RefreshReviewed memory stage) s = (Inr [], refresh_after_review memory stage s)"
| "run_commands sv [] s = s"
| "run_commands sv (c # cs) s = run_commands sv cs (snd (run_command sv c s))"

inductive command_step :: "memory_store \<Rightarrow> memory_store \<Rightarrow> bool" where
  "command_step s (snd (run_command sv c s))"

inductive_cases command_stepE: "command_step s t"

context write_relation
begin

lemma rel_commands:
  "R s (snd (run_command sv c s))" "R s (run_commands sv cs s)"
proof (induction sv c s and sv cs s rule: run_command_run_commands.induct)
  case (1 sv identity r beside s)
  then show ?case by (simp add: rel_commit rel_refl)
next
  case (12 sv c cs s)
  then show ?case by (auto intro: rel_trans)
qed (simp_all add: rel_confirm rel_undo rel_correct rel_forget rel_expire rel_unexpire rel_accept rel_quarantine
    rel_refl refresh_after_review_def rel_refresh)

lemma rel_history: "command_step\<^sup>*\<^sup>* s t \<Longrightarrow> R s t"
  by (induction rule: rtranclp_induct) (auto elim!: command_stepE intro: rel_refl rel_trans rel_commands)

end

lemma safe_commands:
  "safe_change s (snd (run_command sv c s))" "safe_change s (run_commands sv cs s)"
proof (induction sv c s and sv cs s rule: run_command_run_commands.induct)
  case (1 sv identity r beside s)
  then show ?case by (simp add: commit_safe)
next
  case (12 sv c cs s)
  then show ?case by (auto intro: safe_trans)
qed (simp_all add: confirm_safe undo_safe correct_safe forget_safe expire_safe unexpire_safe accept_safe
    quarantine_safe safe.rel_refl refresh_after_review_def safe.rel_refresh)

lemma safe_history: "command_step\<^sup>*\<^sup>* s t \<Longrightarrow> safe_change s t"
  by (induction rule: rtranclp_induct) (auto elim!: command_stepE intro: safe.rel_refl safe_trans safe_commands)

subsection \<open>A service and a history\<close>

definition demo_service :: memory_service where
  "demo_service = \<lparr>sv_scanners = demo_scanners, sv_dated = (\<lambda>_. None), sv_settings = None, sv_owner_verified = False\<rparr>"

text \<open>A commit beside which \<open>a\<close> is forgotten, then the undo of \<open>a\<close> in favour of \<open>b\<close>.\<close>

definition demo_commands :: "memory_command list" where
  "demo_commands =
     [CommitMemory None demo_commit [ForgetMemory None ''a'' None], UndoMemory None (Some ''a'') None (Some ''b'')]"

definition demo_history :: "memory_store \<Rightarrow> memory_store" where
  "demo_history s = run_commands demo_service demo_commands s"

lemma run_commands_steps: "command_step\<^sup>*\<^sup>* s (run_commands sv cs s)"
proof (induction cs arbitrary: s)
  case (Cons c cs)
  from converse_rtranclp_into_rtranclp [OF command_step.intros Cons] show ?case by simp
qed simp

lemma demo_history_steps: "command_step\<^sup>*\<^sup>* s (demo_history s)"
  unfolding demo_history_def by (rule run_commands_steps)

text \<open>The same store, its first row written by a commit with the key \<open>k\<close>.\<close>

definition keyed_row :: dict where
  "keyed_row = demo_row ''a'' @ [(''memory_key'', JStr ''agentic_memory.semantic.k''), (''commit_digest'', JStr ''k'')]"

definition keyed_memories :: memory_store where
  "keyed_memories = demo_memories\<lparr>memories := [keyed_row, demo_row ''b'']\<rparr>"

lemma keyed_ok: "store_ok keyed_memories" "unique_keys keyed_memories"
  by (simp_all add: store_ok_def keyed_memories_def row_id_def demo_row_def keyed_row_def unique_keys_def conflicts_def)

lemma persistent_row:
  "rows_persist s t \<Longrightarrow> r \<in> set (memories s) \<Longrightarrow> \<exists>r'\<in>set (memories t). same_identity r r'"
  unfolding rows_persist_def list_all2_conv_all_nth in_set_conv_nth
  by (elim exE conjE) (auto simp: nth_append intro!: bexI [OF _ nth_mem])

subsection \<open>Properties\<close>

text \<open>
  C3:
  the replacements among memories stay acyclic.  From a store whose rows carry their own ids and whose
  pointers have no cycle, no sequence of commands of the service (commit, confirm, undo, correct, forget,
  expire, unexpire, acceptance of a consolidation, quarantine), whatever their arguments and agents,
  whether they return or raise, and whatever ran beside a commit, leads to a store in which a chain of
  \<open>superseded_by\<close> pointers returns to its start.
\<close>

theorem commands_keep_pointers_acyclic:
  assumes "store_ok s" and "acyclicP (points_to (get_memory s) supersession_pointer)"
    and "command_step\<^sup>*\<^sup>* s t"
  shows "store_ok t \<and> acyclicP (points_to (get_memory t) supersession_pointer)"
  using safe_history [OF assms(3)] assms(1,2) by (simp add: safe_change_def memory_rows.acyclic_rows_def)

theorem commands_keep_pointers_acyclic_witness:
  "store_ok (demo_history demo_memories)
    \<and> acyclicP (points_to (get_memory (demo_history demo_memories)) supersession_pointer)"
  by (rule commands_keep_pointers_acyclic [OF demo_store_ok demo_memories_acyclic demo_history_steps])

text \<open>
  C4:
  a retired memory stays retired.  Whatever commands are run afterwards, on whatever rows, the row
  keeps its id, its superseded, rejected or archived status and the memory that replaced it.
\<close>

theorem commands_freeze_retired:
  assumes "store_ok s" and "command_step\<^sup>*\<^sup>* s t" and "r \<in> set (memories s)"
    and "dget r ''status'' \<in> JStr ` set RETIRED_STATUSES"
  shows "\<exists>r'\<in>set (memories t). row_id r' = row_id r \<and> dget r' ''status'' = dget r ''status''
    \<and> supersession_pointer r' ''superseded_by'' = supersession_pointer r ''superseded_by''"
  using safe_history [OF assms(2)] assms(1,3,4) by (simp add: safe_change_def rows_frozen_def retired_row_def)

theorem commands_freeze_retired_witness:
  "\<exists>r'\<in>set (memories (demo_history demo_memories)). row_id r' = row_id demo_retired
    \<and> dget r' ''status'' = dget demo_retired ''status''
    \<and> supersession_pointer r' ''superseded_by'' = supersession_pointer demo_retired ''superseded_by''"
  by (rule commands_freeze_retired [OF demo_store_ok demo_history_steps])
     (simp_all add: demo_memories_def demo_retired_def RETIRED_STATUSES_def)

text \<open>
  C20:
  the audit trail is append-only.  No command removes, changes or reorders an event, a revision of a
  memory or a provenance link, and none touches the sources.
\<close>

theorem commands_only_append:
  assumes "command_step\<^sup>*\<^sup>* s t"
  shows "prefix (event_log s) (event_log t) \<and> prefix (revisions s) (revisions t)
    \<and> prefix (provenance s) (provenance t) \<and> sources t = sources s"
  using log.rel_history [OF assms] by (simp add: log_grows_def)

theorem commands_only_append_witness:
  "prefix (event_log demo_memories) (event_log (demo_history demo_memories))
    \<and> prefix (revisions demo_memories) (revisions (demo_history demo_memories))
    \<and> prefix (provenance demo_memories) (provenance (demo_history demo_memories))
    \<and> sources (demo_history demo_memories) = sources demo_memories"
  by (rule commands_only_append [OF demo_history_steps])

text \<open>
  C17:
  the revisions of a memory are numbered from one without a gap or a duplicate, in the order in which
  they were written, and every command keeps it so.
\<close>

theorem revisions_numbered_without_gap:
  assumes "numbered s" and "command_step\<^sup>*\<^sup>* s t"
  shows "map (\<lambda>r. json_int (dget r ''revision_number'')) (revisions_of i t)
    = map int [1..<Suc (length (revisions_of i t))]"
  using numbers.rel_history [OF assms(2)] assms(1)
  by (simp add: keeps_numbers_def numbered_def revision_numbers_def)

theorem revisions_numbered_without_gap_witness:
  "map (\<lambda>r. json_int (dget r ''revision_number'')) (revisions_of ''a'' (demo_history demo_memories))
    = map int [1..<Suc (length (revisions_of ''a'' (demo_history demo_memories)))]"
  by (rule revisions_numbered_without_gap [OF _ demo_history_steps])
     (simp add: numbered_def revision_numbers_def revisions_of_def demo_memories_def)

text \<open>
  C18:
  an idempotency key names at most one memory.  Whatever commands are run, also beside each other, two
  stored rows with the same commit digest are the same row.
\<close>

theorem one_memory_per_key:
  assumes "store_ok s" and "unique_keys s" and "command_step\<^sup>*\<^sup>* s t"
    and "r \<in> set (memories t)" and "q \<in> set (memories t)"
    and "dget r ''commit_digest'' = JStr k" and "dget q ''commit_digest'' = JStr k"
  shows "r = q"
  using kept.rel_history [OF assms(3)] assms(1,2,4-7)
  by (auto simp: rows_kept_def unique_keys_def intro: unique_digest)

theorem one_memory_per_key_witness:
  "\<exists>!r. r \<in> set (memories (demo_history keyed_memories)) \<and> dget r ''commit_digest'' = JStr ''k''"
proof -
  have "rows_persist keyed_memories (demo_history keyed_memories)"
    using kept.rel_history [OF demo_history_steps, of keyed_memories] keyed_ok by (simp add: rows_kept_def)
  from persistent_row [OF this, of keyed_row] obtain r
    where "r \<in> set (memories (demo_history keyed_memories))" "same_identity keyed_row r"
    by (auto simp: keyed_memories_def)
  then have r: "r \<in> set (memories (demo_history keyed_memories))" "dget r ''commit_digest'' = JStr ''k''"
    by (simp_all add: same_identity_def identity_columns_def keyed_row_def demo_row_def)
  then show ?thesis
    using one_memory_per_key [OF keyed_ok demo_history_steps _ _ _ r(2)] by blast
qed

text \<open>
  C19:
  no memory is lost.  After any commands every row is still stored, in its place, with its id, its
  memory key, its commit digest, its confirmation id, its author and its time of creation, and a deleted
  row has not changed at all.
\<close>

theorem rows_never_lost:
  assumes "store_ok s" and "command_step\<^sup>*\<^sup>* s t" and "n < length (memories s)"
  shows "n < length (memories t) \<and> same_identity (memories s ! n) (memories t ! n)"
proof -
  from kept.rel_history [OF assms(2)] assms(1) obtain old new
    where "memories t = old @ new" "list_all2 same_identity (memories s) old"
    by (auto simp: rows_kept_def rows_persist_def)
  with assms(3) show ?thesis by (auto simp: list_all2_conv_all_nth nth_append)
qed

theorem rows_never_lost_witness:
  "2 < length (memories (demo_history demo_memories))
    \<and> same_identity (memories demo_memories ! 2) (memories (demo_history demo_memories) ! 2)"
  by (rule rows_never_lost [OF demo_store_ok demo_history_steps]) (simp add: demo_memories_def)

end
