(* ===== verification/Memory_Trail.thy ===== *)
theory Memory_Trail
  imports Memory_History
begin

text \<open>
  No silent change: a command that returns has written, for every memory whose status, text, value or
  window it changed, a new revision of this memory.  While a command runs it may owe revisions to the
  rows it has updated; the relation \<open>owing D\<close> admits that the rows of the ids \<open>D\<close> have changed without
  one.
\<close>

subsection \<open>Owing a revision\<close>

definition audited_columns :: "string list" where
  [model_defs]: "audited_columns =
    [''status'', ''title'', ''canonical_text'', ''summary'', ''value'', ''confirmation_status'', ''confidence'',
     ''domain'', ''sensitivity'', ''valid_from'', ''valid_to'', ''superseded_by'']"

definition same_content :: "dict \<Rightarrow> dict \<Rightarrow> bool" where
  "same_content r r' \<longleftrightarrow> (\<forall>c\<in>set audited_columns. dget r' c = dget r c)"

definition revised :: "string \<Rightarrow> memory_store \<Rightarrow> memory_store \<Rightarrow> bool" where
  "revised i s t \<longleftrightarrow> length (revisions_of i s) < length (revisions_of i t)"

definition paid :: "string set \<Rightarrow> memory_store \<Rightarrow> memory_store \<Rightarrow> dict \<Rightarrow> dict \<Rightarrow> bool" where
  "paid D s t r r' \<longleftrightarrow> row_id r \<in> D \<or> same_content r r' \<or> revised (row_id r) s t"

definition owing :: "string set \<Rightarrow> memory_store \<Rightarrow> memory_store \<Rightarrow> bool" where
  "owing D s t \<longleftrightarrow> (store_ok s \<longrightarrow> store_ok t \<and> prefix (revisions s) (revisions t)
     \<and> (\<forall>r\<in>set (memories s). \<exists>r'\<in>set (memories t). row_id r' = row_id r \<and> paid D s t r r'))"

lemma same_content_refl [simp]: "same_content r r" by (simp add: same_content_def)

lemma same_content_trans: "same_content r r' \<Longrightarrow> same_content r' r'' \<Longrightarrow> same_content r r''"
  by (simp add: same_content_def)

lemma revisions_of_prefix: "prefix (revisions s) (revisions t) \<Longrightarrow> length (revisions_of i s) \<le> length (revisions_of i t)"
  by (auto simp: revisions_of_def prefix_def)

lemma owing_trans:
  assumes "owing D s t" "owing D t u"
  shows "owing D s u"
  unfolding owing_def
proof (intro impI conjI ballI)
  assume ok: "store_ok s"
  with assms have t: "store_ok t" "prefix (revisions s) (revisions t)" by (simp_all add: owing_def)
  with assms(2) have u: "store_ok u" "prefix (revisions t) (revisions u)" by (simp_all add: owing_def)
  from u show "store_ok u" by simp
  from t(2) u(2) show "prefix (revisions s) (revisions u)" by (rule prefix_order.trans)
  fix r assume "r \<in> set (memories s)"
  with assms(1) ok obtain q where q: "q \<in> set (memories t)" "row_id q = row_id r" "paid D s t r q"
    by (auto simp: owing_def)
  with assms(2) t obtain p where p: "p \<in> set (memories u)" "row_id p = row_id q" "paid D t u q p"
    by (auto simp: owing_def)
  have "length (revisions_of i s) \<le> length (revisions_of i t)" "length (revisions_of i t) \<le> length (revisions_of i u)" for i
    using revisions_of_prefix t(2) u(2) by blast+
  with p(3) q(2,3) have "paid D s u r p"
    unfolding paid_def revised_def by (metis le_less_trans less_le_trans same_content_trans)
  with p q show "\<exists>r'\<in>set (memories u). row_id r' = row_id r \<and> paid D s u r r'" by auto
qed

lemma owing_rows:
  assumes "store_ok s \<Longrightarrow> store_ok t" "revisions t = revisions s"
    "\<And>r. store_ok s \<Longrightarrow> r \<in> set (memories s) \<Longrightarrow> \<exists>r'\<in>set (memories t). row_id r' = row_id r \<and> (row_id r \<in> D \<or> same_content r r')"
  shows "owing D s t"
  unfolding owing_def paid_def
proof (intro impI conjI ballI)
  assume ok: "store_ok s"
  then show "store_ok t" by (rule assms(1))
  show "prefix (revisions s) (revisions t)" by (simp add: assms(2))
  fix r assume "r \<in> set (memories s)"
  from assms(3) [OF ok this] show "\<exists>r'\<in>set (memories t). row_id r' = row_id r
      \<and> (row_id r \<in> D \<or> same_content r r' \<or> revised (row_id r) s t)" by blast
qed

lemma owing_frame: "memories t = memories s \<Longrightarrow> revisions t = revisions s \<Longrightarrow> owing D s t"
  by (rule owing_rows) (auto simp: store_ok_def)

lemma owing_more: "owing D s t \<Longrightarrow> D \<subseteq> E \<Longrightarrow> owing E s t"
  unfolding owing_def paid_def by blast

lemma append_revision_grows: "prefix (revisions s) (revisions (append_revision entry i ay s))"
  by (simp add: revisions_appended)

lemma owing_revision: "owing D s (append_revision entry i ay s)"
  by (auto simp: owing_def paid_def append_revision_grows store_ok_def)

text \<open>A revision pays for the row.\<close>

lemma owing_paid:
  assumes "owing (insert i D) s t"
  shows "owing D s (append_revision entry i ay t)"
proof -
  let ?u = "append_revision entry i ay t"
  have "revised i s ?u" if "prefix (revisions s) (revisions t)"
    using revisions_of_prefix [OF that, of i] by (simp add: revised_def revisions_of_def revisions_appended)
  moreover have "owing (insert i D) s ?u" by (rule owing_trans [OF assms owing_revision])
  moreover have "prefix (revisions s) (revisions t)" if "store_ok s" using assms that by (simp add: owing_def)
  ultimately have "revised i s ?u" "owing (insert i D) s ?u" if "store_ok s" using that by simp_all
  moreover have "paid D s ?u r r'" if "revised i s ?u" "paid (insert i D) s ?u r r'" for r r'
    using that by (auto simp: paid_def)
  ultimately show ?thesis unfolding owing_def by meson
qed

lemma unsigned_get: "c \<noteq> ''metadata_json'' \<Longrightarrow> dget (unsigned_row r) c = dget r c"
  by (simp add: unsigned_row_def split: json.split)

lemma clear_content: "owing D s (clear_memory_embedding i s)"
proof (rule owing_rows)
  show "revisions (clear_memory_embedding i s) = revisions s" by (simp add: clear_memory_embedding_def)
  show "store_ok s \<Longrightarrow> store_ok (clear_memory_embedding i s)"
    using clear_kept [of s i] by (simp add: rows_kept_def)
  fix r assume "r \<in> set (memories s)"
  moreover have "same_content r (unsigned_row r)" "row_id (unsigned_row r) = row_id r" for r
    by (simp_all add: same_content_def audited_columns_def unsigned_get row_id_def)
  ultimately show "\<exists>r'\<in>set (memories (clear_memory_embedding i s)). row_id r' = row_id r \<and> (row_id r \<in> D \<or> same_content r r')"
    by (intro bexI [of _ "if live_row i r then unsigned_row r else r"]) (auto simp: clear_memory_embedding_def)
qed

lemma create_content: "owing D s (snd (create_memory m ay s))"
proof (rule owing_rows)
  show "store_ok s \<Longrightarrow> store_ok (snd (create_memory m ay s))"
    using create_kept [of s m ay] by (simp add: rows_kept_def)
  fix r assume "r \<in> set (memories s)"
  then have "r \<in> set (memories (snd (create_memory m ay s)))" by (auto simp: create_memory_def Let_def)
  then show "\<exists>r'\<in>set (memories (snd (create_memory m ay s))). row_id r' = row_id r \<and> (row_id r \<in> D \<or> same_content r r')"
    by (intro bexI [of _ r]) simp_all
qed simp

lemma update_content:
  assumes "i \<in> D \<or> (\<forall>c\<in>set audited_columns. patch_value patch c = JNull)"
  shows "owing D s (snd (update_memory i patch ay s))"
proof (rule owing_rows)
  show "store_ok s \<Longrightarrow> store_ok (snd (update_memory i patch ay s))"
    using update_kept [of s i patch ay] by (simp add: rows_kept_def)
  have content: "same_content r (patched_row now patch r)" if "\<forall>c\<in>set audited_columns. patch_value patch c = JNull" for r now
    using that by (auto simp: same_content_def dget_patched_row audited_columns_def)
  fix r assume "store_ok s" and r: "r \<in> set (memories s)"
  from update_rows [OF this(1)] obtain f where f: "memories (snd (update_memory i patch ay s)) = map f (memories s)"
    "\<forall>r\<in>set (memories s). f r = r \<or> live_row i r \<and> f r = patched_row (instant s) patch r" by blast
  from f(2) r assms have "row_id (f r) = row_id r \<and> (row_id r \<in> D \<or> same_content r (f r))"
    by (auto simp: live_row_def content)
  with f(1) r show "\<exists>r'\<in>set (memories (snd (update_memory i patch ay s))). row_id r' = row_id r \<and> (row_id r \<in> D \<or> same_content r r')"
    by auto
qed simp

interpretation trailing: store_relation "owing D" for D
proof
  fix s t u :: memory_store and tr rn et ay ai tt ti p entry i a l kt ki si q
  show "owing D s s" "owing D s (tick s)" "owing D s (draw s)"
    "owing D s (append_traced_event tr rn et ay ai tt ti p s)" "owing D s (request_derived q s)"
    "owing D s (upsert_agent_identity a i ay s)" "owing D s (snd (create_provenance_link l kt ki si ay s))"
    by (rule owing_frame; simp)+
  show "owing D s (append_revision entry i ay s)" by (rule owing_revision)
  show "owing D s (clear_memory_embedding i s)" by (rule clear_content)
  show "owing D s t \<Longrightarrow> owing D t u \<Longrightarrow> owing D s u" by (rule owing_trans)
qed

interpretation trailing: creation_relation "owing D" for D
  by unfold_locales (rule create_content)

subsection \<open>What returns owes nothing\<close>

definition settled :: "memory_store \<Rightarrow> ('e + 'a) \<times> memory_store \<Rightarrow> bool" where
  "settled u m \<longleftrightarrow> (\<forall>x t. m = (Inr x, t) \<longrightarrow> owing {} u t)"

lemma settled_return: "owing {} u s \<Longrightarrow> settled u (r, s)" by (simp add: settled_def)

lemma settled_owing: "owing {} u (snd m) \<Longrightarrow> settled u m" by (auto simp: settled_def)

lemma settled_then:
  "owing {} u (snd m) \<Longrightarrow> (\<And>x t. owing {} u t \<Longrightarrow> settled u (f x t)) \<Longrightarrow> settled u (and_then m f)"
  by (cases m; cases "fst m") (auto simp: settled_def)

lemma settled_settled:
  "settled u m \<Longrightarrow> (\<And>x t. owing {} u t \<Longrightarrow> settled u (f x t)) \<Longrightarrow> settled u (and_then m f)"
  by (cases m; cases "fst m") (auto simp: settled_def)

lemma settled_lift: "settled u r \<Longrightarrow> settled u (lift_store r)"
  by (auto simp: settled_def lift_store_eq_Inr)

lemma updated_row: "update_memory i patch ay s = (Inr row, t) \<Longrightarrow> row_id row = i"
  by (auto simp: update_memory_def Let_def find_Some_iff live_row_def split: option.splits if_splits)

lemma owing_update: "owing {} u s \<Longrightarrow> owing {i} u (snd (update_memory i patch ay s))"
  by (rule owing_trans [OF owing_more update_content]) auto

lemma settled_update:
  assumes "owing {} u s" "\<And>row t. owing {i} u t \<Longrightarrow> row_id row = i \<Longrightarrow> settled u (f row t)"
  shows "settled u (and_then (lift_store (update_memory i patch ay s)) f)"
proof -
  obtain r t where up: "update_memory i patch ay s = (r, t)" by fastforce
  with owing_update [OF assms(1), of i patch ay] have "owing {i} u t" by simp
  then show ?thesis using up assms(2) [OF _ updated_row] by (cases r) (auto simp: settled_def)
qed

lemma settled_if: "(b \<Longrightarrow> settled u x) \<Longrightarrow> (\<not> b \<Longrightarrow> settled u y) \<Longrightarrow> settled u (if b then x else y)" by simp

lemma settled_option: "(v = None \<Longrightarrow> settled u x) \<Longrightarrow> (\<And>y. v = Some y \<Longrightarrow> settled u (f y)) \<Longrightarrow>
    settled u (case v of None \<Rightarrow> x | Some y \<Rightarrow> f y)"
  by (cases v) simp_all

lemma settled_let: "settled u (f v) \<Longrightarrow> settled u (Let v f)" by simp

lemma owing_revise: "owing {i} u s \<Longrightarrow> row_id w = i \<Longrightarrow> owing {} u (revise identity rt a rs tb ta md m w s)"
  unfolding revise_def by (rule owing_paid) simp

lemmas settled_flow = settled_update settled_then settled_if settled_option settled_return

lemmas owing_flow = trailing.rel_require trailing.rel_raise trailing.rel_check trailing.rel_policy
  trailing.rel_decision_path trailing.rel_pieces trailing.rel_command_event trailing.rel_tick owing_revise

subsection \<open>The commands\<close>

text \<open>An update that fails has written nothing.\<close>

lemma owing_after_update:
  assumes "owing {} u s" "\<And>row t. owing {i} u t \<Longrightarrow> row_id row = i \<Longrightarrow> owing {} u (snd (f row t))"
  shows "owing {} u (snd (and_then (lift_store (update_memory i patch ay s)) f))"
proof (cases i patch ay s rule: update_memory_cases)
  case (refused e)
  then show ?thesis by (simp add: trailing.rel_tick assms(1))
next
  case (written r)
  obtain row t where up: "update_memory i patch ay s = (Inr row, t)"
    using written(3) by (metis prod.collapse)
  with owing_update [OF assms(1), of i patch ay] have "owing {i} u t" by simp
  with up assms(2) updated_row [OF up] show ?thesis by simp
qed

lemma expire_owing: "owing {} s (snd (expire sv identity i v rs s))"
  unfolding expire_def Let_def
  by (rule trailing.rel_and_then, rule trailing.rel_require, rule trailing.rel_refl, rule trailing.rel_and_then,
      erule trailing.rel_policy, rule trailing.rel_and_then, erule trailing.rel_check, rule trailing.rel_and_then,
      erule trailing.rel_check, rule trailing.rel_and_then, erule trailing.rel_instant, rule owing_after_update,
      erule trailing.rel_tick, rule trailing.rel_return, rule trailing.rel_command_event, rule owing_revise)

text \<open>Statements of the store that come as a case distinction.\<close>

lemma settled_result:
  "settled u r \<Longrightarrow> (\<And>x t. r = (Inr x, t) \<Longrightarrow> owing {} u t \<Longrightarrow> settled u (f x t)) \<Longrightarrow>
     settled u (case r of (Inl e, t) \<Rightarrow> (Inl e, t) | (Inr x, t) \<Rightarrow> f x t)"
  by (cases r; cases "fst r") (auto simp: settled_def)

lemma settled_update_result:
  assumes "owing {} u s" "\<And>row t. owing {i} u t \<Longrightarrow> row_id row = i \<Longrightarrow> settled u (f row t)"
  shows "settled u (case update_memory i patch ay s of (Inl e, t) \<Rightarrow> (Inl e, t) | (Inr x, t) \<Rightarrow> f x t)"
proof -
  obtain r t where up: "update_memory i patch ay s = (r, t)" by fastforce
  with owing_update [OF assms(1), of i patch ay] have "owing {i} u t" by simp
  then show ?thesis using up assms(2) [OF _ updated_row] by (cases r) (auto simp: settled_def)
qed

lemma invalidate_one_settled:
  assumes "owing {} u s"
  shows "settled u (invalidate_candidate now agent i rs c s)"
proof -
  have "settled u (case update_memory (row_id c) p ay s of (Inl e, t) \<Rightarrow> (Inl e, t)
      | (Inr w, t) \<Rightarrow> (Inr (), append_event et ay ai tt ti q (append_revision (e w) (row_id c) ay t)))" for p ay et ai tt ti q e
    by (rule settled_update_result [OF assms], rule settled_return, rule trailing.rel_event, rule owing_paid)
  then show ?thesis
    by (simp add: invalidate_candidate_def Let_def settled_return [OF assms] split: option.split)
qed

lemma invalidate_all_settled: "owing {} u s \<Longrightarrow> settled u (invalidate_candidates now agent i rs cs s)"
proof (induction cs arbitrary: s)
  case (Cons c cs)
  from settled_result [OF invalidate_one_settled [OF Cons.prems] Cons.IH] show ?case by simp
qed (simp add: settled_return)

lemma invalidate_settled: "owing {} u s \<Longrightarrow> settled u (invalidate_pending_derived_candidates i agent rs ex s)"
  unfolding invalidate_pending_derived_candidates_def by (intro invalidate_all_settled trailing.rel_tick)

lemma point_back_owing: "owing D u s \<Longrightarrow> owing D u (snd (point_back x m ob s))"
proof -
  assume "owing D u s"
  then have "owing D u (snd (update_memory i (successor_patch m n) ay s))" for i n ay
    by (rule owing_trans [OF _ update_content])
       (simp add: successor_patch_def audited_columns_def patch_value_def)
  note up = this
  have "snd (case update_memory i p ay s of (Inl e, t) \<Rightarrow> (Inl e, t) | (Inr _, t) \<Rightarrow> (Inr (), t)) =
      snd (update_memory i p ay s)" for i p ay
    by (simp split: prod.split sum.split)
  with up \<open>owing D u s\<close> show ?thesis by (simp add: point_back_def split: option.split)
qed

lemma record_owing: "owing {i} u s \<Longrightarrow> row_id w = i \<Longrightarrow> owing {} u (record_retirement x m w ob s)"
  unfolding record_retirement_def by (intro trailing.rel_event owing_paid) simp

lemma closing_owing: "owing D u s \<Longrightarrow> owing D u (snd (closing_of dated m ob s))"
  by (auto simp: closing_of_def intro: trailing.rel_tick split: option.split)

lemma settled_back:
  assumes "owing {i} u (snd r)" "\<And>t. owing {i} u t \<Longrightarrow> settled u (f t)"
  shows "settled u (case r of (Inl e, t) \<Rightarrow> (Inl e, t) | (Inr _, t) \<Rightarrow> f t)"
  using assms by (cases r; cases "fst r") (auto simp: settled_def)

lemma write_transition_settled:
  assumes "owing {} u s"
  shows "settled u (write_transition x dated m ob s)"
  unfolding write_transition_def
  by (rule settled_result, rule invalidate_settled, rule trailing.rel_tick [OF assms], rule settled_result,
      rule settled_owing, erule closing_owing, erule settled_update_result, rule settled_back,
      erule point_back_owing, rule settled_return, rule record_owing)

lemma transition_settled: "owing {} u s \<Longrightarrow> settled u (run_transition sv x m ob s)"
  unfolding run_transition_def
  by (rule settled_settled, rule settled_lift)
    (auto simp: transition_memory_def intro: write_transition_settled settled_return split: sum.split)

lemma forget_settled: "settled s (forget sv identity i rs s)"
  unfolding forget_def by (intro settled_then owing_flow transition_settled trailing.rel_refl; assumption)

lemma undo_settled: "settled s (undo sv identity i rs j s)"
  unfolding undo_def undo_successor_def
  by (intro settled_then owing_flow trailing.rel_flow transition_settled trailing.rel_refl; assumption)

lemma correct_settled: "settled s (correct sv identity i t rs s)"
proof -
  have up: "settled s (and_then (lift_store (invalidate_pending_derived_candidates a ag r ex u)) f)"
    if "owing {} s u" "\<And>x t. owing {} s t \<Longrightarrow> settled s (f x t)" for a ag r ex u f
    by (rule settled_settled [OF settled_lift [OF invalidate_settled [OF that(1)]] that(2)])
  show ?thesis
    unfolding correct_def Let_def
    by (rule settled_then, rule trailing.rel_require, rule trailing.rel_refl, rule settled_then,
        erule trailing.rel_decision_path, rule settled_then, erule trailing.rel_policy, rule settled_then,
        erule trailing.rel_check, rule settled_then, erule trailing.rel_raise, rule settled_then,
        erule trailing.rel_check, rule up, assumption, rule settled_update, erule trailing.rel_tick,
        rule settled_return, rule trailing.rel_command_event, rule owing_revise, erule trailing.rel_refresh, assumption)
qed

lemma reopen_owing:
  assumes "owing {} u s" "reopen_window identity now rs m restored s = (Inr w, t)"
  shows "owing {row_id m} u t \<and> row_id w = row_id m"
proof -
  have once: "owing {row_id m} u v \<and> row_id x = row_id m" if "update_memory (row_id m) p ay s = (Inr x, v)" for p ay x v
    using owing_update [OF assms(1), of "row_id m" p ay] that updated_row [OF that] by simp
  have twice: "owing {row_id m} u t' \<and> row_id y = row_id m"
    if "update_memory (row_id m) p ay s = (Inr x, v)" "update_memory (row_id m) p' ay v = (Inr y, t')" for p p' ay x v y t'
  proof -
    have "owing {row_id m} v (snd (update_memory (row_id m) p' ay v))" by (rule update_content) simp
    with that(2) updated_row [OF that(2)] owing_trans [OF conjunct1 [OF once [OF that(1)]]] show ?thesis by simp
  qed
  from assms(2) show ?thesis
    unfolding reopen_window_def Let_def command_succeeds
    by (elim exE conjE, simp only: split: if_splits) (auto simp: command_succeeds dest: once twice)
qed

lemma unexpire_settled: "settled s (unexpire sv identity i rs s)"
proof -
  have reopened: "settled u (and_then (reopen_window identity now r m restored v) f)"
    if "owing {} u v" "\<And>w t. owing {row_id m} u t \<Longrightarrow> row_id w = row_id m \<Longrightarrow> settled u (f w t)" for u v now r m restored f
    using reopen_owing [OF that(1), of identity now r m restored] that(2)
    by (cases "reopen_window identity now r m restored v"; cases "fst (reopen_window identity now r m restored v)")
      (auto simp: settled_def)
  show ?thesis
    unfolding unexpire_def Let_def
    by (rule settled_then, rule trailing.rel_require, rule trailing.rel_refl, rule settled_then,
        erule trailing.rel_policy, rule settled_then, erule trailing.rel_check, rule settled_then,
        erule trailing.rel_check, rule settled_if, erule settled_return, rule reopened, erule trailing.rel_tick,
        rule settled_return, rule trailing.rel_command_event, rule owing_revise)
qed

lemma refresh_confirmed_settled: "owing {} u s \<Longrightarrow> settled u (refresh_last_confirmed identity m a rs md s)"
  unfolding refresh_last_confirmed_def Let_def
  by (rule settled_update, erule trailing.rel_tick, rule settled_return, rule owing_revise)

lemma replay_confirmation_settled: "owing {} u s \<Longrightarrow> settled u (replay_confirmation identity m c i a s)"
  unfolding replay_confirmation_def
  by (rule settled_if, rule settled_settled, erule refresh_confirmed_settled, erule settled_return)
    (simp add: settled_return)

lemma expire_confirmation_settled: "owing {} u s \<Longrightarrow> settled u (expire_confirmation identity i m s)"
  unfolding expire_confirmation_def Let_def
  by (rule settled_then, erule trailing.rel_check, rule settled_update, erule trailing.rel_tick,
      rule settled_return, rule trailing.rel_command_event, rule owing_revise)

lemma settle_settled: "owing {} u s \<Longrightarrow> settled u (settle_confirmation identity i a t rs m s)"
  unfolding settle_confirmation_def Let_def
  by (rule settled_then, erule trailing.rel_check, rule settled_then, rule trailing.rel_option, simp, simp,
      rule settled_update, erule trailing.rel_tick, rule settled_return, rule trailing.rel_command_event,
      rule owing_revise, rule trailing.rel_if_store, assumption, erule trailing.rel_refresh, assumption)

lemma confirm_settled: "settled s (confirm sv identity i a t rs s)"
  unfolding confirm_def Let_def
  by (rule settled_then, rule trailing.rel_raise, rule trailing.rel_refl, rule settled_then,
      erule trailing.rel_require, rule settled_then, erule trailing.rel_require, rule settled_then,
      erule trailing.rel_policy, rule settled_if, rule settled_settled, erule replay_confirmation_settled,
      rule settled_owing, erule trailing.rel_require, rule settled_then, erule trailing.rel_expired,
      rule settled_if, erule expire_confirmation_settled, erule settle_settled)

lemma supersede_members_settled: "owing {} u s \<Longrightarrow> settled u (supersede_members sv identity m locked ids s)"
proof (induction ids arbitrary: s)
  case (Cons i ids)
  have more: "settled u (and_then (supersede_members sv identity m locked ids t) (\<lambda>(a, b) s. (Inr (f a b), s)))"
    if "owing {} u t" for t and f :: "string list \<Rightarrow> json list \<Rightarrow> string list \<times> json list"
    by (rule settled_settled [OF Cons.IH [OF that]]) (auto intro: settled_return)
  show ?case
    unfolding supersede_members.simps
    by (rule settled_option, rule more [OF Cons.prems], rule settled_if, rule more [OF Cons.prems],
        rule settled_settled, rule transition_settled [OF Cons.prems], erule more)
qed (simp add: settled_return)

lemma promote_settled: "owing {} u s \<Longrightarrow> settled u (promote_candidate identity d rs p m c out s)"
  unfolding promote_candidate_def Let_def
  by (rule settled_update, erule trailing.rel_tick, rule settled_return, rule trailing.rel_command_event,
      rule owing_revise, erule trailing.rel_refresh, assumption)

lemma merge_settled: "owing {} u s \<Longrightarrow> settled u (merge_candidate sv identity d rs m c s)"
  unfolding merge_candidate_def
  by (rule settled_then, erule trailing.rel_raise, rule settled_then, erule trailing.rel_raise, rule settled_then,
      erule trailing.rel_check, rule settled_then, erule trailing.rel_check, rule settled_then,
      erule trailing.rel_proposal_checks, rule settled_then, erule trailing.rel_members, rule settled_then,
      erule trailing.rel_proposal_checks, rule settled_settled, erule supersede_members_settled, erule promote_settled)

lemma accept_settled: "settled s (accept_consolidation_candidate sv identity i rs s)"
  unfolding accept_consolidation_candidate_def
  by (rule settled_then, rule trailing.rel_require, rule trailing.rel_refl, rule settled_then,
      erule trailing.rel_policy, rule settled_then, erule trailing.rel_require, rule settled_option,
      erule merge_settled, rule settled_owing, erule trailing.rel_proposal_checks)

lemma commit_settled: "settled s (commit sv (\<lambda>s. s) identity r s)"
  by (rule settled_owing, rule trailing.rel_commit [where race = "\<lambda>s. s"]) (rule trailing.rel_refl)+

lemma sweep_one_owing: "owing {} s (snd (sweep_one sv identity rs dry i s))"
  by (auto simp: sweep_one_def Let_def expire_owing trailing.rel_refl split: option.split)

lemma sweep_all_owing: "owing {} u s \<Longrightarrow> owing {} u (snd (sweep_all sv identity rs dry ids s))"
proof (induction ids arbitrary: s)
  case (Cons i ids)
  show ?case
    unfolding sweep_all.simps
    by (intro trailing.rel_and_then trailing.rel_return Cons.IH owing_trans [OF Cons.prems sweep_one_owing]; assumption)
qed simp

lemma quarantine_owing: "owing {} s (snd (quarantine_by_agent_key sv identity a rs since until dry s))"
  unfolding quarantine_by_agent_key_def
  by (intro trailing.rel_flow trailing.rel_side trailing.rel_pieces trailing.rel_refl sweep_all_owing; assumption)

text \<open>A commit beside which nothing runs; what runs beside it is accounted for by its own commands.\<close>

fun undisturbed :: "memory_command \<Rightarrow> bool" where
  "undisturbed (CommitMemory identity r beside) = (beside = [])"
| "undisturbed c = True"

lemma command_settled: "undisturbed c \<Longrightarrow> settled s (run_command sv c s)"
proof (cases c)
  case (CommitMemory identity r beside)
  moreover have "run_commands sv [] = (\<lambda>s. s)" by (simp add: fun_eq_iff)
  ultimately show "undisturbed c \<Longrightarrow> settled s (run_command sv c s)" by (simp add: commit_settled)
next
  case (ExpireMemory identity i closing reason)
  then show ?thesis by (simp add: settled_owing expire_owing)
next
  case (QuarantineAgent identity agent reason since until dry_run)
  then show ?thesis by (simp add: settled_owing quarantine_owing)
next
  case (RefreshReviewed memory stage)
  then show ?thesis
    by (simp add: settled_return refresh_after_review_def trailing.rel_refresh trailing.rel_refl)
qed (simp_all add: confirm_settled undo_settled correct_settled forget_settled unexpire_settled accept_settled)

subsection \<open>A user's command\<close>

text \<open>Without an agent the engine allows, and nothing is written for it.\<close>

lemma policy_without_agent:
  "policy_checked_write sv None action m s =
     (Inr (projr (evaluate_agent_policy (floor_scanners (sv_scanners sv)) (fresh_trace s) None
        (memory_policy_request action m))), draw s)"
  by (simp add: policy_checked_write_def evaluate_policy_for_def evaluate_agent_policy_def upsert_identity_def
      append_policy_events_def Let_def)

definition demo_expiry :: memory_command where
  "demo_expiry = ExpireMemory None ''a'' JNull ''obsolete''"

lemma demo_expired:
  "\<exists>resp t r'. run_command demo_service demo_expiry demo_memories = (Inr resp, t)
    \<and> r' \<in> set (memories t) \<and> row_id r' = ''a'' \<and> dget r' ''valid_to'' = JStr ''2026-01-01T00:00:00Z''"
proof -
  have "normalized_text (JStr ''obsolete'') ''reason'' = Inr ''obsolete''" by code_simp
  moreover have "resolve_transition ''expire'' ''active'' = Inr ''active''" by code_simp
  ultimately show ?thesis
    by (simp add: demo_expiry_def expire_def demo_get policy_without_agent require_transition_def status_of_def
        demo_row_def expiry_instant_def lift_check_def Let_def)
      (simp add: update_memory_def demo_memories_def live_row_def row_id_def demo_row_def demo_retired_def Let_def
        row_checks_def dget_patched_row update_columns_def patch_value_def in_order_def draw_def tick_def instant_def,
       rule exI, rule conjI, rule disjI1, rule refl,
       simp add: dget_patched_row update_columns_def patch_value_def)
qed

subsection \<open>Properties\<close>

text \<open>
  C5:
  no silent change.  If a command of the service returns and a memory then differs in its status, title,
  text, summary, value, confidence, confirmation, domain, sensitivity, window or replacement, the command
  has appended a revision of this very memory; what the history of the memory held before is still in
  front of it.
\<close>

theorem no_silent_change:
  assumes "store_ok s" and "undisturbed c" and "run_command sv c s = (Inr response, t)"
    and "r \<in> set (memories s)" and "r' \<in> set (memories t)" and "row_id r' = row_id r"
    and "column \<in> set audited_columns" and "dget r' column \<noteq> dget r column"
  shows "\<exists>n ns. revisions_of (row_id r) t = revisions_of (row_id r) s @ n # ns"
proof -
  from command_settled [OF assms(2), of s sv] assms(3) have o: "owing {} s t" by (simp add: settled_def)
  with assms(1) have t: "store_ok t" "prefix (revisions s) (revisions t)" by (simp_all add: owing_def)
  from o assms(1,4) obtain q where q: "q \<in> set (memories t)" "row_id q = row_id r" "paid {} s t r q"
    by (auto simp: owing_def)
  with assms(5,6) same_row [OF t(1)] have "q = r'" by metis
  with q(3) assms(7,8) have "revised (row_id r) s t" by (auto simp: paid_def same_content_def)
  with t(2) obtain ns where "revisions_of (row_id r) t = revisions_of (row_id r) s @ ns" "ns \<noteq> []"
    by (auto simp: revised_def revisions_of_def prefix_def)
  then show ?thesis by (auto simp: neq_Nil_conv)
qed

theorem no_silent_change_witness:
  "\<exists>resp t n ns. run_command demo_service demo_expiry demo_memories = (Inr resp, t)
    \<and> revisions_of ''a'' t = revisions_of ''a'' demo_memories @ n # ns"
proof -
  obtain resp t r' where run: "run_command demo_service demo_expiry demo_memories = (Inr resp, t)"
    and r': "r' \<in> set (memories t)" "row_id r' = ''a''" "dget r' ''valid_to'' = JStr ''2026-01-01T00:00:00Z''"
    using demo_expired by blast
  have r: "demo_row ''a'' \<in> set (memories demo_memories)" "row_id (demo_row ''a'') = ''a''"
    "dget (demo_row ''a'') ''valid_to'' = JNull" by (simp_all add: demo_memories_def demo_row_def row_id_def)
  have "undisturbed demo_expiry" "''valid_to'' \<in> set audited_columns" by (simp_all add: demo_expiry_def audited_columns_def)
  from no_silent_change [OF demo_store_ok this(1) run r(1) r'(1) _ this(2)] run r r' show ?thesis by simp
qed

end
