(* ===== verification/Memory_Outcomes.thy ===== *)
theory Memory_Outcomes
  imports Memory_Trail
begin

text \<open>
  What the commands achieve together: an expired memory is reopened, a confirmation is decided once, and
  a commit is written once however often it is repeated.
\<close>

subsection \<open>The row a command has written\<close>

text \<open>The row of an update, by the copy it was read from, and the rows of the other ids.\<close>

lemma written_row:
  assumes ok: "store_ok s" and m: "get_memory s i = Some m" and frame: "memories u = memories s"
    and up: "update_memory (row_id m) patch ay u = (Inr row, t)" and stays: "dget patch ''status'' \<noteq> JStr ''archived''"
  shows "store_ok t" and "get_memory t i = Some row"
    and "c \<noteq> ''project_scope'' \<Longrightarrow> dget row c = dget (patched_row (instant u) patch m) c"
proof -
  have oku: "store_ok u" using ok frame by (simp add: store_ok_def)
  have id: "row_id m = i" using read_current [OF ok m] by simp
  show "store_ok t" using update_kept [of u i patch ay] up oku id by (simp add: rows_kept_def)
  note get = update_memory_get [OF oku up [unfolded id] stays]
  show "get_memory t i = Some row" by (simp add: get(1))
  assume c: "c \<noteq> ''project_scope''"
  from get(2) obtain r where r: "r \<in> set (memories s)" "live_row i r"
    "row = expose_memory_project_scope (patched_row (instant u) patch r)" by (auto simp: frame)
  from live_row_get [OF ok r(1,2)] m have "m = expose_memory_project_scope r" by simp
  with r(3) c show "dget row c = dget (patched_row (instant u) patch m) c" by (simp add: dget_patched_row)
qed

lemma project_scope_unused: "c \<in> set update_columns \<Longrightarrow> c \<noteq> ''project_scope''"
  by (auto simp: update_columns_def)

subsection \<open>Expiry and its reversal\<close>

definition untouched_columns :: "string list" where
  [model_defs]: "untouched_columns =
    [''title'', ''canonical_text'', ''summary'', ''value'', ''memory_type'', ''confirmation_status'', ''confidence'',
     ''salience'', ''domain'', ''sensitivity'', ''valid_from'', ''superseded_by'', ''supersedes'', ''memory_key'',
     ''commit_digest'']"

definition same_memory :: "dict \<Rightarrow> dict \<Rightarrow> bool" where
  "same_memory m w \<longleftrightarrow> (\<forall>c\<in>set untouched_columns. dget w c = dget m c)"

lemma same_memory_refl: "same_memory m m" by (simp add: same_memory_def)

lemma same_memory_trans: "same_memory m v \<Longrightarrow> same_memory v w \<Longrightarrow> same_memory m w"
  by (simp add: same_memory_def)

lemma patched_same_memory:
  assumes "\<And>c. c \<noteq> ''project_scope'' \<Longrightarrow> dget w c = dget (patched_row now patch m) c"
    and "\<And>c. c \<in> set untouched_columns \<Longrightarrow> patch_value patch c = JNull"
  shows "same_memory m w"
  unfolding same_memory_def
proof
  fix c assume c: "c \<in> set untouched_columns"
  then have "c \<noteq> ''project_scope''" "c \<noteq> ''deleted_at''" "c \<noteq> ''updated_at''" by (auto simp: untouched_columns_def)
  with assms(1) [of c] assms(2) [OF c] show "dget w c = dget m c" by (simp add: dget_patched_row)
qed

lemma expire_written:
  assumes ok: "store_ok s" and m: "get_memory s i = Some m" and run: "expire sv identity i v rs s = (Inr response, t)"
  shows "\<exists>w. store_ok t \<and> get_memory t i = Some w \<and> same_memory m w \<and> status_of w = status_of m"
proof -
  from run m obtain d s1 now closing rt u w t1 where p: "policy_checked_write sv identity ''memory.expire'' m s = (Inr d, s1)"
    and e: "expiry_instant v s1 = (Inr closing, u)"
    and up: "update_memory (row_id m)
         [(''valid_to'', JStr closing), (''last_reviewed_at'', JStr (instant u)),
          (''metadata_json'', JObj (dset ''validity'' (JObj (expired_validity (instant u) closing rt identity m))
             (memory_metadata m)))] (actor_type (agent_of identity)) (tick u) = (Inr w, t1)"
    and t: "memories t = memories t1"
    by (auto simp: expire_def Let_def command_succeeds)
  have u: "memories (tick u) = memories s"
    using policy_checked_write_frames(1) [of sv identity "''memory.expire''" m s] p e
    by (auto simp: expiry_instant_def command_succeeds split: if_splits)
  note w = written_row [OF ok m u up]
  have "same_memory m w"
    by (rule patched_same_memory, rule w(3)) (auto simp: untouched_columns_def patch_value_def)
  moreover have "status_of w = status_of m"
    using w(3) [of "''status''"] by (simp add: status_of_def status_patched)
  ultimately show ?thesis using w(1,2) t by (auto simp: store_ok_def get_memory_def)
qed

definition window_open :: "dict \<Rightarrow> bool" where
  "window_open w \<longleftrightarrow> \<not> py_truthy (dget w ''valid_to'') \<or> is_unbounded_valid_to (dget w ''valid_to'')"

lemma sentinel_unbounded: "is_unbounded_valid_to (JStr VALID_TO_UNBOUNDED_SENTINEL)"
  by (simp add: is_unbounded_valid_to_def VALID_TO_UNBOUNDED_SENTINEL_def py_startswith_def)

lemma reopen_written:
  assumes ok: "store_ok s" and m: "get_memory s i = Some m" and frame: "memories u = memories s"
    and closed: "py_truthy (dget m ''valid_to'')" "\<not> is_unbounded_valid_to (dget m ''valid_to'')"
    and restored: "restored \<noteq> ''archived''" "restored \<noteq> []"
    and run: "reopen_window identity now rs m restored u = (Inr w, t)"
  shows "get_memory t i = Some w \<and> window_open w \<and> same_memory m w \<and> status_of w = restored"
proof -
  let ?cleared = "cleared_validity now rs identity m"
  let ?patch = "[(''valid_to'', JNull), (''last_reviewed_at'', JStr now),
      (''metadata_json'', JObj (dset ''validity'' (JObj ?cleared) (memory_metadata m)))]
      @ (if restored = status_of m then [] else [(''status'', JStr restored)])"
  let ?again = "[(''valid_to'', JStr VALID_TO_UNBOUNDED_SENTINEL),
      (''metadata_json'', JObj (dset ''validity''
         (JObj (dset ''unbounded_sentinel'' (JStr VALID_TO_UNBOUNDED_SENTINEL) ?cleared)) (memory_metadata m)))]"
  let ?actor = "actor_type (agent_of identity)"
  obtain r v where one: "update_memory (row_id m) ?patch ?actor u = (r, v)" by fastforce
  with run obtain v1 where r: "r = Inr v1" by (cases r) (auto simp: reopen_window_def Let_def)
  have stays: "dget ?patch ''status'' \<noteq> JStr ''archived''" using restored by simp
  note w1 = written_row [OF ok m frame one [unfolded r] stays]
  have "dget v1 ''valid_to'' = dget m ''valid_to''"
    using w1(3) [of "''valid_to''"] by (simp add: dget_patched_row update_columns_def patch_value_def)
  with closed run one r have two: "update_memory (row_id m) ?again ?actor v = (Inr w, t)"
    by (simp add: reopen_window_def Let_def lift_store_eq_Inr)
  have id: "row_id v1 = row_id m" using read_current [OF ok m] read_current [OF w1(1,2)] by simp
  note w2 = written_row [OF w1(1,2) refl two [folded id]]
  have "same_memory m v1" by (rule patched_same_memory, rule w1(3)) (auto simp: untouched_columns_def patch_value_def)
  moreover have "same_memory v1 w" by (rule patched_same_memory, rule w2(3)) (auto simp: untouched_columns_def patch_value_def)
  ultimately have "same_memory m w" by (rule same_memory_trans)
  moreover have "window_open w"
    using w2(3) [of "''valid_to''"] sentinel_unbounded
    by (simp add: window_open_def dget_patched_row update_columns_def patch_value_def)
  moreover have "status_of w = status_of v1" using w2(3) [of "''status''"] by (simp add: status_of_def status_patched)
  moreover have "status_of v1 = restored"
    using w1(3) [of "''status''"] restored by (auto simp: status_of_def status_patched)
  ultimately show ?thesis using w2(2) by simp
qed

lemma unexpire_written:
  assumes ok: "store_ok s" and m: "get_memory s i = Some m" and run: "unexpire sv identity i rs s = (Inr response, t)"
  shows "\<exists>w. get_memory t i = Some w \<and> window_open w \<and> same_memory m w
    \<and> (status_of w = status_of m \<or> status_of m = ''stale'' \<and> status_of w = ''active'')"
proof -
  have frame: "memories s1 = memories s" if "policy_checked_write sv identity ''memory.unexpire'' m s = (Inr d, s1)" for d s1
    using policy_checked_write_frames(1) [of sv identity "''memory.unexpire''" m s] that by simp
  show ?thesis
  proof (cases "\<not> py_truthy (dget m ''valid_to'') \<or> is_unbounded_valid_to (dget m ''valid_to'')")
    case True
    with run m obtain d where "policy_checked_write sv identity ''memory.unexpire'' m s = (Inr d, t)"
      by (auto simp: unexpire_def Let_def command_succeeds)
    from frame [OF this] True m show ?thesis by (auto simp: window_open_def same_memory_refl get_memory_def)
  next
    case False
    with run m obtain d s1 restored rt w u where p: "policy_checked_write sv identity ''memory.unexpire'' m s = (Inr d, s1)"
      and r: "require_transition ''unexpire'' (status_of m) = Inr restored"
      and w: "reopen_window identity (instant s1) rt m restored (tick s1) = (Inr w, u)" and t: "memories t = memories u"
      by (auto simp: unexpire_def Let_def command_succeeds)
    from r have "resolve_transition ''unexpire'' (status_of m) = Inr restored"
      unfolding require_transition_def by (simp split: sum.split_asm lifecycle_error.split_asm)
    then have live: "status_of m \<in> set LIVE_STATUSES" "restored = (if status_of m = ''stale'' then ''active'' else status_of m)"
      by (simp_all add: resolve_unexpire)
    then have usable: "restored \<noteq> ''archived''" "restored \<noteq> []" by (auto simp: LIVE_STATUSES_def)
    from reopen_written [OF ok m _ _ _ usable w] frame [OF p] False live(2) t
    show ?thesis by (auto simp: get_memory_def)
  qed
qed

subsection \<open>Lookups by a unique column\<close>

lemma filter_single:
  "distinct xs \<Longrightarrow> r \<in> set xs \<Longrightarrow> (\<And>x. x \<in> set xs \<Longrightarrow> P x \<longleftrightarrow> x = r) \<Longrightarrow> filter P xs = [r]"
proof (induction xs)
  case (Cons x xs)
  show ?case
  proof (cases "x = r")
    case True
    with Cons.prems have "\<not> P y" if "y \<in> set xs" for y using that by auto
    with True Cons.prems show ?thesis by simp
  next
    case False
    with Cons.prems Cons.IH show ?thesis by simp
  qed
qed simp

lemma unique_rows_pairwise:
  "unique_rows rs \<Longrightarrow> r \<in> set rs \<Longrightarrow> q \<in> set rs \<Longrightarrow> r \<noteq> q \<Longrightarrow> \<not> conflicts r q \<or> \<not> conflicts q r"
  by (induction rs) (auto simp: list_all_iff)

lemma unique_confirmation:
  assumes "unique_rows rs" "r \<in> set rs" "q \<in> set rs" "dget r ''confirmation_id'' = dget q ''confirmation_id''"
    "dget r ''confirmation_id'' \<noteq> JNull"
  shows "r = q"
proof (rule ccontr)
  assume "r \<noteq> q"
  with unique_rows_pairwise [OF assms(1-3)] have "\<not> conflicts r q \<or> \<not> conflicts q r" .
  moreover have "conflicts r q" "conflicts q r" unfolding conflicts_def using assms(4,5) by metis+
  ultimately show False by blast
qed

lemma lookup_single:
  assumes "store_ok s" "r \<in> set (memories s)" "dget r ''deleted_at'' = JNull" "p r"
    "\<And>q. q \<in> set (memories s) \<Longrightarrow> p q \<Longrightarrow> q = r"
  shows "first_row (latest_created (undeleted_rows p s)) = Some (expose_memory_project_scope r)"
proof -
  have "distinct (memories s)" using assms(1) by (auto simp: store_ok_def distinct_map)
  then have "undeleted_rows p s = [r]"
    unfolding undeleted_rows_def
  proof (rule filter_single [OF _ assms(2)])
    fix x assume "x \<in> set (memories s)"
    from assms(5) [OF this] assms(3,4) show "dget x ''deleted_at'' = JNull \<and> p x \<longleftrightarrow> x = r" by blast
  qed
  then show ?thesis by (simp add: latest_created_def first_row_def)
qed

lemma lookup_confirmation:
  assumes "store_ok s" "unique_keys s" "r \<in> set (memories s)" "dget r ''deleted_at'' = JNull"
    "dget r ''confirmation_id'' = JStr c"
  shows "get_memory_by_confirmation_id c s = Some (expose_memory_project_scope r)"
  unfolding get_memory_by_confirmation_id_def
proof (rule lookup_single [OF assms(1,3,4)])
  show "dget r ''confirmation_id'' = JStr c" by (rule assms(5))
  fix q assume q: "q \<in> set (memories s)" "dget q ''confirmation_id'' = JStr c"
  show "q = r" by (rule unique_confirmation [OF assms(2) [unfolded unique_keys_def] q(1) assms(3)]) (simp_all add: q(2) assms(5))
qed

lemma lookup_digest:
  assumes "store_ok s" "unique_keys s" "r \<in> set (memories s)" "dget r ''deleted_at'' = JNull"
    "dget r ''commit_digest'' = JStr k"
  shows "get_memory_by_commit_digest k s = Some (expose_memory_project_scope r)"
  unfolding get_memory_by_commit_digest_def
proof (rule lookup_single [OF assms(1,3,4)])
  show "dget r ''commit_digest'' = JStr k" by (rule assms(5))
  fix q assume q: "q \<in> set (memories s)" "dget q ''commit_digest'' = JStr k"
  show "q = r" by (rule unique_digest [OF assms(2) [unfolded unique_keys_def] q(1) assms(3)]) (simp_all add: q(2) assms(5))
qed

lemma first_row_in: "first_row (latest_created rs) = Some m \<Longrightarrow> \<exists>r\<in>set rs. m = expose_memory_project_scope r"
proof (cases "latest_created rs")
  case (Cons r rest)
  have "set (latest_created rs) = set rs" by (simp add: latest_created_def)
  with Cons have "r \<in> set rs" by auto
  then show "first_row (latest_created rs) = Some m \<Longrightarrow> \<exists>r\<in>set rs. m = expose_memory_project_scope r"
    using Cons by (auto simp: first_row_def)
qed (simp add: first_row_def)

text \<open>A row that was written is found by its keys again.\<close>

lemma stored_copy:
  assumes "get_memory t i = Some w"
  obtains r where "r \<in> set (memories t)" "dget r ''deleted_at'' = JNull" "row_id r = i" "w = expose_memory_project_scope r"
  using get_memory_row [OF assms] by (auto simp: live_row_def)

lemma found_again:
  assumes "store_ok t" "unique_keys t" "get_memory t i = Some w" "dget w ''confirmation_id'' = JStr c"
  shows "get_memory_by_confirmation_id c t = Some w"
proof -
  from assms(3) obtain r where r: "r \<in> set (memories t)" "dget r ''deleted_at'' = JNull" "w = expose_memory_project_scope r"
    by (rule stored_copy)
  with lookup_confirmation [OF assms(1,2) r(1,2)] assms(4) show ?thesis by simp
qed

subsection \<open>A confirmation is decided once\<close>

lemma confirmation_found:
  assumes "store_ok s" "get_memory_by_confirmation_id c s = Some f"
  shows "get_memory s (row_id f) = Some f \<and> dget f ''confirmation_id'' = JStr c"
proof -
  from assms(2) obtain r where r: "r \<in> set (undeleted_rows (\<lambda>r. dget r ''confirmation_id'' = JStr c) s)"
    "f = expose_memory_project_scope r"
    unfolding get_memory_by_confirmation_id_def by (blast dest: first_row_in)
  then have "live_row (row_id f) r" "r \<in> set (memories s)" by (auto simp: undeleted_rows_def live_row_def)
  with live_row_get [OF assms(1)] r show ?thesis by (auto simp: undeleted_rows_def)
qed

text \<open>What the decision leaves behind: a confirmation with the status \<open>x\<close>, and the answer \<open>answer\<close>.\<close>

definition decided_as :: "string \<Rightarrow> string \<Rightarrow> bool" where
  "decided_as x answer \<longleftrightarrow> x = ''confirmed'' \<and> answer = ''committed'' \<or> x \<in> {''rejected'', ''expired''} \<and> answer = ''rejected''"

lemma confirmation_patched:
  assumes "\<And>c. c \<noteq> ''project_scope'' \<Longrightarrow> dget w c = dget (patched_row now patch m) c"
    and "has_key patch ''metadata_json''" "dget patch ''metadata_json'' \<noteq> JNull"
  shows "confirmation_of w = nested (nested (nested patch ''metadata_json'') ''agentic_memory'') ''confirmation''"
proof -
  have "dget w ''metadata_json'' = dget patch ''metadata_json''"
    using assms by (simp add: dget_patched_row update_columns_def patch_value_def)
  then show ?thesis by (simp add: confirmation_of_def agentic_metadata_def memory_metadata_def nested_def)
qed

lemma dget_dremove: "c \<noteq> k \<Longrightarrow> dget (dremove k d) c = dget d c"
  by (induction d) (auto simp: dget_def dremove_def)

text \<open>The refresh of derived data changes the signature of the vector only.\<close>

lemma refreshed_row:
  assumes "store_ok s" "get_memory s i = Some w"
  obtains v where "get_memory (refresh_memory_derived_state m stage b s) i = Some v" "store_ok (refresh_memory_derived_state m stage b s)"
    "\<And>c. c \<noteq> ''metadata_json'' \<Longrightarrow> c \<noteq> ''project_scope'' \<Longrightarrow> dget v c = dget w c" "confirmation_of v = confirmation_of w"
proof -
  let ?t = "clear_memory_embedding (row_id m) s"
  have mem: "memories (refresh_memory_derived_state m stage b s) = memories ?t"
    by (simp add: refresh_memory_derived_state_def Let_def)
  have ok: "store_ok ?t" using clear_kept [of s "row_id m"] assms(1) by (simp add: rows_kept_def)
  from assms(2) obtain r where r: "r \<in> set (memories s)" "dget r ''deleted_at'' = JNull" "row_id r = i"
    "w = expose_memory_project_scope r" by (rule stored_copy)
  define q where "q = (if live_row (row_id m) r then unsigned_row r else r)"
  have q: "dget q c = dget r c" if "c \<noteq> ''metadata_json''" for c using that by (simp add: q_def unsigned_get)
  have meta: "memory_metadata q = memory_metadata r \<or> memory_metadata q = dremove EMBEDDING_SIGNATURE_METADATA_KEY (memory_metadata r)"
    by (auto simp: q_def unsigned_row_def memory_metadata_def split: json.split)
  then have "dget (memory_metadata q) ''agentic_memory'' = dget (memory_metadata r) ''agentic_memory''"
    by (auto simp: dget_dremove EMBEDDING_SIGNATURE_METADATA_KEY_def)
  then have "confirmation_of q = confirmation_of r" by (simp add: confirmation_of_def agentic_metadata_def)
  moreover have "q \<in> set (memories ?t)" using r(1) by (auto simp: clear_memory_embedding_def q_def)
  moreover have "live_row i q" using r(2,3) q by (simp add: live_row_def row_id_def)
  moreover have "confirmation_of (expose_memory_project_scope x) = confirmation_of x" for x
    by (simp add: confirmation_of_def agentic_metadata_def)
  ultimately show thesis
    using live_row_get [OF ok] ok q r(4) mem
    by (intro that [of "expose_memory_project_scope q"]) (simp_all add: get_memory_def store_ok_def)
qed

lemma expire_confirmation_decides:
  assumes ok: "store_ok s" and m: "get_memory s i = Some m" and frame: "memories u = memories s"
    and run: "expire_confirmation identity c m u = (Inr response, t)"
  shows "\<exists>w. store_ok t \<and> get_memory t i = Some w \<and> dget w ''confirmation_id'' = dget m ''confirmation_id''
    \<and> dget (confirmation_of w) ''status'' = JStr ''expired'' \<and> dget response ''status'' = JStr ''rejected''"
proof -
  from run obtain w t1 where up: "update_memory (row_id m) (expiry_patch (instant u) m) (actor_type (agent_of identity)) (tick u) = (Inr w, t1)"
    and t: "memories t = memories t1" and resp: "dget response ''status'' = JStr ''rejected''"
    by (auto simp: expire_confirmation_def Let_def command_succeeds)
  have "memories (tick u) = memories s" "dget (expiry_patch (instant u) m) ''status'' \<noteq> JStr ''archived''"
    using frame by (simp_all add: expiry_patch_def Let_def)
  note w = written_row [OF ok m this(1) up this(2)]
  have "dget (confirmation_of w) ''status'' = JStr ''expired''"
    using confirmation_patched [OF w(3)] by (simp add: expiry_patch_def nested_def Let_def)
  moreover have "dget w ''confirmation_id'' = dget m ''confirmation_id''"
    using w(3) [of "''confirmation_id''"] by (simp add: dget_patched_row update_columns_def)
  ultimately show ?thesis using w(1,2) t resp by (auto simp: store_ok_def get_memory_def)
qed

lemma settle_decides:
  assumes ok: "store_ok s" and m: "get_memory s i = Some m" and frame: "memories u = memories s"
    and run: "settle_confirmation identity c a text rs m u = (Inr response, t)"
  shows "\<exists>w. store_ok t \<and> get_memory t i = Some w \<and> dget w ''confirmation_id'' = dget m ''confirmation_id''
    \<and> dget (confirmation_of w) ''status'' = JStr (if a = ''reject'' then ''rejected'' else ''confirmed'')
    \<and> dget response ''status'' = JStr (if a = ''reject'' then ''rejected'' else ''committed'')"
proof -
  let ?refresh = "\<lambda>w. refresh_memory_derived_state w ''inline_confirmation_accepted'' (a = ''edit'')"
  have given: "v = u" if "(case text of None \<Rightarrow> (Inr (text_of m), u)
      | Some t \<Rightarrow> lift_check (normalized_text (JStr t) ''canonical_text'') u) = (Inr nt, v)" for nt v
    using that by (auto simp: command_succeeds split: option.splits)
  from run obtain nt w t1 v where up: "update_memory (row_id m) (decision_patch (instant v) a nt rs m) (actor_type (agent_of identity)) (tick v) = (Inr w, t1)"
    and v: "v = u" and t: "memories t = memories (if a = ''reject'' then t1 else ?refresh w t1)"
    and resp: "dget response ''status'' = JStr (if a = ''reject'' then ''rejected'' else ''committed'')"
    by (auto simp: settle_confirmation_def Let_def command_succeeds simp del: if_split dest!: given)
  have "memories (tick v) = memories s" "dget (decision_patch (instant v) a nt rs m) ''status'' \<noteq> JStr ''archived''"
    using frame v by (simp_all add: decision_patch_def)
  note w = written_row [OF ok m this(1) up this(2)]
  have status: "dget (confirmation_of w) ''status'' = JStr (if a = ''reject'' then ''rejected'' else ''confirmed'')"
    using confirmation_patched [OF w(3)]
    by (simp add: decision_patch_def decided_agentic_def nested_def Let_def split: option.split)
  have cid: "dget w ''confirmation_id'' = dget m ''confirmation_id''"
    using w(3) [of "''confirmation_id''"] by (simp add: dget_patched_row update_columns_def)
  show ?thesis
  proof (cases "a = ''reject''")
    case True
    with w(1,2) t status cid resp show ?thesis by (auto simp: store_ok_def get_memory_def)
  next
    case False
    from w(1,2) obtain x where x: "get_memory (?refresh w t1) i = Some x" "store_ok (?refresh w t1)"
      "dget x ''confirmation_id'' = dget w ''confirmation_id''" "confirmation_of x = confirmation_of w"
      by (rule refreshed_row [of t1 i w w "''inline_confirmation_accepted''" "a = ''edit''"]) simp
    from False t x(1,2) have "get_memory t i = Some x" "store_ok t" by (simp_all add: get_memory_def store_ok_def)
    with x(3,4) status cid resp show ?thesis by auto
  qed
qed

lemma confirm_decides:
  assumes ok: "store_ok s" and found: "get_memory_by_confirmation_id c s = Some f"
    and pending: "dget (confirmation_of f) ''status'' = JStr ''pending''"
    and run: "confirm sv identity c a text rs s = (Inr response, t)"
  shows "\<exists>w x answer. store_ok t \<and> get_memory t (row_id f) = Some w \<and> dget w ''confirmation_id'' = JStr c
    \<and> dget (confirmation_of w) ''status'' = JStr x \<and> dget response ''status'' = JStr answer \<and> decided_as x answer"
proof -
  note f = confirmation_found [OF ok found]
  let ?act = "py_casefold (py_strip a)"
  from run found f pending obtain d s1 late s2 where p: "policy_checked_write sv identity ''memory.confirm'' f s = (Inr d, s1)"
    and l: "confirmation_expired (dget (confirmation_of f) ''expires_at'') s1 = (Inr late, s2)"
    and r: "(if late then expire_confirmation identity c f s2 else settle_confirmation identity c ?act text rs f s2) = (Inr response, t)"
    by (auto simp: confirm_def memory_by_confirmation_id_def command_succeeds Let_def simp del: if_split)
  have frame: "memories s2 = memories s"
    using policy_checked_write_frames(1) [of sv identity "''memory.confirm''" f s] p l
    by (auto simp: confirmation_expired_def split: json.splits option.splits if_splits)
  show ?thesis
  proof (cases late)
    case True
    with r have "expire_confirmation identity c f s2 = (Inr response, t)" by simp
    from expire_confirmation_decides [OF ok conjunct1 [OF f] frame this] f show ?thesis by (auto simp: decided_as_def)
  next
    case False
    with r have "settle_confirmation identity c ?act text rs f s2 = (Inr response, t)" by simp
    from settle_decides [OF ok conjunct1 [OF f] frame this] f show ?thesis
      by (cases "?act = ''reject''") (auto simp: decided_as_def)
  qed
qed

lemma confirm_replays:
  assumes ok: "store_ok t" and found: "get_memory_by_confirmation_id c t = Some w"
    and status: "dget (confirmation_of w) ''status'' = JStr x" "decided_as x answer"
    and run: "confirm sv identity c b text rs t = (Inr response, u)"
  shows "dget response ''status'' = JStr answer \<and> dget response ''idempotent_replay'' = JBool True
    \<and> (\<exists>v. get_memory u (row_id w) = Some v \<and> same_memory w v \<and> status_of v = status_of w)"
proof -
  note f = confirmation_found [OF ok found]
  let ?act = "py_casefold (py_strip b)"
  have x: "x \<noteq> ''pending''" using status(2) by (auto simp: decided_as_def)
  from run found f status(1) x obtain d s1 where p: "policy_checked_write sv identity ''memory.confirm'' w t = (Inr d, s1)"
    and r: "replay_confirmation identity w (confirmation_of w) c ?act s1 = (Inr (Some response), u)"
    by (auto simp: confirm_def memory_by_confirmation_id_def command_succeeds Let_def split: if_splits)
  have frame: "memories s1 = memories t"
    using policy_checked_write_frames(1) [of sv identity "''memory.confirm''" w t] p by simp
  show ?thesis
  proof (cases "x = ''confirmed''")
    case True
    with r status obtain v u1 where up: "update_memory (row_id w) [(''last_confirmed_at'', JStr (instant s1)), (''last_reviewed_at'', JStr (instant s1))]
        (actor_type (agent_of identity)) (tick s1) = (Inr v, u1)" and u: "memories u = memories u1"
      and resp: "dget response ''status'' = JStr ''committed''" "dget response ''idempotent_replay'' = JBool True"
      by (auto simp: replay_confirmation_def refresh_last_confirmed_def Let_def command_succeeds split: if_splits)
    have "memories (tick s1) = memories t" using frame by simp
    note v = written_row [OF ok conjunct1 [OF f] this up]
    have "same_memory w v" by (rule patched_same_memory, rule v(3)) (auto simp: untouched_columns_def patch_value_def)
    moreover have "status_of v = status_of w" using v(3) [of "''status''"] by (simp add: status_of_def status_patched)
    ultimately show ?thesis using v(2) u resp status(2) True by (auto simp: get_memory_def decided_as_def)
  next
    case False
    with r status have "u = s1" "dget response ''status'' = JStr ''rejected''" "dget response ''idempotent_replay'' = JBool True"
      by (auto simp: replay_confirmation_def split: if_splits)
    with frame f status(2) False show ?thesis by (auto simp: get_memory_def decided_as_def same_memory_refl)
  qed
qed

subsection \<open>A commit is written once\<close>

definition agentic_of_request :: "dict \<Rightarrow> commit_request \<Rightarrow> bool" where
  "agentic_of_request m r \<longleftrightarrow> dget (agentic_metadata m) ''request_fingerprint'' = JStr (request_fingerprint r)"

lemma fingerprint_matches: "agentic_of_request m r \<Longrightarrow> request_matches m r"
proof -
  have "request_fingerprint r \<noteq> []" using length_digest unfolding request_fingerprint_def by (metis length_0_conv zero_neq_numeral)
  then obtain x xs where "request_fingerprint r = x # xs" by (cases "request_fingerprint r") auto
  then show "agentic_of_request m r \<Longrightarrow> request_matches m r"
    by (simp add: agentic_of_request_def request_matches_def Let_def)
qed

lemma base_fingerprint:
  "dget (nested (base_metadata identity r d st wm ls cf) ''agentic_memory'') ''request_fingerprint'' = JStr (request_fingerprint r)"
  by (simp add: base_metadata_def nested_def agent_metadata_def Let_def split: option.split)

text \<open>The rows of a commit carry its key and its fingerprint.\<close>

definition row_of_request :: "dict \<Rightarrow> commit_request \<Rightarrow> bool" where
  "row_of_request m r \<longleftrightarrow> dget m ''commit_digest'' = opt_str (mc_idempotency_key r)
     \<and> dget (nested (nested m ''metadata_json'') ''agentic_memory'') ''request_fingerprint'' = JStr (request_fingerprint r)"

lemma commit_rows_of_request:
  "row_of_request (fact_row identity r d now k) r" "row_of_request (confirmation_row identity r d i c k) r"
  "row_of_request (candidate_row identity r d i k) r"
  using base_fingerprint
  by (simp_all add: row_of_request_def fact_row_def confirmation_row_def candidate_row_def commit_fields_def nested_def)

lemma created_found:
  assumes "row_of_request m r" "create_memory m ay s = (Inr row, t)"
  shows "\<exists>q\<in>set (memories t). dget q ''deleted_at'' = JNull \<and> dget q ''commit_digest'' = opt_str (mc_idempotency_key r)
    \<and> agentic_of_request q r"
proof -
  have meta: "dget (canonical_memory_metadata m) ''agentic_memory'' = dget (nested m ''metadata_json'') ''agentic_memory''"
    by (simp add: canonical_memory_metadata_def nested_def Let_def)
  have "dget (created_row s m) ''metadata_json'' = JObj (canonical_memory_metadata m)"
    "dget (created_row s m) ''deleted_at'' = JNull" "dget (created_row s m) ''commit_digest'' = dget m ''commit_digest''"
    by (simp_all add: created_row_def Let_def)
  moreover from this(1) meta have "agentic_metadata (created_row s m) = nested (nested m ''metadata_json'') ''agentic_memory''"
    by (simp add: agentic_metadata_def memory_metadata_def nested_def)
  moreover have "created_row s m \<in> set (memories t)"
    using assms(2) by (auto simp: create_memory_def Let_def split: if_splits)
  ultimately show ?thesis using assms(1) by (auto simp: row_of_request_def agentic_of_request_def)
qed

definition same_rows :: "memory_store \<Rightarrow> memory_store \<Rightarrow> bool" where
  "same_rows s t \<longleftrightarrow> memories t = memories s"

interpretation framing: record_relation same_rows
  by unfold_locales (simp_all add: same_rows_def)

text \<open>The replay of a commit writes no row and no revision.\<close>

lemma replay_reads:
  "memories (snd (idempotent_replay sv identity r m s)) = memories s \<and> revisions (snd (idempotent_replay sv identity r m s)) = revisions s"
proof -
  obtain d t where p: "policy_checked_write sv identity ''memory.commit'' m s = (d, t)" by fastforce
  with policy_checked_write_frames(1,2) [of sv identity "''memory.commit''" m s]
  have "memories t = memories s" "revisions t = revisions s" by simp_all
  with p show ?thesis
    by (cases d) (auto simp: idempotent_replay_def assert_idempotent_request_matches_def raise_when_def Let_def)
qed

lemma replay_matches: "idempotent_replay sv identity r m s = (Inr response, t) \<Longrightarrow> request_matches m r"
  by (auto simp: idempotent_replay_def assert_idempotent_request_matches_def command_succeeds)

lemma repeated_commit:
  assumes "idempotent_memory (mc_idempotency_key q) t = Some m"
  shows "memories (snd (commit sv race identity q t)) = memories t \<and> revisions (snd (commit sv race identity q t)) = revisions t"
proof -
  have "snd (commit sv race identity q t) = snd (idempotent_replay sv identity q m t)"
    by (cases "idempotent_replay sv identity q m t"; cases "fst (idempotent_replay sv identity q m t)")
      (auto simp: commit_def commit_answer_def assms)
  with replay_reads show ?thesis by simp
qed

text \<open>The outcomes of an insertion: the row is stored, or the faster one is and matches.\<close>

lemma record_stored:
  assumes "row_of_request m r" "create_memory_record race m ay r s = (Inr outcome, t)"
  shows "(\<exists>row. outcome = Written row) \<and> (\<exists>q\<in>set (memories t). dget q ''deleted_at'' = JNull
      \<and> dget q ''commit_digest'' = opt_str (mc_idempotency_key r) \<and> agentic_of_request q r)
    \<or> (\<exists>e. outcome = OutrunBy e \<and> idempotent_memory (mc_idempotency_key r) t = Some e)"
proof -
  obtain res v where c: "create_memory m ay (race s) = (res, v)" by fastforce
  show ?thesis
  proof (cases res)
    case (Inr row)
    with c assms(2) have "outcome = Written row" "t = v" by (simp_all add: create_memory_record_def)
    with created_found [OF assms(1) c [unfolded Inr]] show ?thesis by blast
  next
    case (Inl e)
    with c assms(2) show ?thesis
      by (auto simp: create_memory_record_def assert_idempotent_request_matches_def command_succeeds
          split: memory_error.splits option.splits)
  qed
qed

definition key_settled :: "commit_request \<Rightarrow> commit_outcome \<Rightarrow> memory_store \<Rightarrow> bool" where
  "key_settled r outcome t \<longleftrightarrow> (case outcome of
     Written response \<Rightarrow> (\<exists>q\<in>set (memories t). dget q ''deleted_at'' = JNull
       \<and> dget q ''commit_digest'' = opt_str (mc_idempotency_key r) \<and> agentic_of_request q r)
   | OutrunBy e \<Rightarrow> idempotent_memory (mc_idempotency_key r) t = Some e)"

lemma written_settled:
  assumes "row_of_request m r" "when_written (create_memory_record race m ay r s) f = (Inr outcome, t)"
    and "\<And>row u. memories (snd (f row u)) = memories u"
  shows "key_settled r outcome t"
proof -
  from assms(2) obtain first u where c: "create_memory_record race m ay r s = (Inr first, u)"
    and f: "(case first of OutrunBy existing \<Rightarrow> (Inr (OutrunBy existing), u)
      | Written row \<Rightarrow> and_then (f row u) (\<lambda>response s. (Inr (Written response), s))) = (Inr outcome, t)"
    by (auto simp: when_written_def and_then_eq_Inr)
  show ?thesis
  proof (cases first)
    case (Written row)
    with f obtain response where "f row u = (Inr response, t)" "outcome = Written response" by (auto simp: and_then_eq_Inr)
    with assms(3) [of row u] record_stored [OF assms(1) c] Written show ?thesis by (auto simp: key_settled_def)
  next
    case (OutrunBy e)
    with f record_stored [OF assms(1) c] show ?thesis by (auto simp: key_settled_def)
  qed
qed

lemma write_commit_settled:
  assumes "write_commit race identity r d s = (Inr outcome, t)"
  shows "key_settled r outcome t"
proof -
  have rows: "memories (snd (finish_fact identity r d m u)) = memories u"
    "memories (snd (finish_confirmation identity r d i c m u)) = memories u"
    "memories (snd (finish_candidate identity r d i m u)) = memories u" for m i c u
    using framing.rel_finish [OF framing.rel_refl, of u identity r d] by (simp_all add: same_rows_def)
  note settles = written_settled [OF commit_rows_of_request(1)] written_settled [OF commit_rows_of_request(2)]
    written_settled [OF commit_rows_of_request(3)]
  show ?thesis
    using assms rows
    by (auto simp: write_commit_def create_confirmation_def create_review_candidate_def create_committed_memory_def
        Let_def command_succeeds intro: settles split: if_splits)
qed

lemma commit_settles_key:
  assumes ok: "store_ok s" "unique_keys s" and race: "\<And>v. rows_kept v (race v)"
    and key: "mc_idempotency_key r = Some k" and run: "commit sv race identity r s = (Inr response, t)"
    and kept: "dget response ''write_mode'' \<noteq> JStr ''reject''"
  shows "\<exists>m. get_memory_by_commit_digest k t = Some m \<and> request_matches m r"
proof -
  from run obtain answer where a: "commit_answer sv race identity r s = (Inr answer, t)"
    and resp: "response = with_commit_receipt answer" by (auto simp: commit_def and_then_eq_Inr)
  have replayed: ?thesis if "idempotent_replay sv identity r m u = (Inr answer, t)" "idempotent_memory (mc_idempotency_key r) u = Some m" for m u
  proof -
    have "memories t = memories u" using replay_reads [of sv identity r m u] that(1) by simp
    then have "get_memory_by_commit_digest k t = get_memory_by_commit_digest k u"
      by (simp add: get_memory_by_commit_digest_def undeleted_rows_def)
    with that(2) key replay_matches [OF that(1)] show ?thesis by (simp add: idempotent_memory_def)
  qed
  show ?thesis
  proof (cases "idempotent_memory (mc_idempotency_key r) s")
    case (Some m)
    with a have "idempotent_replay sv identity r m s = (Inr answer, t)" by (simp add: commit_answer_def)
    then show ?thesis using Some by (rule replayed)
  next
    case None
    have "md_write_mode d \<noteq> ''reject''" if "answer = rejection_response d" for d
      using kept resp that by (simp add: rejection_response_def with_commit_receipt_def)
    with a None obtain d u outcome v where w: "write_commit race identity r d u = (Inr outcome, v)"
      and f: "(case outcome of Written x \<Rightarrow> (Inr x, v) | OutrunBy e \<Rightarrow> idempotent_replay sv identity r e v) = (Inr answer, t)"
      using kept resp
      by (auto simp: commit_answer_def and_then_eq_Inr rejection_response_def with_commit_receipt_def split: if_splits)
    note settled = write_commit_settled [OF w]
    show ?thesis
    proof (cases outcome)
      case (OutrunBy e)
      with f settled replayed show ?thesis by (simp add: key_settled_def)
    next
      case (Written x)
      with settled f obtain q where q: "q \<in> set (memories t)" "dget q ''deleted_at'' = JNull"
        "dget q ''commit_digest'' = JStr k" "agentic_of_request q r" using key by (auto simp: key_settled_def)
      have "rows_kept s t" using kept.rel_commit [where race = race, OF race kept.rel_refl] run by (metis snd_conv)
      with ok have "store_ok t" "unique_keys t" by (simp_all add: rows_kept_def)
      from lookup_digest [OF this q(1-3)] have "get_memory_by_commit_digest k t = Some (expose_memory_project_scope q)" .
      moreover have "agentic_of_request (expose_memory_project_scope q) r"
        using q(4) by (simp add: agentic_of_request_def agentic_metadata_def)
      ultimately show ?thesis using fingerprint_matches by blast
    qed
  qed
qed

subsection \<open>Runs for the witnesses\<close>

lemma runs_then:
  "\<exists>x t. m = (Inr x, t) \<Longrightarrow> (\<And>x t. m = (Inr x, t) \<Longrightarrow> \<exists>y u. f x t = (Inr y, u)) \<Longrightarrow> \<exists>y u. and_then m f = (Inr y, u)"
  by auto

lemma runs_lift: "\<exists>x t. r = (Inr x, t) \<Longrightarrow> \<exists>x t. lift_store r = (Inr x, t)"
  by auto

lemma update_unchecked:
  assumes "store_ok s" "get_memory s i = Some m" "memories u = memories s"
    and "dget m ''valid_from'' = JNull" "dget m ''confidence'' = JNull" "dget m ''salience'' = JNull"
    and "dget patch ''valid_from'' = JNull" "dget patch ''confidence'' = JNull" "dget patch ''salience'' = JNull"
  shows "\<exists>row t. update_memory (row_id m) patch ay u = (Inr row, t)"
proof -
  from read_current [OF assms(1,2)] have id: "row_id m = i" by simp
  from assms(2) obtain r where r: "find (live_row i) (memories u) = Some r" "m = expose_memory_project_scope r"
    by (auto simp: get_memory_def assms(3))
  have "dget r c = dget m c" if "c \<noteq> ''project_scope''" for c using that r(2) by simp
  then have "row_checks (patched_row (instant u) patch r)"
    using assms(4-9) by (simp add: row_checks_def in_order_def dget_patched_row update_columns_def patch_value_def)
  with r(1) id show ?thesis by (simp add: update_memory_def Let_def)
qed

definition unchecked_row :: "dict \<Rightarrow> bool" where
  "unchecked_row m \<longleftrightarrow> dget m ''valid_from'' = JNull \<and> dget m ''confidence'' = JNull \<and> dget m ''salience'' = JNull"

lemma unchecked_same: "same_memory m w \<Longrightarrow> unchecked_row m \<Longrightarrow> unchecked_row w"
  by (simp add: same_memory_def untouched_columns_def unchecked_row_def)

lemma reopen_runs:
  assumes ok: "store_ok s" and m: "get_memory s i = Some m" and frame: "memories u = memories s"
    and free: "unchecked_row m" and restored: "restored \<noteq> ''archived''"
  shows "\<exists>w t. reopen_window identity now rs m restored u = (Inr w, t)"
proof -
  have one: "\<exists>row v. update_memory (row_id m) ([(''valid_to'', JNull), (''last_reviewed_at'', JStr now), (''metadata_json'', d)]
      @ (if restored = status_of m then [] else [(''status'', JStr restored)])) ay u = (Inr row, v)" for d ay
    by (rule update_unchecked [OF ok m frame]) (use free in \<open>simp_all add: unchecked_row_def\<close>)
  have two: "\<exists>row v'. update_memory (row_id m) [(''valid_to'', w), (''metadata_json'', e)] ay' v = (Inr row, v')"
    if up: "update_memory (row_id m) ([(''valid_to'', JNull), (''last_reviewed_at'', JStr now), (''metadata_json'', d)]
      @ (if restored = status_of m then [] else [(''status'', JStr restored)])) ay u = (Inr row1, v)" for d ay row1 v w e ay'
  proof -
    have "dget ([(''valid_to'', JNull), (''last_reviewed_at'', JStr now), (''metadata_json'', d)]
      @ (if restored = status_of m then [] else [(''status'', JStr restored)])) ''status'' \<noteq> JStr ''archived''"
      using restored by simp
    note r1 = written_row [OF ok m frame up this]
    have "same_memory m row1" by (rule patched_same_memory, rule r1(3)) (auto simp: untouched_columns_def patch_value_def)
    then have "unchecked_row row1" using free by (rule unchecked_same)
    moreover have "row_id row1 = row_id m" using read_current [OF ok m] read_current [OF r1(1,2)] by simp
    ultimately show ?thesis
      using update_unchecked [OF r1(1,2) refl, of "[(''valid_to'', w), (''metadata_json'', e)]" ay']
      by (simp add: unchecked_row_def)
  qed
  show ?thesis
    unfolding reopen_window_def Let_def
    by (rule runs_then, rule runs_lift, rule one) (auto simp: lift_store_eq_Inr intro: runs_lift two)
qed

lemma unexpire_runs:
  assumes "store_ok s" "get_memory s i = Some m" "status_of m \<in> set LIVE_STATUSES" "unchecked_row m"
  shows "\<exists>response t. unexpire sv None i ''still true'' s = (Inr response, t)"
proof -
  have reason: "normalized_text (JStr ''still true'') ''reason'' = Inr ''still true''" by code_simp
  let ?restored = "if status_of m = ''stale'' then ''active'' else status_of m"
  have r: "require_transition ''unexpire'' (status_of m) = Inr ?restored"
    using assms(3) resolve_unexpire [of "status_of m" ?restored] by (simp add: require_transition_def)
  have "?restored \<noteq> ''archived''" using assms(3) by (auto simp: LIVE_STATUSES_def)
  then obtain w t where "reopen_window None (instant (draw s)) ''still true'' m ?restored (tick (draw s)) = (Inr w, t)"
    using reopen_runs [OF assms(1,2) _ assms(4), of "tick (draw s)" ?restored None "instant (draw s)" "''still true''"] by auto
  then show ?thesis
    unfolding unexpire_def assms(2) require_row_simps and_then_Inr policy_without_agent r reason lift_check_def
      lift_store_simps Let_def
    by auto
qed

text \<open>A memory that waits for its confirmation.\<close>

definition waiting_row :: dict where
  "waiting_row = [(''id'', JStr ''a''), (''memory_key'', JStr ''tea''), (''status'', JStr ''needs_review''), (''confirmation_id'', JStr ''c''),
     (''metadata_json'', JObj [(''agentic_memory'', JObj [(''confirmation'', JObj [(''status'', JStr ''pending'')])])])]"

definition waiting_memories :: memory_store where
  "waiting_memories = demo_memories\<lparr>memories := [waiting_row, demo_row ''b'']\<rparr>"

lemma waiting_ok: "store_ok waiting_memories" "unique_keys waiting_memories"
  by (simp_all add: store_ok_def waiting_memories_def row_id_def demo_row_def waiting_row_def unique_keys_def conflicts_def)

lemma waiting_get: "get_memory waiting_memories ''a'' = Some waiting_row"
  by (simp add: get_memory_def waiting_memories_def live_row_def row_id_def waiting_row_def expose_memory_project_scope_def)

lemma waiting_found: "get_memory_by_confirmation_id ''c'' waiting_memories = Some waiting_row"
  using found_again [OF waiting_ok waiting_get] by (simp add: waiting_row_def)

lemma waiting_pending: "dget (confirmation_of waiting_row) ''status'' = JStr ''pending''"
  "dget (confirmation_of waiting_row) ''expires_at'' = JNull"
  by (simp_all add: confirmation_of_def agentic_metadata_def memory_metadata_def nested_def waiting_row_def)

lemma reject_words: "py_casefold (py_strip ''reject'') = ''reject''"
  by code_simp

lemma demo_reject_settles:
  "\<exists>response t. settle_confirmation None ''c'' ''reject'' None None waiting_row (draw waiting_memories) = (Inr response, t)"
proof -
  have id: "row_id waiting_row = ''a''" by (simp add: row_id_def waiting_row_def)
  have up: "\<exists>row t. update_memory (row_id waiting_row) (decision_patch now ''reject'' nt None waiting_row) ay (tick (draw waiting_memories)) = (Inr row, t)" for now nt ay
    by (rule update_unchecked [OF waiting_ok(1) waiting_get]) (simp_all add: waiting_row_def decision_patch_def)
  have "resolve_transition ''confirm.reject'' (status_of waiting_row) = Inr ''rejected''"
    by (simp add: resolve_confirm status_of_def waiting_row_def)
  then have legal: "\<exists>x t. lift_check (require_transition ''confirm.reject'' (status_of waiting_row)) s = (Inr x, t)" for s
    by (simp add: require_transition_def lift_check_def)
  show ?thesis
    unfolding settle_confirmation_def Let_def option.case simp_thms if_True
    by (rule runs_then, rule legal, rule runs_then, rule exI, rule exI, rule refl, rule runs_then, rule runs_lift)
      (auto simp: lift_check_eq_Inr intro: up)
qed

lemma waiting_id: "row_id waiting_row = ''a''" by (simp add: row_id_def waiting_row_def)

lemma demo_reject_runs:
  "\<exists>response t. confirm demo_service None ''c'' ''reject'' None None waiting_memories = (Inr response, t)"
  using demo_reject_settles
  by (simp add: confirm_def memory_by_confirmation_id_def waiting_found waiting_get waiting_id policy_without_agent
      waiting_pending confirmation_expired_def reject_words Let_def)

lemma demo_rejected:
  "confirm demo_service None ''c'' ''reject'' None None waiting_memories = (Inr response, t) \<Longrightarrow>
     dget response ''status'' = JStr ''rejected''"
  by (auto simp: confirm_def memory_by_confirmation_id_def waiting_found waiting_get waiting_id policy_without_agent
      waiting_pending confirmation_expired_def reject_words settle_confirmation_def command_succeeds Let_def)

lemma reject_again_runs:
  assumes "store_ok t" "get_memory_by_confirmation_id ''c'' t = Some w" "dget (confirmation_of w) ''status'' = JStr x"
    "decided_as x ''rejected''"
  shows "\<exists>response u. confirm sv None ''c'' ''reject'' None None t = (Inr response, u)"
  using assms confirmation_found [OF assms(1,2)]
  by (auto simp: confirm_def memory_by_confirmation_id_def policy_without_agent reject_words replay_confirmation_def
      decided_as_def Let_def)

text \<open>A user's commit with a key.\<close>

definition demo_keyed :: commit_request where
  "demo_keyed = demo_commit\<lparr>mc_idempotency_key := Some ''k''\<rparr>"

definition no_memories :: memory_store where
  "no_memories = demo_memories\<lparr>memories := []\<rparr>"

lemma no_memories_ok: "store_ok no_memories" "unique_keys no_memories"
  by (simp_all add: store_ok_def no_memories_def unique_keys_def)

lemma demo_keyed_simps: "mc_intent demo_keyed = mc_intent demo_commit" "mc_source_type demo_keyed = mc_source_type demo_commit"
  "request_contains_secret_marker sc demo_keyed = request_contains_secret_marker sc demo_commit"
  by (simp_all add: demo_keyed_def request_contains_secret_marker_def guarded_texts_def)

lemma demo_keyed_gate:
  assumes "decision base \<noteq> ''blocked''"
  shows "commit_gate demo_scanners None demo_keyed base = None"
proof -
  have "content_gate demo_keyed = None" by code_simp
  moreover have "authority_gate demo_scanners None demo_keyed base = None"
    using assms demo_commit_clean
    by (simp add: authority_gate_None demo_words demo_keyed_simps EXPLICIT_MEMORY_INTENTS_def EXTERNAL_REVIEW_SOURCES_def)
      (simp add: demo_keyed_def demo_commit_def)
  ultimately show ?thesis by (simp add: commit_gate_def)
qed

lemma demo_keyed_policy:
  "\<exists>d t. evaluate_policy demo_service None demo_keyed no_memories = (Inr d, t) \<and> md_write_mode d = ''commit'' \<and> memories t = []"
proof -
  obtain base where b: "evaluate_agent_policy (floor_scanners demo_scanners) (fresh_trace no_memories) None (commit_base_request demo_keyed) = Inr base"
    "decision base = ''allowed''" by (simp add: evaluate_agent_policy_def)
  then have "commit_gate demo_scanners None demo_keyed base = None" by (intro demo_keyed_gate) simp
  with b show ?thesis
    by (simp add: evaluate_policy_def evaluate_policy_for_def upsert_identity_def append_policy_events_def demo_service_def
        evaluate_memory_commit_policy_def commit_promotion_def lifts_gate_def gate_mode_def no_memories_def Let_def)
qed

lemma demo_keyed_created:
  assumes "memories u = []"
  shows "\<exists>row t. create_memory (fact_row identity demo_keyed d now k) ay u = (Inr row, t)"
proof -
  have "row_checks (created_row u (fact_row identity demo_keyed d now k))"
    by (simp add: row_checks_def in_order_def created_row_def fact_row_def commit_fields_def scope_columns_def
        demo_keyed_def demo_commit_def Let_def)
  with assms show ?thesis by (simp add: create_memory_def Let_def)
qed

lemma demo_keyed_runs:
  "\<exists>response t. commit demo_service (\<lambda>s. s) None demo_keyed no_memories = (Inr response, t)
    \<and> dget response ''write_mode'' = JStr ''commit''"
proof -
  obtain d t where p: "evaluate_policy demo_service None demo_keyed no_memories = (Inr d, t)" "md_write_mode d = ''commit''"
    "memories t = []" using demo_keyed_policy by blast
  have key: "mc_idempotency_key demo_keyed = Some ''k''" "mc_source_refs demo_keyed = []"
    by (simp_all add: demo_keyed_def demo_commit_def)
  have new: "idempotent_memory (Some ''k'') no_memories = None"
    by (simp add: idempotent_memory_def get_memory_by_commit_digest_def undeleted_rows_def no_memories_def latest_created_def
        first_row_def)
  obtain row v where c: "create_memory (fact_row None demo_keyed d (instant t) (ident t)) (actor_type None) (draw_key demo_keyed (tick t)) = (Inr row, v)"
    using demo_keyed_created [of "draw_key demo_keyed (tick t)" None d "instant t" "ident t" "actor_type None"] p(3)
    by (auto simp: draw_key_def)
  have "\<exists>response u. finish_fact None demo_keyed d row v = (Inr response, u) \<and> dget response ''write_mode'' = JStr ''commit''"
    by (simp add: finish_fact_def key Let_def)
  then obtain response u where f: "finish_fact None demo_keyed d row v = (Inr response, u)"
    "dget response ''write_mode'' = JStr ''commit''" by blast
  show ?thesis
    using p c f new key
    by (simp add: commit_def commit_answer_def write_commit_def create_committed_memory_def create_memory_record_def
        when_written_def agent_of_def with_commit_receipt_def)
qed

subsection \<open>Properties\<close>







end
