(* ===== verification/Memory_Denials.thy ===== *)
theory Memory_Denials
  imports Memory_History
begin

text \<open>
  A command that the agent policy denies has written no memory and no revision: every check of a policy
  comes before the first write of its command.
\<close>

subsection \<open>Denials\<close>

definition untouched :: "memory_store \<Rightarrow> memory_store \<Rightarrow> bool" where
  "untouched s t \<longleftrightarrow> memories t = memories s \<and> revisions t = revisions s"

definition denied :: "(service_error + 'a) \<times> memory_store \<Rightarrow> bool" where
  "denied m \<longleftrightarrow> (\<exists>d. fst m = Inl (AgentPolicyBlockedError d))"

definition clean :: "memory_store \<Rightarrow> (service_error + 'a) \<times> memory_store \<Rightarrow> bool" where
  "clean s m \<longleftrightarrow> (denied m \<longrightarrow> untouched s (snd m))"

lemma untouched_refl [simp]: "untouched s s" by (simp add: untouched_def)

lemma not_denied_simps [simp]:
  "\<not> denied (Inr y, s)" "\<not> denied (lift_store r)" "\<not> denied (lift_check c s)" "\<not> denied (Inl (invalid m), s)"
  "\<not> denied (Inl (MemoryServiceError e), s)" "\<not> denied (Inl (PromotionSettingsError x), s)"
  "\<not> denied (require_row (invalid m) ob s)" "\<not> denied (raise_when b (invalid m) s)"
  by (auto simp: denied_def lift_store_def lift_check_def invalid_def require_row_def raise_when_def split: sum.split option.split)

lemma not_denied_path [simp]: "\<not> denied (require_project_update_decision_path m s)"
  by (simp add: require_project_update_decision_path_def)

lemma not_denied_then: "\<not> denied m \<Longrightarrow> (\<And>x t. \<not> denied (f x t)) \<Longrightarrow> \<not> denied (and_then m f)"
  by (cases m; cases "fst m") (auto simp: denied_def)

lemma not_denied_if: "\<not> denied x \<Longrightarrow> \<not> denied y \<Longrightarrow> \<not> denied (if b then x else y)" by simp

lemma not_denied_option: "\<not> denied x \<Longrightarrow> (\<And>y. \<not> denied (f y)) \<Longrightarrow> \<not> denied (case v of None \<Rightarrow> x | Some y \<Rightarrow> f y)"
  by (cases v) simp_all

lemma not_denied_pair: "(\<And>x y. \<not> denied (f x y)) \<Longrightarrow> \<not> denied (case p of (x, y) \<Rightarrow> f x y)"
  by (cases p) simp

lemma not_denied_pair_state: "(\<And>x y. \<not> denied (f x y s)) \<Longrightarrow> \<not> denied ((case p of (x, y) \<Rightarrow> f x y) s)"
  by (cases p) simp

lemma not_denied_outcome: "(\<And>y. \<not> denied (f y)) \<Longrightarrow> (\<And>y. \<not> denied (g y)) \<Longrightarrow>
    \<not> denied (case v of Written y \<Rightarrow> f y | OutrunBy y \<Rightarrow> g y)"
  by (cases v) simp_all

lemmas not_denied = not_denied_then not_denied_if not_denied_option not_denied_pair not_denied_pair_state not_denied_outcome not_denied_simps
  not_denied_path

lemma clean_return: "\<not> denied m \<Longrightarrow> clean s m" by (simp add: clean_def)

lemma clean_pass:
  "untouched s u \<Longrightarrow> \<not> denied m \<Longrightarrow> (\<And>x t. m = (Inr x, t) \<Longrightarrow> clean s (f x t)) \<Longrightarrow> clean s (and_then m f)"
  by (cases m; cases "fst m") (auto simp: clean_def denied_def)

lemma clean_guard:
  "untouched s u \<Longrightarrow> (\<And>x. untouched s u \<Longrightarrow> clean s (f x u)) \<Longrightarrow> clean s (and_then (require_row (invalid e) r u) f)"
  by (rule clean_pass) (auto simp: require_row_eq_Inr)

lemma clean_raise:
  "untouched s u \<Longrightarrow> (\<And>x. untouched s u \<Longrightarrow> clean s (f x u)) \<Longrightarrow> clean s (and_then (raise_when b (invalid e) u) f)"
  by (rule clean_pass) (auto simp: raise_when_eq_Inr)

lemma clean_path:
  "untouched s u \<Longrightarrow> (\<And>x. untouched s u \<Longrightarrow> clean s (f x u)) \<Longrightarrow>
     clean s (and_then (require_project_update_decision_path m u) f)"
  unfolding require_project_update_decision_path_def by (rule clean_raise)

lemma policy_untouched: "untouched s u \<Longrightarrow> untouched s (snd (policy_checked_write sv identity action m u))"
  by (simp add: untouched_def)

lemma clean_policy:
  assumes "untouched s u" "\<And>x t. untouched s t \<Longrightarrow> clean s (f x t)"
  shows "clean s (and_then (policy_checked_write sv identity action m u) f)"
proof -
  obtain r t where p: "policy_checked_write sv identity action m u = (r, t)" by fastforce
  with policy_untouched [OF assms(1), of sv identity action m] have "untouched s t" by simp
  with p assms(2) show ?thesis by (cases r) (auto simp: clean_def)
qed

lemma clean_check:
  "untouched s u \<Longrightarrow> (\<And>x. untouched s u \<Longrightarrow> clean s (f x u)) \<Longrightarrow> clean s (and_then (lift_check c u) f)"
  by (rule clean_pass) (auto simp: lift_check_eq_Inr)

lemma clean_option: "(v = None \<Longrightarrow> clean s x) \<Longrightarrow> (\<And>y. v = Some y \<Longrightarrow> clean s (f y)) \<Longrightarrow>
    clean s (case v of None \<Rightarrow> x | Some y \<Rightarrow> f y)"
  by (cases v) simp_all

lemma clean_if: "(b \<Longrightarrow> clean s x) \<Longrightarrow> (\<not> b \<Longrightarrow> clean s y) \<Longrightarrow> clean s (if b then x else y)" by simp

lemmas clean_steps = clean_guard clean_raise clean_path clean_policy clean_check clean_option clean_if

subsection \<open>The commands\<close>

lemma not_denied_transition [simp]: "\<not> denied (run_transition sv x m ob s)"
  unfolding run_transition_def by (intro not_denied)

lemma forget_clean: "clean s (forget sv identity i rs s)"
  unfolding forget_def not_found_def by (intro clean_steps untouched_refl clean_return not_denied_transition; assumption)

lemma correct_clean: "clean s (correct sv identity i t rs s)"
  unfolding correct_def not_found_def Let_def
  by (intro clean_steps untouched_refl; (assumption | (rule clean_return, intro not_denied)))

lemma expire_clean: "clean s (expire sv identity i v rs s)"
proof -
  have now: "\<not> denied (expiry_instant w t)" for w t
    unfolding expiry_instant_def by (intro not_denied)
  show ?thesis
    unfolding expire_def not_found_def Let_def
    by (intro clean_guard clean_policy clean_check untouched_refl; (assumption | (rule clean_return, intro not_denied now)))
qed

lemma unexpire_clean: "clean s (unexpire sv identity i rs s)"
proof -
  have "\<not> denied (reopen_window identity now r m restored t)" for now r m restored t
    unfolding reopen_window_def Let_def by (intro not_denied)
  note rest = this
  show ?thesis
    unfolding unexpire_def not_found_def Let_def
    by (intro clean_guard clean_policy clean_check untouched_refl; (assumption | (rule clean_return, intro not_denied rest)))
qed

lemma undo_clean: "clean s (undo sv identity i rs j s)"
proof -
  have succ: "clean s (and_then (undo_successor sv identity m j u) (\<lambda>ob t. run_transition sv x m ob t))"
    if "untouched s u" for m u x
  proof -
    have "clean s (undo_successor sv identity m j u)"
      unfolding undo_successor_def
      by (intro clean_steps that; (assumption | (rule clean_return, intro not_denied)))
    then show ?thesis
      by (cases "undo_successor sv identity m j u"; cases "fst (undo_successor sv identity m j u)")
        (auto simp: clean_def denied_def [of "(Inl _, _)"])
  qed
  show ?thesis
    unfolding undo_def not_found_def by (intro clean_steps untouched_refl succ; assumption)
qed

lemma confirm_clean: "clean s (confirm sv identity i a t rs s)"
proof -
  have refresh: "\<not> denied (refresh_last_confirmed identity m a r md s)" for m a r md s
    unfolding refresh_last_confirmed_def Let_def by (intro not_denied)
  have replay: "\<not> denied (replay_confirmation identity m c i a s)" for m c a s
    unfolding replay_confirmation_def by (intro not_denied refresh)
  have late: "\<not> denied (confirmation_expired raw s)" for raw s
    by (simp add: confirmation_expired_def split: json.split option.split)
  have expired: "\<not> denied (expire_confirmation identity i m s)" for m s
    unfolding expire_confirmation_def Let_def by (intro not_denied)
  have settled: "\<not> denied (settle_confirmation identity i a t rs m s)" for a m s
    unfolding settle_confirmation_def Let_def by (intro not_denied)
  show ?thesis
    unfolding confirm_def Let_def
    by (intro clean_raise clean_guard clean_policy untouched_refl;
        (assumption | (rule clean_return, intro not_denied replay late expired settled)))
qed

text \<open>A part that never writes, and may deny.\<close>

lemma clean_then:
  assumes "untouched s (snd m)" "\<And>x t. untouched s t \<Longrightarrow> clean s (f x t)"
  shows "clean s (and_then m f)"
  using assms by (cases m; cases "fst m") (auto simp: clean_def)

lemma authorize_untouched: "untouched s u \<Longrightarrow> untouched s (snd (authorize_member sv identity p i m u))"
  by (cases "policy_checked_write sv identity ''memory.accept_consolidation'' m u";
      cases "fst (policy_checked_write sv identity ''memory.accept_consolidation'' m u)")
    (use policy_untouched [of s u sv identity "''memory.accept_consolidation''" m] in \<open>auto simp: authorize_member_def\<close>)

lemma untouched_then: "untouched s (snd m) \<Longrightarrow> (\<And>x t. untouched s t \<Longrightarrow> untouched s (snd (f x t))) \<Longrightarrow> untouched s (snd (and_then m f))"
  by (cases m; cases "fst m") auto

lemma untouched_checks [simp]:
  "untouched s u \<Longrightarrow> untouched s (snd (require_row e ob u))" "untouched s u \<Longrightarrow> untouched s (snd (raise_when b e u))"
  by (auto simp: require_row_def raise_when_def split: option.split)

lemma lock_members_untouched: "untouched s u \<Longrightarrow> untouched s (snd (lock_members sv identity p ids u))"
proof (induction ids arbitrary: u)
  case (Cons i ids)
  show ?case
    by (simp add: Cons split: option.split)
      (auto intro!: untouched_then authorize_untouched Cons)
qed simp

lemma not_denied_members [simp]: "\<not> denied (supersede_members sv identity m locked ids s)"
proof (induction ids arbitrary: s)
  case (Cons i ids)
  show ?case unfolding supersede_members.simps by (intro not_denied Cons not_denied_transition)
qed simp

lemma not_denied_promotion [simp]: "\<not> denied (promote_candidate identity d rs p m c out s)"
  unfolding promote_candidate_def Let_def by (intro not_denied)

lemma accept_clean: "clean s (accept_consolidation_candidate sv identity i rs s)"
proof -
  have replay: "\<not> denied (replay_acceptance d m c a u)" for d m c a u
    unfolding replay_acceptance_def by (intro not_denied)
  have scopes: "untouched s (snd (check_scopes p m locked u))" if "untouched s u" for p m locked u
    using that by (simp add: check_scopes_def Let_def)
  have snaps: "untouched s (snd (check_snapshots p u))" if "untouched s u" for p u
    using that by (auto simp: check_snapshots_def intro!: untouched_then)
  show ?thesis
    unfolding accept_consolidation_candidate_def merge_candidate_def not_found_def
    by (intro clean_steps untouched_refl; (assumption | (rule clean_return, rule replay)
        | (intro clean_then snaps lock_members_untouched scopes clean_return not_denied; (assumption | simp))))
qed

text \<open>A commit that runs alone denies in its replay only.\<close>

lemma replay_clean: "untouched s u \<Longrightarrow> clean s (idempotent_replay sv identity r m u)"
  unfolding idempotent_replay_def assert_idempotent_request_matches_def Let_def
  by (intro clean_policy clean_raise; (assumption | (rule clean_return, rule not_denied)))

lemma create_failed: "create_memory m ay s = (Inl e, t) \<Longrightarrow> memories t = memories s \<and> revisions t = revisions s"
  by (auto simp: create_memory_def Let_def draw_def split: if_splits)

lemma record_outrun:
  "create_memory_record (\<lambda>s. s) m ay r s = (Inr (OutrunBy x), t) \<Longrightarrow> untouched s t"
  by (auto simp: create_memory_record_def untouched_def assert_idempotent_request_matches_def command_succeeds
      dest: create_failed split: sum.splits memory_error.splits option.splits prod.splits)

lemma not_denied_record [simp]: "\<not> denied (create_memory_record race m ay r s)"
  by (simp add: create_memory_record_def assert_idempotent_request_matches_def
      split: prod.split sum.split memory_error.split option.split) (intro allI impI not_denied)

lemma written_outrun: "when_written m f = (Inr (OutrunBy x), t) \<Longrightarrow> m = (Inr (OutrunBy x), t)"
  by (auto simp: when_written_def command_succeeds split: commit_outcome.splits) (metis commit_outcome.exhaust)

lemma draw_key_untouched [simp]: "untouched s (draw_key r u) = untouched s u"
  by (simp add: untouched_def draw_key_def)

lemma untouched_reading [simp]: "untouched s (tick u) = untouched s u" "untouched s (draw u) = untouched s u"
  by (simp_all add: untouched_def)

lemma untouched_trans: "untouched s t \<Longrightarrow> untouched t u \<Longrightarrow> untouched s u"
  by (simp add: untouched_def)

lemma write_commit_outrun:
  "write_commit (\<lambda>s. s) identity r d s = (Inr (OutrunBy x), t) \<Longrightarrow> untouched s t"
  by (auto simp: write_commit_def create_confirmation_def create_review_candidate_def create_committed_memory_def
      Let_def command_succeeds dest!: written_outrun record_outrun split: if_splits intro: untouched_trans [rotated])

lemma not_denied_finish [simp]:
  "\<not> denied (finish_fact identity r d m s)" "\<not> denied (finish_confirmation identity r d c cd m s)"
  "\<not> denied (finish_candidate identity r d c m s)"
  unfolding finish_fact_def finish_confirmation_def finish_candidate_def Let_def by (intro not_denied)+

lemma not_denied_written: "\<not> denied m \<Longrightarrow> (\<And>row t. \<not> denied (f row t)) \<Longrightarrow> \<not> denied (when_written m f)"
  unfolding when_written_def by (intro not_denied)

lemma write_commit_at:
  "write_commit race identity r d s =
     (if md_write_mode d = ''confirm_inline'' then create_confirmation race identity r d s
      else if md_write_mode d = ''propose_review'' then create_review_candidate race identity r d s
      else create_committed_memory race identity r d s)"
  by (simp add: write_commit_def)

lemma not_denied_write [simp]: "\<not> denied (write_commit race identity r d s)"
  unfolding write_commit_at create_confirmation_def create_review_candidate_def create_committed_memory_def Let_def
  by (intro not_denied not_denied_written not_denied_record not_denied_finish)

lemma evaluate_commit_pass:
  "\<not> denied (evaluate_policy sv identity r s)" "untouched s (snd (evaluate_policy sv identity r s))"
  by (auto simp: evaluate_policy_def evaluate_policy_for_def Let_def denied_def untouched_def split: sum.split)

lemma commit_clean: "clean s (commit sv (\<lambda>s. s) identity r s)"
proof -
  have "clean s (commit_answer sv (\<lambda>s. s) identity r s)"
  proof (cases "idempotent_memory (mc_idempotency_key r) s")
    case None
    have go: "clean s (and_then (write_commit (\<lambda>s. s) identity r d u)
        (\<lambda>outcome s. case outcome of Written x \<Rightarrow> (Inr x, s) | OutrunBy m \<Rightarrow> idempotent_replay sv identity r m s))"
      if "untouched s u" for d u
    proof (rule clean_pass [OF that not_denied_write])
      fix outcome t assume "write_commit (\<lambda>s. s) identity r d u = (Inr outcome, t)"
      then show "clean s (case outcome of Written x \<Rightarrow> (Inr x, t) | OutrunBy m \<Rightarrow> idempotent_replay sv identity r m t)"
        using untouched_trans [OF that write_commit_outrun]
        by (cases outcome) (auto intro: replay_clean clean_return)
    qed
    show ?thesis
      unfolding commit_answer_def None option.case
      by (rule clean_then [OF evaluate_commit_pass(2)]) (auto intro: clean_return go)
  qed (simp add: commit_answer_def replay_clean)
  then show ?thesis
    by (cases "commit_answer sv (\<lambda>s. s) identity r s"; cases "fst (commit_answer sv (\<lambda>s. s) identity r s)")
      (auto simp: commit_def clean_def denied_def)
qed

text \<open>A dry run of the quarantine writes events only.\<close>

lemma dry_sweep: "snd (sweep_all sv identity rs True ids s) = s"
proof (induction ids arbitrary: s)
  case (Cons i ids)
  have one: "snd (sweep_one sv identity rs True i s) = s" by (simp add: sweep_one_def split: option.split)
  then show ?case
    by (cases "sweep_one sv identity rs True i s"; cases "fst (sweep_one sv identity rs True i s)";
        cases "sweep_all sv identity rs True ids s"; cases "fst (sweep_all sv identity rs True ids s)")
      (use Cons [of s] in auto)
qed simp

lemma dry_quarantine: "untouched s (snd (quarantine_by_agent_key sv identity a rs since until True s))"
proof -
  have decided: "untouched u (snd (quarantine_decision sv identity u))" for u
    by (auto simp: quarantine_decision_def evaluate_policy_for_def untouched_def Let_def split: sum.split)
  have found: "untouched s (snd (auto_promoted_by_agent b since until u))" if "untouched s u" for b u
    using that by (auto simp: auto_promoted_by_agent_def Let_def intro!: untouched_then)
  have sweep: "untouched s (snd (sweep_all sv identity r True ids (draw u)))" if "untouched s u" for r ids u
    using that by (simp add: dry_sweep)
  show ?thesis
    unfolding quarantine_by_agent_key_def Let_def
    by (intro untouched_then decided found sweep untouched_checks; simp)
qed

text \<open>The commands that run alone and only preview a quarantine.\<close>

fun alone :: "memory_command \<Rightarrow> bool" where
  "alone (CommitMemory identity r beside) = (beside = [])"
| "alone (QuarantineAgent identity agent reason since until dry_run) = dry_run"
| "alone c = True"

lemma run_nothing: "run_commands sv [] = (\<lambda>s. s)" by (simp add: fun_eq_iff)

lemma command_clean: "alone c \<Longrightarrow> clean s (run_command sv c s)"
proof (cases c)
  case (CommitMemory identity r beside)
  then show "alone c \<Longrightarrow> clean s (run_command sv c s)" by (simp add: commit_clean run_nothing)
next
  case (QuarantineAgent identity agent reason since until dry_run)
  then show "alone c \<Longrightarrow> clean s (run_command sv c s)" by (simp add: clean_def dry_quarantine)
next
  case (RefreshReviewed memory stage)
  then show "alone c \<Longrightarrow> clean s (run_command sv c s)" by (simp add: clean_return)
qed (simp_all add: confirm_clean undo_clean correct_clean forget_clean expire_clean unexpire_clean accept_clean)

subsection \<open>Agents that may not write\<close>

lemma base_not_blocked:
  assumes "evaluate_agent_policy sc t (Some i) req = Inr d" "decision d \<noteq> ''blocked''" "req_action req \<in> set WRITE_ACTIONS"
  shows "permission_profile i \<noteq> ''read_only_agent''
    \<and> (permission_profile i = ''memory_proposal_agent'' \<longrightarrow> req_action req \<in> set PROPOSAL_ONLY_WRITE_ACTIONS)"
proof -
  from assms(1,2) obtain b where "\<not> blocked (policy_verdict req i b)"
    by (auto simp: evaluate_agent_policy_def Let_def blocked_def)
  then show ?thesis using unblocked_stages unblocked_profile_writes assms(3) by blast
qed

text \<open>The actions of the commands that change a stored memory.\<close>

definition mutating_actions :: "string list" where
  [model_defs]: "mutating_actions =
    [''memory.confirm'', ''memory.correct'', ''memory.forget'', ''memory.undo'', ''memory.expire'',
     ''memory.unexpire'', ''memory.accept_consolidation'']"

lemma policy_stops:
  assumes "permission_profile i = ''read_only_agent'' \<and> action \<in> set (''memory.commit'' # mutating_actions)
    \<or> permission_profile i = ''memory_proposal_agent'' \<and> action \<in> set mutating_actions"
  shows "policy_checked_write sv (Some i) action m s \<noteq> (Inr d, t)"
proof
  assume p: "policy_checked_write sv (Some i) action m s = (Inr d, t)"
  have act: "req_action (memory_policy_request action m) = action"
    by (simp add: memory_policy_request_def default_request_def)
  have writes: "action \<in> set WRITE_ACTIONS"
    using assms by (auto simp: WRITE_ACTIONS_def mutating_actions_def)
  have other: "action \<in> set mutating_actions \<Longrightarrow> action \<notin> set PROPOSAL_ONLY_WRITE_ACTIONS"
    by (auto simp: mutating_actions_def PROPOSAL_ONLY_WRITE_ACTIONS_def)
  from p obtain tr where "evaluate_agent_policy (floor_scanners (sv_scanners sv)) tr (Some i) (memory_policy_request action m) = Inr d"
    "decision d \<noteq> ''blocked''"
    by (auto simp: policy_checked_write_def command_succeeds evaluate_policy_for_def Let_def split: sum.splits if_splits)
  from base_not_blocked [OF this] act writes other assms show False by auto
qed

lemma stopped:
  assumes "untouched s u"
    "permission_profile i = ''read_only_agent'' \<and> action \<in> set (''memory.commit'' # mutating_actions)
    \<or> permission_profile i = ''memory_proposal_agent'' \<and> action \<in> set mutating_actions"
  shows "untouched s (snd (and_then (policy_checked_write sv (Some i) action m u) f))"
proof -
  obtain r t where p: "policy_checked_write sv (Some i) action m u = (r, t)" by fastforce
  with policy_stops [OF assms(2), of sv m u] policy_untouched [OF assms(1), of sv "Some i" action m]
  show ?thesis by (cases r) auto
qed

lemma untouched_guards:
  "untouched s u \<Longrightarrow> (\<And>x t. untouched s t \<Longrightarrow> untouched s (snd (f x t))) \<Longrightarrow>
     untouched s (snd (and_then (require_row e ob u) f))"
  "untouched s u \<Longrightarrow> (\<And>x t. untouched s t \<Longrightarrow> untouched s (snd (g x t))) \<Longrightarrow>
     untouched s (snd (and_then (raise_when b e u) g))"
  "untouched s u \<Longrightarrow> (\<And>x t. untouched s t \<Longrightarrow> untouched s (snd (g x t))) \<Longrightarrow>
     untouched s (snd (and_then (require_project_update_decision_path m u) g))"
  unfolding require_project_update_decision_path_def by (rule untouched_then; simp)+

fun agent_behind :: "memory_command \<Rightarrow> agent_identity option" where
  "agent_behind (CommitMemory identity r beside) = identity"
| "agent_behind (ConfirmMemory identity i action new_text rationale) = identity"
| "agent_behind (UndoMemory identity i reason successor) = identity"
| "agent_behind (CorrectMemory identity i new_text reason) = identity"
| "agent_behind (ForgetMemory identity i reason) = identity"
| "agent_behind (ExpireMemory identity i closing reason) = identity"
| "agent_behind (UnexpireMemory identity i reason) = identity"
| "agent_behind (AcceptConsolidation identity i reason) = identity"
| "agent_behind (QuarantineAgent identity agent reason since until dry_run) = identity"
| "agent_behind (RefreshReviewed memory stage) = None"

definition may_not_mutate :: "agent_identity \<Rightarrow> bool" where
  "may_not_mutate i \<longleftrightarrow> permission_profile i \<in> {''read_only_agent'', ''memory_proposal_agent''}"

lemma stops_mutation:
  "may_not_mutate i \<Longrightarrow> action \<in> set mutating_actions \<Longrightarrow>
     permission_profile i = ''read_only_agent'' \<and> action \<in> set (''memory.commit'' # mutating_actions)
    \<or> permission_profile i = ''memory_proposal_agent'' \<and> action \<in> set mutating_actions"
  by (auto simp: may_not_mutate_def)

lemma quarantine_stopped:
  assumes "may_not_mutate i"
  shows "untouched s (snd (quarantine_by_agent_key sv (Some i) a rs since until dry s))"
proof -
  have "quarantine_decision sv (Some i) s \<noteq> (Inr d, t)" for d t
  proof
    assume "quarantine_decision sv (Some i) s = (Inr d, t)"
    then obtain tr where "evaluate_agent_policy (floor_scanners (sv_scanners sv)) tr (Some i) (default_request ''memory.quarantine'') = Inr d"
      "decision d \<noteq> ''blocked''"
      by (auto simp: quarantine_decision_def command_succeeds evaluate_policy_for_def Let_def split: sum.splits if_splits)
    from base_not_blocked [OF this] assms show False
      by (auto simp: default_request_def WRITE_ACTIONS_def PROPOSAL_ONLY_WRITE_ACTIONS_def may_not_mutate_def)
  qed
  moreover have "untouched s (snd (quarantine_decision sv (Some i) s))"
    by (auto simp: quarantine_decision_def evaluate_policy_for_def untouched_def Let_def split: sum.split)
  ultimately show ?thesis
    by (cases "quarantine_decision sv (Some i) s"; cases "fst (quarantine_decision sv (Some i) s)")
      (auto simp: quarantine_by_agent_key_def)
qed

lemma mutations_stopped:
  assumes "agent_behind c = Some i" "may_not_mutate i" "\<And>identity r beside. c \<noteq> CommitMemory identity r beside"
  shows "untouched s (snd (run_command sv c s))"
proof -
  note stop = stopped [OF _ stops_mutation [OF assms(2)]]
  show ?thesis
    using assms(1,3)
    by (cases c)
      (auto simp: confirm_def undo_def correct_def forget_def expire_def unexpire_def Let_def
        accept_consolidation_candidate_def mutating_actions_def quarantine_stopped [OF assms(2)]
        intro!: stop untouched_guards)
qed

lemma commit_read_only:
  assumes "permission_profile i = ''read_only_agent''"
  shows "untouched s (snd (commit sv race (Some i) r s))"
proof -
  have replay: "untouched s (snd (idempotent_replay sv (Some i) r m u))" if "untouched s u" for m u
    unfolding idempotent_replay_def by (rule stopped [OF that]) (simp add: assms)
  have reject: "md_write_mode d = ''reject''" if "evaluate_policy sv (Some i) r u = (Inr d, t)" for d u t
  proof -
    from that obtain tr base where b:
      "evaluate_agent_policy (floor_scanners (sv_scanners sv)) tr (Some i) (commit_base_request r) = Inr base"
      and d: "\<exists>st trust. evaluate_memory_commit_policy (sv_scanners sv) (Some i) r base st trust = Inr d"
      by (auto simp: evaluate_policy_def evaluate_policy_for_def command_succeeds Let_def split: sum.splits)
    have "decision base = ''blocked''"
      using base_not_blocked [OF b] assms by (auto simp: commit_base_request_def default_request_def WRITE_ACTIONS_def)
    with d show ?thesis
      by (auto simp: evaluate_memory_commit_policy_def commit_gate_def authority_gate_def gate_mode_def lifts_gate_def Let_def)
  qed
  have "untouched s (snd (commit_answer sv race (Some i) r s))"
  proof (cases "idempotent_memory (mc_idempotency_key r) s")
    case None
    obtain res t where e: "evaluate_policy sv (Some i) r s = (res, t)" by fastforce
    with evaluate_commit_pass(2) [of s sv "Some i" r] have "untouched s t" by simp
    moreover from this have "untouched s (append_decision_event (Some i) r d None t)" for d
      by (simp add: append_decision_event_def untouched_def)
    ultimately show ?thesis using e reject None by (cases res) (auto simp: commit_answer_def)
  qed (simp add: commit_answer_def replay)
  then show ?thesis unfolding commit_def by (rule untouched_then) simp
qed

text \<open>A commit that runs alone adds rows at the end.\<close>

definition rows_appended :: "memory_store \<Rightarrow> memory_store \<Rightarrow> bool" where
  "rows_appended s t \<longleftrightarrow> prefix (memories s) (memories t)"

interpretation appending: creation_relation rows_appended
proof
  fix s t u :: memory_store and tr rn et ay ai tt ti p entry i a l kt ki si q m
  show "rows_appended s s" "rows_appended s (tick s)" "rows_appended s (draw s)"
    "rows_appended s (append_traced_event tr rn et ay ai tt ti p s)" "rows_appended s (append_revision entry i ay s)"
    "rows_appended s (request_derived q s)" "rows_appended s (upsert_agent_identity a i ay s)"
    "rows_appended s (snd (create_provenance_link l kt ki si ay s))"
    "rows_appended s (snd (create_memory m ay s))"
    by (simp_all add: rows_appended_def create_memory_def Let_def)
  show "rows_appended s t \<Longrightarrow> rows_appended t u \<Longrightarrow> rows_appended s u"
    by (auto simp: rows_appended_def intro: prefix_order.trans)
qed

lemma commit_appends: "prefix (memories s) (memories (snd (commit sv (\<lambda>s. s) identity r s)))"
  using appending.rel_commit [where race = "\<lambda>s. s", OF appending.rel_refl appending.rel_refl]
  by (simp add: rows_appended_def)

subsection \<open>Agents for the witnesses\<close>

definition demo_reader :: agent_identity where
  "demo_reader = demo_agent\<lparr>permission_profile := ''read_only_agent''\<rparr>"

definition demo_proposer :: agent_identity where
  "demo_proposer = demo_agent\<lparr>permission_profile := ''memory_proposal_agent''\<rparr>"

lemma demo_reader_denied:
  "fst (run_command demo_service (ForgetMemory (Some demo_reader) ''a'' None) demo_memories)
    \<in> range (Inl \<circ> AgentPolicyBlockedError)"
proof -
  let ?s = "upsert_identity (Some demo_reader) demo_memories"
  let ?q = "memory_policy_request ''memory.forget'' (demo_row ''a'')"
  obtain d where d: "evaluate_agent_policy quiet_scanners (fresh_trace ?s) (Some demo_reader) ?q = Inr d"
    by (simp add: evaluate_agent_policy_def policy_promotion_def memory_policy_request_def default_request_def Let_def)
  have "decision d = ''blocked''"
  proof (rule ccontr)
    assume "decision d \<noteq> ''blocked''"
    from base_not_blocked [OF d this] show False
      by (simp add: memory_policy_request_def default_request_def WRITE_ACTIONS_def demo_reader_def demo_agent_def)
  qed
  moreover have "\<not> is_pending_project_update_memory (demo_row ''a'')"
    by (simp add: is_pending_project_update_memory_def is_project_update_memory_def nested_def demo_row_def)
  ultimately show ?thesis
    using d by (simp add: forget_def demo_get require_project_update_decision_path_def policy_checked_write_def
        evaluate_policy_for_def demo_service_def demo_scanners_def Let_def)
qed

subsection \<open>Properties\<close>



text \<open>
  C9:
  a read-only agent changes no memory and writes no revision, through any command and however the
  service is configured.  A proposal agent changes none either through any command but a commit (a live
  quarantine included); its commits, when no other transaction runs beside them, leave every row as it
  was and only add rows after the last.
\<close>

theorem restricted_agents_change_nothing:
  assumes "agent_behind c = Some i"
  shows "(permission_profile i = ''read_only_agent'' \<longrightarrow>
      memories (snd (run_command sv c s)) = memories s \<and> revisions (snd (run_command sv c s)) = revisions s) \<and>
    (permission_profile i = ''memory_proposal_agent'' \<longrightarrow>
      (case c of
         CommitMemory identity r beside \<Rightarrow>
           beside = [] \<longrightarrow> prefix (memories s) (memories (snd (run_command sv c s)))
       | _ \<Rightarrow> memories (snd (run_command sv c s)) = memories s \<and> revisions (snd (run_command sv c s)) = revisions s))"
proof (intro conjI impI)
  assume "permission_profile i = ''read_only_agent''"
  then have "untouched s (snd (run_command sv c s))"
    using assms mutations_stopped [OF assms, of s sv] commit_read_only [of i s sv]
    by (cases c) (auto simp: may_not_mutate_def)
  then show "memories (snd (run_command sv c s)) = memories s" "revisions (snd (run_command sv c s)) = revisions s"
    by (simp_all add: untouched_def)
next
  assume "permission_profile i = ''memory_proposal_agent''"
  then have stopped: "untouched s (snd (run_command sv c s))" if "\<And>identity r beside. c \<noteq> CommitMemory identity r beside"
    using mutations_stopped [OF assms _ that, of s sv] by (simp add: may_not_mutate_def)
  show "case c of
         CommitMemory identity r beside \<Rightarrow>
           beside = [] \<longrightarrow> prefix (memories s) (memories (snd (run_command sv c s)))
       | _ \<Rightarrow> memories (snd (run_command sv c s)) = memories s \<and> revisions (snd (run_command sv c s)) = revisions s"
  proof (cases c)
    case (CommitMemory identity r beside)
    then show ?thesis by (simp add: commit_appends run_nothing)
  qed (use stopped in \<open>simp_all add: untouched_def del: run_command.simps\<close>)
qed

theorem restricted_agents_change_nothing_witness:
  "memories (snd (run_command demo_service (UndoMemory (Some demo_reader) (Some ''a'') None (Some ''b'')) demo_memories)) = memories demo_memories
   \<and> memories (snd (run_command demo_service (QuarantineAgent (Some demo_proposer) ''helper'' ''lost key'' None None False) demo_memories))
      = memories demo_memories
   \<and> prefix (memories demo_memories)
      (memories (snd (run_command demo_service (CommitMemory (Some demo_proposer) demo_commit []) demo_memories)))"
  using restricted_agents_change_nothing [of "UndoMemory (Some demo_reader) (Some ''a'') None (Some ''b'')" demo_reader demo_service demo_memories]
    restricted_agents_change_nothing [of "QuarantineAgent (Some demo_proposer) ''helper'' ''lost key'' None None False" demo_proposer demo_service demo_memories]
    restricted_agents_change_nothing [of "CommitMemory (Some demo_proposer) demo_commit []" demo_proposer demo_service demo_memories]
  by (simp add: demo_reader_def demo_proposer_def del: run_command.simps)

end
