(* ===== verification/Memory_Reach.thy ===== *)
theory Memory_Reach
  imports Memory_History
begin

text \<open>
  How far the readers and the quarantine reach: the audit of a memory follows at most ten replacements
  in each direction and writes nothing, and a quarantine touches no memory but those that the agent's
  own commits promoted.
\<close>

subsection \<open>The audit\<close>

lemma get_memory_id: "get_memory s i = Some m \<Longrightarrow> row_id m = i"
  by (auto dest!: get_memory_row simp: live_row_def)

lemma chain_walk_rows:
  "chain_walk authorize key hops seen m s = (Inr (rows, seen'), t) \<Longrightarrow>
     length rows \<le> hops \<and> distinct (map row_id rows) \<and> set (map row_id rows) \<inter> set seen = {}
     \<and> set seen' = set (map row_id rows) \<union> set seen"
proof (induction authorize key hops seen m s arbitrary: rows seen' t rule: chain_walk.induct)
  case (2 authorize key hops seen m s)
  show ?case
  proof (cases "supersession_pointer m key")
    case (Some p)
    show ?thesis
    proof (cases "p \<in> set seen")
      case False
      with 2(2) Some obtain row s1 rest seen1 where row: "get_memory s p = Some row"
        and auth: "authorize_row authorize row s = (Inr (), s1)"
        and walk: "chain_walk authorize key hops (p # seen) row s1 = (Inr (rest, seen1), t)"
        and eq: "rows = row # rest" "seen' = seen1"
        by (auto simp: command_succeeds)
      have "row_id row = p" by (rule get_memory_id [OF row])
      with 2(1) [OF Some False] row auth walk eq False show ?thesis by (auto simp: require_row_eq_Inr)
    qed (use 2(2) Some in simp)
  qed (use 2(2) in simp)
qed simp

lemma chain_walk_reads: "snd (chain_walk None key hops seen m s) = s"
proof (induction hops arbitrary: seen m s)
  case (Suc hops)
  have "snd (and_then (chain_walk None key hops sn r s) (\<lambda>(rows, seen') s. (Inr (row # rows, seen'), s))) = s" for sn r row
    by (cases "chain_walk None key hops sn r s"; cases "fst (chain_walk None key hops sn r s)")
      (use Suc [of sn r s] in auto)
  then show ?case by (simp add: authorize_row_def require_row_def split: option.split)
qed simp

lemma chain_rows:
  assumes "supersession_chain authorize m s = (Inr chain, t)"
  shows "\<exists>ps ss. chain = map (chain_entry ''predecessor'') ps @ [chain_entry ''self'' m] @ map (chain_entry ''successor'') ss
    \<and> length ps \<le> 10 \<and> length ss \<le> 10 \<and> distinct (map row_id (ps @ [m] @ ss))"
proof -
  from assms obtain ps seen s1 ss seen' where
    p: "chain_walk authorize ''supersedes'' SUPERSESSION_CHAIN_MAX_DEPTH [row_id m] m s = (Inr (ps, seen), s1)" and
    q: "chain_walk authorize ''superseded_by'' SUPERSESSION_CHAIN_MAX_DEPTH seen m s1 = (Inr (ss, seen'), t)" and
    c: "chain = map (chain_entry ''predecessor'') (rev ps) @ [chain_entry ''self'' m] @ map (chain_entry ''successor'') ss"
    by (auto simp: supersession_chain_def command_succeeds split: prod.splits)
  note rows = chain_walk_rows [OF p] chain_walk_rows [OF q]
  have "distinct (map row_id (rev ps @ [m] @ ss))"
    using rows by (auto simp: rev_map [symmetric])
  then show ?thesis using rows c
    by (intro exI [of _ "rev ps"] exI [of _ ss]) (auto simp: SUPERSESSION_CHAIN_MAX_DEPTH_def)
qed


lemma reads_then:
  fixes m :: "(service_error + 'x) \<times> memory_store" and f :: "'x \<Rightarrow> 'y command"
  assumes "snd m = s" "\<And>x. snd (f x s) = s"
  shows "snd (and_then m f) = s"
  using assms by (cases m; cases "fst m") auto

lemma chain_reads: "snd (supersession_chain None m s) = s"
  unfolding supersession_chain_def
  by (rule reads_then, rule chain_walk_reads, simp split: prod.split, intro allI impI, rule reads_then,
      rule chain_walk_reads, simp split: prod.split)

lemma audit_reads: "snd (audit i None s) = s"
  unfolding audit_def
  by (intro reads_then) (simp_all add: chain_reads require_row_def authorize_row_def split: option.split)

subsection \<open>The quarantine\<close>

definition only_in :: "string set \<Rightarrow> memory_store \<Rightarrow> memory_store \<Rightarrow> bool" where
  "only_in C s t \<longleftrightarrow> (\<forall>r\<in>set (memories s). row_id r \<notin> C \<longrightarrow> r \<in> set (memories t))"

lemma only_in_frame: "memories t = memories s \<Longrightarrow> only_in C s t" by (simp add: only_in_def)

interpretation reaching: record_relation "only_in C" for C
proof
  fix s t u :: memory_store and tr rn et ay ai tt ti p entry i a l kt ki si q
  show "only_in C s s" "only_in C s (tick s)" "only_in C s (draw s)"
    "only_in C s (append_traced_event tr rn et ay ai tt ti p s)" "only_in C s (append_revision entry i ay s)"
    "only_in C s (request_derived q s)" "only_in C s (upsert_agent_identity a i ay s)"
    "only_in C s (snd (create_provenance_link l kt ki si ay s))"
    by (rule only_in_frame; simp)+
  show "only_in C s t \<Longrightarrow> only_in C t u \<Longrightarrow> only_in C s u" by (auto simp: only_in_def)
qed

lemma only_in_update: "i \<in> C \<Longrightarrow> only_in C u s \<Longrightarrow> only_in C u (snd (update_memory i patch ay s))"
proof (rule reaching.rel_trans)
  assume "i \<in> C"
  then show "only_in C s (snd (update_memory i patch ay s))"
    by (cases i patch ay s rule: update_memory_cases) (auto simp: only_in_def live_row_def)
qed

lemma expire_reach: "i \<in> C \<Longrightarrow> only_in C u s \<Longrightarrow> only_in C u (snd (expire sv identity i v rs s))"
proof -
  assume i: "i \<in> C" and s: "only_in C u s"
  have up: "only_in C u (snd (and_then (require_row e (get_memory s i) s) f))"
    if "\<And>m. row_id m \<in> C \<Longrightarrow> only_in C u (snd (f m s))" for e f
    using that i s get_memory_id by (cases "get_memory s i") auto
  show ?thesis
    unfolding expire_def Let_def
    by (rule up, rule reaching.rel_and_then, rule reaching.rel_policy [OF s], rule reaching.rel_and_then,
        erule reaching.rel_check, rule reaching.rel_and_then, erule reaching.rel_check, rule reaching.rel_and_then,
        erule reaching.rel_instant, rule reaching.rel_and_then, rule reaching.rel_lift, rule only_in_update,
        assumption, erule reaching.rel_tick, rule reaching.rel_return, rule reaching.rel_command_event,
        erule reaching.rel_revise)
qed

lemma sweep_one_reach: "i \<in> C \<Longrightarrow> only_in C u s \<Longrightarrow> only_in C u (snd (sweep_one sv identity rs dry i s))"
  by (simp add: sweep_one_def Let_def expire_reach split: option.split)

lemma sweep_all_reach:
  "set ids \<subseteq> C \<Longrightarrow> only_in C u s \<Longrightarrow> only_in C u (snd (sweep_all sv identity rs dry ids s))"
proof (induction ids arbitrary: s)
  case (Cons i ids)
  then have i: "i \<in> C" and ids: "set ids \<subseteq> C" by auto
  show ?case
    unfolding sweep_all.simps
    by (intro reaching.rel_and_then reaching.rel_return Cons.IH [OF ids] sweep_one_reach [OF i Cons.prems(2)]; assumption)
qed simp

text \<open>The events that name a memory as promoted by the agent within the window.\<close>

definition promoted_by ::
  "string \<Rightarrow> string option \<Rightarrow> string option \<Rightarrow> memory_store \<Rightarrow> string \<Rightarrow> bool" where
  "promoted_by agent since until s i \<longleftrightarrow>
     (\<exists>e\<in>set (event_log s). str_or (dget e ''event_type'') [] = AUTO_PROMOTED_EVENT
        \<and> str_or (dget e ''actor_id'') [] = squeeze_text agent
        \<and> dget e ''target_type'' = JStr ''memory'' \<and> py_str (dget e ''target_id'') = i
        \<and> (case since of None \<Rightarrow> True | Some a \<Rightarrow> instant_of a \<le> moment_in ''occurred_at'' e)
        \<and> (case until of None \<Rightarrow> True | Some b \<Rightarrow> moment_in ''occurred_at'' e \<le> instant_of b))"

lemma promoted_targets_events:
  "(i, e) \<in> set (promoted_targets agent seen es) \<Longrightarrow> e \<in> set es \<and> str_or (dget e ''event_type'') [] = AUTO_PROMOTED_EVENT
     \<and> str_or (dget e ''actor_id'') [] = agent \<and> py_str (dget e ''target_id'') = i"
  by (induction agent seen es rule: promoted_targets.induct) (auto split: if_splits)

lemma policy_events_unlisted:
  "filter (\<lambda>e. dget e ''target_type'' = JStr tt \<and> p e) (event_log (append_policy_events identity d None None s))
    = filter (\<lambda>e. dget e ''target_type'' = JStr tt \<and> p e) (event_log s)"
  by (auto simp: append_policy_events_def append_traced_event_def tick_def draw_def Let_def split: option.split)

lemma decision_events:
  "list_events tt ti since until (snd (quarantine_decision sv identity s)) = list_events tt ti since until s"
  by (auto simp: quarantine_decision_def evaluate_policy_for_def list_events_def Let_def draw_def policy_events_unlisted
      split: sum.split)

lemma promoted_candidates:
  assumes "auto_promoted_by_agent agent since until s = (Inr candidates, t)" "i \<in> fst ` set candidates"
  shows "promoted_by agent since until s i"
proof -
  from assms obtain e where "(i, e) \<in> set (promoted_targets (squeeze_text agent) []
      (list_events ''memory'' None (map_option instant_of since) (map_option instant_of until) s))"
    by (auto simp: auto_promoted_by_agent_def Let_def command_succeeds)
  from promoted_targets_events [OF this] show ?thesis
    by (auto simp: list_events_def promoted_by_def split: option.splits)
qed

lemma promoted_by_decision:
  assumes "auto_promoted_by_agent agent since until (snd (quarantine_decision sv identity s)) = (Inr candidates, t)"
    "i \<in> fst ` set candidates"
  shows "promoted_by agent since until s i"
proof -
  have "auto_promoted_by_agent agent since until s = (Inr candidates, s)"
    using assms(1) by (auto simp: auto_promoted_by_agent_def Let_def command_succeeds decision_events)
  from promoted_candidates [OF this assms(2)] show ?thesis .
qed

text \<open>A quarantine that may not or does not want to write.\<close>

definition harmless :: "agent_identity option \<Rightarrow> string \<Rightarrow> bool \<Rightarrow> bool" where
  "harmless identity agent dry_run \<longleftrightarrow> dry_run \<or> identity \<noteq> None \<and> agent_of identity \<noteq> Some (squeeze_text agent)"

lemma dry_sweep_reach: "only_in {} u s \<Longrightarrow> only_in {} u (snd (sweep_all sv identity rs True ids s))"
proof (induction ids arbitrary: s)
  case (Cons i ids)
  have one: "only_in {} u (snd (sweep_one sv identity rs True i s))"
    using Cons.prems by (simp add: sweep_one_def split: option.split)
  show ?case
    unfolding sweep_all.simps by (intro reaching.rel_and_then one reaching.rel_return Cons.IH; assumption)
qed simp

lemma quarantine_reach_from:
  assumes "\<And>u candidates t v. auto_promoted_by_agent (squeeze_text agent) since until u = (Inr candidates, t) \<Longrightarrow>
      quarantine_decision sv identity s = (Inr v, u) \<Longrightarrow> \<not> harmless identity agent dry \<Longrightarrow> fst ` set candidates \<subseteq> C"
  shows "only_in C s (snd (quarantine_by_agent_key sv identity agent reason since until dry s))"
proof -
  obtain res u where d: "quarantine_decision sv identity s = (res, u)" by fastforce
  have u: "only_in C s u" using reaching.rel_quarantine_decision [OF reaching.rel_refl, of C s sv identity] d by simp
  show ?thesis
  proof (cases res)
    case (Inl e)
    with d u show ?thesis by (simp add: quarantine_by_agent_key_def)
  next
    case (Inr v)
    obtain cs t where a: "auto_promoted_by_agent (squeeze_text agent) since until u = (cs, t)" by fastforce
    have t: "only_in C s t" using reaching.rel_promoted [OF u, of "squeeze_text agent" since until] a by simp
    have sweep: "only_in C s (snd (sweep_all sv identity r dry (map fst candidates) (draw t)))"
      if "cs = Inr candidates" "identity = None \<or> agent_of identity = Some (squeeze_text agent)" for candidates r
    proof (cases dry)
      case True
      have "only_in {} (draw t) (snd (sweep_all sv identity r True (map fst candidates) (draw t)))"
        by (rule dry_sweep_reach [OF reaching.rel_refl])
      then have "only_in C (draw t) (snd (sweep_all sv identity r True (map fst candidates) (draw t)))"
        by (auto simp: only_in_def)
      with t True show ?thesis by (auto intro: reaching.rel_trans reaching.rel_draw)
    next
      case False
      with that a d Inr have "set (map fst candidates) \<subseteq> C"
        using assms [of u candidates t v] by (auto simp: harmless_def)
      then show ?thesis by (rule sweep_all_reach) (rule reaching.rel_draw [OF t])
    qed
    show ?thesis
    proof (cases "squeeze_text reason = [] \<or> identity \<noteq> None \<and> agent_of identity \<noteq> Some (squeeze_text agent)")
      case True
      with u show ?thesis
        by (cases "squeeze_text reason = []") (auto simp: quarantine_by_agent_key_def d Inr Let_def)
    next
      case False
      then have may: "(squeeze_text reason = []) = False"
        "(identity \<noteq> None \<and> agent_of identity \<noteq> Some (squeeze_text agent)) = False" by blast+
      from False have own: "identity = None \<or> agent_of identity = Some (squeeze_text agent)" by blast
      note decided = Inr
      show ?thesis
      proof (cases cs)
        case (Inl e)
        show ?thesis
          unfolding quarantine_by_agent_key_def d decided and_then_Inr Let_def may raise_when_simps a Inl
          by (simp add: t)
      next
        case (Inr candidates)
        show ?thesis
          unfolding quarantine_by_agent_key_def d decided and_then_Inr Let_def may raise_when_simps a Inr
          by (rule reaching.rel_and_then, rule sweep [OF Inr own])
            (intro reaching.rel_return reaching.rel_if_store reaching.rel_traced; assumption)
      qed
    qed
  qed
qed

subsection \<open>Properties\<close>

text \<open>
  C22:
  the chain of replacements of an audit is bounded and free of repetitions.  It holds the memory itself
  once, at most ten predecessors before it and at most ten successors after it, no memory twice, whatever
  cycles the stored pointers form; without a callback the audit writes nothing.
\<close>

theorem audit_chain_bounded:
  assumes "supersession_chain authorize m s = (Inr chain, t)"
  shows "(\<exists>ps ss. chain = map (chain_entry ''predecessor'') ps @ [chain_entry ''self'' m] @ map (chain_entry ''successor'') ss
      \<and> length ps \<le> 10 \<and> length ss \<le> 10 \<and> distinct (map row_id (ps @ [m] @ ss)))
    \<and> snd (audit i None s) = s"
  using chain_rows [OF assms] audit_reads by simp

text \<open>Two memories that replace each other.\<close>

definition mutual_row :: "string \<Rightarrow> string \<Rightarrow> dict" where
  "mutual_row i j = [(''id'', JStr i), (''superseded_by'', JStr j), (''supersedes'', JStr j)]"

definition mutual_memories :: memory_store where
  "mutual_memories = demo_memories\<lparr>memories := [mutual_row ''a'' ''b'', mutual_row ''b'' ''a'']\<rparr>"

theorem audit_chain_bounded_witness:
  "\<exists>chain ps ss. supersession_chain None (mutual_row ''a'' ''b'') mutual_memories = (Inr chain, mutual_memories)
    \<and> length chain = 2
    \<and> chain = map (chain_entry ''predecessor'') ps @ [chain_entry ''self'' (mutual_row ''a'' ''b'')]
        @ map (chain_entry ''successor'') ss
    \<and> distinct (map row_id (ps @ [mutual_row ''a'' ''b''] @ ss))"
proof -
  let ?chain = "[chain_entry ''predecessor'' (mutual_row ''b'' ''a''), chain_entry ''self'' (mutual_row ''a'' ''b'')]"
  have "fst (supersession_chain None (mutual_row ''a'' ''b'') mutual_memories) = Inr ?chain" by code_simp
  with chain_reads [of "mutual_row ''a'' ''b''" mutual_memories]
  have run: "supersession_chain None (mutual_row ''a'' ''b'') mutual_memories = (Inr ?chain, mutual_memories)"
    by (metis prod.collapse)
  from audit_chain_bounded [OF this] obtain ps ss where chain: "?chain = map (chain_entry ''predecessor'') ps
      @ [chain_entry ''self'' (mutual_row ''a'' ''b'')] @ map (chain_entry ''successor'') ss"
    "distinct (map row_id (ps @ [mutual_row ''a'' ''b''] @ ss))" by blast
  show ?thesis
    by (rule exI [of _ ?chain], rule exI [of _ ps], rule exI [of _ ss], intro conjI, rule run, simp,
        rule chain(1), rule chain(2))
qed

text \<open>
  C11:
  a quarantine reaches only what the agent's own commits promoted.  A row whose id no promotion event of
  this agent within the window names is stored afterwards exactly as it was, whatever the sweep returns;
  and a dry run, or an agent that sweeps for another, leaves every row as it was.
\<close>

theorem quarantine_reaches_only_promoted:
  assumes "r \<in> set (memories s)"
    and "harmless identity agent dry_run \<or> \<not> promoted_by (squeeze_text agent) since until s (row_id r)"
  shows "r \<in> set (memories (snd (run_command sv (QuarantineAgent identity agent reason since until dry_run) s)))"
proof -
  have "only_in (if harmless identity agent dry_run then {} else Collect (promoted_by (squeeze_text agent) since until s)) s
      (snd (quarantine_by_agent_key sv identity agent reason since until dry_run s))"
  proof (rule quarantine_reach_from)
    fix u candidates t v
    assume a: "auto_promoted_by_agent (squeeze_text agent) since until u = (Inr candidates, t)"
      and "quarantine_decision sv identity s = (Inr v, u)" "\<not> harmless identity agent dry_run"
    moreover from this have "snd (quarantine_decision sv identity s) = u" by simp
    ultimately show "fst ` set candidates
        \<subseteq> (if harmless identity agent dry_run then {} else Collect (promoted_by (squeeze_text agent) since until s))"
      using promoted_by_decision [of "squeeze_text agent" since until sv identity s candidates t] by auto
  qed
  with assms show ?thesis by (auto simp: only_in_def split: if_splits)
qed

theorem quarantine_reaches_only_promoted_witness:
  "demo_row ''a'' \<in> set (memories (snd (run_command demo_service
     (QuarantineAgent None ''ops'' ''key leaked'' None None False) demo_memories)))"
  by (rule quarantine_reaches_only_promoted) (simp_all add: demo_memories_def promoted_by_def)

end
