(* ===== verification/Gov_Types.thy ===== *)
theory Gov_Types
  imports Uuid "HOL-Library.Product_Lexorder"
begin

text \<open>
  The data of governed execution: times as the program prints and parses them,
  the closed vocabularies of \<open>_contracts/common.py\<close> as datatypes with their text, the table rows
  of \<open>store.py\<close> as records, and the exceptions the governance modules raise.
\<close>

subsection \<open>Times\<close>

text \<open>
  A time-zone-aware \<open>datetime\<close> in UTC: microseconds since 1970-01-01.
\<close>

type_synonym timestamp = int

definition civil_date :: "int \<Rightarrow> int \<times> int \<times> int" where
  "civil_date days =
     (let z = days + 719468;
          era = z div 146097;
          doe = z - era * 146097;
          yoe = (doe - doe div 1460 + doe div 36524 - doe div 146096) div 365;
          doy = doe - (365 * yoe + yoe div 4 - yoe div 100);
          mp = (5 * doy + 2) div 153;
          m = (if mp < 10 then mp + 3 else mp - 9)
      in (yoe + era * 400 + (if m \<le> 2 then 1 else 0), m, doy - (153 * mp + 2) div 5 + 1))"

definition zero_pad :: "nat \<Rightarrow> int \<Rightarrow> string" where
  "zero_pad w i = (let s = int_str i in replicate (w - length s) (CHR ''0'') @ s)"

text \<open>\<open>t.isoformat()\<close>: the microseconds are left out when they are zero.\<close>

definition isoformat :: "timestamp \<Rightarrow> string" where
  "isoformat t =
     (let (y, m, d) = civil_date (t div 86400000000);
          us = t mod 86400000000;
          secs = us div 1000000
      in zero_pad 4 y @ ''-'' @ zero_pad 2 m @ ''-'' @ zero_pad 2 d @ ''T'' @
         zero_pad 2 (secs div 3600) @ '':'' @ zero_pad 2 (secs div 60 mod 60) @ '':'' @
         zero_pad 2 (secs mod 60) @
         (if us mod 1000000 = 0 then [] else ''.'' @ zero_pad 6 (us mod 1000000)) @ ''+00:00'')"

definition isoformat_or_none :: "timestamp option \<Rightarrow> json" where
  "isoformat_or_none t = (case t of None \<Rightarrow> JNull | Some x \<Rightarrow> JStr (isoformat x))"

subsection \<open>Vocabularies\<close>

text \<open>
  The \<open>Literal\<close> types of the contracts, each with its text.  The columns that hold them are
  constrained to these values by the schema.
\<close>

datatype consent_status =
    ConsentGranted
  | ConsentRevoked

fun consent_status_text :: "consent_status \<Rightarrow> string" where
  "consent_status_text ConsentGranted = ''granted''"
| "consent_status_text ConsentRevoked = ''revoked''"

datatype approval_status =
    ApprPending
  | ApprApproved
  | ApprRejected

fun approval_status_text :: "approval_status \<Rightarrow> string" where
  "approval_status_text ApprPending = ''pending''"
| "approval_status_text ApprApproved = ''approved''"
| "approval_status_text ApprRejected = ''rejected''"

datatype resolution_action =
    ActApprove
  | ActReject

fun resolution_action_text :: "resolution_action \<Rightarrow> string" where
  "resolution_action_text ActApprove = ''approve''"
| "resolution_action_text ActReject = ''reject''"

datatype resolution_outcome =
    OutcomeResolved
  | OutcomeDuplicateRejected
  | OutcomeConflictRejected

fun resolution_outcome_text :: "resolution_outcome \<Rightarrow> string" where
  "resolution_outcome_text OutcomeResolved = ''resolved''"
| "resolution_outcome_text OutcomeDuplicateRejected = ''duplicate_rejected''"
| "resolution_outcome_text OutcomeConflictRejected = ''conflict_rejected''"

datatype task_status =
    TaskPendingApproval
  | TaskApproved
  | TaskExecuted
  | TaskDenied
  | TaskBlocked

fun task_status_text :: "task_status \<Rightarrow> string" where
  "task_status_text TaskPendingApproval = ''pending_approval''"
| "task_status_text TaskApproved = ''approved''"
| "task_status_text TaskExecuted = ''executed''"
| "task_status_text TaskDenied = ''denied''"
| "task_status_text TaskBlocked = ''blocked''"

datatype run_status =
    RunQueued
  | RunRunning
  | RunWaitingApproval
  | RunWaitingUser
  | RunPaused
  | RunFailed
  | RunDone
  | RunCancelled

fun run_status_text :: "run_status \<Rightarrow> string" where
  "run_status_text RunQueued = ''queued''"
| "run_status_text RunRunning = ''running''"
| "run_status_text RunWaitingApproval = ''waiting_approval''"
| "run_status_text RunWaitingUser = ''waiting_user''"
| "run_status_text RunPaused = ''paused''"
| "run_status_text RunFailed = ''failed''"
| "run_status_text RunDone = ''done''"
| "run_status_text RunCancelled = ''cancelled''"

datatype stop_reason =
    StopWaitingApproval
  | StopWaitingUser
  | StopPaused
  | StopBudgetExhausted
  | StopApprovalRejected
  | StopPolicyBlocked
  | StopRetryExhausted
  | StopFatalError
  | StopDone
  | StopCancelled

fun stop_reason_text :: "stop_reason \<Rightarrow> string" where
  "stop_reason_text StopWaitingApproval = ''waiting_approval''"
| "stop_reason_text StopWaitingUser = ''waiting_user''"
| "stop_reason_text StopPaused = ''paused''"
| "stop_reason_text StopBudgetExhausted = ''budget_exhausted''"
| "stop_reason_text StopApprovalRejected = ''approval_rejected''"
| "stop_reason_text StopPolicyBlocked = ''policy_blocked''"
| "stop_reason_text StopRetryExhausted = ''retry_exhausted''"
| "stop_reason_text StopFatalError = ''fatal_error''"
| "stop_reason_text StopDone = ''done''"
| "stop_reason_text StopCancelled = ''cancelled''"

datatype failure_class =
    FailTransient
  | FailPolicy
  | FailApproval
  | FailBudget
  | FailFatal

fun failure_class_text :: "failure_class \<Rightarrow> string" where
  "failure_class_text FailTransient = ''transient''"
| "failure_class_text FailPolicy = ''policy''"
| "failure_class_text FailApproval = ''approval''"
| "failure_class_text FailBudget = ''budget''"
| "failure_class_text FailFatal = ''fatal''"

datatype retry_posture =
    RetryNone
  | RetryRetryable
  | RetryExhausted
  | RetryTerminal
  | RetryPaused
  | RetryAwaitingApproval
  | RetryAwaitingUser

fun retry_posture_text :: "retry_posture \<Rightarrow> string" where
  "retry_posture_text RetryNone = ''none''"
| "retry_posture_text RetryRetryable = ''retryable''"
| "retry_posture_text RetryExhausted = ''exhausted''"
| "retry_posture_text RetryTerminal = ''terminal''"
| "retry_posture_text RetryPaused = ''paused''"
| "retry_posture_text RetryAwaitingApproval = ''awaiting_approval''"
| "retry_posture_text RetryAwaitingUser = ''awaiting_user''"

datatype step_kind =
    KindGovernedRequest

fun step_kind_text :: "step_kind \<Rightarrow> string" where
  "step_kind_text KindGovernedRequest = ''governed_request''"

datatype step_status =
    StepCreated
  | StepApproved
  | StepExecuted
  | StepBlocked
  | StepDenied

fun step_status_text :: "step_status \<Rightarrow> string" where
  "step_status_text StepCreated = ''created''"
| "step_status_text StepApproved = ''approved''"
| "step_status_text StepExecuted = ''executed''"
| "step_status_text StepBlocked = ''blocked''"
| "step_status_text StepDenied = ''denied''"

datatype execution_status =
    ExecCompleted
  | ExecBlocked

fun execution_status_text :: "execution_status \<Rightarrow> string" where
  "execution_status_text ExecCompleted = ''completed''"
| "execution_status_text ExecBlocked = ''blocked''"

datatype budget_status =
    BudgetActive
  | BudgetInactive
  | BudgetSuperseded

fun budget_status_text :: "budget_status \<Rightarrow> string" where
  "budget_status_text BudgetActive = ''active''"
| "budget_status_text BudgetInactive = ''inactive''"
| "budget_status_text BudgetSuperseded = ''superseded''"

datatype policy_effect =
    EffectAllow
  | EffectDeny
  | EffectRequireApproval

fun policy_effect_text :: "policy_effect \<Rightarrow> string" where
  "policy_effect_text EffectAllow = ''allow''"
| "policy_effect_text EffectDeny = ''deny''"
| "policy_effect_text EffectRequireApproval = ''require_approval''"

datatype allowlist_decision =
    AllowAllowed
  | AllowDenied
  | AllowApprovalRequired

fun allowlist_decision_text :: "allowlist_decision \<Rightarrow> string" where
  "allowlist_decision_text AllowAllowed = ''allowed''"
| "allowlist_decision_text AllowDenied = ''denied''"
| "allowlist_decision_text AllowApprovalRequired = ''approval_required''"

datatype routing_decision =
    RouteReady
  | RouteDenied
  | RouteApprovalRequired

fun routing_decision_text :: "routing_decision \<Rightarrow> string" where
  "routing_decision_text RouteReady = ''ready''"
| "routing_decision_text RouteDenied = ''denied''"
| "routing_decision_text RouteApprovalRequired = ''approval_required''"

text \<open>Distinct values have distinct texts.\<close>

lemma consent_status_text_inj [simp]: "consent_status_text a = consent_status_text b \<longleftrightarrow> a = b"
  by (cases a; cases b) simp_all

lemma approval_status_text_inj [simp]: "approval_status_text a = approval_status_text b \<longleftrightarrow> a = b"
  by (cases a; cases b) simp_all

lemma resolution_action_text_inj [simp]: "resolution_action_text a = resolution_action_text b \<longleftrightarrow> a = b"
  by (cases a; cases b) simp_all

lemma resolution_outcome_text_inj [simp]: "resolution_outcome_text a = resolution_outcome_text b \<longleftrightarrow> a = b"
  by (cases a; cases b) simp_all

lemma task_status_text_inj [simp]: "task_status_text a = task_status_text b \<longleftrightarrow> a = b"
  by (cases a; cases b) simp_all

lemma run_status_text_inj [simp]: "run_status_text a = run_status_text b \<longleftrightarrow> a = b"
  by (cases a; cases b) simp_all

lemma stop_reason_text_inj [simp]: "stop_reason_text a = stop_reason_text b \<longleftrightarrow> a = b"
  by (cases a; cases b) simp_all

lemma failure_class_text_inj [simp]: "failure_class_text a = failure_class_text b \<longleftrightarrow> a = b"
  by (cases a; cases b) simp_all

lemma retry_posture_text_inj [simp]: "retry_posture_text a = retry_posture_text b \<longleftrightarrow> a = b"
  by (cases a; cases b) simp_all

lemma step_status_text_inj [simp]: "step_status_text a = step_status_text b \<longleftrightarrow> a = b"
  by (cases a; cases b) simp_all

lemma execution_status_text_inj [simp]: "execution_status_text a = execution_status_text b \<longleftrightarrow> a = b"
  by (cases a; cases b) simp_all

lemma budget_status_text_inj [simp]: "budget_status_text a = budget_status_text b \<longleftrightarrow> a = b"
  by (cases a; cases b) simp_all

lemma policy_effect_text_inj [simp]: "policy_effect_text a = policy_effect_text b \<longleftrightarrow> a = b"
  by (cases a; cases b) simp_all

lemma allowlist_decision_text_inj [simp]: "allowlist_decision_text a = allowlist_decision_text b \<longleftrightarrow> a = b"
  by (cases a; cases b) simp_all

lemma routing_decision_text_inj [simp]: "routing_decision_text a = routing_decision_text b \<longleftrightarrow> a = b"
  by (cases a; cases b) simp_all

definition opt_text :: "('a \<Rightarrow> string) \<Rightarrow> 'a option \<Rightarrow> json" where
  "opt_text f v = (case v of None \<Rightarrow> JNull | Some x \<Rightarrow> JStr (f x))"


subsection \<open>Payloads\<close>

text \<open>
  \<open>ToolRoutingRequestRecord\<close> and \<open>ToolRecord\<close>, the two payloads an approval, a task and an
  execution carry.  The thread of a request is \<open>None\<close> when the stored payload has no string
  there.
\<close>

record routing_request =
  rq_thread_id :: "string option"
  rq_tool_id :: string
  rq_action :: string
  rq_scope :: string
  rq_domain_hint :: "string option"
  rq_risk_hint :: "string option"
  rq_attributes :: dict

definition request_json :: "routing_request \<Rightarrow> dict" where
  "request_json r =
    [(''thread_id'', opt_str (rq_thread_id r)), (''tool_id'', JStr (rq_tool_id r)),
     (''action'', JStr (rq_action r)), (''scope'', JStr (rq_scope r)),
     (''domain_hint'', opt_str (rq_domain_hint r)), (''risk_hint'', opt_str (rq_risk_hint r)),
     (''attributes'', JObj (rq_attributes r))]"

record tool_record =
  tl_id :: string
  tl_tool_key :: string
  tl_name :: string
  tl_description :: string
  tl_version :: string
  tl_metadata_version :: string
  tl_active :: bool
  tl_tags :: "string list"
  tl_action_hints :: "string list"
  tl_scope_hints :: "string list"
  tl_domain_hints :: "string list"
  tl_risk_hints :: "string list"
  tl_metadata :: dict
  tl_created_at :: string

definition tool_json :: "tool_record \<Rightarrow> dict" where
  "tool_json t =
    [(''id'', JStr (tl_id t)), (''tool_key'', JStr (tl_tool_key t)), (''name'', JStr (tl_name t)),
     (''description'', JStr (tl_description t)), (''version'', JStr (tl_version t)),
     (''metadata_version'', JStr (tl_metadata_version t)), (''active'', JBool (tl_active t)),
     (''tags'', str_list (tl_tags t)), (''action_hints'', str_list (tl_action_hints t)),
     (''scope_hints'', str_list (tl_scope_hints t)), (''domain_hints'', str_list (tl_domain_hints t)),
     (''risk_hints'', str_list (tl_risk_hints t)), (''metadata'', JObj (tl_metadata t)),
     (''created_at'', JStr (tl_created_at t))]"

text \<open>\<open>TaskStepOutcomeSnapshot\<close>.\<close>

record outcome_snapshot =
  oc_routing_decision :: routing_decision
  oc_approval_id :: "string option"
  oc_approval_status :: "approval_status option"
  oc_execution_id :: "string option"
  oc_execution_status :: "execution_status option"
  oc_blocked_reason :: "string option"

definition outcome_json :: "outcome_snapshot \<Rightarrow> dict" where
  "outcome_json o' =
    [(''routing_decision'', JStr (routing_decision_text (oc_routing_decision o'))),
     (''approval_id'', opt_str (oc_approval_id o')),
     (''approval_status'', opt_text approval_status_text (oc_approval_status o')),
     (''execution_id'', opt_str (oc_execution_id o')),
     (''execution_status'', opt_text execution_status_text (oc_execution_status o')),
     (''blocked_reason'', opt_str (oc_blocked_reason o'))]"

text \<open>
  \<open>ExecutionBudgetDecisionRecord\<close>; the three context keys are present only when the request
  context is invalid.
\<close>

datatype budget_verdict = BudgetAllow | BudgetBlock

datatype budget_reason =
    NoMatchingBudget
  | WithinBudget
  | BudgetExceeded
  | InvalidRequestContext

record budget_context =
  bc_request_thread_id :: "string option"
  bc_context_reason :: "string option"

record budget_decision =
  bd_matched_budget_id :: "string option"
  bd_tool_key :: string
  bd_domain_hint :: "string option"
  bd_budget_tool_key :: "string option"
  bd_budget_domain_hint :: "string option"
  bd_max_completed_executions :: "int option"
  bd_rolling_window_seconds :: "int option"
  bd_count_scope :: string
  bd_window_started_at :: "string option"
  bd_completed_execution_count :: nat
  bd_projected_completed_execution_count :: nat
  bd_decision :: budget_verdict
  bd_reason :: budget_reason
  bd_order :: "string list"
  bd_history_order :: "string list"
  bd_context :: "budget_context option"

text \<open>\<open>ToolExecutionResultRecord\<close>; the budget decision is optional.\<close>

record exec_result =
  er_handler_key :: "string option"
  er_status :: execution_status
  er_output :: "dict option"
  er_reason :: "string option"
  er_budget_decision :: "budget_decision option"

subsection \<open>Rows\<close>

text \<open>
  The row types of \<open>store.py\<close>.  JSON columns hold the payload types above; the owner of a row is
  kept where the modelled code reads it.
\<close>

record thread_row =
  th_id :: uuid
  th_user_id :: uuid
  th_title :: string
  th_agent_profile_id :: string
  th_created_at :: timestamp
  th_updated_at :: timestamp

record event_row =
  ev_id :: uuid
  ev_user_id :: uuid
  ev_thread_id :: uuid
  ev_session_id :: "uuid option"
  ev_sequence_no :: nat
  ev_kind :: string
  ev_payload :: dict
  ev_created_at :: timestamp

record trace_row =
  tc_id :: uuid
  tc_user_id :: uuid
  tc_thread_id :: uuid
  tc_kind :: string
  tc_compiler_version :: string
  tc_status :: string
  tc_limits :: dict
  tc_created_at :: timestamp

record trace_event_row =
  te_trace_id :: uuid
  te_sequence_no :: nat
  te_kind :: string
  te_payload :: dict

record consent_row =
  cn_id :: uuid
  cn_consent_key :: string
  cn_status :: consent_status
  cn_metadata :: dict
  cn_created_at :: timestamp
  cn_updated_at :: timestamp

record policy_row =
  po_id :: uuid
  po_agent_profile_id :: "string option"
  po_name :: string
  po_action :: string
  po_scope :: string
  po_effect :: policy_effect
  po_priority :: int
  po_active :: bool
  po_conditions :: dict
  po_required_consents :: "string list"
  po_created_at :: timestamp
  po_updated_at :: timestamp

record tool_row =
  to_id :: uuid
  to_tool_key :: string
  to_name :: string
  to_description :: string
  to_version :: string
  to_metadata_version :: string
  to_active :: bool
  to_tags :: "string list"
  to_action_hints :: "string list"
  to_scope_hints :: "string list"
  to_domain_hints :: "string list"
  to_risk_hints :: "string list"
  to_metadata :: dict
  to_created_at :: timestamp

record approval_row =
  ap_id :: uuid
  ap_user_id :: uuid
  ap_thread_id :: uuid
  ap_tool_id :: uuid
  ap_task_run_id :: "uuid option"
  ap_task_step_id :: "uuid option"
  ap_status :: approval_status
  ap_request :: routing_request
  ap_tool :: tool_record
  ap_routing :: dict
  ap_routing_trace_id :: uuid
  ap_created_at :: timestamp
  ap_resolved_at :: "timestamp option"
  ap_resolved_by_user_id :: "uuid option"

record task_row =
  tk_id :: uuid
  tk_user_id :: uuid
  tk_thread_id :: uuid
  tk_tool_id :: uuid
  tk_status :: task_status
  tk_request :: routing_request
  tk_tool :: tool_record
  tk_latest_approval_id :: "uuid option"
  tk_latest_execution_id :: "uuid option"
  tk_created_at :: timestamp
  tk_updated_at :: timestamp

record step_row =
  ts_id :: uuid
  ts_task_id :: uuid
  ts_sequence_no :: int
  ts_parent_step_id :: "uuid option"
  ts_source_approval_id :: "uuid option"
  ts_source_execution_id :: "uuid option"
  ts_kind :: step_kind
  ts_status :: step_status
  ts_request :: routing_request
  ts_outcome :: outcome_snapshot
  ts_trace_id :: uuid
  ts_trace_kind :: string
  ts_created_at :: timestamp
  ts_updated_at :: timestamp

record run_row =
  tr_id :: uuid
  tr_task_id :: uuid
  tr_status :: run_status
  tr_checkpoint :: dict
  tr_tick_count :: int
  tr_step_count :: int
  tr_max_ticks :: int
  tr_retry_count :: int
  tr_retry_cap :: int
  tr_retry_posture :: retry_posture
  tr_failure_class :: "failure_class option"
  tr_stop_reason :: "stop_reason option"
  tr_last_transitioned_at :: timestamp
  tr_created_at :: timestamp
  tr_updated_at :: timestamp

record execution_row =
  ex_id :: uuid
  ex_approval_id :: uuid
  ex_task_run_id :: "uuid option"
  ex_task_step_id :: "uuid option"
  ex_thread_id :: uuid
  ex_tool_id :: uuid
  ex_trace_id :: uuid
  ex_request_event_id :: "uuid option"
  ex_result_event_id :: "uuid option"
  ex_status :: execution_status
  ex_handler_key :: "string option"
  ex_idempotency_key :: "string option"
  ex_request :: routing_request
  ex_tool :: tool_record
  ex_result :: exec_result
  ex_executed_at :: timestamp

record budget_row =
  bu_id :: uuid
  bu_agent_profile_id :: "string option"
  bu_tool_key :: "string option"
  bu_domain_hint :: "string option"
  bu_max_completed_executions :: int
  bu_rolling_window_seconds :: "int option"
  bu_status :: budget_status
  bu_deactivated_at :: "timestamp option"
  bu_superseded_by_budget_id :: "uuid option"
  bu_supersedes_budget_id :: "uuid option"
  bu_created_at :: timestamp

subsection \<open>Exceptions\<close>

text \<open>The exception classes of the governance modules, each with its message.\<close>

datatype gov_error =
    PolicyNotFoundError string
  | PolicyEvaluationValidationError string
  | ToolNotFoundError string
  | ToolAllowlistValidationError string
  | ToolRoutingValidationError string
  | TaskNotFoundError string
  | TaskStepNotFoundError string
  | TaskStepSequenceError string
  | TaskStepTransitionError string
  | TaskStepApprovalLinkageError string
  | TaskStepExecutionLinkageError string
  | TaskRunValidationError string
  | TaskRunNotFoundError string
  | TaskRunTransitionError string
  | ApprovalNotFoundError string
  | ApprovalResolutionConflictError string
  | ExecutionBudgetValidationError string
  | ExecutionBudgetNotFoundError string
  | ExecutionBudgetLifecycleError string
  | ProxyExecutionApprovalStateError string
  | ProxyExecutionHandlerNotFoundError string
  | ProxyExecutionIdempotencyError string
  | ContinuityStoreInvariantError string
  | RuntimeError string
  | ValueError string
  | KeyError string
  | IntegrityError string


end
