(* ===== verification/Gov_Store.thy ===== *)
theory Gov_Store
  imports Gov_Types
begin

text \<open>
  The store behind governed execution: the tables of one user (row-level security hides every
  other row), the statements of \<open>legacy_store\<close> that read and write them, and the constraints of
  the migrations that a write must satisfy.

  An operation takes the store and returns a result (\<open>Inl\<close> of a raised exception) with the store
  it leaves; a raised exception keeps the writes made before it, as the callers catch it inside
  the transaction.  What the database and the process read from outside is the record
  \<open>env\<close>: the readings of the clock, the random identifiers, the start of the transaction and
  the collation of text.
\<close>

subsection \<open>The store\<close>

record env =
  current_user :: uuid
  clock :: "nat \<Rightarrow> timestamp"
  fresh_id :: "nat \<Rightarrow> uuid"
  txn_now :: timestamp
  collation :: "string \<Rightarrow> string"

record store =
  environment :: env
  reads :: nat
  draws :: nat
  threads :: "thread_row list"
  agent_profiles :: "string list"
  consents :: "consent_row list"
  policies :: "policy_row list"
  tools :: "tool_row list"
  approvals :: "approval_row list"
  tasks :: "task_row list"
  task_steps :: "step_row list"
  task_runs :: "run_row list"
  tool_executions :: "execution_row list"
  execution_budgets :: "budget_row list"
  events :: "event_row list"
  traces :: "trace_row list"
  trace_events :: "trace_event_row list"

text \<open>\<open>clock_timestamp()\<close> and \<open>datetime.now(UTC)\<close>; \<open>gen_random_uuid()\<close> and \<open>uuid4()\<close>.\<close>

definition now_reading :: "store \<Rightarrow> timestamp" where
  "now_reading s = clock (environment s) (reads s)"

definition after_reading :: "store \<Rightarrow> store" where
  "after_reading s = s\<lparr>reads := Suc (reads s)\<rparr>"

definition next_id :: "store \<Rightarrow> uuid" where
  "next_id s = fresh_id (environment s) (draws s)"

definition after_draw :: "store \<Rightarrow> store" where
  "after_draw s = s\<lparr>draws := Suc (draws s)\<rparr>"

subsection \<open>Tables\<close>

definition find_row :: "('r \<Rightarrow> uuid) \<Rightarrow> uuid \<Rightarrow> 'r list \<Rightarrow> 'r option" where
  "find_row key i rows = find (\<lambda>r. key r = i) rows"

definition set_row :: "('r \<Rightarrow> uuid) \<Rightarrow> 'r \<Rightarrow> 'r list \<Rightarrow> 'r list" where
  "set_row key r rows = map (\<lambda>x. if key x = key r then r else x) rows"

text \<open>
  A statement that would leave a table outside its constraints raises and writes nothing.
\<close>

definition write_table ::
  "('r list \<Rightarrow> bool) \<Rightarrow> ('r list \<Rightarrow> store \<Rightarrow> store) \<Rightarrow> string \<Rightarrow> 'a \<Rightarrow> 'r list \<Rightarrow> store \<Rightarrow>
    (gov_error + 'a) \<times> store" where
  "write_table ok put name x rows s =
     (if ok rows then (Inr x, put rows s) else (Inl (IntegrityError name), s))"

lemma find_row_Some:
  "find_row key i rows = Some r \<Longrightarrow> r \<in> set rows \<and> key r = i"
  by (auto simp: find_row_def find_Some_iff)

lemma find_row_None: "find_row key i rows = None \<longleftrightarrow> i \<notin> key ` set rows"
  by (auto simp: find_row_def find_None_iff)

lemma find_row_append:
  "find_row key i (xs @ ys) = (case find_row key i xs of None \<Rightarrow> find_row key i ys | Some r \<Rightarrow> Some r)"
  by (induction xs) (auto simp: find_row_def)

lemma find_row_set_row:
  "find_row key i (set_row key r rows) =
     (if i = key r then map_option (\<lambda>_. r) (find_row key i rows) else find_row key i rows)"
  by (induction rows) (auto simp: find_row_def set_row_def)

lemma keys_set_row [simp]: "map key (set_row key r rows) = map key rows"
  by (induction rows) (auto simp: set_row_def)

lemma set_set_row: "x \<in> set (set_row key r rows) \<Longrightarrow> x = r \<or> x \<in> set rows \<and> key x \<noteq> key r"
  by (auto simp: set_row_def)

lemma find_row_distinct:
  assumes "distinct (map key rows)" "r \<in> set rows"
  shows "find_row key (key r) rows = Some r"
  using assms by (induction rows) (auto simp: find_row_def image_iff)

text \<open>
  What the clients of a table rely on: reading back what was written, and a constraint that
  every write of the statement layer keeps.  \<open>fetch\<close> is the primary-key lookup.
\<close>

locale constrained_table =
  fixes rows :: "store \<Rightarrow> 'r list"
    and put :: "'r list \<Rightarrow> store \<Rightarrow> store"
    and key :: "'r \<Rightarrow> uuid"
    and ok :: "'r list \<Rightarrow> bool"
  assumes rows_put [simp]: "rows (put xs s) = xs"
    and ok_keys: "ok xs \<Longrightarrow> distinct (map key xs)"
begin

lemma write_keeps_ok:
  assumes "ok (rows s)"
  shows "ok (rows (snd (write_table ok put name x xs s)))"
  using assms by (simp add: write_table_def)

lemma written_rows:
  assumes "write_table ok put name x xs s = (Inr y, t)"
  shows "y = x \<and> rows t = xs \<and> ok xs"
  using assms by (auto simp: write_table_def split: if_splits)

lemma fetch_updated:
  assumes "write_table ok put name x (set_row key r (rows s)) s = (Inr y, t)"
    and "find_row key (key r) (rows s) \<noteq> None"
  shows "find_row key i (rows t) = (if i = key r then Some r else find_row key i (rows s))"
  using written_rows [OF assms(1)] assms(2) by (auto simp: find_row_set_row)

lemma fetch_inserted:
  assumes "write_table ok put name x (rows s @ [r]) s = (Inr y, t)"
  shows "find_row key i (rows t) = (if i = key r then Some r else find_row key i (rows s))"
proof -
  from written_rows [OF assms] have t: "rows t = rows s @ [r]" and ok: "ok (rows s @ [r])"
    by simp_all
  from ok_keys [OF ok] have "key r \<notin> key ` set (rows s)" by auto
  then have none: "find_row key (key r) (rows s) = None" by (simp add: find_row_None)
  have single: "find_row key i [r] = (if i = key r then Some r else None)"
    by (simp add: find_row_def)
  show ?thesis
  proof (cases "i = key r")
    case True
    with none single show ?thesis by (simp add: t find_row_append)
  next
    case False
    with single show ?thesis by (simp add: t find_row_append split: option.split)
  qed
qed

lemma fetch_of_member:
  assumes "ok (rows s)" "r \<in> set (rows s)"
  shows "find_row key (key r) (rows s) = Some r"
  by (rule find_row_distinct [OF ok_keys [OF assms(1)] assms(2)])

end

end
