(* ===== verification/Gov_Tables.thy ===== *)
theory Gov_Tables
  imports Gov_Store
begin

text \<open>
  The statements of \<open>legacy_store\<close> that governed execution uses, table by table: the constraints
  of the schema, the row an INSERT builds or an UPDATE sets, and the method that runs it.  Foreign
  keys and the 32-bit range of the integer columns are not checked here.
\<close>

subsection \<open>Threads, events and traces\<close>

definition get_thread_optional :: "uuid \<Rightarrow> store \<Rightarrow> thread_row option" where
  "get_thread_optional i s = find_row th_id i (threads s)"

definition get_agent_profile_optional :: "string \<Rightarrow> store \<Rightarrow> string option" where
  "get_agent_profile_optional p s = find (\<lambda>x. x = p) (agent_profiles s)"

definition events_ok :: "event_row list \<Rightarrow> bool" where
  "events_ok rows \<longleftrightarrow> distinct (map ev_id rows) \<and>
     distinct (map (\<lambda>r. (ev_thread_id r, ev_sequence_no r)) rows)"

definition next_event_sequence :: "uuid \<Rightarrow> store \<Rightarrow> nat" where
  "next_event_sequence thread s =
     fold max (map (\<lambda>r. Suc (ev_sequence_no r)) (filter (\<lambda>r. ev_thread_id r = thread) (events s))) 1"

definition append_event ::
  "uuid \<Rightarrow> uuid option \<Rightarrow> string \<Rightarrow> dict \<Rightarrow> store \<Rightarrow> (gov_error + event_row) \<times> store" where
  "append_event thread session kind payload s =
     (let r = \<lparr>ev_id = next_id s, ev_user_id = current_user (environment s), ev_thread_id = thread,
               ev_session_id = session, ev_sequence_no = next_event_sequence thread s,
               ev_kind = kind, ev_payload = payload, ev_created_at = txn_now (environment s)\<rparr>
      in write_table events_ok (\<lambda>x s. s\<lparr>events := x\<rparr>) ''events'' r (events s @ [r]) (after_draw s))"

definition traces_ok :: "trace_row list \<Rightarrow> bool" where
  "traces_ok rows \<longleftrightarrow> distinct (map tc_id rows)"

definition create_trace ::
  "uuid \<Rightarrow> uuid \<Rightarrow> string \<Rightarrow> string \<Rightarrow> string \<Rightarrow> dict \<Rightarrow> store \<Rightarrow> (gov_error + trace_row) \<times> store" where
  "create_trace user thread kind version status limits s =
     (let r = \<lparr>tc_id = next_id s, tc_user_id = user, tc_thread_id = thread, tc_kind = kind,
               tc_compiler_version = version, tc_status = status, tc_limits = limits,
               tc_created_at = txn_now (environment s)\<rparr>
      in write_table traces_ok (\<lambda>x s. s\<lparr>traces := x\<rparr>) ''traces'' r (traces s @ [r]) (after_draw s))"

definition append_trace_event :: "uuid \<Rightarrow> nat \<Rightarrow> string \<Rightarrow> dict \<Rightarrow> store \<Rightarrow> store" where
  "append_trace_event trace seq kind payload s =
     s\<lparr>trace_events := trace_events s @
        [\<lparr>te_trace_id = trace, te_sequence_no = seq, te_kind = kind, te_payload = payload\<rparr>]\<rparr>"

text \<open>\<open>for sequence_no, (kind, payload) in enumerate(trace_events, start=1)\<close>.\<close>

fun append_from :: "uuid \<Rightarrow> nat \<Rightarrow> (string \<times> dict) list \<Rightarrow> store \<Rightarrow> store" where
  "append_from trace n [] s = s"
| "append_from trace n ((kind, payload) # es) s =
     append_from trace (Suc n) es (append_trace_event trace n kind payload s)"

definition append_trace_events :: "uuid \<Rightarrow> (string \<times> dict) list \<Rightarrow> store \<Rightarrow> store" where
  "append_trace_events trace es s = append_from trace 1 es s"

definition trace_summary :: "uuid \<Rightarrow> (string \<times> dict) list \<Rightarrow> dict" where
  "trace_summary trace es =
     [(''trace_id'', JStr (uuid_str trace)), (''trace_event_count'', JInt (int (length es)))]"

subsection \<open>Consents, policies and tools\<close>

text \<open>\<open>char_length\<close>: the code points of a UTF-8 text.\<close>

definition char_length :: "string \<Rightarrow> nat" where
  "char_length t = length (filter (\<lambda>c. \<not> (128 \<le> (of_char c :: nat) \<and> (of_char c :: nat) < 192)) t)"

definition length_between :: "string \<Rightarrow> nat \<Rightarrow> bool" where
  "length_between t hi \<longleftrightarrow> 1 \<le> char_length t \<and> char_length t \<le> hi"

definition consents_ok :: "consent_row list \<Rightarrow> bool" where
  "consents_ok rows \<longleftrightarrow> distinct (map cn_id rows) \<and> distinct (map cn_consent_key rows) \<and>
     (\<forall>r \<in> set rows. length_between (cn_consent_key r) 200)"

definition create_consent ::
  "string \<Rightarrow> consent_status \<Rightarrow> dict \<Rightarrow> store \<Rightarrow> (gov_error + consent_row) \<times> store" where
  "create_consent k status metadata s =
     (let r = \<lparr>cn_id = next_id s, cn_consent_key = k, cn_status = status, cn_metadata = metadata,
               cn_created_at = now_reading s, cn_updated_at = now_reading s\<rparr>
      in write_table consents_ok (\<lambda>x s. s\<lparr>consents := x\<rparr>) ''consents'' r (consents s @ [r])
           (after_reading (after_draw s)))"

definition get_consent_by_key_optional :: "string \<Rightarrow> store \<Rightarrow> consent_row option" where
  "get_consent_by_key_optional k s = find (\<lambda>r. cn_consent_key r = k) (consents s)"

definition list_consents :: "store \<Rightarrow> consent_row list" where
  "list_consents s =
     sort_key (\<lambda>r. (collation (environment s) (cn_consent_key r), cn_created_at r, cn_id r)) (consents s)"

definition update_consent ::
  "uuid \<Rightarrow> consent_status \<Rightarrow> dict \<Rightarrow> store \<Rightarrow> (gov_error + consent_row) \<times> store" where
  "update_consent i status metadata s =
     (case find_row cn_id i (consents s) of
        None \<Rightarrow> (Inl (ContinuityStoreInvariantError
                  ''update_consent did not return a row from the database''), s)
      | Some r \<Rightarrow>
          let r' = r\<lparr>cn_status := status, cn_metadata := metadata, cn_updated_at := now_reading s\<rparr>
          in write_table consents_ok (\<lambda>x s. s\<lparr>consents := x\<rparr>) ''consents'' r'
               (set_row cn_id r' (consents s)) (after_reading s))"

definition policies_ok :: "policy_row list \<Rightarrow> bool" where
  "policies_ok rows \<longleftrightarrow> distinct (map po_id rows) \<and>
     (\<forall>r \<in> set rows. length_between (po_name r) 200 \<and> length_between (po_action r) 100 \<and>
        length_between (po_scope r) 200 \<and> 0 \<le> po_priority r)"

definition create_policy ::
  "string option \<Rightarrow> string \<Rightarrow> string \<Rightarrow> string \<Rightarrow> policy_effect \<Rightarrow> int \<Rightarrow> bool \<Rightarrow> dict \<Rightarrow> string list \<Rightarrow>
    store \<Rightarrow> (gov_error + policy_row) \<times> store" where
  "create_policy profile nm action scope effect priority active conditions required s =
     (let r = \<lparr>po_id = next_id s, po_agent_profile_id = profile, po_name = nm, po_action = action,
               po_scope = scope, po_effect = effect, po_priority = priority, po_active = active,
               po_conditions = conditions, po_required_consents = required,
               po_created_at = now_reading s, po_updated_at = now_reading s\<rparr>
      in write_table policies_ok (\<lambda>x s. s\<lparr>policies := x\<rparr>) ''policies'' r (policies s @ [r])
           (after_reading (after_draw s)))"

definition get_policy_optional :: "uuid \<Rightarrow> store \<Rightarrow> policy_row option" where
  "get_policy_optional i s = find_row po_id i (policies s)"

definition policy_order :: "policy_row \<Rightarrow> int \<times> timestamp \<times> uuid" where
  "policy_order r = (po_priority r, po_created_at r, po_id r)"

definition list_policies :: "store \<Rightarrow> policy_row list" where
  "list_policies s = sort_key policy_order (policies s)"

definition list_active_policies :: "string option \<Rightarrow> store \<Rightarrow> policy_row list" where
  "list_active_policies profile s =
     sort_key policy_order
       (filter (\<lambda>r. po_active r \<and>
          (case profile of None \<Rightarrow> True
           | Some p \<Rightarrow> po_agent_profile_id r = None \<or> po_agent_profile_id r = Some p)) (policies s))"

definition tools_ok :: "tool_row list \<Rightarrow> bool" where
  "tools_ok rows \<longleftrightarrow> distinct (map to_id rows) \<and>
     distinct (map (\<lambda>r. (to_tool_key r, to_version r)) rows) \<and>
     (\<forall>r \<in> set rows. length_between (to_tool_key r) 200 \<and> length_between (to_name r) 200 \<and>
        length_between (to_description r) 500 \<and> length_between (to_version r) 100 \<and>
        to_metadata_version r = ''tool_metadata_v0'')"

definition get_tool_optional :: "uuid \<Rightarrow> store \<Rightarrow> tool_row option" where
  "get_tool_optional i s = find_row to_id i (tools s)"

definition tool_order :: "store \<Rightarrow> tool_row \<Rightarrow> string \<times> string \<times> timestamp \<times> uuid" where
  "tool_order s r =
     (collation (environment s) (to_tool_key r), collation (environment s) (to_version r),
      to_created_at r, to_id r)"

definition list_tools :: "store \<Rightarrow> tool_row list" where
  "list_tools s = sort_key (tool_order s) (tools s)"

definition list_active_tools :: "store \<Rightarrow> tool_row list" where
  "list_active_tools s = sort_key (tool_order s) (filter to_active (tools s))"

subsection \<open>Approvals\<close>

definition approvals_ok :: "approval_row list \<Rightarrow> bool" where
  "approvals_ok rows \<longleftrightarrow> distinct (map ap_id rows) \<and>
     (\<forall>r \<in> set rows.
        ((ap_status r = ApprPending \<and> ap_resolved_at r = None \<and> ap_resolved_by_user_id r = None) \<or>
         (ap_status r \<noteq> ApprPending \<and> ap_resolved_at r \<noteq> None \<and> ap_resolved_by_user_id r \<noteq> None)) \<and>
        (ap_resolved_by_user_id r = None \<or> ap_resolved_by_user_id r = Some (ap_user_id r)))"

definition new_approval ::
  "uuid \<Rightarrow> uuid \<Rightarrow> uuid option \<Rightarrow> uuid option \<Rightarrow> approval_status \<Rightarrow> routing_request \<Rightarrow> tool_record \<Rightarrow>
    dict \<Rightarrow> uuid \<Rightarrow> store \<Rightarrow> approval_row" where
  "new_approval thread tool run step status req td routing rtrace s =
     \<lparr>ap_id = next_id s, ap_user_id = current_user (environment s), ap_thread_id = thread,
      ap_tool_id = tool, ap_task_run_id = run, ap_task_step_id = step, ap_status = status,
      ap_request = req, ap_tool = td, ap_routing = routing, ap_routing_trace_id = rtrace,
      ap_created_at = now_reading s, ap_resolved_at = None, ap_resolved_by_user_id = None\<rparr>"

definition write_approvals ::
  "'a \<Rightarrow> approval_row list \<Rightarrow> store \<Rightarrow> (gov_error + 'a) \<times> store" where
  "write_approvals x rows s = write_table approvals_ok (\<lambda>x s. s\<lparr>approvals := x\<rparr>) ''approvals'' x rows s"

definition create_approval ::
  "uuid \<Rightarrow> uuid \<Rightarrow> uuid option \<Rightarrow> uuid option \<Rightarrow> approval_status \<Rightarrow> routing_request \<Rightarrow> tool_record \<Rightarrow>
    dict \<Rightarrow> uuid \<Rightarrow> store \<Rightarrow> (gov_error + approval_row) \<times> store" where
  "create_approval thread tool run step status req td routing rtrace s =
     (let r = new_approval thread tool run step status req td routing rtrace s
      in write_approvals r (approvals s @ [r]) (after_reading (after_draw s)))"

definition get_approval_optional :: "uuid \<Rightarrow> store \<Rightarrow> approval_row option" where
  "get_approval_optional i s = find_row ap_id i (approvals s)"

definition list_approvals :: "store \<Rightarrow> approval_row list" where
  "list_approvals s = sort_key (\<lambda>r. (ap_created_at r, ap_id r)) (approvals s)"

text \<open>Only a pending row is resolved.\<close>

definition resolved_approval :: "approval_status \<Rightarrow> store \<Rightarrow> approval_row \<Rightarrow> approval_row" where
  "resolved_approval status s r =
     r\<lparr>ap_status := status, ap_resolved_at := Some (now_reading s),
       ap_resolved_by_user_id := Some (current_user (environment s))\<rparr>"

definition resolve_approval_optional ::
  "uuid \<Rightarrow> approval_status \<Rightarrow> store \<Rightarrow> (gov_error + approval_row option) \<times> store" where
  "resolve_approval_optional i status s =
     (case find_row ap_id i (approvals s) of
        None \<Rightarrow> (Inr None, s)
      | Some r \<Rightarrow>
          if ap_status r \<noteq> ApprPending then (Inr None, s)
          else let r' = resolved_approval status s r
               in write_approvals (Some r') (set_row ap_id r' (approvals s)) (after_reading s))"

definition update_approval_task_step_optional ::
  "uuid \<Rightarrow> uuid \<Rightarrow> store \<Rightarrow> (gov_error + approval_row option) \<times> store" where
  "update_approval_task_step_optional i step s =
     (case find_row ap_id i (approvals s) of
        None \<Rightarrow> (Inr None, s)
      | Some r \<Rightarrow>
          let r' = r\<lparr>ap_task_step_id := Some step\<rparr>
          in write_approvals (Some r') (set_row ap_id r' (approvals s)) s)"

definition update_approval_task_run_optional ::
  "uuid \<Rightarrow> uuid option \<Rightarrow> store \<Rightarrow> (gov_error + approval_row option) \<times> store" where
  "update_approval_task_run_optional i run s =
     (case find_row ap_id i (approvals s) of
        None \<Rightarrow> (Inr None, s)
      | Some r \<Rightarrow>
          let r' = r\<lparr>ap_task_run_id := run\<rparr>
          in write_approvals (Some r') (set_row ap_id r' (approvals s)) s)"

subsection \<open>Tasks\<close>

definition executed_task :: "task_status \<Rightarrow> bool" where
  "executed_task st \<longleftrightarrow> st = TaskExecuted \<or> st = TaskBlocked"

definition tasks_ok :: "task_row list \<Rightarrow> bool" where
  "tasks_ok rows \<longleftrightarrow> distinct (map tk_id rows) \<and>
     distinct (filter (\<lambda>x. x \<noteq> None) (map tk_latest_approval_id rows)) \<and>
     distinct (filter (\<lambda>x. x \<noteq> None) (map tk_latest_execution_id rows)) \<and>
     (\<forall>r \<in> set rows.
        (tk_status r \<noteq> TaskPendingApproval \<or> tk_latest_approval_id r \<noteq> None) \<and>
        (executed_task (tk_status r) \<longleftrightarrow> tk_latest_execution_id r \<noteq> None))"

definition write_tasks :: "'a \<Rightarrow> task_row list \<Rightarrow> store \<Rightarrow> (gov_error + 'a) \<times> store" where
  "write_tasks x rows s = write_table tasks_ok (\<lambda>x s. s\<lparr>tasks := x\<rparr>) ''tasks'' x rows s"

definition new_task ::
  "uuid \<Rightarrow> uuid \<Rightarrow> task_status \<Rightarrow> routing_request \<Rightarrow> tool_record \<Rightarrow> uuid option \<Rightarrow> uuid option \<Rightarrow>
    store \<Rightarrow> task_row" where
  "new_task thread tool status req td approval execution s =
     \<lparr>tk_id = next_id s, tk_user_id = current_user (environment s), tk_thread_id = thread,
      tk_tool_id = tool, tk_status = status, tk_request = req, tk_tool = td,
      tk_latest_approval_id = approval, tk_latest_execution_id = execution,
      tk_created_at = now_reading s, tk_updated_at = now_reading s\<rparr>"

definition create_task ::
  "uuid \<Rightarrow> uuid \<Rightarrow> task_status \<Rightarrow> routing_request \<Rightarrow> tool_record \<Rightarrow> uuid option \<Rightarrow> uuid option \<Rightarrow>
    store \<Rightarrow> (gov_error + task_row) \<times> store" where
  "create_task thread tool status req td approval execution s =
     (let r = new_task thread tool status req td approval execution s
      in write_tasks r (tasks s @ [r]) (after_reading (after_draw s)))"

definition get_task_optional :: "uuid \<Rightarrow> store \<Rightarrow> task_row option" where
  "get_task_optional i s = find_row tk_id i (tasks s)"

definition get_task_by_approval_optional :: "uuid \<Rightarrow> store \<Rightarrow> task_row option" where
  "get_task_by_approval_optional a s = find (\<lambda>r. tk_latest_approval_id r = Some a) (tasks s)"

definition list_tasks :: "store \<Rightarrow> task_row list" where
  "list_tasks s = sort_key (\<lambda>r. (tk_created_at r, tk_id r)) (tasks s)"

text \<open>At most one row has a given latest approval, so the row found is the row updated.\<close>

definition update_task_status_by_approval_optional ::
  "uuid \<Rightarrow> task_status \<Rightarrow> store \<Rightarrow> (gov_error + task_row option) \<times> store" where
  "update_task_status_by_approval_optional a status s =
     (case get_task_by_approval_optional a s of
        None \<Rightarrow> (Inr None, s)
      | Some r \<Rightarrow>
          let r' = r\<lparr>tk_status := status, tk_updated_at := now_reading s\<rparr>
          in write_tasks (Some r') (set_row tk_id r' (tasks s)) (after_reading s))"

definition update_task_execution_by_approval_optional ::
  "uuid \<Rightarrow> uuid \<Rightarrow> task_status \<Rightarrow> store \<Rightarrow> (gov_error + task_row option) \<times> store" where
  "update_task_execution_by_approval_optional a execution status s =
     (case get_task_by_approval_optional a s of
        None \<Rightarrow> (Inr None, s)
      | Some r \<Rightarrow>
          let r' = r\<lparr>tk_status := status, tk_latest_execution_id := Some execution,
                     tk_updated_at := now_reading s\<rparr>
          in write_tasks (Some r') (set_row tk_id r' (tasks s)) (after_reading s))"

definition update_task_status_optional ::
  "uuid \<Rightarrow> task_status \<Rightarrow> uuid option \<Rightarrow> uuid option \<Rightarrow> store \<Rightarrow>
    (gov_error + task_row option) \<times> store" where
  "update_task_status_optional i status approval execution s =
     (case find_row tk_id i (tasks s) of
        None \<Rightarrow> (Inr None, s)
      | Some r \<Rightarrow>
          let r' = r\<lparr>tk_status := status, tk_latest_approval_id := approval,
                     tk_latest_execution_id := execution, tk_updated_at := now_reading s\<rparr>
          in write_tasks (Some r') (set_row tk_id r' (tasks s)) (after_reading s))"

subsection \<open>Task steps\<close>

definition steps_ok :: "step_row list \<Rightarrow> bool" where
  "steps_ok rows \<longleftrightarrow> distinct (map ts_id rows) \<and>
     distinct (map (\<lambda>r. (ts_task_id r, ts_sequence_no r)) rows) \<and>
     (\<forall>r \<in> set rows. 0 < ts_sequence_no r \<and> ts_trace_kind r \<noteq> [] \<and> ts_parent_step_id r \<noteq> Some (ts_id r))"

definition write_steps :: "'a \<Rightarrow> step_row list \<Rightarrow> store \<Rightarrow> (gov_error + 'a) \<times> store" where
  "write_steps x rows s = write_table steps_ok (\<lambda>x s. s\<lparr>task_steps := x\<rparr>) ''task_steps'' x rows s"

definition new_step ::
  "uuid \<Rightarrow> int \<Rightarrow> uuid option \<Rightarrow> uuid option \<Rightarrow> uuid option \<Rightarrow> step_kind \<Rightarrow> step_status \<Rightarrow>
    routing_request \<Rightarrow> outcome_snapshot \<Rightarrow> uuid \<Rightarrow> string \<Rightarrow> store \<Rightarrow> step_row" where
  "new_step task seq parent approval execution kind status req outcome trace tkind s =
     \<lparr>ts_id = next_id s, ts_task_id = task, ts_sequence_no = seq, ts_parent_step_id = parent,
      ts_source_approval_id = approval, ts_source_execution_id = execution, ts_kind = kind,
      ts_status = status, ts_request = req, ts_outcome = outcome, ts_trace_id = trace,
      ts_trace_kind = tkind, ts_created_at = now_reading s, ts_updated_at = now_reading s\<rparr>"

definition create_task_step ::
  "uuid \<Rightarrow> int \<Rightarrow> uuid option \<Rightarrow> uuid option \<Rightarrow> uuid option \<Rightarrow> step_kind \<Rightarrow> step_status \<Rightarrow>
    routing_request \<Rightarrow> outcome_snapshot \<Rightarrow> uuid \<Rightarrow> string \<Rightarrow> store \<Rightarrow> (gov_error + step_row) \<times> store" where
  "create_task_step task seq parent approval execution kind status req outcome trace tkind s =
     (let r = new_step task seq parent approval execution kind status req outcome trace tkind s
      in write_steps r (task_steps s @ [r]) (after_reading (after_draw s)))"

definition get_task_step_optional :: "uuid \<Rightarrow> store \<Rightarrow> step_row option" where
  "get_task_step_optional i s = find_row ts_id i (task_steps s)"

definition list_task_steps_for_task :: "uuid \<Rightarrow> store \<Rightarrow> step_row list" where
  "list_task_steps_for_task task s =
     sort_key (\<lambda>r. (ts_sequence_no r, ts_created_at r, ts_id r))
       (filter (\<lambda>r. ts_task_id r = task) (task_steps s))"

definition updated_step ::
  "step_status \<Rightarrow> outcome_snapshot \<Rightarrow> uuid \<Rightarrow> string \<Rightarrow> store \<Rightarrow> step_row \<Rightarrow> step_row" where
  "updated_step status outcome trace tkind s r =
     r\<lparr>ts_status := status, ts_outcome := outcome, ts_trace_id := trace, ts_trace_kind := tkind,
       ts_updated_at := now_reading s\<rparr>"

definition update_task_step_optional ::
  "uuid \<Rightarrow> step_status \<Rightarrow> outcome_snapshot \<Rightarrow> uuid \<Rightarrow> string \<Rightarrow> store \<Rightarrow>
    (gov_error + step_row option) \<times> store" where
  "update_task_step_optional i status outcome trace tkind s =
     (case find_row ts_id i (task_steps s) of
        None \<Rightarrow> (Inr None, s)
      | Some r \<Rightarrow>
          let r' = updated_step status outcome trace tkind s r
          in write_steps (Some r') (set_row ts_id r' (task_steps s)) (after_reading s))"

definition update_task_step_for_task_sequence_optional ::
  "uuid \<Rightarrow> int \<Rightarrow> step_status \<Rightarrow> outcome_snapshot \<Rightarrow> uuid \<Rightarrow> string \<Rightarrow> store \<Rightarrow>
    (gov_error + step_row option) \<times> store" where
  "update_task_step_for_task_sequence_optional task seq status outcome trace tkind s =
     (case find (\<lambda>r. ts_task_id r = task \<and> ts_sequence_no r = seq) (task_steps s) of
        None \<Rightarrow> (Inr None, s)
      | Some r \<Rightarrow>
          let r' = updated_step status outcome trace tkind s r
          in write_steps (Some r') (set_row ts_id r' (task_steps s)) (after_reading s))"

subsection \<open>Task runs\<close>

text \<open>
  The check constraints of \<open>task_runs\<close>: counters, the retry bounds, and which stop reason and
  failure class go with which status.
\<close>

definition run_bounds_check :: "run_row \<Rightarrow> bool" where
  "run_bounds_check r \<longleftrightarrow>
     0 \<le> tr_tick_count r \<and> 0 \<le> tr_step_count r \<and> 0 < tr_max_ticks r \<and>
     0 \<le> tr_retry_count r \<and> tr_retry_count r \<le> tr_retry_cap r"

definition failed_stop_reasons :: "stop_reason list" where
  "failed_stop_reasons =
     [StopBudgetExhausted, StopApprovalRejected, StopPolicyBlocked, StopRetryExhausted, StopFatalError]"

text \<open>
  \<open>task_runs_status_stop_reason_check\<close>.  A comparison with a null stop reason is unknown, and a check
  constraint refuses only what is false; so a missing stop reason passes wherever the rest of its
  disjunct holds.
\<close>

fun not_other :: "stop_reason list \<Rightarrow> stop_reason option \<Rightarrow> bool" where
  "not_other allowed None = True"
| "not_other allowed (Some x) = (x \<in> set allowed)"

fun status_reason_check :: "run_status \<Rightarrow> stop_reason option \<Rightarrow> failure_class option \<Rightarrow> bool" where
  "status_reason_check RunQueued sr fc = (sr = None \<and> fc = None)"
| "status_reason_check RunRunning sr fc = (sr = None \<and> fc = None)"
| "status_reason_check RunWaitingApproval sr fc = (not_other [StopWaitingApproval] sr \<and> fc = None)"
| "status_reason_check RunWaitingUser sr fc = (not_other [StopWaitingUser] sr \<and> fc = None)"
| "status_reason_check RunPaused sr fc = (not_other [StopPaused] sr \<and> fc = None)"
| "status_reason_check RunFailed sr fc = (not_other failed_stop_reasons sr \<and> fc \<noteq> None)"
| "status_reason_check RunDone sr fc = (not_other [StopDone] sr \<and> fc = None)"
| "status_reason_check RunCancelled sr fc = (not_other [StopCancelled] sr \<and> fc = None)"

definition run_check :: "run_row \<Rightarrow> bool" where
  "run_check r \<longleftrightarrow> run_bounds_check r \<and>
     status_reason_check (tr_status r) (tr_stop_reason r) (tr_failure_class r)"

definition runs_ok :: "run_row list \<Rightarrow> bool" where
  "runs_ok rows \<longleftrightarrow> distinct (map tr_id rows) \<and> (\<forall>r \<in> set rows. run_check r)"

definition put_runs :: "run_row list \<Rightarrow> store \<Rightarrow> store" where
  "put_runs rows s = s\<lparr>task_runs := rows\<rparr>"

definition write_runs :: "'a \<Rightarrow> run_row list \<Rightarrow> store \<Rightarrow> (gov_error + 'a) \<times> store" where
  "write_runs x rows s = write_table runs_ok put_runs ''task_runs'' x rows s"

text \<open>The values \<open>update_task_run_optional\<close> and \<open>create_task_run\<close> take by keyword.\<close>

record run_values =
  rv_status :: run_status
  rv_checkpoint :: dict
  rv_tick_count :: int
  rv_step_count :: int
  rv_retry_count :: int
  rv_retry_cap :: int
  rv_retry_posture :: retry_posture
  rv_failure_class :: "failure_class option"
  rv_stop_reason :: "stop_reason option"

definition new_run :: "uuid \<Rightarrow> int \<Rightarrow> run_values \<Rightarrow> store \<Rightarrow> run_row" where
  "new_run task max_ticks v s =
     \<lparr>tr_id = next_id s, tr_task_id = task, tr_status = rv_status v, tr_checkpoint = rv_checkpoint v,
      tr_tick_count = rv_tick_count v, tr_step_count = rv_step_count v, tr_max_ticks = max_ticks,
      tr_retry_count = rv_retry_count v, tr_retry_cap = rv_retry_cap v,
      tr_retry_posture = rv_retry_posture v, tr_failure_class = rv_failure_class v,
      tr_stop_reason = rv_stop_reason v, tr_last_transitioned_at = now_reading s,
      tr_created_at = now_reading s, tr_updated_at = now_reading s\<rparr>"

definition create_task_run ::
  "uuid \<Rightarrow> int \<Rightarrow> run_values \<Rightarrow> store \<Rightarrow> (gov_error + run_row) \<times> store" where
  "create_task_run task max_ticks v s =
     (let r = new_run task max_ticks v s
      in write_runs r (task_runs s @ [r]) (after_reading (after_draw s)))"

definition get_task_run_optional :: "uuid \<Rightarrow> store \<Rightarrow> run_row option" where
  "get_task_run_optional i s = find_row tr_id i (task_runs s)"

definition list_task_runs_for_task :: "uuid \<Rightarrow> store \<Rightarrow> run_row list" where
  "list_task_runs_for_task task s =
     sort_key (\<lambda>r. (tr_created_at r, tr_id r)) (filter (\<lambda>r. tr_task_id r = task) (task_runs s))"

definition updated_run :: "run_values \<Rightarrow> store \<Rightarrow> run_row \<Rightarrow> run_row" where
  "updated_run v s r =
     r\<lparr>tr_status := rv_status v, tr_checkpoint := rv_checkpoint v,
       tr_tick_count := rv_tick_count v, tr_step_count := rv_step_count v,
       tr_retry_count := rv_retry_count v, tr_retry_cap := rv_retry_cap v,
       tr_retry_posture := rv_retry_posture v, tr_failure_class := rv_failure_class v,
       tr_stop_reason := rv_stop_reason v, tr_last_transitioned_at := now_reading s,
       tr_updated_at := now_reading s\<rparr>"

definition update_task_run_optional ::
  "uuid \<Rightarrow> run_values \<Rightarrow> store \<Rightarrow> (gov_error + run_row option) \<times> store" where
  "update_task_run_optional i v s =
     (case find_row tr_id i (task_runs s) of
        None \<Rightarrow> (Inr None, s)
      | Some r \<Rightarrow>
          let r' = updated_run v s r
          in write_runs (Some r') (set_row tr_id r' (task_runs s)) (after_reading s))"

text \<open>The oldest queued or running run, taken into \<open>running\<close>.\<close>

definition acquired_run :: "store \<Rightarrow> run_row \<Rightarrow> run_row" where
  "acquired_run s r =
     r\<lparr>tr_status := RunRunning, tr_retry_posture := RetryNone, tr_failure_class := None,
       tr_stop_reason := None, tr_last_transitioned_at := now_reading s,
       tr_updated_at := now_reading s\<rparr>"

definition acquire_candidates :: "store \<Rightarrow> run_row list" where
  "acquire_candidates s =
     sort_key (\<lambda>r. (tr_updated_at r, tr_created_at r, tr_id r))
       (filter (\<lambda>r. tr_status r = RunQueued \<or> tr_status r = RunRunning) (task_runs s))"

definition acquire_next_task_run_optional :: "store \<Rightarrow> (gov_error + run_row option) \<times> store" where
  "acquire_next_task_run_optional s =
     (case acquire_candidates s of
        [] \<Rightarrow> (Inr None, s)
      | r # _ \<Rightarrow>
          let r' = acquired_run s r
          in write_runs (Some r') (set_row tr_id r' (task_runs s)) (after_reading s))"

subsection \<open>Tool executions\<close>

definition execution_check :: "execution_row \<Rightarrow> bool" where
  "execution_check r \<longleftrightarrow>
     (case ex_status r of
        ExecCompleted \<Rightarrow> ex_handler_key r \<noteq> None \<and> ex_request_event_id r \<noteq> None \<and>
          ex_result_event_id r \<noteq> None
      | ExecBlocked \<Rightarrow> ex_request_event_id r = None \<and> ex_result_event_id r = None) \<and>
     ex_task_step_id r \<noteq> None \<and>
     (case ex_idempotency_key r of None \<Rightarrow> True
      | Some k \<Rightarrow> dropWhile (\<lambda>c. c = CHR '' '') k \<noteq> [])"

definition idempotency_slot :: "execution_row \<Rightarrow> (uuid \<times> uuid \<times> string) option" where
  "idempotency_slot r =
     (case (ex_task_run_id r, ex_idempotency_key r) of
        (Some run, Some k) \<Rightarrow> Some (run, ex_approval_id r, k)
      | _ \<Rightarrow> None)"

definition executions_ok :: "execution_row list \<Rightarrow> bool" where
  "executions_ok rows \<longleftrightarrow> distinct (map ex_id rows) \<and>
     distinct (filter (\<lambda>x. x \<noteq> None) (map idempotency_slot rows)) \<and>
     (\<forall>r \<in> set rows. execution_check r)"

text \<open>\<open>ToolExecutionCreateInput\<close>, the values of the INSERT.\<close>

record execution_values =
  xv_approval_id :: uuid
  xv_task_run_id :: "uuid option"
  xv_task_step_id :: uuid
  xv_thread_id :: uuid
  xv_tool_id :: uuid
  xv_trace_id :: uuid
  xv_request_event_id :: "uuid option"
  xv_result_event_id :: "uuid option"
  xv_status :: execution_status
  xv_handler_key :: "string option"
  xv_idempotency_key :: "string option"
  xv_request :: routing_request
  xv_tool :: tool_record
  xv_result :: exec_result

definition new_execution :: "execution_values \<Rightarrow> store \<Rightarrow> execution_row" where
  "new_execution v s =
     \<lparr>ex_id = next_id s, ex_approval_id = xv_approval_id v, ex_task_run_id = xv_task_run_id v,
      ex_task_step_id = Some (xv_task_step_id v), ex_thread_id = xv_thread_id v,
      ex_tool_id = xv_tool_id v, ex_trace_id = xv_trace_id v,
      ex_request_event_id = xv_request_event_id v, ex_result_event_id = xv_result_event_id v,
      ex_status = xv_status v, ex_handler_key = xv_handler_key v,
      ex_idempotency_key = xv_idempotency_key v, ex_request = xv_request v, ex_tool = xv_tool v,
      ex_result = xv_result v, ex_executed_at = now_reading s\<rparr>"

definition create_tool_execution ::
  "execution_values \<Rightarrow> store \<Rightarrow> (gov_error + execution_row) \<times> store" where
  "create_tool_execution v s =
     (let r = new_execution v s
      in write_table executions_ok (\<lambda>x s. s\<lparr>tool_executions := x\<rparr>) ''tool_executions'' r
           (tool_executions s @ [r]) (after_reading (after_draw s)))"

definition get_tool_execution_optional :: "uuid \<Rightarrow> store \<Rightarrow> execution_row option" where
  "get_tool_execution_optional i s = find_row ex_id i (tool_executions s)"

definition list_tool_executions :: "store \<Rightarrow> execution_row list" where
  "list_tool_executions s = sort_key (\<lambda>r. (ex_executed_at r, ex_id r)) (tool_executions s)"

definition get_tool_execution_by_idempotency_optional ::
  "uuid \<Rightarrow> uuid \<Rightarrow> string \<Rightarrow> store \<Rightarrow> execution_row option" where
  "get_tool_execution_by_idempotency_optional run approval k s =
     find (\<lambda>r. ex_task_run_id r = Some run \<and> ex_approval_id r = approval \<and> ex_idempotency_key r = Some k)
       (list_tool_executions s)"

subsection \<open>Execution budgets\<close>

definition scope_of_budget :: "budget_row \<Rightarrow> string option \<times> string option \<times> string option" where
  "scope_of_budget b = (bu_agent_profile_id b, bu_tool_key b, bu_domain_hint b)"

text \<open>\<open>COALESCE(_, '')\<close> of the three selectors, the key of the partial unique index.\<close>

definition active_scope_slot :: "budget_row \<Rightarrow> (string \<times> string \<times> string) option" where
  "active_scope_slot b =
     (let text = (\<lambda>t. case t of None \<Rightarrow> [] | Some x \<Rightarrow> x)
      in if bu_status b = BudgetActive
         then Some (text (bu_agent_profile_id b), text (bu_tool_key b), text (bu_domain_hint b))
         else None)"

definition budget_check :: "budget_row \<Rightarrow> bool" where
  "budget_check b \<longleftrightarrow>
     (bu_tool_key b \<noteq> None \<or> bu_domain_hint b \<noteq> None) \<and>
     0 < bu_max_completed_executions b \<and>
     (case bu_rolling_window_seconds b of None \<Rightarrow> True | Some w \<Rightarrow> 0 < w) \<and>
     (case bu_status b of
        BudgetActive \<Rightarrow> bu_deactivated_at b = None \<and> bu_superseded_by_budget_id b = None
      | BudgetInactive \<Rightarrow> bu_deactivated_at b \<noteq> None \<and> bu_superseded_by_budget_id b = None
      | BudgetSuperseded \<Rightarrow> bu_deactivated_at b \<noteq> None \<and> bu_superseded_by_budget_id b \<noteq> None)"

definition budget_rows_ok :: "budget_row list \<Rightarrow> bool" where
  "budget_rows_ok rows \<longleftrightarrow> distinct (map bu_id rows) \<and>
     distinct (filter (\<lambda>x. x \<noteq> None) (map bu_supersedes_budget_id rows)) \<and>
     (\<forall>b \<in> set rows. budget_check b)"

definition one_active_scope :: "budget_row list \<Rightarrow> bool" where
  "one_active_scope rows \<longleftrightarrow> distinct (filter (\<lambda>x. x \<noteq> None) (map active_scope_slot rows))"

definition budgets_ok :: "budget_row list \<Rightarrow> bool" where
  "budgets_ok rows \<longleftrightarrow> budget_rows_ok rows \<and> one_active_scope rows"

text \<open>The constraint a rejected write names; the index of active scopes is the last one checked.\<close>

definition budget_constraint :: "budget_row list \<Rightarrow> string" where
  "budget_constraint rows =
     (if budget_rows_ok rows then ''execution_budgets_one_active_scope_idx'' else ''execution_budgets'')"

definition write_budgets :: "'a \<Rightarrow> budget_row list \<Rightarrow> store \<Rightarrow> (gov_error + 'a) \<times> store" where
  "write_budgets x rows s =
     write_table budgets_ok (\<lambda>x s. s\<lparr>execution_budgets := x\<rparr>) (budget_constraint rows) x rows s"

definition new_budget ::
  "uuid \<Rightarrow> string option \<Rightarrow> string option \<Rightarrow> string option \<Rightarrow> int \<Rightarrow> int option \<Rightarrow> uuid option \<Rightarrow>
    store \<Rightarrow> budget_row" where
  "new_budget i profile tool_key hint cap window supersedes s =
     \<lparr>bu_id = i, bu_agent_profile_id = profile, bu_tool_key = tool_key, bu_domain_hint = hint,
      bu_max_completed_executions = cap, bu_rolling_window_seconds = window,
      bu_status = BudgetActive, bu_deactivated_at = None, bu_superseded_by_budget_id = None,
      bu_supersedes_budget_id = supersedes, bu_created_at = txn_now (environment s)\<rparr>"

definition create_execution_budget ::
  "uuid option \<Rightarrow> string option \<Rightarrow> string option \<Rightarrow> string option \<Rightarrow> int \<Rightarrow> int option \<Rightarrow> uuid option \<Rightarrow>
    store \<Rightarrow> (gov_error + budget_row) \<times> store" where
  "create_execution_budget budget_id profile tool_key hint cap window supersedes s =
     (let i = (case budget_id of None \<Rightarrow> next_id s | Some x \<Rightarrow> x);
          s' = (case budget_id of None \<Rightarrow> after_draw s | Some x \<Rightarrow> s);
          r = new_budget i profile tool_key hint cap window supersedes s
      in write_budgets r (execution_budgets s @ [r]) s')"

definition get_execution_budget_optional :: "uuid \<Rightarrow> store \<Rightarrow> budget_row option" where
  "get_execution_budget_optional i s = find_row bu_id i (execution_budgets s)"

definition list_execution_budgets :: "store \<Rightarrow> budget_row list" where
  "list_execution_budgets s = sort_key (\<lambda>r. (bu_created_at r, bu_id r)) (execution_budgets s)"

definition deactivate_execution_budget_optional ::
  "uuid \<Rightarrow> store \<Rightarrow> (gov_error + budget_row option) \<times> store" where
  "deactivate_execution_budget_optional i s =
     (case find_row bu_id i (execution_budgets s) of
        None \<Rightarrow> (Inr None, s)
      | Some r \<Rightarrow>
          if bu_status r \<noteq> BudgetActive then (Inr None, s)
          else let r' = r\<lparr>bu_status := BudgetInactive,
                          bu_deactivated_at := Some (txn_now (environment s))\<rparr>
               in write_budgets (Some r') (set_row bu_id r' (execution_budgets s)) s)"

definition supersede_execution_budget_optional ::
  "uuid \<Rightarrow> uuid \<Rightarrow> store \<Rightarrow> (gov_error + budget_row option) \<times> store" where
  "supersede_execution_budget_optional i by_id s =
     (case find_row bu_id i (execution_budgets s) of
        None \<Rightarrow> (Inr None, s)
      | Some r \<Rightarrow>
          if bu_status r \<noteq> BudgetActive then (Inr None, s)
          else let r' = r\<lparr>bu_status := BudgetSuperseded,
                          bu_deactivated_at := Some (txn_now (environment s)),
                          bu_superseded_by_budget_id := Some by_id\<rparr>
               in write_budgets (Some r') (set_row bu_id r' (execution_budgets s)) s)"

text \<open>The statement layer serves the table interface for every constrained table.\<close>

interpretation run_table: constrained_table task_runs put_runs tr_id runs_ok
  by unfold_locales (simp_all add: put_runs_def runs_ok_def)

interpretation approval_table: constrained_table approvals "\<lambda>x s. s\<lparr>approvals := x\<rparr>" ap_id approvals_ok
  by unfold_locales (simp_all add: approvals_ok_def)

interpretation task_table: constrained_table tasks "\<lambda>x s. s\<lparr>tasks := x\<rparr>" tk_id tasks_ok
  by unfold_locales (simp_all add: tasks_ok_def)

interpretation step_table: constrained_table task_steps "\<lambda>x s. s\<lparr>task_steps := x\<rparr>" ts_id steps_ok
  by unfold_locales (simp_all add: steps_ok_def)

interpretation execution_table:
  constrained_table tool_executions "\<lambda>x s. s\<lparr>tool_executions := x\<rparr>" ex_id executions_ok
  by unfold_locales (simp_all add: executions_ok_def)

interpretation budget_table:
  constrained_table execution_budgets "\<lambda>x s. s\<lparr>execution_budgets := x\<rparr>" bu_id budgets_ok
  by unfold_locales (simp_all add: budgets_ok_def budget_rows_ok_def)

end
