(* ===== verification/Task_Runs.thy ===== *)
theory Task_Runs
  imports Gov_Tables
begin

text \<open>
  \<open>task_runs.py\<close>: the lifecycle of a task run (create, tick, pause, resume, cancel, fail) with its
  checkpoint, its tick budget and its retry cap.  The abstract machine \<open>run_edge\<close> says how one row
  may change; every operation is shown to follow it.
\<close>

subsection \<open>Status sets\<close>

definition RUNNABLE_TASK_RUN_STATUSES :: "run_status list" where
  "RUNNABLE_TASK_RUN_STATUSES = [RunQueued, RunRunning]"

definition PAUSEABLE_TASK_RUN_STATUSES :: "run_status list" where
  "PAUSEABLE_TASK_RUN_STATUSES = [RunQueued, RunRunning, RunWaitingApproval, RunWaitingUser]"

definition RESUMABLE_TASK_RUN_STATUSES :: "run_status list" where
  "RESUMABLE_TASK_RUN_STATUSES = [RunPaused, RunWaitingApproval, RunWaitingUser, RunFailed]"

definition CANCELLABLE_TASK_RUN_STATUSES :: "run_status list" where
  "CANCELLABLE_TASK_RUN_STATUSES =
     [RunQueued, RunRunning, RunWaitingApproval, RunWaitingUser, RunPaused]"

lemmas run_status_sets =
  RUNNABLE_TASK_RUN_STATUSES_def PAUSEABLE_TASK_RUN_STATUSES_def
  RESUMABLE_TASK_RUN_STATUSES_def CANCELLABLE_TASK_RUN_STATUSES_def

definition TASK_RUN_LIST_ORDER :: "string list" where
  "TASK_RUN_LIST_ORDER = [''created_at_asc'', ''id_asc'']"

subsection \<open>Records\<close>

definition serialize_task_run_row :: "run_row \<Rightarrow> dict" where
  "serialize_task_run_row r =
     [(''id'', JStr (uuid_str (tr_id r))), (''task_id'', JStr (uuid_str (tr_task_id r))),
      (''status'', JStr (run_status_text (tr_status r))), (''checkpoint'', JObj (tr_checkpoint r)),
      (''tick_count'', JInt (tr_tick_count r)), (''step_count'', JInt (tr_step_count r)),
      (''max_ticks'', JInt (tr_max_ticks r)), (''retry_count'', JInt (tr_retry_count r)),
      (''retry_cap'', JInt (tr_retry_cap r)),
      (''retry_posture'', JStr (retry_posture_text (tr_retry_posture r))),
      (''failure_class'', opt_text failure_class_text (tr_failure_class r)),
      (''stop_reason'', opt_text stop_reason_text (tr_stop_reason r)),
      (''last_transitioned_at'', JStr (isoformat (tr_last_transitioned_at r))),
      (''created_at'', JStr (isoformat (tr_created_at r))),
      (''updated_at'', JStr (isoformat (tr_updated_at r)))]"

text \<open>\<open>checkpoint.get(key, d)\<close>.\<close>

definition dget_default :: "dict \<Rightarrow> string \<Rightarrow> json \<Rightarrow> json" where
  "dget_default d k v = (case map_of d k of None \<Rightarrow> v | Some w \<Rightarrow> w)"

definition coerce_non_negative_int :: "json \<Rightarrow> string \<Rightarrow> gov_error + int" where
  "coerce_non_negative_int v k =
     (case v of
        JInt i \<Rightarrow>
          if i < 0
          then Inl (TaskRunValidationError (''checkpoint.'' @ k @ '' must be greater than or equal to 0''))
          else Inr i
      | _ \<Rightarrow> Inl (TaskRunValidationError (''checkpoint.'' @ k @ '' must be an integer'')))"

definition coerce_positive_int :: "json \<Rightarrow> string \<Rightarrow> gov_error + int" where
  "coerce_positive_int v k =
     (case v of
        JInt i \<Rightarrow>
          if i \<le> 0
          then Inl (TaskRunValidationError (''checkpoint.'' @ k @ '' must be greater than 0''))
          else Inr i
      | _ \<Rightarrow> Inl (TaskRunValidationError (''checkpoint.'' @ k @ '' must be an integer'')))"

definition coerce_signal :: "json \<Rightarrow> gov_error + bool" where
  "coerce_signal v =
     (case v of
        JBool b \<Rightarrow> Inr b
      | _ \<Rightarrow> Inl (TaskRunValidationError ''checkpoint.wait_for_signal must be a boolean''))"

definition normalize_checkpoint :: "json \<Rightarrow> gov_error + dict" where
  "normalize_checkpoint checkpoint =
     (case checkpoint of
        JObj d \<Rightarrow>
          bind_res (coerce_non_negative_int (dget_default d ''cursor'' (JInt 0)) ''cursor'') (\<lambda>cursor.
          bind_res (coerce_positive_int (dget_default d ''target_steps'' (JInt 1)) ''target_steps'')
            (\<lambda>target_steps.
          bind_res (coerce_signal (dget_default d ''wait_for_signal'' (JBool False))) (\<lambda>wait.
          if cursor > target_steps
          then Inl (TaskRunValidationError
                 ''checkpoint.cursor must be less than or equal to checkpoint.target_steps'')
          else Inr (dset ''wait_for_signal'' (JBool wait)
                     (dset ''target_steps'' (JInt target_steps)
                       (dset ''cursor'' (JInt cursor) d))))))
      | _ \<Rightarrow> Inl (TaskRunValidationError ''checkpoint must be a JSON object''))"

definition transition_conflict :: "uuid \<Rightarrow> run_status \<Rightarrow> string \<Rightarrow> gov_error" where
  "transition_conflict i status action =
     TaskRunTransitionError (''task run '' @ uuid_str i @ '' is '' @ run_status_text status @
       '' and cannot be '' @ action)"

definition run_not_found :: "uuid \<Rightarrow> gov_error" where
  "run_not_found i = TaskRunNotFoundError (''task run '' @ uuid_str i @ '' was not found'')"

definition task_not_found :: "uuid \<Rightarrow> gov_error" where
  "task_not_found i = TaskNotFoundError (''task '' @ uuid_str i @ '' was not found'')"

definition require_task_exists :: "uuid \<Rightarrow> store \<Rightarrow> (gov_error + task_row) \<times> store" where
  "require_task_exists i s = require_row (task_not_found i) (get_task_optional i s) s"

definition require_task_run :: "uuid \<Rightarrow> store \<Rightarrow> (gov_error + run_row) \<times> store" where
  "require_task_run i s = require_row (run_not_found i) (get_task_run_optional i s) s"

subsection \<open>Transitions of the checkpoint\<close>

definition dict_entries :: "json \<Rightarrow> json list" where
  "dict_entries v =
     (case v of JList xs \<Rightarrow> filter (\<lambda>x. as_obj x \<noteq> None) xs | _ \<Rightarrow> [])"

definition transition_entry ::
  "nat \<Rightarrow> string \<Rightarrow> timestamp \<Rightarrow> run_status option \<Rightarrow> stop_reason option \<Rightarrow> run_values \<Rightarrow> json" where
  "transition_entry n source t prev prev_stop v =
     JObj [(''sequence_no'', JInt (int n)), (''source'', JStr source), (''at'', JStr (isoformat t)),
           (''previous_status'', opt_text run_status_text prev),
           (''status'', JStr (run_status_text (rv_status v))),
           (''previous_stop_reason'', opt_text stop_reason_text prev_stop),
           (''stop_reason'', opt_text stop_reason_text (rv_stop_reason v)),
           (''failure_class'', opt_text failure_class_text (rv_failure_class v)),
           (''retry_count'', JInt (rv_retry_count v)), (''retry_cap'', JInt (rv_retry_cap v)),
           (''retry_posture'', JStr (retry_posture_text (rv_retry_posture v)))]"

text \<open>The history with one more entry, and that entry as the last transition.\<close>

definition with_transition :: "json list \<Rightarrow> json \<Rightarrow> dict \<Rightarrow> dict" where
  "with_transition history entry d =
     dset ''last_transition'' entry (dset ''transitions'' (JList (history @ [entry])) d)"

definition append_transition_checkpoint_entry ::
  "json \<Rightarrow> string \<Rightarrow> run_status option \<Rightarrow> stop_reason option \<Rightarrow> run_values \<Rightarrow> store \<Rightarrow>
    (gov_error + dict) \<times> store" where
  "append_transition_checkpoint_entry checkpoint source prev prev_stop v s =
     (case normalize_checkpoint checkpoint of
        Inl e \<Rightarrow> (Inl e, s)
      | Inr normalized \<Rightarrow>
          let history = dict_entries (dget normalized ''transitions'');
              entry = transition_entry (length history + 1) source (now_reading s) prev prev_stop v
          in (Inr (with_transition history entry normalized), after_reading s))"

text \<open>\<open>_update_task_run\<close>: the checkpoint of \<open>v\<close> with the new transition entry, then the UPDATE.\<close>

definition update_run :: "run_row \<Rightarrow> run_values \<Rightarrow> string \<Rightarrow> store \<Rightarrow> (gov_error + run_row) \<times> store" where
  "update_run row v source s =
     and_then (append_transition_checkpoint_entry (JObj (rv_checkpoint v)) source
                 (Some (tr_status row)) (tr_stop_reason row) v s) (\<lambda>checkpoint s.
     and_then (update_task_run_optional (tr_id row) (v\<lparr>rv_checkpoint := checkpoint\<rparr>) s)
       (\<lambda>updated s. require_row (run_not_found (tr_id row)) updated s))"

definition mutation_response :: "run_row \<Rightarrow> run_status \<Rightarrow> dict" where
  "mutation_response updated prev =
     [(''task_run'', JObj (serialize_task_run_row updated)),
      (''previous_status'', JStr (run_status_text prev))]"

definition respond_with ::
  "run_status \<Rightarrow> (gov_error + run_row) \<times> store \<Rightarrow> (gov_error + dict) \<times> store" where
  "respond_with prev m = and_then m (\<lambda>updated s. (Inr (mutation_response updated prev), s))"

subsection \<open>Operations\<close>

definition create_task_run_record ::
  "uuid \<Rightarrow> dict \<Rightarrow> int \<Rightarrow> int option \<Rightarrow> store \<Rightarrow> (gov_error + dict) \<times> store" where
  "create_task_run_record task checkpoint max_ticks cap s =
     and_then (require_task_exists task s) (\<lambda>_ s.
     and_then (raise_when (max_ticks \<le> 0)
                 (TaskRunValidationError ''max_ticks must be greater than 0'') s) (\<lambda>_ s.
     let retry_cap = (case cap of Some c \<Rightarrow> c | None \<Rightarrow> max 1 max_ticks)
     in and_then (raise_when (retry_cap \<le> 0)
                    (TaskRunValidationError ''retry_cap must be greater than 0'') s) (\<lambda>_ s.
        let v = \<lparr>rv_status = RunQueued, rv_checkpoint = checkpoint, rv_tick_count = 0,
                 rv_step_count = 0, rv_retry_count = 0, rv_retry_cap = retry_cap,
                 rv_retry_posture = RetryNone, rv_failure_class = None, rv_stop_reason = None\<rparr>
        in and_then (append_transition_checkpoint_entry (JObj checkpoint) ''create'' None None v s)
             (\<lambda>cp s.
           and_then (create_task_run task max_ticks (v\<lparr>rv_checkpoint := cp\<rparr>) s) (\<lambda>row s.
           (Inr [(''task_run'', JObj (serialize_task_run_row row))], s))))))"

definition list_task_run_records :: "uuid \<Rightarrow> store \<Rightarrow> (gov_error + dict) \<times> store" where
  "list_task_run_records task s =
     and_then (require_task_exists task s) (\<lambda>_ s.
     let items = map (\<lambda>r. JObj (serialize_task_run_row r)) (list_task_runs_for_task task s)
     in (Inr [(''items'', JList items),
              (''summary'', JObj [(''task_id'', JStr (uuid_str task)),
                                  (''total_count'', JInt (int (length items))),
                                  (''order'', str_list TASK_RUN_LIST_ORDER)])], s))"

definition get_task_run_record :: "uuid \<Rightarrow> store \<Rightarrow> (gov_error + dict) \<times> store" where
  "get_task_run_record i s =
     and_then (require_task_run i s)
       (\<lambda>row s. (Inr [(''task_run'', JObj (serialize_task_run_row row))], s))"

text \<open>The values of a row an operation leaves as they are, with a new checkpoint.\<close>

definition keep_values :: "run_row \<Rightarrow> dict \<Rightarrow> run_values" where
  "keep_values row checkpoint =
     \<lparr>rv_status = tr_status row, rv_checkpoint = checkpoint, rv_tick_count = tr_tick_count row,
      rv_step_count = tr_step_count row, rv_retry_count = tr_retry_count row,
      rv_retry_cap = tr_retry_cap row, rv_retry_posture = tr_retry_posture row,
      rv_failure_class = tr_failure_class row, rv_stop_reason = tr_stop_reason row\<rparr>"

text \<open>The approval a tick finds pending for the run's task.\<close>

definition pending_approval_of :: "task_row \<Rightarrow> store \<Rightarrow> uuid option" where
  "pending_approval_of task s =
     (case tk_latest_approval_id task of
        None \<Rightarrow> None
      | Some a \<Rightarrow>
          if tk_status task \<noteq> TaskPendingApproval then None
          else (case get_approval_optional a s of
                  None \<Rightarrow> None
                | Some approval \<Rightarrow> if ap_status approval = ApprPending then Some a else None))"

definition tick_waiting_approval ::
  "run_row \<Rightarrow> dict \<Rightarrow> uuid \<Rightarrow> store \<Rightarrow> (gov_error + run_row) \<times> store" where
  "tick_waiting_approval row checkpoint a s =
     (let cp = dset ''waiting_approval_id'' (JStr (uuid_str a))
                 (dset ''wait_for_signal'' (JBool True) checkpoint)
      in and_then (update_approval_task_run_optional a (Some (tr_id row)) s) (\<lambda>_ s.
         update_run row ((keep_values row cp)\<lparr>rv_status := RunWaitingApproval,
             rv_tick_count := tr_tick_count row + 1, rv_retry_posture := RetryAwaitingApproval,
             rv_failure_class := None, rv_stop_reason := Some StopWaitingApproval\<rparr>)
           ''tick_waiting_approval'' s))"

text \<open>The values and the source a tick writes when no approval is pending.\<close>

definition advance_values ::
  "run_row \<Rightarrow> dict \<Rightarrow> int \<Rightarrow> int \<Rightarrow> bool \<Rightarrow> run_values \<times> string" where
  "advance_values row checkpoint cursor target_steps wait =
     (if cursor \<ge> target_steps then
        ((keep_values row checkpoint)\<lparr>rv_status := RunDone,
            rv_retry_posture := RetryTerminal, rv_failure_class := None,
            rv_stop_reason := Some StopDone\<rparr>, ''tick_done_existing_cursor'')
      else if tr_tick_count row \<ge> tr_max_ticks row then
        ((keep_values row checkpoint)\<lparr>rv_status := RunFailed,
            rv_retry_posture := RetryTerminal, rv_failure_class := Some FailBudget,
            rv_stop_reason := Some StopBudgetExhausted\<rparr>, ''tick_budget_exhausted'')
      else if wait then
        ((keep_values row (dset ''wait_for_signal'' (JBool True) checkpoint))
          \<lparr>rv_status := RunWaitingUser, rv_tick_count := tr_tick_count row + 1,
            rv_retry_posture := RetryAwaitingUser, rv_failure_class := None,
            rv_stop_reason := Some StopWaitingUser\<rparr>, ''tick_waiting_user'')
      else
        let finished = cursor + 1 \<ge> target_steps
        in ((keep_values row (dset ''cursor'' (JInt (cursor + 1)) checkpoint))
             \<lparr>rv_status := (if finished then RunDone else RunRunning),
               rv_tick_count := tr_tick_count row + 1, rv_step_count := tr_step_count row + 1,
               rv_retry_posture := (if finished then RetryTerminal else RetryNone),
               rv_failure_class := None,
               rv_stop_reason := (if finished then Some StopDone else None)\<rparr>, ''tick_progress''))"

definition tick_advance ::
  "run_row \<Rightarrow> dict \<Rightarrow> int \<Rightarrow> int \<Rightarrow> bool \<Rightarrow> store \<Rightarrow> (gov_error + run_row) \<times> store" where
  "tick_advance row checkpoint cursor target_steps wait s =
     (case advance_values row checkpoint cursor target_steps wait of
        (v, source) \<Rightarrow> update_run row v source s)"

definition tick_task_run_record :: "uuid \<Rightarrow> store \<Rightarrow> (gov_error + dict) \<times> store" where
  "tick_task_run_record i s =
     and_then (require_task_run i s) (\<lambda>row s.
     and_then (raise_when (tr_status row \<notin> set RUNNABLE_TASK_RUN_STATUSES)
                 (transition_conflict i (tr_status row) ''ticked'') s) (\<lambda>_ s.
     and_then (normalize_checkpoint (JObj (tr_checkpoint row)), s) (\<lambda>checkpoint s.
     and_then (coerce_non_negative_int (dget_default checkpoint ''cursor'' (JInt 0)) ''cursor'', s)
       (\<lambda>cursor s.
     and_then (coerce_positive_int (dget_default checkpoint ''target_steps'' (JInt 1)) ''target_steps'', s)
       (\<lambda>target_steps s.
     and_then (require_task_exists (tr_task_id row) s) (\<lambda>task s.
     respond_with (tr_status row)
       (case pending_approval_of task s of
          Some a \<Rightarrow> tick_waiting_approval row checkpoint a s
        | None \<Rightarrow> tick_advance row checkpoint cursor target_steps
                    (py_truthy (dget_default checkpoint ''wait_for_signal'' (JBool False))) s)))))))"

definition pause_task_run_record :: "uuid \<Rightarrow> store \<Rightarrow> (gov_error + dict) \<times> store" where
  "pause_task_run_record i s =
     and_then (require_task_run i s) (\<lambda>row s.
     and_then (raise_when (tr_status row \<notin> set PAUSEABLE_TASK_RUN_STATUSES)
                 (transition_conflict i (tr_status row) ''paused'') s) (\<lambda>_ s.
     and_then (normalize_checkpoint (JObj (tr_checkpoint row)), s) (\<lambda>checkpoint s.
     respond_with (tr_status row)
       (update_run row ((keep_values row checkpoint)\<lparr>rv_status := RunPaused,
            rv_retry_posture := RetryPaused, rv_failure_class := None,
            rv_stop_reason := Some StopPaused\<rparr>) ''pause'' s))))"

text \<open>Is the approval a waiting run names still pending?\<close>

definition still_pending :: "dict \<Rightarrow> store \<Rightarrow> bool" where
  "still_pending checkpoint s =
     (case dget checkpoint ''waiting_approval_id'' of
        JStr t \<Rightarrow>
          (if t = [] then False
           else (case parse_uuid t of
                   None \<Rightarrow> False
                 | Some a \<Rightarrow>
                     (case get_approval_optional a s of
                        None \<Rightarrow> False
                      | Some approval \<Rightarrow> ap_status approval = ApprPending)))
      | _ \<Rightarrow> False)"

definition resume_values :: "run_row \<Rightarrow> dict \<Rightarrow> run_values" where
  "resume_values row checkpoint =
     (let prev = tr_status row;
          cp = dset ''resumed_by_user'' (JBool True)
                 (dset ''waiting_approval_id'' JNull (dset ''wait_for_signal'' (JBool False) checkpoint))
      in (keep_values row cp)
           \<lparr>rv_status := (if prev = RunFailed \<or> prev = RunWaitingApproval then RunQueued
                          else RunRunning),
             rv_retry_count := (if prev = RunFailed then tr_retry_count row + 1
                                else tr_retry_count row),
             rv_retry_posture := RetryNone, rv_failure_class := None, rv_stop_reason := None\<rparr>)"

definition resume_task_run_record :: "uuid \<Rightarrow> store \<Rightarrow> (gov_error + dict) \<times> store" where
  "resume_task_run_record i s =
     and_then (require_task_run i s) (\<lambda>row s.
     let prev = tr_status row in
     and_then (raise_when (prev \<notin> set RESUMABLE_TASK_RUN_STATUSES)
                 (transition_conflict i prev ''resumed'') s) (\<lambda>_ s.
     and_then (normalize_checkpoint (JObj (tr_checkpoint row)), s) (\<lambda>checkpoint s.
     and_then (raise_when (prev = RunWaitingApproval \<and> still_pending checkpoint s)
                 (transition_conflict i prev ''resumed while approval is still pending'') s) (\<lambda>_ s.
     and_then (raise_when (prev = RunFailed \<and> tr_failure_class row \<noteq> Some FailTransient)
                 (transition_conflict i prev ''resumed because failure class is terminal'') s) (\<lambda>_ s.
     and_then (raise_when (prev = RunFailed \<and> tr_retry_count row \<ge> tr_retry_cap row)
                 (transition_conflict i prev ''resumed because retry cap is exhausted'') s) (\<lambda>_ s.
     respond_with prev (update_run row (resume_values row checkpoint) ''resume'' s)))))))"

definition cancel_task_run_record :: "uuid \<Rightarrow> store \<Rightarrow> (gov_error + dict) \<times> store" where
  "cancel_task_run_record i s =
     and_then (require_task_run i s) (\<lambda>row s.
     and_then (raise_when (tr_status row \<notin> set CANCELLABLE_TASK_RUN_STATUSES)
                 (transition_conflict i (tr_status row) ''cancelled'') s) (\<lambda>_ s.
     and_then (normalize_checkpoint (JObj (tr_checkpoint row)), s) (\<lambda>checkpoint s.
     respond_with (tr_status row)
       (update_run row ((keep_values row checkpoint)\<lparr>rv_status := RunCancelled,
            rv_retry_posture := RetryTerminal, rv_failure_class := None,
            rv_stop_reason := Some StopCancelled\<rparr>) ''cancel'' s))))"

text \<open>How a failure leaves the retry posture and the stop reason.\<close>

definition failure_posture ::
  "run_row \<Rightarrow> stop_reason \<Rightarrow> failure_class \<Rightarrow> retry_posture \<times> stop_reason" where
  "failure_posture row reason cls =
     (if cls = FailTransient
      then if tr_retry_count row < tr_retry_cap row then (RetryRetryable, reason)
           else (RetryExhausted, StopRetryExhausted)
      else (RetryTerminal, reason))"

definition mark_task_run_failed ::
  "uuid \<Rightarrow> stop_reason \<Rightarrow> failure_class \<Rightarrow> string \<Rightarrow> store \<Rightarrow> (gov_error + dict option) \<times> store" where
  "mark_task_run_failed i reason cls source s =
     (case get_task_run_optional i s of
        None \<Rightarrow> (Inr None, s)
      | Some row \<Rightarrow>
          if tr_status row = RunDone \<or> tr_status row = RunCancelled then (Inr None, s)
          else and_then (respond_with (tr_status row)
                 (update_run row ((keep_values row (tr_checkpoint row))\<lparr>rv_status := RunFailed,
                    rv_retry_posture := fst (failure_posture row reason cls),
                    rv_failure_class := Some cls,
                    rv_stop_reason := Some (snd (failure_posture row reason cls))\<rparr>) source s))
                 (\<lambda>response s. (Inr (Some response), s)))"

subsection \<open>The abstract machine of a run\<close>

record run_core =
  rc_status :: run_status
  rc_ticks :: int
  rc_steps :: int
  rc_retries :: int
  rc_failure :: "failure_class option"

definition core_of :: "run_row \<Rightarrow> run_core" where
  "core_of r = \<lparr>rc_status = tr_status r, rc_ticks = tr_tick_count r, rc_steps = tr_step_count r,
     rc_retries = tr_retry_count r, rc_failure = tr_failure_class r\<rparr>"

text \<open>
  One change of a run with a given tick limit and retry cap.  The last three rules are the changes
  other components make: the resolution of the approval a run waits for, and the outcome of an
  execution.
\<close>

inductive run_edge :: "int \<Rightarrow> int \<Rightarrow> run_core \<Rightarrow> run_core \<Rightarrow> bool" for limit cap where
  wait_approval: "rc_status c \<in> set RUNNABLE_TASK_RUN_STATUSES \<Longrightarrow>
    run_edge limit cap c (c\<lparr>rc_status := RunWaitingApproval, rc_ticks := rc_ticks c + 1, rc_failure := None\<rparr>)"
| already_done: "rc_status c \<in> set RUNNABLE_TASK_RUN_STATUSES \<Longrightarrow>
    run_edge limit cap c (c\<lparr>rc_status := RunDone, rc_failure := None\<rparr>)"
| exhausted: "rc_status c \<in> set RUNNABLE_TASK_RUN_STATUSES \<Longrightarrow> limit \<le> rc_ticks c \<Longrightarrow>
    run_edge limit cap c (c\<lparr>rc_status := RunFailed, rc_failure := Some FailBudget\<rparr>)"
| wait_user: "rc_status c \<in> set RUNNABLE_TASK_RUN_STATUSES \<Longrightarrow> rc_ticks c < limit \<Longrightarrow>
    run_edge limit cap c (c\<lparr>rc_status := RunWaitingUser, rc_ticks := rc_ticks c + 1, rc_failure := None\<rparr>)"
| progress: "rc_status c \<in> set RUNNABLE_TASK_RUN_STATUSES \<Longrightarrow> rc_ticks c < limit \<Longrightarrow>
    st = RunRunning \<or> st = RunDone \<Longrightarrow>
    run_edge limit cap c (c\<lparr>rc_status := st, rc_ticks := rc_ticks c + 1, rc_steps := rc_steps c + 1,
      rc_failure := None\<rparr>)"
| pause: "rc_status c \<in> set PAUSEABLE_TASK_RUN_STATUSES \<Longrightarrow>
    run_edge limit cap c (c\<lparr>rc_status := RunPaused, rc_failure := None\<rparr>)"
| retry: "rc_status c = RunFailed \<Longrightarrow> rc_failure c = Some FailTransient \<Longrightarrow> rc_retries c < cap \<Longrightarrow>
    run_edge limit cap c (c\<lparr>rc_status := RunQueued, rc_retries := rc_retries c + 1, rc_failure := None\<rparr>)"
| requeue: "rc_status c = RunWaitingApproval \<Longrightarrow>
    run_edge limit cap c (c\<lparr>rc_status := RunQueued, rc_failure := None\<rparr>)"
| carry_on: "rc_status c = RunPaused \<or> rc_status c = RunWaitingUser \<Longrightarrow>
    run_edge limit cap c (c\<lparr>rc_status := RunRunning, rc_failure := None\<rparr>)"
| cancel: "rc_status c \<in> set CANCELLABLE_TASK_RUN_STATUSES \<Longrightarrow>
    run_edge limit cap c (c\<lparr>rc_status := RunCancelled, rc_failure := None\<rparr>)"
| failing: "rc_status c \<noteq> RunDone \<Longrightarrow> rc_status c \<noteq> RunCancelled \<Longrightarrow>
    run_edge limit cap c (c\<lparr>rc_status := RunFailed, rc_failure := Some cls\<rparr>)"
| acquire: "rc_status c \<in> set RUNNABLE_TASK_RUN_STATUSES \<Longrightarrow>
    run_edge limit cap c (c\<lparr>rc_status := RunRunning, rc_failure := None\<rparr>)"
| executed: "rc_status c \<noteq> RunDone \<Longrightarrow> rc_status c \<noteq> RunCancelled \<Longrightarrow>
    run_edge limit cap c (c\<lparr>rc_status := RunDone, rc_ticks := max 1 (rc_ticks c),
      rc_steps := max (rc_steps c) 1, rc_failure := None\<rparr>)"
| blocked: "rc_status c \<noteq> RunDone \<Longrightarrow> rc_status c \<noteq> RunCancelled \<Longrightarrow>
    run_edge limit cap c (c\<lparr>rc_status := RunFailed, rc_ticks := max 1 (rc_ticks c),
      rc_steps := max (rc_steps c) 1, rc_failure := Some cls\<rparr>)"

inductive_cases run_edge_cases: "run_edge limit cap c d"

lemma finished_is_final:
  "run_edge limit cap c d \<Longrightarrow> rc_status c \<noteq> RunDone \<and> rc_status c \<noteq> RunCancelled"
  by (induction rule: run_edge.induct) (auto simp: run_status_sets)

lemma edge_counters:
  "run_edge limit cap c d \<Longrightarrow> rc_ticks c \<le> rc_ticks d \<and> rc_steps c \<le> rc_steps d \<and>
     rc_retries c \<le> rc_retries d \<and> (rc_retries d = rc_retries c \<or> rc_retries d \<le> cap)"
  by (induction rule: run_edge.induct) auto

text \<open>Identity and limits of a run never change.\<close>

definition same_run :: "run_row \<Rightarrow> run_row \<Rightarrow> bool" where
  "same_run a b \<longleftrightarrow> tr_id b = tr_id a \<and> tr_task_id b = tr_task_id a \<and>
     tr_max_ticks b = tr_max_ticks a \<and> tr_retry_cap b = tr_retry_cap a \<and>
     tr_created_at b = tr_created_at a"

definition row_moves :: "run_row \<Rightarrow> run_row \<Rightarrow> bool" where
  "row_moves a b \<longleftrightarrow> same_run a b \<and>
     run_edge (tr_max_ticks a) (tr_retry_cap a) (core_of a) (core_of b)"

text \<open>The store changes in the row of run \<open>i\<close> only, and there along an edge.\<close>

definition run_moves :: "uuid \<Rightarrow> run_row list \<Rightarrow> run_row list \<Rightarrow> bool" where
  "run_moves i rows rows' \<longleftrightarrow>
     (\<exists>a b. find_row tr_id i rows = Some a \<and> row_moves a b \<and> rows' = set_row tr_id b rows) \<and>
     runs_ok rows'"

subsection \<open>What the update writes\<close>

lemma coerce_error:
  "coerce_non_negative_int v k = Inl e \<Longrightarrow> \<exists>m. e = TaskRunValidationError m"
  "coerce_positive_int v k = Inl e \<Longrightarrow> \<exists>m. e = TaskRunValidationError m"
  "coerce_signal v = Inl e \<Longrightarrow> \<exists>m. e = TaskRunValidationError m"
  by (auto simp: coerce_non_negative_int_def coerce_positive_int_def coerce_signal_def
      split: json.splits if_splits)

lemma normalize_error: "normalize_checkpoint v = Inl e \<Longrightarrow> \<exists>m. e = TaskRunValidationError m"
  by (cases v)
    (auto simp: normalize_checkpoint_def bind_res_eq_Inl_iff dest: coerce_error split: if_splits)

definition core_values :: "run_values \<Rightarrow> run_core" where
  "core_values v = \<lparr>rc_status = rv_status v, rc_ticks = rv_tick_count v,
     rc_steps = rv_step_count v, rc_retries = rv_retry_count v, rc_failure = rv_failure_class v\<rparr>"

lemma updated_run_simps [simp]:
  "tr_id (updated_run v s r) = tr_id r"
  "same_run r (updated_run v s r) \<longleftrightarrow> rv_retry_cap v = tr_retry_cap r"
  "core_of (updated_run v s r) = core_values v"
  by (simp_all add: updated_run_def same_run_def core_of_def core_values_def)

lemma keep_values_simps [simp]:
  "rv_status (keep_values r d) = tr_status r" "rv_tick_count (keep_values r d) = tr_tick_count r"
  "rv_step_count (keep_values r d) = tr_step_count r"
  "rv_retry_count (keep_values r d) = tr_retry_count r"
  "rv_retry_cap (keep_values r d) = tr_retry_cap r"
  "rv_failure_class (keep_values r d) = tr_failure_class r"
  "rv_stop_reason (keep_values r d) = tr_stop_reason r"
  by (simp_all add: keep_values_def)

text \<open>The constraints of \<open>task_runs\<close> read off the values of an update.\<close>

definition values_check :: "run_row \<Rightarrow> run_values \<Rightarrow> bool" where
  "values_check r v \<longleftrightarrow> 0 \<le> rv_tick_count v \<and> 0 \<le> rv_step_count v \<and> 0 < tr_max_ticks r \<and>
     0 \<le> rv_retry_count v \<and> rv_retry_count v \<le> rv_retry_cap v \<and>
     status_reason_check (rv_status v) (rv_stop_reason v) (rv_failure_class v)"

lemma run_check_updated: "run_check (updated_run v s r) \<longleftrightarrow> values_check r v"
  by (simp add: run_check_def run_bounds_check_def updated_run_def values_check_def)

lemma runs_ok_set_row:
  assumes "runs_ok rows" "run_check r"
  shows "runs_ok (set_row tr_id r rows)"
  using assms by (auto simp: runs_ok_def dest: set_set_row)

lemma update_run_Inr:
  assumes "update_run row v source s = (Inr u, s')" "find_row tr_id (tr_id row) (task_runs s) = Some row"
  shows "\<exists>cp t. u = updated_run (v\<lparr>rv_checkpoint := cp\<rparr>) t row \<and>
    task_runs s' = set_row tr_id u (task_runs s) \<and> runs_ok (task_runs s')"
proof -
  obtain cp t where "update_task_run_optional (tr_id row) (v\<lparr>rv_checkpoint := cp\<rparr>) t = (Inr (Some u), s')"
    "task_runs t = task_runs s"
    using assms(1)
    by (auto simp: update_run_def append_transition_checkpoint_entry_def and_then_eq_Inr Let_def
        after_reading_def require_row_def split: sum.splits option.splits)
  with assms(2) have "u = updated_run (v\<lparr>rv_checkpoint := cp\<rparr>) t row \<and>
      task_runs s' = set_row tr_id u (task_runs s) \<and> runs_ok (task_runs s')"
    by (auto simp: update_task_run_optional_def write_runs_def write_table_def put_runs_def Let_def
        after_reading_def split: if_splits)
  then show ?thesis by blast
qed

lemma update_run_Inl:
  assumes "update_run row v source s = (Inl e, s')" "find_row tr_id (tr_id row) (task_runs s) = Some row"
  shows "task_runs s' = task_runs s \<and> ((\<exists>m. e = TaskRunValidationError m) \<or>
    (\<exists>cp t. \<not> runs_ok (set_row tr_id (updated_run (v\<lparr>rv_checkpoint := cp\<rparr>) t row) (task_runs s))))"
proof (cases "normalize_checkpoint (JObj (rv_checkpoint v))")
  case (Inl f)
  with assms(1) show ?thesis
    by (auto simp: update_run_def append_transition_checkpoint_entry_def dest: normalize_error)
next
  case (Inr normalized)
  with assms show ?thesis
    by (auto simp: update_run_def append_transition_checkpoint_entry_def Let_def after_reading_def
        update_task_run_optional_def write_runs_def write_table_def and_then_def
        split: if_splits)
qed

text \<open>An update whose values satisfy the constraints fails on the checkpoint only.\<close>

lemma update_run_no_integrity:
  assumes "update_run row v source s = (Inl e, s')" "find_row tr_id (tr_id row) (task_runs s) = Some row"
    and "runs_ok (task_runs s)" "values_check row v"
  shows "\<exists>m. e = TaskRunValidationError m"
proof -
  have "values_check row (v\<lparr>rv_checkpoint := cp\<rparr>)" for cp
    using assms(4) by (simp add: values_check_def)
  then have "runs_ok (set_row tr_id (updated_run (v\<lparr>rv_checkpoint := cp\<rparr>) t row) (task_runs s))" for cp t
    using assms(3) by (simp add: runs_ok_set_row run_check_updated)
  with update_run_Inl [OF assms(1,2)] show ?thesis by blast
qed

lemma respond_with_Inr:
  "respond_with prev m = (Inr resp, s') \<longleftrightarrow>
     (\<exists>u. m = (Inr u, s') \<and> resp = mutation_response u prev)"
  by (auto simp: respond_with_def and_then_eq_Inr)

lemma find_row_id: "find_row tr_id i rows = Some r \<Longrightarrow> tr_id r = i"
  by (simp add: find_row_Some)

text \<open>An update along an edge moves the run.\<close>

lemma update_run_moves:
  assumes "update_run row v source s = (Inr u, s')" "find_row tr_id i (task_runs s) = Some row"
    and "rv_retry_cap v = tr_retry_cap row"
    and "run_edge (tr_max_ticks row) (tr_retry_cap row) (core_of row) (core_values v)"
  shows "run_moves i (task_runs s) (task_runs s')"
proof -
  have id: "tr_id row = i" using find_row_id [OF assms(2)] .
  with assms(1,2) obtain cp t where u: "u = updated_run (v\<lparr>rv_checkpoint := cp\<rparr>) t row"
    "task_runs s' = set_row tr_id u (task_runs s)" "runs_ok (task_runs s')"
    using update_run_Inr by blast
  have "row_moves row u"
    using assms(3,4) by (simp add: row_moves_def u(1) core_values_def)
  with assms(2) u(2,3) show ?thesis unfolding run_moves_def by blast
qed

subsection \<open>Every operation follows the machine\<close>

lemma update_approval_frame:
  assumes "update_approval_task_run_optional a run s = (r, s')"
  shows "task_runs s' = task_runs s" "tasks s' = tasks s"
  using assms
  by (auto simp: update_approval_task_run_optional_def write_approvals_def write_table_def Let_def
      split: option.splits if_splits)

text \<open>Edges in the shape the values of an update have.\<close>

lemmas core_edge_defs = core_of_def core_values_def

lemma advance_edge:
  assumes "tr_status row \<in> set RUNNABLE_TASK_RUN_STATUSES"
  shows "run_edge (tr_max_ticks row) (tr_retry_cap row) (core_of row)
      (core_values (fst (advance_values row cp cursor target_steps wait)))"
    and "rv_retry_cap (fst (advance_values row cp cursor target_steps wait)) = tr_retry_cap row"
proof -
  let ?E = "run_edge (tr_max_ticks row) (tr_retry_cap row)"
  have run: "rc_status (core_of row) \<in> set RUNNABLE_TASK_RUN_STATUSES"
    using assms by (simp add: core_of_def)
  note E = run_edge.intros [of "core_of row" for row]
  show "?E (core_of row) (core_values (fst (advance_values row cp cursor target_steps wait)))"
    using already_done [OF run] exhausted [OF run] wait_user [OF run] progress [OF run]
    by (auto simp: advance_values_def Let_def core_edge_defs)
  show "rv_retry_cap (fst (advance_values row cp cursor target_steps wait)) = tr_retry_cap row"
    by (simp add: advance_values_def Let_def)
qed

lemma advance_check:
  assumes "run_check row" "tr_status row \<in> set RUNNABLE_TASK_RUN_STATUSES"
  shows "values_check row (fst (advance_values row cp cursor target_steps wait))"
  using assms
  by (auto simp: advance_values_def Let_def values_check_def run_check_def run_bounds_check_def
      failed_stop_reasons_def)

lemma waiting_edge:
  assumes "tr_status row \<in> set RUNNABLE_TASK_RUN_STATUSES"
  shows "run_edge (tr_max_ticks row) (tr_retry_cap row) (core_of row)
     (core_values ((keep_values row cp)\<lparr>rv_status := RunWaitingApproval,
             rv_tick_count := tr_tick_count row + 1, rv_retry_posture := RetryAwaitingApproval,
             rv_failure_class := None, rv_stop_reason := Some StopWaitingApproval\<rparr>))"
  using wait_approval [of "core_of row"] assms by (simp add: core_edge_defs)

text \<open>What a successful tick found and what it ran.\<close>

lemma tick_Inr:
  assumes "tick_task_run_record i s = (Inr resp, s')"
  obtains row task cp cursor target_steps wait u where
    "find_row tr_id i (task_runs s) = Some row" "tr_status row \<in> set RUNNABLE_TASK_RUN_STATUSES"
    "find_row tk_id (tr_task_id row) (tasks s) = Some task"
    "(case pending_approval_of task s of
        Some a \<Rightarrow> tick_waiting_approval row cp a s
      | None \<Rightarrow> tick_advance row cp cursor target_steps wait s) = (Inr u, s')"
proof -
  from assms obtain row cp cursor target_steps task u where
    "find_row tr_id i (task_runs s) = Some row" "tr_status row \<in> set RUNNABLE_TASK_RUN_STATUSES"
    "find_row tk_id (tr_task_id row) (tasks s) = Some task"
    "(case pending_approval_of task s of
        Some a \<Rightarrow> tick_waiting_approval row cp a s
      | None \<Rightarrow> tick_advance row cp cursor target_steps
          (py_truthy (dget_default cp ''wait_for_signal'' (JBool False))) s) = (Inr u, s')"
    by (auto simp: tick_task_run_record_def require_task_run_def require_task_exists_def
        get_task_run_optional_def get_task_optional_def succeeds respond_with_Inr)
  then show thesis by (rule that)
qed

lemma tick_moves:
  assumes "tick_task_run_record i s = (Inr resp, s')"
  shows "run_moves i (task_runs s) (task_runs s')"
proof -
  obtain row task cp cursor target_steps wait u where
    row: "find_row tr_id i (task_runs s) = Some row" "tr_status row \<in> set RUNNABLE_TASK_RUN_STATUSES"
    and tick: "(case pending_approval_of task s of
        Some a \<Rightarrow> tick_waiting_approval row cp a s
      | None \<Rightarrow> tick_advance row cp cursor target_steps wait s) = (Inr u, s')"
    using tick_Inr [OF assms] .
  show ?thesis
  proof (cases "pending_approval_of task s")
    case None
    with tick have "update_run row (fst (advance_values row cp cursor target_steps wait))
        (snd (advance_values row cp cursor target_steps wait)) s = (Inr u, s')"
      by (simp add: tick_advance_def split_beta)
    from update_run_moves [OF this row(1)] show ?thesis using advance_edge [OF row(2)] by simp
  next
    case (Some a)
    with tick obtain t where t: "task_runs t = task_runs s"
      and up: "update_run row ((keep_values row (dset ''waiting_approval_id'' (JStr (uuid_str a))
                 (dset ''wait_for_signal'' (JBool True) cp)))\<lparr>rv_status := RunWaitingApproval,
             rv_tick_count := tr_tick_count row + 1, rv_retry_posture := RetryAwaitingApproval,
             rv_failure_class := None, rv_stop_reason := Some StopWaitingApproval\<rparr>)
           ''tick_waiting_approval'' t = (Inr u, s')"
      by (auto simp: tick_waiting_approval_def Let_def and_then_eq_Inr dest: update_approval_frame)
    from update_run_moves [OF up] row t waiting_edge [OF row(2)] show ?thesis by simp
  qed
qed

lemma row_and_id:
  assumes "find_row tr_id i (task_runs s) = Some row" "update_run row v source s = (Inr u, s')"
    and "rv_retry_cap v = tr_retry_cap row"
    and "run_edge (tr_max_ticks row) (tr_retry_cap row) (core_of row) (core_values v)"
  shows "run_moves i (task_runs s) (task_runs s')"
  by (rule update_run_moves [OF assms(2,1,3,4)])

lemma pause_moves:
  assumes "pause_task_run_record i s = (Inr resp, s')"
  shows "run_moves i (task_runs s) (task_runs s')"
proof -
  from assms obtain row cp u where row: "find_row tr_id i (task_runs s) = Some row"
    and st: "tr_status row \<in> set PAUSEABLE_TASK_RUN_STATUSES"
    and up: "update_run row ((keep_values row cp)\<lparr>rv_status := RunPaused,
            rv_retry_posture := RetryPaused, rv_failure_class := None,
            rv_stop_reason := Some StopPaused\<rparr>) ''pause'' s = (Inr u, s')"
    by (auto simp: pause_task_run_record_def require_task_run_def get_task_run_optional_def
        succeeds respond_with_Inr)
  show ?thesis
    by (rule row_and_id [OF row up]) (use pause [of "core_of row"] st in \<open>simp_all add: core_edge_defs\<close>)
qed

lemma cancel_moves:
  assumes "cancel_task_run_record i s = (Inr resp, s')"
  shows "run_moves i (task_runs s) (task_runs s')"
proof -
  from assms obtain row cp u where row: "find_row tr_id i (task_runs s) = Some row"
    and st: "tr_status row \<in> set CANCELLABLE_TASK_RUN_STATUSES"
    and up: "update_run row ((keep_values row cp)\<lparr>rv_status := RunCancelled,
            rv_retry_posture := RetryTerminal, rv_failure_class := None,
            rv_stop_reason := Some StopCancelled\<rparr>) ''cancel'' s = (Inr u, s')"
    by (auto simp: cancel_task_run_record_def require_task_run_def get_task_run_optional_def
        succeeds respond_with_Inr)
  show ?thesis
    by (rule row_and_id [OF row up]) (use cancel [of "core_of row"] st in \<open>simp_all add: core_edge_defs\<close>)
qed

text \<open>What a successful resume found.\<close>

lemma resume_Inr:
  assumes "resume_task_run_record i s = (Inr resp, s')"
  shows "\<exists>row cp u. find_row tr_id i (task_runs s) = Some row \<and>
    tr_status row \<in> set RESUMABLE_TASK_RUN_STATUSES \<and>
    normalize_checkpoint (JObj (tr_checkpoint row)) = Inr cp \<and>
    \<not> (tr_status row = RunWaitingApproval \<and> still_pending cp s) \<and>
    \<not> (tr_status row = RunFailed \<and> tr_failure_class row \<noteq> Some FailTransient) \<and>
    \<not> (tr_status row = RunFailed \<and> tr_retry_cap row \<le> tr_retry_count row) \<and>
    update_run row (resume_values row cp) ''resume'' s = (Inr u, s')"
  using assms
  by (simp add: resume_task_run_record_def require_task_run_def get_task_run_optional_def Let_def
        succeeds respond_with_Inr) blast

lemma resume_edge:
  assumes "tr_status row \<in> set RESUMABLE_TASK_RUN_STATUSES"
    and "\<not> (tr_status row = RunFailed \<and> tr_failure_class row \<noteq> Some FailTransient)"
    and "\<not> (tr_status row = RunFailed \<and> tr_retry_cap row \<le> tr_retry_count row)"
  shows "run_edge (tr_max_ticks row) (tr_retry_cap row) (core_of row) (core_values (resume_values row cp))"
  using assms requeue [of "core_of row"] carry_on [of "core_of row"] retry [of "core_of row"]
  by (auto simp: core_edge_defs resume_values_def Let_def RESUMABLE_TASK_RUN_STATUSES_def)

lemma resume_moves:
  assumes "resume_task_run_record i s = (Inr resp, s')"
  shows "run_moves i (task_runs s) (task_runs s')"
proof -
  from resume_Inr [OF assms] obtain row cp u where
    row: "find_row tr_id i (task_runs s) = Some row"
    and st: "tr_status row \<in> set RESUMABLE_TASK_RUN_STATUSES"
      "\<not> (tr_status row = RunFailed \<and> tr_failure_class row \<noteq> Some FailTransient)"
      "\<not> (tr_status row = RunFailed \<and> tr_retry_cap row \<le> tr_retry_count row)"
    and up: "update_run row (resume_values row cp) ''resume'' s = (Inr u, s')"
    by blast
  show ?thesis
    by (rule row_and_id [OF row up]) (simp_all add: resume_edge [OF st], simp add: resume_values_def Let_def)
qed

lemma mark_failed_moves:
  assumes "mark_task_run_failed i reason cls source s = (Inr (Some resp), s')"
  shows "run_moves i (task_runs s) (task_runs s')"
proof -
  from assms obtain row u where row: "find_row tr_id i (task_runs s) = Some row"
    and st: "tr_status row \<noteq> RunDone" "tr_status row \<noteq> RunCancelled"
    and up: "update_run row ((keep_values row (tr_checkpoint row))\<lparr>rv_status := RunFailed,
                    rv_retry_posture := fst (failure_posture row reason cls),
                    rv_failure_class := Some cls,
                    rv_stop_reason := Some (snd (failure_posture row reason cls))\<rparr>) source s
        = (Inr u, s')"
    by (auto simp: mark_task_run_failed_def get_task_run_optional_def succeeds respond_with_Inr
        split: option.splits if_splits)
  show ?thesis
    by (rule row_and_id [OF row up]) (use failing [of "core_of row"] st in \<open>simp_all add: core_edge_defs\<close>)
qed

lemma mark_failed_None:
  "mark_task_run_failed i reason cls source s = (Inr None, s') \<Longrightarrow> s' = s"
  by (auto simp: mark_task_run_failed_def succeeds split: option.splits if_splits)

lemma acquire_moves:
  assumes "acquire_next_task_run_optional s = (Inr (Some r), s')" "runs_ok (task_runs s)"
  shows "run_moves (tr_id r) (task_runs s) (task_runs s')"
proof -
  from assms(1) obtain a as where cand: "acquire_candidates s = a # as" "r = acquired_run s a"
    "task_runs s' = set_row tr_id r (task_runs s)" "runs_ok (task_runs s')"
    by (auto simp: acquire_next_task_run_optional_def write_runs_def write_table_def Let_def
        put_runs_def split: list.splits if_splits)
  from cand(1) have "a \<in> set (acquire_candidates s)" by simp
  then have a: "a \<in> set (task_runs s)" "tr_status a \<in> set RUNNABLE_TASK_RUN_STATUSES"
    by (auto simp: acquire_candidates_def run_status_sets)
  then have "find_row tr_id (tr_id a) (task_runs s) = Some a"
    using assms(2) by (simp add: find_row_distinct runs_ok_def)
  moreover have "row_moves a r"
    using acquire [of "core_of a"] a(2)
    by (simp add: row_moves_def same_run_def cand(2) acquired_run_def core_of_def)
  ultimately show ?thesis
    unfolding run_moves_def by (metis cand(2-4) row_moves_def same_run_def)
qed

subsection \<open>A raised error leaves the runs as they are\<close>

lemma update_run_keeps:
  assumes "update_run row v source s = (Inl e, s')"
  shows "task_runs s' = task_runs s"
  using assms
  by (auto simp: update_run_def append_transition_checkpoint_entry_def Let_def after_reading_def
      update_task_run_optional_def write_runs_def write_table_def fails
      split: sum.splits option.splits if_splits)

lemma respond_with_Inl: "respond_with prev m = (Inl e, t) \<longleftrightarrow> m = (Inl e, t)"
  by (auto simp: respond_with_def fails)

lemma tick_body_keeps:
  "tick_advance row cp c n w s = (Inl e, s') \<Longrightarrow> task_runs s' = task_runs s"
  "tick_waiting_approval row cp a s = (Inl e, s') \<Longrightarrow> task_runs s' = task_runs s"
  by (auto simp: tick_advance_def tick_waiting_approval_def Let_def fails
      dest!: update_run_keeps update_approval_frame(1) split: prod.splits)

lemma tick_keeps:
  assumes "tick_task_run_record i s = (Inl e, s')"
  shows "task_runs s' = task_runs s"
  using assms
  by (auto simp: tick_task_run_record_def require_task_run_def require_task_exists_def succeeds fails
      respond_with_Inl split: option.splits dest: tick_body_keeps)

lemma lifecycle_keeps:
  "pause_task_run_record i s = (Inl e, s') \<Longrightarrow> task_runs s' = task_runs s"
  "resume_task_run_record i s = (Inl e, s') \<Longrightarrow> task_runs s' = task_runs s"
  "cancel_task_run_record i s = (Inl e, s') \<Longrightarrow> task_runs s' = task_runs s"
  by (auto simp: pause_task_run_record_def resume_task_run_record_def cancel_task_run_record_def Let_def
      require_task_run_def succeeds fails respond_with_Inl dest: update_run_keeps)

lemma mark_failed_keeps:
  "mark_task_run_failed i reason cls source s = (Inl e, s') \<Longrightarrow> task_runs s' = task_runs s"
  by (auto simp: mark_task_run_failed_def fails respond_with_Inl split: option.splits if_splits
      dest: update_run_keeps)

lemma acquire_keeps:
  "acquire_next_task_run_optional s = (Inl e, s') \<Longrightarrow> task_runs s' = task_runs s"
  "acquire_next_task_run_optional s = (Inr None, s') \<Longrightarrow> task_runs s' = task_runs s"
  by (auto simp: acquire_next_task_run_optional_def write_runs_def write_table_def Let_def
      after_reading_def split: list.splits if_splits)

lemma create_rows:
  "create_task_run_record task cp limit cap s = (Inr resp, s') \<Longrightarrow>
     \<exists>r. task_runs s' = task_runs s @ [r] \<and> runs_ok (task_runs s @ [r])"
  by (auto simp: create_task_run_record_def require_task_exists_def Let_def succeeds
      append_transition_checkpoint_entry_def create_task_run_def write_runs_def write_table_def
      put_runs_def after_reading_def after_draw_def split: sum.splits if_splits)

lemma create_keeps:
  "create_task_run_record task cp limit cap s = (Inl e, s') \<Longrightarrow> task_runs s' = task_runs s"
  by (auto simp: create_task_run_record_def require_task_exists_def Let_def succeeds fails
      append_transition_checkpoint_entry_def create_task_run_def write_runs_def write_table_def
      after_reading_def after_draw_def split: sum.splits if_splits)

subsection \<open>Sequences of operations\<close>

datatype run_op =
    OpCreate uuid dict int "int option"
  | OpTick uuid
  | OpPause uuid
  | OpResume uuid
  | OpCancel uuid
  | OpFail uuid stop_reason failure_class string
  | OpAcquire

fun perform :: "run_op \<Rightarrow> store \<Rightarrow> store" where
  "perform (OpCreate task cp limit cap) s = snd (create_task_run_record task cp limit cap s)"
| "perform (OpTick i) s = snd (tick_task_run_record i s)"
| "perform (OpPause i) s = snd (pause_task_run_record i s)"
| "perform (OpResume i) s = snd (resume_task_run_record i s)"
| "perform (OpCancel i) s = snd (cancel_task_run_record i s)"
| "perform (OpFail i reason cls source) s = snd (mark_task_run_failed i reason cls source s)"
| "perform OpAcquire s = snd (acquire_next_task_run_optional s)"

text \<open>How one operation can change the table.\<close>

inductive table_step :: "run_row list \<Rightarrow> run_row list \<Rightarrow> bool" where
  unchanged: "table_step rows rows"
| moved: "run_moves i rows rows' \<Longrightarrow> table_step rows rows'"
| created: "runs_ok (rows @ [r]) \<Longrightarrow> table_step rows (rows @ [r])"

inductive_simps table_step_iff: "table_step rows rows'"

lemma step_of:
  assumes "\<And>x s'. m = (Inr x, s') \<Longrightarrow> table_step rows (task_runs s')"
    and "\<And>e s'. m = (Inl e, s') \<Longrightarrow> task_runs s' = rows"
  shows "table_step rows (task_runs (snd m))"
  using assms by (cases m; cases "fst m") (auto simp: unchanged)

lemma perform_table_step:
  assumes "runs_ok (task_runs s)"
  shows "table_step (task_runs s) (task_runs (perform op s))"
proof (cases op)
  case (OpCreate task cp limit cap)
  have "table_step (task_runs s) (task_runs (snd (create_task_run_record task cp limit cap s)))"
    by (rule step_of) (metis create_rows created, simp add: create_keeps)
  with OpCreate show ?thesis by simp
next
  case (OpTick i)
  have "table_step (task_runs s) (task_runs (snd (tick_task_run_record i s)))"
    by (rule step_of) (auto dest: tick_moves intro: moved simp: tick_keeps)
  with OpTick show ?thesis by simp
next
  case (OpPause i)
  have "table_step (task_runs s) (task_runs (snd (pause_task_run_record i s)))"
    by (rule step_of) (auto dest: pause_moves intro: moved simp: lifecycle_keeps)
  with OpPause show ?thesis by simp
next
  case (OpResume i)
  have "table_step (task_runs s) (task_runs (snd (resume_task_run_record i s)))"
    by (rule step_of) (auto dest: resume_moves intro: moved simp: lifecycle_keeps)
  with OpResume show ?thesis by simp
next
  case (OpCancel i)
  have "table_step (task_runs s) (task_runs (snd (cancel_task_run_record i s)))"
    by (rule step_of) (auto dest: cancel_moves intro: moved simp: lifecycle_keeps)
  with OpCancel show ?thesis by simp
next
  case (OpFail i reason cls source)
  have "table_step (task_runs s) (task_runs s')"
    if "mark_task_run_failed i reason cls source s = (Inr x, s')" for x s'
    using that by (cases x) (auto dest: mark_failed_None mark_failed_moves intro: moved simp: unchanged)
  then have "table_step (task_runs s) (task_runs (snd (mark_task_run_failed i reason cls source s)))"
    by (rule step_of) (auto simp: mark_failed_keeps)
  with OpFail show ?thesis by simp
next
  case OpAcquire
  have "table_step (task_runs s) (task_runs s')"
    if "acquire_next_task_run_optional s = (Inr x, s')" for x s'
    using that assms
    by (cases x) (auto dest: acquire_keeps(2) acquire_moves intro: moved simp: unchanged)
  then have "table_step (task_runs s) (task_runs (snd (acquire_next_task_run_optional s)))"
    by (rule step_of) (auto simp: acquire_keeps)
  with OpAcquire show ?thesis by simp
qed

lemma table_step_ok: "table_step rows rows' \<Longrightarrow> runs_ok rows \<Longrightarrow> runs_ok rows'"
  by (auto simp: table_step_iff run_moves_def)

inductive reachable_rows :: "run_row list \<Rightarrow> run_row list \<Rightarrow> bool" where
  here: "reachable_rows rows rows"
| onward: "reachable_rows rows rows' \<Longrightarrow> table_step rows' rows'' \<Longrightarrow> reachable_rows rows rows''"

lemma perform_reaches:
  "runs_ok (task_runs s) \<Longrightarrow>
     reachable_rows (task_runs s) (task_runs (fold perform ops s)) \<and> runs_ok (task_runs (fold perform ops s))"
proof (induction ops rule: rev_induct)
  case Nil
  then show ?case by (simp add: here)
next
  case (snoc op ops)
  then show ?case
    using perform_table_step [of "fold perform ops s" op] table_step_ok by (auto intro: onward)
qed

text \<open>A row found stays found under its identifier, and changes along edges only.\<close>

lemma table_step_row:
  assumes "table_step rows rows'" "find_row tr_id i rows = Some a"
  obtains b where "find_row tr_id i rows' = Some b" "b = a \<or> row_moves a b"
  using assms(1)
proof (cases rule: table_step.cases)
  case unchanged
  with assms(2) that show thesis by blast
next
  case (moved j)
  then obtain c d where cd: "find_row tr_id j rows = Some c" "row_moves c d" "rows' = set_row tr_id d rows"
    by (auto simp: run_moves_def)
  have ids: "tr_id c = j" "tr_id d = j" using cd(1,2) by (auto simp: find_row_id row_moves_def same_run_def)
  show thesis
  proof (cases "i = j")
    case True
    with cd assms(2) ids show thesis by (auto simp: find_row_set_row intro: that [of d])
  next
    case False
    with cd assms(2) ids show thesis by (auto simp: find_row_set_row intro: that [of a])
  qed
next
  case (created r)
  with assms(2) show thesis by (auto simp: find_row_append intro: that [of a])
qed

lemma reachable_row:
  assumes "reachable_rows rows rows'" "find_row tr_id i rows = Some a"
  shows "\<exists>b. find_row tr_id i rows' = Some b \<and> same_run a b \<and>
    tr_tick_count a \<le> tr_tick_count b \<and> tr_retry_count a \<le> tr_retry_count b \<and>
    (tr_status a \<in> {RunDone, RunCancelled} \<longrightarrow> b = a)"
  using assms
proof (induction rule: reachable_rows.induct)
  case (here rows)
  then show ?case by (auto simp: same_run_def)
next
  case (onward rows rows' rows'')
  then obtain b where b: "find_row tr_id i rows' = Some b" "same_run a b"
    "tr_tick_count a \<le> tr_tick_count b" "tr_retry_count a \<le> tr_retry_count b"
    "tr_status a \<in> {RunDone, RunCancelled} \<longrightarrow> b = a"
    by blast
  obtain c where c: "find_row tr_id i rows'' = Some c" "c = b \<or> row_moves b c"
    using table_step_row [OF onward.hyps(2) b(1)] .
  show ?case
  proof (cases "c = b")
    case True
    with b c show ?thesis by blast
  next
    case False
    with c(2) have m: "row_moves b c" by simp
    then have edge: "run_edge (tr_max_ticks b) (tr_retry_cap b) (core_of b) (core_of c)"
      and same: "same_run b c" by (simp_all add: row_moves_def)
    have "tr_status b \<notin> {RunDone, RunCancelled}"
      using finished_is_final [OF edge] by (simp add: core_of_def)
    then have "tr_status a \<notin> {RunDone, RunCancelled}" using b(5) by auto
    moreover have "tr_tick_count b \<le> tr_tick_count c" "tr_retry_count b \<le> tr_retry_count c"
      using edge_counters [OF edge] by (simp_all add: core_of_def)
    moreover have "same_run a c" using b(2) same by (simp add: same_run_def)
    ultimately show ?thesis using b c(1) by auto
  qed
qed

subsection \<open>Properties of the lifecycle\<close>

text \<open>
  A run that is done or cancelled is never changed again: after any sequence of create, tick,
  pause, resume, cancel, fail and acquire operations, on this run or on others, its row is the
  same row.
\<close>
theorem finished_runs_frozen:
  assumes "runs_ok (task_runs s)" "find_row tr_id i (task_runs s) = Some a"
    and "tr_status a = RunDone \<or> tr_status a = RunCancelled"
  shows "find_row tr_id i (task_runs (fold perform ops s)) = Some a"
  using reachable_row [OF _ assms(2)] perform_reaches [OF assms(1)] assms(3) by fastforce

text \<open>
  Over any sequence of operations a run keeps its identity, task, tick limit and retry cap, its
  tick and retry counters never decrease, and the retries never exceed the cap.
\<close>
theorem retries_stay_within_cap:
  assumes "runs_ok (task_runs s)" "find_row tr_id i (task_runs s) = Some a"
  shows "\<exists>b. find_row tr_id i (task_runs (fold perform ops s)) = Some b \<and> same_run a b \<and>
    tr_tick_count a \<le> tr_tick_count b \<and> tr_retry_count a \<le> tr_retry_count b \<and>
    tr_retry_count b \<le> tr_retry_cap a"
proof -
  let ?t = "fold perform ops s"
  obtain b where b: "find_row tr_id i (task_runs ?t) = Some b" "same_run a b"
    "tr_tick_count a \<le> tr_tick_count b" "tr_retry_count a \<le> tr_retry_count b"
    using reachable_row [OF _ assms(2)] perform_reaches [OF assms(1), of ops] by blast
  have "run_check b"
    using perform_reaches [OF assms(1), of ops] find_row_Some [OF b(1)] by (simp add: runs_ok_def)
  with b show ?thesis by (auto simp: run_check_def run_bounds_check_def same_run_def)
qed

lemma row_checked: "runs_ok rows \<Longrightarrow> find_row tr_id i rows = Some row \<Longrightarrow> run_check row"
  by (auto simp: runs_ok_def dest: find_row_Some)

lemma checked_values:
  assumes "run_check row"
  shows "tr_status row \<in> set RUNNABLE_TASK_RUN_STATUSES \<Longrightarrow>
      values_check row ((keep_values row cp)\<lparr>rv_status := RunWaitingApproval,
             rv_tick_count := tr_tick_count row + 1, rv_retry_posture := RetryAwaitingApproval,
             rv_failure_class := None, rv_stop_reason := Some StopWaitingApproval\<rparr>)"
    and "values_check row ((keep_values row cp)\<lparr>rv_status := RunPaused,
            rv_retry_posture := RetryPaused, rv_failure_class := None, rv_stop_reason := Some StopPaused\<rparr>)"
    and "values_check row ((keep_values row cp)\<lparr>rv_status := RunCancelled,
            rv_retry_posture := RetryTerminal, rv_failure_class := None,
            rv_stop_reason := Some StopCancelled\<rparr>)"
    and "\<not> (tr_status row = RunFailed \<and> tr_retry_cap row \<le> tr_retry_count row) \<Longrightarrow>
      values_check row (resume_values row cp)"
    and "reason \<in> set failed_stop_reasons \<Longrightarrow>
      values_check row ((keep_values row cp)\<lparr>rv_status := RunFailed,
                    rv_retry_posture := fst (failure_posture row reason cls),
                    rv_failure_class := Some cls,
                    rv_stop_reason := Some (snd (failure_posture row reason cls))\<rparr>)"
  using assms
  by (auto simp: values_check_def run_check_def run_bounds_check_def resume_values_def Let_def
      failure_posture_def failed_stop_reasons_def)

text \<open>The constraint a write can break is the one of the runs it writes.\<close>

lemma approval_link_no_integrity:
  assumes "approvals_ok (approvals s)" "update_approval_task_run_optional a run s = (Inl e, s')"
  shows False
proof -
  have "approvals_ok (set_row ap_id (r\<lparr>ap_task_run_id := run\<rparr>) (approvals s))"
    if "find_row ap_id a (approvals s) = Some r" for r
  proof -
    from find_row_Some [OF that] have r: "r \<in> set (approvals s)" by simp
    show ?thesis
      unfolding approvals_ok_def
    proof (intro conjI ballI)
      show "distinct (map ap_id (set_row ap_id (r\<lparr>ap_task_run_id := run\<rparr>) (approvals s)))"
        using assms(1) by (simp add: approvals_ok_def)
    qed (use assms(1) r in \<open>auto simp: approvals_ok_def dest!: set_set_row\<close>)
  qed
  with assms(2) show False
    by (auto simp: update_approval_task_run_optional_def write_approvals_def write_table_def Let_def
        split: option.splits if_splits)
qed

definition is_integrity_error :: "gov_error \<Rightarrow> bool" where
  "is_integrity_error e \<longleftrightarrow> (case e of IntegrityError n \<Rightarrow> True | _ \<Rightarrow> False)"

lemma integrity_error_is: "is_integrity_error (IntegrityError n)"
  by (simp add: is_integrity_error_def)

lemma update_run_clean:
  assumes "update_run row v source s = (Inl e, s')" "find_row tr_id i (task_runs s) = Some row"
    and "runs_ok (task_runs s)" "values_check row v"
  shows "\<not> is_integrity_error e"
  using update_run_no_integrity [OF assms(1) _ assms(3,4)] assms(2) find_row_id [OF assms(2)]
  by (auto simp: is_integrity_error_def)

lemma coerce_clean:
  "coerce_non_negative_int v k = Inl e \<Longrightarrow> \<not> is_integrity_error e"
  "coerce_positive_int v k = Inl e \<Longrightarrow> \<not> is_integrity_error e"
  "normalize_checkpoint w = Inl e \<Longrightarrow> \<not> is_integrity_error e"
  by (auto dest: coerce_error normalize_error simp: is_integrity_error_def)

lemma message_clean [simp]:
  "\<not> is_integrity_error (transition_conflict i st action)" "\<not> is_integrity_error (run_not_found i)"
  "\<not> is_integrity_error (task_not_found i)"
  by (simp_all add: is_integrity_error_def transition_conflict_def run_not_found_def task_not_found_def)

lemma tick_waiting_clean:
  assumes "tick_waiting_approval row cp a s = (Inl e, s')" "find_row tr_id i (task_runs s) = Some row"
    and "runs_ok (task_runs s)" "approvals_ok (approvals s)"
    and "tr_status row \<in> set RUNNABLE_TASK_RUN_STATUSES"
  shows "\<not> is_integrity_error e"
proof -
  from assms(1,4) obtain x t where t: "update_approval_task_run_optional a (Some (tr_id row)) s = (Inr x, t)"
    and up: "update_run row ((keep_values row (dset ''waiting_approval_id'' (JStr (uuid_str a))
                 (dset ''wait_for_signal'' (JBool True) cp)))\<lparr>rv_status := RunWaitingApproval,
             rv_tick_count := tr_tick_count row + 1, rv_retry_posture := RetryAwaitingApproval,
             rv_failure_class := None, rv_stop_reason := Some StopWaitingApproval\<rparr>)
           ''tick_waiting_approval'' t = (Inl e, s')"
    by (auto simp: tick_waiting_approval_def Let_def fails dest: approval_link_no_integrity)
  have "task_runs t = task_runs s" using update_approval_frame [OF t] by simp
  with update_run_clean [OF up] assms checked_values(1) [OF row_checked [OF assms(3,2)]]
  show ?thesis by simp
qed

lemma tick_advance_clean:
  assumes "tick_advance row cp c n w s = (Inl e, s')" "find_row tr_id i (task_runs s) = Some row"
    and "runs_ok (task_runs s)" "tr_status row \<in> set RUNNABLE_TASK_RUN_STATUSES"
  shows "\<not> is_integrity_error e"
proof -
  have "update_run row (fst (advance_values row cp c n w)) (snd (advance_values row cp c n w)) s = (Inl e, s')"
    using assms(1) by (simp add: tick_advance_def split_beta)
  from update_run_clean [OF this assms(2,3)] advance_check [OF row_checked [OF assms(3,2)] assms(4)]
  show ?thesis by simp
qed

lemma tick_clean:
  assumes "tick_task_run_record i s = (Inl e, s')" "runs_ok (task_runs s)" "approvals_ok (approvals s)"
  shows "\<not> is_integrity_error e"
  using assms
  by (auto simp: tick_task_run_record_def require_task_run_def get_task_run_optional_def
      require_task_exists_def succeeds fails respond_with_Inl
      dest: coerce_clean tick_waiting_clean tick_advance_clean split: option.splits)

lemma lifecycle_clean:
  assumes "runs_ok (task_runs s)"
  shows "pause_task_run_record i s = (Inl e, s') \<Longrightarrow> \<not> is_integrity_error e"
    and "resume_task_run_record i s = (Inl e, s') \<Longrightarrow> \<not> is_integrity_error e"
    and "cancel_task_run_record i s = (Inl e, s') \<Longrightarrow> \<not> is_integrity_error e"
    and "reason \<in> set failed_stop_reasons \<Longrightarrow>
      mark_task_run_failed i reason cls source s = (Inl e, s') \<Longrightarrow> \<not> is_integrity_error e"
proof -
  have check: "run_check row" if "find_row tr_id i (task_runs s) = Some row" for row
    using row_checked [OF assms that] .
  show "pause_task_run_record i s = (Inl e, s') \<Longrightarrow> \<not> is_integrity_error e"
    by (auto simp: pause_task_run_record_def require_task_run_def get_task_run_optional_def
        succeeds fails respond_with_Inl dest: coerce_clean
        update_run_clean [OF _ _ assms checked_values(2) [OF check]])
  show "cancel_task_run_record i s = (Inl e, s') \<Longrightarrow> \<not> is_integrity_error e"
    by (auto simp: cancel_task_run_record_def require_task_run_def get_task_run_optional_def
        succeeds fails respond_with_Inl dest: coerce_clean
        update_run_clean [OF _ _ assms checked_values(3) [OF check]])
  show "resume_task_run_record i s = (Inl e, s') \<Longrightarrow> \<not> is_integrity_error e"
    by (auto simp: resume_task_run_record_def require_task_run_def get_task_run_optional_def Let_def
        succeeds fails respond_with_Inl dest: coerce_clean
        update_run_clean [OF _ _ assms checked_values(4) [OF check]])
  show "\<not> is_integrity_error e" if "reason \<in> set failed_stop_reasons"
    "mark_task_run_failed i reason cls source s = (Inl e, s')"
    using that
    by (auto simp: mark_task_run_failed_def get_task_run_optional_def fails respond_with_Inl
        split: option.splits if_splits
        dest: update_run_clean [OF _ _ assms checked_values(5) [OF check that(1)]])
qed

text \<open>
  The lifecycle never runs into the schema: on tables that satisfy their constraints, no tick,
  pause, resume, cancel or failure (with a stop reason the schema allows for failed runs) asks for
  a row that the constraints on counters, retries, status, stop reason and failure class reject.
\<close>
theorem lifecycle_respects_schema:
  assumes "runs_ok (task_runs s)" "approvals_ok (approvals s)"
  shows "\<not> (\<exists>n. fst (tick_task_run_record i s) = Inl (IntegrityError n) \<or>
      fst (pause_task_run_record i s) = Inl (IntegrityError n) \<or>
      fst (resume_task_run_record i s) = Inl (IntegrityError n) \<or>
      fst (cancel_task_run_record i s) = Inl (IntegrityError n) \<or>
      (reason \<in> set failed_stop_reasons \<and>
       fst (mark_task_run_failed i reason cls source s) = Inl (IntegrityError n)))"
  using tick_clean [OF _ assms] lifecycle_clean [OF assms(1)]
  by (metis integrity_error_is prod.collapse)

subsection \<open>The tick budget\<close>

text \<open>What the checkpoint says: cursor, number of steps, and whether the run waits for a signal.\<close>

definition checkpoint_at :: "dict \<Rightarrow> int \<Rightarrow> int \<Rightarrow> bool \<Rightarrow> bool" where
  "checkpoint_at d c n w \<longleftrightarrow>
     dget_default d ''cursor'' (JInt 0) = JInt c \<and>
     dget_default d ''target_steps'' (JInt 1) = JInt n \<and>
     dget_default d ''wait_for_signal'' (JBool False) = JBool w \<and> 0 \<le> c \<and> 0 < n \<and> c \<le> n"

lemma dget_default_dset [simp]:
  "dget_default (dset k v d) k' x = (if k' = k then v else dget_default d k' x)"
  by (simp add: dget_default_def)

lemma normalize_at:
  "checkpoint_at d c n w \<Longrightarrow>
     normalize_checkpoint (JObj d) = Inr (dset ''wait_for_signal'' (JBool w)
       (dset ''target_steps'' (JInt n) (dset ''cursor'' (JInt c) d)))"
  by (simp add: checkpoint_at_def normalize_checkpoint_def coerce_non_negative_int_def
      coerce_positive_int_def coerce_signal_def)

lemma checkpoint_at_normalized:
  "checkpoint_at (dset ''wait_for_signal'' (JBool w)
       (dset ''target_steps'' (JInt n) (dset ''cursor'' (JInt c) d))) c n w
     \<longleftrightarrow> 0 \<le> c \<and> 0 < n \<and> c \<le> n"
  by (auto simp: checkpoint_at_def)

lemma checkpoint_at_transition [simp]:
  "checkpoint_at (with_transition h e d) c n w \<longleftrightarrow> checkpoint_at d c n w"
  by (simp add: checkpoint_at_def with_transition_def)

text \<open>An update with a readable checkpoint and values the schema allows succeeds.\<close>

lemma update_run_succeeds:
  assumes "find_row tr_id (tr_id row) (task_runs s) = Some row" "runs_ok (task_runs s)"
    and "values_check row v" "checkpoint_at (rv_checkpoint v) c n w"
  shows "\<exists>cp t s'. update_run row v source s = (Inr (updated_run (v\<lparr>rv_checkpoint := cp\<rparr>) t row), s') \<and>
    task_runs s' = set_row tr_id (updated_run (v\<lparr>rv_checkpoint := cp\<rparr>) t row) (task_runs s) \<and>
    tasks s' = tasks s \<and> approvals s' = approvals s \<and> checkpoint_at cp c n w \<and>
    runs_ok (task_runs s')"
proof -
  have "values_check row (v\<lparr>rv_checkpoint := cp\<rparr>)" for cp
    using assms(3) by (simp add: values_check_def)
  then have ok: "runs_ok (set_row tr_id (updated_run (v\<lparr>rv_checkpoint := cp\<rparr>) t row) (task_runs s))" for cp t
    using assms(2) by (simp add: runs_ok_set_row run_check_updated)
  have pos: "0 \<le> c \<and> 0 < n \<and> c \<le> n" using assms(4) by (simp add: checkpoint_at_def)
  show ?thesis
    using assms(1) ok pos
    by (simp add: update_run_def append_transition_checkpoint_entry_def normalize_at [OF assms(4)] Let_def
        update_task_run_optional_def write_runs_def write_table_def put_runs_def after_reading_def)
      (rule exI, rule exI, intro conjI, rule refl, rule refl, simp add: checkpoint_at_normalized)
qed

text \<open>One tick of a run that waits for nothing, computed.\<close>

definition plain_run :: "uuid \<Rightarrow> store \<Rightarrow> run_row \<Rightarrow> int \<Rightarrow> int \<Rightarrow> bool" where
  "plain_run i s row c n \<longleftrightarrow>
     find_row tr_id i (task_runs s) = Some row \<and> runs_ok (task_runs s) \<and>
     tr_status row \<in> set RUNNABLE_TASK_RUN_STATUSES \<and>
     checkpoint_at (tr_checkpoint row) c n False \<and>
     (\<exists>task. get_task_optional (tr_task_id row) s = Some task \<and> pending_approval_of task s = None)"

lemma pending_frame:
  "tasks s' = tasks s \<Longrightarrow> approvals s' = approvals s \<Longrightarrow>
     pending_approval_of task s' = pending_approval_of task s \<and> get_task_optional j s' = get_task_optional j s"
  by (auto simp: pending_approval_of_def get_task_optional_def get_approval_optional_def split: option.split)

lemma tick_plain:
  assumes "plain_run i s row c n"
  shows "\<exists>resp s' u. tick_task_run_record i s = (Inr resp, s') \<and>
    find_row tr_id i (task_runs s') = Some u \<and> same_run row u \<and>
    task_runs s' = set_row tr_id u (task_runs s) \<and> runs_ok (task_runs s') \<and>
    tasks s' = tasks s \<and> approvals s' = approvals s \<and>
    (if c \<ge> n then tr_status u = RunDone
     else if tr_tick_count row \<ge> tr_max_ticks row then tr_status u = RunFailed
     else if c + 1 \<ge> n then tr_status u = RunDone
     else plain_run i s' u (c + 1) n \<and> tr_tick_count u = tr_tick_count row + 1)"
proof -
  let ?d = "dset ''wait_for_signal'' (JBool False)
      (dset ''target_steps'' (JInt n) (dset ''cursor'' (JInt c) (tr_checkpoint row)))"
  let ?v = "fst (advance_values row ?d c n False)"
  from assms obtain task where found: "find_row tr_id i (task_runs s) = Some row"
    and ok: "runs_ok (task_runs s)" and st: "tr_status row \<in> set RUNNABLE_TASK_RUN_STATUSES"
    and at: "checkpoint_at (tr_checkpoint row) c n False"
    and task: "get_task_optional (tr_task_id row) s = Some task" "pending_approval_of task s = None"
    by (auto simp: plain_run_def)
  have pos: "0 \<le> c \<and> 0 < n \<and> c \<le> n" using at by (simp add: checkpoint_at_def)
  have self: "find_row tr_id (tr_id row) (task_runs s) = Some row"
    using found find_row_id [OF found] by simp
  define m where "m = (if c < n \<and> tr_tick_count row < tr_max_ticks row then c + 1 else c)"
  have "checkpoint_at (rv_checkpoint ?v) m n False"
    using pos by (auto simp: advance_values_def Let_def keep_values_def checkpoint_at_def m_def)
  from update_run_succeeds [OF self ok advance_check [OF row_checked [OF ok found] st] this]
  obtain cp t s' where up: "update_run row ?v (snd (advance_values row ?d c n False)) s =
      (Inr (updated_run (?v\<lparr>rv_checkpoint := cp\<rparr>) t row), s')"
    and rows: "task_runs s' = set_row tr_id (updated_run (?v\<lparr>rv_checkpoint := cp\<rparr>) t row) (task_runs s)"
    and frame: "tasks s' = tasks s" "approvals s' = approvals s" and cp: "checkpoint_at cp m n False"
    and ok': "runs_ok (task_runs s')"
    by blast
  let ?u = "updated_run (?v\<lparr>rv_checkpoint := cp\<rparr>) t row"
  have tick: "tick_task_run_record i s = (Inr (mutation_response ?u (tr_status row)), s')"
  proof -
    have fields: "dget_default ?d ''cursor'' (JInt 0) = JInt c"
      "dget_default ?d ''target_steps'' (JInt 1) = JInt n"
      "dget_default ?d ''wait_for_signal'' (JBool False) = JBool False" by simp_all
    have ints: "coerce_non_negative_int (JInt c) k = Inr c" "coerce_positive_int (JInt n) k = Inr n" for k
      using pos by (simp_all add: coerce_non_negative_int_def coerce_positive_int_def)
    have go: "tick_advance row ?d c n False s = (Inr ?u, s')"
      using up by (simp only: tick_advance_def split_beta)
    have start: "require_task_run i s = (Inr row, s)"
      "require_task_exists (tr_task_id row) s = (Inr task, s)"
      using found task(1) by (simp_all add: require_task_run_def get_task_run_optional_def require_task_exists_def)
    show ?thesis
      by (simp only: tick_task_run_record_def start and_then_Inr st not_not simp_thms raise_when_simps
          normalize_at [OF at] fields ints task(2) option.case py_truthy.simps go respond_with_def)
  qed
  have found': "find_row tr_id i (task_runs s') = Some ?u"
    using self found find_row_id [OF found] by (simp add: rows find_row_set_row)
  have same: "same_run row ?u" using advance_edge(2) [OF st] by simp
  have "get_task_optional (tr_task_id ?u) s' = Some task" "pending_approval_of task s' = None"
    using task pending_frame [OF frame] by (simp_all add: updated_run_def)
  with found' ok' cp have plain: "plain_run i s' ?u m n"
    if "tr_status ?u \<in> set RUNNABLE_TASK_RUN_STATUSES"
    using that by (simp add: plain_run_def updated_run_def)
  show ?thesis
  proof (intro exI conjI)
    show "if c \<ge> n then tr_status ?u = RunDone
     else if tr_tick_count row \<ge> tr_max_ticks row then tr_status ?u = RunFailed
     else if c + 1 \<ge> n then tr_status ?u = RunDone
     else plain_run i s' ?u (c + 1) n \<and> tr_tick_count ?u = tr_tick_count row + 1"
      using plain
      by (auto simp: updated_run_def advance_values_def Let_def m_def run_status_sets)
  qed (use tick found' same rows ok' frame in blast)+
qed

text \<open>Ticking \<open>k\<close> times in a row, as long as every tick succeeds.\<close>

fun tick_times :: "nat \<Rightarrow> uuid \<Rightarrow> store \<Rightarrow> store option" where
  "tick_times 0 i s = Some s"
| "tick_times (Suc k) i s =
     (case tick_task_run_record i s of (Inl _, _) \<Rightarrow> None | (Inr _, s') \<Rightarrow> tick_times k i s')"

lemma tick_times_Suc:
  "tick_times (Suc k) i s = Some s' \<longleftrightarrow>
     (\<exists>resp t. tick_task_run_record i s = (Inr resp, t) \<and> tick_times k i t = Some s')"
  by (cases "tick_task_run_record i s"; cases "fst (tick_task_run_record i s)") auto


lemma updated_row_found:
  assumes "update_run row v source s = (Inr u, s')" "find_row tr_id i (task_runs s) = Some row"
  shows "find_row tr_id i (task_runs s') = Some u \<and> (\<exists>cp t. u = updated_run (v\<lparr>rv_checkpoint := cp\<rparr>) t row)"
proof -
  have id: "tr_id row = i" using find_row_id [OF assms(2)] .
  from update_run_Inr [OF assms(1)] assms(2) id obtain cp t where
    u: "u = updated_run (v\<lparr>rv_checkpoint := cp\<rparr>) t row" "task_runs s' = set_row tr_id u (task_runs s)"
    by blast
  with assms(2) id show ?thesis by (auto simp: find_row_set_row)
qed

lemma tick_outcome:
  assumes "tick_task_run_record i s = (Inr resp, s')" "find_row tr_id i (task_runs s) = Some row"
  shows "\<exists>u. find_row tr_id i (task_runs s') = Some u \<and> tr_max_ticks u = tr_max_ticks row \<and>
    (tr_status u \<in> set RUNNABLE_TASK_RUN_STATUSES \<longrightarrow>
      tr_tick_count row < tr_max_ticks row \<and> tr_tick_count u = tr_tick_count row + 1)"
proof -
  obtain r task cp c n w u where
    r: "find_row tr_id i (task_runs s) = Some r" "tr_status r \<in> set RUNNABLE_TASK_RUN_STATUSES"
    and tick: "(case pending_approval_of task s of
        Some a \<Rightarrow> tick_waiting_approval r cp a s
      | None \<Rightarrow> tick_advance r cp c n w s) = (Inr u, s')"
    using tick_Inr [OF assms(1)] .
  have same: "r = row" using r(1) assms(2) by simp
  show ?thesis
  proof (cases "pending_approval_of task s")
    case None
    let ?v = "fst (advance_values row cp c n w)"
    from None tick same have up: "update_run row ?v (snd (advance_values row cp c n w)) s = (Inr u, s')"
      by (simp add: tick_advance_def split_beta)
    from updated_row_found [OF this assms(2)] obtain x t where
      u: "find_row tr_id i (task_runs s') = Some u" "u = updated_run (?v\<lparr>rv_checkpoint := x\<rparr>) t row"
      by blast
    have "tr_status u \<in> set RUNNABLE_TASK_RUN_STATUSES \<longrightarrow>
        tr_tick_count row < tr_max_ticks row \<and> tr_tick_count u = tr_tick_count row + 1"
      by (auto simp: u(2) updated_run_def advance_values_def Let_def run_status_sets)
    moreover have "tr_max_ticks u = tr_max_ticks row" by (simp add: u(2) updated_run_def)
    ultimately show ?thesis using u(1) by blast
  next
    case (Some a)
    define v where "v = ((keep_values row (dset ''waiting_approval_id'' (JStr (uuid_str a))
                 (dset ''wait_for_signal'' (JBool True) cp)))\<lparr>rv_status := RunWaitingApproval,
             rv_tick_count := tr_tick_count row + 1, rv_retry_posture := RetryAwaitingApproval,
             rv_failure_class := None, rv_stop_reason := Some StopWaitingApproval\<rparr>)"
    from Some tick same obtain x t where t: "update_approval_task_run_optional a (Some (tr_id row)) s = (Inr x, t)"
      and up: "update_run row v ''tick_waiting_approval'' t = (Inr u, s')"
      by (auto simp: tick_waiting_approval_def Let_def and_then_eq_Inr v_def)
    have "find_row tr_id i (task_runs t) = Some row" using update_approval_frame [OF t] assms(2) by simp
    from updated_row_found [OF up this] obtain y z where
      u: "find_row tr_id i (task_runs s') = Some u" "u = updated_run (v\<lparr>rv_checkpoint := y\<rparr>) z row"
      by blast
    have "tr_status u \<notin> set RUNNABLE_TASK_RUN_STATUSES" "tr_max_ticks u = tr_max_ticks row"
      by (simp_all add: u(2) updated_run_def v_def run_status_sets)
    with u(1) show ?thesis by blast
  qed
qed

text \<open>
  Whatever the checkpoint and the approvals say, a run cannot be ticked successfully more often in
  a row than its tick limit leaves ticks, and once more.
\<close>
theorem tick_chain_bounded:
  assumes "find_row tr_id i (task_runs s) = Some row" "tick_times k i s = Some s'"
  shows "int k \<le> max 0 (tr_max_ticks row - tr_tick_count row) + 1"
  using assms
proof (induction k arbitrary: s row)
  case 0
  then show ?case by simp
next
  case (Suc k)
  from Suc.prems(2) obtain resp t where t: "tick_task_run_record i s = (Inr resp, t)"
    "tick_times k i t = Some s'"
    unfolding tick_times_Suc by blast
  obtain u where u: "find_row tr_id i (task_runs t) = Some u" "tr_max_ticks u = tr_max_ticks row"
    "tr_status u \<in> set RUNNABLE_TASK_RUN_STATUSES \<longrightarrow>
      tr_tick_count row < tr_max_ticks row \<and> tr_tick_count u = tr_tick_count row + 1"
    using tick_outcome [OF t(1) Suc.prems(1)] by blast
  show ?case
  proof (cases k)
    case 0
    then show ?thesis by simp
  next
    case (Suc m)
    with t(2) obtain resp' t' where "tick_task_run_record i t = (Inr resp', t')"
      by (auto simp only: tick_times_Suc)
    then have "tr_status u \<in> set RUNNABLE_TASK_RUN_STATUSES"
      by (rule tick_Inr) (use u(1) in simp)
    with u(2,3) Suc.IH [OF u(1) t(2)] show ?thesis by simp
  qed
qed

text \<open>
  A resume that succeeds was allowed: a failed run had a transient failure and a retry left, and
  uses it; a run waiting for an approval names none that is still pending, and is queued again;
  any other resumable run goes on running.
\<close>
theorem resume_guarded:
  assumes "resume_task_run_record i s = (Inr resp, s')"
  shows "\<exists>a b. find_row tr_id i (task_runs s) = Some a \<and> find_row tr_id i (task_runs s') = Some b \<and>
    tr_status a \<in> set RESUMABLE_TASK_RUN_STATUSES \<and>
    (case tr_status a of
       RunFailed \<Rightarrow> tr_failure_class a = Some FailTransient \<and> tr_retry_count a < tr_retry_cap a \<and>
         tr_retry_count b = tr_retry_count a + 1 \<and> tr_status b = RunQueued
     | RunWaitingApproval \<Rightarrow> tr_retry_count b = tr_retry_count a \<and> tr_status b = RunQueued \<and>
         (\<forall>x approval. dget (tr_checkpoint a) ''waiting_approval_id'' = JStr (uuid_str x) \<and>
            get_approval_optional x s = Some approval \<longrightarrow> ap_status approval \<noteq> ApprPending)
     | _ \<Rightarrow> tr_retry_count b = tr_retry_count a \<and> tr_status b = RunRunning)"
proof -
  from resume_Inr [OF assms] obtain row cp u where
    row: "find_row tr_id i (task_runs s) = Some row"
    and st: "tr_status row \<in> set RESUMABLE_TASK_RUN_STATUSES"
    and norm: "normalize_checkpoint (JObj (tr_checkpoint row)) = Inr cp"
    and pend: "\<not> (tr_status row = RunWaitingApproval \<and> still_pending cp s)"
    and allowed: "\<not> (tr_status row = RunFailed \<and> tr_failure_class row \<noteq> Some FailTransient)"
      "\<not> (tr_status row = RunFailed \<and> tr_retry_cap row \<le> tr_retry_count row)"
    and up: "update_run row (resume_values row cp) ''resume'' s = (Inr u, s')"
    by blast
  from updated_row_found [OF up row] obtain x t where
    u: "find_row tr_id i (task_runs s') = Some u"
      "u = updated_run ((resume_values row cp)\<lparr>rv_checkpoint := x\<rparr>) t row"
    by blast
  have same_id: "dget cp ''waiting_approval_id'' = dget (tr_checkpoint row) ''waiting_approval_id''"
    using norm by (auto simp: normalize_checkpoint_def split: if_splits)
  have not_empty: "uuid_str y \<noteq> []" for y by (simp add: uuid_str_def Let_def)
  have named: "\<forall>y approval. dget (tr_checkpoint row) ''waiting_approval_id'' = JStr (uuid_str y) \<and>
      get_approval_optional y s = Some approval \<longrightarrow> ap_status approval \<noteq> ApprPending"
    if "tr_status row = RunWaitingApproval"
    using pend that by (auto simp: still_pending_def same_id not_empty)
  have result: "tr_status u = (if tr_status row = RunFailed \<or> tr_status row = RunWaitingApproval
        then RunQueued else RunRunning)"
    "tr_retry_count u = (if tr_status row = RunFailed then tr_retry_count row + 1 else tr_retry_count row)"
    by (simp_all add: u(2) updated_run_def resume_values_def Let_def)
  from st consider (paused) "tr_status row = RunPaused" | (approval) "tr_status row = RunWaitingApproval"
    | (user) "tr_status row = RunWaitingUser" | (failed) "tr_status row = RunFailed"
    by (auto simp: RESUMABLE_TASK_RUN_STATUSES_def)
  then show ?thesis
  proof cases
    case approval
    with row u(1) st result named show ?thesis by (intro exI [of _ row] exI [of _ u]) simp
  next
    case failed
    with row u(1) st result allowed show ?thesis by (intro exI [of _ row] exI [of _ u]) simp
  qed (use row u(1) st result in \<open>(intro exI [of _ row] exI [of _ u], simp)\<close>)+
qed

subsection \<open>Witnesses\<close>

definition demo_request :: routing_request where
  "demo_request = \<lparr>rq_thread_id = Some (uuid_str 5), rq_tool_id = uuid_str 6, rq_action = ''run'',
     rq_scope = ''local'', rq_domain_hint = None, rq_risk_hint = None, rq_attributes = []\<rparr>"

definition demo_tool :: tool_record where
  "demo_tool = \<lparr>tl_id = uuid_str 6, tl_tool_key = ''proxy.echo'', tl_name = ''echo'',
     tl_description = ''echo'', tl_version = ''1'', tl_metadata_version = ''tool_metadata_v0'',
     tl_active = True, tl_tags = [], tl_action_hints = [''run''], tl_scope_hints = [''local''],
     tl_domain_hints = [], tl_risk_hints = [], tl_metadata = [], tl_created_at = ''t''\<rparr>"

definition demo_task :: task_row where
  "demo_task = \<lparr>tk_id = 3, tk_user_id = 1, tk_thread_id = 5, tk_tool_id = 6, tk_status = TaskApproved,
     tk_request = demo_request, tk_tool = demo_tool, tk_latest_approval_id = None,
     tk_latest_execution_id = None, tk_created_at = 0, tk_updated_at = 0\<rparr>"

definition demo_run :: run_row where
  "demo_run = \<lparr>tr_id = 9, tr_task_id = 3, tr_status = RunQueued,
     tr_checkpoint = [(''target_steps'', JInt 2)], tr_tick_count = 0, tr_step_count = 0,
     tr_max_ticks = 3, tr_retry_count = 0, tr_retry_cap = 1, tr_retry_posture = RetryNone,
     tr_failure_class = None, tr_stop_reason = None, tr_last_transitioned_at = 0,
     tr_created_at = 0, tr_updated_at = 0\<rparr>"

definition plain_env :: env where
  "plain_env = \<lparr>current_user = 1, clock = int, fresh_id = of_nat, txn_now = 0, collation = (\<lambda>t. t)\<rparr>"

definition demo_store :: "run_row \<Rightarrow> store" where
  "demo_store r = \<lparr>environment = plain_env, reads = 0, draws = 100, threads = [], agent_profiles = [],
     consents = [], policies = [], tools = [], approvals = [], tasks = [demo_task], task_steps = [],
     task_runs = [r], tool_executions = [], execution_budgets = [], events = [], traces = [],
     trace_events = []\<rparr>"

definition done_run :: run_row where
  "done_run = demo_run\<lparr>tr_status := RunDone, tr_stop_reason := Some StopDone\<rparr>"

definition failed_run :: run_row where
  "failed_run = demo_run\<lparr>tr_status := RunFailed, tr_stop_reason := Some StopFatalError,
     tr_failure_class := Some FailTransient\<rparr>"

lemmas demo_runs = demo_store_def demo_run_def done_run_def failed_run_def

lemma demo_ok:
  "runs_ok (task_runs (demo_store demo_run))" "runs_ok (task_runs (demo_store done_run))"
  "runs_ok (task_runs (demo_store failed_run))" "approvals_ok (approvals (demo_store r))"
  by (simp_all add: demo_runs runs_ok_def run_check_def run_bounds_check_def failed_stop_reasons_def
      approvals_ok_def)

lemma demo_found:
  "find_row tr_id 9 (task_runs (demo_store demo_run)) = Some demo_run"
  "find_row tr_id 9 (task_runs (demo_store done_run)) = Some done_run"
  "find_row tr_id 9 (task_runs (demo_store failed_run)) = Some failed_run"
  by (simp_all add: demo_runs find_row_def)

theorem finished_runs_frozen_witness:
  "find_row tr_id 9 (task_runs (fold perform [OpTick 9, OpCancel 9] (demo_store done_run))) = Some done_run"
proof -
  have "tr_status done_run = RunDone \<or> tr_status done_run = RunCancelled" by (simp add: done_run_def)
  from finished_runs_frozen [OF demo_ok(2) demo_found(2) this] show ?thesis .
qed

theorem retries_stay_within_cap_witness:
  "\<exists>b. find_row tr_id 9 (task_runs (fold perform [OpResume 9, OpTick 9] (demo_store failed_run))) = Some b
     \<and> tr_retry_count b \<le> 1"
proof -
  have cap: "tr_retry_cap failed_run = 1" by (simp add: failed_run_def demo_run_def)
  from retries_stay_within_cap [OF demo_ok(3) demo_found(3), of "[OpResume 9, OpTick 9]"]
  show ?thesis unfolding cap by blast
qed

theorem lifecycle_respects_schema_witness:
  "\<not> (\<exists>n. fst (tick_task_run_record 9 (demo_store demo_run)) = Inl (IntegrityError n))"
  using lifecycle_respects_schema [OF demo_ok(1) demo_ok(4), of 9] by blast

lemma demo_plain: "plain_run 9 (demo_store demo_run) demo_run 0 2"
  unfolding plain_run_def
proof (intro conjI)
  show "\<exists>task. get_task_optional (tr_task_id demo_run) (demo_store demo_run) = Some task \<and>
      pending_approval_of task (demo_store demo_run) = None"
    by (intro exI [of _ demo_task])
      (simp add: demo_store_def demo_run_def demo_task_def get_task_optional_def find_row_def
        pending_approval_of_def)
qed (use demo_ok(1) demo_found(1) in \<open>simp_all add: run_status_sets checkpoint_at_def dget_default_def demo_run_def\<close>)


lemma demo_tick: "\<exists>s'. tick_times 1 9 (demo_store demo_run) = Some s'"
  using tick_plain [OF demo_plain]
  by (auto simp: tick_times_Suc One_nat_def simp del: tick_times.simps(2))

theorem tick_chain_bounded_witness:
  "int 1 \<le> max 0 (tr_max_ticks demo_run - tr_tick_count demo_run) + 1"
proof -
  obtain s' where "tick_times 1 9 (demo_store demo_run) = Some s'" using demo_tick by blast
  from tick_chain_bounded [OF demo_found(1) this] show ?thesis .
qed

lemma demo_resume: "\<exists>resp s'. resume_task_run_record 9 (demo_store failed_run) = (Inr resp, s')"
proof -
  let ?s = "demo_store failed_run"
  have at: "checkpoint_at (tr_checkpoint failed_run) 0 2 False"
    by (simp add: failed_run_def demo_run_def checkpoint_at_def dget_default_def)
  let ?v = "\<lambda>cp. resume_values failed_run cp"
  have self: "find_row tr_id (tr_id failed_run) (task_runs ?s) = Some failed_run"
    using demo_found(3) by (simp add: failed_run_def demo_run_def)
  have retry: "\<not> (tr_status failed_run = RunFailed \<and> tr_retry_cap failed_run \<le> tr_retry_count failed_run)"
    by (simp add: failed_run_def demo_run_def)
  obtain d where d: "normalize_checkpoint (JObj (tr_checkpoint failed_run)) = Inr d" "checkpoint_at d 0 2 False"
    using normalize_at [OF at] by (simp add: checkpoint_at_normalized)
  have "checkpoint_at (rv_checkpoint (?v d)) 0 2 False"
    using d(2) by (simp add: resume_values_def Let_def keep_values_def checkpoint_at_def)
  from update_run_succeeds [OF self demo_ok(3) checked_values(4) [OF row_checked [OF demo_ok(3) self] retry] this]
  obtain u s' where up: "update_run failed_run (?v d) ''resume'' ?s = (Inr u, s')" by blast
  have start: "require_task_run 9 ?s = (Inr failed_run, ?s)"
    using demo_found(3) by (simp add: require_task_run_def get_task_run_optional_def)
  have st: "tr_status failed_run = RunFailed" "tr_failure_class failed_run = Some FailTransient"
    by (simp_all add: failed_run_def)
  show ?thesis
    using retry by (simp add: resume_task_run_record_def start Let_def st d(1) up respond_with_def
        RESUMABLE_TASK_RUN_STATUSES_def)
qed

theorem resume_guarded_witness:
  "\<exists>resp s' b. resume_task_run_record 9 (demo_store failed_run) = (Inr resp, s') \<and>
     find_row tr_id 9 (task_runs s') = Some b \<and> tr_status b = RunQueued \<and> tr_retry_count b = 1"
proof -
  obtain resp s' where r: "resume_task_run_record 9 (demo_store failed_run) = (Inr resp, s')"
    using demo_resume by blast
  have st: "tr_status failed_run = RunFailed" "tr_retry_count failed_run = 0"
    by (simp_all add: failed_run_def demo_run_def)
  from resume_guarded [OF r] obtain b where
    b: "find_row tr_id 9 (task_runs s') = Some b" "tr_status b = RunQueued" "tr_retry_count b = 1"
    unfolding demo_found(3) by (auto simp: st)
  with r show ?thesis by blast
qed

end
