(* ===== verification/Tasks.thy ===== *)
theory Tasks
  imports Task_Runs
begin

text \<open>
  \<open>tasks.py\<close>: governed tasks and their steps.  The status maps, the linkage checks between
  approvals, executions and steps, the synchronisation of task and step, the append of a
  continuation step and the manual transition of the latest step.

  A serialised record of the code (\<open>TaskRecord\<close>, \<open>TaskStepRecord\<close>) is the row it was made from
  until a response or a trace payload is built; \<open>lock_task_steps\<close>, which only waits, is left out.
\<close>

subsection \<open>Constants and status maps\<close>

definition TASK_LIST_ORDER :: "string list" where
  "TASK_LIST_ORDER = [''created_at_asc'', ''id_asc'']"

definition TASK_STEP_LIST_ORDER :: "string list" where
  "TASK_STEP_LIST_ORDER = [''sequence_no_asc'', ''created_at_asc'', ''id_asc'']"

definition DEFAULT_TASK_STEP_SEQUENCE_NO :: int where
  "DEFAULT_TASK_STEP_SEQUENCE_NO = 1"

definition TASK_STEP_APPENDABLE_STATUSES :: "step_status list" where
  "TASK_STEP_APPENDABLE_STATUSES = [StepExecuted, StepBlocked, StepDenied]"

definition TASK_STEP_INITIAL_STATUSES :: "step_status list" where
  "TASK_STEP_INITIAL_STATUSES = [StepCreated, StepApproved, StepDenied]"

fun allowed_task_step_transitions :: "step_status \<Rightarrow> step_status list" where
  "allowed_task_step_transitions StepCreated = [StepApproved, StepDenied]"
| "allowed_task_step_transitions StepApproved = [StepExecuted, StepBlocked]"
| "allowed_task_step_transitions StepExecuted = []"
| "allowed_task_step_transitions StepBlocked = []"
| "allowed_task_step_transitions StepDenied = []"

definition TASK_STEP_STATUS_GRAPH :: "(step_status \<times> step_status list) list" where
  "TASK_STEP_STATUS_GRAPH =
     map (\<lambda>st. (st, allowed_task_step_transitions st))
       [StepCreated, StepApproved, StepExecuted, StepBlocked, StepDenied]"

lemmas step_status_sets = TASK_STEP_APPENDABLE_STATUSES_def TASK_STEP_INITIAL_STATUSES_def

fun task_status_for_routing_decision :: "routing_decision \<Rightarrow> task_status" where
  "task_status_for_routing_decision RouteApprovalRequired = TaskPendingApproval"
| "task_status_for_routing_decision RouteReady = TaskApproved"
| "task_status_for_routing_decision RouteDenied = TaskDenied"

fun task_status_for_approval_status :: "approval_status \<Rightarrow> task_status" where
  "task_status_for_approval_status ApprPending = TaskPendingApproval"
| "task_status_for_approval_status ApprApproved = TaskApproved"
| "task_status_for_approval_status ApprRejected = TaskDenied"

definition next_task_status_for_approval :: "task_status \<Rightarrow> approval_status \<Rightarrow> task_status" where
  "next_task_status_for_approval current status =
     (if current = TaskExecuted \<or> current = TaskBlocked then current
      else task_status_for_approval_status status)"

fun task_status_for_execution_status :: "execution_status \<Rightarrow> task_status" where
  "task_status_for_execution_status ExecCompleted = TaskExecuted"
| "task_status_for_execution_status ExecBlocked = TaskBlocked"

fun task_status_for_step_status :: "step_status \<Rightarrow> task_status" where
  "task_status_for_step_status StepCreated = TaskPendingApproval"
| "task_status_for_step_status StepApproved = TaskApproved"
| "task_status_for_step_status StepExecuted = TaskExecuted"
| "task_status_for_step_status StepBlocked = TaskBlocked"
| "task_status_for_step_status StepDenied = TaskDenied"

fun task_step_status_for_routing_decision :: "routing_decision \<Rightarrow> step_status" where
  "task_step_status_for_routing_decision RouteApprovalRequired = StepCreated"
| "task_step_status_for_routing_decision RouteReady = StepApproved"
| "task_step_status_for_routing_decision RouteDenied = StepDenied"

fun task_step_status_for_approval_status :: "approval_status \<Rightarrow> step_status" where
  "task_step_status_for_approval_status ApprPending = StepCreated"
| "task_step_status_for_approval_status ApprApproved = StepApproved"
| "task_step_status_for_approval_status ApprRejected = StepDenied"

definition next_task_step_status_for_approval :: "step_status \<Rightarrow> approval_status \<Rightarrow> step_status" where
  "next_task_step_status_for_approval current status =
     (if current = StepExecuted \<or> current = StepBlocked then current
      else task_step_status_for_approval_status status)"

fun task_step_status_for_execution_status :: "execution_status \<Rightarrow> step_status" where
  "task_step_status_for_execution_status ExecCompleted = StepExecuted"
| "task_step_status_for_execution_status ExecBlocked = StepBlocked"

definition task_step_outcome_snapshot ::
  "routing_decision \<Rightarrow> string option \<Rightarrow> approval_status option \<Rightarrow> string option \<Rightarrow>
    execution_status option \<Rightarrow> string option \<Rightarrow> outcome_snapshot" where
  "task_step_outcome_snapshot decision approval_id approval_status execution_id execution_status reason =
     \<lparr>oc_routing_decision = decision, oc_approval_id = approval_id,
      oc_approval_status = approval_status, oc_execution_id = execution_id,
      oc_execution_status = execution_status, oc_blocked_reason = reason\<rparr>"

subsection \<open>Records\<close>

definition serialize_task_row :: "task_row \<Rightarrow> dict" where
  "serialize_task_row r =
     [(''id'', JStr (uuid_str (tk_id r))), (''thread_id'', JStr (uuid_str (tk_thread_id r))),
      (''tool_id'', JStr (uuid_str (tk_tool_id r))), (''status'', JStr (task_status_text (tk_status r))),
      (''request'', JObj (request_json (tk_request r))), (''tool'', JObj (tool_json (tk_tool r))),
      (''latest_approval_id'', opt_uuid (tk_latest_approval_id r)),
      (''latest_execution_id'', opt_uuid (tk_latest_execution_id r)),
      (''created_at'', JStr (isoformat (tk_created_at r))),
      (''updated_at'', JStr (isoformat (tk_updated_at r)))]"

definition lineage_json :: "uuid option \<Rightarrow> uuid option \<Rightarrow> uuid option \<Rightarrow> dict" where
  "lineage_json parent approval execution =
     [(''parent_step_id'', opt_uuid parent), (''source_approval_id'', opt_uuid approval),
      (''source_execution_id'', opt_uuid execution)]"

definition step_lineage :: "step_row \<Rightarrow> dict" where
  "step_lineage r =
     lineage_json (ts_parent_step_id r) (ts_source_approval_id r) (ts_source_execution_id r)"

definition step_trace :: "step_row \<Rightarrow> dict" where
  "step_trace r =
     [(''trace_id'', JStr (uuid_str (ts_trace_id r))), (''trace_kind'', JStr (ts_trace_kind r))]"

definition serialize_task_step_row :: "step_row \<Rightarrow> dict" where
  "serialize_task_step_row r =
     [(''id'', JStr (uuid_str (ts_id r))), (''task_id'', JStr (uuid_str (ts_task_id r))),
      (''sequence_no'', JInt (ts_sequence_no r)), (''lineage'', JObj (step_lineage r)),
      (''kind'', JStr (step_kind_text (ts_kind r))), (''status'', JStr (step_status_text (ts_status r))),
      (''request'', JObj (request_json (ts_request r))), (''outcome'', JObj (outcome_json (ts_outcome r))),
      (''trace'', JObj (step_trace r)), (''created_at'', JStr (isoformat (ts_created_at r))),
      (''updated_at'', JStr (isoformat (ts_updated_at r)))]"

definition status_texts :: "step_status list \<Rightarrow> json" where
  "status_texts sts = str_list (map step_status_text sts)"

text \<open>\<open>_task_step_sequencing_summary\<close>; the summary of the items, the last of which is the latest.\<close>

definition next_sequence_no :: "step_row list \<Rightarrow> int" where
  "next_sequence_no items = (if items = [] then 1 else ts_sequence_no (last items) + 1)"

definition append_allowed :: "step_row list \<Rightarrow> bool" where
  "append_allowed items \<longleftrightarrow>
     items \<noteq> [] \<and> ts_status (last items) \<in> set TASK_STEP_APPENDABLE_STATUSES"

definition task_step_sequencing_summary :: "uuid \<Rightarrow> step_row list \<Rightarrow> dict" where
  "task_step_sequencing_summary task items =
     [(''task_id'', JStr (uuid_str task)), (''total_count'', JInt (int (length items))),
      (''latest_sequence_no'', if items = [] then JNull else JInt (ts_sequence_no (last items))),
      (''latest_status'', if items = [] then JNull else JStr (step_status_text (ts_status (last items)))),
      (''next_sequence_no'', JInt (next_sequence_no items)),
      (''append_allowed'', JBool (append_allowed items)),
      (''order'', str_list TASK_STEP_LIST_ORDER)]"

definition task_lifecycle_trace_events ::
  "task_row \<Rightarrow> task_status option \<Rightarrow> string \<Rightarrow> (string \<times> dict) list" where
  "task_lifecycle_trace_events task previous source =
     [(''task.lifecycle.state'',
        [(''task_id'', JStr (uuid_str (tk_id task))), (''source'', JStr source),
         (''previous_status'', opt_text task_status_text previous),
         (''current_status'', JStr (task_status_text (tk_status task))),
         (''latest_approval_id'', opt_uuid (tk_latest_approval_id task)),
         (''latest_execution_id'', opt_uuid (tk_latest_execution_id task))]),
      (''task.lifecycle.summary'',
        [(''task_id'', JStr (uuid_str (tk_id task))), (''source'', JStr source),
         (''final_status'', JStr (task_status_text (tk_status task))),
         (''latest_approval_id'', opt_uuid (tk_latest_approval_id task)),
         (''latest_execution_id'', opt_uuid (tk_latest_execution_id task))])]"

definition task_step_lifecycle_trace_events ::
  "step_row \<Rightarrow> step_status option \<Rightarrow> string \<Rightarrow> (string \<times> dict) list" where
  "task_step_lifecycle_trace_events step previous source =
     [(''task.step.lifecycle.state'',
        [(''task_id'', JStr (uuid_str (ts_task_id step))), (''task_step_id'', JStr (uuid_str (ts_id step))),
         (''source'', JStr source), (''sequence_no'', JInt (ts_sequence_no step)),
         (''kind'', JStr (step_kind_text (ts_kind step))),
         (''previous_status'', opt_text step_status_text previous),
         (''current_status'', JStr (step_status_text (ts_status step))),
         (''trace'', JObj (step_trace step))]),
      (''task.step.lifecycle.summary'',
        [(''task_id'', JStr (uuid_str (ts_task_id step))), (''task_step_id'', JStr (uuid_str (ts_id step))),
         (''source'', JStr source), (''sequence_no'', JInt (ts_sequence_no step)),
         (''kind'', JStr (step_kind_text (ts_kind step))),
         (''final_status'', JStr (step_status_text (ts_status step))),
         (''trace'', JObj (step_trace step))])]"

subsection \<open>Linkage\<close>

definition validate_linked_task_step_for_approval ::
  "uuid \<Rightarrow> uuid option \<Rightarrow> store \<Rightarrow> (gov_error + task_row \<times> step_row) \<times> store" where
  "validate_linked_task_step_for_approval a step_id s =
     and_then (require_row (TaskStepApprovalLinkageError
                 (''approval '' @ uuid_str a @ '' is missing linked task_step_id'')) step_id s) (\<lambda>i s.
     and_then (require_row (TaskStepApprovalLinkageError
                 (''approval '' @ uuid_str a @ '' is not linked to a visible task''))
                 (get_task_by_approval_optional a s) s) (\<lambda>unlocked s.
     and_then (require_row (ContinuityStoreInvariantError
                 (''task for approval '' @ uuid_str a @
                  '' disappeared during approval linkage validation''))
                 (get_task_optional (tk_id unlocked) s) s) (\<lambda>task s.
     and_then (require_row (TaskStepApprovalLinkageError
                 (''approval '' @ uuid_str a @ '' references linked task step '' @ uuid_str i @
                  '' that was not found'')) (get_task_step_optional i s) s) (\<lambda>step s.
     and_then (raise_when (ts_task_id step \<noteq> tk_id task) (TaskStepApprovalLinkageError
                 (''approval '' @ uuid_str a @ '' links task step '' @ uuid_str i @
                  '' outside task '' @ uuid_str (tk_id task))) s) (\<lambda>_ s.
     and_then (raise_when (oc_approval_id (ts_outcome step) \<noteq> Some (uuid_str a))
                 (TaskStepApprovalLinkageError
                 (''approval '' @ uuid_str a @ '' is inconsistent with linked task step '' @
                  uuid_str i)) s) (\<lambda>_ s.
     (Inr (task, step), s)))))))"

definition validate_linked_task_step_for_execution ::
  "uuid \<Rightarrow> execution_row \<Rightarrow> store \<Rightarrow> (gov_error + step_row) \<times> store" where
  "validate_linked_task_step_for_execution task_id execution s =
     (let prefix = ''tool execution '' @ uuid_str (ex_id execution)
      in and_then (require_row (TaskStepExecutionLinkageError
                    (prefix @ '' is missing linked task_step_id'')) (ex_task_step_id execution) s) (\<lambda>i s.
         and_then (require_row (TaskStepExecutionLinkageError
                    (prefix @ '' references linked task step '' @ uuid_str i @ '' that was not found''))
                    (get_task_step_optional i s) s) (\<lambda>step s.
         and_then (raise_when (ts_task_id step \<noteq> task_id) (TaskStepExecutionLinkageError
                    (prefix @ '' links task step '' @ uuid_str i @ '' outside task '' @
                     uuid_str task_id)) s) (\<lambda>_ s.
         and_then (raise_when (oc_approval_id (ts_outcome step) \<noteq> Some (uuid_str (ex_approval_id execution)))
                    (TaskStepExecutionLinkageError
                    (prefix @ '' is inconsistent with linked task step '' @ uuid_str i)) s) (\<lambda>_ s.
         (Inr step, s))))))"

definition approval_belongs_to_task :: "uuid option \<Rightarrow> task_row \<Rightarrow> uuid \<Rightarrow> store \<Rightarrow> bool" where
  "approval_belongs_to_task current task a s \<longleftrightarrow>
     current = Some a \<or>
     (\<exists>step \<in> set (list_task_steps_for_task (tk_id task) s).
        oc_approval_id (ts_outcome step) = Some (uuid_str a))"

definition execution_belongs_to_task :: "uuid option \<Rightarrow> task_row \<Rightarrow> uuid \<Rightarrow> store \<Rightarrow> bool" where
  "execution_belongs_to_task current task x s \<longleftrightarrow>
     current = Some x \<or>
     (\<exists>step \<in> set (list_task_steps_for_task (tk_id task) s).
        oc_execution_id (ts_outcome step) = Some (uuid_str x))"

text \<open>
  The reference a request names, or the current one; \<open>noun\<close> is \<open>approval\<close> or
  \<open>tool execution\<close>, the two functions differ in it and in the lookups only.
\<close>

definition resolved_reference ::
  "string \<Rightarrow> (uuid \<Rightarrow> bool) \<Rightarrow> (uuid \<Rightarrow> bool) \<Rightarrow> string option \<Rightarrow> uuid option \<Rightarrow> task_row \<Rightarrow> bool \<Rightarrow>
    string \<Rightarrow> (string \<Rightarrow> gov_error) \<Rightarrow> gov_error + uuid option" where
  "resolved_reference noun belongs stored given current task require_existing missing err =
     bind_res
       (case given of
          None \<Rightarrow> if require_existing \<and> current = None then Inl (err missing) else Inr current
        | Some t \<Rightarrow>
            (case parse_uuid t of
               None \<Rightarrow> Inl (ValueError ''badly formed hexadecimal UUID string'')
             | Some u \<Rightarrow>
                 if \<not> belongs u
                 then Inl (err (noun @ '' '' @ uuid_str u @ '' does not belong to task '' @
                            uuid_str (tk_id task)))
                 else Inr (Some u)))
       (\<lambda>r. case r of
          None \<Rightarrow> Inr None
        | Some u \<Rightarrow>
            if \<not> stored u then Inl (err (noun @ '' '' @ uuid_str u @ '' was not found''))
            else Inr (Some u))"

definition validated_optional_approval_id ::
  "string option \<Rightarrow> uuid option \<Rightarrow> task_row \<Rightarrow> bool \<Rightarrow> string \<Rightarrow> (string \<Rightarrow> gov_error) \<Rightarrow> store \<Rightarrow>
    (gov_error + uuid option) \<times> store" where
  "validated_optional_approval_id given current task require_existing missing err s =
     (resolved_reference ''approval'' (\<lambda>a. approval_belongs_to_task current task a s)
        (\<lambda>a. get_approval_optional a s \<noteq> None) given current task require_existing missing err, s)"

definition validated_optional_execution_id ::
  "string option \<Rightarrow> uuid option \<Rightarrow> task_row \<Rightarrow> bool \<Rightarrow> string \<Rightarrow> (string \<Rightarrow> gov_error) \<Rightarrow> store \<Rightarrow>
    (gov_error + uuid option) \<times> store" where
  "validated_optional_execution_id given current task require_existing missing err s =
     (resolved_reference ''tool execution'' (\<lambda>x. execution_belongs_to_task current task x s)
        (\<lambda>x. get_tool_execution_optional x s \<noteq> None) given current task require_existing missing err, s)"

text \<open>The parent of a continuation must be the latest step, and the lineage its own references.\<close>

definition validated_continuation_parent_step ::
  "uuid \<Rightarrow> step_row \<Rightarrow> step_row list \<Rightarrow> uuid \<Rightarrow> gov_error + step_row" where
  "validated_continuation_parent_step task_id latest existing parent =
     (case find (\<lambda>x. uuid_str (ts_id x) = uuid_str parent) existing of
        None \<Rightarrow> Inl (TaskStepSequenceError (''task step '' @ uuid_str parent @
                  '' does not belong to task '' @ uuid_str task_id))
      | Some step \<Rightarrow>
          if uuid_str (ts_id step) \<noteq> uuid_str (ts_id latest)
          then Inl (TaskStepSequenceError (''task '' @ uuid_str task_id @
                 '' continuation must reference latest step '' @ uuid_str (ts_id latest) @
                 ''; received '' @ uuid_str parent))
          else Inr step)"

definition lineage_link :: "string \<Rightarrow> uuid option \<Rightarrow> string option \<Rightarrow> step_row \<Rightarrow> gov_error + unit" where
  "lineage_link noun source linked parent =
     (case source of
        None \<Rightarrow> Inr ()
      | Some u \<Rightarrow> raise_if (linked \<noteq> Some (uuid_str u))
          (TaskStepSequenceError (noun @ '' '' @ uuid_str u @ '' is not linked from parent step '' @
             uuid_str (ts_id parent))))"

definition validated_continuation_lineage ::
  "step_row \<Rightarrow> uuid option \<Rightarrow> uuid option \<Rightarrow> gov_error + dict" where
  "validated_continuation_lineage parent approval execution =
     bind_res (lineage_link ''approval'' approval (oc_approval_id (ts_outcome parent)) parent) (\<lambda>_.
     bind_res (lineage_link ''tool execution'' execution (oc_execution_id (ts_outcome parent)) parent) (\<lambda>_.
     Inr (lineage_json (Some (ts_id parent)) approval execution)))"

subsection \<open>Synchronisation of tasks and steps\<close>

text \<open>Each returns the updated row with its previous status.\<close>

definition sync_task_with_task_step_status ::
  "uuid \<Rightarrow> step_status \<Rightarrow> uuid option \<Rightarrow> uuid option \<Rightarrow> store \<Rightarrow>
    (gov_error + task_row \<times> task_status) \<times> store" where
  "sync_task_with_task_step_status task_id step_status approval execution s =
     and_then (require_row (ContinuityStoreInvariantError (''task '' @ uuid_str task_id @
                 '' disappeared before task-step lifecycle synchronization''))
                 (get_task_optional task_id s) s) (\<lambda>current s.
     let target = task_status_for_step_status step_status;
         latest = (if target = TaskExecuted \<or> target = TaskBlocked
                   then (case execution of None \<Rightarrow> tk_latest_execution_id current
                         | Some x \<Rightarrow> Some x)
                   else None)
     in and_then (update_task_status_optional task_id target approval latest s) (\<lambda>updated s.
        and_then (require_row (ContinuityStoreInvariantError (''task '' @ uuid_str task_id @
                    '' disappeared during task-step lifecycle synchronization'')) updated s) (\<lambda>row s.
        (Inr (row, tk_status current), s))))"

definition sync_task_with_approval ::
  "uuid \<Rightarrow> approval_status \<Rightarrow> store \<Rightarrow> (gov_error + task_row \<times> task_status) \<times> store" where
  "sync_task_with_approval a status s =
     and_then (require_row (ContinuityStoreInvariantError (''task for approval '' @ uuid_str a @
                 '' disappeared before lifecycle synchronization''))
                 (get_task_by_approval_optional a s) s) (\<lambda>current s.
     and_then (update_task_status_by_approval_optional a
                 (next_task_status_for_approval (tk_status current) status) s) (\<lambda>updated s.
     and_then (require_row (ContinuityStoreInvariantError (''task for approval '' @ uuid_str a @
                 '' disappeared during lifecycle synchronization'')) updated s) (\<lambda>row s.
     (Inr (row, tk_status current), s))))"

definition sync_task_step_with_approval ::
  "uuid \<Rightarrow> uuid option \<Rightarrow> approval_status \<Rightarrow> uuid \<Rightarrow> string \<Rightarrow> store \<Rightarrow>
    (gov_error + step_row \<times> step_status) \<times> store" where
  "sync_task_step_with_approval a step_id status trace tkind s =
     and_then (validate_linked_task_step_for_approval a step_id s) (\<lambda>(task, current) s.
     let o' = ts_outcome current;
         outcome = task_step_outcome_snapshot (oc_routing_decision o') (Some (uuid_str a))
                     (Some status) (oc_execution_id o') (oc_execution_status o') (oc_blocked_reason o')
     in and_then (update_task_step_optional (ts_id current)
                    (next_task_step_status_for_approval (ts_status current) status) outcome trace tkind s)
          (\<lambda>updated s.
        and_then (require_row (ContinuityStoreInvariantError (''linked task step '' @
                    uuid_str (ts_id current) @
                    '' disappeared during approval lifecycle synchronization'')) updated s) (\<lambda>row s.
        (Inr (row, ts_status current), s))))"

definition sync_task_with_execution ::
  "uuid \<Rightarrow> uuid \<Rightarrow> execution_status \<Rightarrow> store \<Rightarrow> (gov_error + task_row \<times> task_status) \<times> store" where
  "sync_task_with_execution a execution status s =
     and_then (require_row (ContinuityStoreInvariantError (''task for approval '' @ uuid_str a @
                 '' disappeared before execution synchronization''))
                 (get_task_by_approval_optional a s) s) (\<lambda>current s.
     and_then (update_task_execution_by_approval_optional a execution
                 (task_status_for_execution_status status) s) (\<lambda>updated s.
     and_then (require_row (ContinuityStoreInvariantError (''task for approval '' @ uuid_str a @
                 '' disappeared during execution synchronization'')) updated s) (\<lambda>row s.
     (Inr (row, tk_status current), s))))"

definition sync_task_step_with_execution ::
  "uuid \<Rightarrow> execution_row \<Rightarrow> uuid \<Rightarrow> string \<Rightarrow> store \<Rightarrow>
    (gov_error + step_row \<times> step_status) \<times> store" where
  "sync_task_step_with_execution task_id execution trace tkind s =
     and_then (validate_linked_task_step_for_execution task_id execution s) (\<lambda>current s.
     let o' = ts_outcome current;
         outcome = task_step_outcome_snapshot (oc_routing_decision o') (oc_approval_id o')
                     (oc_approval_status o') (Some (uuid_str (ex_id execution)))
                     (Some (ex_status execution)) (er_reason (ex_result execution))
     in and_then (update_task_step_optional (ts_id current)
                    (task_step_status_for_execution_status (ex_status execution)) outcome trace tkind s)
          (\<lambda>updated s.
        and_then (require_row (ContinuityStoreInvariantError (''linked task step '' @
                    uuid_str (ts_id current) @
                    '' disappeared during execution lifecycle synchronization'')) updated s) (\<lambda>row s.
        (Inr (row, ts_status current), s))))"

subsection \<open>Creation for a governed request\<close>

record task_create_input =
  tkc_thread_id :: uuid
  tkc_tool_id :: uuid
  tkc_status :: task_status
  tkc_request :: routing_request
  tkc_tool :: tool_record
  tkc_latest_approval_id :: "uuid option"
  tkc_latest_execution_id :: "uuid option"

record step_create_input =
  sc_task_id :: uuid
  sc_sequence_no :: int
  sc_kind :: step_kind
  sc_status :: step_status
  sc_request :: routing_request
  sc_outcome :: outcome_snapshot
  sc_trace_id :: uuid
  sc_trace_kind :: string

definition create_task_for_governed_request ::
  "task_create_input \<Rightarrow> store \<Rightarrow> (gov_error + task_row) \<times> store" where
  "create_task_for_governed_request req s =
     create_task (tkc_thread_id req) (tkc_tool_id req) (tkc_status req) (tkc_request req)
       (tkc_tool req) (tkc_latest_approval_id req) (tkc_latest_execution_id req) s"

definition create_task_step_for_governed_request ::
  "step_create_input \<Rightarrow> store \<Rightarrow> (gov_error + step_row) \<times> store" where
  "create_task_step_for_governed_request req s =
     create_task_step (sc_task_id req) (sc_sequence_no req) None None None (sc_kind req)
       (sc_status req) (sc_request req) (sc_outcome req) (sc_trace_id req) (sc_trace_kind req) s"

subsection \<open>Continuation and transition\<close>

record lineage_input =
  li_parent_step_id :: uuid
  li_source_approval_id :: "uuid option"
  li_source_execution_id :: "uuid option"

record next_step_input =
  nx_task_id :: uuid
  nx_kind :: step_kind
  nx_status :: step_status
  nx_request :: routing_request
  nx_outcome :: outcome_snapshot
  nx_lineage :: lineage_input

record transition_input =
  ti_task_step_id :: uuid
  ti_status :: step_status
  ti_outcome :: outcome_snapshot

text \<open>\<open>except psycopg.IntegrityError as exc: raise e from exc\<close>.\<close>

definition on_integrity_error :: "gov_error \<Rightarrow> (gov_error + 'a) \<times> 's \<Rightarrow> (gov_error + 'a) \<times> 's" where
  "on_integrity_error e m =
     (case m of (Inl (IntegrityError n), s) \<Rightarrow> (Inl e, s) | _ \<Rightarrow> m)"

lemma on_integrity_Inr [simp]: "on_integrity_error e m = (Inr x, s) \<longleftrightarrow> m = (Inr x, s)"
  by (cases m) (auto simp: on_integrity_error_def split: sum.splits gov_error.splits)

definition continuation_limits :: "step_row \<Rightarrow> dict" where
  "continuation_limits parent =
     [(''order'', str_list TASK_STEP_LIST_ORDER),
      (''appendable_statuses'', str_list [''blocked'', ''denied'', ''executed'']),
      (''initial_statuses'', str_list [''approved'', ''created'', ''denied'']),
      (''parent_step_id'', JStr (uuid_str (ts_id parent))),
      (''parent_sequence_no'', JInt (ts_sequence_no parent))]"

definition continuation_trace_events ::
  "task_row \<Rightarrow> step_row \<Rightarrow> next_step_input \<Rightarrow> uuid option \<Rightarrow> uuid option \<Rightarrow> step_row \<Rightarrow> step_row list \<Rightarrow>
    task_row \<times> task_status \<Rightarrow> (string \<times> dict) list" where
  "continuation_trace_events task parent req approval execution created items transition =
     (let parent_fields =
        [(''task_id'', JStr (uuid_str (tk_id task))),
         (''parent_task_step_id'', JStr (uuid_str (ts_id parent))),
         (''parent_sequence_no'', JInt (ts_sequence_no parent)),
         (''parent_status'', JStr (step_status_text (ts_status parent)))]
      in [(''task.step.continuation.request'',
            parent_fields @
            [(''requested_kind'', JStr (step_kind_text (nx_kind req))),
             (''requested_status'', JStr (step_status_text (nx_status req))),
             (''requested_source_approval_id'', opt_uuid approval),
             (''requested_source_execution_id'', opt_uuid execution)]),
          (''task.step.continuation.lineage'',
            parent_fields @
            [(''source_approval_id'', opt_uuid approval), (''source_execution_id'', opt_uuid execution)]),
          (''task.step.continuation.summary'',
            [(''task_id'', JStr (uuid_str (tk_id task))), (''task_step_id'', JStr (uuid_str (ts_id created))),
             (''latest_sequence_no'', JInt (ts_sequence_no created)),
             (''next_sequence_no'', JInt (next_sequence_no items)),
             (''append_allowed'', JBool (append_allowed items)),
             (''lineage'', JObj (step_lineage created))])] @
         task_lifecycle_trace_events (fst transition) (Some (snd transition)) ''task_step_continuation'' @
         task_step_lifecycle_trace_events created None ''task_step_continuation'')"

definition step_response ::
  "task_row \<Rightarrow> step_row \<Rightarrow> dict \<Rightarrow> uuid \<Rightarrow> (string \<times> dict) list \<Rightarrow> dict" where
  "step_response task step sequencing trace es =
     [(''task'', JObj (serialize_task_row task)), (''task_step'', JObj (serialize_task_step_row step)),
      (''sequencing'', JObj sequencing), (''trace'', JObj (trace_summary trace es))]"

text \<open>The references of the request and of its outcome, checked in the order of the code.\<close>

definition continuation_links ::
  "next_step_input \<Rightarrow> task_row \<Rightarrow> step_row \<Rightarrow> store \<Rightarrow>
    (gov_error + (uuid option \<times> uuid option) \<times> (uuid option \<times> uuid option)) \<times> store" where
  "continuation_links req task parent s =
     (let li = nx_lineage req; oc = nx_outcome req
      in and_then (validated_optional_approval_id (opt_uuid_str (li_source_approval_id li)) None task
                     False [] TaskStepSequenceError s) (\<lambda>source_approval s.
         and_then (validated_optional_execution_id (opt_uuid_str (li_source_execution_id li)) None task
                     False [] TaskStepSequenceError s) (\<lambda>source_execution s.
         and_then (validated_continuation_lineage parent source_approval source_execution, s) (\<lambda>_ s.
         and_then (validated_optional_approval_id (oc_approval_id oc) None task
                     False [] TaskStepSequenceError s) (\<lambda>linked_approval s.
         and_then (validated_optional_execution_id (oc_execution_id oc) None task
                     False [] TaskStepSequenceError s) (\<lambda>linked_execution s.
         (Inr ((source_approval, source_execution), (linked_approval, linked_execution)), s)))))))"

text \<open>The guards on the steps a task has and on the status of the new one.\<close>

definition continuation_parent ::
  "next_step_input \<Rightarrow> step_row list \<Rightarrow> store \<Rightarrow> (gov_error + step_row) \<times> store" where
  "continuation_parent req existing s =
     (let task = ''task '' @ uuid_str (nx_task_id req); latest = last existing
      in and_then (raise_when (existing = []) (TaskStepSequenceError (task @
                    '' has no existing steps and cannot append a next step'')) s) (\<lambda>_ s.
         and_then (raise_when (ts_status latest \<notin> set TASK_STEP_APPENDABLE_STATUSES)
                    (TaskStepSequenceError (task @ '' latest step '' @ uuid_str (ts_id latest) @
                      '' is '' @ step_status_text (ts_status latest) @
                      '' and cannot append a next step'')) s) (\<lambda>_ s.
         and_then (raise_when (nx_status req \<notin> set TASK_STEP_INITIAL_STATUSES)
                    (TaskStepSequenceError (''new task step for '' @ task @
                      '' must start in one of approved, created, denied; received '' @
                      step_status_text (nx_status req))) s) (\<lambda>_ s.
         (validated_continuation_parent_step (nx_task_id req) latest existing
            (li_parent_step_id (nx_lineage req)), s)))))"

definition create_next_task_step_record ::
  "next_step_input \<Rightarrow> store \<Rightarrow> (gov_error + dict) \<times> store" where
  "create_next_task_step_record req s =
     and_then (require_row (task_not_found (nx_task_id req)) (get_task_optional (nx_task_id req) s) s) (\<lambda>task s.
     let existing = list_task_steps_for_task (nx_task_id req) s in
     and_then (continuation_parent req existing s) (\<lambda>parent s.
     and_then (continuation_links req task parent s) (\<lambda>(source, linked) s.
     and_then (create_trace (tk_user_id task) (tk_thread_id task) ''task.step.continuation''
                 ''task_step_continuation_v0'' ''completed'' (continuation_limits parent) s) (\<lambda>trace s.
     and_then (on_integrity_error (TaskStepSequenceError (''task '' @ uuid_str (nx_task_id req) @
                   '' next-step creation conflicted with a concurrent append''))
                 (create_task_step (nx_task_id req) (ts_sequence_no (last existing) + 1)
                   (Some (li_parent_step_id (nx_lineage req))) (fst source) (snd source) (nx_kind req)
                   (nx_status req) (nx_request req) (nx_outcome req) (tc_id trace)
                   ''task.step.continuation'' s)) (\<lambda>created s.
     and_then (sync_task_with_task_step_status (nx_task_id req) (nx_status req)
                 (if nx_status req = StepCreated \<and> fst linked = None then fst source else fst linked)
                 (snd linked) s) (\<lambda>transition s.
     let items = existing @ [created];
         es = continuation_trace_events task parent req (fst source) (snd source) created items transition;
         s = append_trace_events (tc_id trace) es s
     in (Inr (step_response (fst transition) created
                (task_step_sequencing_summary (tk_id task) items) (tc_id trace) es), s)))))))"

definition transition_trace_events ::
  "task_row \<Rightarrow> step_row \<Rightarrow> step_status \<Rightarrow> transition_input \<Rightarrow> task_row \<times> task_status \<Rightarrow>
    (string \<times> dict) list" where
  "transition_trace_events task updated previous req transition =
     (let step_fields =
        [(''task_id'', JStr (uuid_str (tk_id task))), (''task_step_id'', JStr (uuid_str (ts_id updated))),
         (''sequence_no'', JInt (ts_sequence_no updated))]
      in [(''task.step.transition.request'',
            step_fields @
            [(''previous_status'', JStr (step_status_text previous)),
             (''requested_status'', JStr (step_status_text (ti_status req)))]),
          (''task.step.transition.state'',
            step_fields @
            [(''previous_status'', JStr (step_status_text previous)),
             (''current_status'', JStr (step_status_text (ts_status updated))),
             (''allowed_next_statuses'', status_texts (allowed_task_step_transitions previous)),
             (''trace'', JObj (step_trace updated))]),
          (''task.step.transition.summary'',
            step_fields @
            [(''final_status'', JStr (step_status_text (ts_status updated))),
             (''parent_task_status'', JStr (task_status_text (tk_status (fst transition)))),
             (''trace'', JObj (step_trace updated))])] @
         task_lifecycle_trace_events (fst transition) (Some (snd transition)) ''task_step_transition'' @
         task_step_lifecycle_trace_events updated (Some previous) ''task_step_transition'')"

text \<open>The guards of a transition: the step is the latest, and the status graph has the edge.\<close>

definition transition_refused :: "transition_input \<Rightarrow> step_row \<Rightarrow> string" where
  "transition_refused req step =
     (let next_statuses = allowed_task_step_transitions (ts_status step)
      in ''task step '' @ uuid_str (ti_task_step_id req) @ '' is '' @ step_status_text (ts_status step) @
         '' and cannot transition to '' @ step_status_text (ti_status req) @ ''; allowed: '' @
         (if next_statuses = [] then ''no further statuses''
          else join_with '', '' (map step_status_text next_statuses)))"

definition transition_allowed ::
  "transition_input \<Rightarrow> step_row \<Rightarrow> step_row list \<Rightarrow> store \<Rightarrow> (gov_error + unit) \<times> store" where
  "transition_allowed req step existing s =
     and_then (raise_when (existing = []) (ContinuityStoreInvariantError (''task '' @
                 uuid_str (ts_task_id step) @ '' has no visible steps during transition'')) s) (\<lambda>_ s.
     and_then (raise_when (uuid_str (ts_id (last existing)) \<noteq> uuid_str (ts_id step))
                 (TaskStepTransitionError (''task step '' @ uuid_str (ti_task_step_id req) @
                  '' is not the latest step on task '' @ uuid_str (ts_task_id step))) s) (\<lambda>_ s.
     raise_when (ti_status req \<notin> set (allowed_task_step_transitions (ts_status step)))
       (TaskStepTransitionError (transition_refused req step)) s))"

definition transition_links ::
  "transition_input \<Rightarrow> task_row \<Rightarrow> store \<Rightarrow> (gov_error + uuid option \<times> uuid option) \<times> store" where
  "transition_links req task s =
     (let prefix = ''task '' @ uuid_str (tk_id task) @ '' cannot reflect ''
      in and_then (validated_optional_approval_id (oc_approval_id (ti_outcome req))
                     (tk_latest_approval_id task) task (ti_status req = StepCreated)
                     (prefix @ ''created without an approval link'') TaskStepTransitionError s) (\<lambda>approval s.
         and_then (validated_optional_execution_id (oc_execution_id (ti_outcome req))
                     (tk_latest_execution_id task) task
                     (ti_status req = StepExecuted \<or> ti_status req = StepBlocked)
                     (prefix @ step_status_text (ti_status req) @ '' without an existing execution link'')
                     TaskStepTransitionError s) (\<lambda>execution s.
         (Inr (approval, execution), s))))"

definition transition_task_step_record ::
  "transition_input \<Rightarrow> store \<Rightarrow> (gov_error + dict) \<times> store" where
  "transition_task_step_record req s =
     and_then (require_row (TaskStepNotFoundError (''task step '' @ uuid_str (ti_task_step_id req) @
                 '' was not found'')) (get_task_step_optional (ti_task_step_id req) s) s) (\<lambda>step s.
     and_then (require_row (ContinuityStoreInvariantError (''task '' @ uuid_str (ts_task_id step) @
                 '' disappeared before task-step transition''))
                 (get_task_optional (ts_task_id step) s) s) (\<lambda>task s.
     let existing = list_task_steps_for_task (ts_task_id step) s; previous = ts_status step in
     and_then (transition_allowed req step existing s) (\<lambda>_ s.
     and_then (transition_links req task s) (\<lambda>(approval, execution) s.
     and_then (create_trace (tk_user_id task) (tk_thread_id task) ''task.step.transition''
                 ''task_step_transition_v0'' ''completed''
                 [(''order'', str_list TASK_STEP_LIST_ORDER),
                  (''status_graph'', JObj (map (\<lambda>(st, next_statuses).
                     (step_status_text st, status_texts next_statuses)) TASK_STEP_STATUS_GRAPH)),
                  (''requested_status'', JStr (step_status_text (ti_status req)))] s) (\<lambda>trace s.
     and_then (update_task_step_for_task_sequence_optional (ts_task_id step) (ts_sequence_no step)
                 (ti_status req) (ti_outcome req) (tc_id trace) ''task.step.transition'' s) (\<lambda>found s.
     and_then (require_row (ContinuityStoreInvariantError (''task step '' @
                 uuid_str (ti_task_step_id req) @ '' disappeared during transition'')) found s) (\<lambda>updated s.
     and_then (sync_task_with_task_step_status (ts_task_id step) (ti_status req) approval execution s)
       (\<lambda>transition s.
     let items = butlast existing @ [updated];
         es = transition_trace_events task updated previous req transition;
         s = append_trace_events (tc_id trace) es s
     in (Inr (step_response (fst transition) updated
                (task_step_sequencing_summary (tk_id task) items) (tc_id trace) es), s)))))))))"

subsection \<open>Reading\<close>

definition list_task_records :: "store \<Rightarrow> dict" where
  "list_task_records s =
     (let items = map (\<lambda>r. JObj (serialize_task_row r)) (list_tasks s)
      in [(''items'', JList items),
          (''summary'', JObj [(''total_count'', JInt (int (length items))),
                              (''order'', str_list TASK_LIST_ORDER)])])"

definition get_task_record :: "uuid \<Rightarrow> store \<Rightarrow> (gov_error + dict) \<times> store" where
  "get_task_record i s =
     and_then (require_task_exists i s) (\<lambda>task s. (Inr [(''task'', JObj (serialize_task_row task))], s))"

definition list_task_step_records :: "uuid \<Rightarrow> store \<Rightarrow> (gov_error + dict) \<times> store" where
  "list_task_step_records i s =
     and_then (require_task_exists i s) (\<lambda>task s.
     let items = list_task_steps_for_task i s
     in (Inr [(''items'', JList (map (\<lambda>r. JObj (serialize_task_step_row r)) items)),
              (''summary'', JObj (task_step_sequencing_summary (tk_id task) items))], s))"

definition get_task_step_record :: "uuid \<Rightarrow> store \<Rightarrow> (gov_error + dict) \<times> store" where
  "get_task_step_record i s =
     and_then (require_row (TaskStepNotFoundError (''task step '' @ uuid_str i @ '' was not found''))
                 (get_task_step_optional i s) s)
       (\<lambda>step s. (Inr [(''task_step'', JObj (serialize_task_step_row step))], s))"

end
