(* ===== verification/Policy_Engine.thy ===== *)
theory Policy_Engine
  imports Gov_Tables
begin

text \<open>
  \<open>policy.py\<close>: consents, policies and the evaluation of a request against them.  A request is
  denied unless the first matching active policy, in the order of the policy list, has all the
  consents it requires.
\<close>

subsection \<open>Equality of JSON values\<close>

text \<open>
  Python's \<open>==\<close>: booleans are numbers, numbers compare by value, dictionaries regardless of
  order.
\<close>

fun json_number :: "json \<Rightarrow> rat option option" where
  "json_number (JBool b) = Some (Some (if b then 1 else 0))"
| "json_number (JInt i) = Some (Some (of_int i))"
| "json_number (JFloat t v) = Some v"
| "json_number _ = None"

fun json_text :: "json \<Rightarrow> string" where
  "json_text (JFloat t v) = t"
| "json_text _ = []"

definition same_number :: "json \<Rightarrow> json \<Rightarrow> bool" where
  "same_number a b \<longleftrightarrow>
     (case (json_number a, json_number b) of
        (Some (Some x), Some (Some y)) \<Rightarrow> x = y
      | (Some None, Some None) \<Rightarrow> json_text a = json_text b \<and> json_text a \<noteq> ''nan''
      | _ \<Rightarrow> False)"

function py_eq :: "json \<Rightarrow> json \<Rightarrow> bool" where
  "py_eq a b =
     (case (a, b) of
        (JNull, JNull) \<Rightarrow> True
      | (JStr s, JStr t) \<Rightarrow> s = t
      | (JList xs, JList ys) \<Rightarrow>
          length xs = length ys \<and> (\<forall>p \<in> set (zip xs ys). py_eq (fst p) (snd p))
      | (JObj d, JObj e) \<Rightarrow>
          length d = length e \<and>
          (\<forall>p \<in> set d. case map_of e (fst p) of None \<Rightarrow> False | Some w \<Rightarrow> py_eq (snd p) w)
      | _ \<Rightarrow> same_number a b)"
  by pat_completeness auto

lemma size_member: "x \<in> set xs \<Longrightarrow> size (x :: json) < Suc (size_list size xs)"
  by (induction xs) auto

lemma size_entry:
  "p \<in> set d \<Longrightarrow> size (snd p :: json) < Suc (size_list (size_prod (\<lambda>x. 0) size) d)"
  by (induction d) auto

lemma size_zip_fst: "p \<in> set (zip xs ys) \<Longrightarrow> size (fst p :: json) < Suc (size_list size xs)"
  by (cases p) (auto dest: set_zip_leftD size_member)

termination py_eq
  by (relation "measure (\<lambda>(a, b). size a)")
    (auto dest: size_entry size_zip_fst [of "(x, y)" for x y, simplified])

declare py_eq.simps [simp del]

subsection \<open>Records and constants\<close>

definition CONSENT_LIST_ORDER :: "string list" where
  "CONSENT_LIST_ORDER = [''consent_key_asc'', ''created_at_asc'', ''id_asc'']"

definition POLICY_LIST_ORDER :: "string list" where
  "POLICY_LIST_ORDER = [''priority_asc'', ''created_at_asc'', ''id_asc'']"

definition DEFAULT_AGENT_PROFILE_ID :: string where
  "DEFAULT_AGENT_PROFILE_ID = ''assistant_default''"

definition quoted :: "string \<Rightarrow> string" where
  "quoted t = CHR 0x27 # t @ [CHR 0x27]"

record policy_request_input =
  pe_thread_id :: uuid
  pe_action :: string
  pe_scope :: string
  pe_attributes :: dict

record policy_reason =
  pr_code :: string
  pr_source :: string
  pr_message :: string
  pr_policy_id :: "string option"
  pr_consent_key :: "string option"

record policy_context =
  px_active_policies :: "policy_row list"
  px_consents :: "(string \<times> consent_row) list"

record core_decision =
  cd_decision :: policy_effect
  cd_matched :: "policy_row option"
  cd_reasons :: "policy_reason list"

definition reason_json :: "policy_reason \<Rightarrow> json" where
  "reason_json r =
     JObj [(''code'', JStr (pr_code r)), (''source'', JStr (pr_source r)),
           (''message'', JStr (pr_message r)), (''policy_id'', opt_str (pr_policy_id r)),
           (''consent_key'', opt_str (pr_consent_key r))]"

definition serialize_consent :: "consent_row \<Rightarrow> dict" where
  "serialize_consent c =
     [(''id'', JStr (uuid_str (cn_id c))), (''consent_key'', JStr (cn_consent_key c)),
      (''status'', JStr (consent_status_text (cn_status c))), (''metadata'', JObj (cn_metadata c)),
      (''created_at'', JStr (isoformat (cn_created_at c))),
      (''updated_at'', JStr (isoformat (cn_updated_at c)))]"

definition serialize_policy :: "policy_row \<Rightarrow> dict" where
  "serialize_policy p =
     [(''id'', JStr (uuid_str (po_id p))), (''agent_profile_id'', opt_str (po_agent_profile_id p)),
      (''name'', JStr (po_name p)), (''action'', JStr (po_action p)), (''scope'', JStr (po_scope p)),
      (''effect'', JStr (policy_effect_text (po_effect p))), (''priority'', JInt (po_priority p)),
      (''active'', JBool (po_active p)), (''conditions'', JObj (po_conditions p)),
      (''required_consents'', str_list (po_required_consents p)),
      (''created_at'', JStr (isoformat (po_created_at p))),
      (''updated_at'', JStr (isoformat (po_updated_at p)))]"

subsection \<open>Records of consents and policies\<close>

text \<open>\<open>_dedupe_required_consents\<close>: the loop over the keys with the set of those seen.\<close>

fun dedupe_loop :: "string list \<Rightarrow> string list \<Rightarrow> string list \<Rightarrow> string list" where
  "dedupe_loop [] seen deduped = deduped"
| "dedupe_loop (k # ks) seen deduped =
     (if k \<in> set seen then dedupe_loop ks seen deduped
      else dedupe_loop ks (k # seen) (deduped @ [k]))"

definition dedupe_required_consents :: "string list \<Rightarrow> string list" where
  "dedupe_required_consents ks = dedupe_loop ks [] []"

definition build_reason ::
  "string \<Rightarrow> string \<Rightarrow> string \<Rightarrow> uuid option \<Rightarrow> string option \<Rightarrow> policy_reason" where
  "build_reason code source message policy_id consent_key =
     \<lparr>pr_code = code, pr_source = source, pr_message = message,
      pr_policy_id = opt_uuid_str policy_id, pr_consent_key = consent_key\<rparr>"

definition upsert_consent_record ::
  "string \<Rightarrow> consent_status \<Rightarrow> dict \<Rightarrow> store \<Rightarrow> (gov_error + dict) \<times> store" where
  "upsert_consent_record k status metadata s =
     (case get_consent_by_key_optional k s of
        None \<Rightarrow>
          and_then (create_consent k status metadata s) (\<lambda>created s.
            (Inr [(''consent'', JObj (serialize_consent created)), (''write_mode'', JStr ''created'')], s))
      | Some existing \<Rightarrow>
          and_then (update_consent (cn_id existing) status metadata s) (\<lambda>updated s.
            (Inr [(''consent'', JObj (serialize_consent updated)), (''write_mode'', JStr ''updated'')], s)))"

definition list_consent_records :: "store \<Rightarrow> dict" where
  "list_consent_records s =
     (let items = map (\<lambda>c. JObj (serialize_consent c)) (list_consents s)
      in [(''items'', JList items),
          (''summary'', JObj [(''total_count'', JInt (int (length items))),
                              (''order'', str_list CONSENT_LIST_ORDER)])])"

record policy_create_input =
  pc_name :: string
  pc_action :: string
  pc_scope :: string
  pc_effect :: policy_effect
  pc_priority :: int
  pc_active :: bool
  pc_conditions :: dict
  pc_required_consents :: "string list"
  pc_agent_profile_id :: "string option"

definition create_policy_record :: "policy_create_input \<Rightarrow> store \<Rightarrow> (gov_error + dict) \<times> store" where
  "create_policy_record p s =
     and_then (create_policy (pc_agent_profile_id p) (pc_name p) (pc_action p) (pc_scope p)
                 (pc_effect p) (pc_priority p) (pc_active p) (pc_conditions p)
                 (dedupe_required_consents (pc_required_consents p)) s)
       (\<lambda>created s. (Inr [(''policy'', JObj (serialize_policy created))], s))"

definition list_policy_records :: "store \<Rightarrow> dict" where
  "list_policy_records s =
     (let items = map (\<lambda>p. JObj (serialize_policy p)) (list_policies s)
      in [(''items'', JList items),
          (''summary'', JObj [(''total_count'', JInt (int (length items))),
                              (''order'', str_list POLICY_LIST_ORDER)])])"

definition get_policy_record :: "uuid \<Rightarrow> store \<Rightarrow> gov_error + dict" where
  "get_policy_record i s =
     (case get_policy_optional i s of
        None \<Rightarrow> Inl (PolicyNotFoundError (''policy '' @ uuid_str i @ '' was not found''))
      | Some p \<Rightarrow> Inr [(''policy'', JObj (serialize_policy p))])"

subsection \<open>Evaluation\<close>

definition policy_matches :: "policy_row \<Rightarrow> policy_request_input \<Rightarrow> bool" where
  "policy_matches p req \<longleftrightarrow>
     po_action p = pe_action req \<and> po_scope p = pe_scope req \<and>
     (\<forall>(k, expected) \<in> set (po_conditions p).
        case map_of (pe_attributes req) k of None \<Rightarrow> False | Some v \<Rightarrow> py_eq v expected)"

text \<open>\<open>{consent["consent_key"]: consent for consent in store.list_consents()}\<close>.\<close>

definition consents_by_key :: "consent_row list \<Rightarrow> (string \<times> consent_row) list" where
  "consents_by_key rows = foldl (\<lambda>d c. AList.update (cn_consent_key c) c d) [] rows"

definition load_policy_evaluation_context :: "string \<Rightarrow> store \<Rightarrow> policy_context" where
  "load_policy_evaluation_context profile s =
     \<lparr>px_active_policies = list_active_policies (Some profile) s,
      px_consents = consents_by_key (list_consents s)\<rparr>"

text \<open>The loop over the required consents: a reason for each that is missing or not granted.\<close>

fun consent_reasons :: "policy_context \<Rightarrow> policy_row \<Rightarrow> string list \<Rightarrow> policy_reason list" where
  "consent_reasons ctx p [] = []"
| "consent_reasons ctx p (k # ks) =
     (case map_of (px_consents ctx) k of
        None \<Rightarrow>
          build_reason ''consent_missing'' ''consent''
            (''Required consent '' @ quoted k @ '' is missing.'') (Some (po_id p)) (Some k)
          # consent_reasons ctx p ks
      | Some c \<Rightarrow>
          if cn_status c \<noteq> ConsentGranted
          then build_reason ''consent_revoked'' ''consent''
                 (''Required consent '' @ quoted k @ '' is not granted (status='' @
                  consent_status_text (cn_status c) @ '').'') (Some (po_id p)) (Some k)
               # consent_reasons ctx p ks
          else consent_reasons ctx p ks)"

fun effect_code :: "policy_effect \<Rightarrow> string" where
  "effect_code EffectAllow = ''policy_effect_allow''"
| "effect_code EffectDeny = ''policy_effect_deny''"
| "effect_code EffectRequireApproval = ''policy_effect_require_approval''"

definition evaluate_policy_against_context ::
  "policy_context \<Rightarrow> policy_request_input \<Rightarrow> core_decision" where
  "evaluate_policy_against_context ctx req =
     (case find (\<lambda>p. policy_matches p req) (px_active_policies ctx) of
        None \<Rightarrow>
          \<lparr>cd_decision = EffectDeny, cd_matched = None,
           cd_reasons = [build_reason ''no_matching_policy'' ''system''
             ''No active policy matched the requested action, scope, and attributes.'' None None]\<rparr>
      | Some p \<Rightarrow>
          let matched = build_reason ''matched_policy'' ''policy''
                (''Matched policy '' @ quoted (po_name p) @ '' at priority '' @
                 int_str (po_priority p) @ ''.'') (Some (po_id p)) None;
              missing = consent_reasons ctx p (po_required_consents p)
          in if missing \<noteq> []
             then \<lparr>cd_decision = EffectDeny, cd_matched = Some p, cd_reasons = matched # missing\<rparr>
             else \<lparr>cd_decision = po_effect p, cd_matched = Some p,
                   cd_reasons = [matched, build_reason (effect_code (po_effect p)) ''policy''
                     (''Policy effect resolved the decision to '' @
                      quoted (policy_effect_text (po_effect p)) @ ''.'') (Some (po_id p)) None]\<rparr>)"

definition matched_policy_id :: "core_decision \<Rightarrow> json" where
  "matched_policy_id d = opt_uuid (map_option po_id (cd_matched d))"

definition evaluation_trace_events ::
  "policy_context \<Rightarrow> policy_request_input \<Rightarrow> core_decision \<Rightarrow> (string \<times> dict) list" where
  "evaluation_trace_events ctx req d =
     [(''policy.evaluate.request'',
        [(''thread_id'', JStr (uuid_str (pe_thread_id req))), (''action'', JStr (pe_action req)),
         (''scope'', JStr (pe_scope req)), (''attributes'', JObj (pe_attributes req))]),
      (''policy.evaluate.order'',
        [(''order'', str_list POLICY_LIST_ORDER),
         (''policy_ids'', str_list (map (\<lambda>p. uuid_str (po_id p)) (px_active_policies ctx)))]),
      (''policy.evaluate.decision'',
        [(''decision'', JStr (policy_effect_text (cd_decision d))),
         (''matched_policy_id'', matched_policy_id d),
         (''reasons'', JList (map reason_json (cd_reasons d))),
         (''evaluated_policy_count'', JInt (int (length (px_active_policies ctx)))),
         (''consent_states'', JObj (map (\<lambda>(k, c).
            (k, JObj [(''status'', JStr (consent_status_text (cn_status c))),
                      (''updated_at'', JStr (isoformat (cn_updated_at c)))])) (px_consents ctx)))])]"

definition evaluate_policy_request ::
  "policy_request_input \<Rightarrow> store \<Rightarrow> (gov_error + dict) \<times> store" where
  "evaluate_policy_request req s =
     and_then (require_row (PolicyEvaluationValidationError
                 ''thread_id must reference an existing thread owned by the user'')
                 (get_thread_optional (pe_thread_id req) s) s) (\<lambda>thread s.
     let ctx = load_policy_evaluation_context (th_agent_profile_id thread) s;
         d = evaluate_policy_against_context ctx req
     in and_then (create_trace (th_user_id thread) (th_id thread) ''policy.evaluate''
                    ''policy_evaluation_v0'' ''completed''
                    [(''order'', str_list POLICY_LIST_ORDER),
                     (''active_policy_count'', JInt (int (length (px_active_policies ctx)))),
                     (''consent_count'', JInt (int (length (px_consents ctx))))] s) (\<lambda>trace s.
        let es = evaluation_trace_events ctx req d;
            s = append_trace_events (tc_id trace) es s
        in (Inr [(''decision'', JStr (policy_effect_text (cd_decision d))),
                 (''matched_policy'', (case cd_matched d of None \<Rightarrow> JNull
                                       | Some p \<Rightarrow> JObj (serialize_policy p))),
                 (''reasons'', JList (map reason_json (cd_reasons d))),
                 (''evaluation'', JObj
                    [(''action'', JStr (pe_action req)), (''scope'', JStr (pe_scope req)),
                     (''evaluated_policy_count'', JInt (int (length (px_active_policies ctx)))),
                     (''matched_policy_id'', matched_policy_id d),
                     (''order'', str_list POLICY_LIST_ORDER)]),
                 (''trace'', JObj (trace_summary (tc_id trace) es))], s)))"

subsection \<open>Properties\<close>

lemma remdups_snoc: "remdups (xs @ [x]) = remdups (filter (\<lambda>y. y \<noteq> x) xs) @ [x]"
  by (induction xs) auto

lemma dict_fromkeys_Cons: "dict_fromkeys (x # xs) = x # dict_fromkeys (filter (\<lambda>y. y \<noteq> x) xs)"
  by (simp add: dict_fromkeys_def remdups_snoc rev_filter)

lemma dedupe_loop_append:
  "set seen = set deduped \<Longrightarrow>
     dedupe_loop ks seen deduped = deduped @ dict_fromkeys (filter (\<lambda>k. k \<notin> set deduped) ks)"
proof (induction ks arbitrary: seen deduped)
  case Nil
  then show ?case by simp
next
  case (Cons k ks)
  show ?case
  proof (cases "k \<in> set seen")
    case True
    with Cons show ?thesis by simp
  next
    case False
    then have "dedupe_loop (k # ks) seen deduped = dedupe_loop ks (k # seen) (deduped @ [k])" by simp
    also have "\<dots> = (deduped @ [k]) @ dict_fromkeys (filter (\<lambda>x. x \<notin> set (deduped @ [k])) ks)"
      by (rule Cons.IH) (simp add: Cons.prems)
    also have "\<dots> = deduped @ dict_fromkeys (k # filter (\<lambda>x. x \<notin> set deduped) ks)"
      by (simp add: dict_fromkeys_Cons conj_commute)
    finally show ?thesis using False Cons.prems by simp
  qed
qed

lemma dedupe_is_dict_fromkeys: "dedupe_required_consents ks = dict_fromkeys ks"
  by (simp add: dedupe_required_consents_def dedupe_loop_append)

definition consent_granted :: "policy_context \<Rightarrow> string \<Rightarrow> bool" where
  "consent_granted ctx k =
     (case map_of (px_consents ctx) k of None \<Rightarrow> False | Some c \<Rightarrow> cn_status c = ConsentGranted)"

lemma consent_reasons_empty: "consent_reasons ctx p ks = [] \<longleftrightarrow> list_all (consent_granted ctx) ks"
  by (induction ks) (auto simp: consent_granted_def split: option.split)

text \<open>
  A request is denied unless an active policy matches it; the first match decides, with its own
  effect exactly when every consent it requires is present and granted, and with a denial
  otherwise.
\<close>
theorem policy_decision_exact:
  "cd_decision (evaluate_policy_against_context ctx req) =
     (case find (\<lambda>p. policy_matches p req) (px_active_policies ctx) of
        None \<Rightarrow> EffectDeny
      | Some p \<Rightarrow> if list_all (consent_granted ctx) (po_required_consents p)
                 then po_effect p else EffectDeny)"
  by (auto simp: evaluate_policy_against_context_def Let_def consent_reasons_empty
      split: option.split)

lemma policy_decision_of:
  "find (\<lambda>p. policy_matches p req) (px_active_policies ctx) = Some p \<Longrightarrow>
   \<not> list_all (consent_granted ctx) (po_required_consents p) \<Longrightarrow>
   cd_decision (evaluate_policy_against_context ctx req) = EffectDeny"
  by (auto simp: evaluate_policy_against_context_def Let_def consent_reasons_empty)

lemma matched_is_first:
  "cd_matched (evaluate_policy_against_context ctx req) =
     find (\<lambda>p. policy_matches p req) (px_active_policies ctx)"
  by (auto simp: evaluate_policy_against_context_def Let_def split: option.split)

lemma find_sorted_least:
  assumes "sorted (map f xs)" "find P xs = Some x" "y \<in> set xs" "P y"
  shows "f x \<le> f y"
  using assms by (induction xs) (auto split: if_splits)

definition policy_in_force :: "string \<Rightarrow> policy_request_input \<Rightarrow> policy_row \<Rightarrow> bool" where
  "policy_in_force profile req p \<longleftrightarrow> po_active p \<and>
     (po_agent_profile_id p = None \<or> po_agent_profile_id p = Some profile) \<and> policy_matches p req"

text \<open>
  The policy that decides a request of a thread is stored, active, global or of the thread's
  profile, matches the request, and none that does the same comes before it in the order of
  priority, creation time and identifier.
\<close>
theorem deciding_policy_takes_precedence:
  assumes "cd_matched (evaluate_policy_against_context
             (load_policy_evaluation_context profile s) req) = Some p"
  shows "p \<in> set (policies s) \<and> policy_in_force profile req p \<and>
    (\<forall>q \<in> set (policies s). policy_in_force profile req q \<longrightarrow> policy_order p \<le> policy_order q)"
proof -
  let ?ps = "list_active_policies (Some profile) s"
  have found: "find (\<lambda>p. policy_matches p req) ?ps = Some p"
    using assms by (simp add: matched_is_first load_policy_evaluation_context_def)
  have members: "q \<in> set ?ps \<longleftrightarrow> q \<in> set (policies s) \<and> po_active q \<and>
      (po_agent_profile_id q = None \<or> po_agent_profile_id q = Some profile)" for q
    by (auto simp: list_active_policies_def)
  have "sorted (map policy_order ?ps)" by (simp add: list_active_policies_def)
  then have least: "policy_order p \<le> policy_order q" if "q \<in> set ?ps" "policy_matches q req" for q
    using find_sorted_least [OF _ found that] by blast
  have "p \<in> set ?ps" "policy_matches p req" using found by (auto simp: find_Some_iff)
  with members least show ?thesis by (auto simp: policy_in_force_def)
qed

definition demo_policy :: policy_row where
  "demo_policy = \<lparr>po_id = 7, po_agent_profile_id = None, po_name = ''p'', po_action = ''run'',
     po_scope = ''local'', po_effect = EffectAllow, po_priority = 1, po_active = True,
     po_conditions = [], po_required_consents = [''c''], po_created_at = 0, po_updated_at = 0\<rparr>"

definition empty_env :: env where
  "empty_env = \<lparr>current_user = 1, clock = int, fresh_id = of_nat, txn_now = 0, collation = (\<lambda>t. t)\<rparr>"

definition empty_store :: store where
  "empty_store = \<lparr>environment = empty_env, reads = 0, draws = 100, threads = [], agent_profiles = [],
     consents = [], policies = [], tools = [], approvals = [], tasks = [], task_steps = [],
     task_runs = [], tool_executions = [], execution_budgets = [], events = [], traces = [],
     trace_events = []\<rparr>"

definition demo_policy_request :: policy_request_input where
  "demo_policy_request = \<lparr>pe_thread_id = 5, pe_action = ''run'', pe_scope = ''local'', pe_attributes = []\<rparr>"

lemma demo_match:
  "cd_matched (evaluate_policy_against_context
     (load_policy_evaluation_context ''x'' (empty_store\<lparr>policies := [demo_policy]\<rparr>)) demo_policy_request)
     = Some demo_policy"
  by (simp add: matched_is_first load_policy_evaluation_context_def list_active_policies_def
      empty_store_def demo_policy_def demo_policy_request_def policy_matches_def)

theorem deciding_policy_takes_precedence_witness:
  "policy_in_force ''x'' demo_policy_request demo_policy"
  using deciding_policy_takes_precedence [OF demo_match] by simp

lemma consents_by_key_member:
  "map_of (consents_by_key rows) k = Some c \<Longrightarrow> c \<in> set rows \<and> cn_consent_key c = k"
proof -
  have "map_of (foldl (\<lambda>d c. AList.update (cn_consent_key c) c d) d rows) k = Some c \<Longrightarrow>
      map_of d k = Some c \<or> (c \<in> set rows \<and> cn_consent_key c = k)" for d
    by (induction rows arbitrary: d) (fastforce simp: update_conv' split: if_splits)+
  from this [of "[]"] show "map_of (consents_by_key rows) k = Some c \<Longrightarrow> ?thesis"
    by (simp add: consents_by_key_def)
qed

lemma distinct_map_same:
  "distinct (map f xs) \<Longrightarrow> x \<in> set xs \<Longrightarrow> y \<in> set xs \<Longrightarrow> f x = f y \<Longrightarrow> x = y"
  by (metis distinct_map inj_onD)

lemma upsert_consent_rows:
  assumes "consents_ok (consents s)" "upsert_consent_record k status metadata s = (Inr resp, s')"
    and "c \<in> set (consents s')" "cn_consent_key c = k"
  shows "cn_status c = status"
proof (cases "get_consent_by_key_optional k s")
  case None
  then have fresh: "c \<notin> set (consents s)"
    using assms(4) by (auto simp: get_consent_by_key_optional_def find_None_iff)
  from None assms(2) obtain r where "consents s' = consents s @ [r]" "cn_status r = status"
    by (auto simp: upsert_consent_record_def create_consent_def write_table_def Let_def
        and_then_def after_reading_def after_draw_def split: if_splits)
  with assms(3) fresh show ?thesis by auto
next
  case (Some old)
  then have old: "old \<in> set (consents s)" "cn_consent_key old = k"
    by (auto simp: get_consent_by_key_optional_def find_Some_iff)
  have keys: "distinct (map cn_id (consents s))" "distinct (map cn_consent_key (consents s))"
    using assms(1) by (simp_all add: consents_ok_def)
  have "find_row cn_id (cn_id old) (consents s) = Some old"
    by (rule find_row_distinct [OF keys(1) old(1)])
  with Some assms(2) have rows: "consents s' = set_row cn_id
      (old\<lparr>cn_status := status, cn_metadata := metadata, cn_updated_at := now_reading s\<rparr>) (consents s)"
    by (auto simp: upsert_consent_record_def update_consent_def write_table_def Let_def
        and_then_def after_reading_def split: if_splits)
  with assms(3) have "cn_status c = status \<or> (c \<in> set (consents s) \<and> cn_id c \<noteq> cn_id old)"
    by (auto dest: set_set_row)
  then show ?thesis
    using distinct_map_same [OF keys(2) _ old(1), of c] assms(4) old(2) by auto
qed

text \<open>
  Revoking a consent takes effect at once: after the upsert, every request decided by a policy
  that requires the consent is denied, whatever the policy's effect.
\<close>
theorem revoked_consent_denies:
  assumes "consents_ok (consents s)"
    and "upsert_consent_record k ConsentRevoked metadata s = (Inr resp, s')"
    and "cd_matched (evaluate_policy_against_context
           (load_policy_evaluation_context profile s') req) = Some p"
    and "k \<in> set (po_required_consents p)"
  shows "cd_decision (evaluate_policy_against_context
           (load_policy_evaluation_context profile s') req) = EffectDeny"
proof -
  let ?ctx = "load_policy_evaluation_context profile s'"
  have "\<not> consent_granted ?ctx k"
  proof
    assume "consent_granted ?ctx k"
    then obtain c where c: "map_of (px_consents ?ctx) k = Some c" "cn_status c = ConsentGranted"
      by (auto simp: consent_granted_def split: option.splits)
    then have "c \<in> set (consents s') \<and> cn_consent_key c = k"
      by (auto simp: load_policy_evaluation_context_def list_consents_def dest!: consents_by_key_member)
    with upsert_consent_rows [OF assms(1,2)] c(2) show False by auto
  qed
  with assms(4) have "\<not> list_all (consent_granted ?ctx) (po_required_consents p)"
    by (auto simp: list_all_iff)
  with assms(3) show ?thesis
    by (simp add: policy_decision_of matched_is_first)
qed

definition demo_policy_store :: store where
  "demo_policy_store = empty_store\<lparr>policies := [demo_policy]\<rparr>"

definition demo_after_revoke :: store where
  "demo_after_revoke = snd (upsert_consent_record ''c'' ConsentRevoked [] demo_policy_store)"

lemma demo_revoked:
  "\<exists>resp. upsert_consent_record ''c'' ConsentRevoked [] demo_policy_store = (Inr resp, demo_after_revoke)"
  and demo_revoked_policies: "policies demo_after_revoke = [demo_policy]"
  by (simp_all add: upsert_consent_record_def demo_after_revoke_def demo_policy_store_def empty_store_def
      get_consent_by_key_optional_def create_consent_def write_table_def consents_ok_def
      length_between_def char_length_def after_reading_def after_draw_def Let_def)

theorem revoked_consent_denies_witness:
  "cd_decision (evaluate_policy_against_context
     (load_policy_evaluation_context ''x'' demo_after_revoke) demo_policy_request) = EffectDeny"
proof -
  obtain resp where up: "upsert_consent_record ''c'' ConsentRevoked [] demo_policy_store
      = (Inr resp, demo_after_revoke)"
    using demo_revoked by blast
  have ok: "consents_ok (consents demo_policy_store)"
    by (simp add: demo_policy_store_def empty_store_def consents_ok_def)
  have "cd_matched (evaluate_policy_against_context
      (load_policy_evaluation_context ''x'' demo_after_revoke) demo_policy_request) = Some demo_policy"
    by (simp add: matched_is_first load_policy_evaluation_context_def list_active_policies_def
        demo_revoked_policies) (simp add: demo_policy_def demo_policy_request_def policy_matches_def)
  then show ?thesis
    using revoked_consent_denies [OF ok up] by (simp add: demo_policy_def)
qed

end
