(* ===== verification/Tool_Routing.thy ===== *)
theory Tool_Routing
  imports Policy_Engine
begin

text \<open>
  \<open>tools.py\<close>: the tool registry, the evaluation of a request against every active tool, and the
  routing of an invocation of one tool.  A tool is considered only when its declared metadata
  covers the request; then the policy engine decides.
\<close>

subsection \<open>Requests, reasons and results\<close>

definition TOOL_LIST_ORDER :: "string list" where
  "TOOL_LIST_ORDER = [''tool_key_asc'', ''version_asc'', ''created_at_asc'', ''id_asc'']"

record tool_create_input =
  tci_tool_key :: string
  tci_name :: string
  tci_description :: string
  tci_version :: string
  tci_metadata_version :: string
  tci_active :: bool
  tci_tags :: "string list"
  tci_action_hints :: "string list"
  tci_scope_hints :: "string list"
  tci_domain_hints :: "string list"
  tci_risk_hints :: "string list"
  tci_metadata :: dict

record allowlist_request =
  al_thread_id :: uuid
  al_action :: string
  al_scope :: string
  al_domain_hint :: "string option"
  al_risk_hint :: "string option"
  al_attributes :: dict

record routing_input =
  ri_thread_id :: uuid
  ri_tool_id :: uuid
  ri_action :: string
  ri_scope :: string
  ri_domain_hint :: "string option"
  ri_risk_hint :: "string option"
  ri_attributes :: dict

record tool_reason =
  tn_code :: string
  tn_source :: string
  tn_message :: string
  tn_tool_id :: string
  tn_policy_id :: "string option"
  tn_consent_key :: "string option"

definition tool_reason_json :: "tool_reason \<Rightarrow> json" where
  "tool_reason_json r =
     JObj [(''code'', JStr (tn_code r)), (''source'', JStr (tn_source r)),
           (''message'', JStr (tn_message r)), (''tool_id'', JStr (tn_tool_id r)),
           (''policy_id'', opt_str (tn_policy_id r)), (''consent_key'', opt_str (tn_consent_key r))]"

definition tool_reasons_json :: "tool_reason list \<Rightarrow> json" where
  "tool_reasons_json rs = JList (map tool_reason_json rs)"

record classification_result =
  cl_decision :: allowlist_decision
  cl_tool :: tool_record
  cl_reasons :: "tool_reason list"
  cl_matched_policy_id :: "string option"

definition serialize_tool :: "tool_row \<Rightarrow> tool_record" where
  "serialize_tool t =
     \<lparr>tl_id = uuid_str (to_id t), tl_tool_key = to_tool_key t, tl_name = to_name t,
      tl_description = to_description t, tl_version = to_version t,
      tl_metadata_version = to_metadata_version t, tl_active = to_active t, tl_tags = to_tags t,
      tl_action_hints = to_action_hints t, tl_scope_hints = to_scope_hints t,
      tl_domain_hints = to_domain_hints t, tl_risk_hints = to_risk_hints t,
      tl_metadata = to_metadata t, tl_created_at = isoformat (to_created_at t)\<rparr>"

definition build_tool_reason ::
  "string \<Rightarrow> string \<Rightarrow> string \<Rightarrow> uuid \<Rightarrow> string option \<Rightarrow> string option \<Rightarrow> tool_reason" where
  "build_tool_reason code source message tool_id policy_id consent_key =
     \<lparr>tn_code = code, tn_source = source, tn_message = message, tn_tool_id = uuid_str tool_id,
      tn_policy_id = policy_id, tn_consent_key = consent_key\<rparr>"

subsection \<open>Classification\<close>

text \<open>
  The four guards of \<open>_metadata_match_reasons\<close>, each with the reason it adds; an optional hint
  is checked only when both the request and the tool have one.
\<close>

definition hint_mismatch :: "string option \<Rightarrow> string list \<Rightarrow> bool" where
  "hint_mismatch hint declared \<longleftrightarrow>
     (case hint of None \<Rightarrow> False | Some h \<Rightarrow> declared \<noteq> [] \<and> h \<notin> set declared)"

definition hint_text :: "string option \<Rightarrow> string" where
  "hint_text hint = (case hint of None \<Rightarrow> ''None'' | Some h \<Rightarrow> h)"

definition mismatch_reasons :: "tool_row \<Rightarrow> allowlist_request \<Rightarrow> tool_reason list" where
  "mismatch_reasons t req =
     (if al_action req \<notin> set (to_action_hints t)
      then [build_tool_reason ''tool_action_unsupported'' ''tool''
              (''Tool '' @ quoted (to_tool_key t) @ '' does not declare support for action '' @
               quoted (al_action req) @ ''.'') (to_id t) None None] else []) @
     (if al_scope req \<notin> set (to_scope_hints t)
      then [build_tool_reason ''tool_scope_unsupported'' ''tool''
              (''Tool '' @ quoted (to_tool_key t) @ '' does not declare support for scope '' @
               quoted (al_scope req) @ ''.'') (to_id t) None None] else []) @
     (if hint_mismatch (al_domain_hint req) (to_domain_hints t)
      then [build_tool_reason ''tool_domain_mismatch'' ''tool''
              (''Tool '' @ quoted (to_tool_key t) @ '' does not declare domain hint '' @
               quoted (hint_text (al_domain_hint req)) @ ''.'') (to_id t) None None] else []) @
     (if hint_mismatch (al_risk_hint req) (to_risk_hints t)
      then [build_tool_reason ''tool_risk_mismatch'' ''tool''
              (''Tool '' @ quoted (to_tool_key t) @ '' does not declare risk hint '' @
               quoted (hint_text (al_risk_hint req)) @ ''.'') (to_id t) None None] else [])"

definition metadata_match_reasons :: "tool_row \<Rightarrow> allowlist_request \<Rightarrow> bool \<times> tool_reason list" where
  "metadata_match_reasons t req =
     (let reasons = mismatch_reasons t req
      in if reasons = []
         then (True, [build_tool_reason ''tool_metadata_matched'' ''tool''
                ''Tool metadata matched the requested action, scope, and optional hints.''
                (to_id t) None None])
         else (False, reasons))"

definition set_hint :: "string \<Rightarrow> string option \<Rightarrow> dict \<Rightarrow> dict" where
  "set_hint k hint d = (case hint of None \<Rightarrow> d | Some h \<Rightarrow> dset k (JStr h) d)"

definition policy_attributes :: "tool_row \<Rightarrow> allowlist_request \<Rightarrow> dict" where
  "policy_attributes t req =
     set_hint ''risk_hint'' (al_risk_hint req)
      (set_hint ''domain_hint'' (al_domain_hint req)
        (dset ''metadata_version'' (JStr (to_metadata_version t))
          (dset ''tool_version'' (JStr (to_version t))
            (dset ''tool_key'' (JStr (to_tool_key t)) (al_attributes req)))))"

definition policy_request_of :: "tool_row \<Rightarrow> allowlist_request \<Rightarrow> policy_request_input" where
  "policy_request_of t req =
     \<lparr>pe_thread_id = al_thread_id req, pe_action = al_action req, pe_scope = al_scope req,
      pe_attributes = policy_attributes t req\<rparr>"

fun decision_of_effect :: "policy_effect \<Rightarrow> allowlist_decision" where
  "decision_of_effect EffectAllow = AllowAllowed"
| "decision_of_effect EffectDeny = AllowDenied"
| "decision_of_effect EffectRequireApproval = AllowApprovalRequired"

definition tool_reason_of :: "uuid \<Rightarrow> policy_reason \<Rightarrow> tool_reason" where
  "tool_reason_of tool_id r =
     \<lparr>tn_code = pr_code r, tn_source = pr_source r, tn_message = pr_message r,
      tn_tool_id = uuid_str tool_id, tn_policy_id = pr_policy_id r,
      tn_consent_key = pr_consent_key r\<rparr>"

definition classify_tool_request ::
  "tool_row \<Rightarrow> allowlist_request \<Rightarrow> policy_context \<Rightarrow> classification_result" where
  "classify_tool_request t req ctx =
     (let (matched, metadata_reasons) = metadata_match_reasons t req
      in if \<not> matched
         then \<lparr>cl_decision = AllowDenied, cl_tool = serialize_tool t, cl_reasons = metadata_reasons,
               cl_matched_policy_id = None\<rparr>
         else let d = evaluate_policy_against_context ctx (policy_request_of t req)
              in \<lparr>cl_decision = decision_of_effect (cd_decision d), cl_tool = serialize_tool t,
                  cl_reasons = metadata_reasons @ map (tool_reason_of (to_id t)) (cd_reasons d),
                  cl_matched_policy_id = map_option (\<lambda>p. uuid_str (po_id p)) (cd_matched d)\<rparr>)"

definition decision_record :: "classification_result \<Rightarrow> json" where
  "decision_record c =
     JObj [(''decision'', JStr (allowlist_decision_text (cl_decision c))),
           (''tool'', JObj (tool_json (cl_tool c))), (''reasons'', tool_reasons_json (cl_reasons c))]"

definition allowlist_trace_payload :: "classification_result \<Rightarrow> dict" where
  "allowlist_trace_payload c =
     [(''tool_id'', JStr (tl_id (cl_tool c))), (''tool_key'', JStr (tl_tool_key (cl_tool c))),
      (''tool_version'', JStr (tl_version (cl_tool c))),
      (''decision'', JStr (allowlist_decision_text (cl_decision c))),
      (''matched_policy_id'', opt_str (cl_matched_policy_id c)),
      (''reasons'', tool_reasons_json (cl_reasons c))]"

definition allowlist_request_from_routing :: "routing_input \<Rightarrow> allowlist_request" where
  "allowlist_request_from_routing r =
     \<lparr>al_thread_id = ri_thread_id r, al_action = ri_action r, al_scope = ri_scope r,
      al_domain_hint = ri_domain_hint r, al_risk_hint = ri_risk_hint r,
      al_attributes = ri_attributes r\<rparr>"

fun routing_decision_from_allowlist :: "allowlist_decision \<Rightarrow> routing_decision" where
  "routing_decision_from_allowlist AllowAllowed = RouteReady"
| "routing_decision_from_allowlist AllowDenied = RouteDenied"
| "routing_decision_from_allowlist AllowApprovalRequired = RouteApprovalRequired"

subsection \<open>The registry\<close>

definition new_tool :: "tool_create_input \<Rightarrow> store \<Rightarrow> tool_row" where
  "new_tool t s =
     \<lparr>to_id = next_id s, to_tool_key = tci_tool_key t, to_name = tci_name t,
      to_description = tci_description t, to_version = tci_version t,
      to_metadata_version = tci_metadata_version t, to_active = tci_active t,
      to_tags = tci_tags t, to_action_hints = tci_action_hints t,
      to_scope_hints = tci_scope_hints t, to_domain_hints = tci_domain_hints t,
      to_risk_hints = tci_risk_hints t, to_metadata = tci_metadata t,
      to_created_at = now_reading s\<rparr>"

definition create_tool :: "tool_create_input \<Rightarrow> store \<Rightarrow> (gov_error + tool_row) \<times> store" where
  "create_tool t s =
     (let r = new_tool t s
      in write_table tools_ok (\<lambda>x s. s\<lparr>tools := x\<rparr>) ''tools'' r (tools s @ [r])
           (after_reading (after_draw s)))"

definition create_tool_record :: "tool_create_input \<Rightarrow> store \<Rightarrow> (gov_error + dict) \<times> store" where
  "create_tool_record t s =
     and_then (create_tool t s) (\<lambda>created s.
       (Inr [(''tool'', JObj (tool_json (serialize_tool created)))], s))"

definition list_tool_records :: "store \<Rightarrow> dict" where
  "list_tool_records s =
     (let items = map (\<lambda>t. JObj (tool_json (serialize_tool t))) (list_tools s)
      in [(''items'', JList items),
          (''summary'', JObj [(''total_count'', JInt (int (length items))),
                              (''order'', str_list TOOL_LIST_ORDER)])])"

definition get_tool_record :: "uuid \<Rightarrow> store \<Rightarrow> gov_error + dict" where
  "get_tool_record i s =
     (case get_tool_optional i s of
        None \<Rightarrow> Inl (ToolNotFoundError (''tool '' @ uuid_str i @ '' was not found''))
      | Some t \<Rightarrow> Inr [(''tool'', JObj (tool_json (serialize_tool t)))])"

subsection \<open>The allowlist\<close>

definition decided :: "allowlist_decision \<Rightarrow> classification_result list \<Rightarrow> classification_result list" where
  "decided d cs = filter (\<lambda>c. cl_decision c = d) cs"

definition count_json :: "'a list \<Rightarrow> json" where
  "count_json xs = JInt (int (length xs))"

definition allowlist_trace_events ::
  "allowlist_request \<Rightarrow> tool_row list \<Rightarrow> classification_result list \<Rightarrow> (string \<times> dict) list" where
  "allowlist_trace_events req active cs =
     [(''tool.allowlist.request'',
        [(''thread_id'', JStr (uuid_str (al_thread_id req))), (''action'', JStr (al_action req)),
         (''scope'', JStr (al_scope req)), (''domain_hint'', opt_str (al_domain_hint req)),
         (''risk_hint'', opt_str (al_risk_hint req)), (''attributes'', JObj (al_attributes req))]),
      (''tool.allowlist.order'',
        [(''order'', str_list TOOL_LIST_ORDER),
         (''tool_ids'', str_list (map (\<lambda>t. uuid_str (to_id t)) active))])] @
     map (\<lambda>c. (''tool.allowlist.decision'', allowlist_trace_payload c)) cs @
     [(''tool.allowlist.summary'',
        [(''allowed_count'', count_json (decided AllowAllowed cs)),
         (''denied_count'', count_json (decided AllowDenied cs)),
         (''approval_required_count'', count_json (decided AllowApprovalRequired cs))])]"

definition evaluate_tool_allowlist ::
  "allowlist_request \<Rightarrow> store \<Rightarrow> (gov_error + dict) \<times> store" where
  "evaluate_tool_allowlist req s =
     and_then (require_row (ToolAllowlistValidationError
                 ''thread_id must reference an existing thread owned by the user'')
                 (get_thread_optional (al_thread_id req) s) s) (\<lambda>thread s.
     let active = list_active_tools s;
         ctx = load_policy_evaluation_context (th_agent_profile_id thread) s;
         cs = map (\<lambda>t. classify_tool_request t req ctx) active
     in and_then (create_trace (th_user_id thread) (th_id thread) ''tool.allowlist.evaluate''
                    ''tool_allowlist_evaluation_v0'' ''completed''
                    [(''order'', str_list TOOL_LIST_ORDER),
                     (''active_tool_count'', count_json active),
                     (''active_policy_count'', count_json (px_active_policies ctx)),
                     (''consent_count'', count_json (px_consents ctx))] s) (\<lambda>trace s.
        let es = allowlist_trace_events req active cs;
            s = append_trace_events (tc_id trace) es s
        in (Inr [(''allowed'', JList (map decision_record (decided AllowAllowed cs))),
                 (''denied'', JList (map decision_record (decided AllowDenied cs))),
                 (''approval_required'',
                    JList (map decision_record (decided AllowApprovalRequired cs))),
                 (''summary'', JObj
                    [(''action'', JStr (al_action req)), (''scope'', JStr (al_scope req)),
                     (''domain_hint'', opt_str (al_domain_hint req)),
                     (''risk_hint'', opt_str (al_risk_hint req)),
                     (''evaluated_tool_count'', count_json active),
                     (''allowed_count'', count_json (decided AllowAllowed cs)),
                     (''denied_count'', count_json (decided AllowDenied cs)),
                     (''approval_required_count'', count_json (decided AllowApprovalRequired cs)),
                     (''order'', str_list TOOL_LIST_ORDER)]),
                 (''trace'', JObj (trace_summary (tc_id trace) es))], s)))"

subsection \<open>Routing\<close>

text \<open>The response of a routing, with the identifier of its trace.\<close>

record routing_response =
  rr_request :: routing_request
  rr_decision :: routing_decision
  rr_tool :: tool_record
  rr_reasons :: "tool_reason list"
  rr_summary :: dict
  rr_trace_id :: uuid
  rr_trace_event_count :: nat

definition routed_payload :: "routing_input \<Rightarrow> routing_request" where
  "routed_payload r =
     \<lparr>rq_thread_id = Some (uuid_str (ri_thread_id r)), rq_tool_id = uuid_str (ri_tool_id r),
      rq_action = ri_action r, rq_scope = ri_scope r, rq_domain_hint = ri_domain_hint r,
      rq_risk_hint = ri_risk_hint r, rq_attributes = ri_attributes r\<rparr>"

definition routing_trace_events ::
  "routing_input \<Rightarrow> classification_result \<Rightarrow> policy_context \<Rightarrow> (string \<times> dict) list" where
  "routing_trace_events r c ctx =
     (let d = routing_decision_text (routing_decision_from_allowlist (cl_decision c))
      in [(''tool.route.request'', request_json (routed_payload r)),
          (''tool.route.decision'',
            [(''tool_id'', JStr (tl_id (cl_tool c))), (''tool_key'', JStr (tl_tool_key (cl_tool c))),
             (''tool_version'', JStr (tl_version (cl_tool c))),
             (''allowlist_decision'', JStr (allowlist_decision_text (cl_decision c))),
             (''routing_decision'', JStr d),
             (''matched_policy_id'', opt_str (cl_matched_policy_id c)),
             (''reasons'', tool_reasons_json (cl_reasons c))]),
          (''tool.route.summary'',
            [(''decision'', JStr d), (''evaluated_tool_count'', JInt 1),
             (''active_policy_count'', count_json (px_active_policies ctx)),
             (''consent_count'', count_json (px_consents ctx))])])"

definition routing_summary ::
  "routing_input \<Rightarrow> classification_result \<Rightarrow> policy_context \<Rightarrow> dict" where
  "routing_summary r c ctx =
     [(''thread_id'', JStr (uuid_str (ri_thread_id r))), (''tool_id'', JStr (tl_id (cl_tool c))),
      (''action'', JStr (ri_action r)), (''scope'', JStr (ri_scope r)),
      (''domain_hint'', opt_str (ri_domain_hint r)), (''risk_hint'', opt_str (ri_risk_hint r)),
      (''decision'', JStr (routing_decision_text (routing_decision_from_allowlist (cl_decision c)))),
      (''evaluated_tool_count'', JInt 1),
      (''active_policy_count'', count_json (px_active_policies ctx)),
      (''consent_count'', count_json (px_consents ctx)), (''order'', str_list TOOL_LIST_ORDER)]"

definition active_tool :: "uuid \<Rightarrow> store \<Rightarrow> tool_row option" where
  "active_tool i s =
     (case get_tool_optional i s of
        None \<Rightarrow> None | Some t \<Rightarrow> if to_active t then Some t else None)"

definition route_tool_invocation ::
  "routing_input \<Rightarrow> store \<Rightarrow> (gov_error + routing_response) \<times> store" where
  "route_tool_invocation r s =
     and_then (require_row (ToolRoutingValidationError
                 ''thread_id must reference an existing thread owned by the user'')
                 (get_thread_optional (ri_thread_id r) s) s) (\<lambda>thread s.
     and_then (require_row (ToolRoutingValidationError
                 ''tool_id must reference an existing active tool owned by the user'')
                 (active_tool (ri_tool_id r) s) s) (\<lambda>tool s.
     let ctx = load_policy_evaluation_context (th_agent_profile_id thread) s;
         c = classify_tool_request tool (allowlist_request_from_routing r) ctx
     in and_then (create_trace (th_user_id thread) (th_id thread) ''tool.route''
                    ''tool_routing_v0'' ''completed''
                    [(''order'', str_list TOOL_LIST_ORDER), (''evaluated_tool_count'', JInt 1),
                     (''active_policy_count'', count_json (px_active_policies ctx)),
                     (''consent_count'', count_json (px_consents ctx))] s) (\<lambda>trace s.
        let es = routing_trace_events r c ctx;
            s = append_trace_events (tc_id trace) es s
        in (Inr \<lparr>rr_request = routed_payload r,
                 rr_decision = routing_decision_from_allowlist (cl_decision c),
                 rr_tool = cl_tool c, rr_reasons = cl_reasons c,
                 rr_summary = routing_summary r c ctx, rr_trace_id = tc_id trace,
                 rr_trace_event_count = length es\<rparr>, s))))"

subsection \<open>Properties\<close>

text \<open>The request is covered by what the tool declares.\<close>

definition tool_covers :: "tool_row \<Rightarrow> routing_input \<Rightarrow> bool" where
  "tool_covers t r \<longleftrightarrow>
     ri_action r \<in> set (to_action_hints t) \<and> ri_scope r \<in> set (to_scope_hints t) \<and>
     (\<forall>h. ri_domain_hint r = Some h \<and> to_domain_hints t \<noteq> [] \<longrightarrow> h \<in> set (to_domain_hints t)) \<and>
     (\<forall>h. ri_risk_hint r = Some h \<and> to_risk_hints t \<noteq> [] \<longrightarrow> h \<in> set (to_risk_hints t))"

text \<open>What a routing should decide, without reasons and records.\<close>

definition routing_verdict :: "tool_row \<Rightarrow> routing_input \<Rightarrow> policy_context \<Rightarrow> routing_decision" where
  "routing_verdict t r ctx =
     (if \<not> tool_covers t r then RouteDenied
      else case find (\<lambda>p. policy_matches p (policy_request_of t (allowlist_request_from_routing r)))
                  (px_active_policies ctx) of
             None \<Rightarrow> RouteDenied
           | Some p \<Rightarrow>
               if \<not> list_all (consent_granted ctx) (po_required_consents p) then RouteDenied
               else (case po_effect p of EffectAllow \<Rightarrow> RouteReady | EffectDeny \<Rightarrow> RouteDenied
                     | EffectRequireApproval \<Rightarrow> RouteApprovalRequired))"

lemma mismatch_empty:
  "mismatch_reasons t (allowlist_request_from_routing r) = [] \<longleftrightarrow> tool_covers t r"
  by (auto simp: mismatch_reasons_def tool_covers_def allowlist_request_from_routing_def
      hint_mismatch_def split: option.split)

lemma core_decision_exact:
  "cd_decision (evaluate_policy_against_context ctx req) =
     (case find (\<lambda>p. policy_matches p req) (px_active_policies ctx) of
        None \<Rightarrow> EffectDeny
      | Some p \<Rightarrow> if list_all (consent_granted ctx) (po_required_consents p)
                 then po_effect p else EffectDeny)"
  by (auto simp: evaluate_policy_against_context_def Let_def consent_reasons_empty
      split: option.split)

lemma classify_verdict:
  "routing_decision_from_allowlist
     (cl_decision (classify_tool_request t (allowlist_request_from_routing r) ctx))
   = routing_verdict t r ctx"
  by (auto simp: classify_tool_request_def metadata_match_reasons_def Let_def mismatch_empty
      routing_verdict_def core_decision_exact split: option.split policy_effect.split)

lemma classify_tool [simp]: "cl_tool (classify_tool_request t req ctx) = serialize_tool t"
  by (simp add: classify_tool_request_def metadata_match_reasons_def Let_def)

text \<open>What an operation that only records a trace leaves as it is.\<close>

definition only_traces :: "store \<Rightarrow> store \<Rightarrow> bool" where
  "only_traces s t \<longleftrightarrow> (\<exists>d ts es. t = s\<lparr>draws := d, traces := ts, trace_events := es\<rparr>)"

lemma append_from_only: "\<exists>es'. append_from i n es s = s\<lparr>trace_events := es'\<rparr>"
proof (induction i n es s rule: append_from.induct)
  case (1 i n s)
  show ?case by (rule exI [of _ "trace_events s"]) simp
next
  case (2 i n kind payload es s)
  then show ?case by (auto simp: append_trace_event_def)
qed

lemma create_trace_only:
  "create_trace u th k v st l s = (Inr x, t) \<Longrightarrow> only_traces s (append_trace_events i es t)"
  using append_from_only [of i 1 es t]
  by (auto simp: create_trace_def write_table_def only_traces_def after_draw_def Let_def
      append_trace_events_def split: if_splits)

text \<open>What a successful routing found and wrote.\<close>

lemma route_Inr:
  assumes "route_tool_invocation r s = (Inr resp, s')"
  shows "\<exists>thread tool. get_thread_optional (ri_thread_id r) s = Some thread \<and>
    get_tool_optional (ri_tool_id r) s = Some tool \<and> to_active tool \<and>
    rr_tool resp = serialize_tool tool \<and>
    rr_decision resp = routing_decision_from_allowlist (cl_decision (classify_tool_request tool
      (allowlist_request_from_routing r)
      (load_policy_evaluation_context (th_agent_profile_id thread) s))) \<and> only_traces s s'"
  using assms
  by (auto simp: route_tool_invocation_def Let_def succeeds active_tool_def
      split: option.splits if_splits dest: create_trace_only)

text \<open>
  C34:
  A routing that returns has an existing thread and an existing active tool, decides exactly as
  the tool's declared hints, the first matching active policy of the thread's profile and the
  consents that policy requires say, and changes nothing but the trace tables.
\<close>
theorem routing_decides_exactly:
  assumes "route_tool_invocation r s = (Inr resp, s')"
  shows "\<exists>thread tool. get_thread_optional (ri_thread_id r) s = Some thread \<and>
    get_tool_optional (ri_tool_id r) s = Some tool \<and> to_active tool \<and>
    rr_decision resp = routing_verdict tool r
      (load_policy_evaluation_context (th_agent_profile_id thread) s) \<and> only_traces s s'"
  using route_Inr [OF assms] unfolding classify_verdict by blast

text \<open>The group of the allowlist a tool is listed in.\<close>

fun group_of :: "routing_decision \<Rightarrow> string" where
  "group_of RouteReady = ''allowed''"
| "group_of RouteDenied = ''denied''"
| "group_of RouteApprovalRequired = ''approval_required''"

definition listed_tools :: "dict \<Rightarrow> string \<Rightarrow> json list" where
  "listed_tools d k =
     (case dget d k of
        JList xs \<Rightarrow> map (\<lambda>x. case x of JObj e \<Rightarrow> dget e ''tool'' | _ \<Rightarrow> JNull) xs
      | _ \<Rightarrow> [])"

lemma listed_records:
  "dget d k = JList (map decision_record cs) \<Longrightarrow>
     listed_tools d k = map (\<lambda>c. JObj (tool_json (cl_tool c))) cs"
  by (simp add: listed_tools_def decision_record_def)

lemma decision_groups:
  "routing_decision_from_allowlist a = RouteReady \<longleftrightarrow> a = AllowAllowed"
  "routing_decision_from_allowlist a = RouteDenied \<longleftrightarrow> a = AllowDenied"
  "routing_decision_from_allowlist a = RouteApprovalRequired \<longleftrightarrow> a = AllowApprovalRequired"
  by (cases a; simp)+

lemma serialized_tool_id:
  "tool_json (serialize_tool t) = tool_json (serialize_tool u) \<Longrightarrow> to_id t = to_id u"
  by (simp add: tool_json_def serialize_tool_def)

lemma evaluated_groups:
  assumes "evaluate_tool_allowlist req s = (Inr d, s')" "get_thread_optional (al_thread_id req) s = Some thread"
  shows "listed_tools d (group_of g) =
    map (\<lambda>t. JObj (tool_json (serialize_tool t)))
      (filter (\<lambda>t. routing_decision_from_allowlist (cl_decision (classify_tool_request t req
          (load_policy_evaluation_context (th_agent_profile_id thread) s))) = g)
        (list_active_tools s))"
proof -
  let ?c = "\<lambda>t. classify_tool_request t req (load_policy_evaluation_context (th_agent_profile_id thread) s)"
  let ?cs = "map ?c (list_active_tools s)"
  have keys: "dget d ''allowed'' = JList (map decision_record (decided AllowAllowed ?cs))"
    "dget d ''denied'' = JList (map decision_record (decided AllowDenied ?cs))"
    "dget d ''approval_required'' = JList (map decision_record (decided AllowApprovalRequired ?cs))"
    using assms by (auto simp: evaluate_tool_allowlist_def Let_def succeeds)
  have pick: "map (\<lambda>c. JObj (tool_json (cl_tool c))) (decided a ?cs) =
      map (\<lambda>t. JObj (tool_json (serialize_tool t)))
        (filter (\<lambda>t. cl_decision (?c t) = a) (list_active_tools s))" for a
    by (simp add: decided_def filter_map comp_def)
  show ?thesis
    by (cases g) (simp_all add: decision_groups listed_records [OF keys(1)] listed_records [OF keys(2)]
        listed_records [OF keys(3)] pick)
qed

text \<open>
  C35:
  Allowlist and routing agree: the tool a routing answers for is listed by an evaluation of the
  same request in the group of the routing's decision, and in no other.
\<close>
theorem allowlist_agrees_with_routing:
  assumes "tools_ok (tools s)" "route_tool_invocation r s = (Inr resp, s1)"
    and "evaluate_tool_allowlist (allowlist_request_from_routing r) s = (Inr d, s2)"
  shows "JObj (tool_json (rr_tool resp)) \<in> set (listed_tools d (group_of g)) \<longleftrightarrow> rr_decision resp = g"
proof -
  from route_Inr [OF assms(2)] obtain thread tool where
    thread: "get_thread_optional (ri_thread_id r) s = Some thread"
    and tool: "get_tool_optional (ri_tool_id r) s = Some tool" "to_active tool"
      "rr_tool resp = serialize_tool tool"
    and decision: "rr_decision resp = routing_decision_from_allowlist (cl_decision
      (classify_tool_request tool (allowlist_request_from_routing r)
        (load_policy_evaluation_context (th_agent_profile_id thread) s)))"
    by blast
  have same_thread: "get_thread_optional (al_thread_id (allowlist_request_from_routing r)) s = Some thread"
    using thread by (simp add: allowlist_request_from_routing_def)
  have member: "tool \<in> set (tools s)" using tool(1) by (auto simp: get_tool_optional_def dest: find_row_Some)
  then have active: "tool \<in> set (list_active_tools s)" using tool(2) by (simp add: list_active_tools_def)
  have ids: "distinct (map to_id (tools s))" using assms(1) by (simp add: tools_ok_def)
  have same_tool: "t = tool" if "t \<in> set (list_active_tools s)"
    "tool_json (serialize_tool tool) = tool_json (serialize_tool t)" for t
  proof (rule distinct_map_same [OF ids _ member])
    show "t \<in> set (tools s)" using that(1) by (simp add: list_active_tools_def)
    show "to_id t = to_id tool" using serialized_tool_id [OF that(2)] by simp
  qed
  show ?thesis
    unfolding evaluated_groups [OF assms(3) same_thread] decision tool(3)
    using active same_tool by (auto simp: image_iff)
qed

subsection \<open>Witnesses\<close>

definition demo_tool_row :: tool_row where
  "demo_tool_row = \<lparr>to_id = 6, to_tool_key = ''proxy.echo'', to_name = ''echo'',
     to_description = ''echo'', to_version = ''1'', to_metadata_version = ''tool_metadata_v0'',
     to_active = True, to_tags = [], to_action_hints = [''run''], to_scope_hints = [''local''],
     to_domain_hints = [], to_risk_hints = [], to_metadata = [], to_created_at = 0\<rparr>"

definition demo_thread :: thread_row where
  "demo_thread = \<lparr>th_id = 5, th_user_id = 1, th_title = ''t'', th_agent_profile_id = ''x'',
     th_created_at = 0, th_updated_at = 0\<rparr>"

definition demo_routing_store :: store where
  "demo_routing_store = empty_store\<lparr>threads := [demo_thread], tools := [demo_tool_row],
     policies := [demo_policy\<lparr>po_required_consents := []\<rparr>]\<rparr>"

definition demo_routing_input :: routing_input where
  "demo_routing_input = \<lparr>ri_thread_id = 5, ri_tool_id = 6, ri_action = ''run'', ri_scope = ''local'',
     ri_domain_hint = None, ri_risk_hint = None, ri_attributes = []\<rparr>"

lemmas demo_routing = demo_routing_store_def demo_routing_input_def demo_thread_def
  demo_tool_row_def empty_store_def empty_env_def

lemma demo_find_routing:
  "get_thread_optional 5 demo_routing_store = Some demo_thread"
  "get_tool_optional 6 demo_routing_store = Some demo_tool_row"
  "list_active_tools demo_routing_store = [demo_tool_row]"
  by (simp_all add: demo_routing get_thread_optional_def get_tool_optional_def find_row_def
      list_active_tools_def)

lemma demo_route: "\<exists>resp s'. route_tool_invocation demo_routing_input demo_routing_store = (Inr resp, s')"
  using demo_find_routing
  by (simp add: route_tool_invocation_def active_tool_def Let_def create_trace_def write_table_def
      traces_ok_def demo_routing after_draw_def)

lemma demo_evaluate:
  "\<exists>d s'. evaluate_tool_allowlist (allowlist_request_from_routing demo_routing_input) demo_routing_store
     = (Inr d, s')"
  using demo_find_routing(1)
  by (simp add: evaluate_tool_allowlist_def allowlist_request_from_routing_def Let_def create_trace_def
      write_table_def traces_ok_def demo_routing after_draw_def)

lemma demo_routing_verdict:
  "routing_verdict demo_tool_row demo_routing_input
     (load_policy_evaluation_context ''x'' demo_routing_store) = RouteReady"
  by (simp add: routing_verdict_def tool_covers_def load_policy_evaluation_context_def
      list_active_policies_def demo_routing demo_policy_def policy_matches_def
      policy_request_of_def allowlist_request_from_routing_def)

lemma demo_route_ready:
  assumes "routing_verdict demo_tool_row demo_routing_input
      (load_policy_evaluation_context ''x'' demo_routing_store) = rr_decision resp"
  shows "rr_decision resp = RouteReady"
  using assms demo_routing_verdict by simp

lemma demo_ids:
  "ri_thread_id demo_routing_input = 5" "ri_tool_id demo_routing_input = 6"
  "th_agent_profile_id demo_thread = ''x''"
  by (simp_all add: demo_routing_input_def demo_thread_def)

theorem routing_decides_exactly_witness:
  "\<exists>resp s'. route_tool_invocation demo_routing_input demo_routing_store = (Inr resp, s') \<and>
     rr_decision resp = RouteReady"
proof -
  obtain resp s' where r: "route_tool_invocation demo_routing_input demo_routing_store = (Inr resp, s')"
    using demo_route by blast
  from routing_decides_exactly [OF r] have "rr_decision resp = RouteReady"
    using demo_find_routing by (intro demo_route_ready) (auto simp: demo_ids)
  with r show ?thesis by blast
qed

theorem allowlist_agrees_with_routing_witness:
  "\<exists>resp d s1 s2. route_tool_invocation demo_routing_input demo_routing_store = (Inr resp, s1) \<and>
     evaluate_tool_allowlist (allowlist_request_from_routing demo_routing_input) demo_routing_store
       = (Inr d, s2) \<and>
     JObj (tool_json (rr_tool resp)) \<in> set (listed_tools d ''allowed'')"
proof -
  obtain resp s1 where r: "route_tool_invocation demo_routing_input demo_routing_store = (Inr resp, s1)"
    using demo_route by blast
  obtain d s2 where e: "evaluate_tool_allowlist (allowlist_request_from_routing demo_routing_input)
      demo_routing_store = (Inr d, s2)"
    using demo_evaluate by blast
  have ok: "tools_ok (tools demo_routing_store)"
    by (simp add: demo_routing tools_ok_def length_between_def char_length_def)
  have "rr_decision resp = RouteReady"
    using route_Inr [OF r] demo_find_routing
    by (intro demo_route_ready) (auto simp: demo_ids classify_verdict)
  with allowlist_agrees_with_routing [OF ok r e, of RouteReady]
  have "JObj (tool_json (rr_tool resp)) \<in> set (listed_tools d ''allowed'')" by simp
  with r e show ?thesis by blast
qed

end
