(* ===== verification/Approvals.thy ===== *)
theory Approvals
  imports Tasks Tool_Routing
begin

text \<open>
  \<open>approvals.py\<close>: the request for an approval of a governed tool invocation, and its resolution.
  A resolution settles the approval once and carries its status to the task, to the linked step
  and to the run that waits for it; a second resolution records a trace and raises.
\<close>

subsection \<open>Records\<close>

definition APPROVAL_LIST_ORDER :: "string list" where
  "APPROVAL_LIST_ORDER = [''created_at_asc'', ''id_asc'']"

record approval_request_input =
  aq_thread_id :: uuid
  aq_tool_id :: uuid
  aq_action :: string
  aq_scope :: string
  aq_task_run_id :: "uuid option"
  aq_domain_hint :: "string option"
  aq_risk_hint :: "string option"
  aq_attributes :: dict

definition approval_request_payload :: "approval_request_input \<Rightarrow> dict" where
  "approval_request_payload q =
     [(''thread_id'', JStr (uuid_str (aq_thread_id q))), (''tool_id'', JStr (uuid_str (aq_tool_id q))),
      (''action'', JStr (aq_action q)), (''scope'', JStr (aq_scope q)),
      (''attributes'', JObj (aq_attributes q)), (''task_run_id'', opt_uuid (aq_task_run_id q)),
      (''domain_hint'', opt_str (aq_domain_hint q)), (''risk_hint'', opt_str (aq_risk_hint q))]"

text \<open>\<open>_serialize_resolution\<close>: both columns or nothing.\<close>

definition serialize_resolution :: "approval_row \<Rightarrow> (string \<times> string) option" where
  "serialize_resolution r =
     (case (ap_resolved_at r, ap_resolved_by_user_id r) of
        (Some t, Some u) \<Rightarrow> Some (isoformat t, uuid_str u)
      | _ \<Rightarrow> None)"

definition resolution_json :: "(string \<times> string) option \<Rightarrow> json" where
  "resolution_json r =
     (case r of None \<Rightarrow> JNull
      | Some (t, u) \<Rightarrow> JObj [(''resolved_at'', JStr t), (''resolved_by_user_id'', JStr u)])"

definition serialize_approval_row :: "approval_row \<Rightarrow> dict" where
  "serialize_approval_row r =
     [(''id'', JStr (uuid_str (ap_id r))), (''thread_id'', JStr (uuid_str (ap_thread_id r))),
      (''task_step_id'', opt_uuid (ap_task_step_id r)),
      (''status'', JStr (approval_status_text (ap_status r))),
      (''request'', JObj (request_json (ap_request r))), (''tool'', JObj (tool_json (ap_tool r))),
      (''routing'', JObj (ap_routing r)), (''created_at'', JStr (isoformat (ap_created_at r))),
      (''resolution'', resolution_json (serialize_resolution r))] @
     (case ap_task_run_id r of None \<Rightarrow> [] | Some i \<Rightarrow> [(''task_run_id'', JStr (uuid_str i))])"

subsection \<open>The run that waits for an approval\<close>

definition resolved_checkpoint :: "approval_row \<Rightarrow> dict \<Rightarrow> dict" where
  "resolved_checkpoint approval checkpoint =
     dset ''approval_resolution_status'' (JStr (approval_status_text (ap_status approval)))
       (dset ''resolved_approval_id'' (JStr (uuid_str (ap_id approval)))
         (dset ''waiting_approval_id'' JNull
           (dset ''wait_for_signal'' (JBool False) checkpoint)))"

definition resolution_values :: "approval_row \<Rightarrow> run_row \<Rightarrow> dict \<Rightarrow> run_values" where
  "resolution_values approval run checkpoint =
     (let queued = (ap_status approval = ApprApproved)
      in \<lparr>rv_status = (if queued then RunQueued else RunFailed), rv_checkpoint = checkpoint,
          rv_tick_count = tr_tick_count run, rv_step_count = tr_step_count run,
          rv_retry_count = tr_retry_count run, rv_retry_cap = tr_retry_cap run,
          rv_retry_posture = (if queued then RetryNone else RetryTerminal),
          rv_failure_class = (if queued then None else Some FailApproval),
          rv_stop_reason = (if queued then None else Some StopApprovalRejected)\<rparr>)"

text \<open>The run before and after, when one was waiting.\<close>

definition resume_task_run_after_resolution ::
  "approval_row \<Rightarrow> store \<Rightarrow> (gov_error + (run_row \<times> run_row) option) \<times> store" where
  "resume_task_run_after_resolution approval s =
     (case ap_task_run_id approval of
        None \<Rightarrow> (Inr None, s)
      | Some run_id \<Rightarrow>
          (case get_task_run_optional run_id s of
             None \<Rightarrow> (Inr None, s)
           | Some run \<Rightarrow>
               if tr_status run \<noteq> RunWaitingApproval then (Inr None, s)
               else
                 let cp = resolved_checkpoint approval (tr_checkpoint run);
                     v = resolution_values approval run cp;
                     history = dict_entries (dget cp ''transitions'');
                     entry = transition_entry (length history + 1) ''approval_resolution''
                       (now_reading s) (Some (tr_status run)) (tr_stop_reason run) v
                 in and_then (update_task_run_optional run_id
                       (v\<lparr>rv_checkpoint := with_transition history entry cp\<rparr>) (after_reading s))
                      (\<lambda>updated s. (Inr (map_option (\<lambda>u. (run, u)) updated), s))))"

subsection \<open>Resolution\<close>

fun same_resolution :: "resolution_action \<Rightarrow> approval_status \<Rightarrow> bool" where
  "same_resolution ActApprove ApprApproved = True"
| "same_resolution ActReject ApprRejected = True"
| "same_resolution _ _ = False"

definition resolution_outcome_of :: "resolution_action \<Rightarrow> approval_status \<Rightarrow> resolution_outcome" where
  "resolution_outcome_of action current =
     (if same_resolution action current then OutcomeDuplicateRejected else OutcomeConflictRejected)"

definition resolution_error :: "uuid \<Rightarrow> resolution_action \<Rightarrow> approval_status \<Rightarrow> gov_error" where
  "resolution_error a action current =
     ApprovalResolutionConflictError
       (if same_resolution action current
        then ''approval '' @ uuid_str a @ '' was already '' @ approval_status_text current
        else ''approval '' @ uuid_str a @ '' was already '' @ approval_status_text current @
          '' and cannot be '' @ (if action = ActApprove then ''approved'' else ''rejected''))"

definition approval_not_found :: "uuid \<Rightarrow> gov_error" where
  "approval_not_found a = ApprovalNotFoundError (''approval '' @ uuid_str a @ '' was not found'')"

text \<open>The approval row a resolution works on, with the outcome.\<close>

definition settle_approval ::
  "approval_row \<Rightarrow> resolution_action \<Rightarrow> approval_status \<Rightarrow> store \<Rightarrow>
    (gov_error + approval_row \<times> resolution_outcome) \<times> store" where
  "settle_approval approval action status s =
     (if ap_status approval = ApprPending
      then and_then (resolve_approval_optional (ap_id approval) status s) (\<lambda>resolved s.
             case resolved of
               Some r \<Rightarrow> (Inr (r, OutcomeResolved), s)
             | None \<Rightarrow>
                 and_then (require_row (approval_not_found (ap_id approval))
                             (get_approval_optional (ap_id approval) s) s)
                   (\<lambda>r s. (Inr (r, resolution_outcome_of action (ap_status r)), s)))
      else (Inr (approval, resolution_outcome_of action (ap_status approval)), s))"

definition resolution_trace_events ::
  "uuid \<Rightarrow> resolution_action \<Rightarrow> approval_status \<Rightarrow> approval_row \<Rightarrow> resolution_outcome \<Rightarrow>
    task_row \<times> task_status \<Rightarrow> step_row \<times> step_status \<Rightarrow> (run_row \<times> run_row) option \<Rightarrow>
    (string \<times> dict) list" where
  "resolution_trace_events a action previous current outcome task step run =
     (let linked = opt_uuid (ap_task_step_id current);
          res = serialize_resolution current;
          act = JStr (resolution_action_text action);
          out = JStr (resolution_outcome_text outcome);
          final = JStr (approval_status_text (ap_status current))
      in [(''approval.resolution.request'',
            [(''approval_id'', JStr (uuid_str a)), (''task_step_id'', linked), (''requested_action'', act)]),
          (''approval.resolution.state'',
            [(''approval_id'', JStr (uuid_str (ap_id current))), (''task_step_id'', linked),
             (''requested_action'', act), (''previous_status'', JStr (approval_status_text previous)),
             (''outcome'', out), (''current_status'', final),
             (''resolved_at'', opt_str (map_option fst res)),
             (''resolved_by_user_id'', opt_str (map_option snd res))]),
          (''approval.resolution.summary'',
            [(''approval_id'', JStr (uuid_str (ap_id current))), (''task_step_id'', linked),
             (''requested_action'', act), (''outcome'', out), (''final_status'', final)])] @
         (case run of None \<Rightarrow> []
          | Some (before, u) \<Rightarrow>
              [(''approval.resolution.run'',
                 [(''approval_id'', JStr (uuid_str (ap_id current))),
                  (''task_run_id'', opt_uuid (ap_task_run_id current)),
                  (''previous_status'', JStr (run_status_text (tr_status before))),
                  (''current_status'', JStr (run_status_text (tr_status u))),
                  (''stop_reason'', opt_text stop_reason_text (tr_stop_reason u)),
                  (''failure_class'', opt_text failure_class_text (tr_failure_class u)),
                  (''retry_posture'', JStr (retry_posture_text (tr_retry_posture u)))])]) @
         task_lifecycle_trace_events (fst task) (Some (snd task)) ''approval_resolution'' @
         task_step_lifecycle_trace_events (fst step) (Some (snd step)) ''approval_resolution'')"

definition resolve_approval ::
  "uuid \<Rightarrow> resolution_action \<Rightarrow> approval_status \<Rightarrow> store \<Rightarrow> (gov_error + dict) \<times> store" where
  "resolve_approval a action status s =
     and_then (require_row (approval_not_found a) (get_approval_optional a s) s) (\<lambda>approval s.
     and_then (validate_linked_task_step_for_approval a (ap_task_step_id approval) s) (\<lambda>_ s.
     and_then (settle_approval approval action status s) (\<lambda>(current, outcome) s.
     and_then (create_trace (ap_user_id current) (ap_thread_id current) ''approval.resolve''
                 ''approval_resolution_v0'' ''completed''
                 [(''order'', str_list APPROVAL_LIST_ORDER),
                  (''requested_action'', JStr (resolution_action_text action)),
                  (''outcome'', JStr (resolution_outcome_text outcome))] s) (\<lambda>trace s.
     and_then (sync_task_with_approval (ap_id current) (ap_status current) s) (\<lambda>task s.
     and_then (sync_task_step_with_approval (ap_id current) (ap_task_step_id current)
                 (ap_status current) (tc_id trace) ''approval.resolve'' s) (\<lambda>step s.
     and_then (resume_task_run_after_resolution current s) (\<lambda>run s.
     let es = resolution_trace_events a action (ap_status approval) current outcome task step run;
         s = append_trace_events (tc_id trace) es s
     in if outcome \<noteq> OutcomeResolved then (Inl (resolution_error a action (ap_status current)), s)
        else (Inr [(''approval'', JObj (serialize_approval_row current)),
                   (''trace'', JObj (trace_summary (tc_id trace) es))], s))))))))"

definition approve_approval_record :: "uuid \<Rightarrow> store \<Rightarrow> (gov_error + dict) \<times> store" where
  "approve_approval_record a s = resolve_approval a ActApprove ApprApproved s"

definition reject_approval_record :: "uuid \<Rightarrow> store \<Rightarrow> (gov_error + dict) \<times> store" where
  "reject_approval_record a s = resolve_approval a ActReject ApprRejected s"

subsection \<open>Request\<close>

definition routing_input_of :: "approval_request_input \<Rightarrow> routing_input" where
  "routing_input_of q =
     \<lparr>ri_thread_id = aq_thread_id q, ri_tool_id = aq_tool_id q, ri_action = aq_action q,
      ri_scope = aq_scope q, ri_domain_hint = aq_domain_hint q, ri_risk_hint = aq_risk_hint q,
      ri_attributes = aq_attributes q\<rparr>"

definition routing_trace_json :: "routing_response \<Rightarrow> dict" where
  "routing_trace_json rr =
     [(''trace_id'', JStr (uuid_str (rr_trace_id rr))),
      (''trace_event_count'', JInt (int (rr_trace_event_count rr)))]"

definition approval_routing :: "routing_response \<Rightarrow> dict" where
  "approval_routing rr =
     [(''decision'', JStr (routing_decision_text (rr_decision rr))),
      (''reasons'', tool_reasons_json (rr_reasons rr)), (''trace'', JObj (routing_trace_json rr))]"

definition persist_approval ::
  "approval_request_input \<Rightarrow> routing_response \<Rightarrow> store \<Rightarrow> (gov_error + approval_row option) \<times> store" where
  "persist_approval q rr s =
     (if rr_decision rr = RouteApprovalRequired
      then and_then (create_approval (aq_thread_id q) (aq_tool_id q) (aq_task_run_id q) None ApprPending
                       (rr_request rr) (rr_tool rr) (approval_routing rr) (rr_trace_id rr) s)
             (\<lambda>r s. (Inr (Some r), s))
      else (Inr None, s))"

definition link_approval ::
  "approval_row option \<Rightarrow> step_row \<Rightarrow> store \<Rightarrow> (gov_error + approval_row option) \<times> store" where
  "link_approval approval step s =
     (case approval of
        None \<Rightarrow> (Inr None, s)
      | Some r \<Rightarrow>
          and_then (update_approval_task_step_optional (ap_id r) (ts_id step) s) (\<lambda>updated s.
          and_then (require_row (RuntimeError
                      ''approval disappeared while linking it to its originating task step'') updated s)
            (\<lambda>u s. (Inr (Some u), s))))"

definition request_trace_events ::
  "approval_request_input \<Rightarrow> routing_response \<Rightarrow> approval_row option \<Rightarrow> task_row \<Rightarrow> step_row \<Rightarrow>
    (string \<times> dict) list" where
  "request_trace_events q rr approval task step =
     (let decision = JStr (routing_decision_text (rr_decision rr));
          created = (rr_decision rr = RouteApprovalRequired);
          a = opt_uuid (map_option ap_id approval);
          linked = (case approval of None \<Rightarrow> JNull | Some r \<Rightarrow> opt_uuid (ap_task_step_id r))
      in [(''approval.request.request'', approval_request_payload q),
          (''approval.request.routing'',
            [(''decision'', decision), (''tool_id'', JStr (tl_id (rr_tool rr))),
             (''tool_key'', JStr (tl_tool_key (rr_tool rr))),
             (''tool_version'', JStr (tl_version (rr_tool rr))),
             (''routing_trace_id'', JStr (uuid_str (rr_trace_id rr))),
             (''routing_trace_event_count'', JInt (int (rr_trace_event_count rr))),
             (''reasons'', tool_reasons_json (rr_reasons rr))]),
          (if created then ''approval.request.persisted'' else ''approval.request.skipped'',
            [(''approval_id'', a), (''task_step_id'', linked), (''decision'', decision),
             (''persisted'', JBool created)]),
          (''approval.request.summary'',
            [(''decision'', decision), (''persisted'', JBool created), (''approval_id'', a),
             (''task_step_id'', linked)])] @
         task_lifecycle_trace_events task None ''approval_request'' @
         task_step_lifecycle_trace_events step None ''approval_request'')"

definition request_task_input ::
  "approval_request_input \<Rightarrow> routing_response \<Rightarrow> approval_row option \<Rightarrow> task_create_input" where
  "request_task_input q rr approval =
     \<lparr>tkc_thread_id = aq_thread_id q, tkc_tool_id = aq_tool_id q,
      tkc_status = task_status_for_routing_decision (rr_decision rr), tkc_request = rr_request rr,
      tkc_tool = rr_tool rr, tkc_latest_approval_id = map_option ap_id approval,
      tkc_latest_execution_id = None\<rparr>"

definition request_step_input ::
  "routing_response \<Rightarrow> approval_row option \<Rightarrow> task_row \<Rightarrow> uuid \<Rightarrow> step_create_input" where
  "request_step_input rr approval task trace =
     \<lparr>sc_task_id = tk_id task, sc_sequence_no = DEFAULT_TASK_STEP_SEQUENCE_NO,
      sc_kind = KindGovernedRequest,
      sc_status = task_step_status_for_routing_decision (rr_decision rr), sc_request = rr_request rr,
      sc_outcome = task_step_outcome_snapshot (rr_decision rr)
        (opt_uuid_str (map_option ap_id approval)) (map_option ap_status approval) None None None,
      sc_trace_id = trace, sc_trace_kind = ''approval.request''\<rparr>"

definition submit_approval_request ::
  "approval_request_input \<Rightarrow> store \<Rightarrow> (gov_error + dict) \<times> store" where
  "submit_approval_request q s =
     and_then (route_tool_invocation (routing_input_of q) s) (\<lambda>rr s.
     and_then (require_row (RuntimeError
                 ''validated thread disappeared before approval request trace creation'')
                 (get_thread_optional (aq_thread_id q) s) s) (\<lambda>thread s.
     and_then (persist_approval q rr s) (\<lambda>approval s.
     and_then (create_task_for_governed_request (request_task_input q rr approval) s) (\<lambda>task s.
     and_then (create_trace (th_user_id thread) (th_id thread) ''approval.request''
                 ''approval_request_v0'' ''completed''
                 [(''order'', str_list APPROVAL_LIST_ORDER),
                  (''persisted'', JBool (rr_decision rr = RouteApprovalRequired))] s) (\<lambda>trace s.
     and_then (create_task_step_for_governed_request
                 (request_step_input rr approval task (tc_id trace)) s) (\<lambda>step s.
     and_then (link_approval approval step s) (\<lambda>approval s.
     let es = request_trace_events q rr approval task step;
         s = append_trace_events (tc_id trace) es s
     in (Inr [(''request'', JObj (request_json (rr_request rr))),
              (''decision'', JStr (routing_decision_text (rr_decision rr))),
              (''tool'', JObj (tool_json (rr_tool rr))),
              (''reasons'', tool_reasons_json (rr_reasons rr)),
              (''task'', JObj (serialize_task_row task)),
              (''approval'', (case approval of None \<Rightarrow> JNull
                              | Some r \<Rightarrow> JObj (serialize_approval_row r))),
              (''routing_trace'', JObj (routing_trace_json rr)),
              (''trace'', JObj (trace_summary (tc_id trace) es))], s))))))))"

subsection \<open>Reading\<close>

definition list_approval_records :: "store \<Rightarrow> dict" where
  "list_approval_records s =
     (let items = map (\<lambda>r. JObj (serialize_approval_row r)) (list_approvals s)
      in [(''items'', JList items),
          (''summary'', JObj [(''total_count'', JInt (int (length items))),
                              (''order'', str_list APPROVAL_LIST_ORDER)])])"

definition get_approval_record :: "uuid \<Rightarrow> store \<Rightarrow> (gov_error + dict) \<times> store" where
  "get_approval_record a s =
     and_then (require_row (approval_not_found a) (get_approval_optional a s) s)
       (\<lambda>r s. (Inr [(''approval'', JObj (serialize_approval_row r))], s))"

end
