(* ===== verification/Execution_Budgets.thy ===== *)
theory Execution_Budgets
  imports Tool_Routing
begin

text \<open>
  \<open>execution_budgets.py\<close>: budgets on the number of completed executions of a tool or a domain, at
  most one active per selector scope; their lifecycle (create, deactivate, supersede) and the
  decision whether one more execution fits.
\<close>

subsection \<open>Constants and records\<close>

definition EXECUTION_BUDGET_LIST_ORDER :: "string list" where
  "EXECUTION_BUDGET_LIST_ORDER = [''created_at_asc'', ''id_asc'']"

definition EXECUTION_BUDGET_MATCH_ORDER :: "string list" where
  "EXECUTION_BUDGET_MATCH_ORDER = [''specificity_desc'', ''created_at_asc'', ''id_asc'']"

definition TOOL_EXECUTION_LIST_ORDER :: "string list" where
  "TOOL_EXECUTION_LIST_ORDER = [''executed_at_asc'', ''id_asc'']"

definition EXECUTION_BUDGET_LIFECYCLE_REJECTION_REASON :: string where
  "EXECUTION_BUDGET_LIFECYCLE_REJECTION_REASON =
     ''The request conflicts with the current resource state''"

datatype budget_action = ActDeactivate | ActSupersede

fun budget_action_text :: "budget_action \<Rightarrow> string" where
  "budget_action_text ActDeactivate = ''deactivate''"
| "budget_action_text ActSupersede = ''supersede''"

datatype budget_outcome = OutcomeDeactivated | OutcomeSuperseded | OutcomeRejected

fun budget_outcome_text :: "budget_outcome \<Rightarrow> string" where
  "budget_outcome_text OutcomeDeactivated = ''deactivated''"
| "budget_outcome_text OutcomeSuperseded = ''superseded''"
| "budget_outcome_text OutcomeRejected = ''rejected''"

definition opt_int :: "int option \<Rightarrow> json" where
  "opt_int v = (case v of None \<Rightarrow> JNull | Some i \<Rightarrow> JInt i)"

definition serialize_execution_budget_row :: "budget_row \<Rightarrow> dict" where
  "serialize_execution_budget_row b =
     [(''id'', JStr (uuid_str (bu_id b))), (''agent_profile_id'', opt_str (bu_agent_profile_id b)),
      (''tool_key'', opt_str (bu_tool_key b)), (''domain_hint'', opt_str (bu_domain_hint b)),
      (''max_completed_executions'', JInt (bu_max_completed_executions b)),
      (''rolling_window_seconds'', opt_int (bu_rolling_window_seconds b)),
      (''status'', JStr (budget_status_text (bu_status b))),
      (''deactivated_at'', isoformat_or_none (bu_deactivated_at b)),
      (''superseded_by_budget_id'', opt_uuid (bu_superseded_by_budget_id b)),
      (''supersedes_budget_id'', opt_uuid (bu_supersedes_budget_id b)),
      (''created_at'', JStr (isoformat (bu_created_at b)))]"

record budget_create_input =
  bci_max_completed_executions :: int
  bci_tool_key :: "string option"
  bci_domain_hint :: "string option"
  bci_rolling_window_seconds :: "int option"
  bci_agent_profile_id :: "string option"

record budget_deactivate_input =
  bdi_thread_id :: uuid
  bdi_execution_budget_id :: uuid

record budget_supersede_input =
  bsi_thread_id :: uuid
  bsi_execution_budget_id :: uuid
  bsi_max_completed_executions :: int

subsection \<open>Validation\<close>

definition validate_budget_scope ::
  "string option \<Rightarrow> string option \<Rightarrow> store \<Rightarrow> (gov_error + unit) \<times> store" where
  "validate_budget_scope tool_key hint s =
     raise_when (tool_key = None \<and> hint = None) (ExecutionBudgetValidationError
       ''execution budget requires at least one selector: tool_key or domain_hint'') s"

definition validate_rolling_window_seconds :: "int option \<Rightarrow> store \<Rightarrow> (gov_error + unit) \<times> store" where
  "validate_rolling_window_seconds window s =
     raise_when (case window of None \<Rightarrow> False | Some w \<Rightarrow> w \<le> 0) (ExecutionBudgetValidationError
       ''rolling_window_seconds must be greater than 0 when provided'') s"

definition validate_agent_profile_id :: "string option \<Rightarrow> store \<Rightarrow> (gov_error + unit) \<times> store" where
  "validate_agent_profile_id profile s =
     raise_when (case profile of None \<Rightarrow> False | Some p \<Rightarrow> get_agent_profile_optional p s = None)
       (ExecutionBudgetValidationError
         ''agent_profile_id must reference an existing profile in the registry'') s"

definition validate_lifecycle_thread :: "uuid \<Rightarrow> store \<Rightarrow> (gov_error + thread_row) \<times> store" where
  "validate_lifecycle_thread thread s =
     require_row (ExecutionBudgetValidationError
       ''thread_id must reference an existing thread owned by the user'') (get_thread_optional thread s) s"

definition active_budget_rows_for_scope ::
  "string option \<Rightarrow> string option \<Rightarrow> string option \<Rightarrow> store \<Rightarrow> budget_row list" where
  "active_budget_rows_for_scope profile tool_key hint s =
     sort_key (\<lambda>b. (bu_created_at b, bu_id b))
       (filter (\<lambda>b. bu_agent_profile_id b = profile \<and> bu_tool_key b = tool_key \<and>
            bu_domain_hint b = hint \<and> bu_status b = BudgetActive) (list_execution_budgets s))"

definition scope_label :: "string option \<Rightarrow> string option \<Rightarrow> string option \<Rightarrow> string" where
  "scope_label profile tool_key hint =
     ''agent_profile_id='' @ py_repr (opt_str profile) @ '', tool_key='' @ py_repr (opt_str tool_key) @
     '', domain_hint='' @ py_repr (opt_str hint)"

definition duplicate_active_scope_message ::
  "string option \<Rightarrow> string option \<Rightarrow> string option \<Rightarrow> string" where
  "duplicate_active_scope_message profile tool_key hint =
     ''active execution budget already exists for selector scope '' @ scope_label profile tool_key hint"

definition is_active_scope_uniqueness_error :: "string \<Rightarrow> bool" where
  "is_active_scope_uniqueness_error constraint \<longleftrightarrow>
     constraint = ''execution_budgets_one_active_scope_idx''"

definition invalid_transition_error :: "budget_row \<Rightarrow> budget_action \<Rightarrow> gov_error" where
  "invalid_transition_error b action =
     ExecutionBudgetLifecycleError (''execution budget '' @ uuid_str (bu_id b) @ '' is '' @
       budget_status_text (bu_status b) @ '' and cannot be '' @ budget_action_text action @ ''d'')"

definition could_not_be :: "uuid \<Rightarrow> string \<Rightarrow> gov_error" where
  "could_not_be i what =
     ExecutionBudgetLifecycleError (''execution budget '' @ uuid_str i @ '' could not be '' @ what)"

definition get_execution_budget_or_raise :: "uuid \<Rightarrow> store \<Rightarrow> (gov_error + budget_row) \<times> store" where
  "get_execution_budget_or_raise i s =
     require_row (ExecutionBudgetNotFoundError (''execution budget '' @ uuid_str i @ '' was not found''))
       (get_execution_budget_optional i s) s"

subsection \<open>Lifecycle traces\<close>

definition lifecycle_request_payload :: "uuid \<Rightarrow> uuid \<Rightarrow> budget_action \<Rightarrow> int option \<Rightarrow> dict" where
  "lifecycle_request_payload thread budget action replacement_max =
     [(''thread_id'', JStr (uuid_str thread)), (''execution_budget_id'', JStr (uuid_str budget)),
      (''requested_action'', JStr (budget_action_text action)),
      (''replacement_max_completed_executions'', opt_int replacement_max)]"

definition lifecycle_state_payload ::
  "budget_row \<Rightarrow> budget_action \<Rightarrow> budget_status \<Rightarrow> budget_row option \<Rightarrow> int option \<Rightarrow> int option \<Rightarrow>
    string option \<Rightarrow> dict" where
  "lifecycle_state_payload b action previous replacement replacement_max replacement_window reason =
     [(''execution_budget_id'', JStr (uuid_str (bu_id b))),
      (''requested_action'', JStr (budget_action_text action)),
      (''previous_status'', JStr (budget_status_text previous)),
      (''current_status'', JStr (budget_status_text (bu_status b))),
      (''tool_key'', opt_str (bu_tool_key b)), (''domain_hint'', opt_str (bu_domain_hint b)),
      (''max_completed_executions'', JInt (bu_max_completed_executions b)),
      (''rolling_window_seconds'', opt_int (bu_rolling_window_seconds b)),
      (''deactivated_at'', isoformat_or_none (bu_deactivated_at b)),
      (''superseded_by_budget_id'', opt_uuid (bu_superseded_by_budget_id b)),
      (''supersedes_budget_id'', opt_uuid (bu_supersedes_budget_id b)),
      (''replacement_budget_id'', opt_uuid (map_option bu_id replacement)),
      (''replacement_status'', opt_text budget_status_text (map_option bu_status replacement)),
      (''replacement_max_completed_executions'', opt_int replacement_max),
      (''replacement_rolling_window_seconds'', opt_int replacement_window),
      (''rejection_reason'', opt_str reason)]"

definition lifecycle_summary_payload ::
  "uuid \<Rightarrow> budget_action \<Rightarrow> budget_outcome \<Rightarrow> uuid option \<Rightarrow> uuid option \<Rightarrow> dict" where
  "lifecycle_summary_payload budget action outcome replacement active =
     [(''execution_budget_id'', JStr (uuid_str budget)),
      (''requested_action'', JStr (budget_action_text action)),
      (''outcome'', JStr (budget_outcome_text outcome)),
      (''replacement_budget_id'', opt_uuid replacement), (''active_budget_id'', opt_uuid active)]"

definition record_lifecycle_trace ::
  "thread_row \<Rightarrow> dict \<Rightarrow> dict \<Rightarrow> dict \<Rightarrow> budget_action \<Rightarrow> budget_outcome \<Rightarrow> store \<Rightarrow>
    (gov_error + dict) \<times> store" where
  "record_lifecycle_trace thread request state summary action outcome s =
     and_then (create_trace (th_user_id thread) (th_id thread) ''execution_budget.lifecycle''
                 ''execution_budget_lifecycle_v0'' ''completed''
                 [(''order'', str_list EXECUTION_BUDGET_LIST_ORDER),
                  (''match_order'', str_list EXECUTION_BUDGET_MATCH_ORDER),
                  (''statuses'', str_list [''active'', ''inactive'', ''superseded'']),
                  (''requested_action'', JStr (budget_action_text action)),
                  (''outcome'', JStr (budget_outcome_text outcome))] s) (\<lambda>trace s.
     let es = [(''execution_budget.lifecycle.request'', request),
               (''execution_budget.lifecycle.state'', state),
               (''execution_budget.lifecycle.summary'', summary)]
     in (Inr (trace_summary (tc_id trace) es), append_trace_events (tc_id trace) es s))"

definition record_rejected_lifecycle_action ::
  "thread_row \<Rightarrow> dict \<Rightarrow> budget_row \<Rightarrow> budget_action \<Rightarrow> budget_status \<Rightarrow> int option \<Rightarrow> int option \<Rightarrow>
    uuid option \<Rightarrow> store \<Rightarrow> (gov_error + unit) \<times> store" where
  "record_rejected_lifecycle_action thread request b action previous replacement_max
     replacement_window active s =
     and_then (record_lifecycle_trace thread request
                 (lifecycle_state_payload b action previous None replacement_max replacement_window
                   (Some EXECUTION_BUDGET_LIFECYCLE_REJECTION_REASON))
                 (lifecycle_summary_payload (bu_id b) action OutcomeRejected None active)
                 action OutcomeRejected s) (\<lambda>_ s. (Inr (), s))"

text \<open>Record the rejection, then raise.\<close>

definition reject_lifecycle_action ::
  "gov_error \<Rightarrow> thread_row \<Rightarrow> dict \<Rightarrow> budget_row \<Rightarrow> budget_action \<Rightarrow> budget_status \<Rightarrow> int option \<Rightarrow>
    int option \<Rightarrow> uuid option \<Rightarrow> store \<Rightarrow> (gov_error + 'a) \<times> store" where
  "reject_lifecycle_action e thread request b action previous replacement_max replacement_window active s =
     and_then (record_rejected_lifecycle_action thread request b action previous replacement_max
                 replacement_window active s) (\<lambda>_ s. (Inl e, s))"

subsection \<open>Operations\<close>

definition budget_create_error :: "budget_create_input \<Rightarrow> gov_error \<Rightarrow> gov_error" where
  "budget_create_error q e =
     (case e of
        IntegrityError constraint \<Rightarrow>
          if is_active_scope_uniqueness_error constraint
          then ExecutionBudgetValidationError (duplicate_active_scope_message
                 (bci_agent_profile_id q) (bci_tool_key q) (bci_domain_hint q))
          else e
      | _ \<Rightarrow> e)"

definition map_error :: "(gov_error \<Rightarrow> gov_error) \<Rightarrow> (gov_error + 'a) \<times> 's \<Rightarrow> (gov_error + 'a) \<times> 's" where
  "map_error f m = (case m of (Inl e, s) \<Rightarrow> (Inl (f e), s) | (Inr x, s) \<Rightarrow> (Inr x, s))"

lemma map_error_simps [simp]:
  "map_error f (Inl e, s) = (Inl (f e), s)" "map_error f (Inr x, s) = (Inr x, s)"
  by (simp_all add: map_error_def)

lemma map_error_Inr: "map_error f m = (Inr x, s) \<longleftrightarrow> m = (Inr x, s)"
  by (cases m; cases "fst m") auto

lemma snd_map_error [simp]: "snd (map_error f m) = snd m"
  by (cases m; cases "fst m") auto

definition create_execution_budget_record ::
  "budget_create_input \<Rightarrow> store \<Rightarrow> (gov_error + dict) \<times> store" where
  "create_execution_budget_record q s =
     and_then (validate_budget_scope (bci_tool_key q) (bci_domain_hint q) s) (\<lambda>_ s.
     and_then (validate_rolling_window_seconds (bci_rolling_window_seconds q) s) (\<lambda>_ s.
     and_then (validate_agent_profile_id (bci_agent_profile_id q) s) (\<lambda>_ s.
     and_then (raise_when (active_budget_rows_for_scope (bci_agent_profile_id q) (bci_tool_key q)
                  (bci_domain_hint q) s \<noteq> [])
                 (ExecutionBudgetValidationError (duplicate_active_scope_message
                   (bci_agent_profile_id q) (bci_tool_key q) (bci_domain_hint q))) s) (\<lambda>_ s.
     and_then (map_error (budget_create_error q)
                 (create_execution_budget None (bci_agent_profile_id q) (bci_tool_key q)
                   (bci_domain_hint q) (bci_max_completed_executions q)
                   (bci_rolling_window_seconds q) None s)) (\<lambda>row s.
     (Inr [(''execution_budget'', JObj (serialize_execution_budget_row row))], s))))))"

definition list_execution_budget_records :: "store \<Rightarrow> dict" where
  "list_execution_budget_records s =
     (let items = map (\<lambda>b. JObj (serialize_execution_budget_row b)) (list_execution_budgets s)
      in [(''items'', JList items),
          (''summary'', JObj [(''total_count'', JInt (int (length items))),
                              (''order'', str_list EXECUTION_BUDGET_LIST_ORDER)])])"

definition get_execution_budget_record :: "uuid \<Rightarrow> store \<Rightarrow> (gov_error + dict) \<times> store" where
  "get_execution_budget_record i s =
     and_then (get_execution_budget_or_raise i s)
       (\<lambda>row s. (Inr [(''execution_budget'', JObj (serialize_execution_budget_row row))], s))"

definition deactivate_execution_budget_record ::
  "budget_deactivate_input \<Rightarrow> store \<Rightarrow> (gov_error + dict) \<times> store" where
  "deactivate_execution_budget_record q s =
     and_then (validate_lifecycle_thread (bdi_thread_id q) s) (\<lambda>thread s.
     and_then (get_execution_budget_or_raise (bdi_execution_budget_id q) s) (\<lambda>row s.
     let request = lifecycle_request_payload (bdi_thread_id q) (bdi_execution_budget_id q)
                     ActDeactivate None
     in if bu_status row \<noteq> BudgetActive
        then reject_lifecycle_action (invalid_transition_error row ActDeactivate) thread request row
               ActDeactivate (bu_status row) None None None s
        else
          and_then (deactivate_execution_budget_optional (bdi_execution_budget_id q) s) (\<lambda>found s.
          and_then (require_row (could_not_be (bdi_execution_budget_id q) ''deactivated'') found s)
            (\<lambda>updated s.
          and_then (record_lifecycle_trace thread request
                      (lifecycle_state_payload updated ActDeactivate BudgetActive None None None None)
                      (lifecycle_summary_payload (bu_id updated) ActDeactivate OutcomeDeactivated None None)
                      ActDeactivate OutcomeDeactivated s) (\<lambda>trace s.
          (Inr [(''execution_budget'', JObj (serialize_execution_budget_row updated)),
                (''trace'', JObj trace)], s))))))"

text \<open>\<open>with store.conn.transaction()\<close>: an exception undoes the writes of the block.\<close>

definition in_savepoint ::
  "(store \<Rightarrow> (gov_error + 'a) \<times> store) \<Rightarrow> store \<Rightarrow> (gov_error + 'a) \<times> store" where
  "in_savepoint m s =
     (case m s of
        (Inr x, t) \<Rightarrow> (Inr x, t)
      | (Inl e, t) \<Rightarrow> (Inl e, s\<lparr>reads := reads t, draws := draws t\<rparr>))"

definition swap_budgets ::
  "budget_row \<Rightarrow> budget_supersede_input \<Rightarrow> uuid \<Rightarrow> store \<Rightarrow>
    (gov_error + budget_row \<times> budget_row) \<times> store" where
  "swap_budgets current q replacement_id s =
     and_then (supersede_execution_budget_optional (bsi_execution_budget_id q) replacement_id s)
       (\<lambda>found s.
     and_then (require_row (could_not_be (bsi_execution_budget_id q) ''superseded'') found s)
       (\<lambda>superseded s.
     and_then (create_execution_budget (Some replacement_id) (bu_agent_profile_id current)
                 (bu_tool_key current) (bu_domain_hint current) (bsi_max_completed_executions q)
                 (bu_rolling_window_seconds current) (Some (bu_id current)) s) (\<lambda>replacement s.
     (Inr (superseded, replacement), s))))"

text \<open>The exceptions of the block that are recorded before they are raised.\<close>

fun lifecycle_error_of :: "budget_row \<Rightarrow> gov_error \<Rightarrow> gov_error option" where
  "lifecycle_error_of current (IntegrityError constraint) =
     (if is_active_scope_uniqueness_error constraint
      then Some (ExecutionBudgetLifecycleError (duplicate_active_scope_message
             (bu_agent_profile_id current) (bu_tool_key current) (bu_domain_hint current)))
      else None)"
| "lifecycle_error_of current (ExecutionBudgetLifecycleError m) = Some (ExecutionBudgetLifecycleError m)"
| "lifecycle_error_of current _ = None"

definition active_id :: "budget_row \<Rightarrow> uuid option" where
  "active_id b = (if bu_status b = BudgetActive then Some (bu_id b) else None)"

definition supersede_execution_budget_record ::
  "budget_supersede_input \<Rightarrow> store \<Rightarrow> (gov_error + dict) \<times> store" where
  "supersede_execution_budget_record q s =
     and_then (validate_lifecycle_thread (bsi_thread_id q) s) (\<lambda>thread s.
     and_then (get_execution_budget_or_raise (bsi_execution_budget_id q) s) (\<lambda>current s.
     let cap = Some (bsi_max_completed_executions q);
         window = bu_rolling_window_seconds current;
         request = lifecycle_request_payload (bsi_thread_id q) (bsi_execution_budget_id q) ActSupersede cap
     in if bu_status current \<noteq> BudgetActive
        then reject_lifecycle_action (invalid_transition_error current ActSupersede) thread request
               current ActSupersede (bu_status current) cap window (active_id current) s
        else if map bu_id (active_budget_rows_for_scope (bu_agent_profile_id current)
                  (bu_tool_key current) (bu_domain_hint current) s) \<noteq> [bu_id current]
        then reject_lifecycle_action (ExecutionBudgetLifecycleError
                 (''execution budget selector scope must have exactly one active budget to supersede: '' @
                  scope_label (bu_agent_profile_id current) (bu_tool_key current) (bu_domain_hint current)))
               thread request current ActSupersede BudgetActive cap window (Some (bu_id current)) s
        else
          (case in_savepoint (swap_budgets current q (next_id s)) (after_draw s) of
             (Inl e, s) \<Rightarrow>
               (case lifecycle_error_of current e of
                  None \<Rightarrow> (Inl e, s)
                | Some lifecycle_error \<Rightarrow>
                    and_then (get_execution_budget_or_raise (bsi_execution_budget_id q) s) (\<lambda>state s.
                    reject_lifecycle_action lifecycle_error thread request state ActSupersede
                      (bu_status current) cap window (active_id state) s))
           | (Inr (superseded, replacement), s) \<Rightarrow>
               and_then (record_lifecycle_trace thread request
                           (lifecycle_state_payload superseded ActSupersede BudgetActive
                             (Some replacement) (Some (bu_max_completed_executions replacement))
                             (bu_rolling_window_seconds replacement) None)
                           (lifecycle_summary_payload (bu_id superseded) ActSupersede OutcomeSuperseded
                             (Some (bu_id replacement)) (Some (bu_id replacement)))
                           ActSupersede OutcomeSuperseded s) (\<lambda>trace s.
               (Inr [(''superseded_budget'', JObj (serialize_execution_budget_row superseded)),
                     (''replacement_budget'', JObj (serialize_execution_budget_row replacement)),
                     (''trace'', JObj trace)], s)))))"

subsection \<open>Matching\<close>

definition budget_specificity :: "budget_row \<Rightarrow> int" where
  "budget_specificity b =
     (if bu_tool_key b \<noteq> None then 1 else 0) + (if bu_domain_hint b \<noteq> None then 1 else 0)"

definition selector_matches :: "string option \<Rightarrow> string option \<Rightarrow> bool" where
  "selector_matches selector v \<longleftrightarrow> selector = None \<or> selector = v"

definition matches_budget :: "budget_row \<Rightarrow> string \<Rightarrow> string option \<Rightarrow> bool" where
  "matches_budget b tool_key hint \<longleftrightarrow>
     selector_matches (bu_tool_key b) (Some tool_key) \<and> selector_matches (bu_domain_hint b) hint"

definition match_order :: "budget_row \<Rightarrow> int \<times> timestamp \<times> uuid" where
  "match_order b = (- budget_specificity b, bu_created_at b, bu_id b)"

text \<open>The budgets of the thread's profile first, then the global ones, each by specificity.\<close>

definition matching_budget_rows ::
  "string option \<Rightarrow> string \<Rightarrow> string option \<Rightarrow> store \<Rightarrow> budget_row list" where
  "matching_budget_rows profile tool_key hint s =
     (let candidates = filter (\<lambda>b. bu_status b = BudgetActive \<and> matches_budget b tool_key hint)
                         (list_execution_budgets s);
          scoped = (\<lambda>b. profile \<noteq> None \<and> bu_agent_profile_id b = profile)
      in sort_key match_order (filter scoped candidates) @
         sort_key match_order
           (filter (\<lambda>b. \<not> scoped b \<and> bu_agent_profile_id b = None) candidates))"

subsection \<open>The context of a request\<close>

definition thread_profile_id_optional :: "uuid \<Rightarrow> store \<Rightarrow> string option" where
  "thread_profile_id_optional i s =
     (case get_thread_optional i s of
        None \<Rightarrow> None
      | Some thread \<Rightarrow>
          if get_agent_profile_optional (th_agent_profile_id thread) s = None then None
          else Some (th_agent_profile_id thread))"

record request_context =
  cx_request_thread_id :: "string option"
  cx_active_thread_profile_id :: "string option"
  cx_invalid :: bool
  cx_context_reason :: "string option"

definition invalid_context :: "string option \<Rightarrow> string \<Rightarrow> request_context" where
  "invalid_context thread reason =
     \<lparr>cx_request_thread_id = thread, cx_active_thread_profile_id = None, cx_invalid = True,
      cx_context_reason = Some reason\<rparr>"

definition resolve_request_context :: "routing_request \<Rightarrow> store \<Rightarrow> request_context" where
  "resolve_request_context req s =
     (case rq_thread_id req of
        None \<Rightarrow> invalid_context None ''request.thread_id is missing''
      | Some t \<Rightarrow>
          (case parse_uuid t of
             None \<Rightarrow> invalid_context (Some t)
               (''request.thread_id '' @ quoted t @ '' is not a valid UUID'')
           | Some i \<Rightarrow>
               (case thread_profile_id_optional i s of
                  None \<Rightarrow> invalid_context (Some t)
                    (''request.thread_id '' @ quoted t @
                     '' did not resolve to a visible thread/profile context'')
                | Some profile \<Rightarrow>
                    \<lparr>cx_request_thread_id = Some t, cx_active_thread_profile_id = Some profile,
                     cx_invalid = False, cx_context_reason = None\<rparr>)))"

definition count_profile_scope_id :: "budget_row \<Rightarrow> string option \<Rightarrow> string option" where
  "count_profile_scope_id b profile =
     (case bu_agent_profile_id b of None \<Rightarrow> profile | Some p \<Rightarrow> Some p)"

subsection \<open>Counting\<close>

definition execution_matches_budget :: "execution_row \<Rightarrow> budget_row \<Rightarrow> bool" where
  "execution_matches_budget x b \<longleftrightarrow>
     ex_status x = ExecCompleted \<and>
     selector_matches (bu_tool_key b) (Some (tl_tool_key (ex_tool x))) \<and>
     selector_matches (bu_domain_hint b) (rq_domain_hint (ex_request x))"

definition window_started_at :: "timestamp \<Rightarrow> int option \<Rightarrow> timestamp option" where
  "window_started_at now window = map_option (\<lambda>w. now - w * 1000000) window"

text \<open>The row's own thread, when its stored request names it and a profile is visible there.\<close>

definition row_profile :: "execution_row \<Rightarrow> store \<Rightarrow> string option" where
  "row_profile x s =
     (case rq_thread_id (ex_request x) of
        None \<Rightarrow> None
      | Some t \<Rightarrow>
          (case parse_uuid t of
             None \<Rightarrow> None
           | Some i \<Rightarrow> if i \<noteq> ex_thread_id x then None else thread_profile_id_optional i s))"

definition counted_completed_execution_rows ::
  "budget_row \<Rightarrow> timestamp \<Rightarrow> string option \<Rightarrow> store \<Rightarrow> execution_row list" where
  "counted_completed_execution_rows b now scope s =
     filter (\<lambda>x. execution_matches_budget x b \<and>
         (case row_profile x s of
            None \<Rightarrow> False
          | Some p \<Rightarrow> (case scope of None \<Rightarrow> True | Some q \<Rightarrow> p = q)) \<and>
         (case window_started_at now (bu_rolling_window_seconds b) of
            None \<Rightarrow> True | Some t \<Rightarrow> t \<le> ex_executed_at x))
       (list_tool_executions s)"

subsection \<open>The decision\<close>

definition opt_text_of_int :: "int option \<Rightarrow> string" where
  "opt_text_of_int v = (case v of None \<Rightarrow> ''None'' | Some i \<Rightarrow> int_str i)"

definition opt_text_of_str :: "string option \<Rightarrow> string" where
  "opt_text_of_str v = (case v of None \<Rightarrow> ''None'' | Some t \<Rightarrow> t)"

definition blocked_with :: "string \<Rightarrow> budget_decision \<Rightarrow> exec_result" where
  "blocked_with reason d =
     \<lparr>er_handler_key = None, er_status = ExecBlocked, er_output = None, er_reason = Some reason,
      er_budget_decision = Some d\<rparr>"

definition blocked_result :: "budget_decision \<Rightarrow> exec_result" where
  "blocked_result d =
     blocked_with
       (''execution budget '' @ opt_text_of_str (bd_matched_budget_id d) @
        '' blocks execution: projected completed executions '' @
        nat_str (bd_projected_completed_execution_count d) @
        (case bd_rolling_window_seconds d of None \<Rightarrow> []
         | Some w \<Rightarrow> '' within rolling window '' @ int_str w @ '' seconds'') @
        '' would exceed limit '' @ opt_text_of_int (bd_max_completed_executions d)) d"

definition invalid_context_blocked_result :: "budget_decision \<Rightarrow> exec_result" where
  "invalid_context_blocked_result d =
     blocked_with
       (''execution budget invariance blocks execution: invalid request thread/profile context'' @
        (case bd_context d of
           None \<Rightarrow> []
         | Some c \<Rightarrow> (case bc_context_reason c of None \<Rightarrow> [] | Some r \<Rightarrow> '': '' @ r))) d"

definition decision_record_for ::
  "tool_record \<Rightarrow> routing_request \<Rightarrow> budget_row option \<Rightarrow> timestamp \<Rightarrow> nat \<Rightarrow> nat \<Rightarrow> budget_decision" where
  "decision_record_for tool req matched now completed projected =
     (let window = (case matched of None \<Rightarrow> None | Some b \<Rightarrow> bu_rolling_window_seconds b)
      in \<lparr>bd_matched_budget_id = map_option (\<lambda>b. uuid_str (bu_id b)) matched,
          bd_tool_key = tl_tool_key tool, bd_domain_hint = rq_domain_hint req,
          bd_budget_tool_key = (case matched of None \<Rightarrow> None | Some b \<Rightarrow> bu_tool_key b),
          bd_budget_domain_hint = (case matched of None \<Rightarrow> None | Some b \<Rightarrow> bu_domain_hint b),
          bd_max_completed_executions = map_option bu_max_completed_executions matched,
          bd_rolling_window_seconds = window,
          bd_count_scope = (if window = None then ''lifetime'' else ''rolling_window''),
          bd_window_started_at = map_option isoformat (window_started_at now window),
          bd_completed_execution_count = completed,
          bd_projected_completed_execution_count = projected,
          bd_decision = BudgetAllow, bd_reason = NoMatchingBudget,
          bd_order = EXECUTION_BUDGET_MATCH_ORDER, bd_history_order = TOOL_EXECUTION_LIST_ORDER,
          bd_context = None\<rparr>)"

definition matched_budget_for :: "tool_record \<Rightarrow> routing_request \<Rightarrow> store \<Rightarrow> budget_row option" where
  "matched_budget_for tool req s =
     (let cx = resolve_request_context req s
      in if cx_invalid cx then None
         else (case matching_budget_rows (cx_active_thread_profile_id cx) (tl_tool_key tool)
                      (rq_domain_hint req) s of
                 [] \<Rightarrow> None | b # _ \<Rightarrow> Some b))"

text \<open>The decision and the blocked result, with the store after its reading of the clock.\<close>

definition evaluate_execution_budget ::
  "tool_record \<Rightarrow> routing_request \<Rightarrow> store \<Rightarrow> (budget_decision \<times> exec_result option) \<times> store" where
  "evaluate_execution_budget tool req s =
     (let cx = resolve_request_context req s;
          matched = matched_budget_for tool req s;
          now = now_reading s;
          completed = (case matched of None \<Rightarrow> 0
            | Some b \<Rightarrow> length (counted_completed_execution_rows b now
                (count_profile_scope_id b (cx_active_thread_profile_id cx)) s));
          projected = completed + 1;
          d = decision_record_for tool req matched now completed projected;
          s' = after_reading s
      in if cx_invalid cx
         then let d' = d\<lparr>bd_decision := BudgetBlock, bd_reason := InvalidRequestContext,
                     bd_context := Some \<lparr>bc_request_thread_id = cx_request_thread_id cx,
                                         bc_context_reason = cx_context_reason cx\<rparr>\<rparr>
              in ((d', Some (invalid_context_blocked_result d')), s')
         else (case matched of
                 None \<Rightarrow> ((d, None), s')
               | Some b \<Rightarrow>
                   if int projected \<le> bu_max_completed_executions b
                   then ((d\<lparr>bd_reason := WithinBudget\<rparr>, None), s')
                   else let d' = d\<lparr>bd_decision := BudgetBlock, bd_reason := BudgetExceeded\<rparr>
                        in ((d', Some (blocked_result d')), s')))"

subsection \<open>JSON of decisions and results\<close>

fun budget_verdict_text :: "budget_verdict \<Rightarrow> string" where
  "budget_verdict_text BudgetAllow = ''allow''"
| "budget_verdict_text BudgetBlock = ''block''"

fun budget_reason_text :: "budget_reason \<Rightarrow> string" where
  "budget_reason_text NoMatchingBudget = ''no_matching_budget''"
| "budget_reason_text WithinBudget = ''within_budget''"
| "budget_reason_text BudgetExceeded = ''budget_exceeded''"
| "budget_reason_text InvalidRequestContext = ''invalid_request_context''"

definition budget_context_json :: "budget_context \<Rightarrow> dict" where
  "budget_context_json c =
     [(''request_thread_id'', opt_str (bc_request_thread_id c)),
      (''context_resolution'', JStr ''invalid''), (''context_reason'', opt_str (bc_context_reason c))]"

definition budget_decision_json :: "budget_decision \<Rightarrow> dict" where
  "budget_decision_json d =
     [(''matched_budget_id'', opt_str (bd_matched_budget_id d)), (''tool_key'', JStr (bd_tool_key d)),
      (''domain_hint'', opt_str (bd_domain_hint d)),
      (''budget_tool_key'', opt_str (bd_budget_tool_key d)),
      (''budget_domain_hint'', opt_str (bd_budget_domain_hint d)),
      (''max_completed_executions'', opt_int (bd_max_completed_executions d)),
      (''rolling_window_seconds'', opt_int (bd_rolling_window_seconds d)),
      (''count_scope'', JStr (bd_count_scope d)),
      (''window_started_at'', opt_str (bd_window_started_at d)),
      (''completed_execution_count'', JInt (int (bd_completed_execution_count d))),
      (''projected_completed_execution_count'', JInt (int (bd_projected_completed_execution_count d))),
      (''decision'', JStr (budget_verdict_text (bd_decision d))),
      (''reason'', JStr (budget_reason_text (bd_reason d))),
      (''order'', str_list (bd_order d)), (''history_order'', str_list (bd_history_order d))] @
     (case bd_context d of None \<Rightarrow> [] | Some c \<Rightarrow> budget_context_json c)"

definition opt_obj :: "dict option \<Rightarrow> json" where
  "opt_obj d = (case d of None \<Rightarrow> JNull | Some x \<Rightarrow> JObj x)"

definition exec_result_json :: "exec_result \<Rightarrow> dict" where
  "exec_result_json r =
     [(''handler_key'', opt_str (er_handler_key r)),
      (''status'', JStr (execution_status_text (er_status r))),
      (''output'', opt_obj (er_output r)), (''reason'', opt_str (er_reason r))] @
     (case er_budget_decision r of None \<Rightarrow> []
      | Some d \<Rightarrow> [(''budget_decision'', JObj (budget_decision_json d))])"

end
