(* ===== verification/Proxy_Execution.thy ===== *)
theory Proxy_Execution
  imports Approvals Execution_Budgets Canonical_Json
begin

text \<open>
  \<open>proxy_execution.py\<close> and \<open>executions.py\<close>: the execution of an approved request by a registered
  handler.  Only an approved approval runs; a handler with side effects needs a run and runs once
  for a key; the budget is checked before the handler; task, step and run follow the outcome.
\<close>

subsection \<open>Handlers\<close>

record handler_result =
  hr_handler_key :: string
  hr_status :: execution_status
  hr_output :: "dict option"

record handler_spec =
  hs_handler :: "routing_request \<Rightarrow> tool_record \<Rightarrow> handler_result"
  hs_side_effect_capable :: bool
  hs_rollout_mode :: string

definition completed_result :: "string \<Rightarrow> dict \<Rightarrow> handler_result" where
  "completed_result k out = \<lparr>hr_handler_key = k, hr_status = ExecCompleted, hr_output = Some out\<rparr>"

definition proxy_echo_handler :: "routing_request \<Rightarrow> tool_record \<Rightarrow> handler_result" where
  "proxy_echo_handler req tool =
     completed_result ''proxy.echo''
       [(''mode'', JStr ''no_side_effect''), (''tool_key'', JStr (tl_tool_key tool)),
        (''action'', JStr (rq_action req)), (''scope'', JStr (rq_scope req)),
        (''domain_hint'', opt_str (rq_domain_hint req)), (''risk_hint'', opt_str (rq_risk_hint req)),
        (''attributes'', JObj (rq_attributes req))]"

definition proxy_thread_audit_handler :: "routing_request \<Rightarrow> tool_record \<Rightarrow> handler_result" where
  "proxy_thread_audit_handler req tool =
     completed_result ''proxy.thread_audit''
       [(''mode'', JStr ''internal_low_risk''), (''tool_key'', JStr (tl_tool_key tool)),
        (''summary'', JObj
           [(''attribute_count'', JInt (int (length (rq_attributes req)))),
            (''attribute_keys'', str_list (sort (map fst (rq_attributes req)))),
            (''action'', JStr (rq_action req)), (''scope'', JStr (rq_scope req))])]"

definition proxy_calendar_draft_handler :: "routing_request \<Rightarrow> tool_record \<Rightarrow> handler_result" where
  "proxy_calendar_draft_handler req tool =
     completed_result ''proxy.calendar.draft_event''
       [(''mode'', JStr ''external_draft''), (''tool_key'', JStr (tl_tool_key tool)),
        (''provider'', JStr ''google_calendar''),
        (''draft'', JObj
           [(''title'', dget_default (rq_attributes req) ''title'' (JStr ''Untitled draft event'')),
            (''scope'', JStr (rq_scope req)), (''domain_hint'', opt_str (rq_domain_hint req)),
            (''risk_hint'', opt_str (rq_risk_hint req)), (''attributes'', JObj (rq_attributes req))])]"

definition REGISTERED_PROXY_HANDLERS :: "(string \<times> handler_spec) list" where
  "REGISTERED_PROXY_HANDLERS =
     [(''proxy.echo'', \<lparr>hs_handler = proxy_echo_handler, hs_side_effect_capable = False,
         hs_rollout_mode = ''internal''\<rparr>),
      (''proxy.thread_audit'', \<lparr>hs_handler = proxy_thread_audit_handler,
         hs_side_effect_capable = False, hs_rollout_mode = ''internal''\<rparr>),
      (''proxy.calendar.draft_event'', \<lparr>hs_handler = proxy_calendar_draft_handler,
         hs_side_effect_capable = True, hs_rollout_mode = ''external_draft''\<rparr>)]"

definition registered_proxy_handler_keys :: "string list" where
  "registered_proxy_handler_keys = sort (map fst REGISTERED_PROXY_HANDLERS)"

definition handler_for :: "string \<Rightarrow> handler_spec option" where
  "handler_for tool_key = map_of REGISTERED_PROXY_HANDLERS tool_key"

definition side_effects :: "string \<Rightarrow> bool" where
  "side_effects tool_key \<longleftrightarrow>
     (case handler_for tool_key of None \<Rightarrow> False | Some spec \<Rightarrow> hs_side_effect_capable spec)"

subsection \<open>Errors and results\<close>

definition blocked_state_message :: "approval_row \<Rightarrow> string" where
  "blocked_state_message a =
     ''approval '' @ uuid_str (ap_id a) @ '' is '' @ approval_status_text (ap_status a) @
     '' and cannot be executed''"

definition missing_handler_message :: "tool_record \<Rightarrow> string" where
  "missing_handler_message tool =
     ''tool '' @ quoted (tl_tool_key tool) @ '' has no registered proxy handler''"

definition tool_execution_result ::
  "string option \<Rightarrow> execution_status \<Rightarrow> dict option \<Rightarrow> string option \<Rightarrow> exec_result" where
  "tool_execution_result k status out reason =
     \<lparr>er_handler_key = k, er_status = status, er_output = out, er_reason = reason,
      er_budget_decision = None\<rparr>"

definition build_idempotency_key ::
  "uuid \<Rightarrow> uuid \<Rightarrow> routing_request \<Rightarrow> tool_record \<Rightarrow> string" where
  "build_idempotency_key run approval req tool =
     sha256_hexdigest (json_dumps (JObj
       [(''task_run_id'', JStr (uuid_str run)), (''approval_id'', JStr (uuid_str approval)),
        (''tool_key'', JStr (tl_tool_key tool)), (''action'', JStr (rq_action req)),
        (''scope'', JStr (rq_scope req)), (''domain_hint'', opt_str (rq_domain_hint req)),
        (''risk_hint'', opt_str (rq_risk_hint req)), (''attributes'', JObj (rq_attributes req))]))"

subsection \<open>The run of an execution\<close>

definition or_else :: "'a option \<Rightarrow> 'a option \<Rightarrow> 'a option" where
  "or_else a b = (case a of None \<Rightarrow> b | Some x \<Rightarrow> Some x)"

definition resolve_task_run_linkage ::
  "approval_row \<Rightarrow> step_row \<Rightarrow> uuid option \<Rightarrow> store \<Rightarrow> (gov_error + uuid option) \<times> store" where
  "resolve_task_run_linkage approval step requested s =
     (let prefix = ''approval '' @ uuid_str (ap_id approval)
      in case or_else requested (ap_task_run_id approval) of
           None \<Rightarrow> (Inr None, s)
         | Some run_id \<Rightarrow>
             and_then (require_row (ProxyExecutionApprovalStateError (prefix @ '' links task run '' @
                         uuid_str run_id @ '' that was not found'')) (get_task_run_optional run_id s) s)
               (\<lambda>run s.
             and_then (raise_when (tr_task_id run \<noteq> ts_task_id step)
                         (ProxyExecutionApprovalStateError (prefix @ '' links task run '' @
                          uuid_str run_id @ '' outside task '' @ uuid_str (ts_task_id step))) s) (\<lambda>_ s.
             case ap_task_run_id approval of
               None \<Rightarrow>
                 and_then (update_approval_task_run_optional (ap_id approval) (Some run_id) s)
                   (\<lambda>_ s. (Inr (Some run_id), s))
             | Some linked \<Rightarrow>
                 and_then (raise_when (linked \<noteq> run_id) (ProxyExecutionApprovalStateError
                             (prefix @ '' is already linked to task run '' @ uuid_str linked)) s)
                   (\<lambda>_ s. (Inr (Some run_id), s)))))"

definition executed_checkpoint :: "uuid \<Rightarrow> execution_row \<Rightarrow> dict \<Rightarrow> dict" where
  "executed_checkpoint a x checkpoint =
     dset ''last_execution_at'' (JStr (isoformat (ex_executed_at x)))
       (dset ''last_execution_status'' (JStr (execution_status_text (ex_status x)))
         (dset ''last_execution_id'' (JStr (uuid_str (ex_id x)))
           (dset ''resumed_from_approval_id'' (JStr (uuid_str a))
             (dset ''resolved_approval_id'' (JStr (uuid_str a))
               (dset ''waiting_approval_id'' JNull
                 (dset ''wait_for_signal'' (JBool False) checkpoint))))))"

definition budget_was_exceeded :: "exec_result \<Rightarrow> bool" where
  "budget_was_exceeded r \<longleftrightarrow>
     (case er_budget_decision r of None \<Rightarrow> False | Some d \<Rightarrow> bd_reason d = BudgetExceeded)"

definition executed_values :: "run_row \<Rightarrow> execution_row \<Rightarrow> dict \<Rightarrow> run_values" where
  "executed_values run x checkpoint =
     (let blocked = (ex_status x = ExecBlocked); exceeded = budget_was_exceeded (ex_result x)
      in \<lparr>rv_status = (if blocked then RunFailed else RunDone), rv_checkpoint = checkpoint,
          rv_tick_count = max 1 (tr_tick_count run), rv_step_count = max (tr_step_count run) 1,
          rv_retry_count = tr_retry_count run, rv_retry_cap = tr_retry_cap run,
          rv_retry_posture = RetryTerminal,
          rv_failure_class = (if blocked then Some (if exceeded then FailBudget else FailPolicy) else None),
          rv_stop_reason = Some (if blocked then (if exceeded then StopBudgetExhausted else StopPolicyBlocked)
                                 else StopDone)\<rparr>)"

definition sync_task_run_after_execution ::
  "uuid \<Rightarrow> uuid \<Rightarrow> execution_row \<Rightarrow> store \<Rightarrow> (gov_error + run_row option) \<times> store" where
  "sync_task_run_after_execution run_id a x s =
     (case get_task_run_optional run_id s of
        None \<Rightarrow> (Inr None, s)
      | Some run \<Rightarrow>
          if tr_status run = RunDone \<or> tr_status run = RunCancelled then (Inr (Some run), s)
          else
            let cp = executed_checkpoint a x (tr_checkpoint run);
                v = executed_values run x cp;
                history = dict_entries (dget cp ''transitions'');
                entry = transition_entry (length history + 1) ''proxy_execution'' (now_reading s)
                  (Some (tr_status run)) (tr_stop_reason run) v
            in update_task_run_optional run_id
                 (v\<lparr>rv_checkpoint := with_transition history entry cp\<rparr>) (after_reading s))"

definition task_run_trace_payload :: "run_row \<Rightarrow> dict" where
  "task_run_trace_payload r =
     [(''task_run_id'', JStr (uuid_str (tr_id r))), (''status'', JStr (run_status_text (tr_status r))),
      (''stop_reason'', opt_text stop_reason_text (tr_stop_reason r)),
      (''failure_class'', opt_text failure_class_text (tr_failure_class r)),
      (''retry_count'', JInt (tr_retry_count r)), (''retry_cap'', JInt (tr_retry_cap r)),
      (''retry_posture'', JStr (retry_posture_text (tr_retry_posture r)))]"

subsection \<open>One execution call\<close>

text \<open>What an execution has fixed once its trace exists.\<close>

record execution_call =
  ec_approval :: approval_row
  ec_step_id :: uuid
  ec_run_id :: "uuid option"
  ec_key :: "string option"
  ec_trace_id :: uuid

definition call_tool :: "execution_call \<Rightarrow> tool_record" where
  "call_tool c = ap_tool (ec_approval c)"

definition call_request :: "execution_call \<Rightarrow> routing_request" where
  "call_request c = ap_request (ec_approval c)"

text \<open>The keys every payload about a call starts with, and the optional run.\<close>

definition call_ids :: "execution_call \<Rightarrow> dict" where
  "call_ids c =
     [(''approval_id'', JStr (uuid_str (ap_id (ec_approval c)))),
      (''task_step_id'', JStr (uuid_str (ec_step_id c)))]"

definition call_tool_ids :: "execution_call \<Rightarrow> dict" where
  "call_tool_ids c =
     call_ids c @ [(''tool_id'', JStr (tl_id (call_tool c))), (''tool_key'', JStr (tl_tool_key (call_tool c)))]"

definition run_entry :: "execution_call \<Rightarrow> dict" where
  "run_entry c = (case ec_run_id c of None \<Rightarrow> [] | Some i \<Rightarrow> [(''task_run_id'', JStr (uuid_str i))])"

definition opening_events :: "execution_call \<Rightarrow> (string \<times> dict) list" where
  "opening_events c =
     [(''tool.proxy.execute.request'', call_ids c @ run_entry c),
      (''tool.proxy.execute.approval'',
        call_ids c @
        [(''approval_status'', JStr (approval_status_text (ap_status (ec_approval c)))),
         (''eligible_for_execution'', JBool (ap_status (ec_approval c) = ApprApproved))])]"

definition dispatch_event ::
  "execution_call \<Rightarrow> string option \<Rightarrow> string \<Rightarrow> string option \<Rightarrow> execution_status option \<Rightarrow> dict option \<Rightarrow>
    dict \<Rightarrow> string \<times> dict" where
  "dispatch_event c k status reason result_status out extra =
     (''tool.proxy.execute.dispatch'',
       call_tool_ids c @
       [(''handler_key'', opt_str k), (''dispatch_status'', JStr status), (''reason'', opt_str reason),
        (''result_status'', opt_text execution_status_text result_status), (''output'', opt_obj out)] @
       extra)"

definition summary_event ::
  "execution_call \<Rightarrow> execution_status \<Rightarrow> string option \<Rightarrow> uuid option \<Rightarrow> uuid option \<Rightarrow> string \<times> dict" where
  "summary_event c status k request_event result_event =
     (''tool.proxy.execute.summary'',
       call_tool_ids c @
       [(''approval_status'', JStr (approval_status_text (ap_status (ec_approval c)))),
        (''execution_status'', JStr (execution_status_text status)), (''handler_key'', opt_str k),
        (''request_event_id'', opt_uuid request_event), (''result_event_id'', opt_uuid result_event)])"

definition run_event :: "run_row option \<Rightarrow> (string \<times> dict) list" where
  "run_event r = (case r of None \<Rightarrow> [] | Some x \<Rightarrow> [(''tool.proxy.execute.run'', task_run_trace_payload x)])"

definition persist_tool_execution ::
  "execution_call \<Rightarrow> string option \<Rightarrow> exec_result \<Rightarrow> uuid option \<Rightarrow> uuid option \<Rightarrow> store \<Rightarrow>
    (gov_error + execution_row) \<times> store" where
  "persist_tool_execution c k result request_event result_event s =
     (let a = ec_approval c
      in create_tool_execution
           \<lparr>xv_approval_id = ap_id a, xv_task_run_id = ec_run_id c, xv_task_step_id = ec_step_id c,
            xv_thread_id = ap_thread_id a, xv_tool_id = ap_tool_id a, xv_trace_id = ec_trace_id c,
            xv_request_event_id = request_event, xv_result_event_id = result_event,
            xv_status = er_status result, xv_handler_key = k, xv_idempotency_key = ec_key c,
            xv_request = call_request c, xv_tool = call_tool c, xv_result = result\<rparr> s)"

definition sync_run_of_call ::
  "execution_call \<Rightarrow> execution_row \<Rightarrow> store \<Rightarrow> (gov_error + run_row option) \<times> store" where
  "sync_run_of_call c x s =
     (case ec_run_id c of
        None \<Rightarrow> (Inr None, s)
      | Some run \<Rightarrow> sync_task_run_after_execution run (ap_id (ec_approval c)) x s)"

text \<open>
  The end the three outcomes share: task and step take the status of the execution, their events
  and the run's are added, and the trace is written.
\<close>

definition settle_execution ::
  "execution_call \<Rightarrow> execution_row \<Rightarrow> (string \<times> dict) list \<Rightarrow> store \<Rightarrow>
    (gov_error + (string \<times> dict) list) \<times> store" where
  "settle_execution c x es s =
     and_then (sync_task_with_execution (ap_id (ec_approval c)) (ex_id x) (ex_status x) s) (\<lambda>task s.
     and_then (sync_task_step_with_execution (tk_id (fst task)) x (ec_trace_id c) ''tool.proxy.execute'' s)
       (\<lambda>step s.
     and_then (sync_run_of_call c x s) (\<lambda>run s.
     let all = es @
           task_lifecycle_trace_events (fst task) (Some (snd task)) ''proxy_execution'' @
           task_step_lifecycle_trace_events (fst step) (Some (snd step)) ''proxy_execution'' @
           run_event run
     in (Inr all, append_trace_events (ec_trace_id c) all s))))"

definition approval_payload :: "execution_call \<Rightarrow> dict" where
  "approval_payload c =
     dset ''task_run_id'' (opt_uuid (ec_run_id c)) (serialize_approval_row (ec_approval c))"

definition execution_response ::
  "execution_call \<Rightarrow> dict \<Rightarrow> json \<Rightarrow> (string \<times> dict) list \<Rightarrow> dict" where
  "execution_response c result evs es =
     [(''request'', JObj (call_ids c @ run_entry c)), (''approval'', JObj (approval_payload c)),
      (''tool'', JObj (tool_json (call_tool c))), (''result'', JObj result), (''events'', evs),
      (''trace'', JObj (trace_summary (ec_trace_id c) es))]"

subsection \<open>The outcomes of a call\<close>

definition handler_json :: "handler_result \<Rightarrow> dict" where
  "handler_json r =
     [(''handler_key'', JStr (hr_handler_key r)), (''status'', JStr (execution_status_text (hr_status r))),
      (''output'', opt_obj (hr_output r))]"

text \<open>An execution with the same key exists: its result is returned, nothing is run.\<close>

definition replay_execution ::
  "execution_call \<Rightarrow> execution_row \<Rightarrow> store \<Rightarrow> (gov_error + dict) \<times> store" where
  "replay_execution c x s =
     and_then (sync_run_of_call c x s) (\<lambda>run s.
     let es = opening_events c @
           [(''tool.proxy.execute.idempotency'',
              [(''approval_id'', JStr (uuid_str (ap_id (ec_approval c)))),
               (''task_run_id'', opt_uuid (ec_run_id c)), (''idempotency_key'', opt_str (ec_key c)),
               (''replayed_execution_id'', JStr (uuid_str (ex_id x))),
               (''decision'', JStr ''replay_existing'')])] @ run_event run
     in (Inr (execution_response c (exec_result_json (ex_result x)) JNull es),
         append_trace_events (ec_trace_id c) es s))"

definition refuse_unapproved :: "execution_call \<Rightarrow> store \<Rightarrow> (gov_error + dict) \<times> store" where
  "refuse_unapproved c s =
     (let message = blocked_state_message (ec_approval c);
          es = opening_events c @
            [dispatch_event c None ''blocked'' (Some message) None None [],
             summary_event c ExecBlocked None None None]
      in (Inl (ProxyExecutionApprovalStateError message), append_trace_events (ec_trace_id c) es s))"

definition budget_event :: "budget_decision \<Rightarrow> string \<times> dict" where
  "budget_event d = (''tool.proxy.execute.budget'', budget_decision_json d)"

definition block_by_budget ::
  "execution_call \<Rightarrow> budget_decision \<Rightarrow> exec_result \<Rightarrow> store \<Rightarrow> (gov_error + dict) \<times> store" where
  "block_by_budget c d result s =
     (let extra = (case (bd_reason d, bd_context d) of
                     (InvalidRequestContext, Some cx) \<Rightarrow>
                       [(''budget_context'', JObj (budget_context_json cx))]
                   | _ \<Rightarrow> []);
          es = opening_events c @
            [budget_event d,
             dispatch_event c None ''blocked'' (er_reason result) (Some (er_status result))
               (er_output result) extra,
             summary_event c ExecBlocked None None None]
      in and_then (persist_tool_execution c None result None None s) (\<lambda>x s.
         and_then (settle_execution c x es s) (\<lambda>all s.
         (Inr (execution_response c (exec_result_json result) JNull all), s))))"

definition block_missing_handler ::
  "execution_call \<Rightarrow> budget_decision \<Rightarrow> store \<Rightarrow> (gov_error + dict) \<times> store" where
  "block_missing_handler c d s =
     (let message = missing_handler_message (call_tool c);
          result = tool_execution_result None ExecBlocked None (Some message);
          es = opening_events c @
            [budget_event d,
             dispatch_event c None ''blocked'' (Some message) (Some (er_status result)) None [],
             summary_event c ExecBlocked None None None]
      in and_then (persist_tool_execution c None result None None s) (\<lambda>x s.
         and_then (settle_execution c x es s) (\<lambda>_ s.
         (Inl (ProxyExecutionHandlerNotFoundError message), s))))"

definition request_event_payload :: "execution_call \<Rightarrow> dict" where
  "request_event_payload c =
     call_tool_ids c @ [(''request'', JObj (request_json (call_request c)))] @ run_entry c"

definition result_event_payload :: "execution_call \<Rightarrow> handler_result \<Rightarrow> dict" where
  "result_event_payload c r =
     call_tool_ids c @
     [(''handler_key'', JStr (hr_handler_key r)), (''status'', JStr ''completed''),
      (''output'', opt_obj (hr_output r))]"

definition event_summary :: "event_row \<Rightarrow> event_row \<Rightarrow> dict" where
  "event_summary q r =
     [(''request_event_id'', JStr (uuid_str (ev_id q))),
      (''request_sequence_no'', JInt (int (ev_sequence_no q))),
      (''result_event_id'', JStr (uuid_str (ev_id r))),
      (''result_sequence_no'', JInt (int (ev_sequence_no r)))]"

definition run_handler ::
  "execution_call \<Rightarrow> budget_decision \<Rightarrow> handler_spec \<Rightarrow> store \<Rightarrow> (gov_error + dict) \<times> store" where
  "run_handler c d spec s =
     and_then (append_event (ap_thread_id (ec_approval c)) None ''tool.proxy.execution.request''
                 (request_event_payload c) s) (\<lambda>q s.
     let r = hs_handler spec (call_request c) (call_tool c) in
     and_then (raise_when (hr_status r \<noteq> ExecCompleted \<or> hr_output r = None)
                 (ProxyExecutionApprovalStateError (''proxy handler '' @ quoted (hr_handler_key r) @
                  '' returned a non-completed result'')) s) (\<lambda>_ s.
     and_then (append_event (ap_thread_id (ec_approval c)) None ''tool.proxy.execution.result''
                 (result_event_payload c r) s) (\<lambda>e s.
     and_then (persist_tool_execution c (Some (hr_handler_key r))
                 (tool_execution_result (Some (hr_handler_key r)) (hr_status r) (hr_output r) None)
                 (Some (ev_id q)) (Some (ev_id e)) s) (\<lambda>x s.
     let es = opening_events c @
           [budget_event d,
            dispatch_event c (Some (hr_handler_key r)) ''executed'' None (Some (hr_status r))
              (hr_output r) [],
            summary_event c ExecCompleted (Some (hr_handler_key r)) (Some (ev_id q)) (Some (ev_id e))]
     in and_then (settle_execution c x es s) (\<lambda>all s.
        (Inr (execution_response c (handler_json r) (JObj (event_summary q e)) all), s))))))"

text \<open>The approved call with its key: replay, budget, handler.\<close>

definition existing_execution :: "execution_call \<Rightarrow> store \<Rightarrow> execution_row option" where
  "existing_execution c s =
     (case (ec_key c, ec_run_id c) of
        (Some k, Some run) \<Rightarrow>
          get_tool_execution_by_idempotency_optional run (ap_id (ec_approval c)) k s
      | _ \<Rightarrow> None)"

definition dispatch_call :: "execution_call \<Rightarrow> store \<Rightarrow> (gov_error + dict) \<times> store" where
  "dispatch_call c s =
     (if ap_status (ec_approval c) \<noteq> ApprApproved then refuse_unapproved c s
      else case existing_execution c s of
        Some x \<Rightarrow> replay_execution c x s
      | None \<Rightarrow>
          (case evaluate_execution_budget (call_tool c) (call_request c) s of
             ((d, Some result), s) \<Rightarrow> block_by_budget c d result s
           | ((d, None), s) \<Rightarrow>
               (case handler_for (tl_tool_key (call_tool c)) of
                  None \<Rightarrow> block_missing_handler c d s
                | Some spec \<Rightarrow> run_handler c d spec s)))"

record execution_request =
  xr_approval_id :: uuid
  xr_task_run_id :: "uuid option"

definition idempotency_key_for ::
  "approval_row \<Rightarrow> uuid option \<Rightarrow> store \<Rightarrow> (gov_error + string option) \<times> store" where
  "idempotency_key_for approval run s =
     (if side_effects (tl_tool_key (ap_tool approval))
      then (case run of
              None \<Rightarrow> (Inl (ProxyExecutionIdempotencyError (''tool '' @
                        quoted (tl_tool_key (ap_tool approval)) @
                        '' requires a linked task run for idempotent execution'')), s)
            | Some i \<Rightarrow> (Inr (Some (build_idempotency_key i (ap_id approval) (ap_request approval)
                          (ap_tool approval))), s))
      else (Inr None, s))"

definition execute_approved_proxy_request ::
  "execution_request \<Rightarrow> store \<Rightarrow> (gov_error + dict) \<times> store" where
  "execute_approved_proxy_request req s =
     and_then (require_row (approval_not_found (xr_approval_id req))
                 (get_approval_optional (xr_approval_id req) s) s) (\<lambda>approval s.
     and_then (validate_linked_task_step_for_approval (xr_approval_id req) (ap_task_step_id approval) s)
       (\<lambda>(_, step) s.
     and_then (resolve_task_run_linkage approval step (xr_task_run_id req) s) (\<lambda>run s.
     and_then (idempotency_key_for approval run s) (\<lambda>key s.
     and_then (create_trace (ap_user_id approval) (ap_thread_id approval) ''tool.proxy.execute''
                 ''proxy_execution_v0'' ''completed''
                 [(''approval_status'', JStr (approval_status_text (ap_status approval))),
                  (''enabled_handler_keys'', str_list [tl_tool_key (ap_tool approval)]),
                  (''budget_match_order'', str_list EXECUTION_BUDGET_MATCH_ORDER)] s) (\<lambda>trace s.
     dispatch_call \<lparr>ec_approval = approval, ec_step_id = ts_id step, ec_run_id = run, ec_key = key,
                    ec_trace_id = tc_id trace\<rparr> s)))))"

subsection \<open>Reading\<close>

definition serialize_tool_execution_row :: "execution_row \<Rightarrow> dict" where
  "serialize_tool_execution_row x =
     [(''id'', JStr (uuid_str (ex_id x))), (''approval_id'', JStr (uuid_str (ex_approval_id x))),
      (''task_run_id'', opt_uuid (ex_task_run_id x)),
      (''task_step_id'', (case ex_task_step_id x of None \<Rightarrow> JStr ''None'' | Some i \<Rightarrow> JStr (uuid_str i))),
      (''thread_id'', JStr (uuid_str (ex_thread_id x))), (''tool_id'', JStr (uuid_str (ex_tool_id x))),
      (''trace_id'', JStr (uuid_str (ex_trace_id x))),
      (''request_event_id'', opt_uuid (ex_request_event_id x)),
      (''result_event_id'', opt_uuid (ex_result_event_id x)),
      (''status'', JStr (execution_status_text (ex_status x))),
      (''handler_key'', opt_str (ex_handler_key x)), (''idempotency_key'', opt_str (ex_idempotency_key x)),
      (''request'', JObj (request_json (ex_request x))), (''tool'', JObj (tool_json (ex_tool x))),
      (''result'', JObj (exec_result_json (ex_result x))),
      (''executed_at'', JStr (isoformat (ex_executed_at x)))]"

definition list_tool_execution_records :: "store \<Rightarrow> dict" where
  "list_tool_execution_records s =
     (let items = map (\<lambda>x. JObj (serialize_tool_execution_row x)) (list_tool_executions s)
      in [(''items'', JList items),
          (''summary'', JObj [(''total_count'', JInt (int (length items))),
                              (''order'', str_list TOOL_EXECUTION_LIST_ORDER)])])"

definition get_tool_execution_record :: "uuid \<Rightarrow> store \<Rightarrow> string + dict" where
  "get_tool_execution_record i s =
     (case get_tool_execution_optional i s of
        None \<Rightarrow> Inl (''tool execution '' @ uuid_str i @ '' was not found'')
      | Some x \<Rightarrow> Inr [(''execution'', JObj (serialize_tool_execution_row x))])"

end
