(* ===== verification/Worker.thy ===== *)
theory Worker
  imports Proxy_Execution
begin

text \<open>
  \<open>workers/alicebot_worker\<close>: one turn of the worker takes the oldest runnable run, executes its
  approved request when there is one, and ticks the run otherwise.
\<close>

record worker_outcome =
  wo_task_run_id :: json
  wo_previous_status :: json
  wo_status :: json
  wo_stop_reason :: json
  wo_retry_posture :: json
  wo_retry_count :: json
  wo_retry_cap :: json
  wo_failure_class :: json

text \<open>The outcome read off a serialised run, with the status the run had before.\<close>

definition worker_outcome_from_task_run :: "dict \<Rightarrow> json \<Rightarrow> worker_outcome" where
  "worker_outcome_from_task_run run previous =
     \<lparr>wo_task_run_id = dget run ''id'', wo_previous_status = previous, wo_status = dget run ''status'',
      wo_stop_reason = dget run ''stop_reason'', wo_retry_posture = dget run ''retry_posture'',
      wo_retry_count = dget run ''retry_count'', wo_retry_cap = dget run ''retry_cap'',
      wo_failure_class = dget run ''failure_class''\<rparr>"

definition payload_run :: "dict \<Rightarrow> dict" where
  "payload_run payload = (case dget payload ''task_run'' of JObj d \<Rightarrow> d | _ \<Rightarrow> [])"

text \<open>Is there an approved request of the run's task that was never executed?\<close>

definition ready_approval :: "run_row \<Rightarrow> store \<Rightarrow> uuid option" where
  "ready_approval run s =
     (case get_task_optional (tr_task_id run) s of
        None \<Rightarrow> None
      | Some task \<Rightarrow>
          (case tk_latest_approval_id task of
             None \<Rightarrow> None
           | Some a \<Rightarrow>
               if tk_status task \<noteq> TaskApproved \<or> tk_latest_execution_id task \<noteq> None then None
               else (case get_approval_optional a s of
                       None \<Rightarrow> None
                     | Some approval \<Rightarrow> if ap_status approval = ApprApproved then Some a else None)))"

definition refreshed_run :: "uuid \<Rightarrow> store \<Rightarrow> dict option" where
  "refreshed_run i s = map_option serialize_task_run_row (get_task_run_optional i s)"

definition fail_run ::
  "uuid \<Rightarrow> stop_reason \<Rightarrow> failure_class \<Rightarrow> string \<Rightarrow> store \<Rightarrow> (gov_error + dict option) \<times> store" where
  "fail_run i reason cls source s =
     and_then (mark_task_run_failed i reason cls source s)
       (\<lambda>failure s. (Inr (map_option payload_run failure), s))"

text \<open>The run after the execution, or \<open>None\<close> when nothing is ready or the run cannot be marked.\<close>

definition execute_task_run_if_ready ::
  "run_row \<Rightarrow> store \<Rightarrow> (gov_error + dict option) \<times> store" where
  "execute_task_run_if_ready run s =
     (case ready_approval run s of
        None \<Rightarrow> (Inr None, s)
      | Some a \<Rightarrow>
          (case execute_approved_proxy_request
                  \<lparr>xr_approval_id = a, xr_task_run_id = Some (tr_id run)\<rparr> s of
             (Inr _, s) \<Rightarrow> (Inr (refreshed_run (tr_id run) s), s)
           | (Inl (ProxyExecutionHandlerNotFoundError _), s) \<Rightarrow>
               (case refreshed_run (tr_id run) s of
                  Some d \<Rightarrow> (Inr (Some d), s)
                | None \<Rightarrow> fail_run (tr_id run) StopPolicyBlocked FailPolicy
                            ''worker_execute_missing_handler'' s)
           | (Inl (ApprovalNotFoundError _), s) \<Rightarrow>
               fail_run (tr_id run) StopFatalError FailTransient ''worker_execute_exception'' s
           | (Inl (ProxyExecutionApprovalStateError _), s) \<Rightarrow>
               fail_run (tr_id run) StopFatalError FailTransient ''worker_execute_exception'' s
           | (Inl (ProxyExecutionIdempotencyError _), s) \<Rightarrow>
               fail_run (tr_id run) StopFatalError FailTransient ''worker_execute_exception'' s
           | (Inl e, s) \<Rightarrow> (Inl e, s)))"

definition tick_outcome_of :: "dict \<Rightarrow> worker_outcome" where
  "tick_outcome_of payload =
     worker_outcome_from_task_run (payload_run payload) (dget payload ''previous_status'')"

definition acquire_and_tick_one_task_run ::
  "store \<Rightarrow> (gov_error + worker_outcome option) \<times> store" where
  "acquire_and_tick_one_task_run s =
     and_then (acquire_next_task_run_optional s) (\<lambda>acquired s.
     case acquired of
       None \<Rightarrow> (Inr None, s)
     | Some row \<Rightarrow>
         and_then (execute_task_run_if_ready row s) (\<lambda>executed s.
         case executed of
           Some d \<Rightarrow>
             (Inr (Some (worker_outcome_from_task_run d (JStr (run_status_text (tr_status row))))), s)
         | None \<Rightarrow>
             (case tick_task_run_record (tr_id row) s of
                (Inl (TaskRunNotFoundError _), s) \<Rightarrow> (Inr None, s)
              | (Inl (TaskRunTransitionError _), s) \<Rightarrow> (Inr None, s)
              | (Inl e, s) \<Rightarrow> (Inl e, s)
              | (Inr payload, s) \<Rightarrow> (Inr (Some (tick_outcome_of payload)), s))))"

text \<open>\<open>run()\<close> of the worker: the configured user, when there is one.\<close>

definition read_worker_user_id :: "string option \<Rightarrow> uuid option" where
  "read_worker_user_id raw =
     (case raw of None \<Rightarrow> None | Some t \<Rightarrow> if t = [] then None else parse_uuid t)"

definition worker_turn ::
  "bool \<Rightarrow> string option \<Rightarrow> store \<Rightarrow> (gov_error + worker_outcome option) \<times> store" where
  "worker_turn enabled raw s =
     (if \<not> enabled then (Inr None, s)
      else case read_worker_user_id raw of
             None \<Rightarrow> (Inr None, s)
           | Some user \<Rightarrow> acquire_and_tick_one_task_run s)"

end
