(* ===== verification/Governance.thy ===== *)
theory Governance
  imports Worker
begin

text \<open>
  The governance layer as one system.  Every operation of the modules below is one of
  \<open>gov_op\<close>; the locales \<open>synced_order\<close> and \<open>governed_order\<close> state what a relation between the store
  before and after must allow of the single statements, and prove once that every operation then
  follows it.
  The interpretations are the system's invariants.
\<close>

subsection \<open>Relations that every operation follows\<close>

locale store_order =
  fixes le :: "store \<Rightarrow> store \<Rightarrow> bool"
  assumes le_refl: "le s s"
    and le_trans: "le s t \<Longrightarrow> le t u \<Longrightarrow> le s u"
begin

lemma le_and_then:
  assumes "le s (snd m)" "\<And>x t. m = (Inr x, t) \<Longrightarrow> le t (snd (f x t))"
  shows "le s (snd (and_then m f))"
proof -
  obtain r t where m: "m = (r, t)" by (cases m)
  show ?thesis
  proof (cases r)
    case (Inl e)
    with assms(1) m show ?thesis by simp
  next
    case (Inr x)
    with assms(2) [of x t] assms(1) m show ?thesis by (auto intro: le_trans)
  qed
qed

lemma le_same: "le s (snd (x, s))"
  by (simp add: le_refl)

lemma le_require: "le s (snd (require_row e r s))"
  by (cases r) (simp_all add: le_refl)

lemma le_raise: "le s (snd (raise_when b e s))"
  by (cases b) (simp_all add: le_refl)

lemma le_map_error: "le s (snd m) \<Longrightarrow> le s (snd (map_error f m))"
  by simp

lemma le_on_integrity: "le s (snd m) \<Longrightarrow> le s (snd (on_integrity_error e m))"
  by (cases m) (auto simp: on_integrity_error_def split: sum.split gov_error.split)

lemma le_case_option:
  "(x = None \<Longrightarrow> le s (snd a)) \<Longrightarrow> (\<And>y. x = Some y \<Longrightarrow> le s (snd (f y))) \<Longrightarrow>
     le s (snd (case x of None \<Rightarrow> a | Some y \<Rightarrow> f y))"
  by (cases x) simp_all

lemma le_if: "(b \<Longrightarrow> le s (snd x)) \<Longrightarrow> (\<not> b \<Longrightarrow> le s (snd y)) \<Longrightarrow> le s (snd (if b then x else y))"
  by simp

lemma le_case_prod: "(\<And>a b. p = (a, b) \<Longrightarrow> le s (snd (f a b))) \<Longrightarrow> le s (snd (case p of (a, b) \<Rightarrow> f a b))"
  by (cases p) simp

lemma le_case_fun:
  "(\<And>a b. p = (a, b) \<Longrightarrow> le s (snd (f a b t))) \<Longrightarrow> le s (snd ((case p of (a, b) \<Rightarrow> f a b) t))"
  by (cases p) simp

lemmas le_compose = le_and_then le_case_option le_if le_case_prod le_case_fun
lemmas le_plain = le_same le_require le_raise

end

text \<open>
  What a call has established before it writes an execution: its approval is stored, approved and
  carries the request and the tool of the call; the key is the one of a tool with side effects.
\<close>

definition key_of_call :: "uuid option \<Rightarrow> approval_row \<Rightarrow> string option" where
  "key_of_call run approval =
     (if side_effects (tl_tool_key (ap_tool approval))
      then map_option (\<lambda>i. build_idempotency_key i (ap_id approval) (ap_request approval) (ap_tool approval)) run
      else None)"

definition authorised_call :: "execution_call \<Rightarrow> store \<Rightarrow> bool" where
  "authorised_call c s \<longleftrightarrow>
     (\<exists>r. get_approval_optional (ap_id (ec_approval c)) s = Some r \<and> ap_status r = ApprApproved \<and>
        ap_request r = call_request c \<and> ap_tool r = call_tool c) \<and>
     ec_key c = key_of_call (ec_run_id c) (ec_approval c) \<and>
     (ec_key c = None \<longrightarrow> \<not> side_effects (tl_tool_key (call_tool c)))"

locale synced_order = store_order +
  assumes bookkeeping: "le s (s\<lparr>reads := r, draws := d, traces := ts, trace_events := es\<rparr>)"
    and registries: "le s (s\<lparr>consents := cs, policies := ps, tools := tls\<rparr>)"
    and budgets: "le s (s\<lparr>execution_budgets := bs\<rparr>)"
    and events: "le s (s\<lparr>events := evs\<rparr>)"
    and approval_created:
      "le s (snd (create_approval th tool run None ApprPending req td routing tr s))"
    and approval_resolved: "le s (snd (resolve_approval_optional a status s))"
    and approval_linked: "le s (snd (update_approval_task_step_optional a step s))"
    and approval_run: "le s (snd (update_approval_task_run_optional a run s))"
    and task_created: "le s (snd (create_task th tool tstatus req td latest None s))"
    and task_status: "le s (snd (update_task_status_by_approval_optional a tstatus s))"
    and task_execution: "le s (snd (update_task_execution_by_approval_optional a x tstatus s))"
    and task_update: "le s (snd (update_task_status_optional i tstatus latest y s))"
    and first_step: "create_task_for_governed_request (request_task_input q rr arow) s = (Inr task, t)
      \<Longrightarrow> le s (snd (create_task_step_for_governed_request (request_step_input rr arow task i)
             (t\<lparr>draws := d, traces := ts\<rparr>)))"
    and next_step: "list_task_steps_for_task i s = existing \<Longrightarrow> existing \<noteq> [] \<Longrightarrow>
      ts_status (last existing) \<in> set TASK_STEP_APPENDABLE_STATUSES \<Longrightarrow>
      get_task_optional i s \<noteq> None \<Longrightarrow>
      le s (snd (create_task_step i (ts_sequence_no (last existing) + 1) (Some (ts_id (last existing)))
        source_approval source_execution k sstatus req outcome tr tk s))"
    and step_update: "le s (snd (update_task_step_optional i sstatus outcome tr tk s))"
    and step_transition:
      "le s (snd (update_task_step_for_task_sequence_optional i n sstatus outcome tr tk s))"
    and run_lifecycle: "le s (perform op s)"
    and run_resolution: "le s (snd (resume_task_run_after_resolution row s))"
    and run_execution: "le s (snd (sync_task_run_after_execution run_id a xrow s))"

text \<open>The same with the one statement that writes executions, for an authorised call.\<close>

locale governed_order = synced_order +
  assumes execution_created:
    "authorised_call c s \<Longrightarrow> le s (snd (persist_tool_execution c key result qe re s))"

subsection \<open>Checks that write nothing\<close>

lemma snd_require [simp]: "snd (require_row e r s) = s"
  by (cases r) simp_all

lemma snd_raise [simp]: "snd (raise_when b e s) = s"
  by (cases b) simp_all

lemma snd_and_then_same:
  assumes "snd m = s" "\<And>x. m = (Inr x, s) \<Longrightarrow> snd (f x s) = s"
  shows "snd (and_then m f) = s"
  using assms by (cases m; cases "fst m") (auto simp: and_then_def)

lemma checks_only_read [simp]:
  "snd (validate_linked_task_step_for_approval a i s) = s"
  "snd (validate_linked_task_step_for_execution task x s) = s"
  "snd (validated_optional_approval_id given current task' require missing err s) = s"
  "snd (validated_optional_execution_id given current task' require missing err s) = s"
  by (simp_all add: validate_linked_task_step_for_approval_def validate_linked_task_step_for_execution_def
      validated_optional_approval_id_def validated_optional_execution_id_def Let_def snd_and_then_same)

lemma guards_only_read [simp]:
  "snd (continuation_parent q existing s) = s" "snd (continuation_links q task parent s) = s"
  "snd (transition_allowed r step existing s) = s" "snd (transition_links r task s) = s"
  by (simp_all add: continuation_parent_def continuation_links_def transition_allowed_def
      transition_links_def Let_def snd_and_then_same)

lemma key_only_reads [simp]: "snd (idempotency_key_for approval run s) = s"
  by (simp add: idempotency_key_for_def split: option.split)

subsection \<open>Bookkeeping\<close>

context synced_order
begin

lemma le_draw: "le s (after_draw s)" and le_reading: "le s (after_reading s)"
  using bookkeeping [where s = s and r = "reads s" and d = "Suc (draws s)" and ts = "traces s" and es = "trace_events s"]
    bookkeeping [where s = s and r = "Suc (reads s)" and d = "draws s" and ts = "traces s" and es = "trace_events s"]
  by (simp_all add: after_draw_def after_reading_def)

lemma le_trace: "le s (snd (create_trace u th k v st l s))"
  using bookkeeping [where s = s and r = "reads s" and d = "Suc (draws s)" and ts = "traces s" and es = "trace_events s"]
    bookkeeping [where s = s and r = "reads s" and d = "Suc (draws s)" and es = "trace_events s"]
  by (auto simp: create_trace_def write_table_def Let_def after_draw_def)

lemma le_append_events: "le s (append_trace_events i es s)"
proof -
  obtain es' where "append_trace_events i es s = s\<lparr>trace_events := es'\<rparr>"
    using append_from_only [of i 1 es s] by (auto simp: append_trace_events_def)
  then show ?thesis using bookkeeping [where s = s and r = "reads s" and d = "draws s" and ts = "traces s" and es = es'] by simp
qed

lemma le_then_events: "le s t \<Longrightarrow> le s (append_trace_events i es t)"
  by (rule le_trans [OF _ le_append_events])

lemma le_write_event: "le s (snd (append_event th se k p s))"
proof -
  have "le s (snd (append_event th se k p s)) \<longleftrightarrow>
      le s (if events_ok (events (snd (append_event th se k p s))) then
        (after_draw s)\<lparr>events := events (snd (append_event th se k p s))\<rparr> else after_draw s)"
    by (auto simp: append_event_def write_table_def Let_def after_draw_def)
  then show ?thesis using le_trans [OF le_draw events] le_draw by auto
qed

lemma le_checks:
  "le s (snd (validate_linked_task_step_for_approval a i s))"
  "le s (snd (validate_linked_task_step_for_execution task xrow s))"
  "le s (snd (continuation_parent q existing s))" "le s (snd (continuation_links q trow parent s))"
  "le s (snd (transition_allowed tq step existing s))" "le s (snd (transition_links tq trow s))"
  "le s (snd (idempotency_key_for approval run s))"
  by (simp_all add: le_refl)

lemma le_events_pair: "le s (snd (r, append_trace_events i es s))"
  by (simp add: le_append_events)

lemmas le_basic = le_plain le_checks le_trace le_events_pair le_write_event
lemmas le_statements = approval_resolved approval_linked approval_run task_status task_execution
  task_update step_update step_transition run_resolution run_execution

end

subsection \<open>Operations of tasks and approvals\<close>

lemma last_of_continuation:
  assumes "continuation_parent q existing s = (Inr parent, t)"
  shows "existing \<noteq> []" "ts_status (last existing) \<in> set TASK_STEP_APPENDABLE_STATUSES"
    "li_parent_step_id (nx_lineage q) = ts_id (last existing)" "parent \<in> set existing"
    "nx_status q \<in> set TASK_STEP_INITIAL_STATUSES" "t = s"
  using assms
  by (auto simp: continuation_parent_def Let_def succeeds validated_continuation_parent_step_def
      find_Some_iff split: option.splits if_splits)

lemma create_trace_Inr:
  "create_trace u th k v st l s = (Inr x, t) \<Longrightarrow> \<exists>d ts. t = s\<lparr>draws := d, traces := ts\<rparr>"
  by (auto simp: create_trace_def write_table_def Let_def after_draw_def split: if_splits)

lemma create_trace_snd: "\<exists>d ts. snd (create_trace u th k v st l s) = s\<lparr>draws := d, traces := ts\<rparr>"
proof -
  have "\<exists>ts. s\<lparr>draws := Suc (draws s)\<rparr> = s\<lparr>draws := Suc (draws s), traces := ts\<rparr>"
    by (rule exI [of _ "traces s"]) simp
  then show ?thesis by (auto simp: create_trace_def write_table_def Let_def after_draw_def)
qed

context synced_order
begin

lemma le_trace_bookkeeping: "le s t \<Longrightarrow> le s (t\<lparr>draws := d, traces := ts\<rparr>)"
  using bookkeeping [where s = t and r = "reads t" and d = d and ts = ts and es = "trace_events t"]
  by (auto intro: le_trans)

lemma le_task_sync:
  "le s (snd (sync_task_with_task_step_status i st a x s))"
  "le s (snd (sync_task_with_approval b status s))"
  "le s (snd (sync_task_with_execution b y es s))"
  unfolding sync_task_with_task_step_status_def sync_task_with_approval_def sync_task_with_execution_def
    Let_def
  by (intro le_compose le_plain le_statements)+

lemma le_step_sync:
  "le s (snd (sync_task_step_with_approval b i status tr tk s))"
  "le s (snd (sync_task_step_with_execution task xrow tr tk s))"
  unfolding sync_task_step_with_approval_def sync_task_step_with_execution_def Let_def
  by (intro le_compose le_basic le_statements)+

lemma le_next_step_record: "le s (snd (create_next_task_step_record q s))"
proof (unfold create_next_task_step_record_def Let_def, intro le_compose le_basic le_task_sync, goal_cases)
  case (1 task s1 parent s2 links s3 source linked trace s4)
  let ?steps = "list_task_steps_for_task (nx_task_id q) s"
  from 1(1) have s1: "s1 = s" "get_task_optional (nx_task_id q) s = Some task"
    by (auto simp: succeeds)
  note parent = last_of_continuation [OF 1(2) [unfolded s1(1)]]
  have "s3 = s2" using guards_only_read(2) [of q task parent s2] 1(3) by simp
  with 1(5) parent(6) obtain d ts where s4: "s4 = s\<lparr>draws := d, traces := ts\<rparr>"
    using create_trace_Inr s1(1) by blast
  have "le s4 (snd (create_task_step (nx_task_id q) (ts_sequence_no (last ?steps) + 1)
      (Some (ts_id (last ?steps))) (fst source) (snd source) (nx_kind q) (nx_status q) (nx_request q)
      (nx_outcome q) (tc_id trace) ''task.step.continuation'' s4))"
    by (rule next_step)
      (use parent(1,2) s1(2) in \<open>simp_all add: s4 list_task_steps_for_task_def get_task_optional_def\<close>)
  then show ?case unfolding s1(1) parent(3) by (rule le_on_integrity)
qed

lemma le_transition_record: "le s (snd (transition_task_step_record tq s))"
  unfolding transition_task_step_record_def Let_def
  by (intro le_compose le_basic le_statements le_task_sync)

lemma le_resolve: "le s (snd (resolve_approval a action status s))"
  unfolding resolve_approval_def settle_approval_def Let_def
  by (intro le_compose le_basic le_statements le_task_sync le_step_sync)

lemma le_persist_approval: "le s (snd (persist_approval q rr s))"
  unfolding persist_approval_def by (intro le_compose le_plain approval_created)

lemma le_link_approval: "le s (snd (link_approval approval step s))"
  unfolding link_approval_def by (intro le_compose le_plain approval_linked)

lemma le_route: "le s (snd (route_tool_invocation r s))"
  unfolding route_tool_invocation_def Let_def by (intro le_compose le_basic)

lemma le_submitted_task:
  assumes "\<And>task tr step u. le u (snd (rest task tr step u))"
  shows "le s (snd (and_then (create_task_for_governed_request (request_task_input q rr arow) s) (\<lambda>task s.
     and_then (create_trace u th k v st l s) (\<lambda>trace s.
     and_then (create_task_step_for_governed_request (request_step_input rr arow task (tc_id trace)) s)
       (\<lambda>step s. rest task trace step s)))))" (is "le s (snd (and_then ?m ?f))")
proof -
  have task: "le s (snd ?m)"
    by (simp add: create_task_for_governed_request_def request_task_input_def task_created)
  show ?thesis
  proof (cases "fst ?m")
    case (Inl e)
    with task show ?thesis by (simp add: and_then_def)
  next
    case (Inr task')
    then obtain t where m: "?m = (Inr task', t)" by (cases ?m) auto
    obtain d ts where tr: "snd (create_trace u th k v st l t) = t\<lparr>draws := d, traces := ts\<rparr>"
      using create_trace_snd [of u th k v st l t] by blast
    have "le s t" using task m by simp
    note book = le_trace_bookkeeping [OF this]
    show ?thesis
    proof (cases "fst (create_trace u th k v st l t)")
      case (Inl e)
      with tr book show ?thesis by (simp add: m and_then_def)
    next
      case (Inr trace)
      let ?n = "create_task_step_for_governed_request (request_step_input rr arow task' (tc_id trace))
          (t\<lparr>draws := d, traces := ts\<rparr>)"
      have "create_trace u th k v st l t = (Inr trace, t\<lparr>draws := d, traces := ts\<rparr>)"
        using Inr tr by (cases "create_trace u th k v st l t") auto
      then have whole: "and_then ?m ?f = and_then ?n (\<lambda>step s. rest task' trace step s)" by (simp add: m)
      have "le s (snd ?n)" by (rule first_step [OF m])
      then show ?thesis unfolding whole by (rule le_and_then) (rule assms)
    qed
  qed
qed

lemma le_submit: "le s (snd (submit_approval_request q s))"
  unfolding submit_approval_request_def Let_def
  by (rule le_and_then, rule le_route, rule le_and_then, rule le_require, rule le_and_then,
      rule le_persist_approval, rule le_submitted_task, intro le_and_then le_link_approval le_events_pair)

end

subsection \<open>Operations of executions, budgets and runs\<close>

text \<open>The approval of a call is what is stored until the execution is written.\<close>

lemma authorised_frame:
  "approvals t = approvals s \<Longrightarrow> authorised_call c t = authorised_call c s"
  by (simp add: authorised_call_def get_approval_optional_def)

lemma approval_run_keeps:
  assumes "update_approval_task_run_optional a run s = (r, t)" "get_approval_optional b s = Some x"
  shows "\<exists>y. get_approval_optional b t = Some y \<and> ap_status y = ap_status x \<and>
    ap_request y = ap_request x \<and> ap_tool y = ap_tool x"
proof (cases "find_row ap_id a (approvals s)")
  case None
  with assms show ?thesis by (auto simp: update_approval_task_run_optional_def)
next
  case (Some row)
  let ?row = "row\<lparr>ap_task_run_id := run\<rparr>"
  have rows: "approvals t = approvals s \<or> approvals t = set_row ap_id ?row (approvals s)"
    using assms(1) Some
    by (auto simp: update_approval_task_run_optional_def write_approvals_def write_table_def Let_def
        split: if_splits)
  have x: "find_row ap_id b (approvals s) = Some x" using assms(2) by (simp add: get_approval_optional_def)
  have "ap_id row = a" using Some by (simp add: find_row_Some)
  with rows x Some show ?thesis
    by (auto simp: get_approval_optional_def find_row_set_row)
qed

lemma linkage_keeps:
  assumes "resolve_task_run_linkage approval step requested s = (Inr run, t)"
    "get_approval_optional b s = Some x"
  shows "\<exists>y. get_approval_optional b t = Some y \<and> ap_status y = ap_status x \<and>
    ap_request y = ap_request x \<and> ap_tool y = ap_tool x"
  using assms
  by (auto simp: resolve_task_run_linkage_def Let_def succeeds split: option.splits
      dest: approval_run_keeps)

lemma append_event_approvals: "append_event th se k p s = (r, t) \<Longrightarrow> approvals t = approvals s"
  by (auto simp: append_event_def write_table_def Let_def after_draw_def split: if_splits)

lemma evaluate_budget_store: "evaluate_execution_budget tool req s = (r, t) \<Longrightarrow> t = after_reading s"
  by (auto simp: evaluate_execution_budget_def Let_def split: if_splits option.splits)

context synced_order
begin

lemma le_linkage: "le s (snd (resolve_task_run_linkage approval step requested s))"
  unfolding resolve_task_run_linkage_def Let_def by (intro le_compose le_plain approval_run)

lemma le_sync_run: "le s (snd (sync_run_of_call c xrow s))"
  unfolding sync_run_of_call_def by (intro le_compose le_plain run_execution)

lemma le_settle: "le s (snd (settle_execution c xrow es s))"
  unfolding settle_execution_def Let_def
  by (intro le_compose le_basic le_task_sync le_step_sync le_sync_run)

lemma le_replay: "le s (snd (replay_execution c xrow s))"
  unfolding replay_execution_def Let_def by (intro le_compose le_basic le_sync_run)

lemma le_refuse: "le s (snd (refuse_unapproved c s))"
  unfolding refuse_unapproved_def Let_def by (intro le_basic)

end

context governed_order
begin

lemma le_blocked:
  assumes "authorised_call c s"
  shows "le s (snd (block_by_budget c d result s))" "le s (snd (block_missing_handler c d s))"
  unfolding block_by_budget_def block_missing_handler_def Let_def
  by (intro le_compose le_basic le_settle execution_created [OF assms])+

lemma le_handler:
  assumes "authorised_call c s"
  shows "le s (snd (run_handler c d spec s))"
proof (unfold run_handler_def Let_def, intro le_compose le_basic le_settle, goal_cases)
  case (1 q s1 u s2 e s3)
  have "s2 = s1" using 1(2) by (simp add: succeeds)
  with append_event_approvals [OF 1(1)] append_event_approvals [OF 1(3)]
  have "approvals s3 = approvals s" by simp
  with assms have "authorised_call c s3" using authorised_frame [of s3 s c] by simp
  then show ?case by (rule execution_created)
qed

lemma le_dispatch:
  assumes "ap_status (ec_approval c) = ApprApproved \<Longrightarrow> authorised_call c s"
  shows "le s (snd (dispatch_call c s))"
proof (cases "ap_status (ec_approval c) = ApprApproved \<and> existing_execution c s = None")
  case False
  then show ?thesis
    by (auto simp: dispatch_call_def le_refuse le_replay split: option.split)
next
  case True
  then have auth: "authorised_call c (after_reading s)"
    using assms authorised_frame [of "after_reading s" s c] by (simp add: after_reading_def)
  obtain d b where eval: "evaluate_execution_budget (call_tool c) (call_request c) s = ((d, b), after_reading s)"
    using evaluate_budget_store by (metis prod.collapse)
  have "le (after_reading s) (snd (dispatch_call c s))"
    using True le_blocked [OF auth] le_handler [OF auth]
    by (auto simp: dispatch_call_def eval split: option.split)
  with le_reading show ?thesis by (rule le_trans)
qed

lemma le_execute: "le s (snd (execute_approved_proxy_request req s))"
proof (unfold execute_approved_proxy_request_def, intro le_compose le_basic le_linkage, goal_cases)
  case (1 approval s1 linked s2 task step run s3 key s4 trace s5)
  from 1(1) have a: "get_approval_optional (xr_approval_id req) s = Some approval" "s1 = s"
    by (auto simp: succeeds)
  then have id: "ap_id approval = xr_approval_id req" by (auto simp: get_approval_optional_def dest: find_row_Some)
  have "s2 = s1" using checks_only_read(1) [of "xr_approval_id req" "ap_task_step_id approval" s1] 1(2) by simp
  with a have "get_approval_optional (ap_id approval) s2 = Some approval" by (simp add: id)
  from linkage_keeps [OF 1(4) this] obtain y where
    y: "get_approval_optional (ap_id approval) s3 = Some y" "ap_status y = ap_status approval"
      "ap_request y = ap_request approval" "ap_tool y = ap_tool approval"
    by blast
  have key: "s4 = s3" "key = key_of_call run approval"
    "key = None \<longrightarrow> \<not> side_effects (tl_tool_key (ap_tool approval))"
    using 1(5) by (auto simp: idempotency_key_for_def key_of_call_def split: if_splits option.splits)
  from create_trace_Inr [OF 1(6)] have "approvals s5 = approvals s4" by auto
  with y key show ?case
    by (intro le_dispatch)
      (simp add: authorised_call_def call_request_def call_tool_def get_approval_optional_def)
qed

text \<open>Statements on the registries and on the budgets.\<close>

lemma le_registry_rows:
  "le s (s\<lparr>consents := cs\<rparr>)" "le s (s\<lparr>policies := ps\<rparr>)" "le s (s\<lparr>tools := tls\<rparr>)"
  using registries [where s = s and cs = cs and ps = "policies s" and tls = "tools s"]
    registries [where s = s and cs = "consents s" and ps = ps and tls = "tools s"]
    registries [where s = s and cs = "consents s" and ps = "policies s" and tls = tls]
  by simp_all

lemma le_write:
  assumes "le s t" "\<And>rows u. le u (put rows u)"
  shows "le s (snd (write_table ok put name x rows t))"
  using assms by (auto simp: write_table_def intro: le_trans)

lemma le_drawn: "le s (after_reading (after_draw s))"
  by (rule le_trans [OF le_draw le_reading])

lemma le_registries:
  "le s (snd (create_consent k cst m s))" "le s (snd (update_consent i cst m s))"
  "le s (snd (create_policy prof nm act sc eff pri actv cond req s))" "le s (snd (create_tool tci s))"
  unfolding create_consent_def update_consent_def create_policy_def create_tool_def Let_def
  by (intro le_case_option le_plain le_write le_drawn le_reading le_registry_rows)+

lemma le_budget_statements:
  "le s (snd (create_execution_budget bid prof tkey hint cap window prior s))"
  "le s (snd (deactivate_execution_budget_optional i s))"
  "le s (snd (supersede_execution_budget_optional i by_id s))"
  unfolding create_execution_budget_def deactivate_execution_budget_optional_def
    supersede_execution_budget_optional_def write_budgets_def Let_def
  by (auto intro!: le_write budgets le_refl le_draw split: option.split)

lemma le_savepoint:
  assumes "\<And>s. le s (snd (m s))"
  shows "le s (snd (in_savepoint m s))"
  using assms [of s]
    bookkeeping [where s = s and r = "reads (snd (m s))" and d = "draws (snd (m s))" and ts = "traces s"
      and es = "trace_events s"]
  by (auto simp: in_savepoint_def split: prod.split sum.split)

lemma le_budget_trace:
  "le s (snd (record_lifecycle_trace thread request state summary action outcome s))"
  "le s (snd (reject_lifecycle_action e thread request b action previous cap window active s))"
  unfolding reject_lifecycle_action_def record_rejected_lifecycle_action_def record_lifecycle_trace_def Let_def
  by (intro le_compose le_basic)+

lemma le_budget_checks:
  "le s (snd (validate_budget_scope tkey hint s))" "le s (snd (validate_rolling_window_seconds window s))"
  "le s (snd (validate_agent_profile_id prof s))" "le s (snd (validate_lifecycle_thread th s))"
  "le s (snd (get_execution_budget_or_raise i s))"
  unfolding validate_budget_scope_def validate_rolling_window_seconds_def validate_agent_profile_id_def
    validate_lifecycle_thread_def get_execution_budget_or_raise_def
  by (intro le_plain)+

lemma le_create_budget: "le s (snd (create_execution_budget_record bq s))"
  unfolding create_execution_budget_record_def
  by (intro le_compose le_basic le_budget_checks le_budget_statements le_map_error)

lemma le_deactivate_budget: "le s (snd (deactivate_execution_budget_record dq s))"
  unfolding deactivate_execution_budget_record_def Let_def
  by (intro le_compose le_basic le_budget_checks le_budget_statements le_budget_trace)

lemma le_swap: "le s (snd (swap_budgets current sq new_id s))"
  unfolding swap_budgets_def by (intro le_compose le_plain le_budget_statements)

lemma le_case_result:
  assumes "le s (snd m)" "\<And>e t. m = (Inl e, t) \<Longrightarrow> le t (snd (f e t))"
    and "\<And>x t. m = (Inr x, t) \<Longrightarrow> le t (snd (g x t))"
  shows "le s (snd (case m of (Inl e, t) \<Rightarrow> f e t | (Inr x, t) \<Rightarrow> g x t))"
proof -
  obtain r t where m: "m = (r, t)" by (cases m)
  with assms show ?thesis by (cases r) (auto intro: le_trans)
qed

lemma le_supersede_budget: "le s (snd (supersede_execution_budget_record sq s))"
  unfolding supersede_execution_budget_record_def Let_def
  by (intro le_compose le_basic le_budget_checks le_budget_trace le_case_result
      le_trans [OF le_draw le_savepoint] le_swap)

text \<open>The policy engine, the registry of tools and the worker.\<close>

lemma le_policy_operations:
  "le s (snd (upsert_consent_record k cst m s))" "le s (snd (create_policy_record pc s))"
  "le s (snd (evaluate_policy_request pe s))" "le s (snd (create_tool_record tci s))"
  "le s (snd (evaluate_tool_allowlist al s))"
  unfolding upsert_consent_record_def create_policy_record_def evaluate_policy_request_def
    create_tool_record_def evaluate_tool_allowlist_def Let_def
  by (intro le_compose le_basic le_registries)+

lemma le_run_operations:
  "le s (snd (create_task_run_record task cp limit cap s))" "le s (snd (tick_task_run_record i s))"
  "le s (snd (mark_task_run_failed i reason cls source s))"
  "le s (snd (acquire_next_task_run_optional s))"
  using run_lifecycle [of s "OpCreate task cp limit cap"] run_lifecycle [of s "OpTick i"]
    run_lifecycle [of s "OpFail i reason cls source"] run_lifecycle [of s OpAcquire]
  by simp_all

lemma le_fail_run: "le s (snd (fail_run i reason cls source s))"
  unfolding fail_run_def by (intro le_compose le_plain le_run_operations)

lemma le_execute_ready: "le s (snd (execute_task_run_if_ready row s))"
proof (cases "ready_approval row s")
  case None
  then show ?thesis by (simp add: execute_task_run_if_ready_def le_refl)
next
  case (Some a)
  let ?m = "execute_approved_proxy_request \<lparr>xr_approval_id = a, xr_task_run_id = Some (tr_id row)\<rparr> s"
  obtain r t where m: "?m = (r, t)" by (cases ?m)
  have "le s t" using le_execute [of s "\<lparr>xr_approval_id = a, xr_task_run_id = Some (tr_id row)\<rparr>"] m by simp
  moreover have "le t (snd (execute_task_run_if_ready row s))"
    using Some
    by (auto simp: execute_task_run_if_ready_def m le_refl le_fail_run
        split: sum.split gov_error.split option.split)
  ultimately show ?thesis by (rule le_trans)
qed

lemma le_worker: "le s (snd (acquire_and_tick_one_task_run s))"
proof (unfold acquire_and_tick_one_task_run_def, intro le_compose le_plain le_run_operations le_execute_ready,
    goal_cases)
  case (1 acquired s1 row executed s2 r s3)
  have "le s2 s3" using le_run_operations(2) [of s2 "tr_id row"] 1(5) by simp
  then show ?case by (auto split: sum.split gov_error.split)
qed

end

subsection \<open>The system\<close>

datatype gov_op =
    GovConsent string consent_status dict
  | GovPolicy policy_create_input
  | GovEvaluate policy_request_input
  | GovTool tool_create_input
  | GovAllowlist allowlist_request
  | GovRoute routing_input
  | GovSubmit approval_request_input
  | GovApprove uuid
  | GovReject uuid
  | GovNextStep next_step_input
  | GovTransition transition_input
  | GovExecute execution_request
  | GovBudget budget_create_input
  | GovDeactivate budget_deactivate_input
  | GovSupersede budget_supersede_input
  | GovRun run_op
  | GovWorker

fun govern :: "gov_op \<Rightarrow> store \<Rightarrow> store" where
  "govern (GovConsent k st m) s = snd (upsert_consent_record k st m s)"
| "govern (GovPolicy p) s = snd (create_policy_record p s)"
| "govern (GovEvaluate r) s = snd (evaluate_policy_request r s)"
| "govern (GovTool t) s = snd (create_tool_record t s)"
| "govern (GovAllowlist r) s = snd (evaluate_tool_allowlist r s)"
| "govern (GovRoute r) s = snd (route_tool_invocation r s)"
| "govern (GovSubmit q) s = snd (submit_approval_request q s)"
| "govern (GovApprove a) s = snd (approve_approval_record a s)"
| "govern (GovReject a) s = snd (reject_approval_record a s)"
| "govern (GovNextStep q) s = snd (create_next_task_step_record q s)"
| "govern (GovTransition r) s = snd (transition_task_step_record r s)"
| "govern (GovExecute r) s = snd (execute_approved_proxy_request r s)"
| "govern (GovBudget q) s = snd (create_execution_budget_record q s)"
| "govern (GovDeactivate q) s = snd (deactivate_execution_budget_record q s)"
| "govern (GovSupersede q) s = snd (supersede_execution_budget_record q s)"
| "govern (GovRun op) s = perform op s"
| "govern GovWorker s = snd (acquire_and_tick_one_task_run s)"

context governed_order
begin

lemma govern_follows: "le s (govern op s)"
  by (cases op)
    (simp_all add: le_policy_operations le_route le_submit le_resolve approve_approval_record_def
      reject_approval_record_def le_next_step_record le_transition_record le_execute le_create_budget
      le_deactivate_budget le_supersede_budget run_lifecycle le_worker)

theorem history_follows: "le s (fold govern ops s)"
proof (induction ops arbitrary: s)
  case Nil
  then show ?case by (simp add: le_refl)
next
  case (Cons op ops)
  from le_trans [OF govern_follows Cons] show ?case by simp
qed

end

end
