(* ===== verification/Governance_Invariants.thy ===== *)
theory Governance_Invariants
  imports Governance
begin

text \<open>
  The interpretations of \<open>governed_order\<close>: approvals are settled once, executions only accumulate
  and are authorised, the steps of a task form one chain, and every run follows its machine.
\<close>

subsection \<open>What a statement leaves alone\<close>

lemmas statement_defs =
  create_approval_def resolve_approval_optional_def update_approval_task_step_optional_def
  update_approval_task_run_optional_def write_approvals_def create_task_def
  update_task_status_by_approval_optional_def update_task_execution_by_approval_optional_def
  update_task_status_optional_def write_tasks_def create_task_step_def update_task_step_optional_def
  update_task_step_for_task_sequence_optional_def write_steps_def create_task_run_def
  update_task_run_optional_def acquire_next_task_run_optional_def write_runs_def put_runs_def
  create_tool_execution_def write_table_def after_reading_def after_draw_def Let_def

lemma approvals_frame [frame_simps]:
  "approvals (snd (create_task th tool tstatus req td latest x s)) = approvals s"
  "approvals (snd (update_task_status_by_approval_optional a tstatus s)) = approvals s"
  "approvals (snd (update_task_execution_by_approval_optional a y tstatus s)) = approvals s"
  "approvals (snd (update_task_status_optional i tstatus latest x s)) = approvals s"
  "approvals (snd (create_task_step i n parent sa sx k sstatus req outcome tr tk s)) = approvals s"
  "approvals (snd (update_task_step_optional i sstatus outcome tr tk s)) = approvals s"
  "approvals (snd (update_task_step_for_task_sequence_optional i n sstatus outcome tr tk s)) = approvals s"
  "approvals (snd (create_task_run i n v s)) = approvals s"
  "approvals (snd (update_task_run_optional i v s)) = approvals s"
  "approvals (snd (acquire_next_task_run_optional s)) = approvals s"
  "approvals (snd (create_tool_execution xv s)) = approvals s"
  by (auto simp: statement_defs split: option.split list.split)

lemma tasks_frame [frame_simps]:
  "tasks (snd (create_approval th tool run step status req td routing tr s)) = tasks s"
  "tasks (snd (resolve_approval_optional a status s)) = tasks s"
  "tasks (snd (update_approval_task_step_optional a st s)) = tasks s"
  "tasks (snd (update_approval_task_run_optional a run s)) = tasks s"
  "tasks (snd (create_task_step i n parent sa sx k sstatus req outcome tr tk s)) = tasks s"
  "tasks (snd (update_task_step_optional i sstatus outcome tr tk s)) = tasks s"
  "tasks (snd (update_task_step_for_task_sequence_optional i n sstatus outcome tr tk s)) = tasks s"
  "tasks (snd (create_task_run i n v s)) = tasks s"
  "tasks (snd (update_task_run_optional i v s)) = tasks s"
  "tasks (snd (acquire_next_task_run_optional s)) = tasks s"
  "tasks (snd (create_tool_execution xv s)) = tasks s"
  by (auto simp: statement_defs split: option.split list.split)

lemma task_steps_frame [frame_simps]:
  "task_steps (snd (create_approval th tool run step status req td routing tr s)) = task_steps s"
  "task_steps (snd (resolve_approval_optional a status s)) = task_steps s"
  "task_steps (snd (update_approval_task_step_optional a st s)) = task_steps s"
  "task_steps (snd (update_approval_task_run_optional a run s)) = task_steps s"
  "task_steps (snd (create_task th tool tstatus req td latest x s)) = task_steps s"
  "task_steps (snd (update_task_status_by_approval_optional a tstatus s)) = task_steps s"
  "task_steps (snd (update_task_execution_by_approval_optional a y tstatus s)) = task_steps s"
  "task_steps (snd (update_task_status_optional i tstatus latest x s)) = task_steps s"
  "task_steps (snd (create_task_run i n v s)) = task_steps s"
  "task_steps (snd (update_task_run_optional i v s)) = task_steps s"
  "task_steps (snd (acquire_next_task_run_optional s)) = task_steps s"
  "task_steps (snd (create_tool_execution xv s)) = task_steps s"
  by (auto simp: statement_defs split: option.split list.split)

lemma task_runs_frame [frame_simps]:
  "task_runs (snd (create_approval th tool run step status req td routing tr s)) = task_runs s"
  "task_runs (snd (resolve_approval_optional a status s)) = task_runs s"
  "task_runs (snd (update_approval_task_step_optional a st s)) = task_runs s"
  "task_runs (snd (update_approval_task_run_optional a run s)) = task_runs s"
  "task_runs (snd (create_task th tool tstatus req td latest x s)) = task_runs s"
  "task_runs (snd (update_task_status_by_approval_optional a tstatus s)) = task_runs s"
  "task_runs (snd (update_task_execution_by_approval_optional a y tstatus s)) = task_runs s"
  "task_runs (snd (update_task_status_optional i tstatus latest x s)) = task_runs s"
  "task_runs (snd (create_task_step i n parent sa sx k sstatus req outcome tr tk s)) = task_runs s"
  "task_runs (snd (update_task_step_optional i sstatus outcome tr tk s)) = task_runs s"
  "task_runs (snd (update_task_step_for_task_sequence_optional i n sstatus outcome tr tk s)) = task_runs s"
  "task_runs (snd (create_tool_execution xv s)) = task_runs s"
  by (auto simp: statement_defs split: option.split list.split)

lemma tool_executions_frame [frame_simps]:
  "tool_executions (snd (create_approval th tool run step status req td routing tr s)) = tool_executions s"
  "tool_executions (snd (resolve_approval_optional a status s)) = tool_executions s"
  "tool_executions (snd (update_approval_task_step_optional a st s)) = tool_executions s"
  "tool_executions (snd (update_approval_task_run_optional a run s)) = tool_executions s"
  "tool_executions (snd (create_task th tool tstatus req td latest x s)) = tool_executions s"
  "tool_executions (snd (update_task_status_by_approval_optional a tstatus s)) = tool_executions s"
  "tool_executions (snd (update_task_execution_by_approval_optional a y tstatus s)) = tool_executions s"
  "tool_executions (snd (update_task_status_optional i tstatus latest x s)) = tool_executions s"
  "tool_executions (snd (create_task_step i n parent sa sx k sstatus req outcome tr tk s)) = tool_executions s"
  "tool_executions (snd (update_task_step_optional i sstatus outcome tr tk s)) = tool_executions s"
  "tool_executions (snd (update_task_step_for_task_sequence_optional i n sstatus outcome tr tk s)) = tool_executions s"
  "tool_executions (snd (create_task_run i n v s)) = tool_executions s"
  "tool_executions (snd (update_task_run_optional i v s)) = tool_executions s"
  "tool_executions (snd (acquire_next_task_run_optional s)) = tool_executions s"
  by (auto simp: statement_defs split: option.split list.split)


text \<open>The same for the statements behind a name of their own.\<close>

lemma submitted_frame:
  assumes "create_task_for_governed_request q s = (r, t)"
  shows "approvals t = approvals s" "task_steps t = task_steps s" "task_runs t = task_runs s"
    "tool_executions t = tool_executions s" "\<exists>rows. tasks t = tasks s @ rows"
    "r = Inr x \<Longrightarrow> tasks t = tasks s @ [x] \<and> tasks_ok (tasks t)"
  using assms
  by (auto simp: create_task_for_governed_request_def statement_defs split: if_splits)

lemma step_frame [frame_simps]:
  "approvals (snd (create_task_step_for_governed_request q s)) = approvals s"
  "tasks (snd (create_task_step_for_governed_request q s)) = tasks s"
  "task_runs (snd (create_task_step_for_governed_request q s)) = task_runs s"
  "tool_executions (snd (create_task_step_for_governed_request q s)) = tool_executions s"
  by (simp_all add: create_task_step_for_governed_request_def frame_simps)

lemma execution_frame [frame_simps]:
  "approvals (snd (persist_tool_execution c k result qe re s)) = approvals s"
  "tasks (snd (persist_tool_execution c k result qe re s)) = tasks s"
  "task_steps (snd (persist_tool_execution c k result qe re s)) = task_steps s"
  "task_runs (snd (persist_tool_execution c k result qe re s)) = task_runs s"
  by (simp_all add: persist_tool_execution_def Let_def frame_simps)

subsection \<open>Relations that do not look at the runs\<close>

locale run_blind_order = store_order +
  assumes blind_runs: "le s (s\<lparr>draws := d, reads := r, task_runs := rows\<rparr>)"
    and blind_link: "le s (snd (update_approval_task_run_optional a run s))"
begin

lemma blind_runs_only: "le s (s\<lparr>reads := r, task_runs := rows\<rparr>)"
  using blind_runs [where s = s and r = r and d = "draws s" and rows = rows] by simp

lemma blind_reading: "le s (after_reading s)"
  using blind_runs_only [where s = s and r = "Suc (reads s)" and rows = "task_runs s"]
  by (simp add: after_reading_def)

lemma blind_update: "le s (snd (update_task_run_optional i v s))"
  using blind_runs_only blind_reading le_refl
  by (simp add: update_task_run_optional_def write_runs_def write_table_def put_runs_def Let_def
      after_reading_def split: option.split)

lemma blind_acquire: "le s (snd (acquire_next_task_run_optional s))"
  using blind_runs_only blind_reading le_refl
  by (simp add: acquire_next_task_run_optional_def write_runs_def write_table_def put_runs_def Let_def
      after_reading_def split: list.split)

lemma blind_create: "le s (snd (create_task_run i n v s))"
  using blind_runs [where s = s and r = "Suc (reads s)" and d = "Suc (draws s)"]
    blind_runs [where s = s and r = "Suc (reads s)" and d = "Suc (draws s)" and rows = "task_runs s"]
  by (simp add: create_task_run_def write_runs_def write_table_def put_runs_def Let_def
      after_reading_def after_draw_def)

lemma blind_entry: "le s (snd (append_transition_checkpoint_entry cp source prev prev_stop v s))"
  by (simp add: append_transition_checkpoint_entry_def Let_def le_refl blind_reading split: sum.split)

lemma blind_update_run: "le s (snd (update_run row v source s))"
  unfolding update_run_def by (intro le_and_then le_plain blind_entry blind_update)

lemma blind_respond: "le s (snd m) \<Longrightarrow> le s (snd (respond_with prev m))"
  unfolding respond_with_def by (intro le_and_then le_plain)

lemma blind_bodies:
  "le s (snd (tick_waiting_approval row cp a s))" "le s (snd (tick_advance row cp cursor n w s))"
  unfolding tick_waiting_approval_def tick_advance_def Let_def
  by (intro le_compose le_plain blind_update_run blind_link)+

lemma blind_starts:
  "le s (snd (require_task_run i s))" "le s (snd (require_task_exists i s))"
  unfolding require_task_run_def require_task_exists_def by (intro le_plain)+

lemma blind_lifecycle: "le s (perform op s)"
proof (cases op)
  case (OpCreate task cp limit cap)
  have "le s (snd (create_task_run_record task cp limit cap s))"
    unfolding create_task_run_record_def Let_def
    by (intro le_compose le_plain blind_starts blind_entry blind_create)
  with OpCreate show ?thesis by simp
next
  case (OpTick i)
  have "le s (snd (tick_task_run_record i s))"
    unfolding tick_task_run_record_def
    by (intro le_compose le_plain blind_starts blind_respond blind_bodies)
  with OpTick show ?thesis by simp
next
  case (OpPause i)
  have "le s (snd (pause_task_run_record i s))"
    unfolding pause_task_run_record_def
    by (intro le_compose le_plain blind_starts blind_respond blind_update_run)
  with OpPause show ?thesis by simp
next
  case (OpResume i)
  have "le s (snd (resume_task_run_record i s))"
    unfolding resume_task_run_record_def Let_def
    by (intro le_compose le_plain blind_starts blind_respond blind_update_run)
  with OpResume show ?thesis by simp
next
  case (OpCancel i)
  have "le s (snd (cancel_task_run_record i s))"
    unfolding cancel_task_run_record_def
    by (intro le_compose le_plain blind_starts blind_respond blind_update_run)
  with OpCancel show ?thesis by simp
next
  case (OpFail i reason cls source)
  have "le s (snd (mark_task_run_failed i reason cls source s))"
    unfolding mark_task_run_failed_def
    by (intro le_compose le_plain blind_respond blind_update_run)
  with OpFail show ?thesis by simp
next
  case OpAcquire
  then show ?thesis by (simp add: blind_acquire)
qed

lemma blind_syncs:
  "le s (snd (resume_task_run_after_resolution arow s))"
  "le s (snd (sync_task_run_after_execution run_id b x s))"
  unfolding resume_task_run_after_resolution_def sync_task_run_after_execution_def Let_def
  by (intro le_compose le_plain le_trans [OF blind_reading blind_update] le_trans [OF blind_reading le_and_then])+

end

subsection \<open>Approvals are settled once\<close>

definition approval_continues :: "approval_row \<Rightarrow> approval_row \<Rightarrow> bool" where
  "approval_continues r r' \<longleftrightarrow>
     ap_user_id r' = ap_user_id r \<and> ap_thread_id r' = ap_thread_id r \<and> ap_tool_id r' = ap_tool_id r \<and>
     ap_request r' = ap_request r \<and> ap_tool r' = ap_tool r \<and> ap_routing r' = ap_routing r \<and>
     ap_created_at r' = ap_created_at r \<and>
     (ap_status r \<noteq> ApprPending \<longrightarrow>
        ap_status r' = ap_status r \<and> ap_resolved_at r' = ap_resolved_at r \<and>
        ap_resolved_by_user_id r' = ap_resolved_by_user_id r)"

definition approvals_le :: "store \<Rightarrow> store \<Rightarrow> bool" where
  "approvals_le s t \<longleftrightarrow>
     (\<forall>a r. get_approval_optional a s = Some r \<longrightarrow>
        (\<exists>r'. get_approval_optional a t = Some r' \<and> approval_continues r r'))"

lemma approval_continues_refl: "approval_continues r r"
  by (simp add: approval_continues_def)

lemma approval_continues_trans:
  "approval_continues r r' \<Longrightarrow> approval_continues r' r'' \<Longrightarrow> approval_continues r r''"
  by (auto simp: approval_continues_def)

lemma approvals_le_same: "approvals t = approvals s \<Longrightarrow> approvals_le s t"
  by (auto simp: approvals_le_def get_approval_optional_def intro: approval_continues_refl)

lemma approvals_le_append:
  "approvals t = approvals s @ rows \<Longrightarrow> approvals_le s t"
  by (auto simp: approvals_le_def get_approval_optional_def find_row_append intro: approval_continues_refl)

lemma approvals_le_set:
  assumes "approvals t = set_row ap_id r' (approvals s)" "find_row ap_id a (approvals s) = Some r"
    and "ap_id r' = a" "approval_continues r r'"
  shows "approvals_le s t"
  using assms
  by (auto simp: approvals_le_def get_approval_optional_def find_row_set_row intro: approval_continues_refl)

lemma approval_statements_le:
  "approvals_le s (snd (create_approval th tool run step status req td routing tr s))"
  "approvals_le s (snd (resolve_approval_optional a status s))"
  "approvals_le s (snd (update_approval_task_step_optional a st s))"
  "approvals_le s (snd (update_approval_task_run_optional a run' s))"
proof -
  show "approvals_le s (snd (create_approval th tool run step status req td routing tr s))"
    by (auto simp: create_approval_def write_approvals_def write_table_def Let_def after_reading_def
        after_draw_def intro: approvals_le_same approvals_le_append)
  show "approvals_le s (snd (resolve_approval_optional a status s))"
  proof (cases "find_row ap_id a (approvals s)")
    case (Some r)
    with find_row_Some [OF Some] show ?thesis
      by (auto simp: resolve_approval_optional_def write_approvals_def write_table_def Let_def
          after_reading_def resolved_approval_def approval_continues_def approvals_le_same
          intro!: approvals_le_set [OF _ Some])
  qed (simp add: resolve_approval_optional_def approvals_le_same)
  show "approvals_le s (snd (update_approval_task_step_optional a st s))"
  proof (cases "find_row ap_id a (approvals s)")
    case (Some r)
    with find_row_Some [OF Some] show ?thesis
      by (auto simp: update_approval_task_step_optional_def write_approvals_def write_table_def Let_def
          approval_continues_def approvals_le_same intro!: approvals_le_set [OF _ Some])
  qed (simp add: update_approval_task_step_optional_def approvals_le_same)
  show "approvals_le s (snd (update_approval_task_run_optional a run' s))"
  proof (cases "find_row ap_id a (approvals s)")
    case (Some r)
    with find_row_Some [OF Some] show ?thesis
      by (auto simp: update_approval_task_run_optional_def write_approvals_def write_table_def Let_def
          approval_continues_def approvals_le_same intro!: approvals_le_set [OF _ Some])
  qed (simp add: update_approval_task_run_optional_def approvals_le_same)
qed

interpretation approvals_blind: run_blind_order approvals_le
proof (unfold_locales, goal_cases)
  case (2 s t u)
  then show ?case unfolding approvals_le_def by (meson approval_continues_trans)
qed (simp_all add: approvals_le_same approval_statements_le)

interpretation settled: governed_order approvals_le
  by unfold_locales
    (auto simp: frame_simps approval_statements_le submitted_frame
      intro!: approvals_le_same approvals_blind.blind_lifecycle approvals_blind.blind_syncs)

text \<open>
  C7:
  An approval is settled at most once and never retargeted: over any sequence of governance
  operations its thread, tool, request and routing stay what was submitted, and once it is approved
  or rejected neither its status nor who resolved it and when ever changes.
\<close>
theorem approvals_settle_once:
  assumes "get_approval_optional a s = Some r"
  shows "\<exists>r'. get_approval_optional a (fold govern ops s) = Some r' \<and> approval_continues r r'"
  using settled.history_follows [of s ops] assms unfolding approvals_le_def by blast

subsection \<open>Executions are authorised\<close>

text \<open>
  What stands behind an execution: its approval, approved, with the request and the tool that were
  run, and for a tool with side effects the run and the key built from them.
\<close>

definition authorised_execution :: "store \<Rightarrow> execution_row \<Rightarrow> bool" where
  "authorised_execution s x \<longleftrightarrow>
     (\<exists>r. get_approval_optional (ex_approval_id x) s = Some r \<and> ap_status r = ApprApproved \<and>
        ex_request x = ap_request r \<and> ex_tool x = ap_tool r \<and>
        (side_effects (tl_tool_key (ap_tool r)) \<longrightarrow>
           (\<exists>run. ex_task_run_id x = Some run \<and>
              ex_idempotency_key x =
                Some (build_idempotency_key run (ex_approval_id x) (ap_request r) (ap_tool r)))))"

definition executions_sound :: "store \<Rightarrow> bool" where
  "executions_sound s \<longleftrightarrow>
     executions_ok (tool_executions s) \<and> (\<forall>x \<in> set (tool_executions s). authorised_execution s x)"

definition sound_le :: "store \<Rightarrow> store \<Rightarrow> bool" where
  "sound_le s t \<longleftrightarrow> approvals_le s t \<and> (\<exists>xs. tool_executions t = tool_executions s @ xs) \<and>
     (executions_sound s \<longrightarrow> executions_sound t)"

lemma authorised_mono:
  assumes "approvals_le s t" "authorised_execution s x"
  shows "authorised_execution t x"
  using assms unfolding authorised_execution_def approvals_le_def approval_continues_def
  by (metis approval_status.distinct(1))

lemma sound_le_same: "approvals_le s t \<Longrightarrow> tool_executions t = tool_executions s \<Longrightarrow> sound_le s t"
  unfolding sound_le_def executions_sound_def by (auto dest: authorised_mono)

lemma sound_le_persist:
  assumes "authorised_call c s"
  shows "sound_le s (snd (persist_tool_execution c k result qe re s))"
proof (cases "fst (persist_tool_execution c k result qe re s)")
  case (Inl e)
  then have "tool_executions (snd (persist_tool_execution c k result qe re s)) = tool_executions s"
    by (auto simp: persist_tool_execution_def statement_defs split: if_splits)
  then show ?thesis by (intro sound_le_same) (simp_all add: approvals_le_same frame_simps)
next
  case (Inr x)
  let ?t = "snd (persist_tool_execution c k result qe re s)"
  from Inr have x: "tool_executions ?t = tool_executions s @ [x]" "executions_ok (tool_executions ?t)"
    "ex_approval_id x = ap_id (ec_approval c)" "ex_request x = call_request c" "ex_tool x = call_tool c"
    "ex_task_run_id x = ec_run_id c" "ex_idempotency_key x = ec_key c"
    by (auto simp: persist_tool_execution_def statement_defs new_execution_def split: if_splits)
  have same: "approvals ?t = approvals s" by (simp add: frame_simps)
  from assms obtain r where r: "get_approval_optional (ap_id (ec_approval c)) s = Some r"
    "ap_status r = ApprApproved" "ap_request r = call_request c" "ap_tool r = call_tool c"
    and key: "ec_key c = key_of_call (ec_run_id c) (ec_approval c)"
    and some: "side_effects (tl_tool_key (call_tool c)) \<Longrightarrow> ec_key c \<noteq> None"
    unfolding authorised_call_def by blast
  have "\<exists>run. ec_run_id c = Some run \<and>
      ec_key c = Some (build_idempotency_key run (ap_id (ec_approval c)) (call_request c) (call_tool c))"
    if "side_effects (tl_tool_key (call_tool c))"
    using some [OF that] that unfolding key
    by (cases "ec_run_id c") (simp_all add: key_of_call_def call_tool_def call_request_def)
  then have "authorised_execution s x"
    unfolding authorised_execution_def x using r by (intro exI [of _ r]) simp
  then have new: "authorised_execution ?t x" by (rule authorised_mono [OF approvals_le_same [OF same]])
  have old: "\<forall>y \<in> set (tool_executions s). authorised_execution ?t y" if "executions_sound s"
    using that authorised_mono [OF approvals_le_same [OF same]] by (simp add: executions_sound_def)
  have "executions_sound ?t" if "executions_sound s"
    using old [OF that] new x(1,2) by (simp add: executions_sound_def)
  with x(1) approvals_le_same [OF same] show ?thesis by (simp add: sound_le_def)
qed

lemma sound_le_trans: "sound_le s t \<Longrightarrow> sound_le t u \<Longrightarrow> sound_le s u"
  unfolding sound_le_def using approvals_blind.le_trans by (metis append.assoc)

lemma sound_le_unchanged:
  "approvals t = approvals s \<Longrightarrow> tool_executions t = tool_executions s \<Longrightarrow> sound_le s t"
  by (simp add: sound_le_same approvals_le_same)

lemma sound_statements:
  "sound_le s (snd (create_approval th tool run step status req td routing tr s))"
  "sound_le s (snd (resolve_approval_optional a status s))"
  "sound_le s (snd (update_approval_task_step_optional a st s))"
  "sound_le s (snd (update_approval_task_run_optional a run' s))"
  by (simp_all add: sound_le_same approval_statements_le frame_simps)

interpretation sound_blind: run_blind_order sound_le
proof (unfold_locales, goal_cases)
  case (2 s t u)
  then show ?case by (rule sound_le_trans)
qed (simp_all add: sound_le_unchanged sound_statements)

interpretation sound: governed_order sound_le
  by unfold_locales
    (auto simp: frame_simps sound_statements submitted_frame
      intro!: sound_le_unchanged sound_blind.blind_lifecycle sound_blind.blind_syncs sound_le_persist)

lemma executions_only_grow: "\<exists>xs. tool_executions (fold govern ops s) = tool_executions s @ xs"
  using sound.history_follows [of s ops] by (simp add: sound_le_def)

text \<open>
  C1:
  Only approved requests are executed: from a store whose executions are authorised, every
  execution that any sequence of governance operations leaves belongs to an approved approval and
  ran the request and the tool that approval carries.
\<close>
theorem executions_stay_authorised:
  assumes "executions_sound s" "x \<in> set (tool_executions (fold govern ops s))"
  shows "\<exists>r. get_approval_optional (ex_approval_id x) (fold govern ops s) = Some r \<and>
    ap_status r = ApprApproved \<and> ex_request x = ap_request r \<and> ex_tool x = ap_tool r"
  using sound.history_follows [of s ops] assms
  unfolding sound_le_def executions_sound_def authorised_execution_def by blast

lemma slot_unique:
  assumes "distinct (filter (\<lambda>z. z \<noteq> None) (map f xs))" "x \<in> set xs" "y \<in> set xs" "f x = f y" "f x \<noteq> None"
  shows "x = y"
proof -
  have "distinct (map f (filter (\<lambda>z. f z \<noteq> None) xs))"
    using assms(1) by (simp add: filter_map comp_def)
  from distinct_map_same [OF this, of x y] assms(2-5) show ?thesis by simp
qed

text \<open>
  C2:
  A tool with side effects is executed at most once for a run and an approval: over any sequence
  of governance operations, worker turns included, two executions of such a tool for the same
  run and approval are one and the same row, completed or blocked.
\<close>
theorem side_effects_at_most_once:
  assumes "executions_sound s"
    and "x \<in> set (tool_executions (fold govern ops s))" "y \<in> set (tool_executions (fold govern ops s))"
    and "side_effects (tl_tool_key (ex_tool x))"
    and "ex_approval_id x = ex_approval_id y" "ex_task_run_id x = ex_task_run_id y"
  shows "x = y"
proof -
  let ?t = "fold govern ops s"
  have sound: "executions_sound ?t"
    using sound.history_follows [of s ops] assms(1) by (simp add: sound_le_def)
  then have auth: "authorised_execution ?t x" "authorised_execution ?t y" and
    "distinct (filter (\<lambda>z. z \<noteq> None) (map idempotency_slot (tool_executions ?t)))"
    using assms(2,3) by (simp_all add: executions_sound_def executions_ok_def)
  note slots = this(3)
  from auth assms(4-6) have "idempotency_slot x = idempotency_slot y" "idempotency_slot x \<noteq> None"
    unfolding authorised_execution_def idempotency_slot_def by auto
  with slot_unique [OF slots assms(2,3)] show ?thesis by blast
qed

subsection \<open>The steps of a task form one chain\<close>

text \<open>
  Numbered from one without gaps, each step but the first with the one before it as its parent.
\<close>

definition step_chain :: "step_row list \<Rightarrow> bool" where
  "step_chain xs \<longleftrightarrow>
     (\<forall>k < length xs. ts_sequence_no (xs ! k) = int k + 1 \<and>
        ts_parent_step_id (xs ! k) = (if k = 0 then None else Some (ts_id (xs ! (k - 1)))))"

definition step_order :: "step_row \<Rightarrow> int \<times> timestamp \<times> uuid" where
  "step_order r = (ts_sequence_no r, ts_created_at r, ts_id r)"

definition linear_steps :: "store \<Rightarrow> bool" where
  "linear_steps s \<longleftrightarrow>
     distinct (map ts_id (task_steps s)) \<and> distinct (map tk_id (tasks s)) \<and>
     (\<forall>x \<in> set (task_steps s). ts_task_id x \<in> tk_id ` set (tasks s)) \<and>
     (\<forall>i. step_chain (list_task_steps_for_task i s))"

lemma steps_for_task: "list_task_steps_for_task i s = sort_key step_order (filter (\<lambda>r. ts_task_id r = i) (task_steps s))"
  unfolding list_task_steps_for_task_def step_order_def ..

lemma insort_key_map: "insort_key f (g x) (map g xs) = map g (insort_key (\<lambda>z. f (g z)) x xs)"
  by (induction xs) auto

lemma sort_key_map: "sort_key f (map g xs) = map g (sort_key (\<lambda>z. f (g z)) xs)"
  by (induction xs) (simp_all add: insort_key_map)

lemma insort_key_snoc: "f a \<le> f x \<Longrightarrow> insort_key f a (ys @ [x]) = insort_key f a ys @ [x]"
  by (induction ys) auto

lemma sort_key_snoc:
  assumes "\<And>y. y \<in> set xs \<Longrightarrow> f y < f x"
  shows "sort_key f (xs @ [x]) = sort_key f xs @ [x]"
  using assms by (induction xs) (simp_all add: insort_key_snoc less_imp_le)

text \<open>Updates that keep identity and lineage keep the chains.\<close>

definition same_lineage :: "step_row \<Rightarrow> step_row \<Rightarrow> bool" where
  "same_lineage a b \<longleftrightarrow> ts_id b = ts_id a \<and> ts_task_id b = ts_task_id a \<and>
     ts_sequence_no b = ts_sequence_no a \<and> ts_parent_step_id b = ts_parent_step_id a \<and>
     ts_created_at b = ts_created_at a"

lemma chain_map:
  assumes "\<And>x. x \<in> set xs \<Longrightarrow> same_lineage x (g x)" "step_chain xs"
  shows "step_chain (map g xs)"
proof -
  have "same_lineage (xs ! k) (g (xs ! k))" if "k < length xs" for k
    using assms(1) that by simp
  then show ?thesis using assms(2) by (auto simp: step_chain_def same_lineage_def)
qed

lemma sort_key_cong_set:
  "(\<And>x. x \<in> set xs \<Longrightarrow> f x = g x) \<Longrightarrow> sort_key f xs = sort_key g xs"
proof (induction xs)
  case (Cons x xs)
  have insort: "(\<And>y. y \<in> set ys \<Longrightarrow> f y = g y) \<Longrightarrow> f x = g x \<Longrightarrow> insort_key f x ys = insort_key g x ys" for ys
    by (induction ys) auto
  from Cons have "sort_key f xs = sort_key g xs" by simp
  then show ?case using insort [of "sort_key g xs"] Cons.prems by simp
qed simp

lemma linear_steps_map:
  assumes "linear_steps s" "\<And>x. x \<in> set (task_steps s) \<Longrightarrow> same_lineage x (g x)"
    and "task_steps t = map g (task_steps s)" "map tk_id (tasks t) = map tk_id (tasks s)"
  shows "linear_steps t"
proof -
  have ids: "map ts_id (map g (task_steps s)) = map ts_id (task_steps s)"
    using assms(2) by (simp add: same_lineage_def)
  have tasks: "tk_id ` set (tasks t) = tk_id ` set (tasks s)"
    using assms(4) by (metis list.set_map)
  have chain: "step_chain (list_task_steps_for_task i t)" for i
  proof -
    let ?xs = "filter (\<lambda>r. ts_task_id r = i) (task_steps s)"
    have "filter (\<lambda>r. ts_task_id r = i) (map g (task_steps s)) = map g ?xs"
      unfolding filter_map comp_def
      by (rule arg_cong [where f = "map g"], rule filter_cong) (use assms(2) in \<open>auto simp: same_lineage_def\<close>)
    moreover have "sort_key (\<lambda>z. step_order (g z)) ?xs = sort_key step_order ?xs"
      by (rule sort_key_cong_set) (use assms(2) in \<open>auto simp: same_lineage_def step_order_def\<close>)
    ultimately have "list_task_steps_for_task i t = map g (list_task_steps_for_task i s)"
      by (simp add: steps_for_task assms(3) sort_key_map)
    moreover have "step_chain (list_task_steps_for_task i s)" using assms(1) by (simp add: linear_steps_def)
    ultimately show ?thesis
      using chain_map [of "list_task_steps_for_task i s" g] assms(2) by (auto simp: steps_for_task)
  qed
  have owned: "\<forall>x \<in> set (task_steps t). ts_task_id x \<in> tk_id ` set (tasks t)"
    using assms(1,2) by (auto simp: linear_steps_def assms(3) tasks same_lineage_def)
  have "distinct (map ts_id (task_steps t))" using assms(1) ids by (simp only: linear_steps_def assms(3))
  moreover have "distinct (map tk_id (tasks t))" using assms(1) by (simp only: linear_steps_def assms(4))
  ultimately show ?thesis unfolding linear_steps_def using owned chain by blast
qed

lemma chain_last: "step_chain xs \<Longrightarrow> xs \<noteq> [] \<Longrightarrow> ts_sequence_no (last xs) = int (length xs)"
  by (cases "length xs") (auto simp: step_chain_def last_conv_nth)

lemma chain_snoc:
  assumes "step_chain xs" "ts_sequence_no x = int (length xs) + 1"
    and "ts_parent_step_id x = (if xs = [] then None else Some (ts_id (last xs)))"
  shows "step_chain (xs @ [x])"
  using assms by (auto simp: step_chain_def nth_append last_conv_nth less_Suc_eq)

lemma linear_frame:
  assumes "linear_steps s" "task_steps t = task_steps s" "distinct (map tk_id (tasks t))"
    and "tk_id ` set (tasks s) \<subseteq> tk_id ` set (tasks t)"
  shows "linear_steps t"
  using assms unfolding linear_steps_def list_task_steps_for_task_def by (simp add: subset_iff)

lemma linear_append:
  assumes "linear_steps s" "task_steps t = task_steps s @ [x]" "tasks t = tasks s"
    and "steps_ok (task_steps t)" "ts_task_id x \<in> tk_id ` set (tasks s)"
    and "step_chain (list_task_steps_for_task (ts_task_id x) s @ [x])"
  shows "linear_steps t"
proof -
  let ?xs = "list_task_steps_for_task (ts_task_id x) s"
  have below: "step_order y < step_order x" if "y \<in> set (filter (\<lambda>r. ts_task_id r = ts_task_id x) (task_steps s))" for y
  proof -
    have "y \<in> set ?xs" using that by (simp add: steps_for_task)
    then obtain k where k: "k < length ?xs" "y = ?xs ! k" by (auto simp: in_set_conv_nth)
    from assms(6) k have "ts_sequence_no y = int k + 1" "ts_sequence_no x = int (length ?xs) + 1"
      unfolding step_chain_def by (auto dest: spec [of _ k] spec [of _ "length ?xs"] simp: nth_append)
    with k(1) show ?thesis by (simp add: step_order_def less_prod_def)
  qed
  have "step_chain (list_task_steps_for_task i t)" for i
  proof (cases "i = ts_task_id x")
    case True
    then have "list_task_steps_for_task i t = ?xs @ [x]"
      using sort_key_snoc [where f = step_order and x = x
          and xs = "filter (\<lambda>r. ts_task_id r = ts_task_id x) (task_steps s)"] below
      by (simp add: steps_for_task assms(2))
    with assms(6) show ?thesis by simp
  next
    case False
    then have "list_task_steps_for_task i t = list_task_steps_for_task i s"
      by (simp add: steps_for_task assms(2))
    with assms(1) show ?thesis by (simp add: linear_steps_def)
  qed
  moreover have "distinct (map ts_id (task_steps t))" using assms(4) by (simp add: steps_ok_def)
  ultimately show ?thesis
    using assms(1,5) unfolding linear_steps_def assms(2,3) by auto
qed

definition linear_le :: "store \<Rightarrow> store \<Rightarrow> bool" where
  "linear_le s t \<longleftrightarrow> (linear_steps s \<longrightarrow> linear_steps t)"

lemma linear_unchanged: "task_steps t = task_steps s \<Longrightarrow> tasks t = tasks s \<Longrightarrow> linear_le s t"
  unfolding linear_le_def using linear_frame [of s t] by (simp add: linear_steps_def)

lemma linear_tasks:
  assumes "task_steps t = task_steps s" "map tk_id (tasks t) = map tk_id (tasks s)"
  shows "linear_le s t"
proof -
  have "tk_id ` set (tasks t) = tk_id ` set (tasks s)" using assms(2) by (metis list.set_map)
  then show ?thesis
    unfolding linear_le_def using assms linear_frame [of s t] by (simp add: linear_steps_def)
qed

lemma task_updates_keep_ids:
  "map tk_id (tasks (snd (update_task_status_by_approval_optional a tstatus s))) = map tk_id (tasks s)"
  "map tk_id (tasks (snd (update_task_execution_by_approval_optional a y tstatus s))) = map tk_id (tasks s)"
  "map tk_id (tasks (snd (update_task_status_optional i tstatus latest x s))) = map tk_id (tasks s)"
  by (auto simp: statement_defs split: option.split)

lemma linear_task_created: "linear_le s (snd (create_task th tool tstatus req td latest x s))"
proof -
  let ?t = "snd (create_task th tool tstatus req td latest x s)"
  have "tasks ?t = tasks s \<or> (\<exists>r. tasks ?t = tasks s @ [r] \<and> tasks_ok (tasks ?t))"
    by (auto simp: statement_defs)
  then show ?thesis
  proof
    assume "tasks ?t = tasks s"
    then show ?thesis by (simp add: linear_unchanged frame_simps)
  next
    assume "\<exists>r. tasks ?t = tasks s @ [r] \<and> tasks_ok (tasks ?t)"
    then obtain r where "tasks ?t = tasks s @ [r]" "distinct (map tk_id (tasks ?t))"
      by (auto simp: tasks_ok_def)
    then show ?thesis unfolding linear_le_def
      using linear_frame [of s ?t] by (auto simp: frame_simps)
  qed
qed

lemma linear_set_row:
  assumes "task_steps t = set_row ts_id r' (task_steps s)" "tasks t = tasks s"
    and "r \<in> set (task_steps s)" "same_lineage r r'"
  shows "linear_le s t"
  unfolding linear_le_def
proof
  assume lin: "linear_steps s"
  then have ids: "distinct (map ts_id (task_steps s))" by (simp add: linear_steps_def)
  show "linear_steps t"
  proof (rule linear_steps_map [OF lin])
    show "task_steps t = map (\<lambda>x. if ts_id x = ts_id r' then r' else x) (task_steps s)"
      using assms(1) by (simp add: set_row_def)
    show "same_lineage x (if ts_id x = ts_id r' then r' else x)" if "x \<in> set (task_steps s)" for x
      using distinct_map_same [OF ids that assms(3)] assms(4) by (auto simp: same_lineage_def)
  qed (simp add: assms(2))
qed

lemma linear_step_updates:
  "linear_le s (snd (update_task_step_optional i sstatus outcome tr tk s))"
  "linear_le s (snd (update_task_step_for_task_sequence_optional i n sstatus outcome tr tk s))"
proof -
  have same: "same_lineage r (updated_step sstatus outcome tr tk s r)" for r
    by (simp add: same_lineage_def updated_step_def)
  show "linear_le s (snd (update_task_step_optional i sstatus outcome tr tk s))"
  proof (cases "find_row ts_id i (task_steps s)")
    case (Some r)
    then have "r \<in> set (task_steps s)" by (simp add: find_row_Some)
    with same Some show ?thesis
      by (auto simp: update_task_step_optional_def write_steps_def write_table_def Let_def after_reading_def
          linear_unchanged intro: linear_set_row)
  qed (simp add: update_task_step_optional_def linear_unchanged)
  show "linear_le s (snd (update_task_step_for_task_sequence_optional i n sstatus outcome tr tk s))"
  proof (cases "find (\<lambda>r. ts_task_id r = i \<and> ts_sequence_no r = n) (task_steps s)")
    case (Some r)
    then have "r \<in> set (task_steps s)" by (auto simp: find_Some_iff)
    with same Some show ?thesis
      by (auto simp: update_task_step_for_task_sequence_optional_def write_steps_def write_table_def Let_def
          after_reading_def linear_unchanged intro: linear_set_row)
  qed (simp add: update_task_step_for_task_sequence_optional_def linear_unchanged)
qed

lemma new_step_rows:
  assumes "create_task_step i n parent sa sx k st req outcome tr tk s = (r, t)"
  shows "task_steps t = task_steps s \<or>
    (\<exists>x. task_steps t = task_steps s @ [x] \<and> steps_ok (task_steps t) \<and> ts_task_id x = i \<and>
       ts_sequence_no x = n \<and> ts_parent_step_id x = parent)" "tasks t = tasks s"
  using assms by (auto simp: statement_defs new_step_def split: if_splits)

lemma linear_new_step:
  assumes "create_task_step i n parent sa sx k st req outcome tr tk s = (r, t)"
    and "i \<in> tk_id ` set (tasks s)"
    and "n = int (length (list_task_steps_for_task i s)) + 1"
    and "parent = (if list_task_steps_for_task i s = [] then None
           else Some (ts_id (last (list_task_steps_for_task i s))))"
  shows "linear_le s t"
proof -
  from new_step_rows [OF assms(1)] consider "task_steps t = task_steps s" "tasks t = tasks s"
    | x where "task_steps t = task_steps s @ [x]" "steps_ok (task_steps t)" "ts_task_id x = i"
        "ts_sequence_no x = n" "ts_parent_step_id x = parent" "tasks t = tasks s"
    by blast
  then show ?thesis
  proof cases
    case 1
    then show ?thesis by (rule linear_unchanged)
  next
    case (2 x)
    show ?thesis unfolding linear_le_def
    proof
      assume lin: "linear_steps s"
      then have "step_chain (list_task_steps_for_task i s)" by (simp add: linear_steps_def)
      then have "step_chain (list_task_steps_for_task i s @ [x])"
        using 2(4,5) assms(3,4) by (intro chain_snoc) simp_all
      with linear_append [OF lin 2(1,6,2)] 2(3) assms(2) show "linear_steps t" by simp
    qed
  qed
qed

lemma linear_next_step:
  assumes "list_task_steps_for_task i s = existing" "existing \<noteq> []" "get_task_optional i s \<noteq> None"
  shows "linear_le s (snd (create_task_step i (ts_sequence_no (last existing) + 1)
    (Some (ts_id (last existing))) sa sx k st req outcome tr tk s))"
proof (cases "linear_steps s")
  case True
  then have "step_chain existing" using assms(1) by (auto simp: linear_steps_def)
  then have n: "ts_sequence_no (last existing) = int (length existing)" using assms(2) by (rule chain_last)
  have i: "i \<in> tk_id ` set (tasks s)"
    using assms(3) by (auto simp: get_task_optional_def dest!: find_row_Some)
  show ?thesis
    by (rule linear_new_step [OF prod.collapse [symmetric] i]) (simp_all add: n assms(1,2))
qed (simp add: linear_le_def)

lemma linear_first_step:
  assumes "create_task_for_governed_request (request_task_input q rr arow) s = (Inr task, t)"
  shows "linear_le s (snd (create_task_step_for_governed_request (request_step_input rr arow task i)
             (t\<lparr>draws := d, traces := ts\<rparr>)))"
proof -
  let ?u = "t\<lparr>draws := d, traces := ts\<rparr>"
  have tasks: "tasks t = tasks s @ [task]" "tasks_ok (tasks t)" and steps: "task_steps t = task_steps s"
    using submitted_frame(6) [OF assms refl] submitted_frame(2) [OF assms] by blast+
  have "linear_le s t"
    using linear_task_created assms unfolding create_task_for_governed_request_def by (metis snd_conv)
  moreover have "linear_le t ?u" by (rule linear_unchanged) simp_all
  moreover have "linear_le ?u (snd (create_task_step_for_governed_request (request_step_input rr arow task i) ?u))"
    if lin: "linear_steps s"
  proof -
    have "tk_id task \<notin> tk_id ` set (tasks s)" using tasks by (auto simp: tasks_ok_def)
    moreover have "\<forall>x \<in> set (task_steps s). ts_task_id x \<in> tk_id ` set (tasks s)"
      using lin unfolding linear_steps_def by blast
    ultimately have "filter (\<lambda>r. ts_task_id r = tk_id task) (task_steps s) = []"
      unfolding filter_empty_conv by metis
    then have none: "list_task_steps_for_task (tk_id task) ?u = []" by (simp add: steps_for_task steps)
    have "tk_id task \<in> tk_id ` set (tasks ?u)" using tasks(1) by simp
    then show ?thesis
      unfolding create_task_step_for_governed_request_def
      by (intro linear_new_step [OF prod.collapse [symmetric]])
        (simp_all add: none request_step_input_def DEFAULT_TASK_STEP_SEQUENCE_NO_def)
  qed
  ultimately show ?thesis by (auto simp: linear_le_def)
qed

interpretation linear_blind: run_blind_order linear_le
proof (unfold_locales, goal_cases)
  case (2 s t u)
  then show ?case by (simp add: linear_le_def)
qed (simp_all add: linear_unchanged frame_simps)

interpretation linear: governed_order linear_le
proof (unfold_locales, goal_cases)
  case (11 a x tstatus s)
  show ?case by (rule linear_tasks) (simp_all add: frame_simps task_updates_keep_ids)
next
  case (10 a tstatus s)
  show ?case by (rule linear_tasks) (simp_all add: frame_simps task_updates_keep_ids)
next
  case (12 i tstatus latest y s)
  show ?case by (rule linear_tasks) (simp_all add: frame_simps task_updates_keep_ids)
qed (auto simp: linear_unchanged frame_simps linear_task_created linear_first_step linear_next_step
  linear_step_updates linear_blind.blind_lifecycle linear_blind.blind_syncs)

text \<open>
  C30:
  The steps of a task are one linear history: if the steps of every task are numbered from one
  without gaps and each has the step before it as parent, the same holds after any sequence of
  governance operations.
\<close>
theorem step_histories_stay_linear:
  assumes "linear_steps s"
  shows "linear_steps (fold govern ops s)"
  using linear.history_follows [of s ops] assms by (simp add: linear_le_def)

end
