(* ===== verification/Governance_Runs.thy ===== *)
theory Governance_Runs
  imports Governance_Invariants
begin

text \<open>
  The runs of the governance layer.  Resolutions and executions change runs behind the back of the
  run lifecycle; the interpretation of \<open>governed_order\<close> here shows that they too move along the
  edges of the abstract machine \<open>run_edge\<close>, so that the whole layer refines it.
\<close>

subsection \<open>The layer refines the machine of a run\<close>

definition runs_le :: "store \<Rightarrow> store \<Rightarrow> bool" where
  "runs_le s t \<longleftrightarrow> (runs_ok (task_runs s) \<longrightarrow>
     reachable_rows (task_runs s) (task_runs t) \<and> runs_ok (task_runs t))"

lemma reachable_rows_trans:
  "reachable_rows b c \<Longrightarrow> reachable_rows a b \<Longrightarrow> reachable_rows a c"
  by (induction rule: reachable_rows.induct) (auto intro: onward)

lemma reachable_step: "table_step a b \<Longrightarrow> reachable_rows a b"
  by (rule onward [OF here])

lemma runs_le_same: "task_runs t = task_runs s \<Longrightarrow> runs_le s t"
  by (simp add: runs_le_def here)

lemma runs_le_trans: "runs_le s t \<Longrightarrow> runs_le t u \<Longrightarrow> runs_le s u"
  unfolding runs_le_def by (blast intro: reachable_rows_trans)

lemma runs_le_step: "table_step (task_runs s) (task_runs t) \<Longrightarrow> runs_le s t"
  unfolding runs_le_def by (auto intro: reachable_step dest: table_step_ok)

lemma runs_le_moved:
  "run_moves i (task_runs s) rows \<Longrightarrow> task_runs t = rows \<Longrightarrow> runs_le s t"
  by (rule runs_le_step) (simp add: moved)

text \<open>An update of a stored run along an edge, outside the lifecycle operations.\<close>

lemma direct_update_le:
  assumes "find_row tr_id i (task_runs s) = Some row" "task_runs t = task_runs s"
    and "rv_retry_cap v = tr_retry_cap row"
    and "run_edge (tr_max_ticks row) (tr_retry_cap row) (core_of row) (core_values v)"
  shows "runs_le s (snd (update_task_run_optional i v t))"
proof -
  let ?u = "updated_run v t row"
  have id: "tr_id row = i" using find_row_id [OF assms(1)] .
  have "row_moves row ?u" using assms(3,4) by (simp add: row_moves_def)
  with assms(1) have "run_moves i (task_runs s) (set_row tr_id ?u (task_runs s))"
    if "runs_ok (set_row tr_id ?u (task_runs s))"
    using that unfolding run_moves_def by blast
  then show ?thesis
    using assms(1,2)
    by (auto simp: update_task_run_optional_def write_runs_def write_table_def put_runs_def Let_def
        after_reading_def intro: runs_le_same runs_le_moved)
qed

lemma runs_store_order: "store_order runs_le"
  by unfold_locales (blast intro: runs_le_same runs_le_trans)+

lemma resolution_runs: "runs_le s (snd (resume_task_run_after_resolution arow s))"
proof (cases "ap_task_run_id arow")
  case None
  then show ?thesis by (simp add: resume_task_run_after_resolution_def runs_le_same)
next
  case (Some i)
  show ?thesis
  proof (cases "get_task_run_optional i s")
    case None
    with Some show ?thesis by (simp add: resume_task_run_after_resolution_def runs_le_same)
  next
    case run: (Some row)
    have edge: "run_edge (tr_max_ticks row) (tr_retry_cap row) (core_of row)
        (core_values ((resolution_values arow row cp)\<lparr>rv_checkpoint := cp'\<rparr>))"
      if "tr_status row = RunWaitingApproval" for cp cp'
      using that requeue [of "core_of row"] failing [of "core_of row"]
      by (simp add: core_of_def core_values_def resolution_values_def Let_def)
    have found: "find_row tr_id i (task_runs s) = Some row"
      using run by (simp add: get_task_run_optional_def)
    note update = direct_update_le [OF found, of "after_reading s", unfolded after_reading_def]
    have cap: "rv_retry_cap ((resolution_values arow row cp)\<lparr>rv_checkpoint := cp'\<rparr>) = tr_retry_cap row"
      for cp cp' by (simp add: resolution_values_def Let_def)
    show ?thesis
    proof (cases "tr_status row = RunWaitingApproval")
      case False
      with Some run show ?thesis
        by (simp add: resume_task_run_after_resolution_def runs_le_same)
    next
      case True
      with Some run show ?thesis
        unfolding resume_task_run_after_resolution_def Let_def
        by (auto intro!: store_order.le_and_then [OF runs_store_order] update edge cap
            simp: after_reading_def runs_le_same)
    qed
  qed
qed

lemma execution_runs: "runs_le s (snd (sync_task_run_after_execution i a x s))"
proof (cases "get_task_run_optional i s")
  case None
  then show ?thesis by (simp add: sync_task_run_after_execution_def runs_le_same)
next
  case (Some row)
  then have found: "find_row tr_id i (task_runs s) = Some row"
    by (simp add: get_task_run_optional_def)
  note update = direct_update_le [OF found, of "after_reading s", unfolded after_reading_def]
  show ?thesis
  proof (cases "tr_status row = RunDone \<or> tr_status row = RunCancelled")
    case True
    with Some show ?thesis by (simp add: sync_task_run_after_execution_def runs_le_same)
  next
    case False
    then have edge: "run_edge (tr_max_ticks row) (tr_retry_cap row) (core_of row)
        (core_values ((executed_values row x cp)\<lparr>rv_checkpoint := cp'\<rparr>))" for cp cp'
      using executed [of "core_of row"] blocked [of "core_of row"]
      by (simp add: core_of_def core_values_def executed_values_def Let_def)
    have cap: "rv_retry_cap ((executed_values row x cp)\<lparr>rv_checkpoint := cp'\<rparr>) = tr_retry_cap row"
      for cp cp' by (simp add: executed_values_def Let_def)
    from False Some show ?thesis
      unfolding sync_task_run_after_execution_def Let_def
      by (auto intro!: update edge cap simp: after_reading_def)
  qed
qed

interpretation run_machine: governed_order runs_le
proof (unfold_locales, goal_cases)
  case (2 s t u)
  then show ?case by (rule runs_le_trans)
next
  case (19 s op)
  show ?case using perform_reaches [of s "[op]"] by (simp add: runs_le_def)
qed (simp_all add: runs_le_same frame_simps submitted_frame resolution_runs execution_runs)

text \<open>
  C14:
  The governance layer refines the machine of a run: starting from a table of runs that satisfies
  its constraints, every sequence of operations (policies, routing, submissions, resolutions,
  steps, executions, budgets, run lifecycle, worker turns) changes the table of runs only by adding
  rows and by moving one row along one edge of \<open>run_edge\<close>, and keeps the constraints.
\<close>
theorem governance_refines_run_machine:
  assumes "runs_ok (task_runs s)"
  shows "reachable_rows (task_runs s) (task_runs (fold govern ops s)) \<and>
    runs_ok (task_runs (fold govern ops s))"
  using run_machine.history_follows [of s ops] assms by (simp add: runs_le_def)

end
