(* ===== verification/Governance_Contracts.thy ===== *)
theory Governance_Contracts
  imports Governance_Runs
begin

text \<open>
  What single calls of the governance layer promise: a repeated call with side effects replays,
  a completed execution stays within its budget, superseding a budget swaps it for its replacement,
  a resolution carries approval, task, step and run along, and a transition follows the status graph.
\<close>

subsection \<open>Calls that execute nothing\<close>

definition quiet_le :: "store \<Rightarrow> store \<Rightarrow> bool" where
  "quiet_le s t \<longleftrightarrow> tool_executions t = tool_executions s \<and> events t = events s"

lemma trace_events_only: "\<exists>es'. append_trace_events i es s = s\<lparr>trace_events := es'\<rparr>"
  using append_from_only [of i 1 es s] by (simp add: append_trace_events_def)

lemma trace_frame [frame_simps]:
  "events (append_trace_events i es s) = events s"
  "tool_executions (append_trace_events i es s) = tool_executions s"
  "approvals (append_trace_events i es s) = approvals s"
  "tasks (append_trace_events i es s) = tasks s"
  "task_steps (append_trace_events i es s) = task_steps s"
  "task_runs (append_trace_events i es s) = task_runs s"
  "execution_budgets (append_trace_events i es s) = execution_budgets s"
  using trace_events_only [of i es s] by auto

lemma create_trace_frame [frame_simps]:
  "events (snd (create_trace u th k v st l s)) = events s"
  "tool_executions (snd (create_trace u th k v st l s)) = tool_executions s"
  "approvals (snd (create_trace u th k v st l s)) = approvals s"
  "tasks (snd (create_trace u th k v st l s)) = tasks s"
  "task_steps (snd (create_trace u th k v st l s)) = task_steps s"
  "task_runs (snd (create_trace u th k v st l s)) = task_runs s"
  "execution_budgets (snd (create_trace u th k v st l s)) = execution_budgets s"
  using create_trace_snd [of u th k v st l s] by auto

lemma link_events [frame_simps]: "events (snd (update_approval_task_run_optional a run s)) = events s"
  by (auto simp: statement_defs split: option.split)

interpretation quiet: run_blind_order quiet_le
  by unfold_locales (simp_all add: quiet_le_def frame_simps)

lemma quiet_linkage: "quiet_le s (snd (resolve_task_run_linkage approval step requested s))"
  unfolding resolve_task_run_linkage_def Let_def
  by (intro quiet.le_compose quiet.le_plain quiet.blind_link)

lemma quiet_trace: "quiet_le s (snd (create_trace u th k v st l s))"
  "quiet_le s (append_trace_events i es s)"
  by (simp_all add: quiet_le_def frame_simps)

lemma quiet_replay: "quiet_le s (snd (replay_execution c x s))"
  unfolding replay_execution_def Let_def sync_run_of_call_def
  by (intro quiet.le_compose quiet.le_plain quiet.blind_syncs) (simp add: quiet_trace)

lemma quiet_refuse: "quiet_le s (snd (refuse_unapproved c s))"
  by (simp add: refuse_unapproved_def Let_def quiet_trace)

subsection \<open>The opening of an execution\<close>

text \<open>Up to its dispatch a call writes a trace and the run of its approval, nothing else.\<close>

definition opening_le :: "store \<Rightarrow> store \<Rightarrow> bool" where
  "opening_le s t \<longleftrightarrow> (\<exists>d ts rows. t = s\<lparr>draws := d, traces := ts, approvals := rows\<rparr>)"

lemma opening_refl: "opening_le s s"
proof -
  have "s = s\<lparr>draws := draws s, traces := traces s, approvals := approvals s\<rparr>" by simp
  then show ?thesis unfolding opening_le_def by blast
qed

interpretation prologue: store_order opening_le
proof
  fix s t u
  show "opening_le s s" by (rule opening_refl)
  assume "opening_le s t" "opening_le t u"
  then show "opening_le s u" unfolding opening_le_def by fastforce
qed

lemma opening_trace: "opening_le s (snd (create_trace u th k v st l s))"
proof -
  obtain d ts where "snd (create_trace u th k v st l s) = s\<lparr>draws := d, traces := ts\<rparr>"
    using create_trace_snd by blast
  then have "snd (create_trace u th k v st l s) = s\<lparr>draws := d, traces := ts, approvals := approvals s\<rparr>"
    by simp
  then show ?thesis unfolding opening_le_def by blast
qed

lemma opening_link: "opening_le s (snd (update_approval_task_run_optional a run s))"
proof -
  have "opening_le s (s\<lparr>approvals := rows\<rparr>)" for rows
  proof -
    have "s\<lparr>approvals := rows\<rparr> = s\<lparr>draws := draws s, traces := traces s, approvals := rows\<rparr>" by simp
    then show ?thesis unfolding opening_le_def by blast
  qed
  then show ?thesis
    by (auto simp: statement_defs opening_refl split: option.split)
qed

lemma opening_linkage: "opening_le s (snd (resolve_task_run_linkage approval step requested s))"
  unfolding resolve_task_run_linkage_def Let_def
  by (intro prologue.le_compose prologue.le_plain opening_link)

lemma linkage_run:
  "resolve_task_run_linkage approval step requested s = (Inr run, t) \<Longrightarrow>
     run = or_else requested (ap_task_run_id approval)"
  by (auto simp: resolve_task_run_linkage_def Let_def succeeds split: option.splits)

lemma opening_quiet: "opening_le s t \<Longrightarrow> quiet_le s t"
  by (auto simp: opening_le_def quiet_le_def)

text \<open>A call that raised on the way, or one that reached its dispatch with \<open>P\<close> established.\<close>

definition early_or :: "(execution_call \<Rightarrow> bool) \<Rightarrow> store \<Rightarrow> (gov_error + dict) \<times> store \<Rightarrow> bool" where
  "early_or P s m \<longleftrightarrow> (\<exists>e t. m = (Inl e, t) \<and> opening_le s t) \<or>
     (\<exists>c t. m = dispatch_call c t \<and> opening_le s t \<and> P c)"

lemma early_and_then:
  assumes "opening_le s (snd m)" "\<And>x t. m = (Inr x, t) \<Longrightarrow> early_or P t (f x t)"
  shows "early_or P s (and_then m f)"
proof (cases m)
  case (Pair r t)
  show ?thesis
  proof (cases r)
    case (Inl e)
    with Pair assms(1) show ?thesis by (simp add: early_or_def)
  next
    case (Inr x)
    with Pair assms have "early_or P t (f x t)" "opening_le s t" by simp_all
    then have "early_or P s (f x t)" unfolding early_or_def by (meson prologue.le_trans)
    with Pair Inr show ?thesis by simp
  qed
qed

lemma early_case: "(\<And>a b. p = (a, b) \<Longrightarrow> early_or P s (f a b t)) \<Longrightarrow> early_or P s ((case p of (a, b) \<Rightarrow> f a b) t)"
  by (cases p) simp

lemma early_dispatch: "P c \<Longrightarrow> early_or P s (dispatch_call c s)"
  unfolding early_or_def using opening_refl by blast

definition call_of :: "execution_request \<Rightarrow> approval_row \<Rightarrow> execution_call \<Rightarrow> bool" where
  "call_of req approval c \<longleftrightarrow> ec_approval c = approval \<and>
     ec_run_id c = or_else (xr_task_run_id req) (ap_task_run_id approval) \<and>
     ec_key c = key_of_call (ec_run_id c) approval \<and>
     (ec_key c = None \<longrightarrow> \<not> side_effects (tl_tool_key (ap_tool approval)))"

lemma execute_opens:
  "early_or (\<lambda>c. \<exists>approval. get_approval_optional (xr_approval_id req) s = Some approval \<and>
      call_of req approval c) s (execute_approved_proxy_request req s)"
proof (unfold execute_approved_proxy_request_def,
    intro early_and_then early_case early_dispatch opening_linkage opening_trace, goal_cases)
  case (4 approval s1 linked s2 task step run s3 key s4 trace s5)
  from 4(1) have "get_approval_optional (xr_approval_id req) s = Some approval" by (simp add: succeeds)
  moreover have "key = key_of_call run approval \<and> (key = None \<longrightarrow> \<not> side_effects (tl_tool_key (ap_tool approval)))"
    using 4(5) by (auto simp: idempotency_key_for_def key_of_call_def split: if_splits option.splits)
  ultimately show ?case using linkage_run [OF 4(4)] by (simp add: call_of_def)
qed (simp_all add: opening_refl)

lemma execute_cases:
  obtains (early) e t where "execute_approved_proxy_request req s = (Inl e, t)" "opening_le s t"
  | (dispatch) approval c s' where "get_approval_optional (xr_approval_id req) s = Some approval"
    "call_of req approval c" "opening_le s s'" "execute_approved_proxy_request req s = dispatch_call c s'"
  using execute_opens [of req s] unfolding early_or_def by blast

subsection \<open>Refusal and replay\<close>

lemma opening_approval:
  assumes "execute_approved_proxy_request req s = dispatch_call c s'"
    "get_approval_optional (xr_approval_id req) s = Some r" "call_of req r c"
  shows "ap_id (ec_approval c) = xr_approval_id req"
  using assms(2,3) by (auto simp: call_of_def get_approval_optional_def dest: find_row_Some)

text \<open>
  C16:
  Without an approved approval nothing is executed: a call for an approval that is missing, pending
  or rejected raises, and neither an execution nor an event of the thread is written.
\<close>
theorem unapproved_never_executed:
  assumes "\<not> (\<exists>r. get_approval_optional (xr_approval_id req) s = Some r \<and> ap_status r = ApprApproved)"
    and "execute_approved_proxy_request req s = (result, t)"
  shows "(\<exists>e. result = Inl e) \<and> tool_executions t = tool_executions s \<and> events t = events s"
proof (cases rule: execute_cases [of req s])
  case (early e u)
  with assms(2) opening_quiet [OF early(2)] show ?thesis by (auto simp: quiet_le_def)
next
  case (dispatch approval c s')
  then have "dispatch_call c s' = refuse_unapproved c s'"
    using assms(1) by (auto simp: dispatch_call_def call_of_def)
  with dispatch assms(2) have "refuse_unapproved c s' = (result, t)" by simp
  moreover from this have "quiet_le s' t" using quiet_refuse [of s' c] by simp
  moreover have "quiet_le s s'" using dispatch(3) by (rule opening_quiet)
  ultimately show ?thesis by (auto simp: refuse_unapproved_def Let_def quiet_le_def)
qed

text \<open>An execution with side effects is found again by the key of the same call.\<close>

lemma existing_of_stored:
  assumes "executions_sound s" "x \<in> set (tool_executions s)" "side_effects (tl_tool_key (ex_tool x))"
    and "get_approval_optional (ex_approval_id x) s = Some r" "ex_task_run_id x = Some run"
    and "call_of \<lparr>xr_approval_id = ex_approval_id x, xr_task_run_id = Some run\<rparr> r c"
    and "tool_executions s' = tool_executions s"
  shows "ap_status (ec_approval c) = ApprApproved" "existing_execution c s' = Some x"
proof -
  from assms(1,2) have auth: "authorised_execution s x" and
    slots: "distinct (filter (\<lambda>z. z \<noteq> None) (map idempotency_slot (tool_executions s)))"
    by (simp_all add: executions_sound_def executions_ok_def)
  let ?k = "build_idempotency_key run (ex_approval_id x) (ap_request r) (ap_tool r)"
  from auth assms(3-5) have r: "ap_status r = ApprApproved" "ex_tool x = ap_tool r"
    and key: "ex_idempotency_key x = Some ?k"
    unfolding authorised_execution_def by auto
  have id: "ap_id r = ex_approval_id x"
    using assms(4) by (auto simp: get_approval_optional_def dest: find_row_Some)
  with assms(3,6) r have c: "ec_approval c = r" "ec_run_id c = Some run" "ec_key c = Some ?k"
    by (auto simp: call_of_def or_else_def key_of_call_def)
  then show "ap_status (ec_approval c) = ApprApproved" using r by simp
  let ?hit = "\<lambda>y. ex_task_run_id y = Some run \<and> ex_approval_id y = ex_approval_id x \<and>
    ex_idempotency_key y = Some ?k"
  have only: "y = x" if "y \<in> set (tool_executions s)" "?hit y" for y
    using slot_unique [OF slots that(1) assms(2)] that(2) key assms(5) by (simp add: idempotency_slot_def)
  have "find ?hit (list_tool_executions s') = Some x"
  proof -
    have "x \<in> set (list_tool_executions s')" "?hit x"
      using assms(2,5,7) key by (simp_all add: list_tool_executions_def)
    then have "find ?hit (list_tool_executions s') \<noteq> None" by (auto simp: find_None_iff)
    then obtain y where y: "find ?hit (list_tool_executions s') = Some y" by blast
    then have "y \<in> set (list_tool_executions s')" "?hit y" by (auto simp: find_Some_iff)
    with only [of y] y assms(7) show ?thesis by (simp add: list_tool_executions_def)
  qed
  then show "existing_execution c s' = Some x"
    by (simp add: existing_execution_def c id get_tool_execution_by_idempotency_optional_def)
qed

lemma replay_result:
  "replay_execution c x s = (Inr resp, t) \<Longrightarrow> dget resp ''result'' = JObj (exec_result_json (ex_result x))"
  by (auto simp: replay_execution_def Let_def succeeds execution_response_def dget_def)

text \<open>
  C15:
  Repeating an executed call with side effects executes nothing: once an execution of such a tool is
  stored for an approval and a run, any later call for the same approval and run writes no
  execution and no event of the thread, and answers with the stored result.
\<close>
theorem repeated_call_replays:
  assumes "executions_sound s" "x \<in> set (tool_executions s)"
    and "side_effects (tl_tool_key (ex_tool x))" "ex_task_run_id x = Some run"
    and "execute_approved_proxy_request \<lparr>xr_approval_id = ex_approval_id x, xr_task_run_id = Some run\<rparr> s
      = (result, t)"
  shows "tool_executions t = tool_executions s \<and> events t = events s \<and>
    (\<forall>resp. result = Inr resp \<longrightarrow> dget resp ''result'' = JObj (exec_result_json (ex_result x)))"
proof (cases rule: execute_cases [of "\<lparr>xr_approval_id = ex_approval_id x, xr_task_run_id = Some run\<rparr>" s])
  case (early e u)
  with assms(5) opening_quiet [OF early(2)] show ?thesis by (auto simp: quiet_le_def)
next
  case (dispatch approval c s')
  have quiet: "quiet_le s s'" using dispatch(3) by (rule opening_quiet)
  then have same: "tool_executions s' = tool_executions s" by (simp add: quiet_le_def)
  have found: "get_approval_optional (ex_approval_id x) s = Some approval" using dispatch(1) by simp
  note replay = existing_of_stored [OF assms(1-3) found assms(4) dispatch(2) same]
  have m: "replay_execution c x s' = (result, t)"
    using dispatch(4) assms(5) replay by (simp add: dispatch_call_def)
  then have "quiet_le s' t" using quiet_replay [of s' c x] by simp
  with quiet m replay_result show ?thesis by (auto simp: quiet_le_def)
qed

subsection \<open>Executions and their budget\<close>

text \<open>Only executions that satisfy \<open>Q\<close> are added.\<close>

definition adds_only :: "(execution_row \<Rightarrow> bool) \<Rightarrow> store \<Rightarrow> store \<Rightarrow> bool" where
  "adds_only Q s t \<longleftrightarrow> (\<exists>xs. tool_executions t = tool_executions s @ xs \<and> (\<forall>x \<in> set xs. Q x))"

lemma adds_same: "tool_executions t = tool_executions s \<Longrightarrow> adds_only Q s t"
  by (simp add: adds_only_def)

lemma adds_trans: "adds_only Q s t \<Longrightarrow> adds_only Q t u \<Longrightarrow> adds_only Q s u"
  unfolding adds_only_def by (metis Un_iff append.assoc set_append)

interpretation adds_blind: run_blind_order "adds_only Q" for Q
proof (unfold_locales, goal_cases)
  case (2 s t u)
  then show ?case by (rule adds_trans)
qed (simp_all add: adds_same frame_simps)

interpretation adds: synced_order "adds_only Q" for Q
  by unfold_locales
    (auto simp: frame_simps submitted_frame intro!: adds_same adds_blind.blind_lifecycle adds_blind.blind_syncs)

lemma adds_persist:
  assumes "\<And>y. ex_status y = er_status result \<Longrightarrow> ex_request y = call_request c \<Longrightarrow>
    ex_tool y = call_tool c \<Longrightarrow> Q y"
  shows "adds_only Q s (snd (persist_tool_execution c k result qe re s))"
  by (auto simp: persist_tool_execution_def statement_defs new_execution_def adds_only_def
      intro!: assms)

lemma budget_result_blocked:
  "evaluate_execution_budget tool req s = ((d, Some result), t) \<Longrightarrow> er_status result = ExecBlocked"
  by (auto simp: evaluate_execution_budget_def Let_def invalid_context_blocked_result_def
      blocked_result_def blocked_with_def split: if_splits option.splits)

definition cleared_call :: "execution_call \<Rightarrow> store \<Rightarrow> execution_row \<Rightarrow> bool" where
  "cleared_call c s x \<longleftrightarrow> ex_request x = call_request c \<and> ex_tool x = call_tool c \<and>
     (ex_status x = ExecCompleted \<longrightarrow>
        snd (fst (evaluate_execution_budget (call_tool c) (call_request c) s)) = None)"

lemma adds_blocked:
  assumes "er_status result = ExecBlocked"
  shows "adds_only (cleared_call c s') s (snd (block_by_budget c d result s))"
  unfolding block_by_budget_def Let_def
  by (intro adds_blind.le_compose adds.le_basic adds.le_settle adds_persist)
    (simp add: cleared_call_def assms)

lemma adds_missing: "adds_only (cleared_call c s') s (snd (block_missing_handler c d s))"
  unfolding block_missing_handler_def Let_def
  by (intro adds_blind.le_compose adds.le_basic adds.le_settle adds_persist)
    (simp add: cleared_call_def tool_execution_result_def)

lemma adds_handled:
  assumes "snd (fst (evaluate_execution_budget (call_tool c) (call_request c) s')) = None"
  shows "adds_only (cleared_call c s') s (snd (run_handler c d spec s))"
  unfolding run_handler_def Let_def
  by (intro adds_blind.le_compose adds.le_basic adds.le_settle adds_persist)
    (simp add: cleared_call_def assms)

lemma adds_dispatched: "adds_only (cleared_call c s) s (snd (dispatch_call c s))"
proof (cases "ap_status (ec_approval c) = ApprApproved \<and> existing_execution c s = None")
  case False
  then show ?thesis
    by (auto simp: dispatch_call_def adds.le_refuse adds.le_replay split: option.split)
next
  case True
  obtain d b where eval: "evaluate_execution_budget (call_tool c) (call_request c) s = ((d, b), after_reading s)"
    using evaluate_budget_store by (metis prod.collapse)
  have "adds_only (cleared_call c s) (after_reading s) (snd (dispatch_call c s))"
  proof (cases b)
    case None
    with True eval adds_missing adds_handled [of c s] show ?thesis
      by (auto simp: dispatch_call_def split: option.split)
  next
    case (Some result)
    with True eval adds_blocked [OF budget_result_blocked [OF eval [unfolded Some]]] show ?thesis
      by (simp add: dispatch_call_def)
  qed
  with adds.le_reading show ?thesis by (rule adds_trans)
qed

text \<open>The opening of a call does not touch what the budget is computed from.\<close>

lemma opening_budget:
  assumes "opening_le s t"
  shows "evaluate_execution_budget tool req t = (fst (evaluate_execution_budget tool req s), after_reading t)"
proof -
  obtain d ts rows where t: "t = s\<lparr>draws := d, traces := ts, approvals := rows\<rparr>"
    using assms by (auto simp: opening_le_def)
  have profile: "thread_profile_id_optional i t = thread_profile_id_optional i s" for i
    by (simp add: t thread_profile_id_optional_def get_thread_optional_def get_agent_profile_optional_def
        split: option.split)
  have ctx: "resolve_request_context req t = resolve_request_context req s"
    unfolding resolve_request_context_def profile ..
  have rows: "list_execution_budgets t = list_execution_budgets s"
    "list_tool_executions t = list_tool_executions s" "now_reading t = now_reading s"
    by (simp_all add: t list_execution_budgets_def list_tool_executions_def now_reading_def)
  have matched: "matched_budget_for tool req t = matched_budget_for tool req s"
    unfolding matched_budget_for_def ctx matching_budget_rows_def rows ..
  have counted: "counted_completed_execution_rows b now scope t = counted_completed_execution_rows b now scope s"
    for b now scope
    unfolding counted_completed_execution_rows_def row_profile_def profile rows ..
  note parts = ctx matched counted rows
  show ?thesis
    by (simp only: evaluate_execution_budget_def parts Let_def) (simp split: option.split)
qed

lemma budget_cleared:
  assumes "snd (fst (evaluate_execution_budget tool req s)) = None"
  shows "\<not> cx_invalid (resolve_request_context req s)"
    and "matched_budget_for tool req s = Some b \<Longrightarrow>
      int (length (counted_completed_execution_rows b (now_reading s)
        (count_profile_scope_id b (cx_active_thread_profile_id (resolve_request_context req s))) s)) + 1
      \<le> bu_max_completed_executions b"
  using assms by (auto simp: evaluate_execution_budget_def Let_def split: if_splits)

text \<open>
  C12:
  A completed execution stays within its budget: when a call completes a new execution, the thread
  of its request has a visible profile, and if a budget matched, the completed executions the budget
  counted before the call (in its window and for its profile) and the new one do not exceed its
  maximum.
\<close>
theorem completed_within_budget:
  assumes "execute_approved_proxy_request req s = (result, t)"
    and "x \<in> set (tool_executions t)" "x \<notin> set (tool_executions s)" "ex_status x = ExecCompleted"
  shows "\<not> cx_invalid (resolve_request_context (ex_request x) s) \<and>
    (\<forall>b. matched_budget_for (ex_tool x) (ex_request x) s = Some b \<longrightarrow>
      int (length (counted_completed_execution_rows b (now_reading s)
        (count_profile_scope_id b
          (cx_active_thread_profile_id (resolve_request_context (ex_request x) s))) s)) + 1
      \<le> bu_max_completed_executions b)"
proof (cases rule: execute_cases [of req s])
  case (early e u)
  with assms show ?thesis using opening_quiet [OF early(2)] by (simp add: quiet_le_def)
next
  case (dispatch approval c s')
  from dispatch(4) assms(1) have t: "snd (dispatch_call c s') = t" by (metis snd_conv)
  have "tool_executions s' = tool_executions s"
    using opening_quiet [OF dispatch(3)] by (simp add: quiet_le_def)
  with adds_dispatched [of c s'] t assms(2,3) have "cleared_call c s' x"
    by (auto simp: adds_only_def)
  with assms(4) have "ex_request x = call_request c" "ex_tool x = call_tool c"
    "snd (fst (evaluate_execution_budget (ex_tool x) (ex_request x) s')) = None"
    by (simp_all add: cleared_call_def)
  then have "snd (fst (evaluate_execution_budget (ex_tool x) (ex_request x) s)) = None"
    by (simp add: opening_budget [OF dispatch(3)])
  with budget_cleared [OF this] show ?thesis by blast
qed

subsection \<open>Superseding a budget\<close>

definition budgets_kept :: "store \<Rightarrow> store \<Rightarrow> bool" where
  "budgets_kept s t \<longleftrightarrow> execution_budgets t = execution_budgets s"

interpretation kept: store_order budgets_kept
  by unfold_locales (simp_all add: budgets_kept_def)

lemma kept_trace:
  "budgets_kept s (snd (create_trace u th k v st l s))"
  "budgets_kept s (snd (x, append_trace_events i es s))"
  by (simp_all add: budgets_kept_def frame_simps)

lemma kept_lifecycle_trace:
  "budgets_kept s (snd (record_lifecycle_trace thread request state summary action outcome s))"
  unfolding record_lifecycle_trace_def Let_def by (intro kept.le_compose kept_trace)

lemma kept_response:
  "execution_budgets (snd (and_then
     (record_lifecycle_trace thread request state summary action outcome s) (\<lambda>trace s. (f trace, s)))) =
   execution_budgets s"
  using kept.le_and_then [OF kept_lifecycle_trace kept.le_same] by (simp add: budgets_kept_def)

lemma kept_rejection:
  "budgets_kept s (snd (reject_lifecycle_action e thread request b action prev cap window active s))"
  unfolding reject_lifecycle_action_def record_rejected_lifecycle_action_def
  by (intro kept.le_compose kept.le_plain kept_lifecycle_trace)

lemma rejection_raises:
  "\<exists>f. fst (reject_lifecycle_action e thread request b action prev cap window active s) = Inl f"
  by (auto simp: reject_lifecycle_action_def and_then_def split: sum.split)

text \<open>
  The budget \<open>old\<close> is superseded by \<open>new\<close>, which takes over its selectors and window, and nothing
  else changes.
\<close>

definition budget_swapped :: "budget_supersede_input \<Rightarrow> budget_row \<Rightarrow> budget_row \<Rightarrow> store \<Rightarrow> store \<Rightarrow> bool" where
  "budget_swapped q old new s t \<longleftrightarrow>
     get_execution_budget_optional (bsi_execution_budget_id q) s = Some old \<and> bu_status old = BudgetActive \<and>
     bu_status new = BudgetActive \<and> scope_of_budget new = scope_of_budget old \<and>
     bu_rolling_window_seconds new = bu_rolling_window_seconds old \<and>
     bu_max_completed_executions new = bsi_max_completed_executions q \<and>
     bu_supersedes_budget_id new = Some (bu_id old) \<and>
     execution_budgets t = set_row bu_id (old\<lparr>bu_status := BudgetSuperseded,
         bu_deactivated_at := Some (txn_now (environment s)),
         bu_superseded_by_budget_id := Some (bu_id new)\<rparr>) (execution_budgets s) @ [new] \<and>
     budgets_ok (execution_budgets t)"

lemma swap_Inr:
  assumes "swap_budgets current q i s = (Inr (a, b), t)"
    and "get_execution_budget_optional (bsi_execution_budget_id q) s = Some current"
    and "bu_status current = BudgetActive"
  shows "budget_swapped q current b s t"
  using assms
  by (auto simp: swap_budgets_def supersede_execution_budget_optional_def get_execution_budget_optional_def
      create_execution_budget_def write_budgets_def write_table_def Let_def succeeds new_budget_def
      budget_swapped_def scope_of_budget_def split: if_splits)

lemma savepoint_Inl:
  "in_savepoint m s = (Inl e, t) \<Longrightarrow> execution_budgets t = execution_budgets s"
  by (auto simp: in_savepoint_def split: prod.splits sum.splits)

lemma swapped_only_active:
  assumes "budget_swapped q old new s t"
    and "map bu_id (active_budget_rows_for_scope (bu_agent_profile_id old) (bu_tool_key old)
          (bu_domain_hint old) s) = [bu_id old]"
    and "b \<in> set (execution_budgets t)" "bu_status b = BudgetActive" "scope_of_budget b = scope_of_budget old"
  shows "b = new"
proof (rule ccontr)
  assume "b \<noteq> new"
  with assms(1,3,4) have b: "b \<in> set (execution_budgets s)" "bu_id b \<noteq> bu_id old"
    by (auto simp: budget_swapped_def dest!: set_set_row)
  with assms(4,5) have "b \<in> set (active_budget_rows_for_scope (bu_agent_profile_id old) (bu_tool_key old)
      (bu_domain_hint old) s)"
    by (simp add: active_budget_rows_for_scope_def list_execution_budgets_def scope_of_budget_def)
  then have "bu_id b \<in> set [bu_id old]" unfolding assms(2) [symmetric] by simp
  with b(2) show False by simp
qed

lemma savepoint_swap:
  assumes "in_savepoint (swap_budgets old q i) (after_draw s) = (Inr (a, b), t)"
    and "get_execution_budget_optional (bsi_execution_budget_id q) s = Some old" "bu_status old = BudgetActive"
  shows "budget_swapped q old b s t"
proof -
  have "swap_budgets old q i (after_draw s) = (Inr (a, b), t)"
    using assms(1) by (auto simp: in_savepoint_def split: prod.splits sum.splits)
  from swap_Inr [OF this] assms(2,3) show ?thesis
    by (auto simp: budget_swapped_def get_execution_budget_optional_def after_draw_def)
qed

lemma swapped_frame:
  "execution_budgets t = execution_budgets u \<Longrightarrow> budget_swapped q old b s t = budget_swapped q old b s u"
  by (simp add: budget_swapped_def)

text \<open>
  C31:
  Superseding a budget is atomic: the call either leaves the budgets as they were and raises, or
  swaps the active budget it names for a new active one with the same selectors and window and the
  requested maximum, linked both ways, and the new budget is then the only active one of its
  selectors.
\<close>
theorem supersede_is_atomic:
  assumes "supersede_execution_budget_record q s = (result, t)"
  shows "(execution_budgets t = execution_budgets s \<and> (\<exists>e. result = Inl e)) \<or>
    (\<exists>old new. budget_swapped q old new s t \<and>
      (\<forall>b \<in> set (execution_budgets t). bu_status b = BudgetActive \<and> scope_of_budget b = scope_of_budget old \<longrightarrow>
        b = new))"
proof -
  let ?b = "bsi_execution_budget_id q"
  have rejected: "execution_budgets t = execution_budgets s \<and> (\<exists>e. result = Inl e)"
    if "reject_lifecycle_action e th rq b act p c w a u = (result, t)" "execution_budgets u = execution_budgets s"
    for e th rq b act p c w a u
    by (metis that kept_rejection rejection_raises budgets_kept_def fst_conv snd_conv)
  show ?thesis
  proof (cases "get_thread_optional (bsi_thread_id q) s = None \<or> get_execution_budget_optional ?b s = None")
    case True
    with assms show ?thesis
      by (auto simp: supersede_execution_budget_record_def validate_lifecycle_thread_def
          get_execution_budget_or_raise_def require_row_def split: option.splits)
  next
    case False
    then obtain thread old where found: "get_thread_optional (bsi_thread_id q) s = Some thread"
      "get_execution_budget_optional ?b s = Some old" by auto
    let ?scope = "active_budget_rows_for_scope (bu_agent_profile_id old) (bu_tool_key old) (bu_domain_hint old) s"
    obtain r u where swap: "in_savepoint (swap_budgets old q (next_id s)) (after_draw s) = (r, u)" by fastforce
    note m = assms [unfolded supersede_execution_budget_record_def validate_lifecycle_thread_def
        get_execution_budget_or_raise_def found require_row_simps and_then_Inr Let_def swap]
    show ?thesis
    proof (cases "bu_status old = BudgetActive \<and> map bu_id ?scope = [bu_id old]")
      case False
      with m rejected show ?thesis by (auto split: if_splits)
    next
      case one: True
      show ?thesis
      proof (cases r)
        case (Inl e)
        then have u: "execution_budgets u = execution_budgets s"
          using savepoint_Inl swap by (fastforce simp: after_draw_def)
        from m one Inl u rejected show ?thesis
          by (auto simp: require_row_def split: option.splits)
      next
        case (Inr ab)
        obtain a new where ab: "ab = (a, new)" by (cases ab)
        from swap one have "budget_swapped q old new s u"
          unfolding Inr ab by (intro savepoint_swap [OF _ found(2)]) simp_all
        moreover have "execution_budgets (snd (result, t)) = execution_budgets u"
          unfolding m [symmetric] using one by (simp add: Inr ab kept_response)
        ultimately have swapped: "budget_swapped q old new s t" using swapped_frame [of t u] by simp
        from swapped_only_active [OF swapped conjunct2 [OF one]] swapped show ?thesis
          by (intro disjI2 exI [of _ old] exI [of _ new]) simp
      qed
    qed
  qed
qed

subsection \<open>Resolving an approval\<close>

text \<open>What each step of a successful resolution wrote.\<close>

lemma settle_Inr:
  assumes "settle_approval r action status s = (Inr (current, OutcomeResolved), t)"
    and "get_approval_optional (ap_id r) s = Some r"
  shows "ap_status r = ApprPending" "current = resolved_approval status s r"
    "t = s\<lparr>approvals := set_row ap_id current (approvals s), reads := Suc (reads s)\<rparr>"
  using assms
  by (auto simp: settle_approval_def succeeds resolution_outcome_of_def resolve_approval_optional_def
      get_approval_optional_def write_approvals_def write_table_def Let_def after_reading_def
      split: if_splits option.splits)

lemma sync_task_Inr:
  assumes "sync_task_with_approval a status s = (Inr x, t)"
  obtains task where "get_task_by_approval_optional a s = Some task"
    "tk_id (fst x) = tk_id task"
    "tk_status (fst x) = next_task_status_for_approval (tk_status task) status"
    "t = s\<lparr>tasks := set_row tk_id (fst x) (tasks s), reads := Suc (reads s)\<rparr>"
proof -
  from assms obtain task where task: "get_task_by_approval_optional a s = Some task"
    and up: "update_task_status_by_approval_optional a (next_task_status_for_approval (tk_status task) status) s
      = (Inr (Some (fst x)), t)"
    by (auto simp: sync_task_with_approval_def succeeds)
  from up task have row: "fst x = task\<lparr>tk_status := next_task_status_for_approval (tk_status task) status,
      tk_updated_at := now_reading s\<rparr>"
    and t: "t = s\<lparr>tasks := set_row tk_id (fst x) (tasks s), reads := Suc (reads s)\<rparr>"
    by (auto simp: update_task_status_by_approval_optional_def write_tasks_def write_table_def Let_def
        after_reading_def split: if_splits)
  show thesis by (rule that [OF task _ _ t]) (simp_all add: row)
qed

lemma sync_step_Inr:
  assumes "sync_task_step_with_approval a step_id status trace tkind s = (Inr x, t)"
  obtains i step where "step_id = Some i" "get_task_step_optional i s = Some step"
    "ts_id (fst x) = i" "ts_status (fst x) = next_task_step_status_for_approval (ts_status step) status"
    "oc_approval_status (ts_outcome (fst x)) = Some status"
    "t = s\<lparr>task_steps := set_row ts_id (fst x) (task_steps s), reads := Suc (reads s)\<rparr>"
proof -
  from assms obtain task step updated s' where
    linked: "validate_linked_task_step_for_approval a step_id s = (Inr (task, step), s')"
    and up: "update_task_step_optional (ts_id step)
        (next_task_step_status_for_approval (ts_status step) status)
        (task_step_outcome_snapshot (oc_routing_decision (ts_outcome step)) (Some (uuid_str a))
           (Some status) (oc_execution_id (ts_outcome step)) (oc_execution_status (ts_outcome step))
           (oc_blocked_reason (ts_outcome step))) trace tkind s' = (Inr (Some updated), t)"
    and x: "fst x = updated"
    by (auto simp: sync_task_step_with_approval_def succeeds Let_def split: prod.splits)
  from linked obtain i where i: "step_id = Some i" "get_task_step_optional i s = Some step" "s' = s"
    by (auto simp: validate_linked_task_step_for_approval_def succeeds)
  then have "ts_id step = i" by (auto simp: get_task_step_optional_def dest: find_row_Some)
  with up have row: "updated = updated_step (next_task_step_status_for_approval (ts_status step) status)
        (task_step_outcome_snapshot (oc_routing_decision (ts_outcome step)) (Some (uuid_str a))
           (Some status) (oc_execution_id (ts_outcome step)) (oc_execution_status (ts_outcome step))
           (oc_blocked_reason (ts_outcome step))) trace tkind s step"
    and t: "t = s\<lparr>task_steps := set_row ts_id updated (task_steps s), reads := Suc (reads s)\<rparr>"
    using i(2,3)
    by (auto simp: update_task_step_optional_def get_task_step_optional_def write_steps_def
        write_table_def Let_def after_reading_def split: if_splits)
  show thesis
    by (rule that [OF i(1,2)])
      (simp_all add: x t, simp_all add: row updated_step_def task_step_outcome_snapshot_def \<open>ts_id step = i\<close>)
qed

lemma update_run_Inr_store:
  assumes "update_task_run_optional i v s = (Inr y, t)" "find_row tr_id i (task_runs s) = Some run"
  shows "t = s\<lparr>task_runs := set_row tr_id (updated_run v s run) (task_runs s), reads := Suc (reads s)\<rparr>"
  using assms
  by (auto simp: update_task_run_optional_def write_runs_def write_table_def put_runs_def Let_def
      after_reading_def split: if_splits)

lemma resume_Inr':
  assumes "resume_task_run_after_resolution r s = (Inr x, t)"
  shows "(\<exists>runs n. t = s\<lparr>task_runs := runs, reads := n\<rparr>) \<and>
    (\<forall>i run. ap_task_run_id r = Some i \<longrightarrow> get_task_run_optional i s = Some run \<longrightarrow>
       tr_status run = RunWaitingApproval \<longrightarrow>
       (\<exists>run'. get_task_run_optional i t = Some run' \<and> same_run run run' \<and>
          tr_status run' = (if ap_status r = ApprApproved then RunQueued else RunFailed)))"
proof (cases "\<exists>i run. ap_task_run_id r = Some i \<and> get_task_run_optional i s = Some run \<and>
    tr_status run = RunWaitingApproval")
  case False
  with assms have "t = s"
    by (auto simp: resume_task_run_after_resolution_def split: option.splits)
  then have "t = s\<lparr>task_runs := task_runs s, reads := reads s\<rparr>" by simp
  with False show ?thesis by blast
next
  case True
  then obtain i run where i: "ap_task_run_id r = Some i" "get_task_run_optional i s = Some run"
    "tr_status run = RunWaitingApproval" by blast
  have found: "find_row tr_id i (task_runs s) = Some run" using i(2) by (simp add: get_task_run_optional_def)
  from assms i obtain cp cp' y where
    "update_task_run_optional i ((resolution_values r run cp)\<lparr>rv_checkpoint := cp'\<rparr>) (after_reading s) = (Inr y, t)"
    by (auto simp: resume_task_run_after_resolution_def Let_def succeeds)
  from update_run_Inr_store [OF this] found obtain u where
    u: "u = updated_run ((resolution_values r run cp)\<lparr>rv_checkpoint := cp'\<rparr>) (after_reading s) run"
    and t: "t = s\<lparr>task_runs := set_row tr_id u (task_runs s), reads := Suc (Suc (reads s))\<rparr>"
    by (auto simp: after_reading_def)
  have "tr_id u = i" "same_run run u" using u find_row_id [OF found]
    by (simp_all add: resolution_values_def Let_def)
  moreover have "tr_status u = (if ap_status r = ApprApproved then RunQueued else RunFailed)"
    by (simp add: u updated_run_def resolution_values_def Let_def)
  ultimately have "get_task_run_optional i t = Some u"
    using found by (simp add: t get_task_run_optional_def find_row_set_row)
  with i t \<open>same_run run u\<close> \<open>tr_status u = _\<close> show ?thesis by auto
qed

lemma resolve_Inr:
  assumes "resolve_approval a action status s = (Inr resp, t)"
  obtains r current s1 d ts task s3 step s4 run s5 tid es where
    "get_approval_optional a s = Some r"
    "settle_approval r action status s = (Inr (current, OutcomeResolved), s1)"
    "sync_task_with_approval (ap_id current) (ap_status current) (s1\<lparr>draws := d, traces := ts\<rparr>) = (Inr task, s3)"
    "sync_task_step_with_approval (ap_id current) (ap_task_step_id current) (ap_status current)
       tid ''approval.resolve'' s3 = (Inr step, s4)"
    "resume_task_run_after_resolution current s4 = (Inr run, s5)"
    "t = append_trace_events tid es s5"
proof -
  from assms obtain r where r: "get_approval_optional a s = Some r"
    by (auto simp: resolve_approval_def succeeds)
  have "snd (validate_linked_task_step_for_approval a (ap_task_step_id r) s) = s" by simp
  then obtain p where p: "validate_linked_task_step_for_approval a (ap_task_step_id r) s = (p, s)"
    by (metis prod.collapse)
  then obtain linked where "validate_linked_task_step_for_approval a (ap_task_step_id r) s = (Inr linked, s)"
    using assms by (cases p) (auto simp: resolve_approval_def r)
  note m = assms [unfolded resolve_approval_def r require_row_simps and_then_Inr this]
  then show thesis
    by (auto simp: and_then_eq_Inr Let_def split: prod.splits if_splits dest!: create_trace_Inr intro: that [OF r])
qed

text \<open>The store after a successful resolution, statement by statement.\<close>

lemma resolution_writes:
  assumes "resolve_approval a action status s = (Inr resp, t)"
  obtains r current old_task task i old_step step runs s1 s3 s4 s5 d ts n es where
    "get_approval_optional a s = Some r" "ap_status r = ApprPending"
    "current = resolved_approval status s r" "ap_id current = a"
    "s1 = s\<lparr>approvals := set_row ap_id current (approvals s), reads := Suc (reads s)\<rparr>"
    "get_task_by_approval_optional a s = Some old_task" "tk_id task = tk_id old_task"
    "tk_status task = next_task_status_for_approval (tk_status old_task) status"
    "s3 = s1\<lparr>draws := d, traces := ts, tasks := set_row tk_id task (tasks s1), reads := Suc (reads s1)\<rparr>"
    "ap_task_step_id r = Some i" "get_task_step_optional i s = Some old_step" "ts_id step = i"
    "ts_status step = next_task_step_status_for_approval (ts_status old_step) status"
    "oc_approval_status (ts_outcome step) = Some status"
    "s4 = s3\<lparr>task_steps := set_row ts_id step (task_steps s3), reads := Suc (reads s3)\<rparr>"
    "s5 = s4\<lparr>task_runs := runs, reads := n\<rparr>" "t = s5\<lparr>trace_events := es\<rparr>"
    "\<forall>j run. ap_task_run_id r = Some j \<longrightarrow> get_task_run_optional j s4 = Some run \<longrightarrow>
       tr_status run = RunWaitingApproval \<longrightarrow>
       (\<exists>run'. get_task_run_optional j s5 = Some run' \<and> same_run run run' \<and>
          tr_status run' = (if status = ApprApproved then RunQueued else RunFailed))"
proof -
  obtain r current s1 d ts task' s3 step' s4 run s5 tid es where
    r: "get_approval_optional a s = Some r"
    and settle: "settle_approval r action status s = (Inr (current, OutcomeResolved), s1)"
    and task: "sync_task_with_approval (ap_id current) (ap_status current) (s1\<lparr>draws := d, traces := ts\<rparr>) =
      (Inr task', s3)"
    and step: "sync_task_step_with_approval (ap_id current) (ap_task_step_id current) (ap_status current)
       tid ''approval.resolve'' s3 = (Inr step', s4)"
    and run: "resume_task_run_after_resolution current s4 = (Inr run, s5)"
    and t: "t = append_trace_events tid es s5"
    by (rule resolve_Inr [OF assms])
  have id: "ap_id r = a" using r by (auto simp: get_approval_optional_def dest: find_row_Some)
  from settle_Inr [OF settle] r id have pending: "ap_status r = ApprPending"
    and current: "current = resolved_approval status s r" "ap_id current = a" "ap_status current = status"
      "ap_task_step_id current = ap_task_step_id r" "ap_task_run_id current = ap_task_run_id r"
    and s1: "s1 = s\<lparr>approvals := set_row ap_id current (approvals s), reads := Suc (reads s)\<rparr>"
    by (auto simp: resolved_approval_def)
  let ?s2 = "s1\<lparr>draws := d, traces := ts\<rparr>"
  obtain old_task where
    old_task: "get_task_by_approval_optional a ?s2 = Some old_task"
    and new_task: "tk_id (fst task') = tk_id old_task"
      "tk_status (fst task') = next_task_status_for_approval (tk_status old_task) status"
    and s3: "s3 = ?s2\<lparr>tasks := set_row tk_id (fst task') (tasks ?s2), reads := Suc (reads ?s2)\<rparr>"
    by (rule sync_task_Inr [OF task, unfolded current(2,3)])
  obtain i old_step where
    old_step: "ap_task_step_id r = Some i" "get_task_step_optional i s3 = Some old_step" "ts_id (fst step') = i"
    and new_step: "ts_status (fst step') = next_task_step_status_for_approval (ts_status old_step) status"
      "oc_approval_status (ts_outcome (fst step')) = Some status"
    and s4: "s4 = s3\<lparr>task_steps := set_row ts_id (fst step') (task_steps s3), reads := Suc (reads s3)\<rparr>"
    by (rule sync_step_Inr [OF step, unfolded current(3,4)])
  from resume_Inr' [OF run] obtain runs n where s5: "s5 = s4\<lparr>task_runs := runs, reads := n\<rparr>"
    and resumed: "\<forall>j run. ap_task_run_id r = Some j \<longrightarrow> get_task_run_optional j s4 = Some run \<longrightarrow>
       tr_status run = RunWaitingApproval \<longrightarrow>
       (\<exists>run'. get_task_run_optional j s5 = Some run' \<and> same_run run run' \<and>
          tr_status run' = (if status = ApprApproved then RunQueued else RunFailed))"
    unfolding current(3,5) by blast
  obtain es' where t': "t = s5\<lparr>trace_events := es'\<rparr>" using trace_events_only t by blast
  show thesis
    by (rule that [OF r pending current(1,2) s1 _ new_task s3 [simplified] old_step(1) _ old_step(3) new_step s4
          s5 t' resumed])
      (use old_task old_step(2) in \<open>simp_all add: s3 s1 get_task_by_approval_optional_def
        get_task_step_optional_def\<close>)
qed

text \<open>
  C32:
  A resolution that succeeds carries everything along that hangs on the approval: the approval was
  pending and is settled with the resolver and the time; the task it belongs to and the step that
  asked for it take the status of the resolution, unless they are already executed or blocked; and
  a run that waits for the approval is queued again when it is approved and fails when it is
  rejected.
\<close>
theorem resolution_carries_over:
  assumes "resolve_approval a action status s = (Inr resp, t)"
  shows "\<exists>r task i step. get_approval_optional a s = Some r \<and> ap_status r = ApprPending \<and>
    get_approval_optional a t = Some (resolved_approval status s r) \<and>
    get_task_by_approval_optional a s = Some task \<and>
    (\<exists>task'. get_task_optional (tk_id task) t = Some task' \<and>
       tk_status task' = next_task_status_for_approval (tk_status task) status) \<and>
    ap_task_step_id r = Some i \<and> get_task_step_optional i s = Some step \<and>
    (\<exists>step'. get_task_step_optional i t = Some step' \<and>
       ts_status step' = next_task_step_status_for_approval (ts_status step) status \<and>
       oc_approval_status (ts_outcome step') = Some status) \<and>
    (\<forall>j run. ap_task_run_id r = Some j \<longrightarrow> get_task_run_optional j s = Some run \<longrightarrow>
       tr_status run = RunWaitingApproval \<longrightarrow>
       (\<exists>run'. get_task_run_optional j t = Some run' \<and> same_run run run' \<and>
          tr_status run' = (if status = ApprApproved then RunQueued else RunFailed)))"
proof -
  obtain r current old_task task i old_step step runs s1 s3 s4 s5 d ts n es where
    r: "get_approval_optional a s = Some r" "ap_status r = ApprPending"
    and current: "current = resolved_approval status s r" "ap_id current = a"
    and s1: "s1 = s\<lparr>approvals := set_row ap_id current (approvals s), reads := Suc (reads s)\<rparr>"
    and task: "get_task_by_approval_optional a s = Some old_task" "tk_id task = tk_id old_task"
      "tk_status task = next_task_status_for_approval (tk_status old_task) status"
    and s3: "s3 = s1\<lparr>draws := d, traces := ts, tasks := set_row tk_id task (tasks s1), reads := Suc (reads s1)\<rparr>"
    and step: "ap_task_step_id r = Some i" "get_task_step_optional i s = Some old_step" "ts_id step = i"
      "ts_status step = next_task_step_status_for_approval (ts_status old_step) status"
      "oc_approval_status (ts_outcome step) = Some status"
    and s4: "s4 = s3\<lparr>task_steps := set_row ts_id step (task_steps s3), reads := Suc (reads s3)\<rparr>"
    and s5: "s5 = s4\<lparr>task_runs := runs, reads := n\<rparr>" and t: "t = s5\<lparr>trace_events := es\<rparr>"
    and resumed: "\<forall>j run. ap_task_run_id r = Some j \<longrightarrow> get_task_run_optional j s4 = Some run \<longrightarrow>
       tr_status run = RunWaitingApproval \<longrightarrow>
       (\<exists>run'. get_task_run_optional j s5 = Some run' \<and> same_run run run' \<and>
          tr_status run' = (if status = ApprApproved then RunQueued else RunFailed))"
    by (rule resolution_writes [OF assms])
  note states = t s5 s4 s3 s1
  have "find_row tk_id (tk_id old_task) (tasks s) \<noteq> None"
    using task(1) by (auto simp: get_task_by_approval_optional_def find_Some_iff find_row_None)
  then have "get_task_optional (tk_id old_task) t = Some task"
    by (auto simp: states get_task_optional_def find_row_set_row task(2))
  moreover have "get_task_step_optional i t = Some step"
    using step(2,3) by (simp add: states get_task_step_optional_def find_row_set_row)
  moreover have "get_approval_optional a t = Some (resolved_approval status s r)"
    using r current by (simp add: states get_approval_optional_def find_row_set_row)
  moreover have "get_task_run_optional j s4 = get_task_run_optional j s"
    "get_task_run_optional j s5 = get_task_run_optional j t" for j
    by (simp_all add: states get_task_run_optional_def)
  ultimately show ?thesis using r task step resumed by simp
qed

subsection \<open>Transitions of a step\<close>

lemma step_by_sequence:
  assumes "steps_ok rows" "r \<in> set rows"
  shows "find (\<lambda>x. ts_task_id x = ts_task_id r \<and> ts_sequence_no x = ts_sequence_no r) rows = Some r"
proof -
  let ?P = "\<lambda>x. ts_task_id x = ts_task_id r \<and> ts_sequence_no x = ts_sequence_no r"
  from assms(2) have "find ?P rows \<noteq> None" by (auto simp: find_None_iff)
  then obtain y where y: "find ?P rows = Some y" by blast
  then have "y \<in> set rows" "?P y" by (auto simp: find_Some_iff)
  moreover have "distinct (map (\<lambda>r. (ts_task_id r, ts_sequence_no r)) rows)"
    using assms(1) by (simp add: steps_ok_def)
  ultimately have "y = r" using assms(2) distinct_map_same [of "\<lambda>r. (ts_task_id r, ts_sequence_no r)"] by simp
  with y show ?thesis by simp
qed

lemma transition_Inr:
  assumes "transition_task_step_record req s = (Inr resp, t)"
  obtains step links s1 d ts updated s2 task s3 tid es where
    "get_task_step_optional (ti_task_step_id req) s = Some step"
    "list_task_steps_for_task (ts_task_id step) s \<noteq> []"
    "uuid_str (ts_id (last (list_task_steps_for_task (ts_task_id step) s))) = uuid_str (ts_id step)"
    "ti_status req \<in> set (allowed_task_step_transitions (ts_status step))"
    "update_task_step_for_task_sequence_optional (ts_task_id step) (ts_sequence_no step) (ti_status req)
       (ti_outcome req) tid ''task.step.transition'' (s\<lparr>draws := d, traces := ts\<rparr>) = (Inr (Some updated), s2)"
    "sync_task_with_task_step_status (ts_task_id step) (ti_status req) (fst links) (snd links) s2 = (Inr task, s3)"
    "t = append_trace_events tid es s3"
proof -
  from assms obtain step where step: "get_task_step_optional (ti_task_step_id req) s = Some step"
    by (auto simp: transition_task_step_record_def succeeds)
  from assms obtain task where task: "get_task_optional (ts_task_id step) s = Some task"
    by (auto simp: transition_task_step_record_def succeeds step)
  note m = assms [unfolded transition_task_step_record_def step task require_row_simps and_then_Inr Let_def]
  from m have allowed: "transition_allowed req step (list_task_steps_for_task (ts_task_id step) s) s = (Inr (), s)"
    by (auto simp: and_then_eq_Inr transition_allowed_def succeeds)
  obtain p where p: "transition_links req task s = (p, s)"
    using guards_only_read(4) [of req task s] by (metis prod.collapse)
  with m allowed obtain links where links: "transition_links req task s = (Inr links, s)"
    by (cases p) auto
  obtain a x where "links = (a, x)" by (cases links)
  with m allowed links show thesis
    by (auto simp: succeeds transition_allowed_def intro!: that [OF step, of _ _ _ _ _ "(a, x)"]
        dest!: create_trace_Inr split: prod.splits)
qed

lemma task_sync_Inr:
  assumes "sync_task_with_task_step_status i status a x s = (Inr y, t)"
  shows "\<exists>task rows. get_task_optional i t = Some task \<and> tk_status task = task_status_for_step_status status \<and>
    t = s\<lparr>tasks := rows, reads := Suc (reads s)\<rparr>"
proof -
  from assms obtain l task where up: "update_task_status_optional i (task_status_for_step_status status) a l s
      = (Inr (Some task), t)"
    by (auto simp: sync_task_with_task_step_status_def succeeds Let_def)
  then obtain old where old: "find_row tk_id i (tasks s) = Some old"
    and task: "task = old\<lparr>tk_status := task_status_for_step_status status, tk_latest_approval_id := a,
       tk_latest_execution_id := l, tk_updated_at := now_reading s\<rparr>"
    and t: "t = s\<lparr>tasks := set_row tk_id task (tasks s), reads := Suc (reads s)\<rparr>"
    by (auto simp: update_task_status_optional_def write_tasks_def write_table_def Let_def after_reading_def
        split: option.splits if_splits)
  from old have "tk_id task = i" by (auto simp: task dest: find_row_Some)
  with old have "get_task_optional i t = Some task" by (simp add: t get_task_optional_def find_row_set_row)
  moreover have "tk_status task = task_status_for_step_status status" by (simp add: task)
  ultimately show ?thesis using t by blast
qed

text \<open>
  A manual transition follows the status graph: it succeeds only on the latest step of a task and
  along an edge of the graph, gives that step the requested status and outcome, leaves every other
  step as it was, and the task takes the status that goes with the step's.
\<close>
theorem transition_follows_graph:
  assumes "transition_task_step_record req s = (Inr resp, t)" "steps_ok (task_steps s)"
  shows "\<exists>step step' task. get_task_step_optional (ti_task_step_id req) s = Some step \<and>
    ts_id (last (list_task_steps_for_task (ts_task_id step) s)) = ti_task_step_id req \<and>
    ti_status req \<in> set (allowed_task_step_transitions (ts_status step)) \<and>
    get_task_step_optional (ti_task_step_id req) t = Some step' \<and>
    ts_status step' = ti_status req \<and> ts_outcome step' = ti_outcome req \<and>
    (\<forall>j. j \<noteq> ti_task_step_id req \<longrightarrow> get_task_step_optional j t = get_task_step_optional j s) \<and>
    get_task_optional (ts_task_id step) t = Some task \<and>
    tk_status task = task_status_for_step_status (ti_status req)"
proof -
  obtain step links s1 d ts updated s2 task s3 tid es where
    step: "get_task_step_optional (ti_task_step_id req) s = Some step"
    and latest: "uuid_str (ts_id (last (list_task_steps_for_task (ts_task_id step) s))) = uuid_str (ts_id step)"
    and edge: "ti_status req \<in> set (allowed_task_step_transitions (ts_status step))"
    and up: "update_task_step_for_task_sequence_optional (ts_task_id step) (ts_sequence_no step) (ti_status req)
       (ti_outcome req) tid ''task.step.transition'' (s\<lparr>draws := d, traces := ts\<rparr>) = (Inr (Some updated), s2)"
    and sync: "sync_task_with_task_step_status (ts_task_id step) (ti_status req) (fst links) (snd links) s2
      = (Inr task, s3)"
    and t: "t = append_trace_events tid es s3"
    by (rule transition_Inr [OF assms(1)])
  from step have mem: "step \<in> set (task_steps s)" and id: "ts_id step = ti_task_step_id req"
    by (auto simp: get_task_step_optional_def dest: find_row_Some)
  from up step_by_sequence [OF assms(2) mem] obtain n where
    row: "updated = updated_step (ti_status req) (ti_outcome req) tid ''task.step.transition''
      (s\<lparr>draws := d, traces := ts\<rparr>) step"
    and s2: "task_steps s2 = set_row ts_id updated (task_steps s)"
    by (auto simp: update_task_step_for_task_sequence_optional_def write_steps_def write_table_def Let_def
        after_reading_def split: if_splits)
  from task_sync_Inr [OF sync] obtain task' rows where task':
    "get_task_optional (ts_task_id step) s3 = Some task'"
    "tk_status task' = task_status_for_step_status (ti_status req)" "task_steps s3 = task_steps s2"
    by auto
  have frame: "task_steps t = set_row ts_id updated (task_steps s)"
    "get_task_optional i t = get_task_optional i s3" for i
    by (simp_all add: t get_task_optional_def frame_simps task'(3) s2)
  have updated: "ts_id updated = ti_task_step_id req" "ts_status updated = ti_status req"
    "ts_outcome updated = ti_outcome req"
    by (simp_all add: row updated_step_def id)
  have "ts_id (last (list_task_steps_for_task (ts_task_id step) s)) = ti_task_step_id req"
    using latest id by simp
  then show ?thesis
    using step edge updated task'(1,2)
    by (intro exI [of _ step] exI [of _ updated] exI [of _ task'])
      (auto simp: frame find_row_set_row get_task_step_optional_def)
qed

end
