(* ===== verification/Governance_Requests.thy ===== *)
theory Governance_Requests
  imports Governance_Contracts
begin

text \<open>
  The way of a request through the layer: what a submission records for each routing decision, and
  the turns of the worker that take the runs to their end.
\<close>

subsection \<open>Submission\<close>

lemma submit_Inr:
  assumes "submit_approval_request q s = (Inr resp, t)"
  obtains rr s1 approval s2 task s3 d ts step s4 linked s5 tid es where
    "route_tool_invocation (routing_input_of q) s = (Inr rr, s1)"
    "persist_approval q rr s1 = (Inr approval, s2)"
    "create_task_for_governed_request (request_task_input q rr approval) s2 = (Inr task, s3)"
    "create_task_step_for_governed_request (request_step_input rr approval task tid)
       (s3\<lparr>draws := d, traces := ts\<rparr>) = (Inr step, s4)"
    "link_approval approval step s4 = (Inr linked, s5)"
    "t = append_trace_events tid es s5"
  using assms
  by (auto simp: submit_approval_request_def succeeds Let_def dest!: create_trace_Inr)

lemma persist_approval_Inr:
  assumes "persist_approval q rr s = (Inr approval, t)"
  shows "if rr_decision rr = RouteApprovalRequired
    then \<exists>r. approval = Some r \<and> approvals t = approvals s @ [r] \<and> approvals_ok (approvals t) \<and>
      ap_status r = ApprPending \<and> ap_request r = rr_request rr \<and> ap_tool r = rr_tool rr
    else approval = None \<and> t = s"
  using assms
  by (auto simp: persist_approval_def succeeds create_approval_def write_approvals_def write_table_def
      Let_def after_reading_def after_draw_def new_approval_def split: if_splits)

lemma persist_approval_frame:
  assumes "persist_approval q rr s = (r, t)"
  shows "tasks t = tasks s" "task_steps t = task_steps s" "task_runs t = task_runs s"
    "tool_executions t = tool_executions s"
  using assms
  by (auto simp: persist_approval_def create_approval_def write_approvals_def write_table_def Let_def
      after_reading_def after_draw_def and_then_def split: if_splits)

lemma task_created_Inr:
  assumes "create_task_for_governed_request q s = (Inr task, t)"
  shows "tasks t = tasks s @ [task]" "tk_status task = tkc_status q"
    "tk_latest_approval_id task = tkc_latest_approval_id q"
    "tk_latest_execution_id task = tkc_latest_execution_id q"
  using assms
  by (auto simp: create_task_for_governed_request_def create_task_def write_tasks_def write_table_def
      Let_def after_reading_def after_draw_def new_task_def split: if_splits)

lemma step_created_Inr:
  assumes "create_task_step_for_governed_request q s = (Inr step, t)"
  shows "task_steps t = task_steps s @ [step]" "ts_task_id step = sc_task_id q" "ts_status step = sc_status q"
    "ts_sequence_no step = sc_sequence_no q"
  using assms
  by (auto simp: create_task_step_for_governed_request_def create_task_step_def write_steps_def
      write_table_def Let_def after_reading_def after_draw_def new_step_def split: if_splits)

lemma set_last_row:
  assumes "distinct (map key (xs @ [r]))" "key r' = key r"
  shows "set_row key r' (xs @ [r]) = xs @ [r']"
proof -
  have "\<forall>x \<in> set xs. key x \<noteq> key r'" using assms by (force simp: image_iff)
  then have "map (\<lambda>x. if key x = key r' then r' else x) xs = xs" by (intro map_idI) simp
  with assms(2) show ?thesis by (simp add: set_row_def)
qed

lemma link_approval_Inr:
  assumes "link_approval approval step s = (Inr linked, t)"
  shows "case approval of
      None \<Rightarrow> t = s
    | Some r \<Rightarrow> approvals s = rows @ [r] \<longrightarrow> approvals_ok (approvals s) \<longrightarrow>
        t = s\<lparr>approvals := rows @ [r\<lparr>ap_task_step_id := Some (ts_id step)\<rparr>]\<rparr>"
proof (cases approval)
  case (Some r)
  have "t = s\<lparr>approvals := rows @ [r\<lparr>ap_task_step_id := Some (ts_id step)\<rparr>]\<rparr>"
    if rows: "approvals s = rows @ [r]" and ok: "approvals_ok (approvals s)"
  proof -
    have ids: "distinct (map ap_id (rows @ [r]))" using rows ok by (simp add: approvals_ok_def)
    then have "find_row ap_id (ap_id r) (rows @ [r]) = Some r" by (rule find_row_distinct) simp
    with assms Some rows set_last_row [OF ids, of "r\<lparr>ap_task_step_id := Some (ts_id step)\<rparr>"] show ?thesis
      by (auto simp: link_approval_def succeeds update_approval_task_step_optional_def write_approvals_def
          write_table_def Let_def split: if_splits)
  qed
  with Some show ?thesis by simp
qed (use assms in \<open>simp add: link_approval_def\<close>)

text \<open>
  C33:
  A submission records exactly what routing decided: the request is routed with the policies and
  consents of its thread, one task and one first step are appended with the status of the decision,
  and a pending approval, linked to both, is appended when the decision asks for one and only then;
  no run changes and nothing is executed.
\<close>
theorem submission_records_decision:
  assumes "submit_approval_request q s = (Inr resp, t)"
  shows "\<exists>thread tool task step. get_thread_optional (aq_thread_id q) s = Some thread \<and>
    get_tool_optional (aq_tool_id q) s = Some tool \<and> to_active tool \<and>
    tasks t = tasks s @ [task] \<and> task_steps t = task_steps s @ [step] \<and> ts_task_id step = tk_id task \<and>
    task_runs t = task_runs s \<and> tool_executions t = tool_executions s \<and>
    (let verdict = routing_verdict tool (routing_input_of q)
           (load_policy_evaluation_context (th_agent_profile_id thread) s)
     in tk_status task = task_status_for_routing_decision verdict \<and>
        ts_status step = task_step_status_for_routing_decision verdict \<and>
        (if verdict = RouteApprovalRequired
         then \<exists>r. approvals t = approvals s @ [r] \<and> ap_status r = ApprPending \<and>
           ap_task_step_id r = Some (ts_id step) \<and> tk_latest_approval_id task = Some (ap_id r)
         else approvals t = approvals s \<and> tk_latest_approval_id task = None))"
proof -
  obtain rr s1 approval s2 task s3 d ts step s4 linked s5 tid es where
    route: "route_tool_invocation (routing_input_of q) s = (Inr rr, s1)"
    and persist: "persist_approval q rr s1 = (Inr approval, s2)"
    and task: "create_task_for_governed_request (request_task_input q rr approval) s2 = (Inr task, s3)"
    and step: "create_task_step_for_governed_request (request_step_input rr approval task tid)
       (s3\<lparr>draws := d, traces := ts\<rparr>) = (Inr step, s4)"
    and link: "link_approval approval step s4 = (Inr linked, s5)"
    and t: "t = append_trace_events tid es s5"
    by (rule submit_Inr [OF assms])
  obtain thread tool where found: "get_thread_optional (aq_thread_id q) s = Some thread"
    "get_tool_optional (aq_tool_id q) s = Some tool" "to_active tool"
    and verdict: "rr_decision rr = routing_verdict tool (routing_input_of q)
      (load_policy_evaluation_context (th_agent_profile_id thread) s)"
    and s1: "only_traces s s1"
    using route_Inr [OF route] unfolding classify_verdict by (auto simp: routing_input_of_def)
  have s1: "approvals s1 = approvals s" "tasks s1 = tasks s" "task_steps s1 = task_steps s"
    "task_runs s1 = task_runs s" "tool_executions s1 = tool_executions s"
    using s1 by (auto simp: only_traces_def)
  note s2 = persist_approval_frame [OF persist] persist_approval_Inr [OF persist]
  note s3 = submitted_frame(1,2,3,4) [OF task] task_created_Inr [OF task, unfolded request_task_input_def, simplified]
  let ?u = "s3\<lparr>draws := d, traces := ts\<rparr>"
  note s4 = step_created_Inr [OF step, unfolded request_step_input_def, simplified]
    step_frame [of "request_step_input rr approval task tid" ?u, unfolded step, simplified]
  have t_frame: "approvals t = approvals s5" "tasks t = tasks s5" "task_steps t = task_steps s5"
    "task_runs t = task_runs s5" "tool_executions t = tool_executions s5"
    by (simp_all add: t frame_simps)
  show ?thesis
  proof (cases "rr_decision rr = RouteApprovalRequired")
    case True
    with s2(5) obtain r where r: "approval = Some r" "approvals s2 = approvals s @ [r]"
      "approvals_ok (approvals s2)" "ap_status r = ApprPending"
      using s1 by auto
    have "approvals s4 = approvals s @ [r]" "approvals_ok (approvals s4)" using r s3(1) s4(5) by simp_all
    with link_approval_Inr [OF link, of "approvals s"] r(1)
    have s5: "s5 = s4\<lparr>approvals := approvals s @ [r\<lparr>ap_task_step_id := Some (ts_id step)\<rparr>]\<rparr>" by simp
    show ?thesis
      using True found verdict r s5 s1 s2 s3 s4 t_frame
      by (intro exI [of _ thread] exI [of _ tool] exI [of _ task] exI [of _ step]) (simp add: Let_def)
  next
    case False
    with s2(5) have none: "approval = None" "s2 = s1" by auto
    with link_approval_Inr [OF link] have s5: "s5 = s4" by simp
    show ?thesis
      using False found verdict none s5 s1 s2 s3 s4 t_frame
      by (intro exI [of _ thread] exI [of _ tool] exI [of _ task] exI [of _ step]) (simp add: Let_def)
  qed
qed

end
