(* ===== verification/Worker_Progress.thy ===== *)
theory Worker_Progress
  imports Worker
begin

text \<open>
  The turns of the worker.  A run that waits for nothing is ticked until it is done or failed; the
  work left in the table of runs bounds the turns that takes.
\<close>

subsection \<open>Turns\<close>

fun worker_turns :: "nat \<Rightarrow> store \<Rightarrow> store" where
  "worker_turns 0 s = s"
| "worker_turns (Suc n) s = worker_turns n (snd (acquire_and_tick_one_task_run s))"

lemma worker_turns_Suc: "worker_turns (Suc n) s = worker_turns n (worker_turns 1 s)"
  by simp

abbreviation runnable :: "run_row \<Rightarrow> bool" where
  "runnable r \<equiv> tr_status r \<in> set RUNNABLE_TASK_RUN_STATUSES"

lemma runnable_iff: "runnable r \<longleftrightarrow> tr_status r = RunQueued \<or> tr_status r = RunRunning"
  by (auto simp: run_status_sets)

text \<open>Every runnable run has a readable checkpoint and waits for nothing.\<close>

definition waits_for_nothing :: "store \<Rightarrow> run_row \<Rightarrow> bool" where
  "waits_for_nothing s r \<longleftrightarrow> (\<exists>c n. checkpoint_at (tr_checkpoint r) c n False) \<and>
     (\<exists>task. get_task_optional (tr_task_id r) s = Some task \<and> pending_approval_of task s = None) \<and>
     ready_approval r s = None"

definition calm_runs :: "store \<Rightarrow> bool" where
  "calm_runs s \<longleftrightarrow> runs_ok (task_runs s) \<and>
     (\<forall>r \<in> set (task_runs s). runnable r \<longrightarrow> waits_for_nothing s r)"

text \<open>The ticks a run has left, and the turn that finds them used up.\<close>

definition run_work :: "run_row \<Rightarrow> nat" where
  "run_work r = (if runnable r then nat (tr_max_ticks r - tr_tick_count r) + 1 else 0)"

definition work_left :: "store \<Rightarrow> nat" where
  "work_left s = sum_list (map run_work (task_runs s))"

lemma sum_set_row:
  fixes w :: "'r \<Rightarrow> nat"
  assumes "distinct (map key rows)" "find_row key (key r') rows = Some r"
  shows "sum_list (map w (set_row key r' rows)) + w r = sum_list (map w rows) + w r'"
  using assms
proof (induction rows)
  case (Cons x rows)
  show ?case
  proof (cases "key x = key r'")
    case True
    with Cons.prems have "r = x" "\<forall>y \<in> set rows. key y \<noteq> key r'"
      by (force simp: find_row_def image_iff)+
    moreover from this have "map (\<lambda>y. if key y = key r' then r' else y) rows = rows"
      by (intro map_idI) simp
    ultimately show ?thesis using True by (simp add: set_row_def)
  next
    case False
    with Cons show ?thesis by (simp add: set_row_def find_row_def)
  qed
qed (simp add: find_row_def)

subsection \<open>One turn\<close>

lemma ready_frame:
  "tasks t = tasks s \<Longrightarrow> approvals t = approvals s \<Longrightarrow> tr_task_id u = tr_task_id r \<Longrightarrow>
     ready_approval u t = ready_approval r s"
  by (simp add: ready_approval_def get_task_optional_def get_approval_optional_def split: option.split)

lemma waits_frame:
  assumes "tasks t = tasks s" "approvals t = approvals s" "tr_task_id u = tr_task_id r"
    and "tr_checkpoint u = tr_checkpoint r"
  shows "waits_for_nothing t u = waits_for_nothing s r"
  using pending_frame [OF assms(1,2)] ready_frame [OF assms(1-3)] assms(3,4)
  by (simp add: waits_for_nothing_def)

lemma acquire_some:
  assumes "runs_ok (task_runs s)" "acquire_candidates s = r # rest"
  shows "acquire_next_task_run_optional s = (Inr (Some (acquired_run s r)),
      s\<lparr>reads := Suc (reads s), task_runs := set_row tr_id (acquired_run s r) (task_runs s)\<rparr>)"
    and "r \<in> set (task_runs s)" "runnable r" "runs_ok (set_row tr_id (acquired_run s r) (task_runs s))"
proof -
  have "r \<in> set (acquire_candidates s)" using assms(2) by simp
  then show mem: "r \<in> set (task_runs s)" and "runnable r"
    by (auto simp: acquire_candidates_def runnable_iff)
  have "run_check r" using assms(1) mem by (simp add: runs_ok_def)
  then have "run_check (acquired_run s r)"
    by (simp add: acquired_run_def run_check_def run_bounds_check_def)
  with assms(1) show ok: "runs_ok (set_row tr_id (acquired_run s r) (task_runs s))"
    by (rule runs_ok_set_row)
  then show "acquire_next_task_run_optional s = (Inr (Some (acquired_run s r)),
      s\<lparr>reads := Suc (reads s), task_runs := set_row tr_id (acquired_run s r) (task_runs s)\<rparr>)"
    by (simp add: acquire_next_task_run_optional_def assms(2) Let_def write_runs_def write_table_def
        put_runs_def after_reading_def)
qed

lemma acquire_none:
  "acquire_candidates s = [] \<Longrightarrow> acquire_next_task_run_optional s = (Inr None, s)"
  "acquire_candidates s = [] \<longleftrightarrow> (\<forall>r \<in> set (task_runs s). \<not> runnable r)"
proof -
  show "acquire_candidates s = [] \<Longrightarrow> acquire_next_task_run_optional s = (Inr None, s)"
    by (simp add: acquire_next_task_run_optional_def)
  have "acquire_candidates s = [] \<longleftrightarrow> set (acquire_candidates s) = {}" by simp
  then show "acquire_candidates s = [] \<longleftrightarrow> (\<forall>r \<in> set (task_runs s). \<not> runnable r)"
    by (auto simp: acquire_candidates_def runnable_iff simp del: set_empty)
qed

text \<open>A turn with work to do ticks one run: that run ends or has one tick less, the others stay.\<close>

lemma turn_ticks_one:
  assumes "calm_runs s" "acquire_candidates s = r # rest"
  obtains u where "find_row tr_id (tr_id r) (task_runs s) = Some r" "runnable r" "same_run r u"
    "task_runs (worker_turns 1 s) = set_row tr_id u (task_runs s)" "calm_runs (worker_turns 1 s)"
    "runnable u \<and> run_work u < run_work r \<or> tr_status u = RunDone \<or> tr_status u = RunFailed"
proof -
  let ?r = "acquired_run s r" and ?i = "tr_id r"
  let ?s = "s\<lparr>reads := Suc (reads s), task_runs := set_row tr_id ?r (task_runs s)\<rparr>"
  have ok: "runs_ok (task_runs s)" using assms(1) by (simp add: calm_runs_def)
  note acquired = acquire_some [OF ok assms(2)]
  have found: "find_row tr_id ?i (task_runs s) = Some r"
    using ok acquired(2) by (intro find_row_distinct) (simp_all add: runs_ok_def)
  have r: "tr_id ?r = ?i" "tr_task_id ?r = tr_task_id r" "tr_checkpoint ?r = tr_checkpoint r" "runnable ?r"
    "same_run r ?r" "tr_tick_count ?r = tr_tick_count r"
    by (simp_all add: acquired_run_def run_status_sets same_run_def)
  have "waits_for_nothing s r" using assms(1) acquired(2,3) by (simp add: calm_runs_def)
  then have waits: "waits_for_nothing ?s ?r" using waits_frame [of ?s s ?r r] r by simp
  then obtain c n where at: "checkpoint_at (tr_checkpoint ?r) c n False"
    and ready: "ready_approval ?r ?s = None" by (auto simp: waits_for_nothing_def)
  have "plain_run ?i ?s ?r c n"
    using waits at acquired(4) found r(1,4)
    by (simp add: plain_run_def waits_for_nothing_def find_row_set_row)
  from tick_plain [OF this] obtain resp s' u where
    tick: "tick_task_run_record ?i ?s = (Inr resp, s')" and same: "same_run ?r u"
    and rows: "task_runs s' = set_row tr_id u (task_runs ?s)" "runs_ok (task_runs s')"
    and frame: "tasks s' = tasks ?s" "approvals s' = approvals ?s"
    and state: "if c \<ge> n then tr_status u = RunDone
     else if tr_tick_count ?r \<ge> tr_max_ticks ?r then tr_status u = RunFailed
     else if c + 1 \<ge> n then tr_status u = RunDone
     else plain_run ?i s' u (c + 1) n \<and> tr_tick_count u = tr_tick_count ?r + 1"
    by blast
  have turn: "worker_turns 1 s = s'"
    by (simp add: acquire_and_tick_one_task_run_def acquired(1) execute_task_run_if_ready_def ready r(1) tick)
  have u: "tr_id u = ?i" "same_run r u" using same r(1,5) by (auto simp: same_run_def)
  have rows_s: "task_runs s' = set_row tr_id u (task_runs s)"
    by (auto simp: rows(1) set_row_def u(1) r(1))
  have ended: "runnable u \<and> run_work u < run_work r \<or> tr_status u = RunDone \<or> tr_status u = RunFailed"
    using state same r acquired(3)
    by (auto simp: run_work_def same_run_def plain_run_def split: if_splits)
  have "waits_for_nothing s' u" if "runnable u"
  proof -
    have plain: "plain_run ?i s' u (c + 1) n" using state that by (auto simp: run_status_sets split: if_splits)
    moreover have "ready_approval u s' = None"
      using ready_frame [of s' ?s u ?r] frame same ready by (simp add: same_run_def)
    ultimately show ?thesis by (auto simp: waits_for_nothing_def plain_run_def)
  qed
  moreover have "waits_for_nothing s' x" if "x \<in> set (task_runs s)" "runnable x" for x
    using that assms(1) waits_frame [of s' s x x] frame by (simp add: calm_runs_def)
  ultimately have "calm_runs s'"
    using rows(2) by (auto simp: calm_runs_def rows_s dest!: set_set_row)
  with turn rows_s show thesis by (intro that [OF found acquired(3) u(2) _ _ ended]) simp_all
qed

subsection \<open>The worker drains the runs\<close>

text \<open>
  C13:
  When every run that is queued or running waits for nothing (its checkpoint is regular, its task is
  there with no approval pending and no approved request to execute), the worker takes all of them to
  their end: within as many turns as they have ticks left, and one more for each of them, no run is
  queued or running any more; every run that was is done or failed, and every other run is untouched.
  The condition is on the whole table: the worker always takes the run that was updated longest
  ago, so one whose turn raises and is rolled back would keep it from the others.
\<close>
theorem worker_drains_runs:
  assumes "calm_runs s"
  shows "\<exists>k \<le> work_left s. (\<forall>r \<in> set (task_runs (worker_turns k s)). \<not> runnable r) \<and>
    (\<forall>i r. find_row tr_id i (task_runs s) = Some r \<longrightarrow>
      (\<exists>u. find_row tr_id i (task_runs (worker_turns k s)) = Some u \<and>
        (if runnable r then tr_status u = RunDone \<or> tr_status u = RunFailed else u = r)))"
  using assms
proof (induction "work_left s" arbitrary: s rule: less_induct)
  case less
  show ?case
  proof (cases "acquire_candidates s")
    case Nil
    then show ?thesis
      using acquire_none(2) [of s] by (intro exI [of _ 0]) (auto dest: find_row_Some)
  next
    case (Cons r rest)
    obtain u where u: "find_row tr_id (tr_id r) (task_runs s) = Some r" "runnable r" "same_run r u"
      "task_runs (worker_turns 1 s) = set_row tr_id u (task_runs s)" "calm_runs (worker_turns 1 s)"
      and ended: "runnable u \<and> run_work u < run_work r \<or> tr_status u = RunDone \<or> tr_status u = RunFailed"
      by (rule turn_ticks_one [OF less.prems Cons])
    let ?t = "worker_turns 1 s"
    have id: "tr_id u = tr_id r" using u(3) by (simp add: same_run_def)
    have "run_work u < run_work r" using ended u(2) by (auto simp: run_work_def run_status_sets)
    moreover have "work_left ?t + run_work r = work_left s + run_work u"
      using sum_set_row [of tr_id "task_runs s" u r run_work] u(1,4) id less.prems
      by (simp add: work_left_def calm_runs_def runs_ok_def)
    ultimately have smaller: "work_left ?t < work_left s" by simp
    from less.hyps [OF smaller u(5)] obtain k where k: "k \<le> work_left ?t"
      "\<forall>r \<in> set (task_runs (worker_turns k ?t)). \<not> runnable r"
      and rows: "\<And>i r. find_row tr_id i (task_runs ?t) = Some r \<Longrightarrow>
        \<exists>u. find_row tr_id i (task_runs (worker_turns k ?t)) = Some u \<and>
          (if runnable r then tr_status u = RunDone \<or> tr_status u = RunFailed else u = r)"
      by blast
    have "\<exists>w. find_row tr_id i (task_runs (worker_turns k ?t)) = Some w \<and>
        (if runnable x then tr_status w = RunDone \<or> tr_status w = RunFailed else w = x)"
      if x: "find_row tr_id i (task_runs s) = Some x" for i x
    proof (cases "i = tr_id r")
      case True
      with u(1,2,4) id x have "find_row tr_id i (task_runs ?t) = Some u" "x = r"
        by (simp_all add: find_row_set_row)
      with rows [of i u] ended u(2) show ?thesis by (auto split: if_splits)
    next
      case False
      with u(4) id x have "find_row tr_id i (task_runs ?t) = Some x" by (simp add: find_row_set_row)
      then show ?thesis by (rule rows)
    qed
    with k smaller show ?thesis
      by (intro exI [of _ "Suc k"]) (simp add: worker_turns_Suc)
  qed
qed

end
