(* ===== verification/Governance_Examples.thy ===== *)
theory Governance_Examples
  imports Governance_Requests Worker_Progress
begin

text \<open>
  A small store on which the properties of the governance layer are applied: one thread with one
  task, whose approval, step and run are in the states the arguments give.
\<close>

subsection \<open>The store\<close>

definition desk_thread :: thread_row where
  "desk_thread = \<lparr>th_id = 5, th_user_id = 1, th_title = ''desk'', th_agent_profile_id = ''default'',
     th_created_at = 0, th_updated_at = 0\<rparr>"

definition desk_approval :: "tool_record \<Rightarrow> approval_status \<Rightarrow> approval_row" where
  "desk_approval tool st = \<lparr>ap_id = 7, ap_user_id = 1, ap_thread_id = 5, ap_tool_id = 6,
     ap_task_run_id = Some 9, ap_task_step_id = Some 4, ap_status = st, ap_request = demo_request,
     ap_tool = tool, ap_routing = [], ap_routing_trace_id = 20, ap_created_at = 0,
     ap_resolved_at = (if st = ApprPending then None else Some 1),
     ap_resolved_by_user_id = (if st = ApprPending then None else Some 1)\<rparr>"

definition desk_task :: "tool_record \<Rightarrow> task_status \<Rightarrow> task_row" where
  "desk_task tool st = demo_task\<lparr>tk_status := st, tk_tool := tool, tk_latest_approval_id := Some 7,
     tk_latest_execution_id := (if executed_task st then Some 8 else None)\<rparr>"

definition desk_step :: "approval_status \<Rightarrow> step_status \<Rightarrow> step_row" where
  "desk_step ap st = \<lparr>ts_id = 4, ts_task_id = 3, ts_sequence_no = 1, ts_parent_step_id = None,
     ts_source_approval_id = None, ts_source_execution_id = None, ts_kind = KindGovernedRequest,
     ts_status = st, ts_request = demo_request,
     ts_outcome = task_step_outcome_snapshot RouteApprovalRequired (Some (uuid_str 7)) (Some ap) None None None,
     ts_trace_id = 20, ts_trace_kind = ''approval.request'', ts_created_at = 0, ts_updated_at = 0\<rparr>"

definition desk_budget :: budget_row where
  "desk_budget = \<lparr>bu_id = 11, bu_agent_profile_id = None, bu_tool_key = Some ''proxy.echo'',
     bu_domain_hint = None, bu_max_completed_executions = 1, bu_rolling_window_seconds = None,
     bu_status = BudgetActive, bu_deactivated_at = None, bu_superseded_by_budget_id = None,
     bu_supersedes_budget_id = None, bu_created_at = 0\<rparr>"

definition desk :: "tool_record \<Rightarrow> approval_status \<Rightarrow> task_status \<Rightarrow> step_status \<Rightarrow> run_row \<Rightarrow> store" where
  "desk tool ap tk st run = (demo_store run)\<lparr>threads := [desk_thread], agent_profiles := [''default''],
     approvals := [desk_approval tool ap], tasks := [desk_task tool tk], task_steps := [desk_step ap st],
     execution_budgets := [desk_budget]\<rparr>"

definition waiting_run :: run_row where
  "waiting_run = demo_run\<lparr>tr_status := RunWaitingApproval, tr_stop_reason := Some StopWaitingApproval\<rparr>"

definition pending_desk :: store where
  "pending_desk = desk demo_tool ApprPending TaskPendingApproval StepCreated waiting_run"

definition approved_desk :: store where
  "approved_desk = desk demo_tool ApprApproved TaskApproved StepApproved demo_run"

definition succeeded :: "(gov_error + 'a) \<times> store \<Rightarrow> bool" where
  "succeeded m = (case fst m of Inl e \<Rightarrow> False | Inr x \<Rightarrow> True)"

definition draft_tool :: tool_record where
  "draft_tool = demo_tool\<lparr>tl_tool_key := ''proxy.calendar.draft_event''\<rparr>"

definition draft_execution :: execution_row where
  "draft_execution = \<lparr>ex_id = 8, ex_approval_id = 7, ex_task_run_id = Some 9, ex_task_step_id = Some 4,
     ex_thread_id = 5, ex_tool_id = 6, ex_trace_id = 20, ex_request_event_id = Some 30,
     ex_result_event_id = Some 31, ex_status = ExecCompleted,
     ex_handler_key = Some ''proxy.calendar.draft_event'',
     ex_idempotency_key = Some (build_idempotency_key 9 7 demo_request draft_tool),
     ex_request = demo_request, ex_tool = draft_tool,
     ex_result = tool_execution_result (Some ''proxy.calendar.draft_event'') ExecCompleted (Some []) None,
     ex_executed_at = 2\<rparr>"

definition executed_desk :: store where
  "executed_desk = (desk draft_tool ApprApproved TaskExecuted StepExecuted done_run)
     \<lparr>tool_executions := [draft_execution]\<rparr>"

lemmas desk_defs = pending_desk_def approved_desk_def executed_desk_def desk_def demo_store_def
  desk_approval_def desk_task_def desk_step_def desk_thread_def desk_budget_def waiting_run_def done_run_def
  demo_run_def demo_task_def plain_env_def

lemmas table_checks = approvals_ok_def tasks_ok_def steps_ok_def runs_ok_def run_check_def run_bounds_check_def
  traces_ok_def executed_task_def executions_ok_def execution_check_def events_ok_def budgets_ok_def
  budget_rows_ok_def budget_check_def one_active_scope_def active_scope_slot_def idempotency_slot_def

lemmas desk_reads = find_row_def set_row_def get_approval_optional_def get_task_optional_def
  get_task_by_approval_optional_def get_task_step_optional_def get_task_run_optional_def
  get_thread_optional_def get_agent_profile_optional_def get_execution_budget_optional_def
  list_execution_budgets_def list_tool_executions_def list_task_steps_for_task_def

lemmas desk_writes = write_approvals_def write_tasks_def write_steps_def write_runs_def put_runs_def
  write_budgets_def write_table_def create_trace_def Let_def after_draw_def after_reading_def next_id_def
  now_reading_def

lemma desk_frames [simp]:
  "approvals (append_trace_events i es s) = approvals s"
  "tool_executions (append_trace_events i es s) = tool_executions s"
  by (simp_all add: frame_simps)

lemma draft_side_effects: "side_effects (tl_tool_key (ex_tool draft_execution))"
  by (simp add: side_effects_def handler_for_def REGISTERED_PROXY_HANDLERS_def draft_execution_def draft_tool_def)

lemma key_visible: "\<exists>c \<in> set (build_idempotency_key run a req tool). c \<noteq> CHR '' ''"
  using digest_not_blank by (simp add: build_idempotency_key_def)

lemma executed_desk_sound: "executions_sound executed_desk" "draft_execution \<in> set (tool_executions executed_desk)"
proof -
  show "draft_execution \<in> set (tool_executions executed_desk)" by (simp add: executed_desk_def)
  have "executions_ok (tool_executions executed_desk)"
    by (simp add: executed_desk_def table_checks draft_execution_def key_visible)
  moreover have "authorised_execution executed_desk draft_execution"
    by (simp add: authorised_execution_def desk_defs desk_reads draft_execution_def)
  ultimately show "executions_sound executed_desk" by (simp add: executions_sound_def executed_desk_def)
qed

subsection \<open>Invariants at work\<close>

theorem approvals_settle_once_witness:
  "\<exists>r. get_approval_optional 7 (fold govern [GovReject 7, GovApprove 7] approved_desk) = Some r \<and>
     ap_status r = ApprApproved \<and> ap_resolved_at r = Some 1"
proof -
  have "get_approval_optional 7 approved_desk = Some (desk_approval demo_tool ApprApproved)"
    by (simp add: desk_defs desk_reads)
  from approvals_settle_once [OF this, of "[GovReject 7, GovApprove 7]"] show ?thesis
    by (auto simp: approval_continues_def desk_approval_def)
qed

lemma draft_kept: "draft_execution \<in> set (tool_executions (fold govern ops executed_desk))"
  using executions_only_grow [of ops executed_desk] executed_desk_sound(2) by auto

theorem executions_stay_authorised_witness:
  "\<exists>r. get_approval_optional 7 (fold govern [GovWorker, GovReject 7] executed_desk) = Some r \<and>
     ap_status r = ApprApproved \<and> ap_tool r = draft_tool"
  using executions_stay_authorised [OF executed_desk_sound(1) draft_kept, of "[GovWorker, GovReject 7]"]
  by (auto simp: draft_execution_def)

theorem side_effects_at_most_once_witness:
  "{x \<in> set (tool_executions (fold govern [GovWorker] executed_desk)).
      ex_approval_id x = ex_approval_id draft_execution \<and> ex_task_run_id x = ex_task_run_id draft_execution} =
    {draft_execution}"
proof -
  have "x = draft_execution"
    if "x \<in> set (tool_executions (fold govern [GovWorker] executed_desk))"
      "ex_approval_id x = ex_approval_id draft_execution" "ex_task_run_id x = ex_task_run_id draft_execution" for x
    using side_effects_at_most_once [OF executed_desk_sound(1) draft_kept that(1) draft_side_effects] that by simp
  with draft_kept [of "[GovWorker]"] show ?thesis by blast
qed

theorem step_histories_stay_linear_witness: "linear_steps (fold govern [GovApprove 7, GovWorker] pending_desk)"
proof -
  have "list_task_steps_for_task i pending_desk = (if i = 3 then [desk_step ApprPending StepCreated] else [])" for i
    by (simp add: desk_defs desk_reads)
  then have "linear_steps pending_desk"
    by (simp add: linear_steps_def step_chain_def) (simp add: desk_defs)
  then show ?thesis by (rule step_histories_stay_linear)
qed

theorem governance_refines_run_machine_witness:
  "reachable_rows [waiting_run] (task_runs (fold govern [GovApprove 7, GovWorker, GovRun (OpCancel 9)] pending_desk))"
proof -
  have runs: "task_runs pending_desk = [waiting_run]" by (simp add: pending_desk_def desk_def demo_store_def)
  then have "runs_ok (task_runs pending_desk)" by (simp add: table_checks waiting_run_def demo_run_def)
  from governance_refines_run_machine [OF this, of "[GovApprove 7, GovWorker, GovRun (OpCancel 9)]"]
  show ?thesis unfolding runs by blast
qed

subsection \<open>Calls\<close>

theorem unapproved_never_executed_witness:
  "\<exists>e. fst (execute_approved_proxy_request \<lparr>xr_approval_id = 7, xr_task_run_id = None\<rparr> pending_desk) = Inl e"
proof -
  let ?q = "\<lparr>xr_approval_id = 7, xr_task_run_id = None\<rparr>"
  have "\<not> (\<exists>r. get_approval_optional (xr_approval_id ?q) pending_desk = Some r \<and> ap_status r = ApprApproved)"
    by (simp add: desk_defs desk_reads)
  from unapproved_never_executed [OF this prod.collapse [symmetric]] show ?thesis by blast
qed

theorem repeated_call_replays_witness:
  "tool_executions (snd (execute_approved_proxy_request
     \<lparr>xr_approval_id = 7, xr_task_run_id = Some 9\<rparr> executed_desk)) = [draft_execution]"
proof -
  have ids: "ex_approval_id draft_execution = 7" "ex_task_run_id draft_execution = Some 9"
    by (simp_all add: draft_execution_def)
  from repeated_call_replays [OF executed_desk_sound draft_side_effects ids(2) prod.collapse [symmetric]]
  show ?thesis by (simp add: ids executed_desk_def)
qed

lemma linked_on_desk:
  "validate_linked_task_step_for_approval 7 (Some 4) approved_desk =
     (Inr (desk_task demo_tool TaskApproved, desk_step ApprApproved StepApproved), approved_desk)"
  by (simp add: validate_linked_task_step_for_approval_def desk_reads desk_defs task_step_outcome_snapshot_def)

lemma budget_on_desk:
  "matched_budget_for demo_tool demo_request approved_desk = Some desk_budget"
  "\<not> cx_invalid (resolve_request_context demo_request approved_desk)"
  "counted_completed_execution_rows b now scope approved_desk = []"
  by (simp_all add: matched_budget_for_def matching_budget_rows_def matches_budget_def selector_matches_def
      resolve_request_context_def thread_profile_id_optional_def counted_completed_execution_rows_def
      desk_reads desk_defs demo_request_def demo_tool_def)

definition desk_call :: execution_call where
  "desk_call = \<lparr>ec_approval = desk_approval demo_tool ApprApproved, ec_step_id = 4, ec_run_id = Some 9,
     ec_key = None, ec_trace_id = 100\<rparr>"

lemma echo_handler:
  "handler_for ''proxy.echo'' = Some \<lparr>hs_handler = proxy_echo_handler, hs_side_effect_capable = False,
     hs_rollout_mode = ''internal''\<rparr>"
  by (simp add: handler_for_def REGISTERED_PROXY_HANDLERS_def)

lemma approval_on_desk: "get_approval_optional 7 approved_desk = Some (desk_approval demo_tool ApprApproved)"
  by (simp add: desk_defs desk_reads)

definition desk_trace :: "uuid \<Rightarrow> uuid \<Rightarrow> string \<Rightarrow> string \<Rightarrow> string \<Rightarrow> dict \<Rightarrow> trace_row" where
  "desk_trace u th k v st l = \<lparr>tc_id = 100, tc_user_id = u, tc_thread_id = th, tc_kind = k,
     tc_compiler_version = v, tc_status = st, tc_limits = l, tc_created_at = 0\<rparr>"

lemma trace_on_desk:
  "create_trace u th k v st l approved_desk =
     (Inr (desk_trace u th k v st l), approved_desk\<lparr>draws := 101, traces := [desk_trace u th k v st l]\<rparr>)"
  "tc_id (desk_trace u th k v st l) = 100"
  by (simp_all add: create_trace_def Let_def write_table_def traces_ok_def desk_defs after_draw_def
      next_id_def desk_trace_def)

lemma dispatch_on_desk:
  "\<exists>row. execute_approved_proxy_request \<lparr>xr_approval_id = 7, xr_task_run_id = Some 9\<rparr> approved_desk =
     dispatch_call desk_call (approved_desk\<lparr>draws := 101, traces := [row]\<rparr>)"
proof -
  have step: "ap_task_step_id (desk_approval demo_tool ApprApproved) = Some 4"
    "ts_id (desk_step ApprApproved StepApproved) = 4" "ts_task_id (desk_step ApprApproved StepApproved) = 3"
    by (simp_all add: desk_approval_def desk_step_def)
  have run: "resolve_task_run_linkage (desk_approval demo_tool ApprApproved) (desk_step ApprApproved StepApproved)
      (Some 9) approved_desk = (Inr (Some 9), approved_desk)"
    by (simp add: resolve_task_run_linkage_def or_else_def step desk_reads Let_def desk_approval_def)
      (simp add: desk_defs)
  have key: "idempotency_key_for (desk_approval demo_tool ApprApproved) (Some 9) s = (Inr None, s)" for s
    by (simp add: idempotency_key_for_def side_effects_def echo_handler desk_approval_def demo_tool_def)
  show ?thesis
    unfolding execute_approved_proxy_request_def desk_call_def
    by (simp add: approval_on_desk step linked_on_desk run key trace_on_desk) (rule exI, rule refl)
qed

lemma call_on_desk:
  "call_tool desk_call = demo_tool" "call_request desk_call = demo_request" "tl_tool_key demo_tool = ''proxy.echo''"
  "ap_status (ec_approval desk_call) = ApprApproved" "existing_execution desk_call s = None"
  by (simp_all add: call_tool_def call_request_def desk_call_def desk_approval_def demo_tool_def
      existing_execution_def)

lemma budget_clears_desk: "snd (fst (evaluate_execution_budget demo_tool demo_request approved_desk)) = None"
  by (simp add: evaluate_execution_budget_def budget_on_desk Let_def) (simp add: desk_budget_def)

lemma dispatch_runs_handler:
  "\<exists>d spec. dispatch_call desk_call (approved_desk\<lparr>draws := 101, traces := [row]\<rparr>) =
     run_handler desk_call d spec (approved_desk\<lparr>draws := 101, traces := [row], reads := 1\<rparr>) \<and>
     hs_handler spec = proxy_echo_handler"
proof -
  let ?s = "approved_desk\<lparr>draws := 101, traces := [row]\<rparr>"
  have "?s = approved_desk\<lparr>draws := 101, traces := [row], approvals := approvals approved_desk\<rparr>" by simp
  then have "opening_le approved_desk ?s" unfolding opening_le_def by blast
  note eval = opening_budget [OF this, of demo_tool demo_request]
  obtain d where d: "fst (evaluate_execution_budget demo_tool demo_request approved_desk) = (d, None)"
    using budget_clears_desk by (metis prod.collapse)
  have "after_reading ?s = approved_desk\<lparr>draws := 101, traces := [row], reads := 1\<rparr>"
    by (simp add: after_reading_def desk_defs)
  with eval d show ?thesis
    by (simp add: dispatch_call_def call_on_desk echo_handler) (intro exI conjI, rule refl, simp)
qed

lemma persisted_stays:
  assumes "persist_tool_execution c k result qe re s = (Inr x, t)"
  shows "x \<in> set (tool_executions (snd (and_then (settle_execution c x es t) (\<lambda>all s. (f all, s)))))"
proof -
  have "tool_executions t = tool_executions s @ [x]"
    using assms by (auto simp: persist_tool_execution_def statement_defs split: if_splits)
  moreover have "adds_only (\<lambda>_. True) t (snd (and_then (settle_execution c x es t) (\<lambda>all s. (f all, s))))"
    by (intro adds_blind.le_and_then adds.le_settle adds_blind.le_same)
  ultimately show ?thesis by (auto simp: adds_only_def)
qed

definition desk_event :: "nat \<Rightarrow> string \<Rightarrow> dict \<Rightarrow> event_row" where
  "desk_event n k p = \<lparr>ev_id = of_nat (100 + n), ev_user_id = 1, ev_thread_id = 5, ev_session_id = None,
     ev_sequence_no = n, ev_kind = k, ev_payload = p, ev_created_at = 0\<rparr>"

definition busy_desk :: "nat \<Rightarrow> trace_row \<Rightarrow> event_row list \<Rightarrow> store" where
  "busy_desk n row evs = approved_desk\<lparr>draws := n, traces := [row], reads := 1, events := evs\<rparr>"

lemma events_on_desk:
  "append_event 5 None k p (busy_desk 101 row []) = (Inr (desk_event 1 k p), busy_desk 102 row [desk_event 1 k p])"
  "append_event 5 None k' p' (busy_desk 102 row [desk_event 1 k p]) =
     (Inr (desk_event 2 k' p'), busy_desk 103 row [desk_event 1 k p, desk_event 2 k' p'])"
  by (simp_all add: append_event_def Let_def write_table_def events_ok_def busy_desk_def desk_defs
      after_draw_def next_id_def desk_event_def next_event_sequence_def)

lemma echo_completes:
  "hr_status (proxy_echo_handler req tool) = ExecCompleted" "hr_output (proxy_echo_handler req tool) \<noteq> None"
  by (simp_all add: proxy_echo_handler_def completed_result_def)

definition desk_execution :: "string option \<Rightarrow> exec_result \<Rightarrow> uuid option \<Rightarrow> uuid option \<Rightarrow> execution_row" where
  "desk_execution k result qe re = \<lparr>ex_id = 103, ex_approval_id = 7, ex_task_run_id = Some 9,
     ex_task_step_id = Some 4, ex_thread_id = 5, ex_tool_id = 6, ex_trace_id = 100,
     ex_request_event_id = qe, ex_result_event_id = re, ex_status = er_status result, ex_handler_key = k,
     ex_idempotency_key = None, ex_request = demo_request, ex_tool = demo_tool, ex_result = result,
     ex_executed_at = 1\<rparr>"

lemma execution_persists_on_desk:
  assumes "er_status result = ExecCompleted"
  shows "persist_tool_execution desk_call (Some k) result (Some a) (Some b) (busy_desk 103 row evs) =
    (Inr (desk_execution (Some k) result (Some a) (Some b)),
     (busy_desk 104 row evs)\<lparr>reads := 2, tool_executions := [desk_execution (Some k) result (Some a) (Some b)]\<rparr>)"
  using assms
  by (simp add: persist_tool_execution_def Let_def create_tool_execution_def write_table_def busy_desk_def
      desk_defs after_draw_def after_reading_def next_id_def now_reading_def new_execution_def table_checks
      desk_execution_def desk_call_def call_request_def call_tool_def)

lemma handled_on_desk:
  assumes "hs_handler spec = proxy_echo_handler"
  shows "\<exists>x \<in> set (tool_executions (snd (run_handler desk_call d spec (busy_desk 101 row [])))).
     ex_status x = ExecCompleted \<and> ex_tool x = demo_tool \<and> ex_request x = demo_request"
proof -
  have thread: "ap_thread_id (ec_approval desk_call) = 5" by (simp add: desk_call_def desk_approval_def)
  have result: "er_status (tool_execution_result k ExecCompleted out r) = ExecCompleted" for k out r
    by (simp add: tool_execution_result_def)
  note persists = execution_persists_on_desk [OF result]
  show ?thesis
    unfolding run_handler_def Let_def assms thread events_on_desk and_then_Inr
    by (simp only: echo_completes not_True_eq_False simp_thms raise_when_simps and_then_Inr events_on_desk persists)
      (rule bexI [OF _ persisted_stays [OF persists]], simp add: desk_execution_def tool_execution_result_def)
qed

lemma execution_on_desk:
  "\<exists>x \<in> set (tool_executions (snd (execute_approved_proxy_request
     \<lparr>xr_approval_id = 7, xr_task_run_id = Some 9\<rparr> approved_desk))).
     ex_status x = ExecCompleted \<and> ex_tool x = demo_tool \<and> ex_request x = demo_request"
proof -
  obtain row where row: "execute_approved_proxy_request \<lparr>xr_approval_id = 7, xr_task_run_id = Some 9\<rparr>
      approved_desk = dispatch_call desk_call (approved_desk\<lparr>draws := 101, traces := [row]\<rparr>)"
    using dispatch_on_desk by blast
  obtain d spec where run: "dispatch_call desk_call (approved_desk\<lparr>draws := 101, traces := [row]\<rparr>) =
      run_handler desk_call d spec (approved_desk\<lparr>draws := 101, traces := [row], reads := 1\<rparr>)"
    and spec: "hs_handler spec = proxy_echo_handler"
    using dispatch_runs_handler by blast
  have "approved_desk\<lparr>draws := 101, traces := [row], reads := 1\<rparr> = busy_desk 101 row []"
    by (simp add: busy_desk_def desk_defs)
  with handled_on_desk [OF spec] show ?thesis unfolding row run by simp
qed

theorem completed_within_budget_witness:
  "\<exists>(x :: execution_row) b. ex_status x = ExecCompleted \<and> matched_budget_for (ex_tool x) (ex_request x) approved_desk = Some b \<and>
     int (length (counted_completed_execution_rows b (now_reading approved_desk)
       (count_profile_scope_id b
         (cx_active_thread_profile_id (resolve_request_context (ex_request x) approved_desk))) approved_desk)) + 1
     \<le> bu_max_completed_executions b"
proof -
  let ?m = "execute_approved_proxy_request \<lparr>xr_approval_id = 7, xr_task_run_id = Some 9\<rparr> approved_desk"
  obtain x where x: "x \<in> set (tool_executions (snd ?m))" "ex_status x = ExecCompleted"
    "ex_tool x = demo_tool" "ex_request x = demo_request"
    using execution_on_desk by blast
  have "x \<notin> set (tool_executions approved_desk)" by (simp add: desk_defs)
  note bound = completed_within_budget [OF prod.collapse [symmetric] x(1) this x(2), THEN conjunct2, rule_format]
  have "matched_budget_for (ex_tool x) (ex_request x) approved_desk = Some desk_budget"
    by (simp add: x budget_on_desk)
  with bound [OF this] x(2) show ?thesis by blast
qed

lemma supersede_on_desk:
  "succeeded (supersede_execution_budget_record
     \<lparr>bsi_thread_id = 5, bsi_execution_budget_id = 11, bsi_max_completed_executions = 4\<rparr> approved_desk)"
  by (simp add: succeeded_def supersede_execution_budget_record_def validate_lifecycle_thread_def
      get_execution_budget_or_raise_def active_budget_rows_for_scope_def desk_defs desk_reads desk_writes
      in_savepoint_def swap_budgets_def supersede_execution_budget_optional_def create_execution_budget_def
      new_budget_def table_checks record_lifecycle_trace_def)

theorem supersede_is_atomic_witness:
  "\<exists>t old new. budget_swapped
     \<lparr>bsi_thread_id = 5, bsi_execution_budget_id = 11, bsi_max_completed_executions = 4\<rparr> old new approved_desk t"
proof -
  let ?q = "\<lparr>bsi_thread_id = 5, bsi_execution_budget_id = 11, bsi_max_completed_executions = 4\<rparr>"
  obtain resp t where "supersede_execution_budget_record ?q approved_desk = (Inr resp, t)"
    using supersede_on_desk by (auto simp: succeeded_def split: sum.splits)
      (metis prod.collapse)
  from supersede_is_atomic [OF this] show ?thesis by blast
qed

lemma resolution_on_desk: "succeeded (approve_approval_record 7 pending_desk)"
  by (simp add: succeeded_def approve_approval_record_def resolve_approval_def desk_defs desk_reads desk_writes
      validate_linked_task_step_for_approval_def task_step_outcome_snapshot_def settle_approval_def
      resolve_approval_optional_def resolved_approval_def table_checks
      sync_task_with_approval_def update_task_status_by_approval_optional_def
      next_task_status_for_approval_def sync_task_step_with_approval_def update_task_step_optional_def
      updated_step_def next_task_step_status_for_approval_def
      resume_task_run_after_resolution_def update_task_run_optional_def
      updated_run_def resolution_values_def)

theorem resolution_carries_over_witness:
  "\<exists>resp t run. resolve_approval 7 ActApprove ApprApproved pending_desk = (Inr resp, t) \<and>
     get_task_run_optional 9 t = Some run \<and> tr_status run = RunQueued"
proof -
  obtain resp t where m: "resolve_approval 7 ActApprove ApprApproved pending_desk = (Inr resp, t)"
    using resolution_on_desk
    by (cases "approve_approval_record 7 pending_desk")
      (auto simp: succeeded_def approve_approval_record_def split: sum.splits)
  have "get_approval_optional 7 pending_desk = Some (desk_approval demo_tool ApprPending)"
    "ap_task_run_id (desk_approval demo_tool ApprPending) = Some 9"
    "get_task_run_optional 9 pending_desk = Some waiting_run" "tr_status waiting_run = RunWaitingApproval"
    by (simp_all add: desk_defs desk_reads)
  with resolution_carries_over [OF m] m show ?thesis by auto
qed

lemma transition_on_desk:
  "succeeded (transition_task_step_record \<lparr>ti_task_step_id = 4, ti_status = StepApproved,
     ti_outcome = task_step_outcome_snapshot RouteApprovalRequired None None None None None\<rparr> pending_desk)"
  by (simp add: succeeded_def transition_task_step_record_def transition_allowed_def transition_links_def
      validated_optional_approval_id_def validated_optional_execution_id_def resolved_reference_def
      task_step_outcome_snapshot_def desk_defs desk_reads desk_writes table_checks
      update_task_step_for_task_sequence_optional_def updated_step_def sync_task_with_task_step_status_def
      update_task_status_optional_def)

theorem transition_follows_graph_witness:
  "\<exists>resp t step. transition_task_step_record \<lparr>ti_task_step_id = 4, ti_status = StepApproved,
     ti_outcome = task_step_outcome_snapshot RouteApprovalRequired None None None None None\<rparr> pending_desk =
       (Inr resp, t) \<and> get_task_step_optional 4 t = Some step \<and> ts_status step = StepApproved"
proof -
  let ?m = "transition_task_step_record \<lparr>ti_task_step_id = 4, ti_status = StepApproved,
     ti_outcome = task_step_outcome_snapshot RouteApprovalRequired None None None None None\<rparr> pending_desk"
  obtain resp t where m: "?m = (Inr resp, t)"
    using transition_on_desk by (cases ?m) (auto simp: succeeded_def split: sum.splits)
  have "steps_ok (task_steps pending_desk)" by (simp add: desk_defs table_checks)
  from transition_follows_graph [OF m this] m show ?thesis by auto
qed

subsection \<open>Submission and worker\<close>

definition demo_submission :: approval_request_input where
  "demo_submission = \<lparr>aq_thread_id = 5, aq_tool_id = 6, aq_action = ''run'', aq_scope = ''local'',
     aq_task_run_id = None, aq_domain_hint = None, aq_risk_hint = None, aq_attributes = []\<rparr>"

lemma routing_store_fields:
  "threads demo_routing_store = [demo_thread]" "tools demo_routing_store = [demo_tool_row]"
  "tasks demo_routing_store = []" "task_steps demo_routing_store = []" "traces demo_routing_store = []"
  "draws demo_routing_store = 100" "fresh_id (environment demo_routing_store) = of_nat"
  "th_id demo_thread = 5" "to_id demo_tool_row = 6" "to_active demo_tool_row"
  by (simp_all add: demo_routing)

lemma demo_request_ids: "aq_thread_id demo_submission = 5" "aq_tool_id demo_submission = 6"
  by (simp_all add: demo_submission_def)

lemma routing_events_frame:
  "threads (append_trace_events i es s) = threads s" "tasks (append_trace_events i es s) = tasks s"
  "task_steps (append_trace_events i es s) = task_steps s" "traces (append_trace_events i es s) = traces s"
  "draws (append_trace_events i es s) = draws s"
  "environment (append_trace_events i es s) = environment s"
  using trace_events_only [of i es s] by auto

lemma submission_on_desk: "succeeded (submit_approval_request demo_submission demo_routing_store)"
proof -
  have routed: "routing_input_of demo_submission = demo_routing_input"
    by (simp add: routing_input_of_def demo_submission_def demo_routing_input_def)
  show ?thesis
    by (simp add: succeeded_def submit_approval_request_def routed route_tool_invocation_def active_tool_def
        get_tool_optional_def get_thread_optional_def find_row_def classify_verdict demo_routing_verdict demo_ids
        desk_writes traces_ok_def tasks_ok_def steps_ok_def routing_store_fields persist_approval_def
        create_task_for_governed_request_def create_task_def new_task_def request_task_input_def
        create_task_step_for_governed_request_def create_task_step_def new_step_def request_step_input_def
        link_approval_def DEFAULT_TASK_STEP_SEQUENCE_NO_def executed_task_def demo_request_ids routing_events_frame)
qed

theorem submission_records_decision_witness:
  "\<exists>resp t task. submit_approval_request demo_submission demo_routing_store = (Inr resp, t) \<and>
     tasks t = [task] \<and> tk_status task = TaskApproved \<and> approvals t = []"
proof -
  obtain resp t where m: "submit_approval_request demo_submission demo_routing_store = (Inr resp, t)"
    using submission_on_desk
    by (cases "submit_approval_request demo_submission demo_routing_store") (auto simp: succeeded_def split: sum.splits)
  have routed: "routing_input_of demo_submission = demo_routing_input"
    "aq_thread_id demo_submission = 5" "aq_tool_id demo_submission = 6"
    by (simp_all add: routing_input_of_def demo_submission_def demo_routing_input_def)
  have "approvals demo_routing_store = []" by (simp add: demo_routing)
  with submission_records_decision [OF m] show ?thesis
    by (auto simp: routed demo_find_routing demo_ids demo_routing_verdict routing_store_fields m Let_def)
qed

theorem worker_drains_runs_witness:
  "\<exists>k u. find_row tr_id 9 (task_runs (worker_turns k (demo_store demo_run))) = Some u \<and>
     (tr_status u = RunDone \<or> tr_status u = RunFailed)"
proof -
  have "ready_approval demo_run (demo_store demo_run) = None"
    by (simp add: ready_approval_def desk_reads demo_store_def demo_run_def demo_task_def)
  then have "calm_runs (demo_store demo_run)"
    using demo_plain by (auto simp: calm_runs_def waits_for_nothing_def plain_run_def demo_store_def)
  moreover have "runnable demo_run" by (simp add: demo_run_def run_status_sets)
  ultimately show ?thesis using worker_drains_runs [of "demo_store demo_run"] demo_found(1) by fastforce
qed

end
