(* ===== verification/Spec2Isabelle.thy ===== *)
theory Spec2Isabelle
  imports Memory_Outcomes Memory_Denials Memory_Reach Governance_Examples
begin

text \<open>
  Alice keeps memories and governed tool executions for agents.  This library models two parts of
  the program (the package \<open>apps/api/src/alicebot_api\<close> and the worker in \<open>workers/alicebot_worker\<close>):
  which agent may write what into memory and how a memory is retired, and the governance layer
  through which a tool is requested, approved, executed once and accounted for.

  Shared ground.  \<open>Prelude\<close> and \<open>Json\<close> hold the Python values and text functions the code uses;
  an operation that may raise returns a sum, the exception on the left.  Texts are byte lists in
  UTF-8.

  Memory.  \<open>Lifecycle\<close> is \<open>vnext_lifecycle.py\<close>: the table of status transitions and the walk along
  \<open>superseded_by\<close> pointers.  \<open>Project_Scope\<close> is \<open>vnext_project_scope.py\<close>, \<open>Promotion\<close> is
  \<open>vnext_promotion_policy.py\<close>, \<open>Agent_Control\<close> is \<open>vnext_agent_control.py\<close> and uses both.
  \<open>Memory_Commit_Policy\<close> is the first half of \<open>vnext_memory_commit.py\<close>: the commit request and its
  parser, the credential guard over its texts and the gate that picks the write mode.
  \<open>Squeezed_Text\<close> shows what the white-space normalisation of its texts leaves.
  \<open>Iso_Time\<close> is what the code uses of the standard library's calendar and ISO texts;
  \<open>Memory_Validity\<close> how the end of a validity window is read and closed, with the event times of
  \<open>vnext_currency.py\<close> and \<open>vnext_temporal_query.py\<close>.  \<open>Memory_Supersession\<close> is the retirement of a
  memory in \<open>vnext_memory_commit.py\<close> over the rows, revisions and events of \<open>vnext_stores/postgres\<close>.  The locale \<open>supersession_rows\<close> states what a store
  of rows must provide for the guard to keep the pointers acyclic; it is interpreted on the rows of
  \<open>Memory_Supersession\<close>.  The walk is bounded by \<open>swc_max_depth\<close>, 64 as in the code, and fails closed
  beyond it.

  The memory service.  \<open>Memory_Store\<close> is the store of one user, a record of rows, revisions, events,
  agents, sources and provenance links with the clock and the fresh identifiers, and the statements of
  \<open>vnext_stores/postgres\<close> on them; \<open>Uuid\<close> the texts of identifiers.  \<open>Memory_Service\<close> has what the
  commands of \<open>VNextMemoryCommitService\<close> share: the policy check with its events, the refresh of derived
  data.  \<open>Memory_Commands\<close> is confirm, undo, correct, forget, expire and unexpire,
  \<open>Memory_Consolidation\<close> the acceptance of a consolidation, \<open>Memory_Commit\<close> the commit, \<open>Memory_Audit\<close>
  the audit, the listings and the quarantine.  A command takes a store and returns a result and a
  store; on a raise the store is the one at the raise, and the caller may roll it back.

  \<open>Memory_History\<close> makes every command a \<open>memory_command\<close> and \<open>command_step\<close> one run of a command or of
  a command beside others: a commit names the commands that other transactions ran between its lookup
  of the key and its insertion (its argument \<open>race\<close>), which is where it sees their rows.  What every
  history keeps is stated by interpreting the interfaces of \<open>Memory_Invariants\<close>: a relation between
  two stores that allows the statements which only record something (\<open>record_relation\<close>), those that
  refresh derived data (\<open>store_relation\<close>), the creation of a row without pointers (\<open>creation_relation\<close>)
  and every update (\<open>write_relation\<close>) allows the commands built from them.  \<open>Memory_Log\<close> interprets
  it for the tables that only grow, the numbers of revisions and the rows that are never lost;
  \<open>Memory_Safety\<close> for the acyclic pointers and the frozen retired rows, whose updates need the copies
  that a command has read to be current, which \<open>Memory_Guarded\<close> carries through each command.
  \<open>Memory_Denials\<close> shows that a denial precedes every write and what restricted agents cannot change;
  \<open>Memory_Trail\<close> that a change of content leaves a revision; \<open>Memory_Reach\<close> what the audit and the
  quarantine can reach; \<open>Memory_Outcomes\<close> what two commands achieve together: a commit and its
  repetition, a confirmation and its repetition, an expiry and its reversal.

  Governance.  \<open>Gov_Types\<close> has the vocabularies of \<open>_contracts\<close> as datatypes and the rows of
  \<open>store.py\<close> as records; \<open>Gov_Store\<close> the state, a record of the tables of one user with the readings
  of the clock and the fresh identifiers drawn so far; \<open>Gov_Tables\<close> the statements of
  \<open>legacy_store\<close> with the checks and unique indexes of the migrations.  Each further theory is one
  module with the same name: \<open>Policy_Engine\<close> (\<open>policy.py\<close>), \<open>Tool_Routing\<close> (\<open>tools.py\<close>), \<open>Task_Runs\<close>,
  \<open>Tasks\<close>, \<open>Approvals\<close>, \<open>Execution_Budgets\<close>, \<open>Proxy_Execution\<close> (with \<open>executions.py\<close>; the canonical
  JSON and SHA-256 of its idempotency key are in \<open>Canonical_Json\<close>) and \<open>Worker\<close>.  Operations take a
  store and return a result and a store.  A write that violates a constraint of its table returns
  an \<open>IntegrityError\<close> and leaves the table; an operation that raises keeps, in the model, what it wrote
  before (the transaction around a request is outside the modelled code), except inside the savepoint
  of a budget replacement, which is written out.

  The layer as a system.  \<open>Governance\<close> makes every operation a \<open>gov_op\<close> and a history a list of
  them.  \<open>constrained_table\<close> is the interface of a table; \<open>store_order\<close>, \<open>synced_order\<close> and
  \<open>governed_order\<close> are the interfaces of a relation between two stores: which single statements it
  must allow so that every operation, and every history, stays in it.  \<open>run_blind_order\<close> is the part
  of it for relations that do not look at runs.  They are interpreted for the life of an approval,
  the authorisation of executions, the order of steps (\<open>Governance_Invariants\<close>) and the machine of
  runs \<open>run_edge\<close> (\<open>Governance_Runs\<close>).  \<open>Governance_Contracts\<close> and \<open>Governance_Requests\<close> state what
  single calls promise; \<open>Worker_Progress\<close> that repeated turns of the worker end every run that waits
  for nothing, within the sum of the ticks those runs have left and one turn for each;
  \<open>Governance_Examples\<close> applies the properties to a small store.

  Parameters.  The verdicts of the regular expressions and of the Unicode normaliser in the promotion
  policy, the match of the
  expression for decorated dates, the readings of the clock, the drawn identifiers and
  the collation of text columns are arguments of the model; a session runs in UTC.

  Not modelled.  Foreign keys other than that of a provenance link to its source, the checks of
  vocabulary columns in the memory tables, 32-bit ranges of integer columns, the underscore forms
  \<open>int\<close> accepts inside a uuid, advisory locks and the interleaving of transactions other than beside a
  commit, fallbacks of the code for test doubles (\<open>hasattr\<close>, \<open>TypeError\<close>), event hashes and the
  redaction triggers.  Embeddings, fact keys and entity links are recorded as requests to the services
  that compute them; what those write is left out.  Retrieval and ranking (floating-point scores), connectors,
  model calls, HTTP and command line transport, the first-generation continuity and memory modules.
\<close>

end
